(* ===== verification/Prelude.thy ===== *)
theory Prelude
  imports Complex_Main "HOL-Library.Char_ord" "HOL-Library.List_Lexorder"
begin

text \<open>
  What every component of the development shares: the named collections of facts, the reading of
  JavaScript values (JSON trees, numbers, strings) and of the Node \<open>path\<close> functions that the source
  calls, and generic lemmas on lists and sums.

  Strings are lists of characters, one character for one UTF-16 code unit below 256; \<open><\<close> on strings
  is the lexicographic order of code units, as in JavaScript, and coincides with the byte order
  of the UTF-8 encodings. Numbers are rationals: JSON carries no NaN and no infinity, and a number
  that is not an integer is only ever tested and refused by the code modelled here.
\<close>

section \<open>Collections of facts\<close>

named_theorems guard_defs "the boolean guards of the code, unfolded by the proofs about them"
named_theorems store_simps "how reads see the writes of a store"
named_theorems step_defs "the definitions of single operations, unfolded to case-split them"

section \<open>JSON values\<close>

datatype json =
    JNull
  | JBool bool
  | JNum rat
  | JStr string
  | JArr "json list"
  | JObj "(string \<times> json) list"

text \<open>A property read: \<open>None\<close> is \<open>undefined\<close>. A later duplicate key would win in \<open>JSON.parse\<close>;
  the lists of the model have distinct keys.\<close>

fun jget :: "json \<Rightarrow> string \<Rightarrow> json option" where
  "jget (JObj kvs) k = map_of kvs k"
| "jget _ k = None"

definition jkeys :: "json \<Rightarrow> string list" where
  "jkeys v = (case v of JObj kvs \<Rightarrow> map fst kvs | _ \<Rightarrow> [])"

definition is_object :: "json \<Rightarrow> bool" where
  "is_object v = (case v of JObj _ \<Rightarrow> True | _ \<Rightarrow> False)"

definition js_is_integer :: "rat \<Rightarrow> bool" where
  "js_is_integer x \<longleftrightarrow> of_int \<lfloor>x\<rfloor> = x"

definition js_max_safe_integer :: int where
  "js_max_safe_integer = 9007199254740991"

definition js_is_safe_integer :: "rat \<Rightarrow> bool" where
  "js_is_safe_integer x \<longleftrightarrow> js_is_integer x \<and> \<bar>\<lfloor>x\<rfloor>\<bar> \<le> js_max_safe_integer"

lemma js_is_integer_of_int [simp]: "js_is_integer (of_int i)"
  by (simp add: js_is_integer_def)

lemma js_is_integer_of_nat [simp]: "js_is_integer (of_nat n)"
  using js_is_integer_of_int[of "int n"] by simp

lemma js_is_integer_numeral [simp]: "js_is_integer (numeral n)"
  by (simp add: js_is_integer_def)

section \<open>Characters and strings\<close>

definition js_space :: "char \<Rightarrow> bool" where
  "js_space c \<longleftrightarrow> of_char c \<in> {9, 10, 11, 12, 13, 32, 160 :: nat}"

definition js_trim :: "string \<Rightarrow> string" where
  "js_trim s = rev (dropWhile js_space (rev (dropWhile js_space s)))"

definition blank :: "string \<Rightarrow> bool" where
  "blank s \<longleftrightarrow> js_trim s = []"

definition is_digit :: "char \<Rightarrow> bool" where
  "is_digit c \<longleftrightarrow> 48 \<le> (of_char c :: nat) \<and> (of_char c :: nat) \<le> 57"

definition is_upper :: "char \<Rightarrow> bool" where
  "is_upper c \<longleftrightarrow> 65 \<le> (of_char c :: nat) \<and> (of_char c :: nat) \<le> 90"

definition is_lower :: "char \<Rightarrow> bool" where
  "is_lower c \<longleftrightarrow> 97 \<le> (of_char c :: nat) \<and> (of_char c :: nat) \<le> 122"

definition is_alnum :: "char \<Rightarrow> bool" where
  "is_alnum c \<longleftrightarrow> is_digit c \<or> is_upper c \<or> is_lower c"

definition is_hex_lower :: "char \<Rightarrow> bool" where
  "is_hex_lower c \<longleftrightarrow> is_digit c \<or> 97 \<le> (of_char c :: nat) \<and> (of_char c :: nat) \<le> 102"

text \<open>The regular expression \<open>^[0-9a-f]{n}$\<close>.\<close>

definition hex_string :: "nat \<Rightarrow> string \<Rightarrow> bool" where
  "hex_string n s \<longleftrightarrow> length s = n \<and> list_all is_hex_lower s"

abbreviation sha256_hex :: "string \<Rightarrow> bool" where
  "sha256_hex s \<equiv> hex_string 64 s"

text \<open>\<open>Buffer.byteLength(s, "utf8")\<close> for code units below 256.\<close>

definition utf8_length :: "string \<Rightarrow> nat" where
  "utf8_length s = sum_list (map (\<lambda>c. if (of_char c :: nat) < 128 then 1 else 2) s)"

definition starts_with :: "string \<Rightarrow> string \<Rightarrow> bool" where
  "starts_with p s \<longleftrightarrow> take (length p) s = p"

definition ends_with :: "string \<Rightarrow> string \<Rightarrow> bool" where
  "ends_with p s \<longleftrightarrow> starts_with (rev p) (rev s)"

definition ascii_lower :: "char \<Rightarrow> char" where
  "ascii_lower c = (if is_upper c then char_of (of_char c + 32 :: nat) else c)"

definition starts_with_ci :: "string \<Rightarrow> string \<Rightarrow> bool" where
  "starts_with_ci p s \<longleftrightarrow> map ascii_lower (take (length p) s) = p"

definition word_char :: "char \<Rightarrow> bool" where
  "word_char c \<longleftrightarrow> is_alnum c \<or> c = CHR ''_''"

lemma starts_with_iff: "starts_with p s \<longleftrightarrow> (\<exists>t. s = p @ t)"
  by (auto simp: starts_with_def) (metis append_take_drop_id)

lemma starts_with_refl [simp]: "starts_with p p"
  by (simp add: starts_with_def)

lemma starts_with_append [simp]: "starts_with p (p @ t)"
  by (simp add: starts_with_def)

lemma starts_with_trans: "starts_with p q \<Longrightarrow> starts_with q r \<Longrightarrow> starts_with p r"
  by (auto simp: starts_with_iff)

lemma dropWhile_rev_dropWhile:
  "dropWhile P (rev (dropWhile P (rev (dropWhile P xs)))) = rev (dropWhile P (rev (dropWhile P xs)))"
proof (cases "dropWhile P xs")
  case Nil
  then show ?thesis by (simp only: rev.simps dropWhile.simps)
next
  case (Cons y ys)
  then have "\<not> P y" by (meson dropWhile_eq_Cons_conv)
  then have "dropWhile P (rev ys @ [y]) = dropWhile P (rev ys) @ [y]"
    by (induction "rev ys" arbitrary: ys) (auto simp: dropWhile_append)
  with Cons \<open>\<not> P y\<close> show ?thesis by simp
qed

lemma js_trim_idem [simp]: "js_trim (js_trim s) = js_trim s"
  unfolding js_trim_def by (simp add: dropWhile_rev_dropWhile)

lemma blank_trim [simp]: "blank (js_trim s) = blank s"
  by (simp add: blank_def)

lemma not_blank_trim: "\<not> blank s \<Longrightarrow> js_trim s \<noteq> []"
  by (simp add: blank_def)

section \<open>Sums as results, options as optional fields\<close>

definition is_ok :: "'e + 'a \<Rightarrow> bool" where
  "is_ok r = (case r of Inl _ \<Rightarrow> False | Inr _ \<Rightarrow> True)"

lemma is_ok_simps [simp]: "\<not> is_ok (Inl e)" "is_ok (Inr a)"
  by (simp_all add: is_ok_def)

fun bind_result :: "'e + 'a \<Rightarrow> ('a \<Rightarrow> 'e + 'b) \<Rightarrow> 'e + 'b" where
  "bind_result (Inl e) f = Inl e"
| "bind_result (Inr a) f = f a"

lemma bind_result_Inr_iff:
  "bind_result r f = Inr b \<longleftrightarrow> (\<exists>a. r = Inr a \<and> f a = Inr b)"
  by (cases r) auto

lemma bind_result_Inl_iff:
  "bind_result r f = Inl e \<longleftrightarrow> r = Inl e \<or> (\<exists>a. r = Inr a \<and> f a = Inl e)"
  by (cases r) auto

lemma map_sum_id_iff [simp]:
  "map_sum id f r = Inr b \<longleftrightarrow> (\<exists>a. r = Inr a \<and> b = f a)"
  "map_sum id f r = Inl e \<longleftrightarrow> r = Inl e"
  by (cases r; auto)+

definition ensure :: "bool \<Rightarrow> 'e \<Rightarrow> 'e + 'a \<Rightarrow> 'e + 'a" where
  "ensure c e k = (if c then k else Inl e)"

lemma ensure_Inr_iff: "ensure c e k = Inr a \<longleftrightarrow> c \<and> k = Inr a"
  by (simp add: ensure_def)

text \<open>The nullish default \<open>x ?? d\<close> on an optional field.\<close>

definition nullish :: "'a option \<Rightarrow> 'a \<Rightarrow> 'a" where
  "nullish x d = (case x of None \<Rightarrow> d | Some a \<Rightarrow> a)"

lemma nullish_simps [simp]: "nullish None d = d" "nullish (Some a) d = a"
  by (simp_all add: nullish_def)

section \<open>POSIX paths\<close>

text \<open>\<open>path.isAbsolute\<close>, \<open>path.resolve\<close> on an absolute path, \<open>path.join\<close> of a directory and one
  name, and \<open>path.dirname\<close> of an absolute path, as \<open>node:path\<close> does them on POSIX.\<close>

abbreviation slash :: char where
  "slash \<equiv> CHR ''/''"

definition is_absolute :: "string \<Rightarrow> bool" where
  "is_absolute p \<longleftrightarrow> p \<noteq> [] \<and> hd p = slash"

fun split_slash :: "string \<Rightarrow> string list" where
  "split_slash [] = [[]]"
| "split_slash (c # cs) =
     (if c = slash then [] # split_slash cs
      else (case split_slash cs of [] \<Rightarrow> [[c]] | w # ws \<Rightarrow> (c # w) # ws))"

fun resolve_segments :: "string list \<Rightarrow> string list \<Rightarrow> string list" where
  "resolve_segments acc [] = rev acc"
| "resolve_segments acc (w # ws) =
     (if w = [] \<or> w = ''.'' then resolve_segments acc ws
      else if w = ''..'' then resolve_segments (tl acc) ws
      else resolve_segments (w # acc) ws)"

definition join_segments :: "string list \<Rightarrow> string" where
  "join_segments ws = (if ws = [] then [slash] else concat (map (\<lambda>w. slash # w) ws))"

definition path_resolve :: "string \<Rightarrow> string" where
  "path_resolve p = join_segments (resolve_segments [] (split_slash p))"

definition path_join :: "string \<Rightarrow> string \<Rightarrow> string" where
  "path_join d n = (if d = [slash] then slash # n else d @ [slash] @ n)"

definition path_dirname :: "string \<Rightarrow> string" where
  "path_dirname p = join_segments (butlast (resolve_segments [] (split_slash p)))"

text \<open>\<open>candidate === root || candidate.startsWith(root + sep)\<close>\<close>

definition is_within :: "string \<Rightarrow> string \<Rightarrow> bool" where
  "is_within base candidate \<longleftrightarrow> candidate = base \<or> starts_with (base @ [slash]) candidate"

lemma is_within_refl [simp]: "is_within r r"
  by (simp add: is_within_def)

lemma is_within_iff: "is_within r c \<longleftrightarrow> c = r \<or> (\<exists>t. c = r @ slash # t)"
  by (auto simp: is_within_def starts_with_iff)

lemma is_within_trans: "is_within a b \<Longrightarrow> is_within b c \<Longrightarrow> is_within a c"
  by (auto simp: is_within_iff)

lemma is_within_length: "is_within r c \<Longrightarrow> length r \<le> length c"
  by (auto simp: is_within_iff)

lemma is_within_antisym: "is_within a b \<Longrightarrow> is_within b a \<Longrightarrow> a = b"
  by (auto simp: is_within_iff)

lemma is_within_path_join [simp]: "d \<noteq> [slash] \<Longrightarrow> is_within d (path_join d n)"
  by (auto simp: is_within_iff path_join_def)

section \<open>Lists\<close>

lemma length_filter_upd_le:
  "length (filter P (xs[i := y])) \<le> Suc (length (filter P xs))"
proof (induction xs arbitrary: i)
  case Nil
  then show ?case by simp
next
  case (Cons x xs)
  then show ?case by (cases i) (auto split: nat.splits simp: le_SucI)
qed

lemma map_of_filter_neq [store_simps]:
  "map_of (filter (\<lambda>(k, v). k \<noteq> a) xs) b = (if b = a then None else map_of xs b)"
  by (induction xs) auto

lemma map_of_append_new [store_simps]:
  "map_of xs k = None \<Longrightarrow> map_of (xs @ [(k, v)]) = (map_of xs)(k \<mapsto> v)"
  by (auto simp: map_add_def fun_eq_iff split: option.splits)

lemma distinct_subset_length:
  assumes "distinct xs" and "set xs \<subseteq> set ys"
  shows "length xs \<le> length ys"
proof -
  have "length xs = card (set xs)" using assms(1) by (simp add: distinct_card)
  also have "\<dots> \<le> card (set ys)" using assms(2) by (intro card_mono) simp_all
  also have "\<dots> \<le> length ys" by (rule card_length)
  finally show ?thesis .
qed

lemma ends_with_append [simp]: "ends_with p (s @ p)"
  by (simp add: ends_with_def starts_with_iff)

section \<open>UTF-8 bytes and decimal texts\<close>

text \<open>\<open>Buffer.from(s, "utf8")\<close> for code units below 256, and \<open>String(n)\<close> of a natural number.\<close>

definition utf8_bytes :: "char \<Rightarrow> nat list" where
  "utf8_bytes c =
     (let n = of_char c :: nat in if n < 128 then [n] else [192 + n div 64, 128 + n mod 64])"

lemma utf8_inject: "concat (map utf8_bytes s) = concat (map utf8_bytes t) \<Longrightarrow> s = t"
proof (induction s arbitrary: t)
  case Nil
  then show ?case by (cases t) (auto simp: utf8_bytes_def Let_def split: if_splits)
next
  case (Cons c s)
  then obtain d t' where t: "t = d # t'" by (cases t) (auto simp: utf8_bytes_def Let_def split: if_splits)
  let ?n = "of_char c :: nat" and ?m = "of_char d :: nat"
  have eq: "utf8_bytes c @ concat (map utf8_bytes s) = utf8_bytes d @ concat (map utf8_bytes t')"
    using Cons.prems t by simp
  have "?n = ?m \<and> concat (map utf8_bytes s) = concat (map utf8_bytes t')"
  proof (cases "?n < 128")
    case True
    with eq show ?thesis by (auto simp: utf8_bytes_def Let_def split: if_splits)
  next
    case False
    with eq have "\<not> ?m < 128" and "?n div 64 = ?m div 64" "?n mod 64 = ?m mod 64"
      "concat (map utf8_bytes s) = concat (map utf8_bytes t')"
      by (auto simp: utf8_bytes_def Let_def split: if_splits)
    then show ?thesis by (metis div_mult_mod_eq)
  qed
  with Cons.IH t show ?case by auto
qed

lemma utf8_bytes_less: "list_all (\<lambda>b. b < 256) (concat (map utf8_bytes s))"
proof (induction s)
  case (Cons c s)
  have "(of_char c :: nat) < 256" using range_nat_of_char by auto
  then have "(of_char c :: nat) div 64 < 4" by (intro less_mult_imp_div_less) simp
  then have "list_all (\<lambda>b. b < 256) (utf8_bytes c)" by (auto simp: utf8_bytes_def Let_def)
  with Cons show ?case by simp
qed simp

fun decimal_text :: "nat \<Rightarrow> string" where
  "decimal_text n = (if n < 10 then [char_of (48 + n)] else decimal_text (n div 10) @ [char_of (48 + n mod 10)])"

declare decimal_text.simps [simp del]

fun decimal_value :: "nat \<Rightarrow> string \<Rightarrow> nat" where
  "decimal_value acc [] = acc"
| "decimal_value acc (c # cs) = decimal_value (acc * 10 + (of_char c - 48)) cs"

lemma decimal_value_append: "decimal_value a (s @ t) = decimal_value (decimal_value a s) t"
  by (induction a s rule: decimal_value.induct) simp_all

lemma decimal_value_text [simp]: "decimal_value 0 (decimal_text n) = n"
proof (induction n rule: decimal_text.induct)
  case (1 n)
  show ?case
  proof (cases "n < 10")
    case True
    then show ?thesis by (simp add: decimal_text.simps[of n] of_char_of)
  next
    case False
    with 1 have "decimal_value 0 (decimal_text (n div 10)) = n div 10" by simp
    with False show ?thesis by (simp add: decimal_text.simps[of n] decimal_value_append of_char_of)
  qed
qed

lemma decimal_text_inject [simp]: "decimal_text m = decimal_text n \<longleftrightarrow> m = n"
  by (metis decimal_value_text)

lemma decimal_text_digits: "list_all is_digit (decimal_text n)"
proof (induction n rule: decimal_text.induct)
  case (1 n)
  show ?case
  proof (cases "n < 10")
    case True
    then show ?thesis by (simp add: decimal_text.simps[of n] is_digit_def of_char_of)
  next
    case False
    have "is_digit (char_of (48 + n mod 10))" by (simp add: is_digit_def of_char_of)
    with 1 False show ?thesis by (simp add: decimal_text.simps[of n])
  qed
qed

text \<open>\<open>Buffer.compare\<close> of the UTF-8 bytes of two strings: less than.\<close>

definition utf8_less :: "string \<Rightarrow> string \<Rightarrow> bool" where
  "utf8_less a b \<longleftrightarrow> concat (map utf8_bytes a) < concat (map utf8_bytes b)"

lemma utf8_less_irrefl [simp]: "\<not> utf8_less a a"
  by (simp add: utf8_less_def)

lemma utf8_less_trans: "utf8_less a b \<Longrightarrow> utf8_less b c \<Longrightarrow> utf8_less a c"
  by (auto simp: utf8_less_def)

end
