(* ===== verification/Run_Types.thy ===== *)
theory Run_Types
  imports Prelude
begin

text \<open>
  The shared data types of \<open>src/types.ts\<close>: the closed string unions as enumerations (each with
  the string it stands for where the code compares or prints it), the request and result
  interfaces as records, and the error values the code throws. An optional interface field is an
  \<open>option\<close>; \<open>None\<close> is \<open>undefined\<close>.
\<close>

section \<open>Failure reason codes\<close>

datatype (plugins only: size) failure_reason_code =
    Rc_child_entrypoint_missing
  | Rc_child_entrypoint_not_file
  | Rc_config_missing_default_model_class
  | Rc_cancelled_before_first_output
  | Rc_cwd_inaccessible
  | Rc_cwd_not_absolute
  | Rc_cwd_not_directory
  | Rc_disk_reserve_exhausted
  | Rc_handler_error
  | Rc_client_start_id_conflict
  | Rc_client_start_id_fenced
  | Rc_invalid_output_mode
  | Rc_invalid_packet_policy
  | Rc_invalid_model
  | Rc_invalid_model_class
  | Rc_model_class_unhealthy
  | Rc_invalid_resume_mode
  | Rc_invalid_session_id
  | Rc_invalid_session_key
  | Rc_invalid_skill
  | Rc_invalid_thinking_level
  | Rc_invalid_effect_profile
  | Rc_authoring_effect_scope_invalid
  | Rc_authoring_effect_scope_drift
  | Rc_invalid_expected_skill_sha256
  | Rc_effect_profile_unsupported
  | Rc_skill_binding_unsupported
  | Rc_effect_profile_activation_failed
  | Rc_skill_content_mismatch
  | Rc_invalid_skill_snapshot_binding
  | Rc_skill_snapshot_not_found
  | Rc_skill_snapshot_altered
  | Rc_skill_snapshot_reference_mismatch
  | Rc_skill_snapshot_reference_closed
  | Rc_skill_snapshot_activation_failed
  | Rc_invalid_timeout_ms
  | Rc_invalid_max_output_tokens
  | Rc_invalid_wait_ms
  | Rc_local_capacity_exhausted
  | Rc_local_queue_exhausted
  | Rc_missing_session_id
  | Rc_missing_final_output
  | Rc_nonzero_exit
  | Rc_packet_required_invalid
  | Rc_packet_required_missing
  | Rc_packet_required_not_ready
  | Rc_prompt_missing
  | Rc_raw_session_id_unsupported
  | Rc_recursive_control_invalid
  | Rc_recursive_depth_exceeded
  | Rc_run_not_accepting_input
  | Rc_run_liveness_unknown
  | Rc_run_not_found
  | Rc_run_subagent_timeout_unsupported
  | Rc_input_request_already_answered
  | Rc_input_request_already_closed
  | Rc_input_request_already_timed_out
  | Rc_input_request_not_found
  | Rc_input_request_not_part_of_run
  | Rc_input_response_id_conflict
  | Rc_session_already_exists
  | Rc_session_already_running
  | Rc_session_cwd_mismatch
  | Rc_session_does_not_exist
  | Rc_session_ledger_invalid
  | Rc_session_commit_invalid
  | Rc_session_manifest_invalid
  | Rc_session_skill_mismatch
  | Rc_server_restarted_active_run
  | Rc_spawn_error
  | Rc_timeout
  | Rc_usage_limit_reached
  | Rc_process_signal_terminated
  | Rc_recursive_delegation_reauthorization_required
  | Rc_recursive_delegation_effect_conflict
  | Rc_recursive_delegation_activation_failed
  | Rc_recursive_delegation_unsupported
  | Rc_system_skill_activation_failed
  | Rc_unknown_error
  | Rc_unknown_validation_error

section \<open>Errors\<close>

text \<open>What a function of the source can throw: a \<open>ValidationError\<close> with its message and reason
  code, a Node file-system error with its \<open>code\<close>, a \<open>SyntaxError\<close> of \<open>JSON.parse\<close>, or a plain \<open>Error\<close>.\<close>

datatype (plugins del: quickcheck_narrowing) errno = ENOENT | EEXIST | OtherErrno string

datatype js_error =
    ValidationError (err_message: string) (err_reason: failure_reason_code)
  | ErrnoError errno
  | JsonSyntaxError
  | PlainError string

type_synonym 'a result = "js_error + 'a"

definition reason_of :: "js_error \<Rightarrow> failure_reason_code option" where
  "reason_of e = (case e of ValidationError _ rc \<Rightarrow> Some rc | _ \<Rightarrow> None)"

definition is_enoent :: "js_error \<Rightarrow> bool" where
  "is_enoent e \<longleftrightarrow> (case e of ErrnoError ENOENT \<Rightarrow> True | _ \<Rightarrow> False)"

definition is_eexist :: "js_error \<Rightarrow> bool" where
  "is_eexist e \<longleftrightarrow> (case e of ErrnoError EEXIST \<Rightarrow> True | _ \<Rightarrow> False)"

lemma is_enoent_iff: "is_enoent e \<longleftrightarrow> e = ErrnoError ENOENT"
  by (simp add: is_enoent_def split: js_error.splits errno.splits)

lemma is_eexist_iff: "is_eexist e \<longleftrightarrow> e = ErrnoError EEXIST"
  by (simp add: is_eexist_def split: js_error.splits errno.splits)

lemma reason_of_simps [simp]:
  "reason_of (ValidationError m rc) = Some rc" "reason_of (ErrnoError n) = None"
  "reason_of JsonSyntaxError = None" "reason_of (PlainError m) = None"
  by (simp_all add: reason_of_def)

lemma is_enoent_simps [simp]:
  "is_enoent (ErrnoError ENOENT)" "\<not> is_enoent (ValidationError m rc)" "\<not> is_enoent JsonSyntaxError"
  "\<not> is_enoent (PlainError m)" "\<not> is_enoent (ErrnoError EEXIST)"
  by (simp_all add: is_enoent_def)

lemma is_eexist_simps [simp]:
  "is_eexist (ErrnoError EEXIST)" "\<not> is_eexist (ValidationError m rc)" "\<not> is_eexist JsonSyntaxError"
  "\<not> is_eexist (PlainError m)" "\<not> is_eexist (ErrnoError ENOENT)"
  by (simp_all add: is_eexist_def)

text \<open>\<open>error.message\<close> of a thrown value, as the code interpolates it. The text of a file-system error
  and of a syntax error belongs to the runtime; only its class is kept.\<close>

definition message_of :: "js_error \<Rightarrow> string" where
  "message_of e = (case e of ValidationError m _ \<Rightarrow> m | PlainError m \<Rightarrow> m
     | ErrnoError ENOENT \<Rightarrow> ''ENOENT'' | ErrnoError EEXIST \<Rightarrow> ''EEXIST''
     | ErrnoError (OtherErrno s) \<Rightarrow> s | JsonSyntaxError \<Rightarrow> ''SyntaxError'')"

section \<open>Closed unions\<close>

datatype thinking_level = TL_low | TL_medium | TL_high | TL_xhigh

datatype model_class = MC_A | MC_B | MC_C | MC_D | MC_E | MC_Z1 | MC_Z2 | MC_Z3 | MC_Z4

datatype output_mode = OM_final | OM_transcript

datatype effect_profile =
    Workspace_read_only
  | Task_root_read_only_v1
  | Task_root_authoring_v1
  | Skill_creator_authoring_v1
  | Researcher_bounded_v1
  | Assumption_audit_bounded_v1

datatype run_status = Working | Input_required | Completed | Failed | Cancelled | Timed_out

definition non_terminal_run_statuses :: "run_status list" where
  "non_terminal_run_statuses = [Working, Input_required]"

definition terminal_run_statuses :: "run_status list" where
  "terminal_run_statuses = [Completed, Failed, Cancelled, Timed_out]"

definition run_statuses :: "run_status list" where
  "run_statuses = non_terminal_run_statuses @ terminal_run_statuses"

definition is_terminal :: "run_status \<Rightarrow> bool" where
  "is_terminal s \<longleftrightarrow> s \<in> set terminal_run_statuses"

lemma run_statuses_complete: "set run_statuses = UNIV"
  using run_status.exhaust
  by (auto simp: run_statuses_def non_terminal_run_statuses_def terminal_run_statuses_def)

lemma is_terminal_simps [simp]:
  "\<not> is_terminal Working" "\<not> is_terminal Input_required" "is_terminal Completed" "is_terminal Failed"
  "is_terminal Cancelled" "is_terminal Timed_out"
  by (simp_all add: is_terminal_def terminal_run_statuses_def)

datatype run_stop_reason =
    Stop_completed
  | Stop_failed
  | Stop_timeout
  | Stop_cancelled
  | Stop_spawn_error
  | Stop_resource_exhausted

datatype recursive_delegation = RD_disabled | RD_enabled

datatype specialist_catalogue_scope = Selected_only

datatype run_continuity = Ephemeral | Fresh | Resume (resume_session_id: string)

text \<open>The strings of the unions that the code matches against caller input, in the order of the
  source's choice lists.\<close>

definition model_classes :: "(string \<times> model_class) list" where
  "model_classes = [(''A'', MC_A), (''B'', MC_B), (''C'', MC_C), (''D'', MC_D), (''E'', MC_E),
     (''Z1'', MC_Z1), (''Z2'', MC_Z2), (''Z3'', MC_Z3), (''Z4'', MC_Z4)]"

definition output_modes :: "(string \<times> output_mode) list" where
  "output_modes = [(''final'', OM_final), (''transcript'', OM_transcript)]"

definition effect_profiles :: "(string \<times> effect_profile) list" where
  "effect_profiles =
     [(''workspace_read_only'', Workspace_read_only),
      (''task_root_read_only_v1'', Task_root_read_only_v1),
      (''task_root_authoring_v1'', Task_root_authoring_v1),
      (''skill_creator_authoring_v1'', Skill_creator_authoring_v1),
      (''researcher_bounded_v1'', Researcher_bounded_v1),
      (''assumption_audit_bounded_v1'', Assumption_audit_bounded_v1)]"

definition run_continuity_modes :: "string list" where
  "run_continuity_modes = [''ephemeral'', ''fresh'', ''resume'']"

definition recursive_delegations :: "(string \<times> recursive_delegation) list" where
  "recursive_delegations = [(''disabled'', RD_disabled), (''enabled'', RD_enabled)]"

definition specialist_catalogue_scopes :: "(string \<times> specialist_catalogue_scope) list" where
  "specialist_catalogue_scopes = [(''selected_only'', Selected_only)]"

fun effect_profile_name :: "effect_profile \<Rightarrow> string" where
  "effect_profile_name Workspace_read_only = ''workspace_read_only''"
| "effect_profile_name Task_root_read_only_v1 = ''task_root_read_only_v1''"
| "effect_profile_name Task_root_authoring_v1 = ''task_root_authoring_v1''"
| "effect_profile_name Skill_creator_authoring_v1 = ''skill_creator_authoring_v1''"
| "effect_profile_name Researcher_bounded_v1 = ''researcher_bounded_v1''"
| "effect_profile_name Assumption_audit_bounded_v1 = ''assumption_audit_bounded_v1''"

lemma map_of_effect_profiles [simp]: "map_of effect_profiles (effect_profile_name p) = Some p"
  by (cases p) (simp_all add: effect_profiles_def)

section \<open>Interfaces\<close>

record skill_snapshot_launch_binding =
  ssb_snapshot_id :: string
  ssb_metadata_sha256 :: string
  ssb_publication_receipt_sha256 :: string
  ssb_reference_id :: string
  ssb_project_id :: string
  ssb_publication_id :: string

datatype output_name = Out_primary | Out_packet

record run_output_reference =
  ref_name :: output_name
  ref_relative_path :: string
  ref_size_bytes :: nat
  ref_content_sha256 :: string
  ref_output_mode :: output_mode

text \<open>\<open>RunPublicEvent\<close>, with an identity \<open>ev_id\<close> that stands for the JavaScript object: the projection
  of the recent events compares events by reference.\<close>

datatype run_public_event_kind =
    Kind_task | Kind_child | Kind_user | Kind_assistant | Kind_warning | Kind_error | Kind_input
  | Kind_packet | Kind_terminal

datatype run_public_event_name =
    Ev_run_started | Ev_child_spawned | Ev_child_bridge_started | Ev_child_session_established
  | Ev_activation_confirmed | Ev_skill_snapshot_activation_confirmed
  | Ev_recursive_delegation_confirmed | Ev_system_skill_activation_confirmed
  | Ev_child_prompt_submitted | Ev_recursive_child_started | Ev_recursive_child_finished
  | Ev_input_required | Ev_input_answered | Ev_input_timed_out | Ev_input_closed | Ev_timeout
  | Ev_cancellation_requested | Ev_cancellation_settled | Ev_packet_accepted | Ev_packet_rejected
  | Ev_completed | Ev_failed | Ev_message

record run_public_event =
  ev_id :: nat
  ev_schema_version :: "nat option"
  ev_kind :: run_public_event_kind
  ev_event :: "run_public_event_name option"
  ev_text :: string
  ev_occurred_at :: string
  ev_metadata :: "json option"

end
