(* ===== verification/Run_Lifecycle.thy ===== *)
theory Run_Lifecycle
  imports Run_Types
begin

text \<open>
  The small pure parts of a run's life: the terminal status and the terminal event of a settled run
  (\<open>src/runLifecycle.ts\<close>), the integer environment settings (\<open>src/env.ts\<close>), the timeout budget
  (\<open>src/timeoutBudget.ts\<close>), the output-token cap (\<open>src/modelOutputCap.ts\<close>) and the public event
  projections (\<open>src/runEvents.ts\<close>).
\<close>

section \<open>Terminal status and terminal event\<close>

datatype run_task_active_phase =
    Phase_starting | Phase_queued | Phase_awaiting_child_event | Phase_running_silent
  | Phase_running | Phase_input_required | Phase_cancelling | Phase_timed_out | Phase_cancelled
  | Phase_completed | Phase_failed

record run_task_terminal_status_input =
  ts_success :: bool
  ts_timed_out :: bool
  ts_stop_reason :: run_stop_reason
  ts_status :: "run_status option"

record run_task_terminal_event_details =
  td_phase :: run_task_active_phase
  td_event :: run_public_event_name
  td_text :: string
  td_progress_message :: string

definition terminalRunTaskStatus :: "run_task_terminal_status_input \<Rightarrow> run_status" where
  "terminalRunTaskStatus r =
     (if ts_stop_reason r = Stop_cancelled \<or> ts_status r = Some Cancelled then Cancelled
      else if ts_timed_out r \<or> ts_stop_reason r = Stop_timeout \<or> ts_status r = Some Timed_out
      then Timed_out
      else if ts_success r then Completed else Failed)"

definition terminalRunTaskEventDetails ::
  "run_task_terminal_status_input \<Rightarrow> run_task_terminal_event_details" where
  "terminalRunTaskEventDetails r =
     (if ts_stop_reason r = Stop_cancelled then
        \<lparr>td_phase = Phase_cancelled, td_event = Ev_cancellation_settled,
         td_text = ''[cancellation_settled] run cancelled'', td_progress_message = ''run cancelled''\<rparr>
      else if ts_stop_reason r = Stop_timeout then
        \<lparr>td_phase = Phase_timed_out, td_event = Ev_timeout,
         td_text = ''[timeout] run timed out'', td_progress_message = ''run timed out''\<rparr>
      else if ts_success r then
        \<lparr>td_phase = Phase_completed, td_event = Ev_completed,
         td_text = ''[completed] run completed'', td_progress_message = ''run completed''\<rparr>
      else
        \<lparr>td_phase = Phase_failed, td_event = Ev_failed,
         td_text = ''[failed] run failed'', td_progress_message = ''run failed''\<rparr>)"

text \<open>The status that a terminal phase announces.\<close>

definition phase_status :: "run_task_active_phase \<Rightarrow> run_status option" where
  "phase_status p = (case p of Phase_cancelled \<Rightarrow> Some Cancelled | Phase_timed_out \<Rightarrow> Some Timed_out
     | Phase_completed \<Rightarrow> Some Completed | Phase_failed \<Rightarrow> Some Failed | _ \<Rightarrow> None)"

text \<open>
  The terminal status is always one of the four terminal statuses, and the terminal event that
  the run publishes announces that same status exactly when the stop reason already carries the
  cancellation or the timeout that the \<open>status\<close> and \<open>timed_out\<close> fields report. So the two
  classifications of a settled run agree on every result whose fields are consistent, and on no
  other.
\<close>

theorem terminal_event_agrees_with_status:
  "is_terminal (terminalRunTaskStatus r) \<and>
   (phase_status (td_phase (terminalRunTaskEventDetails r)) = Some (terminalRunTaskStatus r) \<longleftrightarrow>
      ts_stop_reason r = Stop_cancelled \<or>
      (ts_status r \<noteq> Some Cancelled \<and>
       (ts_stop_reason r = Stop_timeout \<or> (\<not> ts_timed_out r \<and> ts_status r \<noteq> Some Timed_out))))"
  by (auto simp: terminalRunTaskStatus_def terminalRunTaskEventDetails_def phase_status_def)

section \<open>Integer settings from the environment\<close>

text \<open>\<open>Number(raw)\<close> is the parameter \<open>to_number\<close> (\<open>None\<close> for NaN and the infinities).\<close>

definition safeIntegerFromEnv ::
  "(string \<Rightarrow> rat option) \<Rightarrow> (string \<Rightarrow> string option) \<Rightarrow> string \<Rightarrow> int \<Rightarrow> int \<Rightarrow> int" where
  "safeIntegerFromEnv to_number env key fallback minValue =
     (case env key of
        None \<Rightarrow> fallback
      | Some raw \<Rightarrow>
          if blank raw then fallback
          else (case to_number raw of
                  None \<Rightarrow> fallback
                | Some parsed \<Rightarrow>
                    if \<not> js_is_safe_integer parsed \<or> parsed < of_int minValue then fallback
                    else \<lfloor>parsed\<rfloor>))"

lemma safeIntegerFromEnv_ge:
  "minValue \<le> fallback \<Longrightarrow> minValue \<le> safeIntegerFromEnv to_number env key fallback minValue"
  by (auto simp: safeIntegerFromEnv_def le_floor_iff split: option.split)

lemma safeIntegerFromEnv_unset:
  "env key = None \<Longrightarrow> safeIntegerFromEnv to_number env key fallback m = fallback"
  by (simp add: safeIntegerFromEnv_def)

section \<open>Timeout budget\<close>

record timeout_budget_options =
  to_min_requested :: "int option"
  to_headroom :: "int option"
  to_kill_grace :: "int option"
  to_force_grace :: "int option"

record resolved_timeout_options =
  ro_min_requested :: int
  ro_headroom :: int
  ro_kill_grace :: int
  ro_force_grace :: int

record timeout_budget =
  tb_requested :: "int option"
  tb_resolved :: "int option"
  tb_min_requested :: int
  tb_effective :: "int option"
  tb_headroom :: int
  tb_kill_grace :: int
  tb_force_grace :: int

definition nonnegativeIntegerFromEnv ::
  "(string \<Rightarrow> rat option) \<Rightarrow> (string \<Rightarrow> string option) \<Rightarrow> string \<Rightarrow> int \<Rightarrow> int" where
  "nonnegativeIntegerFromEnv to_number env key fallback = safeIntegerFromEnv to_number env key fallback 0"

definition resolveOptions ::
  "(string \<Rightarrow> rat option) \<Rightarrow> (string \<Rightarrow> string option) \<Rightarrow> timeout_budget_options \<Rightarrow>
   resolved_timeout_options" where
  "resolveOptions to_number env options =
     \<lparr>ro_min_requested = nullish (to_min_requested options)
        (nonnegativeIntegerFromEnv to_number env ''SUBAGENT007_MIN_REQUESTED_TIMEOUT_MS'' 0),
      ro_headroom = nullish (to_headroom options)
        (nonnegativeIntegerFromEnv to_number env ''SUBAGENT007_TIMEOUT_RESPONSE_HEADROOM_MS'' 5000),
      ro_kill_grace = nullish (to_kill_grace options)
        (nonnegativeIntegerFromEnv to_number env ''SUBAGENT007_TIMEOUT_KILL_GRACE_MS'' 1000),
      ro_force_grace = nullish (to_force_grace options)
        (nonnegativeIntegerFromEnv to_number env ''SUBAGENT007_TIMEOUT_FORCE_GRACE_MS'' 1000)\<rparr>"

definition reservedTimeoutMs :: "resolved_timeout_options \<Rightarrow> int" where
  "reservedTimeoutMs r = ro_headroom r + ro_kill_grace r + ro_force_grace r"

definition computeTimeoutBudget ::
  "(string \<Rightarrow> rat option) \<Rightarrow> (string \<Rightarrow> string option) \<Rightarrow> int option \<Rightarrow> timeout_budget_options \<Rightarrow>
   timeout_budget" where
  "computeTimeoutBudget to_number env requestedTimeoutMs options =
     (let resolved = resolveOptions to_number env options in
      case requestedTimeoutMs of
        None \<Rightarrow>
          \<lparr>tb_requested = None, tb_resolved = None, tb_min_requested = ro_min_requested resolved,
           tb_effective = None, tb_headroom = ro_headroom resolved,
           tb_kill_grace = ro_kill_grace resolved, tb_force_grace = ro_force_grace resolved\<rparr>
      | Some requested \<Rightarrow>
          let resolvedTimeoutMs = max requested (ro_min_requested resolved);
              reservedMs = reservedTimeoutMs resolved in
          \<lparr>tb_requested = Some requested, tb_resolved = Some resolvedTimeoutMs,
           tb_min_requested = ro_min_requested resolved,
           tb_effective = Some (max 1 (resolvedTimeoutMs - reservedMs)),
           tb_headroom = ro_headroom resolved, tb_kill_grace = ro_kill_grace resolved,
           tb_force_grace = ro_force_grace resolved\<rparr>)"

definition minimumRequestedTimeoutMs ::
  "(string \<Rightarrow> rat option) \<Rightarrow> (string \<Rightarrow> string option) \<Rightarrow> timeout_budget_options \<Rightarrow> int" where
  "minimumRequestedTimeoutMs to_number env options =
     (let resolved = resolveOptions to_number env options;
          reservedMs = reservedTimeoutMs resolved in
      max (ro_min_requested resolved) (reservedMs + 1))"

lemmas timeout_defs = computeTimeoutBudget_def minimumRequestedTimeoutMs_def reservedTimeoutMs_def Let_def

text \<open>
  A request at or above the minimum that validation enforces gets a budget that loses nothing:
  the child's effective time plus the response headroom and the two grace periods is exactly the
  requested deadline, and the child has at least one millisecond. The minimum is the least such
  request when it is not raised by the configured floor: one millisecond less, and the parts no
  longer fit in the deadline.
\<close>

theorem timeout_budget_fits_deadline:
  fixes options :: timeout_budget_options and to_number env
  defines "m \<equiv> minimumRequestedTimeoutMs to_number env options"
  assumes "m \<le> requested"
  shows "\<exists>eff. tb_effective (computeTimeoutBudget to_number env (Some requested) options) = Some eff \<and>
      1 \<le> eff \<and>
      tb_resolved (computeTimeoutBudget to_number env (Some requested) options) = Some requested \<and>
      eff + reservedTimeoutMs (resolveOptions to_number env options) = requested \<and>
      (ro_min_requested (resolveOptions to_number env options) < m \<longrightarrow>
        (\<exists>eff'. tb_effective (computeTimeoutBudget to_number env (Some (m - 1)) options) = Some eff' \<and>
           m - 1 < eff' + reservedTimeoutMs (resolveOptions to_number env options)))"
  using assms(2) unfolding m_def by (auto simp: timeout_defs max_def)

theorem timeout_budget_fits_deadline_witness:
  "\<exists>eff. tb_effective (computeTimeoutBudget (\<lambda>_. None) (\<lambda>_. None) (Some 7001)
       \<lparr>to_min_requested = None, to_headroom = None, to_kill_grace = None, to_force_grace = None\<rparr>) = Some eff \<and>
      1 \<le> eff"
proof -
  let ?o = "\<lparr>to_min_requested = None, to_headroom = None, to_kill_grace = None, to_force_grace = None\<rparr>"
  have "minimumRequestedTimeoutMs (\<lambda>_. None) (\<lambda>_. None) ?o \<le> 7001"
    by (simp add: timeout_defs resolveOptions_def nonnegativeIntegerFromEnv_def safeIntegerFromEnv_def)
  from timeout_budget_fits_deadline[OF this] show ?thesis by blast
qed

section \<open>Output-token cap\<close>

text \<open>\<open>modelWithOutputTokenCap\<close>: the model's \<open>maxTokens\<close> under an optional run-level ceiling.\<close>

record 'a pi_model =
  pm_max_tokens :: int
  pm_rest :: 'a

definition modelWithOutputTokenCap :: "'a pi_model \<Rightarrow> int option \<Rightarrow> 'a pi_model" where
  "modelWithOutputTokenCap m cap =
     (case cap of None \<Rightarrow> m | Some c \<Rightarrow> m\<lparr>pm_max_tokens := min (pm_max_tokens m) c\<rparr>)"

lemma modelWithOutputTokenCap_never_raises:
  "pm_max_tokens (modelWithOutputTokenCap m cap) \<le> pm_max_tokens m"
  "pm_rest (modelWithOutputTokenCap m cap) = pm_rest m"
  by (auto simp: modelWithOutputTokenCap_def split: option.split)

end
