(* ===== verification/Run_Events.thy ===== *)
theory Run_Events
  imports Run_Types
begin

text \<open>
  The public event projections of \<open>src/runEvents.ts\<close>: redaction of the text of an event, its
  truncation, the bounded window of recent events and the bounded output excerpt. The four
  redaction patterns are written as matchers that return the length of the leftmost match at a
  position; a lazy body between an opening and a closing literal matches up to the first closing
  literal.
\<close>

section \<open>Matchers for the redaction patterns\<close>

text \<open>The number of characters up to and including the first occurrence of \<open>close\<close>.\<close>

fun find_close :: "string \<Rightarrow> string \<Rightarrow> nat option" where
  "find_close close [] = (if starts_with_ci close [] then Some (length close) else None)"
| "find_close close (c # cs) =
     (if starts_with_ci close (c # cs) then Some (length close)
      else map_option Suc (find_close close cs))"

definition match_span :: "string \<Rightarrow> string \<Rightarrow> char option \<Rightarrow> string \<Rightarrow> nat option" where
  "match_span opening closing prev s =
     (if starts_with_ci opening s
      then map_option ((+) (length opening)) (find_close closing (drop (length opening) s)) else None)"

definition match_packet_element :: "char option \<Rightarrow> string \<Rightarrow> nat option" where
  "match_packet_element =
     match_span ''<subagent007_contract_packet>'' ''</subagent007_contract_packet>''"

definition blank_or_tab :: "char \<Rightarrow> bool" where
  "blank_or_tab c \<longleftrightarrow> c = CHR '' '' \<or> of_char c = (9 :: nat)"

definition match_packet_fence :: "char option \<Rightarrow> string \<Rightarrow> nat option" where
  "match_packet_fence prev s =
     (if starts_with ''```'' s then
        let n = length (takeWhile blank_or_tab (drop 3 s)); rest = drop (3 + n) s in
        if starts_with_ci ''contract_packet_v1'' rest
        then map_option ((+) (3 + n + 18)) (find_close ''```'' (drop 18 rest)) else None
      else None)"

definition match_thinking :: "char option \<Rightarrow> string \<Rightarrow> nat option" where
  "match_thinking = match_span ''<thinking>'' ''</thinking>''"

definition match_raw_thinking :: "char option \<Rightarrow> string \<Rightarrow> nat option" where
  "match_raw_thinking prev s =
     (if (case prev of None \<Rightarrow> True | Some c \<Rightarrow> \<not> word_char c) \<and> starts_with_ci ''raw thinking'' s \<and>
         (case drop 12 s of [] \<Rightarrow> True | c # _ \<Rightarrow> \<not> word_char c)
      then Some (12 + min 200 (length s - 12)) else None)"

text \<open>\<open>String.prototype.replace\<close> with a global pattern: scan left to right, replace each match and
  go on behind it. \<open>prev\<close> is the character before the position, for the word boundary.\<close>

function replace_matches ::
  "(char option \<Rightarrow> string \<Rightarrow> nat option) \<Rightarrow> string \<Rightarrow> char option \<Rightarrow> string \<Rightarrow> string" where
  "replace_matches m r prev [] = []"
| "replace_matches m r prev (c # cs) =
     (case m prev (c # cs) of
        None \<Rightarrow> c # replace_matches m r (Some c) cs
      | Some n \<Rightarrow>
          if n = 0 then c # replace_matches m r (Some c) cs
          else r @ replace_matches m r (Some (last (take n (c # cs)))) (drop n (c # cs)))"
  by pat_completeness auto
termination
  by (relation "measure (\<lambda>(m, r, prev, s). length s)") auto

definition redactPublicEventText :: "string \<Rightarrow> string" where
  "redactPublicEventText text =
     foldl (\<lambda>next m. replace_matches m ''[redacted]'' None next) text
       [match_packet_element, match_packet_fence, match_thinking, match_raw_thinking]"

definition truncatePublicEventText :: "string \<Rightarrow> string" where
  "truncatePublicEventText text =
     (if length text \<le> 4000 then text else take (max 0 (4000 - 15)) text @ ''[truncated]'')"

definition canonicalRunPublicEvent :: "run_public_event \<Rightarrow> run_public_event" where
  "canonicalRunPublicEvent e =
     e\<lparr>ev_schema_version := Some 1,
       ev_text := truncatePublicEventText (redactPublicEventText (ev_text e))\<rparr>"

lemma truncatePublicEventText_bound: "length (truncatePublicEventText t) \<le> 4000"
  by (simp add: truncatePublicEventText_def)

lemma canonicalRunPublicEvent_frame:
  "ev_id (canonicalRunPublicEvent e) = ev_id e" "ev_kind (canonicalRunPublicEvent e) = ev_kind e"
  "ev_event (canonicalRunPublicEvent e) = ev_event e"
  "length (ev_text (canonicalRunPublicEvent e)) \<le> 4000"
  by (simp_all add: canonicalRunPublicEvent_def truncatePublicEventText_bound)

section \<open>The recent-events window\<close>

text \<open>Object identity is the event's \<open>ev_id\<close>. \<open>slice(-k)\<close> keeps the last \<open>k\<close> entries.\<close>

definition slice_last :: "nat \<Rightarrow> 'a list \<Rightarrow> 'a list" where
  "slice_last k xs = drop (length xs - k) xs"

definition event_anchors :: "run_public_event list \<Rightarrow> run_public_event list" where
  "event_anchors events =
     (let started = find (\<lambda>e. ev_event e = Some Ev_run_started) events;
          spawned = take 2 (filter (\<lambda>e. ev_kind e = Kind_child \<and> ev_event e = Some Ev_child_spawned) events)
      in (case started of None \<Rightarrow> spawned | Some s \<Rightarrow> s # spawned))"

definition recentEventsProjection :: "run_public_event list \<Rightarrow> run_public_event list" where
  "recentEventsProjection events =
     (if length events \<le> 25 then events
      else
        let anchors = event_anchors events;
            anchorSet = map ev_id anchors;
            tail = slice_last (25 - length anchors) (filter (\<lambda>e. ev_id e \<notin> set anchorSet) events);
            retained = map ev_id (anchors @ tail)
        in filter (\<lambda>e. ev_id e \<in> set retained) events)"

definition terminalEventsProjection :: "run_public_event list \<Rightarrow> run_public_event list" where
  "terminalEventsProjection events = recentEventsProjection events"

fun join_texts :: "string \<Rightarrow> string list \<Rightarrow> string" where
  "join_texts sep [] = []"
| "join_texts sep [x] = x"
| "join_texts sep (x # y # ys) = x @ sep @ join_texts sep (y # ys)"

definition publicOutputExcerptProjection :: "run_public_event list \<Rightarrow> string option" where
  "publicOutputExcerptProjection events =
     (let nl = char_of (10 :: nat);
          text = join_texts [nl, nl] (filter (\<lambda>v. \<not> blank v) (map ev_text events)) in
      if text = [] then None
      else if length text \<le> 1000 then Some text
      else Some (drop (length text - 1000) text))"

subsection \<open>Lemmas\<close>

lemma find_filter_hd: "find P xs = Some x \<Longrightarrow> \<exists>ys. filter P xs = x # ys"
  by (induction xs) (auto split: if_splits)

lemma find_SomeD: "find P xs = Some x \<Longrightarrow> x \<in> set xs \<and> P x"
  by (induction xs) (auto split: if_splits)

lemma event_anchors_subset: "set (event_anchors events) \<subseteq> set events"
  by (auto simp: event_anchors_def Let_def dest: find_SomeD dest!: in_set_takeD split: option.splits)

lemma event_anchors_length: "length (event_anchors events) \<le> 3"
  by (auto simp: event_anchors_def Let_def split: option.split)

lemma event_anchors_distinct:
  assumes "distinct (map ev_id events)"
  shows "distinct (map ev_id (event_anchors events))"
proof -
  let ?P = "\<lambda>e. ev_kind e = Kind_child \<and> ev_event e = Some Ev_child_spawned"
  let ?sp = "take 2 (filter ?P events)"
  have inj: "inj_on ev_id (set events)" using assms by (simp add: distinct_map)
  have d: "distinct ?sp" using assms by (simp add: distinct_map)
  have sub: "set ?sp \<subseteq> set events" by (auto dest: in_set_takeD)
  have "distinct (event_anchors events)"
  proof (cases "find (\<lambda>e. ev_event e = Some Ev_run_started) events")
    case None
    then show ?thesis using d by (simp add: event_anchors_def)
  next
    case (Some s)
    then have "ev_event s = Some Ev_run_started" using find_SomeD by fastforce
    then have "s \<notin> set ?sp" by (auto dest: in_set_takeD)
    then show ?thesis using Some d by (simp add: event_anchors_def)
  qed
  then show ?thesis
    using inj_on_subset[OF inj event_anchors_subset] by (simp add: distinct_map)
qed

lemma slice_last_suffix: "\<exists>ys. xs = ys @ slice_last k xs"
  by (metis append_take_drop_id slice_last_def)

lemma length_slice_last: "length (slice_last k xs) = min k (length xs)"
  by (simp add: slice_last_def)

lemma set_slice_last: "set (slice_last k xs) \<subseteq> set xs"
  by (auto simp: slice_last_def dest: in_set_dropD)

lemma distinct_ids_filter_length:
  assumes "distinct (map ev_id events)" and "set xs \<subseteq> set events" and "distinct (map ev_id xs)"
  shows "length (filter (\<lambda>e. ev_id e \<in> set (map ev_id xs)) events) = length xs"
proof -
  have "filter (\<lambda>e. ev_id e \<in> set (map ev_id xs)) events = filter (\<lambda>e. e \<in> set xs) events"
    using assms(1,2) by (intro filter_cong refl) (auto simp: distinct_map inj_on_def)
  moreover have "distinct events" using assms(1) by (simp add: distinct_map)
  ultimately have "length (filter (\<lambda>e. ev_id e \<in> set (map ev_id xs)) events) = card (set xs)"
    using assms(2) distinct_card[of "filter (\<lambda>e. e \<in> set xs) events"]
    by (simp add: Int_absorb1 Collect_conj_eq)
  also have "\<dots> = length xs"
    using assms(3) by (simp add: distinct_map distinct_card)
  finally show ?thesis .
qed

lemma window_facts:
  assumes "distinct (map ev_id events)"
  shows "length (recentEventsProjection events) = min 25 (length events) \<and>
    (\<exists>P. recentEventsProjection events = filter P events) \<and>
    set (event_anchors events) \<subseteq> set (recentEventsProjection events) \<and>
    (events \<noteq> [] \<longrightarrow> last events \<in> set (recentEventsProjection events))"
proof (cases "length events \<le> 25")
  case True
  then have "recentEventsProjection events = events" by (simp add: recentEventsProjection_def)
  then show ?thesis using True event_anchors_subset by (auto intro!: exI[of _ "\<lambda>_. True"])
next
  case False
  define A where "A = event_anchors events"
  define rest where "rest = filter (\<lambda>e. ev_id e \<notin> set (map ev_id A)) events"
  define tl where "tl = slice_last (25 - length A) rest"
  have proj: "recentEventsProjection events = filter (\<lambda>e. ev_id e \<in> set (map ev_id (A @ tl))) events"
    using False by (simp add: recentEventsProjection_def Let_def A_def rest_def tl_def)
  have A3: "length A \<le> 3" by (simp add: A_def event_anchors_length)
  have Asub: "set A \<subseteq> set events" by (simp add: A_def event_anchors_subset)
  have dA: "distinct (map ev_id A)" using assms by (simp add: A_def event_anchors_distinct)
  have split: "length (filter (\<lambda>e. ev_id e \<in> set (map ev_id A)) events) + length rest = length events"
    unfolding rest_def by (rule sum_length_filter_compl)
  have "length rest = length events - length A"
    using distinct_ids_filter_length[OF assms Asub dA] split by simp
  then have ltl: "length tl = 25 - length A" and rest_pos: "rest \<noteq> []"
    using False A3 by (auto simp: tl_def length_slice_last)
  have tsub: "set tl \<subseteq> set rest" by (simp add: tl_def set_slice_last)
  have dr: "distinct (map ev_id rest)" unfolding rest_def using assms distinct_map_filter by blast
  then have dt: "distinct (map ev_id tl)"
    by (simp add: tl_def slice_last_def drop_map[symmetric])
  have nA: "ev_id x \<notin> ev_id ` set A" if "x \<in> set tl" for x
    using that tsub by (auto simp: rest_def)
  have disj: "set (map ev_id A) \<inter> set (map ev_id tl) = {}"
  proof (rule Int_emptyI)
    fix i assume iA: "i \<in> set (map ev_id A)" and "i \<in> set (map ev_id tl)"
    then obtain x where x: "x \<in> set tl" "i = ev_id x" unfolding set_map by (elim imageE)
    from iA have "i \<in> ev_id ` set A" unfolding set_map .
    with nA[OF x(1)] x(2) show False by simp
  qed
  have "set (A @ tl) \<subseteq> set events" using Asub tsub by (auto simp: rest_def)
  moreover have "distinct (map ev_id (A @ tl))" using dA dt disj by simp
  ultimately have len: "length (recentEventsProjection events) = length (A @ tl)"
    unfolding proj by (rule distinct_ids_filter_length[OF assms])
  have "last events \<in> set (A @ tl) \<or> ev_id (last events) \<in> set (map ev_id A)"
  proof (cases "ev_id (last events) \<in> set (map ev_id A)")
    case False2: False
    have ne: "events \<noteq> []" using False by auto
    let ?Q = "\<lambda>e. ev_id e \<notin> set (map ev_id A)"
    have "rest = filter ?Q (butlast events @ [last events])"
      unfolding rest_def append_butlast_last_id[OF ne] ..
    then have "last rest = last events" using False2 by simp
    moreover have "tl \<noteq> []" using ltl A3 by auto
    moreover have "last tl = last rest"
      using \<open>tl \<noteq> []\<close> by (simp add: tl_def slice_last_def last_drop)
    ultimately have "last events \<in> set tl" using last_in_set[of tl] by simp
    then show ?thesis by simp
  qed simp
  moreover have "events \<noteq> []" using False by auto
  ultimately have "last events \<in> set (recentEventsProjection events)"
    unfolding proj by auto
  moreover have "set A \<subseteq> set (recentEventsProjection events)"
    using Asub unfolding proj by auto
  ultimately show ?thesis using False len ltl A3 proj by (auto simp: A_def)
qed

definition plain_event :: "run_public_event \<Rightarrow> bool" where
  "plain_event e \<longleftrightarrow> ev_event e \<noteq> Some Ev_run_started \<and> \<not> (ev_kind e = Kind_child \<and> ev_event e = Some Ev_child_spawned)"

lemma anchors_not_plain: "e \<in> set (event_anchors events) \<Longrightarrow> \<not> plain_event e"
  by (auto simp: event_anchors_def Let_def plain_event_def dest: find_SomeD dest!: in_set_takeD split: option.splits)

lemma filter_drop: "\<exists>m. filter P (drop n xs) = drop m (filter P xs)"
proof -
  have "filter P xs = filter P (take n xs) @ filter P (drop n xs)"
    by (metis append_take_drop_id filter_append)
  then show ?thesis by (intro exI[of _ "length (filter P (take n xs))"]) simp
qed

lemma filter_mem_drop: "distinct xs \<Longrightarrow> filter (\<lambda>e. e \<in> set (drop n xs)) xs = drop n xs"
proof -
  assume d: "distinct xs"
  then have disj: "set (take n xs) \<inter> set (drop n xs) = {}" by (rule set_take_disj_set_drop_if_distinct) simp
  have "filter (\<lambda>e. e \<in> set (drop n xs)) (take n xs @ drop n xs) = drop n xs"
    using disj by (auto simp del: append_take_drop_id simp: filter_empty_conv)
  then show ?thesis by simp
qed

text \<open>The window drops the oldest of the events that are no anchors.\<close>

lemma window_plain_suffix:
  assumes "distinct (map ev_id events)"
  shows "\<exists>m. filter plain_event (recentEventsProjection events) = drop m (filter plain_event events)"
proof (cases "length events \<le> 25")
  case True
  then show ?thesis by (intro exI[of _ 0]) (simp add: recentEventsProjection_def)
next
  case False
  define A where "A = event_anchors events"
  let ?free = "\<lambda>e. ev_id e \<notin> set (map ev_id A)"
  define rest where "rest = filter ?free events"
  define n where "n = length rest - (25 - length A)"
  have inj: "inj_on ev_id (set events)" and d: "distinct events" using assms by (simp_all add: distinct_map)
  have sub: "set A \<subseteq> set events" by (simp add: A_def event_anchors_subset)
  have proj: "recentEventsProjection events = filter (\<lambda>e. ev_id e \<in> set (map ev_id (A @ drop n rest))) events"
    using False by (simp add: recentEventsProjection_def Let_def A_def rest_def slice_last_def n_def)
  have free: "?free e" if "e \<in> set events" "plain_event e" for e
  proof
    assume "ev_id e \<in> set (map ev_id A)"
    then obtain x where x: "x \<in> set A" "ev_id e = ev_id x" by auto
    then have "e = x" using inj_onD[OF inj x(2)] that sub by blast
    with x(1) that(2) show False using anchors_not_plain A_def by blast
  qed
  have mem: "ev_id e \<in> set (map ev_id (A @ drop n rest)) \<longleftrightarrow> e \<in> set (drop n rest)"
    if "e \<in> set events" "plain_event e" for e
  proof -
    have "set (drop n rest) \<subseteq> set events" by (auto simp: rest_def dest: in_set_dropD)
    then have "ev_id e \<in> ev_id ` set (drop n rest) \<longleftrightarrow> e \<in> set (drop n rest)"
      using inj_on_image_mem_iff[OF inj that(1)] by blast
    then show ?thesis using free[OF that] by auto
  qed
  have rest_plain: "filter plain_event rest = filter plain_event events"
    using free by (auto simp: rest_def intro: filter_cong)
  have "filter plain_event (recentEventsProjection events) = filter (\<lambda>e. plain_event e \<and> e \<in> set (drop n rest)) events"
    using mem by (auto simp: proj intro: filter_cong)
  also have "\<dots> = filter (\<lambda>e. plain_event e \<and> e \<in> set (drop n rest)) rest"
    using free by (auto simp: rest_def intro!: filter_cong)
  also have "\<dots> = filter plain_event (filter (\<lambda>e. e \<in> set (drop n rest)) rest)" by (simp add: conj_commute)
  also have "\<dots> = filter plain_event (drop n rest)"
  proof -
    have "distinct rest" using d by (simp add: rest_def)
    from filter_mem_drop[OF this, of n] show ?thesis by simp
  qed
  finally show ?thesis using filter_drop[of plain_event n rest] rest_plain by simp
qed
text \<open>
  C35: The event window of a run record is bounded and keeps what callers rely on. For events with
  distinct identities, a history of more than 25 events is projected to exactly 25 of them, in
  their original order, and the first \<open>run_started\<close> event, the first two \<open>child_spawned\<close> events and
  the newest event of the history are among them; a shorter history is returned unchanged.
\<close>

theorem recent_events_window:
  assumes "distinct (map ev_id events)"
  shows "length (recentEventsProjection events) = min 25 (length events) \<and>
    (\<exists>P. recentEventsProjection events = filter P events) \<and>
    set (event_anchors events) \<subseteq> set (recentEventsProjection events) \<and>
    (events \<noteq> [] \<longrightarrow> last events \<in> set (recentEventsProjection events))"
  using assms by (rule window_facts)

definition sample_event :: "nat \<Rightarrow> run_public_event" where
  "sample_event i = \<lparr>ev_id = i, ev_schema_version = None,
     ev_kind = (if i = 1 then Kind_child else Kind_assistant),
     ev_event = (if i = 0 then Some Ev_run_started else if i = 1 then Some Ev_child_spawned else None),
     ev_text = ''text'', ev_occurred_at = ''2026-01-01T00:00:00.000Z'', ev_metadata = None\<rparr>"

theorem recent_events_window_witness:
  "length (recentEventsProjection (map sample_event [0..<40])) = 25"
proof -
  have "distinct (map ev_id (map sample_event [0..<40]))"
    by (simp add: sample_event_def comp_def)
  from recent_events_window[OF this] show ?thesis by simp
qed

end
