(* ===== verification/File_Store.thy ===== *)
theory File_Store
  imports Run_Types
begin

text \<open>
  Directories of small files as the owners of durable state use them: read a file, publish a new
  file under a name that must not exist (\<open>fs.link\<close> of a private temporary file, the source's
  \<open>writeAtomicCreate\<close> and \<open>publishJsonExclusive\<close>), replace a file by renaming over it
  (\<open>writeReplacement\<close>) and remove it. A file holds a JSON tree or text that \<open>JSON.parse\<close> rejects.
  The locale \<open>file_store\<close> states what the clients rely on; the directory model provides it.
\<close>

datatype file_content = JsonFile json | RawFile string

type_synonym directory = "(string \<times> file_content) list"

section \<open>The interface\<close>

locale file_store =
  fixes rd :: "'s \<Rightarrow> 'k \<Rightarrow> 'v option"
    and ln :: "'s \<Rightarrow> 'k \<Rightarrow> 'v \<Rightarrow> 's option"
    and rp :: "'s \<Rightarrow> 'k \<Rightarrow> 'v \<Rightarrow> 's"
    and rm :: "'s \<Rightarrow> 'k \<Rightarrow> 's"
  assumes ln_exists: "ln s k v = None \<longleftrightarrow> rd s k \<noteq> None"
    and ln_reads: "ln s k v = Some s' \<Longrightarrow> rd s' = (rd s)(k \<mapsto> v)"
    and rp_reads: "rd (rp s k v) = (rd s)(k \<mapsto> v)"
    and rm_reads: "rd (rm s k) = (rd s)(k := None)"
begin

lemma ln_fresh: "rd s k = None \<Longrightarrow> \<exists>s'. ln s k v = Some s' \<and> rd s' = (rd s)(k \<mapsto> v)"
  using ln_exists ln_reads by (cases "ln s k v") auto

lemma ln_other: "ln s k v = Some s' \<Longrightarrow> k' \<noteq> k \<Longrightarrow> rd s' k' = rd s k'"
  by (simp add: ln_reads)

text \<open>A name is published once: the first link wins and every later link fails.\<close>

lemma ln_once: "ln s k v = Some s' \<Longrightarrow> ln s' k w = None"
  by (simp add: ln_exists ln_reads)

lemma ln_keeps: "ln s k v = Some s' \<Longrightarrow> rd s k' = Some w \<Longrightarrow> rd s' k' = Some w"
  by (cases "k' = k") (use ln_exists[of s k v] in \<open>auto simp: ln_reads\<close>)

text \<open>Whatever links are attempted, in any order, a published file keeps its contents.\<close>

primrec link_all :: "'s \<Rightarrow> ('k \<times> 'v) list \<Rightarrow> 's" where
  "link_all s [] = s"
| "link_all s (kv # kvs) =
     link_all (case ln s (fst kv) (snd kv) of None \<Rightarrow> s | Some s' \<Rightarrow> s') kvs"

lemma link_all_keeps: "rd s k = Some v \<Longrightarrow> rd (link_all s kvs) k = Some v"
proof (induction kvs arbitrary: s)
  case (Cons kv kvs)
  have "rd (case ln s (fst kv) (snd kv) of None \<Rightarrow> s | Some s' \<Rightarrow> s') k = Some v"
    using Cons.prems by (auto split: option.split dest: ln_keeps)
  then show ?case by (simp add: Cons.IH)
qed simp

end

section \<open>Directories\<close>

definition dir_read :: "directory \<Rightarrow> string \<Rightarrow> file_content option" where
  "dir_read d n = map_of d n"

definition dir_link :: "directory \<Rightarrow> string \<Rightarrow> file_content \<Rightarrow> directory option" where
  "dir_link d n c = (if map_of d n = None then Some (d @ [(n, c)]) else None)"

fun dir_replace :: "directory \<Rightarrow> string \<Rightarrow> file_content \<Rightarrow> directory" where
  "dir_replace [] n c = [(n, c)]"
| "dir_replace ((m, b) # d) n c = (if m = n then (m, c) # d else (m, b) # dir_replace d n c)"

definition dir_remove :: "directory \<Rightarrow> string \<Rightarrow> directory" where
  "dir_remove d n = filter (\<lambda>(m, c). m \<noteq> n) d"

definition dir_wf :: "directory \<Rightarrow> bool" where
  "dir_wf d \<longleftrightarrow> distinct (map fst d)"

lemma dir_read_replace [store_simps]: "dir_read (dir_replace d n c) = (dir_read d)(n \<mapsto> c)"
  by (induction d n c rule: dir_replace.induct) (auto simp: dir_read_def fun_eq_iff)

lemma dir_read_link [store_simps]:
  "dir_link d n c = Some d' \<Longrightarrow> dir_read d' = (dir_read d)(n \<mapsto> c)"
  by (auto simp: dir_link_def dir_read_def map_add_def fun_eq_iff split: if_splits option.splits)

lemma dir_read_remove [store_simps]: "dir_read (dir_remove d n) = (dir_read d)(n := None)"
  by (auto simp: dir_read_def dir_remove_def map_of_filter_neq fun_eq_iff)

lemma fst_dir_replace: "set (map fst (dir_replace d n c)) = insert n (set (map fst d))"
  by (induction d n c rule: dir_replace.induct) auto

lemma dir_wf_replace [intro]: "dir_wf d \<Longrightarrow> dir_wf (dir_replace d n c)"
proof (induction d n c rule: dir_replace.induct)
  case (2 m b d n c)
  then show ?case using fst_dir_replace[of d n c] by (auto simp: dir_wf_def)
qed (simp add: dir_wf_def)

lemma dir_wf_link [intro]: "dir_wf d \<Longrightarrow> dir_link d n c = Some d' \<Longrightarrow> dir_wf d'"
  by (auto simp: dir_wf_def dir_link_def map_of_eq_None_iff split: if_splits)

lemma dir_wf_remove [intro]: "dir_wf d \<Longrightarrow> dir_wf (dir_remove d n)"
  by (auto simp: dir_wf_def dir_remove_def intro: distinct_map_filter)

lemma dir_wf_read: "dir_wf d \<Longrightarrow> (n, c) \<in> set d \<longleftrightarrow> dir_read d n = Some c"
  by (auto simp: dir_wf_def dir_read_def)

interpretation dir: file_store dir_read dir_link dir_replace dir_remove
  by unfold_locales (auto simp: store_simps dir_link_def dir_read_def)

section \<open>Reading JSON files\<close>

text \<open>\<open>JSON.parse(await fs.readFile(path, "utf8"))\<close>.\<close>

definition parse_file :: "file_content \<Rightarrow> json result" where
  "parse_file c = (case c of JsonFile v \<Rightarrow> Inr v | RawFile _ \<Rightarrow> Inl JsonSyntaxError)"

definition read_json_file :: "directory \<Rightarrow> string \<Rightarrow> json result" where
  "read_json_file d n =
     (case dir_read d n of None \<Rightarrow> Inl (ErrnoError ENOENT) | Some c \<Rightarrow> parse_file c)"

text \<open>\<open>readJson\<close> of the mailbox: a missing file reads as \<open>null\<close>.\<close>

definition readJson :: "directory \<Rightarrow> string \<Rightarrow> (json option) result" where
  "readJson d n =
     (case read_json_file d n of
        Inr v \<Rightarrow> Inr (Some v)
      | Inl e \<Rightarrow> if is_enoent e then Inr None else Inl e)"

text \<open>\<open>writeAtomicCreate\<close> and \<open>publishJsonExclusive\<close>: \<open>EEXIST\<close> when the name is taken.\<close>

definition write_atomic_create :: "directory \<Rightarrow> string \<Rightarrow> json \<Rightarrow> directory result" where
  "write_atomic_create d n v =
     (case dir_link d n (JsonFile v) of None \<Rightarrow> Inl (ErrnoError EEXIST) | Some d' \<Rightarrow> Inr d')"

lemma readJson_simps [simp]:
  "dir_read d n = None \<Longrightarrow> readJson d n = Inr None"
  "dir_read d n = Some (JsonFile v) \<Longrightarrow> readJson d n = Inr (Some v)"
  "dir_read d n = Some (RawFile r) \<Longrightarrow> readJson d n = Inl JsonSyntaxError"
  by (simp_all add: readJson_def read_json_file_def parse_file_def)

lemma write_atomic_create_Inr:
  "write_atomic_create d n v = Inr d' \<longleftrightarrow> dir_link d n (JsonFile v) = Some d'"
  by (auto simp: write_atomic_create_def split: option.splits)

lemma write_atomic_create_Inl:
  "write_atomic_create d n v = Inl e \<longleftrightarrow> dir_read d n \<noteq> None \<and> e = ErrnoError EEXIST"
  by (auto simp: write_atomic_create_def dir_link_def dir_read_def split: option.splits if_splits)

end
