(* ===== verification/Process_Liveness.thy ===== *)
theory Process_Liveness
  imports Prelude
begin

text \<open>
  \<open>src/processLiveness.ts\<close>, the question that every owner of an on-disk lock or lease asks about the
  process that wrote it.
\<close>

text \<open>\<open>processIsDefinitelyGone\<close>: \<open>esrch pid\<close> says whether \<open>process.kill(pid, 0)\<close> fails with \<open>ESRCH\<close>.\<close>

definition processIsDefinitelyGone :: "(int \<Rightarrow> bool) \<Rightarrow> rat \<Rightarrow> bool" where
  "processIsDefinitelyGone esrch pid =
     (if \<not> js_is_integer pid \<or> pid \<le> 0 then True else esrch \<lfloor>pid\<rfloor>)"

lemma own_process_not_gone: "1 \<le> pid \<Longrightarrow> \<not> esrch pid \<Longrightarrow> \<not> processIsDefinitelyGone esrch (of_int pid)"
  by (simp add: processIsDefinitelyGone_def)

end
