(* ===== verification/Claim_Lock.thy ===== *)
theory Claim_Lock
  imports File_Store Process_Liveness
begin

text \<open>
  The cross-process critical section of \<open>src/runClaimLock.ts\<close>. A call of \<open>withRunClaimLock\<close> is
  numbered; several calls may run in one process. The lock file is the owner record that the call
  linked, which its random nonce makes unique, so the file is modelled by the number of the call
  that wrote it. Every file-system call of the source is one atomic step, and the steps of
  different calls interleave freely; a process may die at any moment, which \<open>processIsDefinitelyGone\<close>
  (\<open>src/processLiveness.ts\<close>) then reports.
\<close>

section \<open>The owner record\<close>

definition owner_json :: "int \<Rightarrow> string \<Rightarrow> json" where
  "owner_json pid nonce =
     JObj [(''name'', JStr ''subagent007.run_claim_lock''), (''version'', JNum 1),
           (''pid'', JNum (of_int pid)), (''nonce'', JStr nonce)]"

definition decodeOwner :: "file_content \<Rightarrow> (int \<times> string) option" where
  "decodeOwner bytes =
     (case parse_file bytes of
        Inl _ \<Rightarrow> None
      | Inr value \<Rightarrow>
          (case (jget value ''name'', jget value ''version'', jget value ''pid'', jget value ''nonce'') of
             (Some (JStr name), Some (JNum version), Some (JNum pid), Some (JStr nonce)) \<Rightarrow>
               if name = ''subagent007.run_claim_lock'' \<and> version = 1 \<and> js_is_safe_integer pid \<and>
                  1 \<le> pid \<and> hex_string 24 nonce
               then Some (\<lfloor>pid\<rfloor>, nonce) else None
           | _ \<Rightarrow> None))"

lemma decodeOwner_owner_json:
  "1 \<le> pid \<Longrightarrow> pid \<le> js_max_safe_integer \<Longrightarrow> hex_string 24 nonce \<Longrightarrow>
   decodeOwner (JsonFile (owner_json pid nonce)) = Some (pid, nonce)"
  by (simp add: decodeOwner_def owner_json_def parse_file_def js_is_safe_integer_def)

section \<open>Calls as step machines\<close>

text \<open>The program counter of one call; the number is the loop variable \<open>attempt\<close>, the second
  component of \<open>Rechecking\<close> and \<open>Unlinking\<close> the owner bytes read first.\<close>

datatype lock_pc =
    Linking nat
  | Reading nat
  | Rechecking nat nat
  | Unlinking nat nat
  | Critical
  | Releasing
  | ReleaseUnlinking
  | Released
  | AcquireFailed
  | ReleaseFailed

record lock_sys =
  lock_file :: "nat option"
  lock_pcs :: "nat \<Rightarrow> lock_pc"
  gone :: "nat \<Rightarrow> bool"

definition lock_wait_attempts :: nat where
  "lock_wait_attempts = 400"

definition lock_init :: lock_sys where
  "lock_init = \<lparr>lock_file = None, lock_pcs = (\<lambda>_. Linking 0), gone = (\<lambda>_. False)\<rparr>"

text \<open>One iteration of the \<open>for\<close> loop ends and the next attempt, if any, begins.\<close>

definition next_attempt :: "nat \<Rightarrow> lock_pc" where
  "next_attempt n = (if Suc n < lock_wait_attempts then Linking (Suc n) else AcquireFailed)"

text \<open>\<open>tryRemoveDefinitelyAbandonedLock\<close>, step by step: the first read, the second read, the unlink.\<close>

definition try_remove_step :: "(nat \<Rightarrow> bool) \<Rightarrow> nat option \<Rightarrow> lock_pc \<Rightarrow> nat option \<times> lock_pc" where
  "try_remove_step owner_gone lock p =
     (case p of
        Reading n \<Rightarrow>
          (case lock of
             None \<Rightarrow> (lock, next_attempt n)
           | Some b \<Rightarrow> if owner_gone b then (lock, Rechecking n b) else (lock, next_attempt n))
      | Rechecking n b \<Rightarrow>
          (case lock of
             None \<Rightarrow> (lock, next_attempt n)
           | Some b' \<Rightarrow> if b' \<noteq> b then (lock, next_attempt n) else (lock, Unlinking n b))
      | Unlinking n b \<Rightarrow> (None, next_attempt n)
      | _ \<Rightarrow> (lock, p))"

text \<open>\<open>acquireRunClaimLock\<close> of call \<open>c\<close>: the link, or one step of the removal of an abandoned lock.\<close>

definition acquire_step :: "(nat \<Rightarrow> bool) \<Rightarrow> nat \<Rightarrow> nat option \<Rightarrow> lock_pc \<Rightarrow> nat option \<times> lock_pc" where
  "acquire_step owner_gone c lock p =
     (case p of
        Linking n \<Rightarrow> (case lock of None \<Rightarrow> (Some c, Critical) | Some _ \<Rightarrow> (lock, Reading n))
      | _ \<Rightarrow> try_remove_step owner_gone lock p)"

text \<open>\<open>releaseRunClaimLock\<close> of call \<open>c\<close>: compare the bytes, then unlink.\<close>

definition release_step :: "nat \<Rightarrow> nat option \<Rightarrow> lock_pc \<Rightarrow> nat option \<times> lock_pc" where
  "release_step c lock p =
     (case p of
        Releasing \<Rightarrow> (lock, if lock = Some c then ReleaseUnlinking else ReleaseFailed)
      | ReleaseUnlinking \<Rightarrow> (case lock of None \<Rightarrow> (None, ReleaseFailed) | Some _ \<Rightarrow> (None, Released))
      | _ \<Rightarrow> (lock, p))"

text \<open>\<open>withRunClaimLock\<close>: acquire, run the operation, release in the \<open>finally\<close>.\<close>

definition call_step :: "(nat \<Rightarrow> bool) \<Rightarrow> nat \<Rightarrow> nat option \<Rightarrow> lock_pc \<Rightarrow> nat option \<times> lock_pc" where
  "call_step owner_gone c lock p =
     (case p of
        Critical \<Rightarrow> (lock, Releasing)
      | Releasing \<Rightarrow> release_step c lock p
      | ReleaseUnlinking \<Rightarrow> release_step c lock p
      | _ \<Rightarrow> acquire_step owner_gone c lock p)"

lemmas call_step_defs = call_step_def acquire_step_def release_step_def try_remove_step_def

definition advance :: "(nat \<Rightarrow> nat) \<Rightarrow> nat \<Rightarrow> lock_sys \<Rightarrow> lock_sys" where
  "advance pid c s =
     (let (l, p) = call_step (\<lambda>b. gone s (pid b)) c (lock_file s) (lock_pcs s c)
      in s\<lparr>lock_file := l, lock_pcs := (lock_pcs s)(c := p)\<rparr>)"

text \<open>\<open>pid c\<close> is the process of call \<open>c\<close>. Only calls of living processes move.\<close>

datatype lock_event = Move nat | Die nat

inductive lock_step :: "(nat \<Rightarrow> nat) \<Rightarrow> lock_sys \<Rightarrow> lock_event \<Rightarrow> lock_sys \<Rightarrow> bool"
  for pid :: "nat \<Rightarrow> nat" where
  move: "\<not> gone s (pid c) \<Longrightarrow> lock_step pid s (Move c) (advance pid c s)"
| die: "lock_step pid s (Die p) (s\<lparr>gone := (gone s)(p := True)\<rparr>)"

inductive_cases lock_step_moveE: "lock_step pid s (Move c) t"
inductive_cases lock_step_dieE: "lock_step pid s (Die p) t"
inductive_simps lock_step_simps: "lock_step pid s e t"

inductive lock_run :: "(nat \<Rightarrow> nat) \<Rightarrow> lock_sys \<Rightarrow> lock_event list \<Rightarrow> lock_sys \<Rightarrow> bool"
  for pid :: "nat \<Rightarrow> nat" where
  run_nil: "lock_run pid s [] s"
| run_snoc: "lock_run pid s es t \<Longrightarrow> lock_step pid t e u \<Longrightarrow> lock_run pid s (es @ [e]) u"

section \<open>Mutual exclusion while no process dies\<close>

definition holds_lock :: "lock_pc \<Rightarrow> bool" where
  "holds_lock p \<longleftrightarrow> p = Critical \<or> p = Releasing \<or> p = ReleaseUnlinking"

text \<open>The lock file names exactly the call that is between its link and its unlink, and nobody is
  reclaiming: with all processes alive no owner is ever judged gone.\<close>

definition lock_inv :: "lock_sys \<Rightarrow> bool" where
  "lock_inv s \<longleftrightarrow>
     (\<forall>c. holds_lock (lock_pcs s c) \<longleftrightarrow> lock_file s = Some c) \<and>
     (\<forall>c n b. lock_pcs s c \<noteq> Rechecking n b \<and> lock_pcs s c \<noteq> Unlinking n b) \<and>
     (\<forall>p. \<not> gone s p)"

lemma holds_lock_simps [simp]:
  "holds_lock Critical" "holds_lock Releasing" "holds_lock ReleaseUnlinking"
  "\<not> holds_lock (Linking n)" "\<not> holds_lock (Reading n)" "\<not> holds_lock (Rechecking n b)"
  "\<not> holds_lock (Unlinking n b)" "\<not> holds_lock Released" "\<not> holds_lock AcquireFailed"
  "\<not> holds_lock ReleaseFailed" "\<not> holds_lock (next_attempt n)"
  by (simp_all add: holds_lock_def next_attempt_def)

lemma next_attempt_neq [simp]:
  "next_attempt n \<noteq> Rechecking m b" "next_attempt n \<noteq> Unlinking m b" "next_attempt n \<noteq> Critical"
  by (simp_all add: next_attempt_def)

lemma lock_inv_init: "lock_inv lock_init"
  by (simp add: lock_inv_def lock_init_def)

lemma lock_inv_advance: "lock_inv s \<Longrightarrow> lock_inv (advance pid c s)"
proof -
  assume inv: "lock_inv s"
  have own: "holds_lock (lock_pcs s d) \<longleftrightarrow> lock_file s = Some d" for d
    using inv by (simp add: lock_inv_def)
  have alive: "\<not> gone s p" for p using inv by (simp add: lock_inv_def)
  have calm: "lock_pcs s d \<noteq> Rechecking n b \<and> lock_pcs s d \<noteq> Unlinking n b" for d n b
    using inv by (simp add: lock_inv_def)
  show ?thesis
    using own own[of c] calm[of c] calm alive
    by (cases "lock_pcs s c"; cases "lock_file s")
       (auto simp: lock_inv_def advance_def call_step_defs)
qed

lemma lock_run_inv:
  "lock_run pid s es t \<Longrightarrow> lock_inv s \<Longrightarrow> (\<And>p. Die p \<notin> set es) \<Longrightarrow> lock_inv t"
proof (induction rule: lock_run.induct)
  case (run_snoc s es t e u)
  then have "lock_inv t" by simp
  moreover obtain c where "e = Move c" using run_snoc.prems(2) by (cases e) auto
  ultimately show ?case using run_snoc.hyps by (auto elim: lock_step_moveE intro: lock_inv_advance)
qed simp


section \<open>Reclaiming an abandoned lock\<close>

text \<open>Runs are evaluated event by event.\<close>

fun play :: "(nat \<Rightarrow> nat) \<Rightarrow> lock_event list \<Rightarrow> lock_sys \<Rightarrow> lock_sys option" where
  "play pid [] s = Some s"
| "play pid (Move c # es) s = (if gone s (pid c) then None else play pid es (advance pid c s))"
| "play pid (Die p # es) s = play pid es (s\<lparr>gone := (gone s)(p := True)\<rparr>)"

lemma lock_run_append: "lock_run pid t fs u \<Longrightarrow> lock_run pid s es t \<Longrightarrow> lock_run pid s (es @ fs) u"
proof (induction rule: lock_run.induct)
  case (run_snoc t fs v e u)
  then show ?case using lock_run.run_snoc[of pid s "es @ fs" v e u] by simp
qed simp

lemma lock_run_Cons: "lock_step pid s e t \<Longrightarrow> lock_run pid t es u \<Longrightarrow> lock_run pid s (e # es) u"
  using lock_run_append[of pid t es u s "[e]"] lock_run.run_snoc[of pid s "[]" s e t] run_nil by simp

lemma play_run: "play pid es s = Some t \<Longrightarrow> lock_run pid s es t"
proof (induction pid es s rule: play.induct)
  case (1 pid s)
  then show ?case by (simp add: run_nil)
next
  case (2 pid c es s)
  then show ?case by (auto split: if_splits intro: lock_run_Cons move)
next
  case (3 pid p es s)
  then show ?case by (auto intro: lock_run_Cons die)
qed


text \<open>
  C32: Reclaiming an abandoned lock is not safe under contention. After one owner has died, two
  later calls can both find its bytes, both recheck them, and then the second \<open>fs.unlink\<close> removes
  the lock that the first call has linked in the meantime: both calls, of two living processes,
  are inside the critical section. The recheck of the bytes and the unlink are two file-system
  calls, and nothing binds the unlink to the file that was checked.
\<close>

theorem claim_lock_reclaim_race:
  "\<exists>es s. lock_run id lock_init es s \<and> lock_pcs s 1 = Critical \<and> lock_pcs s 2 = Critical \<and>
     \<not> gone s 1 \<and> \<not> gone s 2 \<and> (\<forall>p. Die p \<in> set es \<longleftrightarrow> p = 0)"
proof -
  let ?es = "[Move 0, Die 0, Move 1, Move 1, Move 1, Move 2, Move 2, Move 2,
              Move 1, Move 1, Move 2, Move 2]"
  let ?t = "play id ?es lock_init"
  have "?t = Some \<lparr>lock_file = Some 2,
      lock_pcs = (\<lambda>_. Linking 0)(0 := Critical, 1 := Critical, 2 := Critical),
      gone = (\<lambda>_. False)(0 := True)\<rparr>"
    by (simp add: lock_init_def advance_def call_step_defs next_attempt_def lock_wait_attempts_def
        fun_upd_twist)
  from play_run[OF this] show ?thesis by (intro exI[of _ ?es] exI conjI) (assumption, auto)
qed

section \<open>Every call comes to an end\<close>

text \<open>What is left of the attempts, and of the steps of one attempt.\<close>

fun lock_rank :: "lock_pc \<Rightarrow> nat" where
  "lock_rank (Linking n) = 8 + 4 * (lock_wait_attempts - n)"
| "lock_rank (Reading n) = 7 + 4 * (lock_wait_attempts - n)"
| "lock_rank (Rechecking n b) = 6 + 4 * (lock_wait_attempts - n)"
| "lock_rank (Unlinking n b) = 5 + 4 * (lock_wait_attempts - n)"
| "lock_rank Critical = 3"
| "lock_rank Releasing = 2"
| "lock_rank ReleaseUnlinking = 1"
| "lock_rank _ = 0"

definition settled :: "lock_pc \<Rightarrow> bool" where
  "settled p \<longleftrightarrow> p = Released \<or> p = AcquireFailed \<or> p = ReleaseFailed"

lemma call_step_rank:
  "\<not> settled p \<Longrightarrow> lock_rank (snd (call_step g c l p)) < lock_rank p"
  by (cases p) (auto simp: settled_def call_step_defs next_attempt_def split: option.splits)

fun own_steps :: "(nat \<Rightarrow> nat \<Rightarrow> bool) \<Rightarrow> nat \<Rightarrow> (nat \<Rightarrow> nat option) \<Rightarrow> nat \<Rightarrow> lock_pc" where
  "own_steps g c l 0 = Linking 0"
| "own_steps g c l (Suc i) = snd (call_step (g i) c (l i) (own_steps g c l i))"

lemma settled_stays: "settled p \<Longrightarrow> snd (call_step g c l p) = p"
  by (auto simp: settled_def call_step_defs)

lemma own_steps_rank:
  "settled (own_steps g c l i) \<or> lock_rank (own_steps g c l i) + i \<le> 1608"
proof (induction i)
  case 0
  then show ?case by (simp add: lock_wait_attempts_def)
next
  case (Suc i)
  show ?case
  proof (cases "settled (own_steps g c l i)")
    case True
    then show ?thesis by (simp add: settled_stays)
  next
    case False
    then show ?thesis using Suc call_step_rank[OF False, of "g i" c "l i"] by simp
  qed
qed

text \<open>
  C33: A call never waits forever for the lock. Whatever the other calls do to the lock file and
  whichever owners they find gone between its steps, a call is settled - it has run its operation
  and released, or it has thrown - after at most 1608 of its own steps; the lock contents it sees
  at its \<open>i\<close>-th step are the arbitrary \<open>l i\<close> and \<open>g i\<close>.
\<close>

theorem claim_lock_call_settles: "settled (own_steps g c l 1608)"
proof -
  have "lock_rank p = 0 \<Longrightarrow> settled p" for p by (cases p) (auto simp: settled_def)
  then show ?thesis using own_steps_rank[of g c l 1608] by auto
qed

end
