(* ===== verification/Canonical_Json.thy ===== *)
theory Canonical_Json
  imports File_Store
begin

text \<open>
  The canonical JSON texts that identity digests are computed over. The source has three
  serialisers: \<open>canonicalJson\<close> of \<open>src/clientStartAdmission.ts\<close>, which sorts the keys of a tree and
  then calls \<open>JSON.stringify\<close>, and the direct recursive printers of \<open>src/researchDispatchMediator.ts\<close>
  and \<open>src/recursiveControl.ts\<close>. \<open>JSON.stringify\<close> of the language is written out for strings, with
  its escapes; the text of a number is the parameter \<open>num\<close>. Keys that read as array indices, which
  JavaScript enumerates first, do not occur in the requests the code digests.
\<close>

section \<open>JSON.stringify\<close>

definition hex_digit :: "nat \<Rightarrow> char" where
  "hex_digit n = char_of (if n < 10 then 48 + n else 87 + n)"

definition escape_char :: "char \<Rightarrow> string" where
  "escape_char c =
     (let n = of_char c :: nat; bs = char_of (92 :: nat); dq = char_of (34 :: nat) in
      if n = 34 then [bs, dq]
      else if n = 92 then [bs, bs]
      else if n = 8 then [bs, CHR ''b'']
      else if n = 9 then [bs, CHR ''t'']
      else if n = 10 then [bs, CHR ''n'']
      else if n = 12 then [bs, CHR ''f'']
      else if n = 13 then [bs, CHR ''r'']
      else if n < 32 then [bs, CHR ''u'', CHR ''0'', CHR ''0'', hex_digit (n div 16), hex_digit (n mod 16)]
      else [c])"

definition quote_text :: "string \<Rightarrow> string" where
  "quote_text s = [char_of (34 :: nat)] @ concat (map escape_char s) @ [char_of (34 :: nat)]"

fun comma_join :: "string list \<Rightarrow> string" where
  "comma_join [] = []"
| "comma_join [x] = x"
| "comma_join (x # y # ys) = x @ '','' @ comma_join (y # ys)"

fun json_text :: "(rat \<Rightarrow> string) \<Rightarrow> json \<Rightarrow> string" where
  "json_text num JNull = ''null''"
| "json_text num (JBool b) = (if b then ''true'' else ''false'')"
| "json_text num (JNum x) = num x"
| "json_text num (JStr s) = quote_text s"
| "json_text num (JArr vs) = ''['' @ comma_join (map (json_text num) vs) @ '']''"
| "json_text num (JObj kvs) =
     ''{'' @ comma_join (map (\<lambda>(k, v). quote_text k @ '':'' @ json_text num v) kvs) @ ''}''"

subsection \<open>Texts of strings can be read back\<close>

definition hex_value :: "char \<Rightarrow> nat" where
  "hex_value c = (if is_digit c then of_char c - 48 else of_char c - 87)"

fun unescape :: "string \<Rightarrow> (char \<times> string) option" where
  "unescape [] = None"
| "unescape (c # r) =
     (if of_char c \<noteq> (92 :: nat) then Some (c, r)
      else
        (case r of
           [] \<Rightarrow> None
         | d # r' \<Rightarrow>
             if of_char d = (98 :: nat) then Some (char_of (8 :: nat), r')
             else if of_char d = (116 :: nat) then Some (char_of (9 :: nat), r')
             else if of_char d = (110 :: nat) then Some (char_of (10 :: nat), r')
             else if of_char d = (102 :: nat) then Some (char_of (12 :: nat), r')
             else if of_char d = (114 :: nat) then Some (char_of (13 :: nat), r')
             else if of_char d = (117 :: nat) then
               (case r' of
                  z1 # z2 # h # l # r'' \<Rightarrow> Some (char_of (hex_value h * 16 + hex_value l), r'')
                | _ \<Rightarrow> None)
             else Some (d, r')))"

lemma hex_value_digit [simp]: "n < 16 \<Longrightarrow> hex_value (hex_digit n) = n"
  by (auto simp: hex_value_def hex_digit_def is_digit_def of_char_of)

lemma char_of_of_char_eq: "of_char c = (n :: nat) \<Longrightarrow> char_of n = c"
  by auto

lemma unescape_escape: "unescape (escape_char c @ r) = Some (c, r)"
proof -
  have whole: "char_of (of_char c div 16 * 16 + of_char c mod 16 :: nat) = c"
    by (simp only: div_mult_mod_eq char_of_char)
  show ?thesis
    using whole by (auto simp: escape_char_def Let_def of_char_of dest: char_of_of_char_eq)
qed

lemma escape_char_append [simp]:
  "escape_char c @ r = escape_char d @ r' \<longleftrightarrow> c = d \<and> r = r'"
  by (metis unescape_escape option.inject prod.inject)

lemma escape_char_head: "\<exists>x xs. escape_char c = x # xs \<and> of_char x \<noteq> (34 :: nat)"
  by (auto simp: escape_char_def Let_def of_char_of)

lemma escaped_text_inject:
  "concat (map escape_char s) @ char_of (34 :: nat) # r = concat (map escape_char t) @ char_of (34 :: nat) # r' \<Longrightarrow>
   s = t \<and> r = r'"
proof (induction s arbitrary: t)
  case Nil
  show ?case
  proof (cases t)
    case (Cons d t')
    obtain x xs where "escape_char d = x # xs" "of_char x \<noteq> (34 :: nat)" using escape_char_head by blast
    with Nil Cons show ?thesis by auto
  qed (use Nil in auto)
next
  case (Cons c s)
  show ?case
  proof (cases t)
    case Nil
    obtain x xs where "escape_char c = x # xs" "of_char x \<noteq> (34 :: nat)" using escape_char_head by blast
    with Nil Cons.prems show ?thesis by auto
  next
    case (Cons d t')
    with Cons.prems have "escape_char c @ concat (map escape_char s) @ char_of (34 :: nat) # r =
        escape_char d @ concat (map escape_char t') @ char_of (34 :: nat) # r'" by simp
    then have "c = d" "concat (map escape_char s) @ char_of (34 :: nat) # r =
        concat (map escape_char t') @ char_of (34 :: nat) # r'"
      unfolding escape_char_append by simp_all
    with Cons.IH \<open>t = d # t'\<close> show ?thesis by blast
  qed
qed

lemma quote_text_append [simp]:
  "quote_text s @ r = quote_text t @ r' \<longleftrightarrow> s = t \<and> r = r'"
  using escaped_text_inject[of s r t r'] by (auto simp: quote_text_def)

lemma quote_text_inject [simp]: "quote_text s = quote_text t \<longleftrightarrow> s = t"
  using quote_text_append[of s "[]" t "[]"] by simp

section \<open>Canonical values\<close>

fun canonicalValue :: "json \<Rightarrow> json" where
  "canonicalValue (JArr vs) = JArr (map canonicalValue vs)"
| "canonicalValue (JObj kvs) = JObj (map (\<lambda>(k, v). (k, canonicalValue v)) (sort_key fst kvs))"
| "canonicalValue v = v"

definition canonicalJson :: "(rat \<Rightarrow> string) \<Rightarrow> json \<Rightarrow> string" where
  "canonicalJson num v = json_text num (canonicalValue v)"

text \<open>The printers of the mediator and of the recursive control.\<close>

fun mediatorCanonicalJson :: "(rat \<Rightarrow> string) \<Rightarrow> json \<Rightarrow> string" where
  "mediatorCanonicalJson num (JArr vs) = ''['' @ comma_join (map (mediatorCanonicalJson num) vs) @ '']''"
| "mediatorCanonicalJson num (JObj kvs) =
     ''{'' @ comma_join (map (\<lambda>(k, v). quote_text k @ '':'' @ mediatorCanonicalJson num v) (sort_key fst kvs)) @ ''}''"
| "mediatorCanonicalJson num v = json_text num v"

fun canonicalRecursiveRequestJson :: "(rat \<Rightarrow> string) \<Rightarrow> json \<Rightarrow> string" where
  "canonicalRecursiveRequestJson num (JArr vs) =
     ''['' @ comma_join (map (canonicalRecursiveRequestJson num) vs) @ '']''"
| "canonicalRecursiveRequestJson num (JObj kvs) =
     ''{'' @ comma_join (map (\<lambda>(k, v). quote_text k @ '':'' @ canonicalRecursiveRequestJson num v)
                          (sort_key fst kvs)) @ ''}''"
| "canonicalRecursiveRequestJson num v = json_text num v"

subsection \<open>Sorting by key\<close>

lemma insort_key_map_snd:
  "insort_key fst (k, f v) (map (\<lambda>(k, v). (k, f v)) xs) = map (\<lambda>(k, v). (k, f v)) (insort_key fst (k, v) xs)"
  by (induction xs) auto

lemma sort_key_map_snd:
  "sort_key fst (map (\<lambda>(k, v). (k, f v)) xs) = map (\<lambda>(k, v). (k, f v)) (sort_key fst xs)"
  by (induction xs) (auto simp: insort_key_map_snd)

lemma distinct_fst_sort_key: "distinct (map fst xs) \<Longrightarrow> distinct (map fst (sort_key fst xs))"
  by (simp add: distinct_map)

lemma sort_key_fst_unique:
  fixes xs ys :: "(('k :: linorder) \<times> 'v) list"
  assumes "distinct (map fst xs)" and "distinct (map fst ys)" and "set xs = set ys"
  shows "sort_key fst xs = sort_key fst ys"
proof (rule map_sorted_distinct_set_unique)
  show "inj_on fst (set (sort_key fst xs) \<union> set (sort_key fst ys))"
    using assms by (simp add: distinct_map)
qed (use assms distinct_fst_sort_key in auto)

lemma sort_key_idem [simp]: "sort_key fst (sort_key fst xs) = sort_key fst xs"
  by (simp add: sort_key_id_if_sorted)

lemma canonicalValue_idem: "canonicalValue (canonicalValue v) = canonicalValue v"
proof (induction v rule: canonicalValue.induct)
  case (2 kvs)
  then show ?case by (auto simp: sort_key_map_snd)
qed simp_all

text \<open>
  The canonical text of a JSON object does not depend on the order in which its properties
  were written, at the top level or below: two objects with the same properties up to the
  canonical form of their values, each key once, have the same canonical text, and a canonical
  value is its own canonical form. So an exact request replayed with reordered fields has the
  digest of the original.
\<close>

theorem canonical_json_key_order:
  assumes "distinct (map fst kvs)" and "distinct (map fst kvs')"
    and "(\<lambda>(k, v). (k, canonicalValue v)) ` set kvs = (\<lambda>(k, v). (k, canonicalValue v)) ` set kvs'"
  shows "canonicalJson num (JObj kvs) = canonicalJson num (JObj kvs') \<and>
    canonicalValue (canonicalValue (JObj kvs)) = canonicalValue (JObj kvs)"
proof -
  let ?c = "map (\<lambda>(k, v). (k, canonicalValue v))"
  have keys: "map fst (?c xs) = map fst xs" for xs :: "(string \<times> json) list" by (induction xs) auto
  have "distinct (map fst (?c kvs))" and "distinct (map fst (?c kvs'))"
    unfolding keys by (rule assms(1), rule assms(2))
  moreover have "set (?c kvs) = set (?c kvs')" using assms(3) by simp
  ultimately have "sort_key fst (?c kvs) = sort_key fst (?c kvs')"
    by (rule sort_key_fst_unique)
  then have "canonicalValue (JObj kvs) = canonicalValue (JObj kvs')"
    by (simp add: sort_key_map_snd)
  then show ?thesis by (simp only: canonicalJson_def canonicalValue_idem)
qed

theorem canonical_json_key_order_witness:
  "canonicalJson (\<lambda>_. ''0'') (JObj [(''prompt'', JStr ''x''), (''cwd'', JObj [(''b'', JNull), (''a'', JNull)])])
   = canonicalJson (\<lambda>_. ''0'') (JObj [(''cwd'', JObj [(''a'', JNull), (''b'', JNull)]), (''prompt'', JStr ''x'')])"
proof -
  let ?l = "[(''prompt'', JStr ''x''), (''cwd'', JObj [(''b'', JNull), (''a'', JNull)])]"
  let ?r = "[(''cwd'', JObj [(''a'', JNull), (''b'', JNull)]), (''prompt'', JStr ''x'')]"
  have 1: "distinct (map fst ?l)" and 2: "distinct (map fst ?r)" by simp_all
  have 3: "(\<lambda>(k, v). (k, canonicalValue v)) ` set ?l = (\<lambda>(k, v). (k, canonicalValue v)) ` set ?r"
    by (auto simp: less_list_code)
  show ?thesis using canonical_json_key_order[OF 1 2 3, of "\<lambda>_. ''0''"] by blast
qed

lemma json_text_canonical:
  "mediatorCanonicalJson num v = json_text num (canonicalValue v)"
proof (induction num v rule: mediatorCanonicalJson.induct)
  case (1 num vs)
  then have "map (mediatorCanonicalJson num) vs = map (json_text num) (map canonicalValue vs)" by simp
  then show ?case by (simp only: mediatorCanonicalJson.simps canonicalValue.simps json_text.simps)
next
  case (2 num kvs)
  then have "map (\<lambda>(k, v). quote_text k @ '':'' @ mediatorCanonicalJson num v) (sort_key fst kvs) =
      map (\<lambda>(k, v). quote_text k @ '':'' @ json_text num v)
        (map (\<lambda>(k, v). (k, canonicalValue v)) (sort_key fst kvs))" by auto
  then show ?case by (simp only: mediatorCanonicalJson.simps canonicalValue.simps json_text.simps)
qed simp_all

lemma recursive_text_mediator:
  "canonicalRecursiveRequestJson num v = mediatorCanonicalJson num v"
proof (induction num v rule: canonicalRecursiveRequestJson.induct)
  case (1 num vs)
  then have "map (canonicalRecursiveRequestJson num) vs = map (mediatorCanonicalJson num) vs" by simp
  then show ?case by (simp only: mediatorCanonicalJson.simps canonicalRecursiveRequestJson.simps)
next
  case (2 num kvs)
  then have "map (\<lambda>(k, v). quote_text k @ '':'' @ canonicalRecursiveRequestJson num v) (sort_key fst kvs) =
      map (\<lambda>(k, v). quote_text k @ '':'' @ mediatorCanonicalJson num v) (sort_key fst kvs)" by auto
  then show ?case by (simp only: mediatorCanonicalJson.simps canonicalRecursiveRequestJson.simps)
qed simp_all

text \<open>
  The three canonical serialisers of the code agree on every JSON value: the digest inputs
  that the start admission, the dispatch mediator and the recursive control compute are the same
  text.
\<close>

theorem canonical_serialisers_agree:
  "mediatorCanonicalJson num v = canonicalJson num v \<and>
   canonicalRecursiveRequestJson num v = canonicalJson num v"
  by (simp add: recursive_text_mediator json_text_canonical canonicalJson_def)

end
