(* ===== verification/Skill_Binding.thy ===== *)
theory Skill_Binding
  imports Run_Types
begin

text \<open>
  Skill names, \<open>src/skillBinding.ts\<close>: the structured \<open>skill_name\<close> field and the refusal of a prompt
  whose first line invokes a skill by text. The four patterns are matched as the regular expressions
  do, trying every length of the name; for the two prefix patterns a lemma gives the simple test.
\<close>

section \<open>Names\<close>

definition is_name_char :: "char \<Rightarrow> bool" where
  "is_name_char c \<longleftrightarrow> is_alnum c \<or> c = CHR ''_'' \<or> c = CHR ''-''"

definition name_segment_ok :: "string \<Rightarrow> bool" where
  "name_segment_ok s \<longleftrightarrow> s \<noteq> [] \<and> is_alnum (hd s) \<and> list_all is_name_char (tl s)"

text \<open>\<open>SKILL_NAME_PATTERN\<close> of \<open>src/skillBinding.ts\<close>: one segment, or two around a colon.\<close>

definition skill_name_ok :: "string \<Rightarrow> bool" where
  "skill_name_ok s \<longleftrightarrow>
     name_segment_ok s \<or>
     (let a = takeWhile (\<lambda>c. c \<noteq> CHR '':'') s; b = drop (length a) s
      in b \<noteq> [] \<and> name_segment_ok a \<and> name_segment_ok (tl b))"

definition skill_name_error :: string where
  "skill_name_error = ''skill_name must be a bare skill name such as pda-lite or plugin:skill-name; pass pda-lite, not $pda-lite, /skill:pda-lite, a path, markdown link, or prose''"

text \<open>\<open>None\<close> is \<open>undefined\<close>.\<close>

definition validateSkillName :: "json option \<Rightarrow> string \<Rightarrow> string option result" where
  "validateSkillName value key =
     (case value of
        None \<Rightarrow> Inr None
      | Some JNull \<Rightarrow> Inr None
      | Some (JStr s) \<Rightarrow>
          if skill_name_ok s then Inr (Some s) else Inl (ValidationError skill_name_error Rc_invalid_skill)
      | Some _ \<Rightarrow> Inl (ValidationError (key @ '' must be a string or null'') Rc_invalid_skill))"

section \<open>Skill invocations in prose\<close>

text \<open>\<open>(?:\b|\s|$)\<close> after \<open>n\<close> characters of \<open>s\<close>, of which the last is \<open>s ! (n - 1)\<close>.\<close>

definition ends_token :: "string \<Rightarrow> nat \<Rightarrow> bool" where
  "ends_token s n \<longleftrightarrow>
     (case drop n s of
        [] \<Rightarrow> True
      | c # _ \<Rightarrow> js_space c \<or> word_char c \<noteq> word_char (s ! (n - 1)))"

text \<open>A name at the start of \<open>s\<close>, followed by the end of a token.\<close>

definition name_token :: "string \<Rightarrow> bool" where
  "name_token s \<longleftrightarrow> list_ex (\<lambda>n. skill_name_ok (take n s) \<and> ends_token s n) [1..<Suc (length s)]"

definition match_slash_skill :: "string \<Rightarrow> bool" where
  "match_slash_skill s \<longleftrightarrow> starts_with ''/skill:'' s \<and> name_token (drop 7 s)"

definition match_dollar_skill :: "string \<Rightarrow> bool" where
  "match_dollar_skill s \<longleftrightarrow> starts_with ''$'' s \<and> name_token (drop 1 s)"

text \<open>\<open>[$name](target)\<close>, the target non-empty and without a closing parenthesis.\<close>

definition match_link_skill :: "string \<Rightarrow> bool" where
  "match_link_skill s \<longleftrightarrow>
     starts_with ''[$'' s \<and>
     (let r = drop 2 s in
      list_ex (\<lambda>n. skill_name_ok (take n r) \<and>
        (let t = drop n r; target = takeWhile (\<lambda>c. c \<noteq> CHR '')'') (drop 2 t) in
         starts_with ''](''  t \<and> target \<noteq> [] \<and> length target < length (drop 2 t)))
        [1..<Suc (length r)])"

definition match_verb_skill :: "string \<Rightarrow> bool" where
  "match_verb_skill s \<longleftrightarrow>
     list_ex (\<lambda>verb. starts_with_ci verb s \<and>
       (let r = drop (length verb) s; t = dropWhile js_space r in
        length t < length r \<and> starts_with ''$'' t \<and> name_token (drop 1 t)))
       [''use'', ''run'', ''invoke'']"

definition trim_start :: "string \<Rightarrow> string" where
  "trim_start s = dropWhile js_space s"

definition trim_end :: "string \<Rightarrow> string" where
  "trim_end s = rev (dropWhile js_space (rev s))"

text \<open>\<open>prompt.trimStart().split(/\r?\n/, 1)[0].trimEnd()\<close>; the carriage return before a line feed is
  white space that \<open>trimEnd\<close> drops.\<close>

definition first_line :: "string \<Rightarrow> string" where
  "first_line prompt = trim_end (takeWhile (\<lambda>c. of_char c \<noteq> (10 :: nat)) (trim_start prompt))"

definition unstructured_skill_invocation :: "string \<Rightarrow> bool" where
  "unstructured_skill_invocation line \<longleftrightarrow>
     match_slash_skill line \<or> match_dollar_skill line \<or> match_link_skill line \<or> match_verb_skill line"

definition assertNoUnstructuredSkillInvocation :: "string \<Rightarrow> string option \<Rightarrow> unit result" where
  "assertNoUnstructuredSkillInvocation prompt resolvedSkill =
     (if resolvedSkill \<noteq> None then Inr ()
      else if unstructured_skill_invocation (first_line prompt)
      then Inl (ValidationError ''Pass skill_name instead of putting skill invocation syntax in prompt.''
             Rc_invalid_skill)
      else Inr ())"

definition resolveSkillBinding :: "json option \<Rightarrow> string \<Rightarrow> string option result" where
  "resolveSkillBinding skill_name prompt =
     (case validateSkillName skill_name ''skill_name'' of
        Inl e \<Rightarrow> Inl e
      | Inr resolved \<Rightarrow>
          (case assertNoUnstructuredSkillInvocation prompt resolved of
             Inl e \<Rightarrow> Inl e
           | Inr _ \<Rightarrow> Inr resolved))"

definition skillBindingForPublicMarker :: "json option \<Rightarrow> string option" where
  "skillBindingForPublicMarker skill_name =
     (case skill_name of
        Some (JStr s) \<Rightarrow> if blank s then None else Some (js_trim s)
      | _ \<Rightarrow> None)"

section \<open>Properties\<close>

lemma validateSkillName_Inr:
  "validateSkillName v k = Inr (Some s) \<longleftrightarrow> v = Some (JStr s) \<and> skill_name_ok s"
  by (auto simp: validateSkillName_def split: option.splits json.splits if_splits)

lemma word_char_name: "word_char c \<Longrightarrow> is_name_char c"
  by (auto simp: word_char_def is_name_char_def)

lemma alnum_word: "is_alnum c \<Longrightarrow> word_char c"
  by (simp add: word_char_def)

text \<open>A name token starts at every letter or digit: the name may end where the word does.\<close>

lemma name_token_iff: "name_token s \<longleftrightarrow> s \<noteq> [] \<and> is_alnum (hd s)"
proof
  assume "name_token s"
  then obtain n where n: "1 \<le> n" "n \<le> length s" "skill_name_ok (take n s)"
    by (auto simp: name_token_def list_ex_iff)
  then have "s \<noteq> []" and "take n s \<noteq> []" by auto
  moreover have "hd (take n s) = hd s" using n by simp
  moreover have "is_alnum (hd (take n s))"
  proof -
    let ?t = "take n s" and ?a = "takeWhile (\<lambda>c. c \<noteq> CHR '':'') (take n s)"
    have "name_segment_ok ?t \<or> name_segment_ok ?a"
      using n(3) by (auto simp: skill_name_ok_def Let_def)
    moreover have "?a \<noteq> [] \<Longrightarrow> hd ?a = hd ?t" by (cases ?t) auto
    ultimately show ?thesis by (auto simp: name_segment_ok_def)
  qed
  ultimately show "s \<noteq> [] \<and> is_alnum (hd s)" by simp
next
  assume s: "s \<noteq> [] \<and> is_alnum (hd s)"
  let ?w = "takeWhile word_char s"
  define n where "n = length ?w"
  have w: "take n s = ?w" by (simp add: n_def takeWhile_eq_take[symmetric])
  from s have ne: "?w \<noteq> []" by (cases s) (auto simp: alnum_word)
  have "name_segment_ok ?w"
  proof -
    from s obtain c r where cr: "s = c # r" "is_alnum c" by (cases s) auto
    then have "?w = c # takeWhile word_char r" by (simp add: alnum_word)
    moreover have "list_all is_name_char (takeWhile word_char r)"
      unfolding list_all_iff by (blast dest: set_takeWhileD intro: word_char_name)
    ultimately show ?thesis using cr(2) by (simp add: name_segment_ok_def)
  qed
  then have "skill_name_ok (take n s)" by (simp add: w skill_name_ok_def)
  moreover have "ends_token s n"
  proof (cases "drop n s")
    case Nil
    then show ?thesis by (simp add: ends_token_def)
  next
    case (Cons c r)
    have "drop n s = dropWhile word_char s"
      unfolding n_def by (rule dropWhile_eq_drop[symmetric])
    with Cons have dw: "dropWhile word_char s = c # r" by simp
    have "\<not> word_char c" using hd_dropWhile[of word_char s] dw by simp
    moreover have "word_char (s ! (n - 1))"
    proof -
      have lt: "n - 1 < length ?w" using ne by (simp add: n_def)
      have "?w ! (n - 1) \<in> set ?w" using lt by (rule nth_mem)
      then have "word_char (?w ! (n - 1))" by (blast dest: set_takeWhileD)
      then show ?thesis by (simp only: takeWhile_nth[OF lt])
    qed
    ultimately show ?thesis by (simp add: ends_token_def Cons)
  qed
  moreover have "1 \<le> n" "n \<le> length s" using ne by (auto simp: n_def length_takeWhile_le Suc_leI)
  ultimately show "name_token s" by (auto simp: name_token_def list_ex_iff intro!: bexI[of _ n])
qed

lemma resolve_None_iff:
  "resolveSkillBinding v prompt = Inr None \<longleftrightarrow>
     (v = None \<or> v = Some JNull) \<and> \<not> unstructured_skill_invocation (first_line prompt)"
  by (auto simp: resolveSkillBinding_def validateSkillName_def assertNoUnstructuredSkillInvocation_def
      split: option.splits json.splits if_splits)

lemma resolve_Some_iff:
  "resolveSkillBinding v prompt = Inr (Some s) \<longleftrightarrow> v = Some (JStr s) \<and> skill_name_ok s"
  by (auto simp: resolveSkillBinding_def validateSkillName_def assertNoUnstructuredSkillInvocation_def
      split: option.splits json.splits if_splits)

lemma takeWhile_append_stop: "\<not> P x \<Longrightarrow> takeWhile P (xs @ x # ys) = takeWhile P xs"
  by (induction xs) auto

lemma first_line_append:
  assumes "\<not> blank prompt"
  shows "first_line (prompt @ char_of (10 :: nat) # rest) = first_line prompt"
proof -
  from assms obtain x where "x \<in> set (dropWhile js_space prompt)" "\<not> js_space x"
    by (auto simp: blank_def js_trim_def)
  then have "x \<in> set prompt" by (blast dest: set_dropWhileD)
  from dropWhile_append1[OF this] \<open>\<not> js_space x\<close>
  have "trim_start (prompt @ char_of (10 :: nat) # rest) = trim_start prompt @ char_of (10 :: nat) # rest"
    by (simp add: trim_start_def)
  then show ?thesis by (simp add: first_line_def takeWhile_append_stop)
qed

text \<open>
  A skill can only be bound by its structured name. Binding succeeds with a skill exactly when
  the request carried that name and it is a well-formed bare name, and without one exactly when no
  name was given and the first line of the prompt is no textual invocation. A line that starts with
  \<open>$\<close> or \<open>/skill:\<close> before a letter or a digit is one whatever follows, and what follows the first
  line of the prompt never matters.
\<close>

theorem skill_binding_is_structured:
  "(resolveSkillBinding v prompt = Inr (Some s) \<longleftrightarrow> v = Some (JStr s) \<and> skill_name_ok s) \<and>
   (resolveSkillBinding v prompt = Inr None \<longleftrightarrow>
      (v = None \<or> v = Some JNull) \<and> \<not> unstructured_skill_invocation (first_line prompt)) \<and>
   (is_alnum c \<longrightarrow> unstructured_skill_invocation (CHR ''$'' # c # r) \<and>
      unstructured_skill_invocation (''/skill:'' @ c # r)) \<and>
   (\<not> blank prompt \<longrightarrow> first_line (prompt @ char_of (10 :: nat) # rest) = first_line prompt)"
  using first_line_append[of prompt rest]
  by (auto simp: resolve_None_iff resolve_Some_iff unstructured_skill_invocation_def match_dollar_skill_def
      match_slash_skill_def name_token_iff starts_with_def)

theorem skill_binding_is_structured_witness:
  "resolveSkillBinding None (''$pda-lite: audit'' @ [char_of (10 :: nat)]) \<noteq> Inr None"
proof -
  have "is_alnum CHR ''p''" by code_simp
  then have "unstructured_skill_invocation (''$pda-lite: audit'')"
    using skill_binding_is_structured[of None Nil Nil "CHR ''p''" "''da-lite: audit''" Nil] by simp
  moreover have "first_line (''$pda-lite: audit'' @ [char_of (10 :: nat)]) = ''$pda-lite: audit''" by code_simp
  ultimately show ?thesis by (simp add: resolve_None_iff)
qed

end
