(* ===== verification/Client_Admission.thy ===== *)
theory Client_Admission
  imports Canonical_Json Skill_Binding
begin

text \<open>
  Duplicate-safe start admission, \<open>src/clientStartAdmission.ts\<close>. The state is the directory of
  binding files, one file per client-chosen start id; a file is decoded from JSON on every read
  (\<open>validatePersistedRecord\<close>) and written by an atomic replacement under the admission lock. The
  operations below are the critical sections of \<open>withAdmissionLock\<close>; its three outcomes (the lock is
  not obtained, the section runs, the section runs but the release throws) are those of
  \<open>Claim_Lock\<close>. Parameters of the model: the SHA-256 hex digest \<open>sha\<close>, the number texts \<open>num\<close> of
  \<open>JSON.stringify\<close> and \<open>date_ok\<close> for \<open>Number.isFinite(Date.parse(s))\<close>. Clock readings, random ids and
  the process's own identity are arguments.
\<close>

section \<open>Records\<close>

record client_start_binding =
  cb_client_start_id :: string
  cb_request_sha256 :: string
  cb_run_id :: string

record owner_stamp =
  os_admitted_at :: string
  os_owner_pid :: int
  os_owner_instance_id :: string

datatype persisted_record =
    BindingV2 client_start_binding owner_stamp
  | CancelledBinding client_start_binding owner_stamp (cancelled_at: string)
  | Fence (fence_id: string) (fenced_at: string)

record client_start_admission =
  ca_binding :: client_start_binding
  ca_owner :: owner_stamp
  ca_created :: bool
  ca_cancellation_requested_at :: "string option"

datatype containment_disposition =
    Fenced string string
  | Bound client_start_admission
  | Unknown string string

section \<open>Request identity\<close>

text \<open>A start request is the JSON object that the tool received; \<open>client_start_id\<close> is kept apart.\<close>

record start_run_task_request =
  req_client_start_id :: "string option"
  req_fields :: "(string \<times> json) list"

definition is_safe_id_char :: "char \<Rightarrow> bool" where
  "is_safe_id_char c \<longleftrightarrow> is_alnum c \<or> c \<in> set ''._:-''"

text \<open>\<open>/^[A-Za-z0-9][A-Za-z0-9._:-]{0,199}$/\<close>\<close>

definition client_start_id_ok :: "string \<Rightarrow> bool" where
  "client_start_id_ok s \<longleftrightarrow>
     s \<noteq> [] \<and> length s \<le> 200 \<and> is_alnum (hd s) \<and> list_all is_safe_id_char (tl s)"
fun str_check :: "(string \<Rightarrow> bool) \<Rightarrow> json \<Rightarrow> bool" where
  "str_check P (JStr s) = P s"
| "str_check P _ = False"

fun positive_int_check :: "json \<Rightarrow> bool" where
  "positive_int_check (JNum x) = (js_is_safe_integer x \<and> 0 < x)"
| "positive_int_check _ = False"

text \<open>A strict object: required and optional keys with their checks, and no other key.\<close>

definition strict_object :: "(string \<times> bool \<times> (json \<Rightarrow> bool)) list \<Rightarrow> json \<Rightarrow> bool" where
  "strict_object schema v =
     (case v of
        JObj kvs \<Rightarrow>
          list_all (\<lambda>(k, x). case map_of schema k of None \<Rightarrow> False | Some (_, check) \<Rightarrow> check x) kvs \<and>
          list_all (\<lambda>(k, required, _). required \<longrightarrow> map_of kvs k \<noteq> None) schema
      | _ \<Rightarrow> False)"

definition continuityIdentitySchema :: "json \<Rightarrow> bool" where
  "continuityIdentitySchema v \<longleftrightarrow>
     (case jget v ''mode'' of
        Some (JStr m) \<Rightarrow>
          if m = ''ephemeral'' \<or> m = ''fresh'' then strict_object [(''mode'', True, \<lambda>_. True)] v
          else if m = ''resume''
          then strict_object [(''mode'', True, \<lambda>_. True), (''session_id'', True, str_check (\<lambda>s. s \<noteq> []))] v
          else False
      | _ \<Rightarrow> False)"

definition snapshotBindingIdentitySchema :: "json \<Rightarrow> bool" where
  "snapshotBindingIdentitySchema =
     strict_object
       [(''contract_version'', True, \<lambda>v. v = JNum 1),
        (''snapshot_id'', True, str_check sha256_hex),
        (''metadata_sha256'', True, str_check sha256_hex),
        (''publication_receipt_sha256'', True, str_check sha256_hex),
        (''reference_id'', True, str_check sha256_hex),
        (''project_id'', True, str_check (\<lambda>s. s \<noteq> [])),
        (''publication_id'', True, str_check client_start_id_ok)]"

definition enum_check :: "(string \<times> 'a) list \<Rightarrow> json \<Rightarrow> bool" where
  "enum_check choices = str_check (\<lambda>s. map_of choices s \<noteq> None)"

fun string_list_check :: "json \<Rightarrow> bool" where
  "string_list_check (JArr vs) = (length vs \<le> 128 \<and> list_all (str_check (\<lambda>s. s \<noteq> [])) vs)"
| "string_list_check _ = False"

definition clientStartIdentitySchema :: "json \<Rightarrow> bool" where
  "clientStartIdentitySchema =
     strict_object
       [(''prompt'', True, str_check (\<lambda>s. s \<noteq> [])),
        (''cwd'', True, str_check (\<lambda>s. s \<noteq> [])),
        (''model_class'', False, enum_check model_classes),
        (''max_output_tokens'', False, positive_int_check),
        (''skill_name'', False, \<lambda>v. v = JNull \<or> str_check (\<lambda>_. True) v),
        (''output_mode'', False, enum_check output_modes),
        (''effect_profile'', False, enum_check effect_profiles),
        (''expected_skill_sha256'', False, str_check sha256_hex),
        (''skill_snapshot_binding'', False, snapshotBindingIdentitySchema),
        (''recursive_delegation'', False, enum_check recursive_delegations),
        (''system_skill_name'', False, str_check skill_name_ok),
        (''specialist_catalogue_scope'', False, enum_check specialist_catalogue_scopes),
        (''allowed_output_paths'', False, string_list_check),
        (''continuity'', False, continuityIdentitySchema),
        (''timeout_ms'', False, positive_int_check),
        (''client_start_id'', False, str_check client_start_id_ok)]"

definition request_json :: "start_run_task_request \<Rightarrow> json" where
  "request_json r =
     JObj (req_fields r @ (case req_client_start_id r of None \<Rightarrow> [] | Some i \<Rightarrow> [(''client_start_id'', JStr i)]))"

definition validatedClientStartRequestIdentity :: "start_run_task_request \<Rightarrow> json result" where
  "validatedClientStartRequestIdentity r =
     (if clientStartIdentitySchema (request_json r)
      then Inr (canonicalValue (JObj (filter (\<lambda>(k, v). k \<noteq> ''client_start_id'') (req_fields r))))
      else Inl (PlainError ''ZodError''))"

definition canonicalClientStartRequestSha256 ::
  "(string \<Rightarrow> string) \<Rightarrow> (rat \<Rightarrow> string) \<Rightarrow> start_run_task_request \<Rightarrow> string result" where
  "canonicalClientStartRequestSha256 sha num r =
     (case validatedClientStartRequestIdentity r of
        Inl e \<Rightarrow> Inl e
      | Inr body \<Rightarrow> Inr (sha (''subagent007.client_start_request.v1'' @ [char_of (10 :: nat)] @ canonicalJson num body)))"

section \<open>Reading and writing binding files\<close>

definition clientStartBindingFilename :: "(string \<Rightarrow> string) \<Rightarrow> string \<Rightarrow> string" where
  "clientStartBindingFilename sha clientStartId = sha clientStartId @ ''.json''"

definition binding_fields_json :: "client_start_binding \<Rightarrow> owner_stamp \<Rightarrow> (string \<times> json) list" where
  "binding_fields_json b ow =
     [(''client_start_id'', JStr (cb_client_start_id b)), (''request_sha256'', JStr (cb_request_sha256 b)),
      (''run_id'', JStr (cb_run_id b)), (''admitted_at'', JStr (os_admitted_at ow)),
      (''owner_pid'', JNum (of_int (os_owner_pid ow))),
      (''owner_instance_id'', JStr (os_owner_instance_id ow))]"

fun record_json :: "persisted_record \<Rightarrow> json" where
  "record_json (BindingV2 b ow) = JObj ((''schema_version'', JNum 2) # binding_fields_json b ow)"
| "record_json (CancelledBinding b ow t) =
     JObj ([(''schema_version'', JNum 3), (''record_kind'', JStr ''binding'')] @ binding_fields_json b ow
       @ [(''cancellation_requested_at'', JStr t)])"
| "record_json (Fence i t) =
     JObj [(''schema_version'', JNum 3), (''record_kind'', JStr ''fence''),
           (''client_start_id'', JStr i), (''fenced_at'', JStr t)]"

definition validBindingFields ::
  "(string \<Rightarrow> bool) \<Rightarrow> json \<Rightarrow> string \<Rightarrow> (client_start_binding \<times> owner_stamp) option" where
  "validBindingFields date_ok v clientStartId =
     (case (jget v ''client_start_id'', jget v ''request_sha256'', jget v ''run_id'',
            jget v ''admitted_at'', jget v ''owner_pid'', jget v ''owner_instance_id'') of
        (Some (JStr i), Some (JStr h), Some (JStr run), Some (JStr t), Some (JNum pid), Some (JStr inst)) \<Rightarrow>
          if i = clientStartId \<and> sha256_hex h \<and> \<not> blank run \<and> date_ok t \<and>
             js_is_safe_integer pid \<and> 1 \<le> pid \<and> hex_string 24 inst
          then Some (\<lparr>cb_client_start_id = i, cb_request_sha256 = h, cb_run_id = run\<rparr>,
                     \<lparr>os_admitted_at = t, os_owner_pid = \<lfloor>pid\<rfloor>, os_owner_instance_id = inst\<rparr>)
          else None
      | _ \<Rightarrow> None)"

definition binding_unreadable :: js_error where
  "binding_unreadable =
     ValidationError ''client_start_id admission binding is unreadable'' Rc_client_start_id_conflict"

definition binding_invalid :: js_error where
  "binding_invalid =
     ValidationError ''client_start_id admission binding is invalid'' Rc_client_start_id_conflict"

definition valid_v2 :: "(string \<Rightarrow> bool) \<Rightarrow> json \<Rightarrow> string \<Rightarrow> persisted_record option" where
  "valid_v2 date_ok v i =
     (if jget v ''schema_version'' = Some (JNum 2)
      then map_option (\<lambda>(b, ow). BindingV2 b ow) (validBindingFields date_ok v i) else None)"

definition valid_cancelled :: "(string \<Rightarrow> bool) \<Rightarrow> json \<Rightarrow> string \<Rightarrow> persisted_record option" where
  "valid_cancelled date_ok v i =
     (if jget v ''schema_version'' = Some (JNum 3) \<and> jget v ''record_kind'' = Some (JStr ''binding'')
      then (case (validBindingFields date_ok v i, jget v ''cancellation_requested_at'') of
              (Some (b, ow), Some (JStr t)) \<Rightarrow> if date_ok t then Some (CancelledBinding b ow t) else None
            | _ \<Rightarrow> None)
      else None)"

definition valid_fence :: "(string \<Rightarrow> bool) \<Rightarrow> json \<Rightarrow> string \<Rightarrow> persisted_record option" where
  "valid_fence date_ok v i =
     (if jget v ''schema_version'' = Some (JNum 3) \<and> jget v ''record_kind'' = Some (JStr ''fence'') \<and>
         jget v ''client_start_id'' = Some (JStr i)
      then (case jget v ''fenced_at'' of
              Some (JStr t) \<Rightarrow> if date_ok t then Some (Fence i t) else None
            | _ \<Rightarrow> None)
      else None)"

definition validatePersistedRecord ::
  "(string \<Rightarrow> bool) \<Rightarrow> json \<Rightarrow> string \<Rightarrow> persisted_record result" where
  "validatePersistedRecord date_ok v i =
     (case v of
        JObj _ \<Rightarrow>
          (case valid_v2 date_ok v i of
             Some r \<Rightarrow> Inr r
           | None \<Rightarrow>
               (case valid_cancelled date_ok v i of
                  Some r \<Rightarrow> Inr r
                | None \<Rightarrow> (case valid_fence date_ok v i of Some r \<Rightarrow> Inr r | None \<Rightarrow> Inl binding_invalid)))
      | JArr _ \<Rightarrow> Inl binding_invalid
      | _ \<Rightarrow> Inl binding_unreadable)"

definition readRecord ::
  "(string \<Rightarrow> bool) \<Rightarrow> directory \<Rightarrow> string \<Rightarrow> string \<Rightarrow> persisted_record result" where
  "readRecord date_ok d name i =
     (case read_json_file d name of
        Inr v \<Rightarrow> validatePersistedRecord date_ok v i
      | Inl e \<Rightarrow> if is_enoent e then Inl e else Inl binding_unreadable)"

definition requireBinding :: "persisted_record \<Rightarrow> persisted_record result" where
  "requireBinding r =
     (case r of
        Fence _ _ \<Rightarrow>
          Inl (ValidationError ''client_start_id is fenced and cannot admit a run'' Rc_client_start_id_fenced)
      | _ \<Rightarrow> Inr r)"

fun record_binding :: "persisted_record \<Rightarrow> client_start_binding option" where
  "record_binding (BindingV2 b ow) = Some b"
| "record_binding (CancelledBinding b ow t) = Some b"
| "record_binding (Fence i t) = None"

fun admissionFromRecord :: "persisted_record \<Rightarrow> bool \<Rightarrow> client_start_admission result" where
  "admissionFromRecord (BindingV2 b ow) created =
     Inr \<lparr>ca_binding = b, ca_owner = ow, ca_created = created, ca_cancellation_requested_at = None\<rparr>"
| "admissionFromRecord (CancelledBinding b ow t) created =
     Inr \<lparr>ca_binding = b, ca_owner = ow, ca_created = created, ca_cancellation_requested_at = Some t\<rparr>"
| "admissionFromRecord (Fence i t) created = Inl binding_invalid"

definition writeReplacement :: "directory \<Rightarrow> string \<Rightarrow> persisted_record \<Rightarrow> directory" where
  "writeReplacement d name r = dir_replace d name (JsonFile (record_json r))"

definition validateClientStartId :: "string \<Rightarrow> unit result" where
  "validateClientStartId i =
     (if client_start_id_ok i then Inr ()
      else Inl (ValidationError
        ''client_start_id must be 1-200 characters using letters, digits, dots, underscores, colons, or hyphens''
        Rc_client_start_id_conflict))"

section \<open>Owner liveness\<close>

datatype owner_liveness = Owner_live | Owner_gone | Owner_unknown

text \<open>\<open>ps_command\<close> is what \<open>/bin/ps -p pid -o command=\<close> prints, \<open>None\<close> when it fails; the process is
  probed before and, when \<open>ps\<close> fails, after it.\<close>

definition clientStartAdmissionOwnerLiveness ::
  "bool \<Rightarrow> string option \<Rightarrow> bool \<Rightarrow> owner_stamp \<Rightarrow> owner_liveness" where
  "clientStartAdmissionOwnerLiveness gone_before ps_command gone_after ow =
     (if gone_before then Owner_gone
      else (case ps_command of
              Some out \<Rightarrow>
                if js_trim out = ''subagent007-pi:'' @ os_owner_instance_id ow then Owner_live else Owner_gone
            | None \<Rightarrow> if gone_after then Owner_gone else Owner_unknown))"

section \<open>The admission lock\<close>

datatype lock_outcome = Lock_busy | Lock_held | Lock_lost

definition withAdmissionLock ::
  "lock_outcome \<Rightarrow> (directory \<Rightarrow> directory \<times> 'a result) \<Rightarrow> directory \<Rightarrow> directory \<times> 'a result" where
  "withAdmissionLock lk operation d =
     (case lk of
        Lock_busy \<Rightarrow>
          (d, Inl (ValidationError ''run claim transition ownership is live or ambiguous'' Rc_run_liveness_unknown))
      | Lock_held \<Rightarrow> operation d
      | Lock_lost \<Rightarrow>
          (fst (operation d),
           Inl (ValidationError ''run claim transition ownership changed before release'' Rc_run_liveness_unknown)))"

section \<open>Operations\<close>

record admission_env =
  ae_sha :: "string \<Rightarrow> string"
  ae_num :: "rat \<Rightarrow> string"
  ae_date_ok :: "string \<Rightarrow> bool"

abbreviation binding_name :: "admission_env \<Rightarrow> string \<Rightarrow> string" where
  "binding_name env i \<equiv> clientStartBindingFilename (ae_sha env) i"

abbreviation read_binding :: "admission_env \<Rightarrow> directory \<Rightarrow> string \<Rightarrow> persisted_record result" where
  "read_binding env d i \<equiv> readRecord (ae_date_ok env) d (binding_name env i) i"

definition request_conflict :: js_error where
  "request_conflict =
     ValidationError ''client_start_id is already bound to a different validated start request''
       Rc_client_start_id_conflict"

text \<open>The critical section of \<open>claimClientStartAdmission\<close>: replay the authoritative binding or create
  it, then compare the request digests.\<close>

definition claim_section ::
  "admission_env \<Rightarrow> client_start_binding \<Rightarrow> owner_stamp \<Rightarrow> directory \<Rightarrow>
   directory \<times> client_start_admission result" where
  "claim_section env b ow d =
     (let name = binding_name env (cb_client_start_id b);
          finish = (\<lambda>d' authoritative created.
            case record_binding authoritative of
              Some b' \<Rightarrow>
                if cb_request_sha256 b' \<noteq> cb_request_sha256 b then (d', Inl request_conflict)
                else (d', admissionFromRecord authoritative created)
            | None \<Rightarrow> (d', Inl binding_invalid)) in
      case read_binding env d (cb_client_start_id b) of
        Inr r \<Rightarrow> (case requireBinding r of Inl e \<Rightarrow> (d, Inl e) | Inr r' \<Rightarrow> finish d r' False)
      | Inl e \<Rightarrow>
          if is_enoent e then finish (writeReplacement d name (BindingV2 b ow)) (BindingV2 b ow) True
          else (d, Inl e))"

definition claimClientStartAdmission ::
  "admission_env \<Rightarrow> lock_outcome \<Rightarrow> owner_stamp \<Rightarrow> string \<Rightarrow> start_run_task_request \<Rightarrow> directory \<Rightarrow>
   directory \<times> client_start_admission option result" where
  "claimClientStartAdmission env lk ow run_id r d =
     (case req_client_start_id r of
        None \<Rightarrow> (d, Inr None)
      | Some i \<Rightarrow>
          (case validateClientStartId i of
             Inl e \<Rightarrow> (d, Inl e)
           | Inr _ \<Rightarrow>
               (case canonicalClientStartRequestSha256 (ae_sha env) (ae_num env) r of
                  Inl e \<Rightarrow> (d, Inl e)
                | Inr h \<Rightarrow>
                    (case withAdmissionLock lk
                        (claim_section env \<lparr>cb_client_start_id = i, cb_request_sha256 = h, cb_run_id = run_id\<rparr> ow) d of
                       (d', Inl e) \<Rightarrow> (d', Inl e)
                     | (d', Inr a) \<Rightarrow> (d', Inr (Some a))))))"

text \<open>\<open>findClientStartAdmission\<close> reads without the lock, twice when the file is missing at first; the
  two directories are what the two reads see.\<close>

definition findClientStartAdmission ::
  "admission_env \<Rightarrow> start_run_task_request \<Rightarrow> directory \<Rightarrow> directory \<Rightarrow> client_start_admission option result" where
  "findClientStartAdmission env r d1 d2 =
     (case req_client_start_id r of
        None \<Rightarrow> Inr None
      | Some i \<Rightarrow>
          (case validateClientStartId i of
             Inl e \<Rightarrow> Inl e
           | Inr _ \<Rightarrow>
               let attempt = (\<lambda>d. bind_result (read_binding env d i) requireBinding);
                   found = (case attempt d1 of
                       Inr a \<Rightarrow> Inr (Some a)
                     | Inl e \<Rightarrow>
                         if \<not> is_enoent e then Inl e
                         else (case attempt d2 of
                                 Inr a \<Rightarrow> Inr (Some a)
                               | Inl e' \<Rightarrow> if is_enoent e' then Inr None else Inl e')) in
               (case found of
                  Inl e \<Rightarrow> Inl e
                | Inr None \<Rightarrow> Inr None
                | Inr (Some authoritative) \<Rightarrow>
                    (case canonicalClientStartRequestSha256 (ae_sha env) (ae_num env) r of
                       Inl e \<Rightarrow> Inl e
                     | Inr h \<Rightarrow>
                         if map_option cb_request_sha256 (record_binding authoritative) \<noteq> Some h
                         then Inl request_conflict
                         else (case admissionFromRecord authoritative False of
                                 Inl e \<Rightarrow> Inl e
                               | Inr a \<Rightarrow> Inr (Some a))))))"

text \<open>The critical section of \<open>requestClientStartContainment\<close>: fence an unbound id, mark a bound one
  cancelled, leave a fence or a cancelled binding as it is.\<close>

definition containment_section ::
  "admission_env \<Rightarrow> string \<Rightarrow> string \<Rightarrow> directory \<Rightarrow> directory \<times> containment_disposition result" where
  "containment_section env now i d =
     (let name = binding_name env i in
      case read_binding env d i of
        Inl e \<Rightarrow>
          if is_enoent e then (writeReplacement d name (Fence i now), Inr (Fenced i now)) else (d, Inl e)
      | Inr (Fence i' t) \<Rightarrow> (d, Inr (Fenced i' t))
      | Inr (BindingV2 b ow) \<Rightarrow>
          (case admissionFromRecord (CancelledBinding b ow now) False of
             Inl e \<Rightarrow> (d, Inl e)
           | Inr a \<Rightarrow> (writeReplacement d name (CancelledBinding b ow now), Inr (Bound a)))
      | Inr (CancelledBinding b ow t) \<Rightarrow>
          (case admissionFromRecord (CancelledBinding b ow t) False of
             Inl e \<Rightarrow> (d, Inl e)
           | Inr a \<Rightarrow> (d, Inr (Bound a))))"

definition requestClientStartContainment ::
  "admission_env \<Rightarrow> lock_outcome \<Rightarrow> string \<Rightarrow> string \<Rightarrow> directory \<Rightarrow> directory \<times> containment_disposition result" where
  "requestClientStartContainment env lk now i d =
     (case validateClientStartId i of
        Inl e \<Rightarrow> (d, Inl e)
      | Inr _ \<Rightarrow>
          (case withAdmissionLock lk (containment_section env now i) d of
             (d', Inr disposition) \<Rightarrow> (d', Inr disposition)
           | (d', Inl e) \<Rightarrow> (d', Inr (Unknown i (message_of e)))))"

definition binding_matches :: "client_start_binding \<Rightarrow> persisted_record \<Rightarrow> bool" where
  "binding_matches b r \<longleftrightarrow>
     (case record_binding r of
        None \<Rightarrow> False
      | Some b' \<Rightarrow> cb_request_sha256 b' = cb_request_sha256 b \<and> cb_run_id b' = cb_run_id b)"

definition resolveClientStartAdmissionBinding ::
  "admission_env \<Rightarrow> client_start_binding \<Rightarrow> directory \<Rightarrow> client_start_admission result" where
  "resolveClientStartAdmissionBinding env b d =
     (case bind_result (read_binding env d (cb_client_start_id b)) requireBinding of
        Inl e \<Rightarrow> Inl e
      | Inr authoritative \<Rightarrow>
          if \<not> binding_matches b authoritative
          then Inl (ValidationError
            ''run snapshot client_start_binding does not match its authoritative admission record''
            Rc_client_start_id_conflict)
          else admissionFromRecord authoritative False)"

text \<open>\<open>withClientStartLaunchGuard\<close>: the launch operation runs inside the lock, and only for a binding
  that is unchanged and not cancelled.\<close>

definition launch_guard :: "admission_env \<Rightarrow> client_start_binding \<Rightarrow> directory \<Rightarrow> unit result" where
  "launch_guard env b d =
     (case bind_result (read_binding env d (cb_client_start_id b)) requireBinding of
        Inl e \<Rightarrow> Inl e
      | Inr authoritative \<Rightarrow>
          if \<not> binding_matches b authoritative
          then Inl (ValidationError ''client_start_id launch binding changed before child spawn''
            Rc_client_start_id_conflict)
          else (case authoritative of
                  CancelledBinding _ _ _ \<Rightarrow>
                    Inl (ValidationError ''client_start_id cancellation was requested before child launch''
                      Rc_client_start_id_fenced)
                | _ \<Rightarrow> Inr ()))"

definition withClientStartLaunchGuard ::
  "admission_env \<Rightarrow> lock_outcome \<Rightarrow> client_start_binding \<Rightarrow> (directory \<Rightarrow> directory \<times> 'a result) \<Rightarrow>
   directory \<Rightarrow> directory \<times> 'a result" where
  "withClientStartLaunchGuard env lk b operation =
     withAdmissionLock lk
       (\<lambda>d. case launch_guard env b d of Inl e \<Rightarrow> (d, Inl e) | Inr _ \<Rightarrow> operation d)"

section \<open>Round trip of the binding files\<close>

definition owner_ok :: "admission_env \<Rightarrow> owner_stamp \<Rightarrow> bool" where
  "owner_ok env ow \<longleftrightarrow>
     ae_date_ok env (os_admitted_at ow) \<and> 1 \<le> os_owner_pid ow \<and>
     os_owner_pid ow \<le> js_max_safe_integer \<and> hex_string 24 (os_owner_instance_id ow)"

definition binding_ok :: "string \<Rightarrow> client_start_binding \<Rightarrow> bool" where
  "binding_ok i b \<longleftrightarrow> cb_client_start_id b = i \<and> sha256_hex (cb_request_sha256 b) \<and> \<not> blank (cb_run_id b)"

fun record_ok :: "admission_env \<Rightarrow> string \<Rightarrow> persisted_record \<Rightarrow> bool" where
  "record_ok env i (BindingV2 b ow) = (binding_ok i b \<and> owner_ok env ow)"
| "record_ok env i (CancelledBinding b ow t) = (binding_ok i b \<and> owner_ok env ow \<and> ae_date_ok env t)"
| "record_ok env i (Fence j t) = (j = i \<and> ae_date_ok env t)"

lemma validBindingFields_SomeD:
  assumes "validBindingFields (ae_date_ok env) v i = Some (b, ow)"
  shows "binding_ok i b \<and> owner_ok env ow \<and> jget v ''client_start_id'' = Some (JStr i)"
  using assms
  by (auto simp: validBindingFields_def binding_ok_def owner_ok_def js_is_safe_integer_def le_floor_iff
      split: option.splits json.splits if_splits)

lemma validBindingFields_fields:
  assumes "binding_ok i b" and "owner_ok env ow"
    and "\<And>k. k \<in> {''client_start_id'', ''request_sha256'', ''run_id'', ''admitted_at'', ''owner_pid'', ''owner_instance_id''}
      \<Longrightarrow> jget v k = map_of (binding_fields_json b ow) k"
  shows "validBindingFields (ae_date_ok env) v i = Some (b, ow)"
  using assms(1,2) assms(3)[of "''client_start_id''"] assms(3)[of "''request_sha256''"]
    assms(3)[of "''run_id''"] assms(3)[of "''admitted_at''"] assms(3)[of "''owner_pid''"]
    assms(3)[of "''owner_instance_id''"]
  by (simp add: validBindingFields_def binding_fields_json_def binding_ok_def owner_ok_def
      js_is_safe_integer_def)

lemma validate_record_json:
  assumes "record_ok env i r"
  shows "validatePersistedRecord (ae_date_ok env) (record_json r) i = Inr r"
proof (cases r)
  case (BindingV2 b ow)
  then have "validBindingFields (ae_date_ok env) (record_json r) i = Some (b, ow)"
    using assms by (intro validBindingFields_fields) (auto simp: binding_fields_json_def)
  with BindingV2 show ?thesis by (simp add: validatePersistedRecord_def valid_v2_def)
next
  case (CancelledBinding b ow t)
  then have "validBindingFields (ae_date_ok env) (record_json r) i = Some (b, ow)"
    using assms by (intro validBindingFields_fields) (auto simp: binding_fields_json_def)
  with CancelledBinding assms show ?thesis
    by (simp add: validatePersistedRecord_def valid_v2_def valid_cancelled_def binding_fields_json_def)
next
  case (Fence j t)
  with assms show ?thesis
    by (simp add: validatePersistedRecord_def valid_v2_def valid_cancelled_def valid_fence_def)
qed

lemma validate_InrD:
  assumes "validatePersistedRecord (ae_date_ok env) v i = Inr r"
  shows "record_ok env i r \<and> jget v ''client_start_id'' = Some (JStr i)"
proof -
  consider (v2) "valid_v2 (ae_date_ok env) v i = Some r"
    | (can) "valid_cancelled (ae_date_ok env) v i = Some r"
    | (fence) "valid_fence (ae_date_ok env) v i = Some r"
    using assms by (auto simp: validatePersistedRecord_def split: json.splits option.splits)
  then show ?thesis
  proof cases
    case v2
    then obtain b ow where "validBindingFields (ae_date_ok env) v i = Some (b, ow)" "r = BindingV2 b ow"
      by (auto simp: valid_v2_def split: if_splits)
    then show ?thesis using validBindingFields_SomeD by auto
  next
    case can
    then obtain b ow t where "validBindingFields (ae_date_ok env) v i = Some (b, ow)"
      "r = CancelledBinding b ow t" "ae_date_ok env t"
      by (auto simp: valid_cancelled_def split: if_splits option.splits json.splits)
    then show ?thesis using validBindingFields_SomeD by auto
  next
    case fence
    then show ?thesis by (auto simp: valid_fence_def split: if_splits option.splits json.splits)
  qed
qed

lemma validate_id_unique:
  fixes env :: admission_env
  shows "validatePersistedRecord (ae_date_ok env) v i = Inr r \<Longrightarrow>
   validatePersistedRecord (ae_date_ok env) v j = Inr r' \<Longrightarrow> i = j"
  by (drule validate_InrD, drule validate_InrD) simp

lemma validate_InlD:
  "validatePersistedRecord date_ok v i = Inl e \<Longrightarrow> reason_of e = Some Rc_client_start_id_conflict"
  by (auto simp: validatePersistedRecord_def binding_invalid_def binding_unreadable_def
      split: json.splits option.splits)

text \<open>
  What the admission owner writes it reads back, and it accepts nothing else as a binding: a
  record with a well-formed identity survives the JSON file unchanged, and any file content that
  validation accepts under a start id is a well-formed record of exactly that start id. A file of
  another start id, or one with a field missing or malformed, is refused as a conflict, never taken
  as absent.
\<close>

theorem binding_file_roundtrip:
  "(record_ok env i r \<longrightarrow> validatePersistedRecord (ae_date_ok env) (record_json r) i = Inr r) \<and>
   (\<forall>v. case validatePersistedRecord (ae_date_ok env) v i of
          Inr r' \<Rightarrow> record_ok env i r'
        | Inl e \<Rightarrow> reason_of e = Some Rc_client_start_id_conflict)"
  using validate_record_json validate_InrD validate_InlD by (auto split: sum.split)

section \<open>The store seen through the reads\<close>

definition env_ok :: "admission_env \<Rightarrow> bool" where
  "env_ok env \<longleftrightarrow> (\<forall>s. sha256_hex (ae_sha env s))"

definition lookup_binding :: "admission_env \<Rightarrow> directory \<Rightarrow> string \<Rightarrow> persisted_record option" where
  "lookup_binding env d i = (case read_binding env d i of Inr r \<Rightarrow> Some r | Inl _ \<Rightarrow> None)"

lemma lookup_binding_Some: "lookup_binding env d i = Some r \<longleftrightarrow> read_binding env d i = Inr r"
  by (auto simp: lookup_binding_def split: sum.splits)

lemma not_enoent_errors [simp]: "\<not> is_enoent binding_invalid" "\<not> is_enoent binding_unreadable"
  "\<not> is_enoent request_conflict"
  by (simp_all add: binding_invalid_def binding_unreadable_def request_conflict_def)

lemma validate_not_enoent:
  "validatePersistedRecord date_ok v i = Inl e \<Longrightarrow> \<not> is_enoent e"
  by (auto simp: validatePersistedRecord_def split: json.splits option.splits)

lemma readRecord_enoent: "readRecord date_ok d n i = Inl e \<Longrightarrow> is_enoent e \<longleftrightarrow> dir_read d n = None"
  by (auto simp: readRecord_def read_json_file_def parse_file_def dest: validate_not_enoent
      split: option.splits file_content.splits if_splits sum.splits)

lemma readRecord_Inr:
  "readRecord date_ok d n i = Inr r \<longleftrightarrow>
   (\<exists>v. dir_read d n = Some (JsonFile v) \<and> validatePersistedRecord date_ok v i = Inr r)"
  by (auto simp: readRecord_def read_json_file_def parse_file_def is_enoent_iff
      split: option.splits file_content.splits if_splits sum.splits)

lemma read_binding_ok: "read_binding env d i = Inr r \<Longrightarrow> record_ok env i r"
  using validate_InrD by (auto simp: readRecord_Inr)

lemma read_binding_write:
  assumes "record_ok env i r"
  shows "read_binding env (writeReplacement d (binding_name env i) r) i = Inr r"
  using validate_record_json[OF assms]
  by (auto simp: readRecord_Inr writeReplacement_def dir.rp_reads)

lemma read_binding_write_other:
  assumes "binding_name env j \<noteq> binding_name env i"
  shows "read_binding env (writeReplacement d (binding_name env j) r) i = read_binding env d i"
  using assms by (simp add: readRecord_def read_json_file_def writeReplacement_def dir.rp_reads)

text \<open>Every operation writes at most one binding: it creates the file of an absent id, or marks a
  live binding cancelled.\<close>

inductive binding_write :: "admission_env \<Rightarrow> string \<Rightarrow> directory \<Rightarrow> directory \<Rightarrow> bool"
  for env i where
  unchanged: "binding_write env i d d"
| created: "dir_read d (binding_name env i) = None \<Longrightarrow> record_ok env i r \<Longrightarrow>
    (\<And>b ow t. r \<noteq> CancelledBinding b ow t) \<Longrightarrow>
    binding_write env i d (writeReplacement d (binding_name env i) r)"
| cancelled: "read_binding env d i = Inr (BindingV2 b ow) \<Longrightarrow> ae_date_ok env t \<Longrightarrow>
    binding_write env i d (writeReplacement d (binding_name env i) (CancelledBinding b ow t))"

fun record_le :: "persisted_record \<Rightarrow> persisted_record \<Rightarrow> bool" where
  "record_le (BindingV2 b ow) r = (r = BindingV2 b ow \<or> (\<exists>t. r = CancelledBinding b ow t))"
| "record_le r r' = (r' = r)"

lemma record_le_refl [simp]: "record_le r r"
  by (cases r) auto

lemma record_le_trans: "record_le a b \<Longrightarrow> record_le b c \<Longrightarrow> record_le a c"
  by (cases a; cases b) auto

lemma record_le_not_v2: "record_le r r' \<Longrightarrow> (\<And>b ow. r \<noteq> BindingV2 b ow) \<Longrightarrow> r' = r"
  by (cases r) auto

lemma record_le_binding: "record_le r r' \<Longrightarrow> record_binding r' = record_binding r"
  by (cases r) auto

lemma binding_write_monotone:
  assumes "binding_write env j d d'" and r: "read_binding env d i = Inr r"
  shows "\<exists>r'. read_binding env d' i = Inr r' \<and> record_le r r'"
  using assms(1)
proof cases
  case unchanged
  with r show ?thesis by auto
next
  case (created w)
  have "dir_read d (binding_name env i) \<noteq> None" using r by (auto simp: readRecord_Inr)
  with created have "binding_name env j \<noteq> binding_name env i" by metis
  with created(1) r show ?thesis by (auto simp: read_binding_write_other)
next
  case (cancelled b ow t)
  show ?thesis
  proof (cases "binding_name env j = binding_name env i")
    case True
    with r cancelled(2) have "i = j" by (auto simp: readRecord_Inr intro: validate_id_unique)
    then have "r = BindingV2 b ow" using r cancelled(2) by simp
    moreover have "record_ok env j (CancelledBinding b ow t)"
      using read_binding_ok[OF cancelled(2)] cancelled(3) by simp
    ultimately show ?thesis using cancelled(1) \<open>i = j\<close> by (auto simp: read_binding_write)
  next
    case False
    with cancelled(1) r show ?thesis by (auto simp: read_binding_write_other)
  qed
qed

section \<open>What each operation writes\<close>

lemma withAdmissionLock_state:
  "fst (withAdmissionLock lk operation d) = (if lk = Lock_busy then d else fst (operation d))"
  by (cases lk) (simp_all add: withAdmissionLock_def)

lemma claim_section_write:
  assumes "binding_ok i b" and "owner_ok env ow"
  shows "binding_write env i d (fst (claim_section env b ow d))"
proof -
  have i: "cb_client_start_id b = i" using assms(1) by (simp add: binding_ok_def)
  show ?thesis
  proof (cases "read_binding env d i")
    case (Inl e)
    then show ?thesis
      using assms i readRecord_enoent[OF Inl]
      by (auto simp: claim_section_def Let_def intro!: binding_write.intros split: if_splits)
  next
    case (Inr r)
    then show ?thesis
      using i by (auto simp: claim_section_def Let_def intro: binding_write.intros
          split: sum.splits option.splits)
  qed
qed

lemma request_sha_hex:
  "env_ok env \<Longrightarrow> canonicalClientStartRequestSha256 (ae_sha env) (ae_num env) r = Inr h \<Longrightarrow> sha256_hex h"
  by (auto simp: canonicalClientStartRequestSha256_def env_ok_def split: sum.splits)

lemma claim_write:
  assumes "env_ok env" and "owner_ok env ow" and "\<not> blank run_id"
  shows "\<exists>i. binding_write env i d (fst (claimClientStartAdmission env lk ow run_id r d))"
proof (cases "req_client_start_id r")
  case None
  then show ?thesis by (auto simp: claimClientStartAdmission_def intro: unchanged)
next
  case (Some i)
  show ?thesis
  proof (cases "validateClientStartId i")
    case (Inl e)
    with Some show ?thesis by (auto simp: claimClientStartAdmission_def intro: unchanged)
  next
    case ok: (Inr u)
    show ?thesis
    proof (cases "canonicalClientStartRequestSha256 (ae_sha env) (ae_num env) r")
      case (Inl e)
      with Some ok show ?thesis by (auto simp: claimClientStartAdmission_def intro: unchanged)
    next
      case (Inr h)
      let ?b = "\<lparr>cb_client_start_id = i, cb_request_sha256 = h, cb_run_id = run_id\<rparr>"
      have "binding_ok i ?b" using request_sha_hex[OF assms(1) Inr] assms(3) by (simp add: binding_ok_def)
      then have "binding_write env i d (fst (claim_section env ?b ow d))"
        using assms(2) by (rule claim_section_write)
      moreover have "fst (claimClientStartAdmission env lk ow run_id r d)
          = fst (withAdmissionLock lk (claim_section env ?b ow) d)"
        using Some ok Inr
        by (cases "withAdmissionLock lk (claim_section env ?b ow) d")
           (auto simp: claimClientStartAdmission_def split: sum.splits)
      ultimately show ?thesis by (auto simp: withAdmissionLock_state intro: unchanged)
    qed
  qed
qed

lemma containment_section_write:
  "ae_date_ok env now \<Longrightarrow> binding_write env i d (fst (containment_section env now i d))"
  using readRecord_enoent[of "ae_date_ok env" d "binding_name env i" i]
  by (auto simp: containment_section_def Let_def intro!: binding_write.intros
      split: sum.splits persisted_record.splits if_splits)

lemma containment_write:
  assumes "ae_date_ok env now"
  shows "binding_write env i d (fst (requestClientStartContainment env lk now i d))"
proof (cases "validateClientStartId i")
  case (Inl e)
  then show ?thesis by (simp add: requestClientStartContainment_def unchanged)
next
  case (Inr u)
  then have "fst (requestClientStartContainment env lk now i d)
      = fst (withAdmissionLock lk (containment_section env now i) d)"
    by (auto simp: requestClientStartContainment_def split: prod.splits sum.splits)
  with containment_section_write[OF assms] show ?thesis
    by (auto simp: withAdmissionLock_state intro: unchanged)
qed

section \<open>Histories of operations\<close>

inductive admission_step :: "admission_env \<Rightarrow> directory \<Rightarrow> directory \<Rightarrow> bool" for env where
  claim: "owner_ok env ow \<Longrightarrow> \<not> blank run_id \<Longrightarrow>
    admission_step env d (fst (claimClientStartAdmission env lk ow run_id r d))"
| contain: "ae_date_ok env now \<Longrightarrow>
    admission_step env d (fst (requestClientStartContainment env lk now i d))"

abbreviation admission_steps :: "admission_env \<Rightarrow> directory \<Rightarrow> directory \<Rightarrow> bool" where
  "admission_steps env \<equiv> (admission_step env)\<^sup>*\<^sup>*"

lemma admission_step_write: "env_ok env \<Longrightarrow> admission_step env d d' \<Longrightarrow> \<exists>i. binding_write env i d d'"
  by (auto elim!: admission_step.cases intro: claim_write containment_write)

lemma admission_steps_monotone:
  assumes "env_ok env" and "admission_steps env d d'" and "read_binding env d i = Inr r"
  shows "\<exists>r'. read_binding env d' i = Inr r' \<and> record_le r r'"
  using assms(2)
proof (induction rule: rtranclp_induct)
  case base
  with assms(3) show ?case by auto
next
  case (step d1 d2)
  then obtain r1 where r1: "read_binding env d1 i = Inr r1" "record_le r r1" by auto
  obtain j where "binding_write env j d1 d2" using admission_step_write[OF assms(1) step.hyps(2)] by auto
  from binding_write_monotone[OF this r1(1)] r1(2) show ?case by (blast intro: record_le_trans)
qed

text \<open>
  The fate of a start id only moves forward, whatever sequence of admissions and containments
  any number of owners run, with locks obtained, busy or lost: once an id is bound, it stays bound
  to the same run, request digest and owner for ever, and the only change is that it becomes
  cancelled; once cancelled it stays cancelled with the first cancellation time; and a fence is
  permanent, so a fenced id never admits a run.
\<close>

theorem admission_fate_is_monotone:
  assumes "env_ok env" and "admission_steps env d d'" and "lookup_binding env d i = Some r"
  shows "\<exists>r'. lookup_binding env d' i = Some r' \<and> record_binding r' = record_binding r \<and>
    ((\<forall>b ow. r \<noteq> BindingV2 b ow) \<longrightarrow> r' = r)"
proof -
  from assms(3) have "read_binding env d i = Inr r" by (simp add: lookup_binding_Some)
  from admission_steps_monotone[OF assms(1,2) this] obtain r' where
    "read_binding env d' i = Inr r'" and "record_le r r'" by blast
  then show ?thesis
    using record_le_binding record_le_not_v2 by (intro exI[of _ r']) (auto simp: lookup_binding_Some)
qed

subsection \<open>A concrete environment\<close>

definition sample_env :: admission_env where
  "sample_env = \<lparr>ae_sha = (\<lambda>_. replicate 64 CHR ''0''), ae_num = (\<lambda>_. ''1''), ae_date_ok = (\<lambda>s. s \<noteq> [])\<rparr>"

definition sample_owner :: owner_stamp where
  "sample_owner = \<lparr>os_admitted_at = ''2026-01-01T00:00:00.000Z'', os_owner_pid = 42,
     os_owner_instance_id = replicate 24 CHR ''a''\<rparr>"

definition sample_request :: start_run_task_request where
  "sample_request = \<lparr>req_client_start_id = Some ''start-1'',
     req_fields = [(''prompt'', JStr ''do it''), (''cwd'', JStr ''/work'')]\<rparr>"

lemma sample_env_ok [simp]: "env_ok sample_env" "owner_ok sample_env sample_owner"
  by (auto simp: env_ok_def sample_env_def owner_ok_def sample_owner_def js_max_safe_integer_def
      hex_string_def is_hex_lower_def is_digit_def list_all_length)

lemma sample_id_ok [simp]: "validateClientStartId ''start-1'' = Inr ()"
  by (simp add: validateClientStartId_def client_start_id_ok_def is_safe_id_char_def is_alnum_def
      is_digit_def is_upper_def is_lower_def)

lemma sample_request_sha [simp]:
  "canonicalClientStartRequestSha256 (ae_sha sample_env) (ae_num sample_env) sample_request
   = Inr (replicate 64 CHR ''0'')"
  by (simp add: canonicalClientStartRequestSha256_def validatedClientStartRequestIdentity_def
      clientStartIdentitySchema_def strict_object_def request_json_def sample_request_def sample_env_def
      client_start_id_ok_def is_safe_id_char_def is_alnum_def is_digit_def is_upper_def is_lower_def)

lemma read_binding_empty [simp]: "read_binding env [] i = Inl (ErrnoError ENOENT)"
  by (simp add: readRecord_def read_json_file_def dir_read_def)

theorem binding_file_roundtrip_witness:
  "validatePersistedRecord (ae_date_ok sample_env)
     (record_json (Fence ''start-1'' ''2026-01-01T00:00:00.000Z'')) ''start-1''
   = Inr (Fence ''start-1'' ''2026-01-01T00:00:00.000Z'')"
proof -
  have "record_ok sample_env ''start-1'' (Fence ''start-1'' ''2026-01-01T00:00:00.000Z'')"
    by (simp add: sample_env_def)
  with binding_file_roundtrip show ?thesis by blast
qed

definition sample_contained :: directory where
  "sample_contained = fst (requestClientStartContainment sample_env Lock_held ''t0'' ''start-1'' [])"

lemma sample_contain:
  "requestClientStartContainment sample_env Lock_held ''t0'' ''start-1'' []
   = (sample_contained, Inr (Fenced ''start-1'' ''t0''))"
  by (simp add: sample_contained_def requestClientStartContainment_def withAdmissionLock_def
      containment_section_def)

lemma sample_contained_read:
  "read_binding sample_env sample_contained ''start-1'' = Inr (Fence ''start-1'' ''t0'')"
proof -
  have "record_ok sample_env ''start-1'' (Fence ''start-1'' ''t0'')" by (simp add: sample_env_def)
  from read_binding_write[OF this, of "[]"] show ?thesis
    by (simp add: sample_contained_def requestClientStartContainment_def withAdmissionLock_def
        containment_section_def)
qed

theorem admission_fate_is_monotone_witness:
  "\<exists>r'. lookup_binding sample_env
      (fst (claimClientStartAdmission sample_env Lock_held sample_owner ''run-1'' sample_request sample_contained))
      ''start-1'' = Some r' \<and> r' = Fence ''start-1'' ''t0''"
proof -
  have step: "admission_steps sample_env sample_contained
      (fst (claimClientStartAdmission sample_env Lock_held sample_owner ''run-1'' sample_request sample_contained))"
    by (rule r_into_rtranclp, rule admission_step.claim)
       (simp_all add: blank_def js_trim_def js_space_def)
  have look: "lookup_binding sample_env sample_contained ''start-1'' = Some (Fence ''start-1'' ''t0'')"
    by (simp add: lookup_binding_Some sample_contained_read)
  from admission_fate_is_monotone[OF sample_env_ok(1) step look] show ?thesis by auto
qed

section \<open>Containment is final\<close>

lemma containment_section_result:
  assumes "containment_section env now i d = (d1, Inr disp)" and "ae_date_ok env now"
  shows "\<exists>r. read_binding env d1 i = Inr r \<and> (\<forall>b ow. r \<noteq> BindingV2 b ow)"
proof (cases "read_binding env d i")
  case (Inl e)
  have "record_ok env i (Fence i now)" using assms(2) by simp
  from read_binding_write[OF this] assms(1) Inl show ?thesis
    by (auto simp: containment_section_def Let_def split: if_splits)
next
  case (Inr r)
  show ?thesis
  proof (cases r)
    case (BindingV2 b ow)
    then have "record_ok env i (CancelledBinding b ow now)"
      using read_binding_ok[OF Inr] assms(2) by simp
    from read_binding_write[OF this, of d] assms(1) Inr BindingV2 show ?thesis
      by (auto simp: containment_section_def Let_def)
  qed (use assms(1) Inr in \<open>auto simp: containment_section_def Let_def\<close>)
qed

lemma containment_result:
  assumes "requestClientStartContainment env lk now i d = (d1, Inr disp)"
    and "\<And>j m. disp \<noteq> Unknown j m" and "ae_date_ok env now"
  shows "\<exists>r. read_binding env d1 i = Inr r \<and> (\<forall>b ow. r \<noteq> BindingV2 b ow)"
proof -
  have "withAdmissionLock lk (containment_section env now i) d = (d1, Inr disp)"
    using assms(1,2) by (auto simp: requestClientStartContainment_def split: sum.splits prod.splits)
  then have "containment_section env now i d = (d1, Inr disp)"
    by (cases lk) (auto simp: withAdmissionLock_def)
  from containment_section_result[OF this assms(3)] show ?thesis .
qed

lemma launch_guard_closed:
  "read_binding env d (cb_client_start_id b) = Inr r \<Longrightarrow> (\<And>b' ow. r \<noteq> BindingV2 b' ow) \<Longrightarrow>
   \<exists>e. launch_guard env b d = Inl e"
  by (cases r) (auto simp: launch_guard_def requireBinding_def)

lemma launch_guard_blocks:
  "launch_guard env b d = Inl e \<Longrightarrow> \<exists>e'. withClientStartLaunchGuard env lk b operation d = (d, Inl e')"
  by (cases lk) (simp_all add: withClientStartLaunchGuard_def withAdmissionLock_def)

lemma claim_success:
  assumes "claimClientStartAdmission env lk ow run_id r d = (d1, Inr (Some a))"
    and "env_ok env" and "owner_ok env ow" and "\<not> blank run_id"
  shows "\<exists>i h w. req_client_start_id r = Some i \<and> validateClientStartId i = Inr () \<and>
    canonicalClientStartRequestSha256 (ae_sha env) (ae_num env) r = Inr h \<and>
    read_binding env d1 i = Inr w \<and> admissionFromRecord w (ca_created a) = Inr a \<and>
    record_binding w = Some (ca_binding a) \<and> cb_request_sha256 (ca_binding a) = h \<and>
    (ca_created a \<longrightarrow> (\<exists>e. read_binding env d i = Inl e))"
proof -
  obtain i where i: "req_client_start_id r = Some i"
    using assms(1) by (cases "req_client_start_id r") (auto simp: claimClientStartAdmission_def)
  obtain u where ok: "validateClientStartId i = Inr u"
    using assms(1) i by (cases "validateClientStartId i") (auto simp: claimClientStartAdmission_def)
  obtain h where h: "canonicalClientStartRequestSha256 (ae_sha env) (ae_num env) r = Inr h"
    using assms(1) i ok by (auto simp: claimClientStartAdmission_def split: sum.splits)
  let ?b = "\<lparr>cb_client_start_id = i, cb_request_sha256 = h, cb_run_id = run_id\<rparr>"
  have "withAdmissionLock lk (claim_section env ?b ow) d = (d1, Inr a)"
    using assms(1) i ok h by (auto simp: claimClientStartAdmission_def split: sum.splits prod.splits)
  then have sec: "claim_section env ?b ow d = (d1, Inr a)"
    by (cases lk) (auto simp: withAdmissionLock_def)
  have okb: "record_ok env i (BindingV2 ?b ow)"
    using request_sha_hex[OF assms(2) h] assms(3,4) by (simp add: binding_ok_def)
  have "\<exists>w. read_binding env d1 i = Inr w \<and> admissionFromRecord w (ca_created a) = Inr a \<and>
      record_binding w = Some (ca_binding a) \<and> cb_request_sha256 (ca_binding a) = h \<and>
      (ca_created a \<longrightarrow> (\<exists>e. read_binding env d i = Inl e))"
  proof (cases "read_binding env d i")
    case (Inl e)
    then show ?thesis
      using sec read_binding_write[OF okb, of d] by (auto simp: claim_section_def Let_def split: if_splits)
  next
    case (Inr w)
    then show ?thesis
      using sec by (cases w) (auto simp: claim_section_def Let_def requireBinding_def split: if_splits)
  qed
  with i ok h show ?thesis by auto
qed

text \<open>
  C9: Containment is final. Once \<open>cancel_client_start\<close> answers \<open>fenced\<close> or \<open>bound\<close> for a start id, then
  after any further admissions and containments by any owners the launch guard of every binding of
  that id refuses without running the launch operation and without changing the store, and no
  admission of that id creates a run: an admission that still succeeds is a replay that carries the
  cancellation.
\<close>

theorem containment_blocks_launch:
  assumes "env_ok env" and "ae_date_ok env now"
    and "requestClientStartContainment env lk now i d = (d1, Inr disp)" and "\<And>j m. disp \<noteq> Unknown j m"
    and "admission_steps env d1 d2" and "cb_client_start_id b = i"
  shows "(\<exists>e. withClientStartLaunchGuard env lk' b operation d2 = (d2, Inl e)) \<and>
    (owner_ok env ow \<longrightarrow> \<not> blank run_id \<longrightarrow> req_client_start_id r = Some i \<longrightarrow>
      claimClientStartAdmission env lk' ow run_id r d2 = (d3, Inr (Some a)) \<longrightarrow>
      \<not> ca_created a \<and> ca_cancellation_requested_at a \<noteq> None)"
proof -
  obtain w where w: "read_binding env d1 i = Inr w" "\<And>b ow. w \<noteq> BindingV2 b ow"
    using containment_result[OF assms(3,4,2)] by blast
  obtain w' where "read_binding env d2 i = Inr w'" "record_le w w'"
    using admission_steps_monotone[OF assms(1,5) w(1)] by blast
  then have w2: "read_binding env d2 i = Inr w" using record_le_not_v2 w(2) by blast
  have guard: "\<exists>e. withClientStartLaunchGuard env lk' b operation d2 = (d2, Inl e)"
    using launch_guard_closed[of env d2 b w] w2 w(2) assms(6) launch_guard_blocks by metis
  have "\<not> ca_created a \<and> ca_cancellation_requested_at a \<noteq> None"
    if "owner_ok env ow" "\<not> blank run_id" "req_client_start_id r = Some i"
      "claimClientStartAdmission env lk' ow run_id r d2 = (d3, Inr (Some a))"
  proof -
    from claim_success[OF that(4) assms(1) that(1,2)] that(3) obtain v where
      v: "read_binding env d3 i = Inr v" "admissionFromRecord v (ca_created a) = Inr a"
        "ca_created a \<longrightarrow> (\<exists>e. read_binding env d2 i = Inl e)" by auto
    have "\<not> ca_created a" using v(3) w2 by auto
    moreover have "ca_cancellation_requested_at a \<noteq> None"
    proof -
      have "\<exists>j. binding_write env j d2 d3" using claim_write[OF assms(1) that(1,2)] that(4) by (metis fst_conv)
      from this binding_write_monotone[OF _ w2] record_le_not_v2 w(2) have "v = w" using v(1) by (metis Inr_inject)
      with v(2) w(2) show ?thesis by (cases a; cases w) auto
    qed
    ultimately show ?thesis ..
  qed
  with guard show ?thesis by blast
qed

theorem containment_blocks_launch_witness:
  "\<exists>e. withClientStartLaunchGuard sample_env Lock_held
      \<lparr>cb_client_start_id = ''start-1'', cb_request_sha256 = replicate 64 CHR ''0'', cb_run_id = ''run-1''\<rparr>
      (\<lambda>d. (d, Inr ())) sample_contained = (sample_contained, Inl e)"
proof -
  have now: "ae_date_ok sample_env ''t0''" by (simp add: sample_env_def)
  have "\<And>j m. Fenced ''start-1'' ''t0'' \<noteq> Unknown j m" by simp
  note blocks = containment_blocks_launch[OF sample_env_ok(1) now sample_contain this]
  have steps: "admission_steps sample_env sample_contained sample_contained" by simp
  show ?thesis by (rule conjunct1[OF blocks[OF steps]]) simp
qed

section \<open>Exact replay\<close>

lemma claim_replay:
  assumes "req_client_start_id r = Some i" and "validateClientStartId i = Inr ()"
    and "canonicalClientStartRequestSha256 (ae_sha env) (ae_num env) r = Inr h"
    and "read_binding env d i = Inr w" and "record_binding w = Some b"
  shows "claimClientStartAdmission env Lock_held ow run_id r d =
    (d, if cb_request_sha256 b = h then map_sum id Some (admissionFromRecord w False) else Inl request_conflict)"
  using assms
  by (cases w) (simp_all add: claimClientStartAdmission_def withAdmissionLock_def claim_section_def
      requireBinding_def Let_def)

lemma admission_later:
  "admissionFromRecord w c = Inr a \<Longrightarrow> record_le w w' \<Longrightarrow>
   \<exists>a2. admissionFromRecord w' False = Inr a2 \<and> ca_binding a2 = ca_binding a \<and>
     ca_owner a2 = ca_owner a \<and> \<not> ca_created a2"
  by (cases w) auto

text \<open>
  C10: Admission is exactly once per start id. When an admission has answered with a run, then after
  any further admissions and containments, an exact replay of the same request - by any owner, with
  any fresh run id - answers with the same run, request digest and owner, creates nothing and
  writes nothing; and a request under the same id whose digest differs is refused as a conflict,
  again without a write.
\<close>

theorem admission_exact_replay:
  assumes "env_ok env" and "owner_ok env ow" and "\<not> blank run_id"
    and "claimClientStartAdmission env lk ow run_id r d = (d1, Inr (Some a1))"
    and "admission_steps env d1 d2"
  shows "(\<exists>a2. claimClientStartAdmission env Lock_held ow' run_id' r d2 = (d2, Inr (Some a2)) \<and>
      ca_binding a2 = ca_binding a1 \<and> ca_owner a2 = ca_owner a1 \<and> \<not> ca_created a2) \<and>
    (\<forall>r' h'. req_client_start_id r' = req_client_start_id r \<longrightarrow>
      canonicalClientStartRequestSha256 (ae_sha env) (ae_num env) r' = Inr h' \<longrightarrow>
      h' \<noteq> cb_request_sha256 (ca_binding a1) \<longrightarrow>
      claimClientStartAdmission env Lock_held ow' run_id' r' d2 = (d2, Inl request_conflict))"
proof -
  from claim_success[OF assms(4,1,2,3)] obtain i h w where
    i: "req_client_start_id r = Some i" "validateClientStartId i = Inr ()"
    and h: "canonicalClientStartRequestSha256 (ae_sha env) (ae_num env) r = Inr h"
    and w: "read_binding env d1 i = Inr w" "admissionFromRecord w (ca_created a1) = Inr a1"
      "record_binding w = Some (ca_binding a1)" "cb_request_sha256 (ca_binding a1) = h" by auto
  obtain w' where w': "read_binding env d2 i = Inr w'" "record_le w w'"
    using admission_steps_monotone[OF assms(1,5) w(1)] by blast
  then have b: "record_binding w' = Some (ca_binding a1)" using record_le_binding w(3) by metis
  have own: "\<exists>a2. admissionFromRecord w' False = Inr a2 \<and> ca_binding a2 = ca_binding a1 \<and>
      ca_owner a2 = ca_owner a1 \<and> \<not> ca_created a2"
    using w(2) w'(2) by (rule admission_later)
  show ?thesis
    using claim_replay[OF i h w'(1) b] own w(4) claim_replay[OF _ i(2) _ w'(1) b] i(1) by auto
qed

definition sample_admitted :: directory where
  "sample_admitted = fst (claimClientStartAdmission sample_env Lock_held sample_owner ''run-1'' sample_request [])"

theorem admission_exact_replay_witness:
  "\<exists>a2. claimClientStartAdmission sample_env Lock_held sample_owner ''run-2'' sample_request sample_admitted
      = (sample_admitted, Inr (Some a2)) \<and> cb_run_id (ca_binding a2) = ''run-1'' \<and> \<not> ca_created a2"
proof -
  let ?b = "\<lparr>cb_client_start_id = ''start-1'', cb_request_sha256 = replicate 64 CHR ''0'', cb_run_id = ''run-1''\<rparr>"
  let ?a = "\<lparr>ca_binding = ?b, ca_owner = sample_owner, ca_created = True, ca_cancellation_requested_at = None\<rparr>"
  have id: "req_client_start_id sample_request = Some ''start-1''" by (simp add: sample_request_def)
  have first: "claimClientStartAdmission sample_env Lock_held sample_owner ''run-1'' sample_request []
      = (sample_admitted, Inr (Some ?a))"
    by (simp add: sample_admitted_def claimClientStartAdmission_def id withAdmissionLock_def
        claim_section_def Let_def)
  have nb: "\<not> blank ''run-1''" by (simp add: blank_def js_trim_def js_space_def)
  have refl: "admission_steps sample_env sample_admitted sample_admitted" by simp
  from admission_exact_replay[OF sample_env_ok nb first refl, of sample_owner "''run-2''"]
  show ?thesis by auto
qed

end
