(* ===== verification/Input_Mailbox.thy ===== *)
theory Input_Mailbox
  imports File_Store
begin

text \<open>
  The caller-input mailbox, \<open>src/inputMailbox.ts\<close>. The state is the mailbox root: one directory per
  run, in \<open>readdir\<close> order, holding a request file \<open><request_id>.json\<close> per question and a terminal file
  \<open><request_id>.terminal.json\<close> per settled one. Records are read back as unchecked JSON, exactly as
  the code casts them, so a field is read with \<open>jget\<close>. The clock, the random suffix of a request id
  and the directory snapshots that a check-then-link operation sees are arguments.
  \<open>a.created_at.localeCompare(b.created_at)\<close> is the string order, which it is on the fixed-width ISO
  timestamps that the code writes.
\<close>

section \<open>State and records\<close>

type_synonym mailbox = "(string \<times> directory) list"

datatype settlement_outcome = Answered | Input_timed_out | Closed

datatype input_request_status = Pending | Settled settlement_outcome

text \<open>\<open>InputRequestStatusView\<close>: the status and, when settled, the \<open>settled_at\<close> field of the file.\<close>

datatype status_view = Pending_view | Settled_view settlement_outcome "json option"

fun view_status :: "status_view \<Rightarrow> input_request_status" where
  "view_status Pending_view = Pending"
| "view_status (Settled_view oc t) = Settled oc"

record input_request_record =
  ir_request_id :: string
  ir_run_id :: string
  ir_session_id :: "string option"
  ir_created_at :: string
  ir_question :: string
  ir_options :: "string list"
  ir_option_ids :: "string list"
  ir_freeform :: bool
  ir_max_answer_chars :: int

record input_terminal_record =
  it_request_id :: string
  it_status :: settlement_outcome
  it_settled_at :: string
  it_response_id :: "string option"
  it_receipt :: "string option"
  it_reason :: "string option"

definition max_input_answer_chars :: int where
  "max_input_answer_chars = 16384"

fun outcome_name :: "settlement_outcome \<Rightarrow> string" where
  "outcome_name Answered = ''answered''"
| "outcome_name Input_timed_out = ''timed_out''"
| "outcome_name Closed = ''closed''"

definition request_record_json :: "input_request_record \<Rightarrow> json" where
  "request_record_json r =
     JObj [(''schema_version'', JNum 2), (''request_id'', JStr (ir_request_id r)),
       (''run_id'', JStr (ir_run_id r)),
       (''session_id'', case ir_session_id r of None \<Rightarrow> JNull | Some s \<Rightarrow> JStr s),
       (''created_at'', JStr (ir_created_at r)), (''question'', JStr (ir_question r)),
       (''options'', JArr (map JStr (ir_options r))), (''option_ids'', JArr (map JStr (ir_option_ids r))),
       (''freeform'', JBool (ir_freeform r)), (''max_answer_chars'', JNum (of_int (ir_max_answer_chars r)))]"

definition opt_field :: "string \<Rightarrow> string option \<Rightarrow> (string \<times> json) list" where
  "opt_field k x = (case x of None \<Rightarrow> [] | Some s \<Rightarrow> [(k, JStr s)])"

definition terminal_record_json :: "input_terminal_record \<Rightarrow> json" where
  "terminal_record_json t =
     JObj ([(''schema_version'', JNum 2), (''request_id'', JStr (it_request_id t)),
       (''status'', JStr (outcome_name (it_status t))), (''settled_at'', JStr (it_settled_at t))]
       @ opt_field ''response_id'' (it_response_id t) @ opt_field ''receipt'' (it_receipt t)
       @ opt_field ''reason'' (it_reason t))"

section \<open>Names\<close>

text \<open>\<open>/^[A-Za-z0-9_.:-]+$/\<close>\<close>

definition safe_id_char :: "char \<Rightarrow> bool" where
  "safe_id_char c \<longleftrightarrow> is_alnum c \<or> c \<in> set ''_.:-''"

definition safe_id :: "string \<Rightarrow> bool" where
  "safe_id s \<longleftrightarrow> s \<noteq> [] \<and> list_all safe_id_char s"

definition assertSafeId :: "string \<Rightarrow> string \<Rightarrow> failure_reason_code \<Rightarrow> unit result" where
  "assertSafeId value key rc =
     (if safe_id value then Inr ()
      else Inl (ValidationError
        (key @ '' must contain only letters, digits, underscores, hyphens, dots, or colons'') rc))"

definition requestFile :: "string \<Rightarrow> string" where
  "requestFile requestId = requestId @ ''.json''"

definition terminalFile :: "string \<Rightarrow> string" where
  "terminalFile requestId = requestId @ ''.terminal.json''"

text \<open>\<open>/^(.+)-[a-f0-9]{12}$/\<close> on a safe id: the run id before the random suffix.\<close>

definition request_run_id :: "string \<Rightarrow> string option" where
  "request_run_id s =
     (let n = length s - 13 in
      if 14 \<le> length s \<and> s ! n = CHR ''-'' \<and> list_all is_hex_lower (drop (Suc n) s)
      then Some (take n s) else None)"

fun contains_sub :: "string \<Rightarrow> string \<Rightarrow> bool" where
  "contains_sub p [] = (p = [])"
| "contains_sub p (c # cs) = (starts_with p (c # cs) \<or> contains_sub p cs)"

text \<open>\<open>isRequestRecordFile\<close>: \<open>/-[a-f0-9]{12}\.json$/\<close> and no \<open>.tmp-\<close>.\<close>

definition isRequestRecordFile :: "string \<Rightarrow> bool" where
  "isRequestRecordFile name \<longleftrightarrow>
     ends_with ''.json'' name \<and>
     (let base = take (length name - 5) name; n = length base - 13 in
      13 \<le> length base \<and> base ! n = CHR ''-'' \<and> list_all is_hex_lower (drop (Suc n) base)) \<and>
     \<not> contains_sub ''.tmp-'' name"

section \<open>Creating a request\<close>

record create_input_options =
  ci_run_id :: string
  ci_session_id :: "string option"
  ci_question :: string
  ci_choices :: "string list option"
  ci_option_ids :: "string list option"
  ci_freeform :: "bool option"
  ci_max_answer_chars :: "rat option"

definition generic_validation :: "string \<Rightarrow> 'a result" where
  "generic_validation m = Inl (ValidationError m Rc_unknown_validation_error)"

fun check_option_ids :: "string list \<Rightarrow> string list \<Rightarrow> unit result" where
  "check_option_ids seen [] = Inr ()"
| "check_option_ids seen (i # is) =
     (case assertSafeId i ''option_id'' Rc_unknown_validation_error of
        Inl e \<Rightarrow> Inl e
      | Inr _ \<Rightarrow>
          if i \<in> set seen then generic_validation ''option_ids must be unique''
          else check_option_ids (i # seen) is)"

definition mailbox_dir :: "mailbox \<Rightarrow> string \<Rightarrow> directory option" where
  "mailbox_dir m run = map_of m run"

text \<open>\<open>fs.mkdir(runDir, { recursive: true })\<close> and the later write into it.\<close>

fun put_dir :: "mailbox \<Rightarrow> string \<Rightarrow> directory \<Rightarrow> mailbox" where
  "put_dir [] run d = [(run, d)]"
| "put_dir ((r, d') # m) run d = (if r = run then (r, d) # m else (r, d') # put_dir m run d)"

definition validated_request ::
  "create_input_options \<Rightarrow> string \<Rightarrow> string \<Rightarrow> input_request_record result" where
  "validated_request opts suffix now =
     (let runId = js_trim (ci_run_id opts); question = js_trim (ci_question opts);
          optionsList = nullish (ci_choices opts) [];
          optionIds = nullish (ci_option_ids opts)
            (map (\<lambda>i. ''option_'' @ decimal_text (Suc i)) [0..<length optionsList]);
          maxAnswerChars = nullish (ci_max_answer_chars opts) (of_int max_input_answer_chars) in
      case assertSafeId runId ''run_id'' Rc_unknown_validation_error of
        Inl e \<Rightarrow> Inl e
      | Inr _ \<Rightarrow>
          if question = [] then generic_validation ''question must be a nonempty string''
          else if length optionIds \<noteq> length optionsList
          then generic_validation ''option_ids must have one entry for each option''
          else (case check_option_ids [] optionIds of
                  Inl e \<Rightarrow> Inl e
                | Inr _ \<Rightarrow>
                    if \<not> js_is_integer maxAnswerChars \<or> maxAnswerChars < 1 \<or>
                       of_int max_input_answer_chars < maxAnswerChars
                    then generic_validation ''max_answer_chars must be an integer from 1 to 16384''
                    else Inr \<lparr>ir_request_id = runId @ ''-'' @ suffix, ir_run_id = runId,
                      ir_session_id = ci_session_id opts, ir_created_at = now, ir_question = question,
                      ir_options = optionsList, ir_option_ids = optionIds,
                      ir_freeform = nullish (ci_freeform opts) True,
                      ir_max_answer_chars = \<lfloor>maxAnswerChars\<rfloor>\<rparr>))"

definition createInputRequest ::
  "create_input_options \<Rightarrow> string \<Rightarrow> string \<Rightarrow> mailbox \<Rightarrow> mailbox \<times> input_request_record result" where
  "createInputRequest opts suffix now m =
     (case validated_request opts suffix now of
        Inl e \<Rightarrow> (m, Inl e)
      | Inr r \<Rightarrow>
          (let d = nullish (mailbox_dir m (ir_run_id r)) [] in
           case write_atomic_create d (requestFile (ir_request_id r)) (request_record_json r) of
             Inl e \<Rightarrow> (put_dir m (ir_run_id r) d, Inl e)
           | Inr d' \<Rightarrow> (put_dir m (ir_run_id r) d', Inr r)))"

section \<open>Reading requests\<close>

definition settlementStatusView :: "json option \<Rightarrow> json option \<Rightarrow> status_view option" where
  "settlementStatusView status settledAt =
     (if status = Some (JStr ''answered'') then Some (Settled_view Answered settledAt)
      else if status = Some (JStr ''timed_out'') then Some (Settled_view Input_timed_out settledAt)
      else if status = Some (JStr ''closed'') then Some (Settled_view Closed settledAt)
      else None)"

definition requestStatus :: "directory \<Rightarrow> string \<Rightarrow> status_view result" where
  "requestStatus d requestId =
     (case readJson d (terminalFile requestId) of
        Inl e \<Rightarrow> Inl e
      | Inr None \<Rightarrow> Inr Pending_view
      | Inr (Some terminal) \<Rightarrow>
          Inr (nullish (settlementStatusView (jget terminal ''status'') (jget terminal ''settled_at'')) Pending_view))"

definition request_not_found :: "string \<Rightarrow> 'a result" where
  "request_not_found requestId =
     Inl (ValidationError (''input request not found: '' @ requestId) Rc_input_request_not_found)"

text \<open>\<open>findRequestPath\<close> answers with the run directory of the request file.\<close>

definition findRequestPath :: "mailbox \<Rightarrow> string \<Rightarrow> string result" where
  "findRequestPath m requestId =
     (case assertSafeId requestId ''request_id'' Rc_input_request_not_found of
        Inl e \<Rightarrow> Inl e
      | Inr _ \<Rightarrow>
          (case request_run_id requestId of
             None \<Rightarrow> request_not_found requestId
           | Some run \<Rightarrow>
               (case mailbox_dir m run of
                  None \<Rightarrow> request_not_found requestId
                | Some d \<Rightarrow>
                    if dir_read d (requestFile requestId) = None then request_not_found requestId
                    else Inr run)))"

definition readRequiredInputRequest :: "directory \<Rightarrow> string \<Rightarrow> json result" where
  "readRequiredInputRequest d requestId =
     (case readJson d (requestFile requestId) of
        Inl e \<Rightarrow> Inl e
      | Inr None \<Rightarrow> request_not_found requestId
      | Inr (Some v) \<Rightarrow>
          if jget v ''schema_version'' \<noteq> Some (JNum 2) \<or> jget v ''request_id'' \<noteq> Some (JStr requestId)
          then request_not_found requestId else Inr v)"

record input_request_view =
  iv_request :: json
  iv_status :: status_view

definition json_string :: "json option \<Rightarrow> string" where
  "json_string v = (case v of Some (JStr s) \<Rightarrow> s | _ \<Rightarrow> [])"

definition view_created_at :: "input_request_view \<Rightarrow> string" where
  "view_created_at v = json_string (jget (iv_request v) ''created_at'')"

definition view_request_id :: "input_request_view \<Rightarrow> string" where
  "view_request_id v = json_string (jget (iv_request v) ''request_id'')"

text \<open>The inner loop of \<open>listInputRequests\<close>: the files of one run directory. \<open>file\<close> without its
  \<open>.json\<close> suffix is the request path that \<open>terminalPathFor\<close> rewrites.\<close>

fun list_run_requests ::
  "directory \<Rightarrow> string \<Rightarrow> input_request_status option \<Rightarrow> (string \<times> file_content) list \<Rightarrow>
   input_request_view list result" where
  "list_run_requests d run wanted [] = Inr []"
| "list_run_requests d run wanted ((name, c) # files) =
     (if \<not> isRequestRecordFile name then list_run_requests d run wanted files
      else
        (case parse_file c of
           Inl e \<Rightarrow> Inl e
         | Inr v \<Rightarrow>
             if jget v ''schema_version'' \<noteq> Some (JNum 2) \<or> jget v ''run_id'' \<noteq> Some (JStr run)
             then list_run_requests d run wanted files
             else
               (case requestStatus d (take (length name - 5) name) of
                  Inl e \<Rightarrow> Inl e
                | Inr st \<Rightarrow>
                    if wanted \<noteq> None \<and> wanted \<noteq> Some (view_status st)
                    then list_run_requests d run wanted files
                    else map_sum id ((#) \<lparr>iv_request = v, iv_status = st\<rparr>)
                           (list_run_requests d run wanted files))))"

fun list_runs ::
  "mailbox \<Rightarrow> input_request_status option \<Rightarrow> string list \<Rightarrow> input_request_view list result" where
  "list_runs m wanted [] = Inr []"
| "list_runs m wanted (run # runs) =
     (case mailbox_dir m run of
        None \<Rightarrow> list_runs m wanted runs
      | Some d \<Rightarrow>
          (case list_run_requests d run wanted d of
             Inl e \<Rightarrow> Inl e
           | Inr vs \<Rightarrow> map_sum id ((@) vs) (list_runs m wanted runs)))"

definition listInputRequests ::
  "mailbox \<Rightarrow> string option \<Rightarrow> input_request_status option \<Rightarrow> input_request_view list result" where
  "listInputRequests m runId wanted =
     (let given = (case runId of None \<Rightarrow> None | Some r \<Rightarrow> if r = [] then None else Some r);
          checked = (case given of None \<Rightarrow> Inr () | Some r \<Rightarrow> assertSafeId r ''run_id'' Rc_unknown_validation_error) in
      case checked of
        Inl e \<Rightarrow> Inl e
      | Inr _ \<Rightarrow>
          map_sum id (sort_key view_created_at)
            (list_runs m wanted (case given of Some r \<Rightarrow> [r] | None \<Rightarrow> map fst m)))"

section \<open>Settling a request\<close>

definition alreadySettledError :: "string \<Rightarrow> input_request_status \<Rightarrow> js_error" where
  "alreadySettledError requestId status =
     (case status of
        Settled Answered \<Rightarrow>
          ValidationError (''input request is already answered: '' @ requestId) Rc_input_request_already_answered
      | Settled Input_timed_out \<Rightarrow>
          ValidationError (''input request is already timed out: '' @ requestId) Rc_input_request_already_timed_out
      | Settled Closed \<Rightarrow>
          ValidationError (''input request is already closed: '' @ requestId) Rc_input_request_already_closed
      | Pending \<Rightarrow>
          ValidationError (''input request is already settled: '' @ requestId) Rc_unknown_validation_error)"

record settle_options =
  so_request_id :: string
  so_outcome :: settlement_outcome
  so_response_id :: "string option"
  so_receipt :: "string option"
  so_reason :: "string option"
  so_settled_at :: string

definition check_settlement :: "settle_options \<Rightarrow> unit result" where
  "check_settlement o1 =
     (if so_outcome o1 = Answered then
        (case so_response_id o1 of
           None \<Rightarrow> generic_validation ''response_id must be a nonempty string''
         | Some rid \<Rightarrow>
             if blank rid then generic_validation ''response_id must be a nonempty string''
             else (case assertSafeId rid ''response_id'' Rc_unknown_validation_error of
                     Inl e \<Rightarrow> Inl e
                   | Inr _ \<Rightarrow>
                       (case so_receipt o1 of
                          None \<Rightarrow> generic_validation ''receipt must be a nonempty string''
                        | Some rc \<Rightarrow>
                            if blank rc then generic_validation ''receipt must be a nonempty string''
                            else Inr ())))
      else if so_response_id o1 \<noteq> None \<or> so_receipt o1 \<noteq> None
      then generic_validation
             (outcome_name (so_outcome o1) @ '' input request settlement cannot include a response'')
      else Inr ())"

definition settlement_record :: "settle_options \<Rightarrow> input_terminal_record" where
  "settlement_record o1 =
     \<lparr>it_request_id = so_request_id o1, it_status = so_outcome o1, it_settled_at = so_settled_at o1,
      it_response_id = (if so_outcome o1 = Answered then so_response_id o1 else None),
      it_receipt = (if so_outcome o1 = Answered then so_receipt o1 else None),
      it_reason = (case so_reason o1 of Some s \<Rightarrow> if s = [] then None else Some s | None \<Rightarrow> None)\<rparr>"

text \<open>The status check reads the directory \<open>d_check\<close>; the exclusive link happens later, on \<open>d\<close>. When
  the link fails the status is read again from \<open>d\<close>.\<close>

definition settleInputRequestAtPath ::
  "settle_options \<Rightarrow> directory \<Rightarrow> directory \<Rightarrow> directory \<times> input_terminal_record result" where
  "settleInputRequestAtPath o1 d_check d =
     (case check_settlement o1 of
        Inl e \<Rightarrow> (d, Inl e)
      | Inr _ \<Rightarrow>
          (case requestStatus d_check (so_request_id o1) of
             Inl e \<Rightarrow> (d, Inl e)
           | Inr current \<Rightarrow>
               if view_status current \<noteq> Pending
               then (d, Inl (alreadySettledError (so_request_id o1) (view_status current)))
               else
                 (case write_atomic_create d (terminalFile (so_request_id o1))
                         (terminal_record_json (settlement_record o1)) of
                    Inr d' \<Rightarrow> (d', Inr (settlement_record o1))
                  | Inl e \<Rightarrow>
                      if is_eexist e
                      then (case requestStatus d (so_request_id o1) of
                              Inl e' \<Rightarrow> (d, Inl e')
                            | Inr st \<Rightarrow> (d, Inl (alreadySettledError (so_request_id o1) (view_status st))))
                      else (d, Inl e))))"

definition validateInputResponse :: "input_request_record \<Rightarrow> string \<Rightarrow> unit result" where
  "validateInputResponse r answer =
     (if blank answer then generic_validation ''answer must be a nonempty string''
      else if ir_max_answer_chars r < int (length answer)
      then generic_validation ''answer exceeds max_answer_chars''
      else if char_of (0 :: nat) \<in> set answer then generic_validation ''answer cannot contain NUL''
      else if \<not> ir_freeform r \<and> answer \<notin> set (ir_option_ids r)
      then generic_validation ''answer must be a declared option id''
      else Inr ())"

definition update_run :: "mailbox \<Rightarrow> string \<Rightarrow> directory \<times> 'a result \<Rightarrow> mailbox \<times> 'a result" where
  "update_run m run dr = (put_dir m run (fst dr), snd dr)"

definition settleInputResponse ::
  "mailbox \<Rightarrow> string \<Rightarrow> string \<Rightarrow> string \<Rightarrow> string \<Rightarrow> mailbox \<times> input_terminal_record result" where
  "settleInputResponse m requestId responseId receipt settledAt =
     (case findRequestPath m requestId of
        Inl e \<Rightarrow> (m, Inl e)
      | Inr run \<Rightarrow>
          (let d = nullish (mailbox_dir m run) [] in
           case readRequiredInputRequest d requestId of
             Inl e \<Rightarrow> (m, Inl e)
           | Inr _ \<Rightarrow>
               update_run m run
                 (settleInputRequestAtPath
                    \<lparr>so_request_id = requestId, so_outcome = Answered, so_response_id = Some responseId,
                     so_receipt = Some receipt, so_reason = None, so_settled_at = settledAt\<rparr> d d)))"

text \<open>The \<open>catch\<close> of the closing loop: a \<open>ValidationError\<close> whose message says that the request is
  already answered, timed out or closed is passed over.\<close>

definition already_settled_message :: "js_error \<Rightarrow> bool" where
  "already_settled_message e =
     (case e of
        ValidationError m rc \<Rightarrow>
          contains_sub ''already answered'' m \<or> contains_sub ''already timed out'' m \<or>
          contains_sub ''already closed'' m
      | _ \<Rightarrow> False)"

fun close_requests ::
  "string \<Rightarrow> string \<Rightarrow> mailbox \<Rightarrow> string list \<Rightarrow> mailbox \<times> input_terminal_record list result" where
  "close_requests reason settledAt m [] = (m, Inr [])"
| "close_requests reason settledAt m (requestId # rest) =
     (let settled =
        (case findRequestPath m requestId of
           Inl e \<Rightarrow> (m, Inl e)
         | Inr run \<Rightarrow>
             let d = nullish (mailbox_dir m run) [] in
             update_run m run
               (settleInputRequestAtPath
                  \<lparr>so_request_id = requestId, so_outcome = Closed, so_response_id = None,
                   so_receipt = None, so_reason = Some reason, so_settled_at = settledAt\<rparr> d d)) in
      case settled of
        (m', Inr t) \<Rightarrow>
          (let (m'', r) = close_requests reason settledAt m' rest in (m'', map_sum id ((#) t) r))
      | (m', Inl e) \<Rightarrow>
          if already_settled_message e then close_requests reason settledAt m' rest else (m', Inl e))"

definition closePendingInputRequestsForRun ::
  "mailbox \<Rightarrow> string \<Rightarrow> string option \<Rightarrow> string \<Rightarrow> mailbox \<times> input_terminal_record list result" where
  "closePendingInputRequestsForRun m runId reason settledAt =
     (case listInputRequests m (Some runId) (Some Pending) of
        Inl e \<Rightarrow> (m, Inl e)
      | Inr pending \<Rightarrow>
          close_requests (nullish reason ''run reached a terminal state'') settledAt m
            (map view_request_id pending))"

text \<open>\<open>fs.rm(path.join(mailboxRoot, runId), { recursive: true, force: true })\<close> on a proper child of
  the mailbox root.\<close>

definition removeTerminalInputRequestsForRun :: "mailbox \<Rightarrow> string \<Rightarrow> mailbox \<times> unit result" where
  "removeTerminalInputRequestsForRun m runId =
     (case assertSafeId runId ''run_id'' Rc_unknown_validation_error of
        Inl e \<Rightarrow> (m, Inl e)
      | Inr _ \<Rightarrow>
          (case listInputRequests m (Some runId) (Some Pending) of
             Inl e \<Rightarrow> (m, Inl e)
           | Inr pending \<Rightarrow>
               if pending \<noteq> []
               then (m, Inl (ValidationError
                 (''cannot compact input requests while run has pending input: '' @ runId)
                 Rc_run_not_accepting_input))
               else (filter (\<lambda>(r, d). r \<noteq> runId) m, Inr ())))"

section \<open>Terminal files are written once\<close>

definition status_settled :: "directory \<Rightarrow> string \<Rightarrow> bool" where
  "status_settled d i \<longleftrightarrow> (\<exists>st. requestStatus d i = Inr st \<and> view_status st \<noteq> Pending)"

lemma jget_terminal_record [simp]:
  "jget (terminal_record_json t) ''status'' = Some (JStr (outcome_name (it_status t)))"
  "jget (terminal_record_json t) ''settled_at'' = Some (JStr (it_settled_at t))"
  by (simp_all add: terminal_record_json_def)

lemma outcome_status_view [simp]:
  "settlementStatusView (Some (JStr (outcome_name oc))) t = Some (Settled_view oc t)"
  by (cases oc) (simp_all add: settlementStatusView_def)

lemma requestStatus_of_terminal:
  "dir_read d (terminalFile i) = Some (JsonFile (terminal_record_json t)) \<Longrightarrow>
   requestStatus d i = Inr (Settled_view (it_status t) (Some (JStr (it_settled_at t))))"
  by (simp add: requestStatus_def)

lemma requestStatus_cong:
  "dir_read d (terminalFile i) = dir_read d' (terminalFile i) \<Longrightarrow> requestStatus d i = requestStatus d' i"
  by (simp add: requestStatus_def readJson_def read_json_file_def)

lemma requestStatus_pending [simp]: "dir_read d (terminalFile i) = None \<Longrightarrow> requestStatus d i = Inr Pending_view"
  by (simp add: requestStatus_def)

lemma status_settled_file: "status_settled d i \<Longrightarrow> dir_read d (terminalFile i) \<noteq> None"
  by (cases "dir_read d (terminalFile i)") (auto simp: status_settled_def)

lemma settle_Inr:
  assumes "settleInputRequestAtPath o1 dc d = (d', Inr t)"
  shows "dir_link d (terminalFile (so_request_id o1)) (JsonFile (terminal_record_json t)) = Some d' \<and>
    t = settlement_record o1 \<and> it_status t = so_outcome o1"
  using assms
  by (auto simp: settleInputRequestAtPath_def write_atomic_create_Inr settlement_record_def
      split: sum.splits if_splits)

lemma settle_Inl_state: "settleInputRequestAtPath o1 dc d = (d', Inl e) \<Longrightarrow> d' = d"
  by (auto simp: settleInputRequestAtPath_def split: sum.splits if_splits)

lemma settle_blocked:
  assumes "dir_read d (terminalFile (so_request_id o1)) \<noteq> None"
  shows "\<exists>e. settleInputRequestAtPath o1 dc d = (d, Inl e)"
proof (cases "settleInputRequestAtPath o1 dc d")
  case (Pair d' r)
  show ?thesis
  proof (cases r)
    case (Inl e)
    with Pair settle_Inl_state show ?thesis by blast
  next
    case (Inr t)
    with Pair assms show ?thesis
      by (auto dest!: settle_Inr simp: dir_link_def dir_read_def split: if_splits)
  qed
qed


definition sample_answer :: settle_options where
  "sample_answer = \<lparr>so_request_id = ''run-0123456789ab'', so_outcome = Answered,
     so_response_id = Some ''r1'', so_receipt = Some ''ok'', so_reason = None, so_settled_at = ''t1''\<rparr>"


section \<open>Closing a run leaves nothing pending\<close>

text \<open>The run directories that \<open>createInputRequest\<close> builds: a request file of the run is named after
  the request it holds, and that request id leads back to the run.\<close>

definition run_dir_ok :: "string \<Rightarrow> directory \<Rightarrow> bool" where
  "run_dir_ok run d \<longleftrightarrow>
     list_all (\<lambda>(name, c).
       (case c of
          RawFile t \<Rightarrow> True
        | JsonFile v \<Rightarrow>
            isRequestRecordFile name \<longrightarrow> jget v ''run_id'' = Some (JStr run) \<longrightarrow>
            (let i = take (length name - 5) name in
             jget v ''request_id'' = Some (JStr i) \<and> name = requestFile i \<and> safe_id i \<and>
             request_run_id i = Some run))) d"

text \<open>A directory grown by terminal files only.\<close>

definition settled_ext :: "directory \<Rightarrow> directory \<Rightarrow> bool" where
  "settled_ext d d' \<longleftrightarrow> (\<exists>ts. d' = d @ ts \<and> (\<forall>(n, c) \<in> set ts. \<exists>i. n = terminalFile i))"

lemma settled_ext_refl [simp]: "settled_ext d d"
  by (simp add: settled_ext_def)

lemma settled_ext_trans: "settled_ext a b \<Longrightarrow> settled_ext b c \<Longrightarrow> settled_ext a c"
  unfolding settled_ext_def
proof (elim exE conjE)
  fix ts us
  assume "b = a @ ts" "\<forall>(n, c) \<in> set ts. \<exists>i. n = terminalFile i"
    "c = b @ us" "\<forall>(n, c) \<in> set us. \<exists>i. n = terminalFile i"
  then show "\<exists>ts. c = a @ ts \<and> (\<forall>(n, c) \<in> set ts. \<exists>i. n = terminalFile i)"
    by (intro exI[of _ "ts @ us"]) auto
qed

lemma settled_ext_read: "settled_ext d d' \<Longrightarrow> dir_read d n = Some c \<Longrightarrow> dir_read d' n = Some c"
  by (auto simp: settled_ext_def dir_read_def)

lemma settled_ext_status: "settled_ext d d' \<Longrightarrow> status_settled d i \<Longrightarrow> status_settled d' i"
proof -
  assume ext: "settled_ext d d'" and s: "status_settled d i"
  obtain c where "dir_read d (terminalFile i) = Some c" using status_settled_file[OF s] by auto
  with settled_ext_read[OF ext] have "requestStatus d i = requestStatus d' i"
    by (intro requestStatus_cong) simp
  with s show ?thesis by (simp add: status_settled_def)
qed

lemma terminalFile_not_request: "\<not> isRequestRecordFile (terminalFile i)"
proof -
  have "list_all is_hex_lower (drop (Suc (length i - 4)) (i @ ''.terminal'')) \<Longrightarrow> False"
    by (auto simp: list_all_iff is_hex_lower_def is_digit_def drop_Cons' split: if_splits)
  moreover have "length (terminalFile i) - 5 = length i + 9" by (simp add: terminalFile_def)
  moreover have "take (length i + 9) (terminalFile i) = i @ ''.terminal''" by (simp add: terminalFile_def)
  ultimately show ?thesis
    by (auto simp: isRequestRecordFile_def Let_def)
qed

lemma mailbox_dir_put [simp]:
  "mailbox_dir (put_dir m run d) r = (if r = run then Some d else mailbox_dir m r)"
  by (induction m run d rule: put_dir.induct) (auto simp: mailbox_dir_def)

lemma settle_ext:
  "settleInputRequestAtPath o1 dc d = (d', r) \<Longrightarrow> settled_ext d d'"
  by (cases r) (fastforce dest!: settle_Inl_state settle_Inr simp: settled_ext_def dir_link_def split: if_splits)+

lemma contains_sub_safe:
  assumes "CHR '' '' \<in> set p" and "list_all safe_id_char s"
  shows "\<not> contains_sub p s"
  using assms(2)
proof (induction s)
  case Nil
  then show ?case using assms(1) by auto
next
  case (Cons c s)
  have "\<not> starts_with p (c # s)"
  proof
    assume "starts_with p (c # s)"
    then have "CHR '' '' \<in> set (c # s)"
      using assms(1) by (auto simp: starts_with_def) (metis in_set_takeD set_ConsD)
    with Cons.prems show False
      by (auto simp: list_all_iff safe_id_char_def is_alnum_def is_digit_def is_upper_def is_lower_def)
  qed
  with Cons show ?case by simp
qed

lemma pending_not_already:
  assumes "safe_id i"
  shows "\<not> already_settled_message (alreadySettledError i Pending)"
  using contains_sub_safe[of _ i] assms
  by (simp add: alreadySettledError_def already_settled_message_def starts_with_def safe_id_def)

lemma settle_settles:
  assumes "settleInputRequestAtPath o1 d d = (d', r)" and "check_settlement o1 = Inr ()"
    and "safe_id (so_request_id o1)" and "\<And>e. r = Inl e \<Longrightarrow> already_settled_message e"
  shows "status_settled d' (so_request_id o1)"
proof (cases r)
  case (Inr t)
  with settle_Inr assms(1) have "dir_read d' (terminalFile (so_request_id o1)) = Some (JsonFile (terminal_record_json t))"
    using dir.ln_reads by fastforce
  from requestStatus_of_terminal[OF this] show ?thesis by (simp add: status_settled_def)
next
  case (Inl e)
  have msg: "already_settled_message e" using assms(4) Inl .
  have d': "d' = d" using assms(1) Inl settle_Inl_state by blast
  show ?thesis
  proof (cases "requestStatus d (so_request_id o1)")
    case (Inl e')
    with assms(1,2) \<open>r = Inl e\<close> have "e = e'" by (simp add: settleInputRequestAtPath_def)
    with Inl have "e = JsonSyntaxError"
      by (auto simp: requestStatus_def readJson_def read_json_file_def parse_file_def is_enoent_iff
          split: sum.splits option.splits file_content.splits if_splits)
    with msg show ?thesis by (simp add: already_settled_message_def)
  next
    case (Inr st)
    show ?thesis
    proof (cases "view_status st = Pending")
      case False
      with Inr d' show ?thesis by (simp add: status_settled_def)
    next
      case True
      with assms(1,2) Inr \<open>r = Inl e\<close> have "e = alreadySettledError (so_request_id o1) Pending"
        by (auto simp: settleInputRequestAtPath_def write_atomic_create_Inl split: sum.splits if_splits)
      with msg pending_not_already[OF assms(3)] show ?thesis by simp
    qed
  qed
qed

text \<open>The request ids of one run whose request files exist in its directory.\<close>

definition run_ids_ok :: "mailbox \<Rightarrow> string \<Rightarrow> string list \<Rightarrow> bool" where
  "run_ids_ok m run ids \<longleftrightarrow>
     (\<forall>i \<in> set ids. safe_id i \<and> request_run_id i = Some run \<and>
        (\<exists>d. mailbox_dir m run = Some d \<and> dir_read d (requestFile i) \<noteq> None))"

lemma findRequestPath_run:
  "safe_id i \<Longrightarrow> request_run_id i = Some run \<Longrightarrow> mailbox_dir m run = Some d \<Longrightarrow>
   dir_read d (requestFile i) \<noteq> None \<Longrightarrow> findRequestPath m i = Inr run"
  by (auto simp: findRequestPath_def assertSafeId_def)

lemma run_ids_ok_ext:
  assumes "run_ids_ok m run ids" and "mailbox_dir m run = Some d" and "settled_ext d d'"
  shows "run_ids_ok (put_dir m run d') run ids"
  using assms settled_ext_read[OF assms(3)] by (fastforce simp: run_ids_ok_def)

lemma close_requests_settles:
  assumes "close_requests reason ts0 m ids = (m', Inr ts)" and "run_ids_ok m run ids"
    and "mailbox_dir m run = Some d"
  shows "\<exists>d'. mailbox_dir m' run = Some d' \<and> settled_ext d d' \<and> (\<forall>i \<in> set ids. status_settled d' i)"
  using assms
proof (induction ids arbitrary: m d m' ts)
  case (Cons i ids)
  let ?o = "\<lparr>so_request_id = i, so_outcome = Closed, so_response_id = None,
    so_receipt = None, so_reason = Some reason, so_settled_at = ts0\<rparr>"
  have i: "safe_id i" "findRequestPath m i = Inr run"
    using Cons.prems(2,3) findRequestPath_run[of i run m] by (auto simp: run_ids_ok_def)
  have chk: "check_settlement ?o = Inr ()" by (simp add: check_settlement_def)
  obtain d1 r where set1: "settleInputRequestAtPath ?o d d = (d1, r)" by fastforce
  let ?m1 = "put_dir m run d1"
  have ext: "settled_ext d d1" using settle_ext[OF set1] .
  have ok: "run_ids_ok ?m1 run ids"
    by (rule run_ids_ok_ext[OF _ Cons.prems(3) ext]) (use Cons.prems(2) in \<open>simp add: run_ids_ok_def\<close>)
  have here: "status_settled d1 i" and rest: "\<exists>ts'. close_requests reason ts0 ?m1 ids = (m', Inr ts')"
    using settle_settles[OF set1 chk] Cons.prems(1) i set1 Cons.prems(3)
    by (auto simp: update_run_def Let_def split: sum.splits prod.splits if_splits)
  from rest obtain ts' where "close_requests reason ts0 ?m1 ids = (m', Inr ts')" by blast
  from Cons.IH[OF this ok] obtain d' where d': "mailbox_dir m' run = Some d'" "settled_ext d1 d'"
    "\<forall>i \<in> set ids. status_settled d' i" by auto
  with here ext show ?case
    using settled_ext_trans settled_ext_status by fastforce
qed auto

lemma list_run_requests_mem:
  assumes "list_run_requests d run (Some w) files = Inr vs" and "(name, c) \<in> set files"
    and "isRequestRecordFile name"
  shows "\<exists>v. c = JsonFile v \<and>
    (jget v ''schema_version'' = Some (JNum 2) \<longrightarrow> jget v ''run_id'' = Some (JStr run) \<longrightarrow>
      (\<exists>st. requestStatus d (take (length name - 5) name) = Inr st \<and>
        (view_status st = w \<longrightarrow> \<lparr>iv_request = v, iv_status = st\<rparr> \<in> set vs)))"
  using assms
proof (induction files arbitrary: vs)
  case (Cons f files)
  obtain n b where f: "f = (n, b)" by fastforce
  show ?case
  proof (cases "(n, b) = (name, c)")
    case True
    with Cons.prems f show ?thesis
      by (cases c) (auto simp: parse_file_def split: sum.splits if_splits)
  next
    case False
    with Cons.prems(2) f have mem: "(name, c) \<in> set files" by auto
    from Cons.prems(1) f obtain us where "list_run_requests d run (Some w) files = Inr us" "set us \<subseteq> set vs"
      by (cases b; cases "list_run_requests d run (Some w) files")
        (auto simp: parse_file_def subset_insertI split: sum.splits if_splits)
    with Cons.IH[OF _ mem Cons.prems(3)] show ?thesis by blast
  qed
qed simp

lemma list_run_requests_from:
  assumes "list_run_requests d run (Some w) files = Inr vs" and "x \<in> set vs"
  shows "\<exists>name. (name, JsonFile (iv_request x)) \<in> set files \<and> isRequestRecordFile name \<and>
     jget (iv_request x) ''run_id'' = Some (JStr run)"
  using assms
proof (induction files arbitrary: vs)
  case (Cons f files)
  obtain n b where f: "f = (n, b)" by fastforce
  from Cons.prems(1) f obtain us where us: "list_run_requests d run (Some w) files = Inr us" and
    "vs = us \<or> (\<exists>v st. vs = \<lparr>iv_request = v, iv_status = st\<rparr> # us \<and> b = JsonFile v \<and>
       isRequestRecordFile n \<and> jget v ''run_id'' = Some (JStr run))"
    by (cases b; cases "list_run_requests d run (Some w) files")
      (auto simp: parse_file_def split: sum.splits if_splits)
  with Cons.prems(2) f Cons.IH[OF us] show ?case by fastforce
qed simp

lemma list_run_requests_none:
  assumes "\<And>name c. (name, c) \<in> set files \<Longrightarrow> isRequestRecordFile name \<Longrightarrow>
     (\<exists>v. c = JsonFile v \<and> (jget v ''schema_version'' = Some (JNum 2) \<longrightarrow>
        jget v ''run_id'' = Some (JStr run) \<longrightarrow> status_settled d (take (length name - 5) name)))"
  shows "list_run_requests d run (Some Pending) files = Inr []"
  using assms
proof (induction files)
  case (Cons f files)
  obtain n b where f: "f = (n, b)" by fastforce
  have "list_run_requests d run (Some Pending) files = Inr []"
    using Cons.IH Cons.prems by auto
  moreover have "isRequestRecordFile n \<Longrightarrow> \<exists>v. b = JsonFile v \<and>
     (jget v ''schema_version'' = Some (JNum 2) \<longrightarrow> jget v ''run_id'' = Some (JStr run) \<longrightarrow>
        status_settled d (take (length n - 5) n))"
    using Cons.prems f by auto
  ultimately show ?case
    using f by (auto simp: parse_file_def status_settled_def)
qed simp

lemma list_one_run:
  "safe_id run \<Longrightarrow> mailbox_dir m run = Some d \<Longrightarrow>
   listInputRequests m (Some run) w = map_sum id (sort_key view_created_at) (list_run_requests d run w d)"
  by (auto simp: listInputRequests_def assertSafeId_def safe_id_def split: sum.splits)

lemma run_dir_okD:
  assumes "run_dir_ok run d" and "(name, JsonFile v) \<in> set d" and "isRequestRecordFile name"
    and "jget v ''run_id'' = Some (JStr run)"
  shows "jget v ''request_id'' = Some (JStr (take (length name - 5) name)) \<and>
    name = requestFile (take (length name - 5) name) \<and> safe_id (take (length name - 5) name) \<and>
    request_run_id (take (length name - 5) name) = Some run"
  using assms by (force simp: run_dir_ok_def list_all_iff Let_def)

lemma pending_ids_ok:
  assumes "run_dir_ok run d" and "mailbox_dir m run = Some d"
    and "list_run_requests d run (Some Pending) d = Inr vs" and "set us = set vs"
  shows "run_ids_ok m run (map view_request_id us)"
proof -
  have "safe_id (view_request_id x) \<and> request_run_id (view_request_id x) = Some run \<and>
      dir_read d (requestFile (view_request_id x)) \<noteq> None" if "x \<in> set vs" for x
  proof -
    from list_run_requests_from[OF assms(3) that] obtain name where
      n: "(name, JsonFile (iv_request x)) \<in> set d" "isRequestRecordFile name"
        "jget (iv_request x) ''run_id'' = Some (JStr run)" by blast
    note ok = run_dir_okD[OF assms(1) n]
    then have "view_request_id x = take (length name - 5) name"
      by (simp add: view_request_id_def json_string_def)
    moreover have "dir_read d name \<noteq> None"
      using weak_map_of_SomeI[OF n(1)] by (auto simp: dir_read_def)
    ultimately show ?thesis using ok by simp
  qed
  with assms(2,4) show ?thesis by (auto simp: run_ids_ok_def)
qed

text \<open>
  When a run reaches a terminal state its questions are closed: if closing succeeds on a run
  directory built by the mailbox (request files named after the request they hold), no request of
  the run is pending afterwards, so the compaction that follows finds nothing pending and removes
  the run's directory. A request that was answered or timed out while the run was being closed does
  not make the closing fail.
\<close>

theorem closing_leaves_nothing_pending:
  assumes "safe_id run" and "mailbox_dir m run = Some d" and "run_dir_ok run d"
    and "closePendingInputRequestsForRun m run reason at_time = (m', Inr ts)"
  shows "listInputRequests m' (Some run) (Some Pending) = Inr [] \<and>
    (\<exists>m''. removeTerminalInputRequestsForRun m' run = (m'', Inr ()) \<and> mailbox_dir m'' run = None)"
proof -
  from assms(4) obtain vs where vs: "list_run_requests d run (Some Pending) d = Inr vs" and
    cl: "close_requests (nullish reason ''run reached a terminal state'') at_time m
      (map view_request_id (sort_key view_created_at vs)) = (m', Inr ts)"
    by (auto simp: closePendingInputRequestsForRun_def list_one_run[OF assms(1,2)] split: sum.splits)
  have ids: "run_ids_ok m run (map view_request_id (sort_key view_created_at vs))"
    by (rule pending_ids_ok[OF assms(3,2) vs]) simp
  obtain d' where d': "mailbox_dir m' run = Some d'" and ext: "settled_ext d d'"
    and all: "\<And>x. x \<in> set vs \<Longrightarrow> status_settled d' (view_request_id x)"
    using close_requests_settles[OF cl ids assms(2)] by auto
  have "list_run_requests d' run (Some Pending) d' = Inr []"
  proof (rule list_run_requests_none)
    fix name c
    assume nc: "(name, c) \<in> set d'" and req: "isRequestRecordFile name"
    from ext nc req have mem: "(name, c) \<in> set d"
      using terminalFile_not_request by (fastforce simp: settled_ext_def)
    from list_run_requests_mem[OF vs this req] obtain v where v: "c = JsonFile v" and
      st: "jget v ''schema_version'' = Some (JNum 2) \<Longrightarrow> jget v ''run_id'' = Some (JStr run) \<Longrightarrow>
        \<exists>st. requestStatus d (take (length name - 5) name) = Inr st \<and>
          (view_status st = Pending \<longrightarrow> \<lparr>iv_request = v, iv_status = st\<rparr> \<in> set vs)" by blast
    have "status_settled d' (take (length name - 5) name)"
      if rec: "jget v ''schema_version'' = Some (JNum 2)" "jget v ''run_id'' = Some (JStr run)"
    proof -
      from st[OF rec] obtain s where s: "requestStatus d (take (length name - 5) name) = Inr s"
        "view_status s = Pending \<longrightarrow> \<lparr>iv_request = v, iv_status = s\<rparr> \<in> set vs" by blast
      show ?thesis
      proof (cases "view_status s = Pending")
        case True
        with run_dir_okD[OF assms(3) _ req rec(2)] mem v all[of "\<lparr>iv_request = v, iv_status = s\<rparr>"] s(2)
        show ?thesis by (simp add: view_request_id_def json_string_def)
      next
        case False
        with s(1) settled_ext_status[OF ext] show ?thesis by (auto simp: status_settled_def)
      qed
    qed
    with v show "\<exists>v. c = JsonFile v \<and> (jget v ''schema_version'' = Some (JNum 2) \<longrightarrow>
      jget v ''run_id'' = Some (JStr run) \<longrightarrow> status_settled d' (take (length name - 5) name))" by blast
  qed
  then have none: "listInputRequests m' (Some run) (Some Pending) = Inr []"
    by (simp add: list_one_run[OF assms(1) d'])
  then show ?thesis
    using assms(1)
    by (auto simp: removeTerminalInputRequestsForRun_def assertSafeId_def mailbox_dir_def store_simps)
qed

definition sample_mailbox :: mailbox where
  "sample_mailbox = fst (createInputRequest
     \<lparr>ci_run_id = ''run'', ci_session_id = None, ci_question = ''Deploy?'', ci_choices = None,
      ci_option_ids = None, ci_freeform = None, ci_max_answer_chars = None\<rparr> ''0123456789ab'' ''t0'' [])"

theorem closing_leaves_nothing_pending_witness:
  "\<exists>m' t. closePendingInputRequestsForRun sample_mailbox ''run'' None ''t1'' = (m', Inr [t]) \<and>
     listInputRequests m' (Some ''run'') (Some Pending) = Inr []"
proof -
  obtain d where d: "mailbox_dir sample_mailbox ''run'' = Some d" "run_dir_ok ''run'' d" "safe_id ''run''"
  proof -
    have "(case mailbox_dir sample_mailbox ''run'' of None \<Rightarrow> False | Some d \<Rightarrow> run_dir_ok ''run'' d) \<and>
        safe_id ''run''"
      by code_simp
    then show ?thesis using that by (auto split: option.splits)
  qed
  have "(case closePendingInputRequestsForRun sample_mailbox ''run'' None ''t1'' of
      (m', Inr [t]) \<Rightarrow> True | _ \<Rightarrow> False)"
    by code_simp
  then obtain m' t where "closePendingInputRequestsForRun sample_mailbox ''run'' None ''t1'' = (m', Inr [t])"
    by (auto split: prod.splits sum.splits list.splits)
  with closing_leaves_nothing_pending[OF d(3,1,2) this] show ?thesis by blast
qed

section \<open>A created request is found again\<close>

lemma validated_request_Inr:
  assumes "validated_request opts suffix now = Inr r"
  shows "ir_request_id r = ir_run_id r @ ''-'' @ suffix \<and> safe_id (ir_run_id r) \<and>
    length (ir_option_ids r) = length (ir_options r) \<and> 1 \<le> ir_max_answer_chars r \<and>
    ir_max_answer_chars r \<le> max_input_answer_chars"
  using assms
  by (auto simp: validated_request_def Let_def assertSafeId_def generic_validation_def le_floor_iff
        floor_le_iff split: sum.splits if_splits)

lemma request_run_id_append:
  "run \<noteq> [] \<Longrightarrow> hex_string 12 suffix \<Longrightarrow> request_run_id (run @ ''-'' @ suffix) = Some run"
  by (cases run) (auto simp: request_run_id_def hex_string_def Let_def nth_append)

lemma safe_id_append:
  "safe_id run \<Longrightarrow> hex_string 12 suffix \<Longrightarrow> safe_id (run @ ''-'' @ suffix)"
  by (auto simp: safe_id_def hex_string_def list_all_iff safe_id_char_def is_hex_lower_def is_alnum_def
      is_lower_def)

lemma jget_request_record [simp]:
  "jget (request_record_json r) ''schema_version'' = Some (JNum 2)"
  "jget (request_record_json r) ''request_id'' = Some (JStr (ir_request_id r))"
  "jget (request_record_json r) ''run_id'' = Some (JStr (ir_run_id r))"
  by (simp_all add: request_record_json_def)

text \<open>
  A question that was asked can be answered. When creating a request succeeds (the random suffix
  being the 12 lower-case hex digits of six bytes), its id leads back to the run it belongs to, the
  request read back is the one written, it is pending unless a terminal file of that name was there
  before, and its option ids match its options and its answer limit lies within 1 to 16384.
\<close>

theorem created_request_is_found:
  assumes "createInputRequest opts suffix now m = (m', Inr r)" and "hex_string 12 suffix"
  shows "\<exists>d. findRequestPath m' (ir_request_id r) = Inr (ir_run_id r) \<and>
    mailbox_dir m' (ir_run_id r) = Some d \<and>
    readRequiredInputRequest d (ir_request_id r) = Inr (request_record_json r) \<and>
    (dir_read (nullish (mailbox_dir m (ir_run_id r)) []) (terminalFile (ir_request_id r)) = None \<longrightarrow>
      requestStatus d (ir_request_id r) = Inr Pending_view) \<and>
    length (ir_option_ids r) = length (ir_options r) \<and> 1 \<le> ir_max_answer_chars r \<and>
    ir_max_answer_chars r \<le> max_input_answer_chars"
proof -
  let ?d = "nullish (mailbox_dir m (ir_run_id r)) []" and ?f = "requestFile (ir_request_id r)"
  obtain d' where v: "validated_request opts suffix now = Inr r"
    and link: "dir_link ?d ?f (JsonFile (request_record_json r)) = Some d'"
    and m': "m' = put_dir m (ir_run_id r) d'"
    using assms(1) by (auto simp: createInputRequest_def Let_def write_atomic_create_Inr split: sum.splits)
  note r = validated_request_Inr[OF v]
  have rd: "dir_read d' ?f = Some (JsonFile (request_record_json r))"
    using dir.ln_reads[OF link] by simp
  have safe: "safe_id (ir_request_id r)" "request_run_id (ir_request_id r) = Some (ir_run_id r)"
    using r assms(2) safe_id_append request_run_id_append[of "ir_run_id r"] by (auto simp: safe_id_def)
  have "findRequestPath m' (ir_request_id r) = Inr (ir_run_id r)"
    by (rule findRequestPath_run[OF safe, of _ d']) (simp_all add: m' rd)
  moreover have "terminalFile (ir_request_id r) \<noteq> ?f"
    by (simp add: terminalFile_def requestFile_def)
  then have "dir_read d' (terminalFile (ir_request_id r)) = dir_read ?d (terminalFile (ir_request_id r))"
    using dir.ln_other[OF link] by simp
  ultimately show ?thesis
    using r rd by (auto simp: m' readRequiredInputRequest_def)
qed

theorem created_request_is_found_witness:
  "\<exists>d. findRequestPath sample_mailbox ''run-0123456789ab'' = Inr ''run'' \<and>
     mailbox_dir sample_mailbox ''run'' = Some d"
proof -
  let ?opts = "\<lparr>ci_run_id = ''run'', ci_session_id = None, ci_question = ''Deploy?'', ci_choices = None,
      ci_option_ids = None, ci_freeform = None, ci_max_answer_chars = None\<rparr>"
  have "(case snd (createInputRequest ?opts ''0123456789ab'' ''t0'' []) of
      Inl e \<Rightarrow> False | Inr r \<Rightarrow> ir_run_id r = ''run'' \<and> ir_request_id r = ''run-0123456789ab'')" and
    hex: "hex_string 12 ''0123456789ab''"
    by code_simp+
  then obtain r where r: "createInputRequest ?opts ''0123456789ab'' ''t0'' [] = (sample_mailbox, Inr r)"
    "ir_run_id r = ''run''" "ir_request_id r = ''run-0123456789ab''"
    by (auto simp: sample_mailbox_def prod_eq_iff split: sum.splits)
  from created_request_is_found[OF r(1) hex] r(2,3) show ?thesis by auto
qed

end
