(* ===== verification/Terminal_Projection.thy ===== *)
theory Terminal_Projection
  imports Run_Events "HOL-Library.Multiset"
begin

text \<open>
  The consistency check on a settled run's public projection, \<open>src/terminalProjection.ts\<close>: which
  combinations of requested effect profile, observed activation, terminal status, output references
  and controller receipt may be projected. A receipt is the JSON value as it was read; the hashes of
  the two outputs are text of their own.
\<close>

datatype terminal_activation_class = Class_other | Class_researcher_v3_legacy | Class_researcher_v4_strict

record terminal_projection_input =
  tp_profile :: "effect_profile option"
  tp_class :: terminal_activation_class
  tp_status :: run_status
  tp_outputs :: "run_output_reference list"
  tp_receipt :: "json option"

section \<open>Receipts\<close>

text \<open>\<open>Object.keys(value).sort().join("\0")\<close> against the sorted expected keys.\<close>

definition exactKeys :: "json \<Rightarrow> string list \<Rightarrow> bool" where
  "exactKeys v expected \<longleftrightarrow>
     join_texts [char_of (0 :: nat)] (sort (jkeys v)) = join_texts [char_of (0 :: nat)] (sort expected)"

definition has_text :: "json \<Rightarrow> string \<Rightarrow> string \<Rightarrow> bool" where
  "has_text v k s \<longleftrightarrow> jget v k = Some (JStr s)"

definition has_sha256 :: "json \<Rightarrow> string \<Rightarrow> bool" where
  "has_sha256 v k \<longleftrightarrow> (case jget v k of Some (JStr s) \<Rightarrow> sha256_hex s | _ \<Rightarrow> False)"

definition exactLegacyReceipt :: "json \<Rightarrow> bool" where
  "exactLegacyReceipt v \<longleftrightarrow>
     is_object v \<and>
     exactKeys v [''schema_version'', ''controller'', ''state'', ''validation'', ''job_sha256'',
       ''render_profile'', ''render_sha256''] \<and>
     jget v ''schema_version'' = Some (JNum 1) \<and> has_text v ''controller'' ''researchctl'' \<and>
     has_text v ''state'' ''complete'' \<and> has_text v ''validation'' ''passed'' \<and>
     has_sha256 v ''job_sha256'' \<and> has_text v ''render_profile'' ''full'' \<and>
     has_sha256 v ''render_sha256''"

definition exactStrictReceipt ::
  "json \<Rightarrow> run_output_reference \<Rightarrow> run_output_reference \<Rightarrow> bool" where
  "exactStrictReceipt v primary packet \<longleftrightarrow>
     is_object v \<and>
     exactKeys v [''schema_version'', ''controller'', ''state'', ''validation'', ''dispatch_protocol'',
       ''job_sha256'', ''primary_profile'', ''primary_sha256'', ''packet_profile'', ''packet_sha256''] \<and>
     jget v ''schema_version'' = Some (JNum 2) \<and> has_text v ''controller'' ''researchctl'' \<and>
     has_text v ''state'' ''complete'' \<and> has_text v ''validation'' ''passed'' \<and>
     has_text v ''dispatch_protocol'' ''research_web_dispatch_v1'' \<and> has_sha256 v ''job_sha256'' \<and>
     has_text v ''primary_profile'' ''primary'' \<and>
     has_text v ''primary_sha256'' (ref_content_sha256 primary) \<and>
     has_text v ''packet_profile'' ''bendum'' \<and> has_text v ''packet_sha256'' (ref_content_sha256 packet)"

section \<open>Output roles\<close>

record output_roles =
  roles_primary :: "run_output_reference option"
  roles_packet :: "run_output_reference option"
  roles_valid :: bool

definition first_of :: "'a list \<Rightarrow> 'a option" where
  "first_of xs = (case xs of [] \<Rightarrow> None | x # _ \<Rightarrow> Some x)"

definition exactOutputRoles :: "run_output_reference list \<Rightarrow> output_roles" where
  "exactOutputRoles refs =
     (let primary = filter (\<lambda>r. ref_name r = Out_primary) refs;
          packet = filter (\<lambda>r. ref_name r = Out_packet) refs in
      \<lparr>roles_primary = first_of primary, roles_packet = first_of packet,
       roles_valid =
         1 \<le> length refs \<and> length refs \<le> 2 \<and> length primary = 1 \<and>
         length packet = length refs - 1 \<and>
         length (remdups (map ref_relative_path refs)) = length refs \<and>
         (\<forall>r \<in> set packet. ref_output_mode r = OM_final) \<and>
         (packet = [] \<or> (\<forall>r \<in> set primary. ref_output_mode r = OM_final))\<rparr>)"

section \<open>The check\<close>

definition terminalProjectionIsValid :: "terminal_projection_input \<Rightarrow> bool" where
  "terminalProjectionIsValid i =
     (let roles = exactOutputRoles (tp_outputs i) in
      case roles_primary roles of
        None \<Rightarrow> False
      | Some primary \<Rightarrow>
          if \<not> roles_valid roles then False
          else if tp_profile i \<noteq> Some Researcher_bounded_v1
          then tp_class i = Class_other \<and> roles_packet roles = None \<and> tp_receipt i = None
          else
            (case tp_class i of
               Class_researcher_v3_legacy \<Rightarrow>
                 roles_packet roles = None \<and>
                 (case tp_receipt i of None \<Rightarrow> True | Some v \<Rightarrow> exactLegacyReceipt v)
             | Class_other \<Rightarrow>
                 tp_status i \<noteq> Completed \<and> roles_packet roles = None \<and> tp_receipt i = None
             | Class_researcher_v4_strict \<Rightarrow>
                 (case (roles_packet roles, tp_receipt i) of
                    (None, None) \<Rightarrow> tp_status i \<noteq> Completed
                  | (Some packet, Some v) \<Rightarrow> exactStrictReceipt v primary packet
                  | _ \<Rightarrow> False)))"

section \<open>What a valid projection promises\<close>

lemma filter_name_split:
  "length (filter (\<lambda>r. ref_name r = Out_primary) refs) + length (filter (\<lambda>r. ref_name r = Out_packet) refs)
   = length refs"
proof (induction refs)
  case (Cons r refs)
  then show ?case by (cases "ref_name r") auto
qed simp

lemma exactOutputRoles_cases:
  fixes refs :: "run_output_reference list"
  assumes "roles_valid (exactOutputRoles refs)"
  obtains (single) p where "refs = [p]" "ref_name p = Out_primary"
      "roles_primary (exactOutputRoles refs) = Some p" "roles_packet (exactOutputRoles refs) = None"
  | (pair) p k where "refs = [p, k] \<or> refs = [k, p]" "ref_name p = Out_primary" "ref_name k = Out_packet"
      "roles_primary (exactOutputRoles refs) = Some p" "roles_packet (exactOutputRoles refs) = Some k"
      "ref_relative_path p \<noteq> ref_relative_path k" "ref_output_mode p = OM_final" "ref_output_mode k = OM_final"
proof (cases refs)
  case Nil
  with assms show thesis by (simp add: exactOutputRoles_def)
next
  case (Cons a rest)
  show thesis
  proof (cases rest)
    case Nil
    show thesis
      by (rule single[of a])
        (use assms Cons Nil in \<open>auto simp: exactOutputRoles_def Let_def first_of_def split: if_splits\<close>)
  next
    case (Cons b more)
    with assms \<open>refs = a # rest\<close> have refs: "refs = [a, b]"
      by (cases more) (simp_all add: exactOutputRoles_def Let_def)
    show thesis
    proof (cases "ref_name a")
      case Out_primary
      show thesis
        by (rule pair[of a b], cases "ref_name b")
          (use assms refs Out_primary in \<open>auto simp: exactOutputRoles_def Let_def first_of_def split: if_splits\<close>)
    next
      case Out_packet
      show thesis
        by (rule pair[of b a], cases "ref_name b")
          (use assms refs Out_packet in \<open>auto simp: exactOutputRoles_def Let_def first_of_def split: if_splits\<close>)
    qed
  qed
qed

lemma projection_roles_valid:
  "terminalProjectionIsValid i \<Longrightarrow> roles_valid (exactOutputRoles (tp_outputs i))"
  by (auto simp: terminalProjectionIsValid_def Let_def split: option.splits if_splits)

text \<open>
  A run can only be projected as a completed bounded research run when the controller vouched
  for it. A valid projection has exactly one primary output and at most one packet under another
  path; a packet or a receipt only occurs for a run that asked for the bounded researcher profile;
  with a packet, the receipt is the controller's complete and passed one and carries the hashes of
  exactly these two outputs; and under the strict activation a completed run has both.
\<close>

theorem terminal_projection_sound:
  fixes i :: terminal_projection_input
  assumes "terminalProjectionIsValid i"
  shows "\<exists>p ks. mset (tp_outputs i) = mset (p # ks) \<and> length ks \<le> 1 \<and> ref_name p = Out_primary \<and>
    list_all (\<lambda>k. ref_name k = Out_packet \<and> ref_relative_path k \<noteq> ref_relative_path p) ks \<and>
    (ks \<noteq> [] \<or> tp_receipt i \<noteq> None \<longrightarrow>
       tp_profile i = Some Researcher_bounded_v1 \<and> tp_class i \<noteq> Class_other) \<and>
    (ks \<noteq> [] \<longrightarrow> (\<exists>v. tp_receipt i = Some v \<and>
       has_text v ''state'' ''complete'' \<and> has_text v ''validation'' ''passed'' \<and>
       has_text v ''primary_sha256'' (ref_content_sha256 p) \<and>
       has_text v ''packet_sha256'' (ref_content_sha256 (hd ks)))) \<and>
    (tp_class i = Class_researcher_v4_strict \<and> tp_status i = Completed \<longrightarrow> ks \<noteq> [])"
  using projection_roles_valid[OF assms]
proof (cases rule: exactOutputRoles_cases)
  case (single p)
  with assms show ?thesis
    by (intro exI[of _ p] exI[of _ "[]"])
      (auto simp: terminalProjectionIsValid_def Let_def split: if_splits terminal_activation_class.splits option.splits)
next
  case (pair p k)
  with assms have "tp_profile i = Some Researcher_bounded_v1 \<and> tp_class i = Class_researcher_v4_strict \<and>
      (\<exists>v. tp_receipt i = Some v \<and> exactStrictReceipt v p k)"
    by (auto simp: terminalProjectionIsValid_def Let_def split: if_splits terminal_activation_class.splits option.splits)
  with pair show ?thesis
    by (intro exI[of _ p] exI[of _ "[k]"]) (auto simp: exactStrictReceipt_def add_mset_commute)
qed

definition sample_reference :: "output_name \<Rightarrow> run_output_reference" where
  "sample_reference n = \<lparr>ref_name = n, ref_relative_path = (case n of Out_primary \<Rightarrow> ''report.md'' | Out_packet \<Rightarrow> ''packet.md''),
     ref_size_bytes = 3, ref_content_sha256 = replicate 64 (case n of Out_primary \<Rightarrow> CHR ''a'' | Out_packet \<Rightarrow> CHR ''b''),
     ref_output_mode = OM_final\<rparr>"

definition sample_projection :: terminal_projection_input where
  "sample_projection = \<lparr>tp_profile = Some Researcher_bounded_v1, tp_class = Class_researcher_v4_strict,
     tp_status = Completed, tp_outputs = [sample_reference Out_packet, sample_reference Out_primary],
     tp_receipt = Some (JObj [(''schema_version'', JNum 2), (''controller'', JStr ''researchctl''),
       (''state'', JStr ''complete''), (''validation'', JStr ''passed''),
       (''dispatch_protocol'', JStr ''research_web_dispatch_v1''), (''job_sha256'', JStr (replicate 64 CHR ''0'')),
       (''primary_profile'', JStr ''primary''), (''primary_sha256'', JStr (replicate 64 CHR ''a'')),
       (''packet_profile'', JStr ''bendum''), (''packet_sha256'', JStr (replicate 64 CHR ''b''))])\<rparr>"

theorem terminal_projection_sound_witness:
  "\<exists>v. tp_receipt sample_projection = Some v \<and> has_text v ''primary_sha256'' (replicate 64 CHR ''a'')"
proof -
  have "terminalProjectionIsValid sample_projection" by code_simp
  from terminal_projection_sound[OF this] show ?thesis
    by (auto simp: sample_projection_def sample_reference_def has_text_def)
qed

end
