(* ===== verification/Research_Mediator.thy ===== *)
theory Research_Mediator
  imports Canonical_Json File_Store "HOL-Library.Multiset"
begin

text \<open>
  The accounting of research web tool calls, \<open>src/researchDispatchMediator.ts\<close>: every call of
  \<open>web_search\<close> and \<open>web_read\<close> is reserved with the controller before it runs and its result is
  recorded afterwards. Tool calls overlap, so each method is split at its \<open>await\<close>: a first step up
  to the call of the controller and a second one on its answer. The state is the object's two sets,
  with the calls that wait for the controller and, as history, the commands sent to it. The
  controller process itself and SHA-256 are arguments: every answer is possible.
\<close>

section \<open>The controller's envelope\<close>

datatype content_item = Text_item file_content | Other_item

type_synonym controller_result = "content_item list result"

fun find_text :: "content_item list \<Rightarrow> file_content option" where
  "find_text [] = None"
| "find_text (Text_item c # items) = Some c"
| "find_text (Other_item # items) = find_text items"

text \<open>\<open>controllerEnvelope\<close>; reading a property of \<open>null\<close> throws.\<close>

definition controllerEnvelope :: "content_item list \<Rightarrow> json result" where
  "controllerEnvelope content =
     (case find_text content of
        None \<Rightarrow> Inl (PlainError ''researchctl returned no text envelope'')
      | Some c \<Rightarrow>
          (case parse_file c of
             Inl e \<Rightarrow> Inl e
           | Inr v \<Rightarrow>
               if v = JNull then Inl (PlainError ''Cannot read properties of null'')
               else (case jget v ''success'' of
                       Some (JBool _) \<Rightarrow> Inr v
                     | _ \<Rightarrow> Inl (PlainError ''researchctl returned an invalid envelope''))))"

definition envelope_success :: "json \<Rightarrow> bool" where
  "envelope_success v \<longleftrightarrow> jget v ''success'' = Some (JBool True)"

text \<open>\<open>envelope.stderr?.trim() || fallback\<close>; a value that is not a string has no \<open>trim\<close>.\<close>

definition envelope_reason :: "json \<Rightarrow> string \<Rightarrow> string result" where
  "envelope_reason v fallback =
     (case jget v ''stderr'' of
        None \<Rightarrow> Inr fallback
      | Some JNull \<Rightarrow> Inr fallback
      | Some (JStr s) \<Rightarrow> Inr (if js_trim s = [] then fallback else js_trim s)
      | Some _ \<Rightarrow> Inl (PlainError ''envelope.stderr?.trim is not a function''))"

section \<open>The mediator\<close>

definition research_web_tools :: "string list" where
  "research_web_tools = [''web_search'', ''web_read'']"

datatype dispatch_command =
    Claim_dispatch (cmd_id: string) (cmd_tool: string) (cmd_arguments: string)
  | Record_dispatch_result (cmd_id: string) (cmd_result: string) (cmd_sha: string)

record mediator =
  md_claimed :: "string set"
  md_recording :: "string set"
  md_claims_pending :: "string list"
  md_records_pending :: "string list"
  md_commands :: "dispatch_command list"

definition mediator_init :: mediator where
  "mediator_init = \<lparr>md_claimed = {}, md_recording = {}, md_claims_pending = [], md_records_pending = [],
     md_commands = []\<rparr>"

text \<open>\<open>claim\<close> up to its \<open>await\<close>. A tool outside the set returns at once.\<close>

definition claim_start :: "(rat \<Rightarrow> string) \<Rightarrow> string \<Rightarrow> string \<Rightarrow> json \<Rightarrow> mediator \<Rightarrow> mediator" where
  "claim_start num i tool input s =
     (if tool \<notin> set research_web_tools then s
      else s\<lparr>md_claims_pending := i # md_claims_pending s,
             md_commands := md_commands s @ [Claim_dispatch i tool (mediatorCanonicalJson num input)]\<rparr>)"

datatype claim_reply = Allowed | Blocked string

definition claim_outcome :: "controller_result \<Rightarrow> claim_reply" where
  "claim_outcome r =
     (let failed = (\<lambda>e. Blocked (''research web dispatch reservation failed: '' @ message_of e)) in
      case bind_result r controllerEnvelope of
        Inl e \<Rightarrow> failed e
      | Inr v \<Rightarrow>
          if envelope_success v then Allowed
          else (case envelope_reason v ''research web dispatch reservation was rejected'' of
                  Inl e \<Rightarrow> failed e
                | Inr reason \<Rightarrow> Blocked reason))"

definition claim_finish :: "string \<Rightarrow> controller_result \<Rightarrow> mediator \<Rightarrow> mediator \<times> claim_reply" where
  "claim_finish i r s =
     (let s' = s\<lparr>md_claims_pending := remove1 i (md_claims_pending s)\<rparr> in
      case claim_outcome r of
        Allowed \<Rightarrow> (s'\<lparr>md_claimed := insert i (md_claimed s)\<rparr>, Allowed)
      | Blocked reason \<Rightarrow> (s', Blocked reason))"

text \<open>\<open>record\<close> up to its \<open>await\<close>: the checks and the reservation of the id are one synchronous step.\<close>

definition record_start ::
  "(rat \<Rightarrow> string) \<Rightarrow> (string \<Rightarrow> string) \<Rightarrow> string \<Rightarrow> string \<Rightarrow> json \<Rightarrow> bool \<Rightarrow> mediator \<Rightarrow>
   mediator \<times> unit result" where
  "record_start num sha256 i tool content isError s =
     (if tool \<notin> set research_web_tools then (s, Inr ())
      else if i \<notin> md_claimed s \<or> i \<in> md_recording s
      then (s, Inl (PlainError (''research web dispatch '' @ i @ '' was not claimed'')))
      else (s\<lparr>md_recording := insert i (md_recording s),
              md_records_pending := i # md_records_pending s,
              md_commands := md_commands s @
                [Record_dispatch_result i (if isError then ''error'' else ''returned'')
                   (sha256 (mediatorCanonicalJson num content))]\<rparr>, Inr ()))"

definition record_outcome :: "controller_result \<Rightarrow> unit result" where
  "record_outcome r =
     (case bind_result r controllerEnvelope of
        Inl e \<Rightarrow> Inl e
      | Inr v \<Rightarrow>
          if envelope_success v then Inr ()
          else (case envelope_reason v ''research web dispatch result was rejected'' of
                  Inl e \<Rightarrow> Inl e
                | Inr reason \<Rightarrow> Inl (PlainError reason)))"

definition record_finish :: "string \<Rightarrow> controller_result \<Rightarrow> mediator \<Rightarrow> mediator \<times> unit result" where
  "record_finish i r s =
     (let s' = s\<lparr>md_records_pending := remove1 i (md_records_pending s),
                 md_recording := md_recording s - {i}\<rparr> in
      case record_outcome r of
        Inr _ \<Rightarrow> (s'\<lparr>md_claimed := md_claimed s - {i}\<rparr>, Inr ())
      | Inl e \<Rightarrow> (s', Inl e))"

text \<open>\<open>createResearchDispatchExtension\<close>: the reply of the \<open>tool_result\<close> handler, \<open>None\<close> when the result
  of the tool stands.\<close>

definition tool_result_reply :: "unit result \<Rightarrow> string option" where
  "tool_result_reply r =
     (case r of
        Inr _ \<Rightarrow> None
      | Inl e \<Rightarrow> Some (''Research dispatch accounting failed: '' @ message_of e))"

section \<open>Interleaved tool calls\<close>

text \<open>A step is one half of a method; the event carries the arguments of the call or the controller's
  answer. The history of a session is the list of its events.\<close>

datatype mediator_event =
    Claim_starts string string json
  | Claim_answered string controller_result
  | Record_starts string string json bool
  | Record_answered string controller_result

inductive mediator_step ::
  "(rat \<Rightarrow> string) \<Rightarrow> (string \<Rightarrow> string) \<Rightarrow> mediator \<Rightarrow> mediator_event \<Rightarrow> mediator \<Rightarrow> bool"
  for num sha256 where
  claim_starts: "mediator_step num sha256 s (Claim_starts i tool v) (claim_start num i tool v s)"
| claim_answered: "i \<in> set (md_claims_pending s) \<Longrightarrow>
    mediator_step num sha256 s (Claim_answered i r) (fst (claim_finish i r s))"
| record_starts: "mediator_step num sha256 s (Record_starts i tool v err)
    (fst (record_start num sha256 i tool v err s))"
| record_answered: "i \<in> set (md_records_pending s) \<Longrightarrow>
    mediator_step num sha256 s (Record_answered i r) (fst (record_finish i r s))"

inductive_cases mediator_stepE: "mediator_step num sha256 s e s'"

inductive mediator_run ::
  "(rat \<Rightarrow> string) \<Rightarrow> (string \<Rightarrow> string) \<Rightarrow> mediator_event list \<Rightarrow> mediator \<Rightarrow> bool"
  for num sha256 where
  start: "mediator_run num sha256 [] mediator_init"
| more: "mediator_run num sha256 es s \<Longrightarrow> mediator_step num sha256 s e s' \<Longrightarrow>
    mediator_run num sha256 (es @ [e]) s'"

definition accepted_claims :: "string \<Rightarrow> mediator_event list \<Rightarrow> nat" where
  "accepted_claims i es =
     length (filter (\<lambda>e. case e of Claim_answered j r \<Rightarrow> j = i \<and> claim_outcome r = Allowed | _ \<Rightarrow> False) es)"

definition accepted_records :: "string \<Rightarrow> mediator_event list \<Rightarrow> nat" where
  "accepted_records i es =
     length (filter (\<lambda>e. case e of Record_answered j r \<Rightarrow> j = i \<and> is_ok (record_outcome r) | _ \<Rightarrow> False) es)"

lemma accepted_snoc [simp]:
  "accepted_claims i (es @ [e]) = accepted_claims i es +
     (case e of Claim_answered j r \<Rightarrow> if j = i \<and> claim_outcome r = Allowed then 1 else 0 | _ \<Rightarrow> 0)"
  "accepted_records i (es @ [e]) = accepted_records i es +
     (case e of Record_answered j r \<Rightarrow> if j = i \<and> is_ok (record_outcome r) then 1 else 0 | _ \<Rightarrow> 0)"
  by (simp_all add: accepted_claims_def accepted_records_def split: mediator_event.splits)

lemma accepted_nil [simp]: "accepted_claims i [] = 0" "accepted_records i [] = 0"
  by (simp_all add: accepted_claims_def accepted_records_def)

definition mediator_inv :: "mediator_event list \<Rightarrow> mediator \<Rightarrow> bool" where
  "mediator_inv es s \<longleftrightarrow>
     set (md_records_pending s) = md_recording s \<and> distinct (md_records_pending s) \<and>
     md_recording s \<subseteq> md_claimed s \<and>
     (\<forall>i. accepted_records i es + (if i \<in> md_claimed s then 1 else 0) \<le> accepted_claims i es)"

lemma mediator_inv_step:
  assumes "mediator_inv es s" and "mediator_step num sha256 s e s'"
  shows "mediator_inv (es @ [e]) s'"
  using assms(2)
proof (cases rule: mediator_step.cases)
  case (claim_starts i tool v)
  with assms(1) show ?thesis by (simp add: mediator_inv_def claim_start_def)
next
  case (claim_answered i r)
  have bound: "accepted_records j es + (if j \<in> md_claimed s then 1 else 0) \<le> accepted_claims j es" for j
    using assms(1) by (simp add: mediator_inv_def)
  have "accepted_records j (es @ [e]) + (if j \<in> md_claimed s' then 1 else 0) \<le> accepted_claims j (es @ [e])" for j
    using bound[of j] claim_answered by (auto simp: claim_finish_def Let_def split: claim_reply.splits if_splits)
  moreover have "md_claimed s \<subseteq> md_claimed s'" "md_recording s' = md_recording s"
    "md_records_pending s' = md_records_pending s"
    using claim_answered by (auto simp: claim_finish_def Let_def split: claim_reply.splits)
  ultimately show ?thesis using assms(1) by (auto simp: mediator_inv_def)
next
  case (record_starts i tool v err)
  with assms(1) show ?thesis by (auto simp: mediator_inv_def record_start_def)
next
  case (record_answered i r)
  then have mem: "i \<in> md_claimed s" using assms(1) by (auto simp: mediator_inv_def)
  have bound: "accepted_records j es + (if j \<in> md_claimed s then 1 else 0) \<le> accepted_claims j es" for j
    using assms(1) by (simp add: mediator_inv_def)
  have "accepted_records j (es @ [e]) + (if j \<in> md_claimed s' then 1 else 0) \<le> accepted_claims j (es @ [e])" for j
    using bound[of j] record_answered mem by (auto simp: record_finish_def Let_def split: sum.splits if_splits)
  moreover have "set (md_records_pending s') = md_recording s'" "distinct (md_records_pending s')"
    "md_recording s' \<subseteq> md_claimed s'"
    using record_answered assms(1) by (auto simp: record_finish_def Let_def mediator_inv_def split: sum.splits)
  ultimately show ?thesis by (simp add: mediator_inv_def)
qed

lemma mediator_inv_run: "mediator_run num sha256 es s \<Longrightarrow> mediator_inv es s"
proof (induction rule: mediator_run.induct)
  case start
  show ?case by (simp add: mediator_inv_def mediator_init_def)
next
  case (more es s e s')
  then show ?case by (blast intro: mediator_inv_step)
qed

text \<open>
  C40: Research accounting is never ahead of what was reserved. In every interleaving of overlapping
  tool calls, with any answers of the controller: no two results of one call are being recorded at
  once, a result is only being recorded for a reserved call, and the number of results the
  controller accepted for a call id never exceeds the number of reservations it accepted for it. A
  result for an id that is not reserved (or is being recorded) is refused without reaching the
  controller, and a result whose recording failed leaves its reservation in place, so it can be
  recorded again.
\<close>

theorem dispatch_results_are_reserved:
  assumes "mediator_run num sha256 es s"
  shows "distinct (md_records_pending s) \<and> set (md_records_pending s) \<subseteq> md_claimed s \<and>
    accepted_records i es \<le> accepted_claims i es \<and>
    (tool \<in> set research_web_tools \<and> accepted_claims i es = accepted_records i es \<longrightarrow>
       record_start num sha256 i tool v err s
         = (s, Inl (PlainError (''research web dispatch '' @ i @ '' was not claimed'')))) \<and>
    (i \<in> set (md_records_pending s) \<and> \<not> is_ok (record_outcome r) \<longrightarrow>
       i \<in> md_claimed (fst (record_finish i r s)) \<and> i \<notin> md_recording (fst (record_finish i r s)))"
proof -
  have inv: "mediator_inv es s" using mediator_inv_run[OF assms] .
  then have bound: "accepted_records i es + (if i \<in> md_claimed s then 1 else 0) \<le> accepted_claims i es"
    by (simp add: mediator_inv_def)
  have "record_start num sha256 i tool v err s
      = (s, Inl (PlainError (''research web dispatch '' @ i @ '' was not claimed'')))"
    if "tool \<in> set research_web_tools" "accepted_claims i es = accepted_records i es"
    using that bound by (auto simp: record_start_def split: if_splits)
  moreover have "i \<in> md_claimed (fst (record_finish i r s)) \<and> i \<notin> md_recording (fst (record_finish i r s))"
    if "i \<in> set (md_records_pending s)" "\<not> is_ok (record_outcome r)"
    using that inv by (auto simp: record_finish_def Let_def mediator_inv_def split: sum.splits)
  moreover have "distinct (md_records_pending s)" "set (md_records_pending s) \<subseteq> md_claimed s"
    using inv by (auto simp: mediator_inv_def)
  moreover have "accepted_records i es \<le> accepted_claims i es"
    using bound by linarith
  ultimately show ?thesis by blast
qed

definition accepting :: controller_result where
  "accepting = Inr [Text_item (JsonFile (JObj [(''success'', JBool True)]))]"

definition sample_session :: mediator where
  "sample_session =
     (let s1 = claim_start (\<lambda>_. ''0'') ''call-1'' ''web_search'' (JObj [(''query'', JStr ''x'')]) mediator_init;
          s2 = fst (claim_finish ''call-1'' accepting s1) in
      fst (record_start (\<lambda>_. ''0'') (\<lambda>_. ''hash'') ''call-1'' ''web_search'' (JArr []) False s2))"

lemma sample_session_run:
  "mediator_run (\<lambda>_. ''0'') (\<lambda>_. ''hash'')
     [Claim_starts ''call-1'' ''web_search'' (JObj [(''query'', JStr ''x'')]), Claim_answered ''call-1'' accepting,
      Record_starts ''call-1'' ''web_search'' (JArr []) False] sample_session"
proof -
  let ?run = "mediator_run (\<lambda>_. ''0'') (\<lambda>_. ''hash'')"
  let ?s1 = "claim_start (\<lambda>_. ''0'') ''call-1'' ''web_search'' (JObj [(''query'', JStr ''x'')]) mediator_init"
  have 1: "?run ([] @ [Claim_starts ''call-1'' ''web_search'' (JObj [(''query'', JStr ''x'')])]) ?s1"
    by (rule mediator_run.more[OF mediator_run.start mediator_step.claim_starts])
  have "''call-1'' \<in> set (md_claims_pending ?s1)"
    by (simp add: claim_start_def research_web_tools_def)
  from mediator_run.more[OF 1 mediator_step.claim_answered[OF this, of _ _ accepting]] show ?thesis
    unfolding sample_session_def Let_def by (auto dest: mediator_run.more[OF _ mediator_step.record_starts])
qed

theorem dispatch_results_are_reserved_witness:
  "md_records_pending sample_session = [''call-1''] \<and> ''call-1'' \<in> md_claimed sample_session"
proof -
  have "md_records_pending sample_session = [''call-1'']" by code_simp
  with dispatch_results_are_reserved[OF sample_session_run] show ?thesis by auto
qed

end
