(* ===== verification/Recursive_Control.thy ===== *)
theory Recursive_Control
  imports Canonical_Json Skill_Binding Run_Lifecycle
begin

text \<open>
  The recursive-delegation control channel, \<open>src/recursiveControl.ts\<close>: a child process sends one JSON
  line over the parent's socket; the server checks the envelope, the caller's lineage and the depth
  limit and calls the \<open>delegate\<close> or \<open>rejoin\<close> handler. The handlers are callbacks of the program and
  act on its state \<open>'s\<close>, so they are arguments here. A line is the JSON value it parses to, or text
  that \<open>JSON.parse\<close> rejects. SHA-256, number texts and the random ids are arguments.
\<close>

section \<open>Records\<close>

record recursive_caller =
  rc_parent_run_id :: string
  rc_root_run_id :: string
  rc_recursion_depth :: int
  rc_system_skill_name :: "string option"
  rc_specialist_catalogue_scope :: "specialist_catalogue_scope option"
  rc_governing_model_class :: "model_class option"

record recursive_child_config =
  rcc_caller :: recursive_caller
  rcc_socket_path :: string
  rcc_token :: string

datatype rpc_method = Delegate | Rejoin

fun method_name :: "rpc_method \<Rightarrow> string" where
  "method_name Delegate = ''delegate''"
| "method_name Rejoin = ''rejoin''"

record attempt_receipt =
  ar_request_id :: string
  ar_request_sha256 :: string
  ar_task_sha256 :: "string option"
  ar_task_size_bytes :: "nat option"
  ar_public_request :: json

record rejected_result =
  rj_reason_code :: failure_reason_code
  rj_message :: string
  rj_attempt :: "attempt_receipt option"

datatype delegate_result = Handler_result json | Rejected rejected_result

datatype rpc_response =
    Rpc_success (rpc_id: string) delegate_result
  | Rpc_failure (rpc_id: string) string failure_reason_code

record control_handle =
  ch_socket_path :: string
  ch_token :: string
  ch_max_depth :: int

record 's control_handlers =
  hd_delegate :: "recursive_caller \<Rightarrow> json \<Rightarrow> 's \<Rightarrow> 's \<times> json result"
  hd_rejoin :: "recursive_caller \<Rightarrow> json \<Rightarrow> 's \<Rightarrow> 's \<times> json result"

definition maxRecursiveDepthFromEnv :: "(string \<Rightarrow> rat option) \<Rightarrow> (string \<Rightarrow> string option) \<Rightarrow> int" where
  "maxRecursiveDepthFromEnv to_number env =
     safeIntegerFromEnv to_number env ''SUBAGENT007_MAX_RECURSION_DEPTH'' 8 0"

section \<open>Attempt receipts\<close>

definition public_param_fields :: "string list" where
  "public_param_fields = [''cwd'', ''model_class'', ''skill_name'', ''output_mode'', ''wait_ms'', ''timeout_ms'']"

definition text_or_null :: "string option \<Rightarrow> json" where
  "text_or_null t = (case t of None \<Rightarrow> JNull | Some s \<Rightarrow> JStr s)"

text \<open>\<open>...(name ? { key: name } : {})\<close>: the empty string is dropped as well.\<close>

definition truthy_field :: "string \<Rightarrow> string option \<Rightarrow> (string \<times> json) list" where
  "truthy_field k t = (case t of None \<Rightarrow> [] | Some s \<Rightarrow> if s = [] then [] else [(k, JStr s)])"

definition recursiveDelegateAttemptReceipt ::
  "(string \<Rightarrow> string) \<Rightarrow> (rat \<Rightarrow> string) \<Rightarrow> string \<Rightarrow> recursive_caller \<Rightarrow> json \<Rightarrow> attempt_receipt" where
  "recursiveDelegateAttemptReceipt sha num requestId caller params =
     (let task = (case jget params ''prompt'' of Some (JStr s) \<Rightarrow> Some s | _ \<Rightarrow> None);
          taskSha256 = map_option sha task;
          taskSizeBytes = map_option utf8_length task;
          publicRequest = JObj (
            [(''method'', JStr ''delegate''), (''parent_run_id'', JStr (rc_parent_run_id caller)),
             (''root_run_id'', JStr (rc_root_run_id caller)),
             (''recursion_depth'', JNum (of_int (rc_recursion_depth caller)))]
            @ truthy_field ''system_skill_name'' (rc_system_skill_name caller)
            @ [(''task_sha256'', text_or_null taskSha256),
               (''task_size_bytes'', case taskSizeBytes of None \<Rightarrow> JNull | Some n \<Rightarrow> JNum (of_nat n))]
            @ concat (map (\<lambda>f. case jget params f of None \<Rightarrow> [] | Some v \<Rightarrow> [(f, v)]) public_param_fields)) in
      \<lparr>ar_request_id = requestId,
       ar_request_sha256 = sha (''subagent007.recursive_delegate_request.v1'' @ [char_of (10 :: nat)] @
         canonicalRecursiveRequestJson num publicRequest),
       ar_task_sha256 = taskSha256, ar_task_size_bytes = taskSizeBytes, ar_public_request = publicRequest\<rparr>)"

definition validationFailure :: "js_error \<Rightarrow> attempt_receipt option \<Rightarrow> rejected_result" where
  "validationFailure e attempt =
     \<lparr>rj_reason_code = nullish (reason_of e) Rc_unknown_validation_error, rj_message = message_of e,
      rj_attempt = attempt\<rparr>"

definition protocolFailure :: "string \<Rightarrow> js_error \<Rightarrow> rpc_response" where
  "protocolFailure i e =
     (let failure = validationFailure e None in Rpc_failure i (rj_message failure) (rj_reason_code failure))"

section \<open>Envelope checks\<close>

definition control_invalid :: "string \<Rightarrow> 'a result" where
  "control_invalid m = Inl (ValidationError m Rc_recursive_control_invalid)"

text \<open>\<open>asRecord\<close>; \<open>None\<close> is \<open>undefined\<close>.\<close>

definition asRecord :: "json option \<Rightarrow> json result" where
  "asRecord v =
     (case v of
        Some (JObj kvs) \<Rightarrow> Inr (JObj kvs)
      | _ \<Rightarrow> control_invalid ''recursive delegate request must be an object'')"

definition nonemptyString :: "json option \<Rightarrow> string \<Rightarrow> string result" where
  "nonemptyString v field =
     (case v of
        Some (JStr s) \<Rightarrow>
          if blank s then control_invalid (field @ '' must be a nonempty string'') else Inr (js_trim s)
      | _ \<Rightarrow> control_invalid (field @ '' must be a nonempty string''))"

definition nonnegativeInteger :: "json option \<Rightarrow> string \<Rightarrow> int result" where
  "nonnegativeInteger v field =
     (case v of
        Some (JNum x) \<Rightarrow>
          if \<not> js_is_integer x \<or> x < 0 then control_invalid (field @ '' must be a nonnegative integer'')
          else Inr \<lfloor>x\<rfloor>
      | _ \<Rightarrow> control_invalid (field @ '' must be a nonnegative integer''))"

definition check_scope :: "json option \<Rightarrow> specialist_catalogue_scope option result" where
  "check_scope v =
     (case v of
        None \<Rightarrow> Inr None
      | Some x \<Rightarrow>
          if x = JStr ''selected_only'' then Inr (Some Selected_only)
          else control_invalid ''caller.specialist_catalogue_scope must be selected_only'')"

definition check_model_class :: "json option \<Rightarrow> model_class option result" where
  "check_model_class v =
     (case v of
        None \<Rightarrow> Inr None
      | Some x \<Rightarrow>
          (case x of
             JStr s \<Rightarrow>
               (case map_of model_classes s of
                  Some c \<Rightarrow> Inr (Some c)
                | None \<Rightarrow> control_invalid ''caller.governing_model_class must be a valid model class'')
           | _ \<Rightarrow> control_invalid ''caller.governing_model_class must be a valid model class''))"

definition validateCaller :: "json option \<Rightarrow> recursive_caller result" where
  "validateCaller value =
     bind_result (asRecord value) (\<lambda>caller.
     bind_result (validateSkillName (jget caller ''system_skill_name'') ''caller.system_skill_name'') (\<lambda>skill.
     bind_result (check_scope (jget caller ''specialist_catalogue_scope'')) (\<lambda>scope.
     bind_result (check_model_class (jget caller ''governing_model_class'')) (\<lambda>cls.
       if (skill = None) \<noteq> (cls = None)
       then control_invalid ''recursive governing system skill and model class must be present together''
       else if scope \<noteq> None \<and> skill = None
       then control_invalid ''recursive specialist catalogue scope requires a governing system skill''
       else
         bind_result (nonemptyString (jget caller ''parent_run_id'') ''caller.parent_run_id'') (\<lambda>parent.
         bind_result (nonemptyString (jget caller ''root_run_id'') ''caller.root_run_id'') (\<lambda>top.
         bind_result (nonnegativeInteger (jget caller ''recursion_depth'') ''caller.recursion_depth'') (\<lambda>depth.
           Inr \<lparr>rc_parent_run_id = parent, rc_root_run_id = top, rc_recursion_depth = depth,
             rc_system_skill_name = skill, rc_specialist_catalogue_scope = scope,
             rc_governing_model_class = cls\<rparr>)))))))"

record rpc_envelope =
  en_id :: string
  en_method :: rpc_method
  en_caller :: recursive_caller
  en_params :: json

definition check_method :: "json option \<Rightarrow> rpc_method result" where
  "check_method v =
     (if v = Some (JStr ''delegate'') then Inr Delegate
      else if v = Some (JStr ''rejoin'') then Inr Rejoin
      else control_invalid ''recursive control method must be delegate or rejoin'')"

definition validateEnvelope :: "string \<Rightarrow> string \<Rightarrow> json \<Rightarrow> rpc_envelope result" where
  "validateEnvelope random_id token value =
     bind_result (asRecord (Some value)) (\<lambda>envelope.
       let i = (case jget envelope ''id'' of
                  Some (JStr s) \<Rightarrow> if blank s then random_id else js_trim s
                | _ \<Rightarrow> random_id) in
       if jget envelope ''token'' \<noteq> Some (JStr token)
       then control_invalid ''recursive control token is invalid''
       else
         bind_result (check_method (jget envelope ''method'')) (\<lambda>m.
         bind_result (validateCaller (jget envelope ''caller'')) (\<lambda>caller.
         bind_result (asRecord (jget envelope ''params'')) (\<lambda>params.
           Inr \<lparr>en_id = i, en_method = m, en_caller = caller, en_params = params\<rparr>))))"

section \<open>Serving one line\<close>

definition depth_error :: "(rat \<Rightarrow> string) \<Rightarrow> int \<Rightarrow> int \<Rightarrow> js_error" where
  "depth_error num depth limit =
     ValidationError (''recursive subagent depth limit reached: depth='' @ num (of_int depth) @ '', max='' @
       num (of_int limit)) Rc_recursive_depth_exceeded"

definition serve_envelope ::
  "(string \<Rightarrow> string) \<Rightarrow> (rat \<Rightarrow> string) \<Rightarrow> control_handle \<Rightarrow> 's control_handlers \<Rightarrow> rpc_envelope \<Rightarrow>
   's \<Rightarrow> 's \<times> rpc_response" where
  "serve_envelope sha num handle handlers env s =
     (let attempt = (if en_method env = Delegate
            then Some (recursiveDelegateAttemptReceipt sha num (en_id env) (en_caller env) (en_params env))
            else None);
          depth = rc_recursion_depth (en_caller env) in
      if en_method env = Delegate \<and> ch_max_depth handle \<le> depth
      then (s, Rpc_success (en_id env)
             (Rejected (validationFailure (depth_error num depth (ch_max_depth handle)) attempt)))
      else
        (case (case en_method env of
                 Delegate \<Rightarrow> hd_delegate handlers (en_caller env) (en_params env) s
               | Rejoin \<Rightarrow> hd_rejoin handlers (en_caller env) (en_params env) s) of
           (s', Inr r) \<Rightarrow> (s', Rpc_success (en_id env) (Handler_result r))
         | (s', Inl e) \<Rightarrow> (s', Rpc_success (en_id env) (Rejected (validationFailure e attempt)))))"

definition handleRpcLine ::
  "(string \<Rightarrow> string) \<Rightarrow> (rat \<Rightarrow> string) \<Rightarrow> string \<Rightarrow> string \<Rightarrow> control_handle \<Rightarrow> 's control_handlers \<Rightarrow>
   file_content \<Rightarrow> 's \<Rightarrow> 's \<times> rpc_response" where
  "handleRpcLine sha num line_id envelope_id handle handlers line s =
     (case bind_result (parse_file line) (validateEnvelope envelope_id (ch_token handle)) of
        Inl e \<Rightarrow> (s, protocolFailure line_id e)
      | Inr env \<Rightarrow> serve_envelope sha num handle handlers env s)"

text \<open>The connection's \<open>data\<close> events: characters are buffered up to the first line feed; then the socket
  is paused and that line is served.\<close>

datatype connection = Buffering string | Serving string

definition socket_data :: "string \<Rightarrow> connection \<Rightarrow> connection" where
  "socket_data chunk c =
     (case c of
        Serving l \<Rightarrow> Serving l
      | Buffering b \<Rightarrow>
          (let buffer = b @ chunk; nl = char_of (10 :: nat) in
           if nl \<notin> set buffer then Buffering buffer
           else Serving (takeWhile (\<lambda>x. x \<noteq> nl) buffer)))"

definition startRecursiveControlServer :: "control_handle \<Rightarrow> control_handle option \<Rightarrow> control_handle option" where
  "startRecursiveControlServer fresh active = (case active of Some h \<Rightarrow> Some h | None \<Rightarrow> Some fresh)"

section \<open>The child's side\<close>

definition recursiveControlConfigForChild ::
  "control_handle option \<Rightarrow> string \<Rightarrow> string option \<Rightarrow> int option \<Rightarrow> string option \<Rightarrow>
   specialist_catalogue_scope option \<Rightarrow> model_class option \<Rightarrow> recursive_child_config option" where
  "recursiveControlConfigForChild active run_id root_id depth skill scope cls =
     (case active of
        None \<Rightarrow> None
      | Some h \<Rightarrow>
          Some \<lparr>rcc_caller = \<lparr>rc_parent_run_id = run_id, rc_root_run_id = nullish root_id run_id,
                  rc_recursion_depth = nullish depth 0,
                  rc_system_skill_name = (if skill = Some [] then None else skill),
                  rc_specialist_catalogue_scope = scope, rc_governing_model_class = cls\<rparr>,
                rcc_socket_path = ch_socket_path h, rcc_token = ch_token h\<rparr>)"

definition scope_name :: "specialist_catalogue_scope \<Rightarrow> string" where
  "scope_name s = (case s of Selected_only \<Rightarrow> ''selected_only'')"

fun model_class_name :: "model_class \<Rightarrow> string" where
  "model_class_name MC_A = ''A''" | "model_class_name MC_B = ''B''" | "model_class_name MC_C = ''C''"
| "model_class_name MC_D = ''D''" | "model_class_name MC_E = ''E''" | "model_class_name MC_Z1 = ''Z1''"
| "model_class_name MC_Z2 = ''Z2''" | "model_class_name MC_Z3 = ''Z3''" | "model_class_name MC_Z4 = ''Z4''"

definition caller_json :: "recursive_caller \<Rightarrow> json" where
  "caller_json c =
     JObj ([(''parent_run_id'', JStr (rc_parent_run_id c)), (''root_run_id'', JStr (rc_root_run_id c)),
        (''recursion_depth'', JNum (of_int (rc_recursion_depth c)))]
       @ truthy_field ''system_skill_name'' (rc_system_skill_name c)
       @ (case rc_specialist_catalogue_scope c of None \<Rightarrow> []
          | Some s \<Rightarrow> [(''specialist_catalogue_scope'', JStr (scope_name s))])
       @ (case rc_governing_model_class c of None \<Rightarrow> []
          | Some m \<Rightarrow> [(''governing_model_class'', JStr (model_class_name m))]))"

definition rpc_request_json :: "string \<Rightarrow> recursive_child_config \<Rightarrow> rpc_method \<Rightarrow> json \<Rightarrow> json" where
  "rpc_request_json i cfg m params =
     JObj [(''id'', JStr i), (''token'', JStr (rcc_token cfg)), (''method'', JStr (method_name m)),
       (''caller'', caller_json (rcc_caller cfg)), (''params'', params)]"

text \<open>How \<open>callRecursiveControl\<close> settles on a response to the request with id \<open>i\<close>.\<close>

definition client_settle :: "string \<Rightarrow> rpc_response \<Rightarrow> delegate_result result" where
  "client_settle i response =
     (if rpc_id response \<noteq> i then Inl (PlainError ''recursive control response id mismatch'')
      else (case response of
              Rpc_failure _ m rc \<Rightarrow>
                Inr (Rejected \<lparr>rj_reason_code = rc, rj_message = m, rj_attempt = None\<rparr>)
            | Rpc_success _ r \<Rightarrow> Inr r))"

definition callRecursiveControl ::
  "(string \<Rightarrow> string) \<Rightarrow> (rat \<Rightarrow> string) \<Rightarrow> string \<Rightarrow> string \<Rightarrow> string \<Rightarrow> control_handle \<Rightarrow> 's control_handlers \<Rightarrow>
   recursive_child_config \<Rightarrow> rpc_method \<Rightarrow> json \<Rightarrow> 's \<Rightarrow> 's \<times> delegate_result result" where
  "callRecursiveControl sha num i line_id envelope_id handle handlers cfg m params s =
     (let (s', response) = handleRpcLine sha num line_id envelope_id handle handlers
            (JsonFile (rpc_request_json i cfg m params)) s in
      (s', client_settle i response))"

section \<open>Framing\<close>

lemma takeWhile_concat_stop:
  "x \<in> set a \<Longrightarrow> takeWhile (\<lambda>y. y \<noteq> x) (a @ b) = takeWhile (\<lambda>y. y \<noteq> x) a"
  by (induction a) auto

lemma socket_data_fold_from:
  "char_of (10 :: nat) \<notin> set b \<Longrightarrow>
   fold socket_data chunks (Buffering b) =
     (let all = b @ concat chunks in
      if char_of (10 :: nat) \<notin> set all then Buffering all
      else Serving (takeWhile (\<lambda>x. x \<noteq> char_of (10 :: nat)) all))"
proof (induction chunks arbitrary: b)
  case (Cons c chunks)
  have stay: "fold socket_data cs (Serving l) = Serving l" for cs l
    by (induction cs) (simp_all add: socket_data_def)
  show ?case
  proof (cases "char_of (10 :: nat) \<in> set (b @ c)")
    case True
    then have "socket_data c (Buffering b) = Serving (takeWhile (\<lambda>x. x \<noteq> char_of (10 :: nat)) (b @ c))"
      by (simp add: socket_data_def Let_def)
    with True takeWhile_concat_stop[OF True, of "concat chunks"] show ?thesis
      by (auto simp: stay Let_def)
  next
    case False
    then have "socket_data c (Buffering b) = Buffering (b @ c)" by (simp add: socket_data_def Let_def)
    with Cons.IH[of "b @ c"] False show ?thesis by (simp add: Let_def)
  qed
qed (simp add: Let_def)

text \<open>
  The line that is served does not depend on how the bytes of the connection were split into
  chunks: nothing is served before a line feed arrives, and then it is exactly the text before the
  first line feed of everything received so far.
\<close>

theorem rpc_line_framing:
  "fold socket_data chunks (Buffering []) =
     (if char_of (10 :: nat) \<in> set (concat chunks)
      then Serving (takeWhile (\<lambda>x. x \<noteq> char_of (10 :: nat)) (concat chunks))
      else Buffering (concat chunks))"
  by (simp add: socket_data_fold_from Let_def)

section \<open>Who reaches a handler\<close>

lemma asRecord_Inr_iff: "asRecord v = Inr w \<longleftrightarrow> v = Some w \<and> is_object w"
  by (auto simp: asRecord_def control_invalid_def is_object_def split: option.splits json.splits)

lemma validateEnvelope_InrD:
  assumes "validateEnvelope r token v = Inr env"
  shows "jget v ''token'' = Some (JStr token) \<and> check_method (jget v ''method'') = Inr (en_method env) \<and>
    validateCaller (jget v ''caller'') = Inr (en_caller env)"
  using assms
  by (auto simp: validateEnvelope_def bind_result_Inr_iff asRecord_Inr_iff control_invalid_def Let_def
      split: if_splits)

lemma nonemptyString_Inr: "nonemptyString v f = Inr t \<Longrightarrow> js_trim t \<noteq> []"
  by (auto simp: nonemptyString_def control_invalid_def not_blank_trim split: option.splits json.splits if_splits)

lemma nonnegativeInteger_Inr: "nonnegativeInteger v f = Inr i \<Longrightarrow> 0 \<le> i"
  by (auto simp: nonnegativeInteger_def control_invalid_def split: option.splits json.splits if_splits)

lemma validateCaller_InrD:
  assumes "validateCaller v = Inr c"
  shows "0 \<le> rc_recursion_depth c \<and> js_trim (rc_parent_run_id c) \<noteq> [] \<and> js_trim (rc_root_run_id c) \<noteq> [] \<and>
    (rc_system_skill_name c = None \<longleftrightarrow> rc_governing_model_class c = None) \<and>
    (rc_specialist_catalogue_scope c \<noteq> None \<longrightarrow> rc_system_skill_name c \<noteq> None)"
  using assms
  by (auto simp: validateCaller_def bind_result_Inr_iff control_invalid_def
      dest!: nonemptyString_Inr nonnegativeInteger_Inr split: if_splits)

text \<open>
  C37: A handler only runs for an authorised caller within the depth limit. Whatever line arrives, if
  serving it changes the program's state, then the line was an envelope with the server's token and
  a well-formed lineage (both run ids present, the governing skill and model class together), and a
  delegation came from a caller strictly below the depth limit. A delegation at the limit is
  answered with \<open>recursive_depth_exceeded\<close> and the receipt of the attempt, and nothing happens.
\<close>

theorem handlers_run_only_when_authorised:
  fixes hs :: "'s control_handlers" and s s' :: 's and h :: control_handle
  assumes "handleRpcLine sha num li ei h hs line s = (s', r)" and "s' \<noteq> s"
  shows "\<exists>v env. line = JsonFile v \<and> validateEnvelope ei (ch_token h) v = Inr env \<and>
    jget v ''token'' = Some (JStr (ch_token h)) \<and>
    js_trim (rc_parent_run_id (en_caller env)) \<noteq> [] \<and> js_trim (rc_root_run_id (en_caller env)) \<noteq> [] \<and>
    (rc_system_skill_name (en_caller env) = None \<longleftrightarrow> rc_governing_model_class (en_caller env) = None) \<and>
    0 \<le> rc_recursion_depth (en_caller env) \<and>
    (en_method env = Delegate \<longrightarrow> rc_recursion_depth (en_caller env) < ch_max_depth h)"
proof -
  from assms obtain v env where v: "line = JsonFile v" and env: "validateEnvelope ei (ch_token h) v = Inr env"
    by (cases line) (auto simp: handleRpcLine_def parse_file_def split: sum.splits)
  from validateEnvelope_InrD[OF env] have c: "validateCaller (jget v ''caller'') = Inr (en_caller env)" by blast
  have "rc_recursion_depth (en_caller env) < ch_max_depth h" if "en_method env = Delegate"
    using assms that by (auto simp: handleRpcLine_def serve_envelope_def parse_file_def v env Let_def split: if_splits)
  with v env validateEnvelope_InrD[OF env] validateCaller_InrD[OF c] show ?thesis
    by (intro exI[of _ v] exI[of _ env]) simp
qed

section \<open>A child's call arrives as it was made\<close>

definition caller_ok :: "recursive_caller \<Rightarrow> bool" where
  "caller_ok c \<longleftrightarrow>
     js_trim (rc_parent_run_id c) = rc_parent_run_id c \<and> rc_parent_run_id c \<noteq> [] \<and>
     js_trim (rc_root_run_id c) = rc_root_run_id c \<and> rc_root_run_id c \<noteq> [] \<and>
     0 \<le> rc_recursion_depth c \<and>
     (case rc_system_skill_name c of None \<Rightarrow> rc_specialist_catalogue_scope c = None \<and> rc_governing_model_class c = None
      | Some s \<Rightarrow> skill_name_ok s \<and> rc_governing_model_class c \<noteq> None)"

lemma map_of_model_classes [simp]: "map_of model_classes (model_class_name m) = Some m"
  by (cases m) (simp_all add: model_classes_def)

lemma skill_name_nonempty [simp]: "\<not> skill_name_ok []"
  by (simp add: skill_name_ok_def name_segment_ok_def)

lemma trimmed_not_blank: "js_trim s = s \<Longrightarrow> s \<noteq> [] \<Longrightarrow> \<not> blank s"
  by (simp add: blank_def)

lemma validateCaller_json:
  assumes "caller_ok c"
  shows "validateCaller (Some (caller_json c)) = Inr c"
proof -
  obtain p t d sk sc cl where c: "c = \<lparr>rc_parent_run_id = p, rc_root_run_id = t, rc_recursion_depth = d,
      rc_system_skill_name = sk, rc_specialist_catalogue_scope = sc, rc_governing_model_class = cl\<rparr>"
    by (cases c) auto
  have b: "\<not> blank p" "\<not> blank t" "js_trim p = p" "js_trim t = t" "0 \<le> d"
    using assms by (auto simp: c caller_ok_def trimmed_not_blank)
  show ?thesis
  proof (cases sk)
    case None
    with assms b show ?thesis
      by (simp add: c caller_ok_def caller_json_def truthy_field_def validateCaller_def asRecord_def
          validateSkillName_def check_scope_def check_model_class_def nonemptyString_def nonnegativeInteger_def)
  next
    case (Some s)
    with assms obtain m where m: "cl = Some m" "skill_name_ok s" by (auto simp: c caller_ok_def)
    then have "s \<noteq> []" by auto
    show ?thesis
    proof (cases sc)
      case None
      with Some m b \<open>s \<noteq> []\<close> show ?thesis
        by (simp add: c caller_json_def truthy_field_def validateCaller_def asRecord_def validateSkillName_def
            check_scope_def check_model_class_def nonemptyString_def nonnegativeInteger_def)
    next
      case (Some x)
      with \<open>sk = Some s\<close> m b \<open>s \<noteq> []\<close> show ?thesis
        by (cases x)
          (simp add: c caller_json_def truthy_field_def validateCaller_def asRecord_def validateSkillName_def
            check_scope_def check_model_class_def nonemptyString_def nonnegativeInteger_def scope_name_def)
    qed
  qed
qed

lemma check_method_name [simp]: "check_method (Some (JStr (method_name m))) = Inr m"
  by (cases m) (simp_all add: check_method_def)

lemma validateEnvelope_request:
  assumes "caller_ok (rcc_caller cfg)" and "js_trim i = i" and "i \<noteq> []"
  shows "validateEnvelope ei (rcc_token cfg) (rpc_request_json i cfg m (JObj kvs)) =
    Inr \<lparr>en_id = i, en_method = m, en_caller = rcc_caller cfg, en_params = JObj kvs\<rparr>"
  using validateCaller_json[OF assms(1)] trimmed_not_blank[OF assms(2,3)] assms(2)
  by (simp add: validateEnvelope_def asRecord_def rpc_request_json_def)

text \<open>
  C38: A child's call arrives as it was made. For a configuration whose lineage is well formed and
  whose token is the server's, the handler is called with exactly the caller and the parameters of
  the child - no field of the lineage is lost or changed on the way - and the child receives exactly
  what the handler returned; only a delegation at the depth limit is answered without the handler.
\<close>

theorem recursive_call_reaches_handler:
  assumes "caller_ok (rcc_caller cfg)" and "rcc_token cfg = ch_token h" and "js_trim i = i" and "i \<noteq> []"
  shows "callRecursiveControl sha num i li ei h hs cfg m (JObj kvs) s =
    (let c = rcc_caller cfg; p = JObj kvs; receipt = recursiveDelegateAttemptReceipt sha num i c p in
     case m of
       Rejoin \<Rightarrow>
         (case hd_rejoin hs c p s of
            (s', Inr v) \<Rightarrow> (s', Inr (Handler_result v))
          | (s', Inl e) \<Rightarrow> (s', Inr (Rejected (validationFailure e None))))
     | Delegate \<Rightarrow>
         if ch_max_depth h \<le> rc_recursion_depth c
         then (s, Inr (Rejected (validationFailure (depth_error num (rc_recursion_depth c) (ch_max_depth h))
                (Some receipt))))
         else (case hd_delegate hs c p s of
            (s', Inr v) \<Rightarrow> (s', Inr (Handler_result v))
          | (s', Inl e) \<Rightarrow> (s', Inr (Rejected (validationFailure e (Some receipt))))))"
proof -
  have served: "handleRpcLine sha num li ei h hs (JsonFile (rpc_request_json i cfg m (JObj kvs))) s =
    (let env = \<lparr>en_id = i, en_method = m, en_caller = rcc_caller cfg, en_params = JObj kvs\<rparr> in
     serve_envelope sha num h hs env s)"
    using validateEnvelope_request[OF assms(1,3,4), of ei m kvs]
    by (simp add: handleRpcLine_def parse_file_def assms(2))
  show ?thesis
  proof (cases m)
    case Delegate
    obtain s' r where "hd_delegate hs (rcc_caller cfg) (JObj kvs) s = (s', r)" by fastforce
    then show ?thesis
      by (cases r) (simp_all add: callRecursiveControl_def served[unfolded Delegate] serve_envelope_def Let_def client_settle_def Delegate)
  next
    case Rejoin
    obtain s' r where "hd_rejoin hs (rcc_caller cfg) (JObj kvs) s = (s', r)" by fastforce
    then show ?thesis
      by (cases r) (simp_all add: callRecursiveControl_def served[unfolded Rejoin] serve_envelope_def Let_def client_settle_def Rejoin)
  qed
qed

text \<open>
  A protocol rejection never reaches the child. Whenever the server refuses a line before it has
  an envelope - a wrong token, an unknown method, a malformed lineage - it answers under a random id
  of its own, so the client that sent the line fails with an id mismatch and the reason code of the
  refusal is lost: the branch of the client that turns a failure response into a rejected result is
  only reached when the two random ids collide.
\<close>

theorem protocol_rejection_never_arrives:
  assumes "validateEnvelope ei (ch_token h) (rpc_request_json i cfg m params) = Inl e" and "li \<noteq> i"
  shows "handleRpcLine sha num li ei h hs (JsonFile (rpc_request_json i cfg m params)) s = (s, protocolFailure li e) \<and>
    callRecursiveControl sha num i li ei h hs cfg m params s
      = (s, Inl (PlainError ''recursive control response id mismatch''))"
  using assms
  by (simp add: callRecursiveControl_def handleRpcLine_def parse_file_def protocolFailure_def Let_def client_settle_def)

section \<open>A concrete server and child\<close>

definition sample_handle :: control_handle where
  "sample_handle = \<lparr>ch_socket_path = ''/tmp/s.sock'', ch_token = ''secret'', ch_max_depth = 8\<rparr>"

definition sample_handlers :: "nat control_handlers" where
  "sample_handlers = \<lparr>hd_delegate = (\<lambda>c p n. (Suc n, Inr (JStr (rc_parent_run_id c)))),
     hd_rejoin = (\<lambda>c p n. (n, Inl (ValidationError ''no such run'' Rc_unknown_validation_error)))\<rparr>"

definition sample_config :: "string \<Rightarrow> recursive_child_config" where
  "sample_config token = \<lparr>rcc_caller = \<lparr>rc_parent_run_id = ''run-1'', rc_root_run_id = ''run-0'',
       rc_recursion_depth = 1, rc_system_skill_name = Some ''governor'',
       rc_specialist_catalogue_scope = Some Selected_only, rc_governing_model_class = Some MC_A\<rparr>,
     rcc_socket_path = ''/tmp/s.sock'', rcc_token = token\<rparr>"

lemma sample_config_ok: "caller_ok (rcc_caller (sample_config t))" "js_trim ''id1'' = ''id1''"
  by (simp_all add: caller_ok_def sample_config_def js_trim_def js_space_def skill_name_ok_def
      name_segment_ok_def is_name_char_def is_alnum_def is_digit_def is_upper_def is_lower_def)

theorem recursive_call_reaches_handler_witness:
  "callRecursiveControl (\<lambda>_. ''d'') (\<lambda>_. ''0'') ''id1'' ''l'' ''e'' sample_handle sample_handlers
     (sample_config ''secret'') Delegate (JObj []) 0 = (Suc 0, Inr (Handler_result (JStr ''run-1'')))"
proof -
  have "rcc_token (sample_config ''secret'') = ch_token sample_handle"
    by (simp add: sample_config_def sample_handle_def)
  from recursive_call_reaches_handler[OF sample_config_ok(1) this sample_config_ok(2), of _ _ _ _ sample_handlers Delegate "[]"]
  show ?thesis by (simp add: sample_handlers_def sample_config_def sample_handle_def Let_def)
qed

theorem handlers_run_only_when_authorised_witness:
  "\<exists>v. JsonFile (rpc_request_json ''id1'' (sample_config ''secret'') Delegate (JObj [])) = JsonFile v \<and>
     jget v ''token'' = Some (JStr (ch_token sample_handle))"
proof -
  have t: "rcc_token (sample_config ''secret'') = ch_token sample_handle"
    by (simp add: sample_config_def sample_handle_def)
  have "handleRpcLine (\<lambda>_. ''d'') (\<lambda>_. ''0'') ''l'' ''e'' sample_handle sample_handlers
      (JsonFile (rpc_request_json ''id1'' (sample_config ''secret'') Delegate (JObj []))) 0
      = (Suc 0, Rpc_success ''id1'' (Handler_result (JStr ''run-1'')))"
    using validateEnvelope_request[where cfg = "sample_config ''secret''" and i = "''id1''" and
        ei = "''e''" and m = Delegate and kvs = Nil, OF sample_config_ok]
    unfolding t
    by (simp add: handleRpcLine_def parse_file_def)
      (simp add: serve_envelope_def sample_config_def sample_handle_def sample_handlers_def)
  from handlers_run_only_when_authorised[OF this] show ?thesis by auto
qed

theorem protocol_rejection_never_arrives_witness:
  "callRecursiveControl (\<lambda>_. ''d'') (\<lambda>_. ''0'') ''id1'' ''l'' ''e'' sample_handle sample_handlers
     (sample_config ''stale'') Delegate (JObj []) 0
   = (0, Inl (PlainError ''recursive control response id mismatch''))"
proof -
  have "validateEnvelope ''e'' (ch_token sample_handle)
      (rpc_request_json ''id1'' (sample_config ''stale'') Delegate (JObj []))
      = Inl (ValidationError ''recursive control token is invalid'' Rc_recursive_control_invalid)"
    by (simp add: validateEnvelope_def asRecord_def rpc_request_json_def sample_config_def sample_handle_def
        control_invalid_def)
  moreover have "''l'' \<noteq> (''id1'' :: string)" by simp
  ultimately show ?thesis by (rule protocol_rejection_never_arrives[THEN conjunct2])
qed

end
