(* ===== verification/Child_Lease.thy ===== *)
theory Child_Lease
  imports File_Store Process_Liveness "HOL-Library.AList"
begin

text \<open>
  Admission of child processes under a machine-wide capacity, \<open>src/activeChildLease.ts\<close>: a directory of
  active leases and one of queue tickets, shared by all server processes and changed under a lock
  directory, and, per process, the map of its own queued runs with the pump that promotes them.
  The state of one process is the record below; the directories are the shared part. An attempt for
  the lock sees the directories as the other processes left them, so each successful attempt carries
  them. The clock, random owner ids, the liveness of process ids and the settings are arguments.
\<close>

section \<open>Leases and tickets\<close>

definition has_json_suffix :: "string \<Rightarrow> bool" where
  "has_json_suffix name = ends_with ''.json'' name"

text \<open>\<open>listLeasePaths\<close>: the entries of a directory with a JSON name, in \<open>readdir\<close> order.\<close>

definition listLeasePaths :: "directory \<Rightarrow> directory" where
  "listLeasePaths d = filter (\<lambda>(name, c). has_json_suffix name) d"

record active_lease =
  al_owner_id :: string
  al_pid :: rat
  al_run_id :: "json option"

definition active_lease_json :: "string \<Rightarrow> int \<Rightarrow> string option \<Rightarrow> string \<Rightarrow> json" where
  "active_lease_json owner pid run now =
     JObj ([(''schema_version'', JNum 1), (''owner_id'', JStr owner), (''pid'', JNum (of_int pid))]
       @ (case run of None \<Rightarrow> [] | Some r \<Rightarrow> if r = [] then [] else [(''run_id'', JStr r)])
       @ [(''created_at'', JStr now)])"

definition readLease :: "file_content \<Rightarrow> active_lease option" where
  "readLease c =
     (case parse_file c of
        Inl _ \<Rightarrow> None
      | Inr v \<Rightarrow>
          (case (jget v ''schema_version'' = Some (JNum 1), jget v ''owner_id'', jget v ''pid'') of
             (True, Some (JStr owner), Some (JNum pid)) \<Rightarrow>
               Some \<lparr>al_owner_id = owner, al_pid = pid, al_run_id = jget v ''run_id''\<rparr>
           | _ \<Rightarrow> None))"

record queue_ticket =
  qt_owner_id :: string
  qt_pid :: rat
  qt_run_id :: string
  qt_queued_at :: string
  qt_owner_sequence :: rat

definition queue_ticket_json :: "queue_ticket \<Rightarrow> json" where
  "queue_ticket_json t =
     JObj [(''schema_version'', JNum 1), (''owner_id'', JStr (qt_owner_id t)), (''pid'', JNum (qt_pid t)),
       (''run_id'', JStr (qt_run_id t)), (''queued_at'', JStr (qt_queued_at t)),
       (''owner_sequence'', JNum (qt_owner_sequence t))]"

definition readQueueTicket :: "file_content \<Rightarrow> queue_ticket option" where
  "readQueueTicket c =
     (case parse_file c of
        Inl _ \<Rightarrow> None
      | Inr v \<Rightarrow>
          (case (jget v ''schema_version'' = Some (JNum 1), jget v ''owner_id'', jget v ''pid'',
                 jget v ''run_id'', jget v ''queued_at'', jget v ''owner_sequence'') of
             (True, Some (JStr owner), Some (JNum pid), Some (JStr run), Some (JStr at_time), Some (JNum sq)) \<Rightarrow>
               Some \<lparr>qt_owner_id = owner, qt_pid = pid, qt_run_id = run, qt_queued_at = at_time,
                 qt_owner_sequence = sq\<rparr>
           | _ \<Rightarrow> None))"

text \<open>\<open>pruneStaleLeases\<close>: an unreadable file counts as a lease; a lease of a dead process is removed.\<close>

fun prune_leases ::
  "(rat \<Rightarrow> bool) \<Rightarrow> directory \<Rightarrow> directory \<Rightarrow> directory \<times> active_lease option list" where
  "prune_leases gone d [] = (d, [])"
| "prune_leases gone d ((name, c) # rest) =
     (case readLease c of
        None \<Rightarrow> (let (d', ls) = prune_leases gone d rest in (d', None # ls))
      | Some l \<Rightarrow>
          if gone (al_pid l) then prune_leases gone (dir_remove d name) rest
          else (let (d', ls) = prune_leases gone d rest in (d', Some l # ls)))"

definition pruneStaleLeases :: "(rat \<Rightarrow> bool) \<Rightarrow> directory \<Rightarrow> directory \<times> active_lease option list" where
  "pruneStaleLeases gone d = prune_leases gone d (listLeasePaths d)"

fun prune_tickets ::
  "(rat \<Rightarrow> bool) \<Rightarrow> directory \<Rightarrow> directory \<Rightarrow> directory \<times> queue_ticket option list" where
  "prune_tickets gone d [] = (d, [])"
| "prune_tickets gone d ((name, c) # rest) =
     (case readQueueTicket c of
        None \<Rightarrow> (let (d', ts) = prune_tickets gone d rest in (d', None # ts))
      | Some t \<Rightarrow>
          if gone (qt_pid t) then prune_tickets gone (dir_remove d name) rest
          else (let (d', ts) = prune_tickets gone d rest in (d', Some t # ts)))"

definition queueTicketRecords :: "(rat \<Rightarrow> bool) \<Rightarrow> directory \<Rightarrow> directory \<times> queue_ticket option list" where
  "queueTicketRecords gone d = prune_tickets gone d (listLeasePaths d)"

section \<open>Lease names\<close>

text \<open>\<open>Buffer.from(runId, "utf8").toString("base64url")\<close>.\<close>

definition b64_char :: "nat \<Rightarrow> char" where
  "b64_char n =
     (if n < 26 then char_of (65 + n) else if n < 52 then char_of (71 + n)
      else if n < 62 then char_of (n - 4) else if n = 62 then CHR ''-'' else CHR ''_'')"

fun base64url :: "nat list \<Rightarrow> string" where
  "base64url [] = []"
| "base64url [a] = [b64_char (a div 4), b64_char (a mod 4 * 16)]"
| "base64url [a, b] = [b64_char (a div 4), b64_char (a mod 4 * 16 + b div 16), b64_char (b mod 16 * 4)]"
| "base64url (a # b # c # rest) =
     [b64_char (a div 4), b64_char (a mod 4 * 16 + b div 16), b64_char (b mod 16 * 4 + c div 64),
      b64_char (c mod 64)] @ base64url rest"

definition activeLeaseRunPrefix :: "string \<Rightarrow> string" where
  "activeLeaseRunPrefix runId = base64url (concat (map utf8_bytes runId)) @ ''.''"

definition lease_file_name :: "string option \<Rightarrow> string \<Rightarrow> string" where
  "lease_file_name run owner =
     (case run of
        None \<Rightarrow> owner @ ''.json''
      | Some r \<Rightarrow> if r = [] then owner @ ''.json'' else activeLeaseRunPrefix r @ owner @ ''.json'')"

text \<open>\<open>ATTRIBUTED_ACTIVE_LEASE_PATTERN\<close>: \<open>/^[A-Za-z0-9_-]+\.[a-f0-9]{24}\.json$/\<close>.\<close>

definition attributed_lease_name :: "string \<Rightarrow> bool" where
  "attributed_lease_name s \<longleftrightarrow>
     (let a = takeWhile (\<lambda>c. c \<noteq> CHR ''.'') s; r = drop (length a) s; owner = take 24 (drop 1 r) in
      a \<noteq> [] \<and> list_all (\<lambda>c. is_alnum c \<or> c = CHR ''_'' \<or> c = CHR ''-'') a \<and>
      hex_string 24 owner \<and> r = ''.'' @ owner @ ''.json'')"

section \<open>State of one process\<close>

record local_run =
  lr_ticket :: queue_ticket
  lr_ready :: bool
  lr_cancelled :: bool

text \<open>A lease is released through the name and the owner id it was published with; with unlimited
  capacity there is no file.\<close>

datatype lease = No_file | Lease_file (lease_name: string) (lease_owner: string)

datatype settlement = Leased lease | Rejected_with js_error

record lease_sys =
  ls_active :: directory
  ls_queue :: directory
  ls_local :: "(string \<times> local_run) list"
  ls_next_sequence :: nat
  ls_settled :: "(string \<times> settlement) list"

text \<open>What the process knows of itself and of its surroundings.\<close>

record lease_env =
  le_process_owner :: string
  le_pid :: int
  le_esrch :: "int \<Rightarrow> bool"
  le_max_active :: int
  le_max_queued :: int
  le_now :: string

abbreviation le_gone :: "lease_env \<Rightarrow> rat \<Rightarrow> bool" where
  "le_gone env \<equiv> processIsDefinitelyGone (le_esrch env)"

definition queue_ticket_name :: "string \<Rightarrow> string" where
  "queue_ticket_name runId = runId @ ''.json''"

definition writeActiveLease ::
  "lease_env \<Rightarrow> string \<Rightarrow> string option \<Rightarrow> directory \<Rightarrow> (directory \<times> lease) result" where
  "writeActiveLease env owner run d =
     (let name = lease_file_name run owner in
      map_sum id (\<lambda>d'. (d', Lease_file name owner))
        (write_atomic_create d name (active_lease_json owner (le_pid env) run (le_now env))))"

definition release_lease :: "lease \<Rightarrow> directory \<Rightarrow> directory \<times> unit result" where
  "release_lease l d =
     (case l of
        No_file \<Rightarrow> (d, Inr ())
      | Lease_file name owner \<Rightarrow>
          (case dir_read d name of
             None \<Rightarrow> (d, Inr ())
           | Some c \<Rightarrow>
               (case readLease c of
                  None \<Rightarrow> (d, Inl (PlainError (''active child lease ownership cannot be confirmed: '' @ name)))
                | Some current \<Rightarrow>
                    if al_owner_id current \<noteq> owner
                    then (d, Inl (PlainError (''active child lease owner changed: '' @ name)))
                    else (dir_remove d name, Inr ()))))"

section \<open>The capacity lock\<close>

text \<open>What one attempt meets: the lock directory could be made (and the directories then hold what is
  given), or it exists and is fresh, stale or already gone again.\<close>

datatype lock_view = Lock_made directory directory | Lock_fresh | Lock_stale | Lock_vanished

definition lock_attempts :: nat where
  "lock_attempts = 100"

definition capacity_busy :: "'a result" where
  "capacity_busy = Inl (ValidationError ''local child capacity lock is busy'' Rc_local_capacity_exhausted)"

text \<open>\<open>withCapacityLock\<close>. The \<open>catch\<close> also sees what \<open>run\<close> threw.\<close>

fun withCapacityLock ::
  "lock_view list \<Rightarrow> (lease_sys \<Rightarrow> lease_sys \<times> 'a result) \<Rightarrow> lease_sys \<Rightarrow> lease_sys \<times> 'a result" where
  "withCapacityLock [] run s = (s, capacity_busy)"
| "withCapacityLock (Lock_made a q # views) run s =
     (case run (s\<lparr>ls_active := a, ls_queue := q\<rparr>) of
        (s', Inr r) \<Rightarrow> (s', Inr r)
      | (s', Inl e) \<Rightarrow> if is_eexist e then withCapacityLock views run s' else (s', Inl e))"
| "withCapacityLock (_ # views) run s = withCapacityLock views run s"

section \<open>Admission\<close>

datatype admission = Active lease | Queued queue_ticket

definition capacity_error :: "(rat \<Rightarrow> string) \<Rightarrow> nat \<Rightarrow> int \<Rightarrow> js_error" where
  "capacity_error num active limit =
     ValidationError (''local child capacity exhausted: active_children='' @ num (of_nat active) @
       '' max_active_children='' @ num (of_int limit)) Rc_local_capacity_exhausted"

definition queue_error :: "(rat \<Rightarrow> string) \<Rightarrow> nat \<Rightarrow> int \<Rightarrow> js_error" where
  "queue_error num queued limit =
     ValidationError (''local run queue exhausted: queued_runs='' @ num (of_nat queued) @
       '' max_queued_runs='' @ num (of_int limit)) Rc_local_queue_exhausted"

text \<open>The body that \<open>admitActiveChild\<close> runs under the lock; \<open>owner\<close> is the lease's random id.\<close>

definition admit_section ::
  "lease_env \<Rightarrow> (rat \<Rightarrow> string) \<Rightarrow> string \<Rightarrow> string \<Rightarrow> bool \<Rightarrow> lease_sys \<Rightarrow> lease_sys \<times> admission result" where
  "admit_section env num owner runId allowQueue s =
     (let (a, active) = pruneStaleLeases (le_gone env) (ls_active s); s1 = s\<lparr>ls_active := a\<rparr> in
      if int (length active) < le_max_active env
      then (case writeActiveLease env owner (Some runId) a of
              Inl e \<Rightarrow> (s1, Inl e)
            | Inr (a', l) \<Rightarrow> (s1\<lparr>ls_active := a'\<rparr>, Inr (Active l)))
      else if \<not> allowQueue \<or> le_max_queued env \<le> 0
      then (s1, Inl (capacity_error num (length active) (le_max_active env)))
      else
        (let (q, queued) = queueTicketRecords (le_gone env) (ls_queue s); s2 = s1\<lparr>ls_queue := q\<rparr> in
         if le_max_queued env \<le> int (length queued)
         then (s2, Inl (queue_error num (length queued) (le_max_queued env)))
         else
           (let record = \<lparr>qt_owner_id = le_process_owner env, qt_pid = of_int (le_pid env), qt_run_id = runId,
                  qt_queued_at = le_now env, qt_owner_sequence = of_nat (ls_next_sequence s)\<rparr>;
                s3 = s2\<lparr>ls_next_sequence := Suc (ls_next_sequence s)\<rparr> in
            case write_atomic_create q (queue_ticket_name runId) (queue_ticket_json record) of
              Inl e \<Rightarrow> (s3, Inl e)
            | Inr q' \<Rightarrow>
                (s3\<lparr>ls_queue := q',
                    ls_local := AList.update runId \<lparr>lr_ticket = record, lr_ready = False, lr_cancelled = False\<rparr>
                      (ls_local s)\<rparr>,
                 Inr (Queued record)))))"

definition admitActiveChild ::
  "lease_env \<Rightarrow> (rat \<Rightarrow> string) \<Rightarrow> lock_view list \<Rightarrow> string \<Rightarrow> string \<Rightarrow> bool \<Rightarrow> lease_sys \<Rightarrow>
   lease_sys \<times> admission result" where
  "admitActiveChild env num views owner runId allowQueue s =
     (if le_max_active env \<le> 0 then (s, Inr (Active No_file))
      else withCapacityLock views (admit_section env num owner runId allowQueue) s)"

definition acquireActiveChildLease ::
  "lease_env \<Rightarrow> (rat \<Rightarrow> string) \<Rightarrow> lock_view list \<Rightarrow> string \<Rightarrow> string \<Rightarrow> lease_sys \<Rightarrow> lease_sys \<times> lease result" where
  "acquireActiveChildLease env num views owner runId s =
     (case admitActiveChild env num views owner runId False s of
        (s', Inl e) \<Rightarrow> (s', Inl e)
      | (s', Inr (Active l)) \<Rightarrow> (s', Inr l)
      | (s', Inr (Queued t)) \<Rightarrow> (s', Inl (PlainError ''fail-fast child admission unexpectedly queued'')))"

section \<open>The queue of one process\<close>

definition local_rejection :: js_error where
  "local_rejection =
     ValidationError ''queued run cancelled before child launch'' Rc_local_capacity_exhausted"

definition settle_local :: "string \<Rightarrow> settlement \<Rightarrow> lease_sys \<Rightarrow> lease_sys" where
  "settle_local runId r s =
     s\<lparr>ls_settled := (if runId \<in> fst ` set (ls_settled s) then ls_settled s else ls_settled s @ [(runId, r)])\<rparr>"

text \<open>\<open>releaseOwnedQueueTicket\<close>. The promise that \<open>reject\<close> settles exists once \<open>waitForLease\<close> was called.\<close>

definition releaseOwnedQueueTicket :: "lease_env \<Rightarrow> string \<Rightarrow> lease_sys \<Rightarrow> lease_sys \<times> unit result" where
  "releaseOwnedQueueTicket env runId s =
     (let s1 = (case map_of (ls_local s) runId of
                  None \<Rightarrow> s
                | Some l \<Rightarrow>
                    (if lr_ready l then settle_local runId (Rejected_with local_rejection) else id)
                      (s\<lparr>ls_local := AList.delete runId (ls_local s)\<rparr>));
          name = queue_ticket_name runId in
      case dir_read (ls_queue s1) name of
        None \<Rightarrow> (s1, Inr ())
      | Some c \<Rightarrow>
          (case readQueueTicket c of
             None \<Rightarrow> (s1, Inl (PlainError (''queued run ticket ownership cannot be confirmed: '' @ name)))
           | Some t \<Rightarrow>
               if qt_run_id t \<noteq> runId \<or> qt_owner_id t \<noteq> le_process_owner env
               then (s1, Inl (PlainError (''queued run ticket owner changed: '' @ name)))
               else (s1\<lparr>ls_queue := dir_remove (ls_queue s1) name\<rparr>, Inr ())))"

definition waitForLease :: "string \<Rightarrow> lease_sys \<Rightarrow> lease_sys \<times> unit result" where
  "waitForLease runId s =
     (case map_of (ls_local s) runId of
        None \<Rightarrow> (s, Inl (ValidationError ''queued run ownership is no longer active'' Rc_local_capacity_exhausted))
      | Some l \<Rightarrow>
          if lr_ready l
          then (s, Inl (ValidationError ''queued run ownership is no longer active'' Rc_local_capacity_exhausted))
          else (s\<lparr>ls_local := AList.update runId (l\<lparr>lr_ready := True\<rparr>) (ls_local s)\<rparr>, Inr ()))"

text \<open>The \<open>abort\<close> listener of \<open>waitForLease\<close>.\<close>

definition abort_queued :: "string \<Rightarrow> lease_sys \<Rightarrow> lease_sys" where
  "abort_queued runId s =
     (case map_of (ls_local s) runId of
        None \<Rightarrow> s
      | Some l \<Rightarrow>
          if lr_ready l
          then s\<lparr>ls_local := AList.update runId (l\<lparr>lr_cancelled := True\<rparr>) (ls_local s)\<rparr> else s)"

definition localQueueHead :: "(string \<times> local_run) list \<Rightarrow> (string \<times> local_run) option" where
  "localQueueHead local_runs =
     (case sort_key (\<lambda>(k, l). qt_owner_sequence (lr_ticket l)) local_runs of [] \<Rightarrow> None | x # _ \<Rightarrow> Some x)"

text \<open>What may happen while a promotion waits for the file system: the run is cancelled before its
  first, second, third check or afterwards, and the ticket file may be removed by a release.\<close>

record promotion_view =
  pv_cancelled_at :: "nat option"
  pv_ticket_gone :: bool

definition cancelled_by :: "local_run \<Rightarrow> promotion_view \<Rightarrow> nat \<Rightarrow> bool" where
  "cancelled_by l pv n \<longleftrightarrow> lr_cancelled l \<or> (case pv_cancelled_at pv of None \<Rightarrow> False | Some k \<Rightarrow> k \<le> n)"

definition ownership_lost :: js_error where
  "ownership_lost = PlainError ''queued run ownership is no longer active''"

text \<open>After the ticket was read and before it is removed: the lease is published, then the ticket goes.\<close>

definition promote_launch ::
  "lease_env \<Rightarrow> promotion_view \<Rightarrow> string \<Rightarrow> local_run \<Rightarrow> directory \<Rightarrow> lease_sys \<Rightarrow> lease_sys \<times> lease option result" where
  "promote_launch env pv owner l a s =
     (let run = qt_run_id (lr_ticket l) in
      case (if 0 < le_max_active env then writeActiveLease env owner (Some run) a else Inr (a, No_file)) of
        Inl e \<Rightarrow> (s, Inl e)
      | Inr (a', made) \<Rightarrow>
          if pv_ticket_gone pv
          then (case release_lease made a' of
                  (a'', Inl e) \<Rightarrow> (s\<lparr>ls_active := a''\<rparr>, Inl e)
                | (a'', Inr _) \<Rightarrow>
                    (s\<lparr>ls_active := a'', ls_queue := dir_remove (ls_queue s) (queue_ticket_name run)\<rparr>,
                     Inl (ErrnoError ENOENT)))
          else
            (let s' = s\<lparr>ls_active := a', ls_queue := dir_remove (ls_queue s) (queue_ticket_name run)\<rparr> in
             if cancelled_by l pv 3
             then (case release_lease made a' of
                     (a'', Inl e) \<Rightarrow> (s'\<lparr>ls_active := a''\<rparr>, Inl e)
                   | (a'', Inr _) \<Rightarrow> (s'\<lparr>ls_active := a''\<rparr>, Inr None))
             else (s', Inr (Some made))))"

definition promote_section ::
  "lease_env \<Rightarrow> promotion_view \<Rightarrow> string \<Rightarrow> local_run \<Rightarrow> lease_sys \<Rightarrow> lease_sys \<times> lease option result" where
  "promote_section env pv owner l s =
     (let run = qt_run_id (lr_ticket l) in
      case (case dir_read (ls_queue s) (queue_ticket_name run) of None \<Rightarrow> None | Some c \<Rightarrow> readQueueTicket c) of
        None \<Rightarrow> (s, Inl ownership_lost)
      | Some t \<Rightarrow>
          if qt_owner_id t \<noteq> le_process_owner env \<or> qt_run_id t \<noteq> run then (s, Inl ownership_lost)
          else if cancelled_by l pv 1 then (s, Inr None)
          else
            (let (a, active) = (if 0 < le_max_active env then pruneStaleLeases (le_gone env) (ls_active s)
                                else (ls_active s, []));
                 s1 = s\<lparr>ls_active := a\<rparr> in
             if 0 < le_max_active env \<and> le_max_active env \<le> int (length active) then (s1, Inr None)
             else if cancelled_by l pv 2 then (s1, Inr None)
             else promote_launch env pv owner l a s1))"

definition promoteLocalQueueHead ::
  "lease_env \<Rightarrow> lock_view list \<Rightarrow> promotion_view \<Rightarrow> string \<Rightarrow> local_run \<Rightarrow> lease_sys \<Rightarrow>
   lease_sys \<times> lease option result" where
  "promoteLocalQueueHead env views pv owner l s = withCapacityLock views (promote_section env pv owner l) s"

datatype pump_outcome = Pump_continue | Pump_idle | Pump_scheduled | Pump_threw js_error

definition drop_local :: "string \<Rightarrow> settlement \<Rightarrow> lease_sys \<Rightarrow> lease_sys" where
  "drop_local runId r s = settle_local runId r (s\<lparr>ls_local := AList.delete runId (ls_local s)\<rparr>)"

text \<open>One turn of the loop of \<open>pumpOwnerQueue\<close>.\<close>

definition pump_iteration ::
  "lease_env \<Rightarrow> lock_view list \<Rightarrow> promotion_view \<Rightarrow> string \<Rightarrow> lease_sys \<Rightarrow> lease_sys \<times> pump_outcome" where
  "pump_iteration env views pv owner s =
     (case localQueueHead (ls_local s) of
        None \<Rightarrow> (s, Pump_idle)
      | Some (k, l) \<Rightarrow>
          if \<not> lr_ready l then (s, Pump_idle)
          else if lr_cancelled l then
            (case releaseOwnedQueueTicket env k s of
               (s', Inr _) \<Rightarrow> (s', Pump_continue)
             | (s', Inl e) \<Rightarrow> (s', Pump_threw e))
          else
            (case promoteLocalQueueHead env views pv owner l s of
               (s', Inr (Some made)) \<Rightarrow>
                 (drop_local k (Leased made) s', Pump_continue)
             | (s', Inr None) \<Rightarrow>
                 if cancelled_by l pv 4 then
                   (case releaseOwnedQueueTicket env k s' of
                      (s'', Inr _) \<Rightarrow> (s'', Pump_continue)
                    | (s'', Inl e) \<Rightarrow> (drop_local k (Rejected_with e) s'', Pump_continue))
                 else (s', Pump_scheduled)
             | (s', Inl e) \<Rightarrow>
                 if reason_of e = Some Rc_local_capacity_exhausted then (s', Pump_scheduled)
                 else (drop_local k (Rejected_with e) s', Pump_continue)))"

text \<open>\<open>pumpOwnerQueue\<close> on the views of its successive turns; it only stops with \<open>Pump_continue\<close> when
  these run out.\<close>

fun pumpOwnerQueue ::
  "lease_env \<Rightarrow> (lock_view list \<times> promotion_view \<times> string) list \<Rightarrow> lease_sys \<Rightarrow> lease_sys \<times> pump_outcome" where
  "pumpOwnerQueue env [] s = (s, Pump_continue)"
| "pumpOwnerQueue env ((views, pv, owner) # turns) s =
     (case pump_iteration env views pv owner s of
        (s', Pump_continue) \<Rightarrow> pumpOwnerQueue env turns s'
      | (s', out) \<Rightarrow> (s', out))"

text \<open>\<open>wakeOwnerPump\<close>, \<open>scheduleOwnerPump\<close> and the \<open>finally\<close> of the pump: at most one pump runs, and a
  wake during a run starts another one.\<close>

record pump_control =
  pc_running :: bool
  pc_wake_pending :: bool
  pc_timer :: bool

definition wakeOwnerPump :: "pump_control \<Rightarrow> pump_control" where
  "wakeOwnerPump p =
     (if pc_running p then p\<lparr>pc_wake_pending := True\<rparr> else p\<lparr>pc_timer := False, pc_running := True\<rparr>)"

definition pump_finished :: "pump_control \<Rightarrow> pump_control" where
  "pump_finished p =
     (let p' = p\<lparr>pc_running := False\<rparr> in
      if pc_wake_pending p' then wakeOwnerPump (p'\<lparr>pc_wake_pending := False\<rparr>) else p')"

definition scheduleOwnerPump :: "lease_sys \<Rightarrow> pump_control \<Rightarrow> pump_control" where
  "scheduleOwnerPump s p = (if pc_timer p \<or> ls_local s = [] then p else p\<lparr>pc_timer := True\<rparr>)"

section \<open>Liveness questions\<close>

definition hasLiveQueuedRunTicket :: "(rat \<Rightarrow> bool) \<Rightarrow> string \<Rightarrow> directory \<Rightarrow> directory \<times> bool" where
  "hasLiveQueuedRunTicket gone runId q =
     (case dir_read q (queue_ticket_name runId) of
        None \<Rightarrow> (q, False)
      | Some c \<Rightarrow>
          (case readQueueTicket c of
             None \<Rightarrow> (q, True)
           | Some t \<Rightarrow> if gone (qt_pid t) then (dir_remove q (queue_ticket_name runId), False) else (q, True)))"

datatype lease_liveness = Lease_live | Lease_absent | Lease_unknown

fun scan_leases ::
  "(rat \<Rightarrow> bool) \<Rightarrow> string \<Rightarrow> bool \<Rightarrow> directory \<Rightarrow> directory \<Rightarrow> directory \<times> lease_liveness" where
  "scan_leases gone runId unknown d [] = (d, if unknown then Lease_unknown else Lease_absent)"
| "scan_leases gone runId unknown d ((name, c) # rest) =
     (case readLease c of
        None \<Rightarrow>
          if starts_with (activeLeaseRunPrefix runId) name then (d, Lease_live)
          else if attributed_lease_name name then scan_leases gone runId unknown d rest
          else scan_leases gone runId True d rest
      | Some l \<Rightarrow>
          if gone (al_pid l) then scan_leases gone runId unknown (dir_remove d name) rest
          else if al_run_id l = Some (JStr runId) then (d, Lease_live)
          else scan_leases gone runId unknown d rest)"

definition activeChildLeaseLiveness :: "(rat \<Rightarrow> bool) \<Rightarrow> string \<Rightarrow> directory \<Rightarrow> directory \<times> lease_liveness" where
  "activeChildLeaseLiveness gone runId d = scan_leases gone runId False d (listLeasePaths d)"

definition hasLiveActiveChildLease :: "(rat \<Rightarrow> bool) \<Rightarrow> string \<Rightarrow> directory \<Rightarrow> bool" where
  "hasLiveActiveChildLease gone runId d \<longleftrightarrow> snd (activeChildLeaseLiveness gone runId d) = Lease_live"

section \<open>Pruning a directory of process-owned files\<close>

text \<open>Leases and tickets are pruned alike; the lemmas are proved once over the reader of the files.\<close>

locale pruned_directory =
  fixes reader :: "file_content \<Rightarrow> 'r option" and pid_of :: "'r \<Rightarrow> rat"
    and prune :: "(rat \<Rightarrow> bool) \<Rightarrow> directory \<Rightarrow> directory \<Rightarrow> directory \<times> 'r option list"
  assumes prune_none: "prune gone d [] = (d, [])"
    and prune_unreadable: "reader c = None \<Longrightarrow>
      prune gone d ((n, c) # rest) = (fst (prune gone d rest), None # snd (prune gone d rest))"
    and prune_dead: "reader c = Some r \<Longrightarrow> gone (pid_of r) \<Longrightarrow>
      prune gone d ((n, c) # rest) = prune gone (dir_remove d n) rest"
    and prune_live: "reader c = Some r \<Longrightarrow> \<not> gone (pid_of r) \<Longrightarrow>
      prune gone d ((n, c) # rest) = (fst (prune gone d rest), Some r # snd (prune gone d rest))"
begin

definition stale :: "(rat \<Rightarrow> bool) \<Rightarrow> file_content \<Rightarrow> bool" where
  "stale gone c \<longleftrightarrow> (case reader c of None \<Rightarrow> False | Some r \<Rightarrow> gone (pid_of r))"

lemma prune_eq:
  "prune gone d rest =
     (filter (\<lambda>(m, c). m \<notin> fst ` {x \<in> set rest. stale gone (snd x)}) d,
      map (\<lambda>x. reader (snd x)) (filter (\<lambda>x. \<not> stale gone (snd x)) rest))"
proof (induction rest arbitrary: d)
  case (Cons x rest)
  obtain n c where x: "x = (n, c)" by fastforce
  show ?case
  proof (cases "stale gone c")
    case True
    then obtain r where "reader c = Some r" "gone (pid_of r)" by (auto simp: stale_def split: option.splits)
    then have "prune gone d (x # rest) = prune gone (dir_remove d n) rest" by (simp add: x prune_dead)
    moreover have "{y \<in> set (x # rest). stale gone (snd y)} = insert x {y \<in> set rest. stale gone (snd y)}"
      using True x by auto
    then have "fst ` {y \<in> set (x # rest). stale gone (snd y)}
        = insert n (fst ` {y \<in> set rest. stale gone (snd y)})" by (simp add: x)
    ultimately show ?thesis
      using True by (auto simp: x Cons.IH dir_remove_def intro!: filter_cong)
  next
    case False
    then have "prune gone d (x # rest) = (fst (prune gone d rest), reader c # snd (prune gone d rest))"
      by (cases "reader c") (auto simp: x stale_def prune_unreadable prune_live)
    moreover have "{y \<in> set (x # rest). stale gone (snd y)} = {y \<in> set rest. stale gone (snd y)}"
      using False x by auto
    ultimately show ?thesis using False by (simp add: x Cons.IH)
  qed
qed (simp add: prune_none)

lemma prune_all:
  assumes "dir_wf d" and "prune gone d (listLeasePaths d) = (d', rs)"
  shows "dir_wf d' \<and> length rs = length (listLeasePaths d') \<and>
    set d' = {(n, c) \<in> set d. \<not> (has_json_suffix n \<and> stale gone c)}"
proof -
  define G where "G = fst ` {x \<in> set (listLeasePaths d). stale gone (snd x)}"
  have d': "d' = filter (\<lambda>(m, c). m \<notin> G) d"
    and rs: "rs = map (\<lambda>x. reader (snd x)) (filter (\<lambda>x. \<not> stale gone (snd x)) (listLeasePaths d))"
    using assms(2) by (simp_all add: prune_eq G_def)
  have mem: "m \<in> G \<longleftrightarrow> has_json_suffix m \<and> stale gone c" if "(m, c) \<in> set d" for m c
  proof
    assume "m \<in> G"
    then obtain c' where c': "(m, c') \<in> set d" "has_json_suffix m" "stale gone c'"
      by (auto simp: listLeasePaths_def G_def)
    have "c' = c" using assms(1) c'(1) that eq_key_imp_eq_value unfolding dir_wf_def by fast
    with c' show "has_json_suffix m \<and> stale gone c" by simp
  next
    assume "has_json_suffix m \<and> stale gone c"
    with that have "(m, c) \<in> {x \<in> set (listLeasePaths d). stale gone (snd x)}"
      by (auto simp: listLeasePaths_def)
    then show "m \<in> G" unfolding G_def by force
  qed
  have "listLeasePaths d' = filter (\<lambda>x. \<not> stale gone (snd x)) (listLeasePaths d)"
    unfolding d' listLeasePaths_def filter_filter
    by (rule filter_cong) (auto simp: mem)
  then have "length rs = length (listLeasePaths d')" by (simp add: rs)
  moreover have "dir_wf d'" using assms(1) unfolding d' by (auto simp: dir_wf_def intro: distinct_map_filter)
  moreover have "set d' = {(n, c) \<in> set d. \<not> (has_json_suffix n \<and> stale gone c)}"
    unfolding d' using mem by auto
  ultimately show ?thesis by blast
qed

end

interpretation leases: pruned_directory readLease al_pid prune_leases
  by unfold_locales (auto simp: case_prod_beta)

interpretation tickets: pruned_directory readQueueTicket qt_pid prune_tickets
  by unfold_locales (auto simp: case_prod_beta)

section \<open>The capacity bound\<close>

definition file_count :: "directory \<Rightarrow> nat" where
  "file_count d = length (listLeasePaths d)"

lemma json_suffix_append [simp]: "has_json_suffix (n @ ''.json'')"
  using ends_with_append[of "''.json''" n] by (simp add: has_json_suffix_def)

lemma lease_file_name_json [simp]: "has_json_suffix (lease_file_name run owner)"
  using json_suffix_append[of owner] json_suffix_append[of "activeLeaseRunPrefix r @ owner" for r]
  by (auto simp: lease_file_name_def split: option.splits)

lemma file_count_link:
  "dir_link d n c = Some d' \<Longrightarrow> has_json_suffix n \<Longrightarrow> file_count d' = Suc (file_count d)"
  by (auto simp: dir_link_def file_count_def listLeasePaths_def split: if_splits)

lemma file_count_remove: "file_count (dir_remove d n) \<le> file_count d"
proof -
  have "listLeasePaths (dir_remove d n) = filter (\<lambda>(m, c). m \<noteq> n) (listLeasePaths d)"
    by (auto simp: listLeasePaths_def dir_remove_def intro: filter_cong)
  then show ?thesis by (simp add: file_count_def)
qed

text \<open>A directory within a bound, and a change that keeps it there.\<close>

definition bounded :: "int \<Rightarrow> directory \<Rightarrow> bool" where
  "bounded n d \<longleftrightarrow> dir_wf d \<and> int (file_count d) \<le> n"

lemma bounded_remove [intro]: "bounded n d \<Longrightarrow> bounded n (dir_remove d m)"
  using file_count_remove[of d m] by (auto simp: bounded_def)

context pruned_directory
begin

lemma prune_bounded:
  assumes "prune gone d (listLeasePaths d) = (d', rs)" and "bounded n d"
  shows "bounded n d' \<and> length rs = file_count d'"
proof -
  have d': "dir_wf d'" "length rs = file_count d'" "set d' \<subseteq> set d"
    using prune_all[of d gone d' rs] assms by (auto simp: bounded_def file_count_def)
  have "file_count d' \<le> file_count d"
    unfolding file_count_def
    using d' by (intro distinct_subset_length) (auto simp: dir_wf_def listLeasePaths_def distinct_map)
  with d' assms(2) show ?thesis by (auto simp: bounded_def)
qed

end

lemmas bounded_prune = leases.prune_bounded[folded pruneStaleLeases_def]

lemmas bounded_prune_tickets = tickets.prune_bounded[folded queueTicketRecords_def]

lemma bounded_link:
  "bounded n d \<Longrightarrow> int (file_count d) < n \<Longrightarrow> dir_link d m c = Some d' \<Longrightarrow> has_json_suffix m \<Longrightarrow> bounded n d'"
  by (auto simp: bounded_def file_count_link dest: dir_wf_link)

lemma writeActiveLease_Inr:
  "writeActiveLease env owner run d = Inr (d', l) \<longleftrightarrow>
     dir_link d (lease_file_name run owner) (JsonFile (active_lease_json owner (le_pid env) run (le_now env))) = Some d' \<and>
     l = Lease_file (lease_file_name run owner) owner"
  by (auto simp: writeActiveLease_def Let_def write_atomic_create_Inr)

lemma release_bounded: "release_lease l d = (d', r) \<Longrightarrow> bounded n d \<Longrightarrow> bounded n d'"
  by (auto simp: release_lease_def split: lease.splits option.splits if_splits)

lemma admit_bounded:
  assumes "admit_section env num owner run aq s = (s', r)"
    and "bounded (le_max_active env) (ls_active s)" and "bounded (le_max_queued env) (ls_queue s)"
  shows "bounded (le_max_active env) (ls_active s') \<and> bounded (le_max_queued env) (ls_queue s')"
proof -
  obtain a active where pa: "pruneStaleLeases (le_gone env) (ls_active s) = (a, active)" by fastforce
  note A = bounded_prune[OF pa assms(2)]
  obtain q queued where pq: "queueTicketRecords (le_gone env) (ls_queue s) = (q, queued)" by fastforce
  note Q = bounded_prune_tickets[OF pq assms(3)]
  have link: "writeActiveLease env owner (Some run) a = Inr (a', l) \<Longrightarrow> int (length active) < le_max_active env \<Longrightarrow>
      bounded (le_max_active env) a'" for a' l
    using A by (auto simp: writeActiveLease_Inr intro: bounded_link)
  have tick: "write_atomic_create q (queue_ticket_name run) v = Inr q' \<Longrightarrow>
      \<not> le_max_queued env \<le> int (length queued) \<Longrightarrow> bounded (le_max_queued env) q'" for v q'
    using Q by (auto simp: write_atomic_create_Inr queue_ticket_name_def intro: bounded_link)
  show ?thesis
    using assms(1,3) A Q link tick
    by (auto simp: admit_section_def pa pq Let_def split: if_splits sum.splits)
qed

lemma promote_launch_bounded:
  assumes "promote_launch env pv owner l a s = (s', r)"
    and "0 < le_max_active env \<Longrightarrow> int (file_count a) < le_max_active env"
    and "bounded n a" and "bounded n (ls_active s)" and "bounded m (ls_queue s)"
    and "0 < le_max_active env" and "n = le_max_active env"
  shows "bounded n (ls_active s') \<and> bounded m (ls_queue s')"
proof -
  have link: "writeActiveLease env owner x a = Inr (a', made) \<Longrightarrow> bounded n a'" for a' made x
    using assms(2,3,6,7) by (auto simp: writeActiveLease_Inr intro: bounded_link)
  then have undone: "writeActiveLease env owner x a = Inr (a', made) \<Longrightarrow> release_lease made a' = (a'', y) \<Longrightarrow>
      bounded n a''" for a' a'' made x y
    using release_bounded by blast
  show ?thesis
    using assms(1,4,5,6) link undone
    by (auto simp: promote_launch_def Let_def split: if_splits sum.splits prod.splits)
qed

lemma promote_bounded:
  assumes "promote_section env pv owner l s = (s', r)" and "0 < le_max_active env"
    and "bounded (le_max_active env) (ls_active s)" and "bounded m (ls_queue s)"
  shows "bounded (le_max_active env) (ls_active s') \<and> bounded m (ls_queue s')"
proof -
  obtain a active where pa: "pruneStaleLeases (le_gone env) (ls_active s) = (a, active)" by fastforce
  note A = bounded_prune[OF pa assms(3)]
  show ?thesis
    using assms A promote_launch_bounded[of env pv owner l a "s\<lparr>ls_active := a\<rparr>" s' r "le_max_active env" m]
    by (auto simp: promote_section_def pa Let_def split: if_splits option.splits)
qed

lemma ticket_release_bounded:
  assumes "releaseOwnedQueueTicket env run s = (s', r)"
  shows "ls_active s' = ls_active s \<and> (ls_queue s' = ls_queue s \<or> (\<exists>n. ls_queue s' = dir_remove (ls_queue s) n))"
  using assms
  by (auto simp: releaseOwnedQueueTicket_def Let_def settle_local_def split: option.splits if_splits)

lemma scan_bounded: "scan_leases gone run u d rest = (d', v) \<Longrightarrow> bounded n d \<Longrightarrow> bounded n d'"
  by (induction gone run u d rest rule: scan_leases.induct) (auto split: option.splits if_splits)

text \<open>The changes of the two shared directories by any process: the critical sections of admission and
  promotion, and the operations that run without the lock. Processes may die between any two steps,
  so every step has its own view of which process ids are gone.\<close>

inductive capacity_step :: "int \<Rightarrow> int \<Rightarrow> directory \<times> directory \<Rightarrow> directory \<times> directory \<Rightarrow> bool" for M Q where
  admit: "le_max_active env = M \<Longrightarrow> le_max_queued env = Q \<Longrightarrow>
    admit_section env num owner run allow s = (s', r) \<Longrightarrow>
    capacity_step M Q (ls_active s, ls_queue s) (ls_active s', ls_queue s')"
| promote: "le_max_active env = M \<Longrightarrow> promote_section env pv owner l s = (s', r) \<Longrightarrow>
    capacity_step M Q (ls_active s, ls_queue s) (ls_active s', ls_queue s')"
| release: "release_lease l a = (a', r) \<Longrightarrow> capacity_step M Q (a, q) (a', q)"
| ticket_release: "releaseOwnedQueueTicket env run s = (s', r) \<Longrightarrow>
    capacity_step M Q (ls_active s, ls_queue s) (ls_active s', ls_queue s')"
| lease_scan: "activeChildLeaseLiveness gone run a = (a', v) \<Longrightarrow> capacity_step M Q (a, q) (a', q)"
| ticket_check: "hasLiveQueuedRunTicket gone run q = (q', b) \<Longrightarrow> capacity_step M Q (a, q) (a, q')"

inductive_cases capacity_stepE: "capacity_step M Q x y"

abbreviation capacity_steps :: "int \<Rightarrow> int \<Rightarrow> directory \<times> directory \<Rightarrow> directory \<times> directory \<Rightarrow> bool" where
  "capacity_steps M Q \<equiv> (capacity_step M Q)\<^sup>*\<^sup>*"

lemma capacity_step_bounded:
  assumes "capacity_step M Q x y" and "0 < M" and "bounded M (fst x)" and "bounded Q (snd x)"
  shows "bounded M (fst y) \<and> bounded Q (snd y)"
  using assms(1)
proof (cases rule: capacity_step.cases)
  case (admit env num owner run allow s s' r)
  with admit_bounded[OF admit(5)] assms(3,4) show ?thesis by simp
next
  case (promote env pv owner l s s' r)
  with promote_bounded[OF promote(4)] assms(2-4) show ?thesis by simp
next
  case (release l a a' r q)
  with release_bounded[OF release(3)] assms(3,4) show ?thesis by simp
next
  case (ticket_release env run s s' r)
  with ticket_release_bounded[OF ticket_release(3)] assms(3,4) show ?thesis by auto
next
  case (lease_scan gone run a a' v q)
  then have "bounded M a'" using scan_bounded assms(3) unfolding activeChildLeaseLiveness_def by fastforce
  with lease_scan assms(4) show ?thesis by simp
next
  case (ticket_check gone run q q' b a)
  then have "bounded Q q'"
    using assms(4) by (auto simp: hasLiveQueuedRunTicket_def split: option.splits if_splits)
  with ticket_check assms(3) show ?thesis by simp
qed

lemma bounded_empty: "0 \<le> n \<Longrightarrow> bounded n []"
  by (simp add: bounded_def dir_wf_def file_count_def listLeasePaths_def)


definition sample_lease_env :: lease_env where
  "sample_lease_env = \<lparr>le_process_owner = ''owner'', le_pid = 7, le_esrch = (\<lambda>_. False),
     le_max_active = 1, le_max_queued = 2, le_now = ''t0''\<rparr>"

definition sample_lease_sys :: lease_sys where
  "sample_lease_sys = \<lparr>ls_active = [], ls_queue = [], ls_local = [], ls_next_sequence = 0, ls_settled = []\<rparr>"


section \<open>What the liveness scan may conclude\<close>

lemma scan_absent:
  assumes "scan_leases gone run u d rest = (d', Lease_absent)"
  shows "\<not> u \<and> (\<forall>(n, c) \<in> set rest.
    case readLease c of
      None \<Rightarrow> attributed_lease_name n \<and> \<not> starts_with (activeLeaseRunPrefix run) n
    | Some l \<Rightarrow> gone (al_pid l) \<or> al_run_id l \<noteq> Some (JStr run))"
  using assms
proof (induction rest arbitrary: u d)
  case (Cons x rest)
  obtain n c where x: "x = (n, c)" by fastforce
  show ?case
  proof (cases "readLease c")
    case None
    with Cons.prems x show ?thesis
      by (auto split: if_splits dest: Cons.IH)
  next
    case (Some l)
    with Cons.prems x show ?thesis
      by (auto split: if_splits dest: Cons.IH)
  qed
qed (simp split: if_splits)

lemma scan_live:
  assumes "(n, c) \<in> set rest" and "readLease c = Some l" and "\<not> gone (al_pid l)" and "al_run_id l = Some (JStr run)"
  shows "snd (scan_leases gone run u d rest) = Lease_live"
  using assms
  by (induction gone run u d rest rule: scan_leases.induct) (auto split: option.splits if_splits)

lemma scan_live_unreadable:
  assumes "(n, c) \<in> set rest" and "readLease c = None" and "starts_with (activeLeaseRunPrefix run) n"
  shows "snd (scan_leases gone run u d rest) = Lease_live"
  using assms
  by (induction gone run u d rest rule: scan_leases.induct) (auto split: option.splits if_splits)

lemma readLease_json:
  "readLease (JsonFile (active_lease_json owner pid run now)) =
     Some \<lparr>al_owner_id = owner, al_pid = of_int pid,
       al_run_id = (case run of None \<Rightarrow> None | Some r \<Rightarrow> if r = [] then None else Some (JStr r))\<rparr>"
  by (simp add: readLease_def parse_file_def active_lease_json_def split: option.splits)

text \<open>
  A running child is never reported absent. The liveness question answers \<open>absent\<close> only if no
  lease file of the directory could belong to the run: every readable one is of a dead process or of
  another run, and every unreadable one is named after another run. And a lease that was published
  for a run by a living process is found, whatever else the directory holds, until its own release,
  which removes exactly that file.
\<close>

theorem lease_liveness_fails_closed:
  "(snd (activeChildLeaseLiveness gone run d) = Lease_absent \<longrightarrow>
     (\<forall>(n, c) \<in> set d. has_json_suffix n \<longrightarrow>
       (case readLease c of
          None \<Rightarrow> attributed_lease_name n \<and> \<not> starts_with (activeLeaseRunPrefix run) n
        | Some l \<Rightarrow> gone (al_pid l) \<or> al_run_id l \<noteq> Some (JStr run)))) \<and>
   (writeActiveLease env owner (Some run) d = Inr (d1, l) \<longrightarrow> run \<noteq> [] \<longrightarrow> \<not> gone (of_int (le_pid env)) \<longrightarrow>
      snd (activeChildLeaseLiveness gone run (dir.link_all d1 files)) = Lease_live \<and>
      release_lease l (dir.link_all d1 files) = (dir_remove (dir.link_all d1 files) (lease_name l), Inr ()))"
proof -
  let ?d2 = "dir.link_all d1 files" and ?n = "lease_file_name (Some run) owner"
  let ?c = "JsonFile (active_lease_json owner (le_pid env) (Some run) (le_now env))"
  have seen: "snd (activeChildLeaseLiveness gone run ?d2) = Lease_live \<and>
      release_lease l ?d2 = (dir_remove ?d2 (lease_name l), Inr ())"
    if w: "writeActiveLease env owner (Some run) d = Inr (d1, l)" "run \<noteq> []" "\<not> gone (of_int (le_pid env))"
  proof -
    have link: "dir_link d ?n ?c = Some d1" and l: "l = Lease_file ?n owner"
      using w(1) by (simp_all add: writeActiveLease_Inr)
    have rd: "dir_read ?d2 ?n = Some ?c"
      using dir.ln_reads[OF link] by (intro dir.link_all_keeps) simp
    then have "(?n, ?c) \<in> set (listLeasePaths ?d2)"
      by (auto simp: listLeasePaths_def dir_read_def dest: map_of_SomeD)
    then show ?thesis
      using scan_live[of ?n ?c] w(2,3) rd
      by (auto simp: activeChildLeaseLiveness_def readLease_json release_lease_def l)
  qed
  have "\<forall>(n, c) \<in> set d. has_json_suffix n \<longrightarrow>
       (case readLease c of
          None \<Rightarrow> attributed_lease_name n \<and> \<not> starts_with (activeLeaseRunPrefix run) n
        | Some l \<Rightarrow> gone (al_pid l) \<or> al_run_id l \<noteq> Some (JStr run))"
    if "snd (activeChildLeaseLiveness gone run d) = Lease_absent"
    using scan_absent[of gone run False d "listLeasePaths d"] that
    by (cases "scan_leases gone run False d (listLeasePaths d)")
      (auto simp: activeChildLeaseLiveness_def listLeasePaths_def)
  with seen show ?thesis by blast
qed

theorem lease_liveness_fails_closed_witness:
  "\<exists>d1 l. writeActiveLease sample_lease_env ''o1'' (Some ''run'') [] = Inr (d1, l) \<and>
     snd (activeChildLeaseLiveness (\<lambda>_. False) ''run'' d1) = Lease_live"
proof -
  obtain d1 l where w: "writeActiveLease sample_lease_env ''o1'' (Some ''run'') [] = Inr (d1, l)"
    by (simp add: writeActiveLease_def write_atomic_create_def dir_link_def Let_def)
  with lease_liveness_fails_closed[of "\<lambda>_. False" "''run''" "[]" sample_lease_env "''o1''" d1 l "[]"]
  show ?thesis by auto
qed

section \<open>Lease names\<close>

fun sextets :: "nat list \<Rightarrow> nat list" where
  "sextets [] = []"
| "sextets [a] = [a div 4, a mod 4 * 16]"
| "sextets [a, b] = [a div 4, a mod 4 * 16 + b div 16, b mod 16 * 4]"
| "sextets (a # b # c # rest) =
     [a div 4, a mod 4 * 16 + b div 16, b mod 16 * 4 + c div 64, c mod 64] @ sextets rest"

fun unsextets :: "nat list \<Rightarrow> nat list" where
  "unsextets (p # q # r # t # rest) =
     (p * 4 + q div 16) # (q mod 16 * 16 + r div 4) # (r mod 4 * 64 + t) # unsextets rest"
| "unsextets [p, q, r] = [p * 4 + q div 16, q mod 16 * 16 + r div 4]"
| "unsextets [p, q] = [p * 4 + q div 16]"
| "unsextets _ = []"

lemma base64url_sextets: "base64url bs = map b64_char (sextets bs)"
  by (induction bs rule: base64url.induct) simp_all

lemma sextets_less: "list_all (\<lambda>b. b < 256) bs \<Longrightarrow> list_all (\<lambda>n. n < 64) (sextets bs)"
  by (induction bs rule: sextets.induct) auto

lemma div_add_small: "y < k \<Longrightarrow> (x * k + y) div k = x" for k :: nat
  by simp

lemma mod_add_small: "y < k \<Longrightarrow> (x * k + y) mod k = y" for k :: nat
  by simp

lemma unsextets_sextets: "list_all (\<lambda>b. b < 256) bs \<Longrightarrow> unsextets (sextets bs) = bs"
proof (induction bs rule: sextets.induct)
  case (3 a b)
  then have "b div 16 < 16" by auto
  then show ?case by (simp add: div_add_small mod_add_small)
next
  case (4 a b c rest)
  then have "b div 16 < 16" "c div 64 < 4" by auto
  with 4 show ?case by (simp add: div_add_small mod_add_small)
qed simp_all

definition b64_value :: "char \<Rightarrow> nat" where
  "b64_value c =
     (if is_upper c then of_char c - 65 else if is_lower c then of_char c - 71
      else if is_digit c then of_char c + 4 else if c = CHR ''-'' then 62 else 63)"

lemma of_char_dot: "(of_char CHR ''.'' :: nat) = 46"
  by simp

lemma of_b64_char:
  "n < 64 \<Longrightarrow> (of_char (b64_char n) :: nat) =
     (if n < 26 then 65 + n else if n < 52 then 71 + n else if n < 62 then n - 4 else if n = 62 then 45 else 95)"
  by (simp add: b64_char_def of_char_of)

lemma b64_chars:
  assumes "n < 64"
  shows "b64_value (b64_char n) = n \<and> b64_char n \<noteq> CHR ''.'' \<and>
    (is_alnum (b64_char n) \<or> b64_char n = CHR ''_'' \<or> b64_char n = CHR ''-'')"
proof -
  have "(of_char (b64_char n) :: nat) \<noteq> 46" using assms by (auto simp: of_b64_char)
  then have dot: "b64_char n \<noteq> CHR ''.''" by (metis of_char_dot)
  consider "n < 26" | "26 \<le> n" "n < 52" | "52 \<le> n" "n < 62" | "n = 62" | "n = 63" using assms by linarith
  then show ?thesis
    using dot of_b64_char[OF assms]
    by cases (auto simp: b64_value_def is_alnum_def is_upper_def is_lower_def is_digit_def b64_char_def)
qed

lemma base64url_inject:
  assumes "list_all (\<lambda>b. b < 256) xs" and "list_all (\<lambda>b. b < 256) ys" and "base64url xs = base64url ys"
  shows "xs = ys"
proof -
  have val: "map b64_value (map b64_char ns) = ns" if "list_all (\<lambda>n. n < 64) ns" for ns
  proof -
    have "(b64_value \<circ> b64_char) n = n" if "n \<in> set ns" for n
      using b64_chars[of n] \<open>list_all (\<lambda>n. n < 64) ns\<close> that by (auto simp: list_all_iff)
    then show ?thesis by (simp add: map_idI)
  qed
  have "map b64_value (map b64_char (sextets xs)) = map b64_value (map b64_char (sextets ys))"
    using assms(3) unfolding base64url_sextets by (rule arg_cong)
  then have "sextets xs = sextets ys"
    unfolding val[OF sextets_less[OF assms(1)]] val[OF sextets_less[OF assms(2)]] .
  from arg_cong[OF this, of unsextets] show ?thesis
    unfolding unsextets_sextets[OF assms(1)] unsextets_sextets[OF assms(2)] .
qed

lemma base64url_chars: "c \<in> set (base64url (concat (map utf8_bytes r))) \<Longrightarrow>
  c \<noteq> CHR ''.'' \<and> (is_alnum c \<or> c = CHR ''_'' \<or> c = CHR ''-'')"
  using b64_chars sextets_less[OF utf8_bytes_less, of r]
  by (auto simp: base64url_sextets list_all_iff)

lemma takeWhile_base64url:
  "takeWhile (\<lambda>c. c \<noteq> CHR ''.'') (base64url (concat (map utf8_bytes r)) @ CHR ''.'' # rest)
   = base64url (concat (map utf8_bytes r))"
  using base64url_chars[of _ r] by (simp add: takeWhile_append2)

lemma lease_prefix_iff:
  assumes "r' \<noteq> []"
  shows "starts_with (activeLeaseRunPrefix r) (lease_file_name (Some r') owner) \<longleftrightarrow> r = r'"
proof
  assume "starts_with (activeLeaseRunPrefix r) (lease_file_name (Some r') owner)"
  then obtain rest where "base64url (concat (map utf8_bytes r')) @ CHR ''.'' # owner @ ''.json''
      = base64url (concat (map utf8_bytes r)) @ CHR ''.'' # rest"
    using assms by (auto simp: starts_with_iff activeLeaseRunPrefix_def lease_file_name_def)
  then have "base64url (concat (map utf8_bytes r')) = base64url (concat (map utf8_bytes r))"
    using takeWhile_base64url[of r' "owner @ ''.json''"] takeWhile_base64url[of r rest] by simp
  from utf8_inject[OF base64url_inject[OF utf8_bytes_less utf8_bytes_less this]] show "r = r'" by simp
qed (use assms in \<open>simp add: activeLeaseRunPrefix_def lease_file_name_def starts_with_iff\<close>)

lemma lease_name_attributed:
  assumes "r \<noteq> []" and "hex_string 24 owner"
  shows "attributed_lease_name (lease_file_name (Some r) owner)"
proof -
  have ne: "base64url (concat (map utf8_bytes r)) \<noteq> []"
    using assms(1) utf8_inject[of r "[]"] base64url_inject[OF utf8_bytes_less, of "[]" r] by fastforce
  have "list_all (\<lambda>c. is_alnum c \<or> c = CHR ''_'' \<or> c = CHR ''-'') (base64url (concat (map utf8_bytes r)))"
    using base64url_chars[of _ r] by (auto simp: list_all_iff)
  with ne assms takeWhile_base64url[of r "owner @ ''.json''"] show ?thesis
    by (simp add: attributed_lease_name_def lease_file_name_def activeLeaseRunPrefix_def hex_string_def)
qed

lemma scan_skip:
  assumes "\<And>c. (n, c) \<in> set rest \<Longrightarrow> readLease c = None"
    and "attributed_lease_name n" and "\<not> starts_with (activeLeaseRunPrefix run) n"
  shows "snd (scan_leases gone run u d rest) =
    snd (scan_leases gone run u d' (filter (\<lambda>(m, c). m \<noteq> n) rest))"
  using assms(1)
proof (induction rest arbitrary: u d d')
  case (Cons x rest)
  obtain m c where x: "x = (m, c)" by fastforce
  have IH: "snd (scan_leases gone run u d rest) =
      snd (scan_leases gone run u d' (filter (\<lambda>(m, c). m \<noteq> n) rest))" for u d d'
    using Cons.IH Cons.prems by auto
  show ?case
    using Cons.prems[of c] assms(2,3) IH by (cases "readLease c") (auto simp: x)
qed simp

text \<open>
  A damaged lease only concerns its own run. The name under which a lease is published carries
  the run it belongs to, and no other run's prefix matches it. So a lease file that became
  unreadable makes the liveness question answer \<open>live\<close> for its run, and has no influence at all on
  the answer for any other run.
\<close>

theorem damaged_lease_concerns_its_run:
  assumes "run \<noteq> []" and "hex_string 24 owner" and "dir_wf d"
    and "dir_read d (lease_file_name (Some run) owner) = Some c" and "readLease c = None"
  shows "snd (activeChildLeaseLiveness gone run d) = Lease_live \<and>
    (other \<noteq> run \<longrightarrow> snd (activeChildLeaseLiveness gone other d) =
       snd (activeChildLeaseLiveness gone other (dir_remove d (lease_file_name (Some run) owner))))"
proof -
  let ?n = "lease_file_name (Some run) owner"
  have mem: "(?n, c) \<in> set (listLeasePaths d)"
    using assms(4) by (auto simp: listLeasePaths_def dir_read_def dest: map_of_SomeD)
  have "snd (activeChildLeaseLiveness gone run d) = Lease_live"
    using scan_live_unreadable[OF mem assms(5)] lease_prefix_iff[OF assms(1)]
    by (simp add: activeChildLeaseLiveness_def)
  moreover have "snd (activeChildLeaseLiveness gone other d) =
      snd (activeChildLeaseLiveness gone other (dir_remove d ?n))" if "other \<noteq> run"
  proof -
    have un: "readLease c' = None" if "(?n, c') \<in> set (listLeasePaths d)" for c'
      using that dir_wf_read[OF assms(3)] assms(4,5) by (auto simp: listLeasePaths_def)
    have "filter (\<lambda>(m, c). m \<noteq> ?n) (listLeasePaths d) = listLeasePaths (dir_remove d ?n)"
      by (auto simp: listLeasePaths_def dir_remove_def intro: filter_cong)
    with scan_skip[OF un lease_name_attributed[OF assms(1,2)]] lease_prefix_iff[OF assms(1)] that
    show ?thesis by (metis activeChildLeaseLiveness_def)
  qed
  ultimately show ?thesis by blast
qed

theorem damaged_lease_concerns_its_run_witness:
  "snd (activeChildLeaseLiveness (\<lambda>_. False) ''run''
     [(lease_file_name (Some ''run'') (replicate 24 CHR ''a''), RawFile ''{'')]) = Lease_live"
proof -
  let ?n = "lease_file_name (Some ''run'') (replicate 24 CHR ''a'')"
  have "hex_string 24 (replicate 24 CHR ''a'')" by code_simp
  moreover have "dir_wf [(?n, RawFile ''{'')]" "dir_read [(?n, RawFile ''{'')] ?n = Some (RawFile ''{'')"
    by (simp_all add: dir_wf_def dir_read_def)
  moreover have "readLease (RawFile ''{'') = None" by (simp add: readLease_def parse_file_def)
  ultimately show ?thesis using damaged_lease_concerns_its_run[of "''run''"] by blast
qed

section \<open>The queue is served in order\<close>

lemma capacity_lock_keeps:
  assumes "\<And>a q s. P s \<Longrightarrow> P (s\<lparr>ls_active := a, ls_queue := q\<rparr>)" and "\<And>s s' r. run s = (s', r) \<Longrightarrow> P s \<Longrightarrow> P s'"
    and "withCapacityLock views run s = (s', r)" and "P s"
  shows "P s'"
  using assms(3,4)
proof (induction views arbitrary: s)
  case (Cons v views)
  show ?case
  proof (cases v)
    case (Lock_made a q)
    obtain t x where t: "run (s\<lparr>ls_active := a, ls_queue := q\<rparr>) = (t, x)" by fastforce
    have "P t" using assms(2)[OF t] assms(1)[OF Cons.prems(2)] by blast
    with Cons t Lock_made show ?thesis by (auto split: sum.splits if_splits)
  qed (use Cons in auto)
qed auto

lemma release_keeps:
  assumes "releaseOwnedQueueTicket env k s = (s', r)"
  shows "ls_local s' = AList.delete k (ls_local s) \<and> ls_next_sequence s' = ls_next_sequence s \<and>
     (ls_settled s' = ls_settled s \<or> ls_settled s' = ls_settled s @ [(k, Rejected_with local_rejection)])"
proof -
  have "map_of (ls_local s) k = None \<Longrightarrow> AList.delete k (ls_local s) = ls_local s"
    by (simp add: map_of_eq_None_iff)
  with assms show ?thesis
    by (auto simp: releaseOwnedQueueTicket_def Let_def settle_local_def split: option.splits if_splits)
qed

lemma promote_section_keeps:
  "promote_section env pv owner l s = (s', r) \<Longrightarrow>
   ls_local s' = ls_local s \<and> ls_settled s' = ls_settled s \<and> ls_next_sequence s' = ls_next_sequence s"
  by (auto simp: promote_section_def promote_launch_def Let_def
      split: option.splits if_splits prod.splits sum.splits)

lemma promote_keeps:
  assumes "promoteLocalQueueHead env views pv owner l s = (s', r)"
  shows "ls_local s' = ls_local s \<and> ls_settled s' = ls_settled s \<and> ls_next_sequence s' = ls_next_sequence s"
  using capacity_lock_keeps[of "\<lambda>t. ls_local t = ls_local s \<and> ls_settled t = ls_settled s \<and>
      ls_next_sequence t = ls_next_sequence s" "promote_section env pv owner l" views s s' r]
    promote_section_keeps assms
  unfolding promoteLocalQueueHead_def by fastforce

lemma queue_head:
  assumes "localQueueHead rs = Some (k, l)"
  shows "(k, l) \<in> set rs \<and>
    (\<forall>(k', l') \<in> set rs. qt_owner_sequence (lr_ticket l) \<le> qt_owner_sequence (lr_ticket l'))"
proof -
  let ?key = "\<lambda>(k, l). qt_owner_sequence (lr_ticket l)"
  from assms obtain rest where h: "sort_key ?key rs = (k, l) # rest"
    by (auto simp: localQueueHead_def split: list.splits)
  have "sorted (map ?key (sort_key ?key rs))" by simp
  moreover have "set (sort_key ?key rs) = set rs" by simp
  ultimately show ?thesis unfolding h by fastforce
qed

lemma length_delete_less: "(k, l) \<in> set xs \<Longrightarrow> length (AList.delete k xs) < length xs"
  by (simp add: AList.delete_eq) (metis (mono_tags, lifting) case_prod_conv filter_False length_filter_less)

lemma drop_local_local [simp]: "ls_local (drop_local k r s) = AList.delete k (ls_local s)"
  by (simp add: drop_local_def settle_local_def)

lemma pump_iteration_decreases:
  assumes "pump_iteration env views pv owner s = (s', Pump_continue)"
  shows "length (ls_local s') < length (ls_local s)"
proof -
  from assms obtain k l where h: "localQueueHead (ls_local s) = Some (k, l)" "lr_ready l"
    by (auto simp: pump_iteration_def split: option.splits if_splits)
  have less: "length (AList.delete k (ls_local s)) < length (ls_local s)"
    using queue_head[OF h(1)] length_delete_less by fast
  obtain t r where t: "promoteLocalQueueHead env views pv owner l s = (t, r)" by fastforce
  note keep = promote_keeps[OF t]
  have "ls_local s' = AList.delete k (ls_local s)"
    using assms h t keep
    by (auto simp: pump_iteration_def delete_idem dest!: release_keeps
        split: if_splits prod.splits sum.splits option.splits)
  with less show ?thesis by simp
qed

text \<open>
  The pump always stops. One run of \<open>pumpOwnerQueue\<close> takes at most one more turn than there are
  queued runs, whatever the lock, the directories and cancellations do: every turn that continues
  has removed a run from the queue, so the pump ends idle, rescheduled or with the error of a ticket
  that it could not release.
\<close>

theorem pump_terminates:
  assumes "length (ls_local s) < length turns"
  shows "snd (pumpOwnerQueue env turns s) \<noteq> Pump_continue"
  using assms
proof (induction env turns s rule: pumpOwnerQueue.induct)
  case (2 env views pv owner turns s)
  obtain s' out where it: "pump_iteration env views pv owner s = (s', out)" by fastforce
  show ?case
  proof (cases out)
    case Pump_continue
    with pump_iteration_decreases it have "length (ls_local s') < length (ls_local s)" by simp
    with 2 it Pump_continue show ?thesis by simp
  qed (simp_all add: it)
qed simp

theorem pump_terminates_witness:
  "snd (pumpOwnerQueue sample_lease_env [([], \<lparr>pv_cancelled_at = None, pv_ticket_gone = False\<rparr>, ''o1'')]
     sample_lease_sys) \<noteq> Pump_continue"
  by (rule pump_terminates) (simp add: sample_lease_sys_def)

definition sequenced :: "lease_sys \<Rightarrow> bool" where
  "sequenced s \<longleftrightarrow>
     (\<forall>(k, l) \<in> set (ls_local s). qt_owner_sequence (lr_ticket l) < of_nat (ls_next_sequence s))"

lemma capacity_lock_result:
  assumes "\<And>a q s. P s \<Longrightarrow> P (s\<lparr>ls_active := a, ls_queue := q\<rparr>)"
    and "\<And>s s' e. run s = (s', Inl e) \<Longrightarrow> P s \<Longrightarrow> P s'"
    and "withCapacityLock views run s = (s', Inr r)" and "P s"
  shows "\<exists>t. P t \<and> run t = (s', Inr r)"
  using assms(3,4)
proof (induction views arbitrary: s)
  case (Cons v views)
  show ?case
  proof (cases v)
    case (Lock_made a q)
    obtain t x where t: "run (s\<lparr>ls_active := a, ls_queue := q\<rparr>) = (t, x)" by fastforce
    have P: "P (s\<lparr>ls_active := a, ls_queue := q\<rparr>)" by (rule assms(1)[OF Cons.prems(2)])
    show ?thesis
    proof (cases x)
      case (Inl e)
      have "P t" by (rule assms(2)[OF t[unfolded Inl] P])
      with Cons t Lock_made Inl show ?thesis by (auto split: if_splits)
    next
      case (Inr y)
      with Cons.prems(1) t Lock_made P show ?thesis by auto
    qed
  qed (use Cons in auto)
qed (simp add: capacity_busy_def)

lemma admit_section_local:
  "admit_section env num owner run allow s = (s', r) \<Longrightarrow>
   (case r of
      Inr (Queued t) \<Rightarrow>
        qt_owner_sequence t = of_nat (ls_next_sequence s) \<and> ls_next_sequence s' = Suc (ls_next_sequence s) \<and>
        ls_local s' = AList.update run \<lparr>lr_ticket = t, lr_ready = False, lr_cancelled = False\<rparr> (ls_local s)
    | _ \<Rightarrow> ls_local s' = ls_local s \<and> ls_next_sequence s \<le> ls_next_sequence s')"
  by (auto simp: admit_section_def Let_def split: prod.splits if_splits sum.splits)

lemma update_mem: "x \<in> set (AList.update k v xs) \<Longrightarrow> x = (k, v) \<or> x \<in> set xs"
  by (induction xs) (auto split: if_splits)

lemma delete_mem: "x \<in> set (AList.delete k xs) \<Longrightarrow> x \<in> set xs"
  by (auto simp: AList.delete_eq)

lemma sequenced_admit:
  assumes "admitActiveChild env num views owner run allow s = (s', Inr (Queued t))" and "sequenced s"
  shows "sequenced s' \<and> (\<exists>l. map_of (ls_local s') run = Some l \<and> lr_ticket l = t) \<and>
    (\<forall>(k, l) \<in> set (ls_local s). qt_owner_sequence (lr_ticket l) < qt_owner_sequence t)"
proof -
  let ?P = "\<lambda>u. ls_local u = ls_local s \<and> ls_next_sequence s \<le> ls_next_sequence u"
  have "\<exists>u. ?P u \<and> admit_section env num owner run allow u = (s', Inr (Queued t))"
  proof (rule capacity_lock_result[where views = views and s = s])
    show "withCapacityLock views (admit_section env num owner run allow) s = (s', Inr (Queued t))"
      using assms(1) by (simp add: admitActiveChild_def split: if_splits)
    show "?P u'" if "admit_section env num owner run allow u = (u', Inl e)" "?P u" for u u' e
      using admit_section_local[OF that(1)] that(2) by simp
  qed simp_all
  then obtain u where u: "?P u" "admit_section env num owner run allow u = (s', Inr (Queued t))" by blast
  note loc = admit_section_local[OF u(2)]
  have old: "qt_owner_sequence (lr_ticket l) < of_nat (ls_next_sequence u)" if "(k, l) \<in> set (ls_local s)" for k l
  proof -
    have "qt_owner_sequence (lr_ticket l) < of_nat (ls_next_sequence s)"
      using assms(2) that by (auto simp: sequenced_def)
    also have "\<dots> \<le> of_nat (ls_next_sequence u)" using u(1) by simp
    finally show ?thesis .
  qed
  have "sequenced s'"
    using loc u(1) old less_trans by (fastforce simp: sequenced_def dest!: update_mem)
  with loc u(1) old show ?thesis by (auto simp: update_conv')
qed

lemma settle_local_mem:
  "x \<in> set (ls_settled (settle_local k r s)) \<Longrightarrow> x = (k, r) \<or> x \<in> set (ls_settled s)"
  by (auto simp: settle_local_def split: if_splits)

lemma drop_local_mem:
  "x \<in> set (ls_settled (drop_local k r s)) \<Longrightarrow> x = (k, r) \<or> x \<in> set (ls_settled s)"
  unfolding drop_local_def by (drule settle_local_mem) simp

lemma pump_iteration_keeps:
  assumes "pump_iteration env views pv owner s = (s', out)"
  shows "set (ls_local s') \<subseteq> set (ls_local s) \<and> ls_next_sequence s' = ls_next_sequence s \<and>
    (\<forall>k x. (k, Leased x) \<in> set (ls_settled s') \<longrightarrow> (k, Leased x) \<in> set (ls_settled s) \<or>
       (\<exists>l. localQueueHead (ls_local s) = Some (k, l)))"
proof (cases "localQueueHead (ls_local s)")
  case None
  with assms show ?thesis by (simp add: pump_iteration_def)
next
  case (Some kl)
  obtain k l where kl: "kl = (k, l)" by fastforce
  obtain t r where t: "promoteLocalQueueHead env views pv owner l s = (t, r)" by fastforce
  note keep = promote_keeps[OF t]
  have next_drop: "ls_next_sequence (drop_local k x u) = ls_next_sequence u" for x u
    by (simp add: drop_local_def settle_local_def)
  show ?thesis
    using assms Some kl t keep
    by (auto simp: pump_iteration_def next_drop dest!: release_keeps drop_local_mem delete_mem
        split: if_splits prod.splits sum.splits option.splits)
qed

text \<open>
  Queued runs of one process are served in the order in which they were queued. A run that is
  queued gets a larger sequence number than every run already waiting; a lease is only ever handed
  to the waiting run with the smallest number; and the pump keeps this state of affairs.
\<close>

theorem queue_is_served_in_order:
  assumes "sequenced s"
  shows "(admitActiveChild env num views owner run allow s = (s1, Inr (Queued t)) \<longrightarrow>
      sequenced s1 \<and> (\<forall>(k, l) \<in> set (ls_local s). qt_owner_sequence (lr_ticket l) < qt_owner_sequence t)) \<and>
    (pump_iteration env views pv owner s = (s2, out) \<longrightarrow>
      sequenced s2 \<and>
      (\<forall>k x. (k, Leased x) \<in> set (ls_settled s2) \<longrightarrow> (k, Leased x) \<notin> set (ls_settled s) \<longrightarrow>
         (\<exists>l. (k, l) \<in> set (ls_local s) \<and>
           (\<forall>(k', l') \<in> set (ls_local s). qt_owner_sequence (lr_ticket l) \<le> qt_owner_sequence (lr_ticket l')))))"
proof -
  have "sequenced s2" if "pump_iteration env views pv owner s = (s2, out)"
    using pump_iteration_keeps[OF that] assms unfolding sequenced_def by fastforce
  moreover have "\<exists>l. (k, l) \<in> set (ls_local s) \<and>
      (\<forall>(k', l') \<in> set (ls_local s). qt_owner_sequence (lr_ticket l) \<le> qt_owner_sequence (lr_ticket l'))"
    if "pump_iteration env views pv owner s = (s2, out)" "(k, Leased x) \<in> set (ls_settled s2)"
      "(k, Leased x) \<notin> set (ls_settled s)" for k x
    using pump_iteration_keeps[OF that(1)] that(2,3) queue_head by blast
  ultimately show ?thesis using sequenced_admit[of env num views owner run allow s s1 t] assms by blast
qed

definition sample_full :: lease_sys where
  "sample_full = fst (admit_section sample_lease_env (\<lambda>_. ''1'') ''o1'' ''run'' True sample_lease_sys)"

theorem queue_is_served_in_order_witness:
  "\<exists>s1 t. admitActiveChild sample_lease_env (\<lambda>_. ''1'') [Lock_fresh, Lock_made (ls_active sample_full) []]
     ''o2'' ''run2'' True sample_full = (s1, Inr (Queued t)) \<and> sequenced s1"
proof -
  let ?r = "admitActiveChild sample_lease_env (\<lambda>_. ''1'') [Lock_fresh, Lock_made (ls_active sample_full) []]
     ''o2'' ''run2'' True sample_full"
  have "(case snd ?r of Inr (Queued t) \<Rightarrow> True | _ \<Rightarrow> False)" by code_simp
  then obtain s1 t where r: "?r = (s1, Inr (Queued t))"
    by (cases ?r) (auto split: sum.splits admission.splits)
  have "sequenced sample_full" by code_simp
  from queue_is_served_in_order[OF this] r show ?thesis by blast
qed

section \<open>A ticket that already exists\<close>

lemma admit_section_duplicate:
  assumes "pruneStaleLeases (le_gone env) a = (a', active)" and "le_max_active env \<le> int (length active)"
    and "queueTicketRecords (le_gone env) q = (q', queued)" and "int (length queued) < le_max_queued env"
    and "dir_read q' (queue_ticket_name run) \<noteq> None"
  shows "admit_section env num owner run True (s\<lparr>ls_active := a, ls_queue := q\<rparr>) =
    (s\<lparr>ls_active := a', ls_queue := q', ls_next_sequence := Suc (ls_next_sequence s)\<rparr>, Inl (ErrnoError EEXIST))"
proof -
  have "write_atomic_create q' (queue_ticket_name run) v = Inl (ErrnoError EEXIST)" for v
    using assms(5) by (simp add: write_atomic_create_Inl)
  with assms show ?thesis by (simp add: admit_section_def Let_def)
qed

text \<open>
  An existing queue ticket is mistaken for a busy lock. When the capacity is used up, the queue
  has room, and a ticket file of the run's name is already there, publishing the ticket fails with
  \<open>EEXIST\<close> inside the critical section; the retry loop around the section takes that for contention
  on the lock directory. So the free lock is taken again in every one of the remaining attempts, each
  time using up a sequence number, and the caller is told that the capacity lock is busy.
\<close>

theorem existing_ticket_reported_as_busy_lock:
  fixes s :: lease_sys and env :: lease_env
  assumes "pruneStaleLeases (le_gone env) a = (a', active)" and "0 < le_max_active env"
    and "le_max_active env \<le> int (length active)"
    and "queueTicketRecords (le_gone env) q = (q', queued)" and "int (length queued) < le_max_queued env"
    and "dir_read q' (queue_ticket_name run) \<noteq> None"
  shows "\<exists>s'. admitActiveChild env num (replicate lock_attempts (Lock_made a q)) owner run True s
      = (s', capacity_busy) \<and> ls_next_sequence s' = ls_next_sequence s + lock_attempts"
proof -
  have "\<exists>s'. withCapacityLock (replicate n (Lock_made a q)) (admit_section env num owner run True) s
      = (s', capacity_busy) \<and> ls_next_sequence s' = ls_next_sequence s + n" for n
  proof (induction n arbitrary: s)
    case (Suc n)
    from Suc.IH[of "s\<lparr>ls_active := a', ls_queue := q', ls_next_sequence := Suc (ls_next_sequence s)\<rparr>"]
    show ?case
      using admit_section_duplicate[OF assms(1,3,4,5,6), of num owner s] by auto
  qed simp
  with assms(2) show ?thesis by (simp add: admitActiveChild_def)
qed

theorem existing_ticket_reported_as_busy_lock_witness:
  "\<exists>s'. admitActiveChild sample_lease_env (\<lambda>_. ''1'')
      (replicate lock_attempts (Lock_made (ls_active sample_full) [(''run2.json'', RawFile ''{'')])) ''o2'' ''run2'' True
      sample_full = (s', capacity_busy)"
proof -
  obtain a' active where a: "pruneStaleLeases (le_gone sample_lease_env) (ls_active sample_full) = (a', active)"
    by fastforce
  have "1 \<le> int (length (snd (pruneStaleLeases (le_gone sample_lease_env) (ls_active sample_full))))" by code_simp
  with a have active: "le_max_active sample_lease_env \<le> int (length active)" by (simp add: sample_lease_env_def)
  have q: "queueTicketRecords (le_gone sample_lease_env) [(''run2.json'', RawFile ''{'')]
      = ([(''run2.json'', RawFile ''{'')], [None])" by code_simp
  have "0 < le_max_active sample_lease_env" "int (length [None :: queue_ticket option]) < le_max_queued sample_lease_env"
    "dir_read [(''run2.json'', RawFile ''{'')] (queue_ticket_name ''run2'') \<noteq> None"
    by (simp_all add: sample_lease_env_def queue_ticket_name_def dir_read_def)
  from existing_ticket_reported_as_busy_lock[OF a this(1) active q this(2,3), of "\<lambda>_. ''1''" "''o2''" sample_full]
  show ?thesis by blast
qed

end
