(* ===== verification/Effect_Scope.thy ===== *)
theory Effect_Scope
  imports Canonical_Json
begin

text \<open>
  The authoring effect scope, \<open>src/authoringEffectScope.ts\<close>: the paths a run may write, the capture of
  everything else under its task root before the prompt, and the reinspection after the run. The file
  system is a record of functions for the calls that the code makes (\<open>lstat\<close>, \<open>readdir\<close>, \<open>realpath\<close>,
  opening a file without following links), so links, hard links, sparse files, unreadable files and
  files that change while they are read all occur. SHA-256 is an argument.
\<close>

section \<open>File systems\<close>

datatype file_kind = Kind_regular | Kind_directory | Kind_symlink | Kind_other

record fstat =
  st_kind :: file_kind
  st_dev :: nat
  st_ino :: nat
  st_nlink :: nat
  st_size :: nat
  st_blocks :: nat

text \<open>An open file: its status before the read, the bytes that were read, its status afterwards.\<close>

record opened_file =
  op_before :: fstat
  op_bytes :: string
  op_after :: fstat

record fs_view =
  fs_lstat :: "string \<Rightarrow> fstat result"
  fs_readdir :: "string \<Rightarrow> string list result"
  fs_realpath :: "string \<Rightarrow> string result"
  fs_open :: "string \<Rightarrow> opened_file result"

section \<open>Bindings and captured entries\<close>

datatype writable_scope =
    Exact_output_files (scope_paths: "string list")
  | Fixed_state_subtree (scope_paths: "string list")

record effect_scope_binding =
  eb_effect_profile :: effect_profile
  eb_task_root :: string
  eb_task_root_device :: string
  eb_task_root_inode :: string
  eb_immutable_tree_sha256 :: string
  eb_writable_scope :: writable_scope

datatype captured_entry =
    Captured_directory (entry_path: string) (entry_device: string) (entry_inode: string)
  | Captured_file (entry_path: string) (entry_size: nat) (entry_sha256: string) (entry_device: string)
      (entry_inode: string)

record captured_scope =
  cs_binding :: effect_scope_binding
  cs_initial_entries :: "captured_entry list"

definition failInvalid :: "string \<Rightarrow> 'a result" where
  "failInvalid m = Inl (ValidationError m Rc_authoring_effect_scope_invalid)"

definition failDrift :: "string \<Rightarrow> 'a result" where
  "failDrift m = Inl (ValidationError m Rc_authoring_effect_scope_drift)"

definition pathsOverlap :: "string \<Rightarrow> string \<Rightarrow> bool" where
  "pathsOverlap l r \<longleftrightarrow> is_within l r \<or> is_within r l"

definition isEffectScopedAuthoringProfile :: "effect_profile option \<Rightarrow> bool" where
  "isEffectScopedAuthoringProfile p \<longleftrightarrow>
     p = Some Task_root_authoring_v1 \<or> p = Some Researcher_bounded_v1 \<or> p = Some Assumption_audit_bounded_v1"

definition boundedProfileStateRoot :: "string \<Rightarrow> effect_profile \<Rightarrow> string" where
  "boundedProfileStateRoot taskRoot profile =
     path_join (path_join taskRoot ''.subagent007'') (effect_profile_name profile)"

section \<open>Declared output paths\<close>

fun check_output_paths :: "string \<Rightarrow> json list \<Rightarrow> string list result" where
  "check_output_paths taskRoot [] = Inr []"
| "check_output_paths taskRoot (v # vs) =
     (case v of
        JStr c \<Rightarrow>
          if \<not> is_absolute c \<or> path_resolve c \<noteq> c
          then failInvalid ''allowed_output_paths entries must be canonical absolute paths''
          else if c = taskRoot \<or> \<not> is_within taskRoot c
          then failInvalid ''allowed_output_paths entries must be strict descendants of the exact task root''
          else (case check_output_paths taskRoot vs of Inl e \<Rightarrow> Inl e | Inr cs \<Rightarrow> Inr (c # cs))
      | _ \<Rightarrow> failInvalid ''allowed_output_paths entries must be canonical absolute paths'')"

fun utf8_ascending :: "string list \<Rightarrow> bool" where
  "utf8_ascending (a # b # rest) = (utf8_less a b \<and> utf8_ascending (b # rest))"
| "utf8_ascending _ = True"

fun any_overlap :: "string list \<Rightarrow> bool" where
  "any_overlap [] = False"
| "any_overlap (p # ps) = (list_ex (pathsOverlap p) ps \<or> any_overlap ps)"

definition max_allowed_output_paths :: nat where
  "max_allowed_output_paths = 128"

text \<open>\<open>normalizeAllowedOutputPaths\<close>; \<open>None\<close> is \<open>undefined\<close>.\<close>

definition normalizeAllowedOutputPaths ::
  "json option \<Rightarrow> string \<Rightarrow> effect_profile option \<Rightarrow> string list option result" where
  "normalizeAllowedOutputPaths value taskRoot profile =
     (if profile \<noteq> Some Task_root_authoring_v1 then
        (if value \<noteq> None then failInvalid ''allowed_output_paths is only valid with task_root_authoring_v1''
         else Inr None)
      else
        (case value of
           Some (JArr vs) \<Rightarrow>
             if max_allowed_output_paths < length vs
             then failInvalid ''task_root_authoring_v1 requires allowed_output_paths with at most 128 entries''
             else
               (case check_output_paths taskRoot vs of
                  Inl e \<Rightarrow> Inl e
                | Inr ps \<Rightarrow>
                    if \<not> utf8_ascending ps \<or> any_overlap ps
                    then failInvalid ''allowed_output_paths must be unique, UTF-8 byte ordered, and non-overlapping''
                    else Inr (Some ps))
         | _ \<Rightarrow> failInvalid ''task_root_authoring_v1 requires allowed_output_paths with at most 128 entries''))"

section \<open>Checks before the prompt\<close>

text \<open>\<open>lstat(p).catch(ENOENT \<Rightarrow> undefined)\<close>\<close>

definition lstat_optional :: "fs_view \<Rightarrow> string \<Rightarrow> fstat option result" where
  "lstat_optional fs p =
     (case fs_lstat fs p of
        Inr st \<Rightarrow> Inr (Some st)
      | Inl e \<Rightarrow> if is_enoent e then Inr None else Inl e)"

text \<open>The loop of \<open>nearestExistingPath\<close> ends at the latest at the root, which is its own parent; the
  length of the path bounds the number of parents.\<close>

fun nearest_existing :: "nat \<Rightarrow> fs_view \<Rightarrow> string \<Rightarrow> string result" where
  "nearest_existing n fs current =
     (case fs_realpath fs current of
        Inr r \<Rightarrow> Inr r
      | Inl e \<Rightarrow>
          if \<not> is_enoent e then Inl e
          else
            (let parent = path_dirname current in
             if parent = current then Inl e
             else (case n of 0 \<Rightarrow> Inl e | Suc k \<Rightarrow> nearest_existing k fs parent)))"

declare nearest_existing.simps [simp del]

definition nearestExistingPath :: "fs_view \<Rightarrow> string \<Rightarrow> string result" where
  "nearestExistingPath fs target = nearest_existing (length target) fs target"

definition assertCanonicalTaskRoot :: "fs_view \<Rightarrow> string \<Rightarrow> unit result" where
  "assertCanonicalTaskRoot fs taskRoot =
     (if \<not> is_absolute taskRoot \<or> path_resolve taskRoot \<noteq> taskRoot
      then failInvalid ''authoring task root must be canonical and absolute''
      else
        (case fs_realpath fs taskRoot of
           Inl e \<Rightarrow> failInvalid (''authoring task root is inaccessible: '' @ message_of e)
         | Inr resolved \<Rightarrow>
             if resolved \<noteq> taskRoot then failInvalid ''authoring task root must be its exact real path''
             else
               (case fs_lstat fs taskRoot of
                  Inl e \<Rightarrow> Inl e
                | Inr st \<Rightarrow>
                    if st_kind st \<noteq> Kind_directory then failInvalid ''authoring task root must be a real directory''
                    else Inr ())))"

fun assertOutputPathsAbsent :: "fs_view \<Rightarrow> string \<Rightarrow> string list \<Rightarrow> unit result" where
  "assertOutputPathsAbsent fs taskRoot [] = Inr ()"
| "assertOutputPathsAbsent fs taskRoot (p # ps) =
     (case lstat_optional fs p of
        Inl e \<Rightarrow> Inl e
      | Inr (Some _) \<Rightarrow> failInvalid (''allowed output must be absent before prompt: '' @ p)
      | Inr None \<Rightarrow>
          (case nearestExistingPath fs (path_dirname p) of
             Inl e \<Rightarrow> Inl e
           | Inr parent \<Rightarrow>
               if \<not> is_within taskRoot parent
               then failInvalid (''allowed output parent escapes the exact task root: '' @ p)
               else assertOutputPathsAbsent fs taskRoot ps))"

definition assertBoundedStateRootAbsent :: "fs_view \<Rightarrow> effect_scope_binding \<Rightarrow> unit result" where
  "assertBoundedStateRootAbsent fs b =
     (case eb_writable_scope b of
        Fixed_state_subtree (stateRoot # _) \<Rightarrow>
          (case lstat_optional fs stateRoot of
             Inl e \<Rightarrow> Inl e
           | Inr (Some _) \<Rightarrow> failInvalid (''fixed profile state root must be absent before prompt: '' @ stateRoot)
           | Inr None \<Rightarrow> Inr ())
      | _ \<Rightarrow> Inr ())"

section \<open>Capturing the tree\<close>

text \<open>\<open>path.relative(taskRoot, candidate)\<close> for a candidate below the root.\<close>

definition relativePath :: "string \<Rightarrow> string \<Rightarrow> string" where
  "relativePath taskRoot c =
     (if c = taskRoot then ''.''
      else if taskRoot = [slash] then drop 1 c else drop (Suc (length taskRoot)) c)"

text \<open>At least one mebibyte with less than half of it allocated.\<close>

definition materially_sparse :: "fstat \<Rightarrow> bool" where
  "materially_sparse st \<longleftrightarrow> 1024 * 1024 \<le> st_size st \<and> 2 * (st_blocks st * 512) < st_size st"

definition captureFile :: "(string \<Rightarrow> string) \<Rightarrow> fs_view \<Rightarrow> string \<Rightarrow> string \<Rightarrow> captured_entry result" where
  "captureFile sha fs taskRoot p =
     (case fs_open fs p of
        Inl e \<Rightarrow> failInvalid (''authoring task-root file is unreadable or symlinked: '' @ p @ '': '' @ message_of e)
      | Inr h \<Rightarrow>
          let before = op_before h; after = op_after h; bytes = op_bytes h in
          if st_kind before \<noteq> Kind_regular \<or> 64 * 1024 * 1024 < st_size before
          then failInvalid (''authoring task-root input must be a bounded regular file: '' @ p)
          else if st_nlink before \<noteq> 1
          then failInvalid (''authoring task-root regular files must have link count one; hardlink alias rejected: '' @ p)
          else if materially_sparse before
          then failInvalid (''authoring task-root sparse input is not allowed: '' @ p)
          else if st_dev before \<noteq> st_dev after \<or> st_ino before \<noteq> st_ino after \<or>
            st_size before \<noteq> st_size after \<or> length bytes \<noteq> st_size before
          then failInvalid (''authoring task-root input changed while it was captured: '' @ p)
          else
            (case (fs_realpath fs p, fs_lstat fs p) of
               (Inl e, _) \<Rightarrow> Inl e
             | (_, Inl e) \<Rightarrow> Inl e
             | (Inr resolved, Inr current) \<Rightarrow>
                 if resolved \<noteq> p \<or> st_kind current \<noteq> Kind_regular \<or>
                    st_dev current \<noteq> st_dev before \<or> st_ino current \<noteq> st_ino before
                 then failInvalid (''authoring task-root input identity changed while it was captured: '' @ p)
                 else Inr (Captured_file (relativePath taskRoot p) (length bytes) (sha bytes)
                        (decimal_text (st_dev before)) (decimal_text (st_ino before)))))"

definition ignoredByWritableSubtree :: "effect_scope_binding \<Rightarrow> string \<Rightarrow> bool" where
  "ignoredByWritableSubtree b c \<longleftrightarrow>
     (case eb_writable_scope b of
        Fixed_state_subtree (stateRoot # _) \<Rightarrow> is_within stateRoot c
      | _ \<Rightarrow> False)"

definition declared_output :: "effect_scope_binding \<Rightarrow> string \<Rightarrow> bool" where
  "declared_output b c \<longleftrightarrow>
     (case eb_writable_scope b of Exact_output_files ps \<Rightarrow> c \<in> set ps | _ \<Rightarrow> False)"

text \<open>The variables of \<open>captureTree\<close>: entries counted, immutable files, their bytes, what was captured
  (latest first).\<close>

record tree_walk =
  tw_traversed :: nat
  tw_files :: nat
  tw_bytes :: nat
  tw_entries :: "captured_entry list"

definition max_tree_entries :: nat where
  "max_tree_entries = 1024"

definition visit_file ::
  "(string \<Rightarrow> string) \<Rightarrow> fs_view \<Rightarrow> effect_scope_binding \<Rightarrow> string \<Rightarrow> fstat \<Rightarrow> tree_walk \<Rightarrow> tree_walk result" where
  "visit_file sha fs b c st w =
     (if st_kind st \<noteq> Kind_regular
      then failInvalid (''authoring task root contains a non-regular entry: '' @ c)
      else if st_nlink st \<noteq> 1
      then failInvalid (''authoring task-root regular files must have link count one; hardlink alias rejected: '' @ c)
      else if ignoredByWritableSubtree b c \<or> declared_output b c then Inr w
      else if 128 \<le> tw_files w then failInvalid ''authoring task root exceeds 128 immutable files''
      else
        (case captureFile sha fs (eb_task_root b) c of
           Inl e \<Rightarrow> Inl e
         | Inr entry \<Rightarrow>
             (let total = tw_bytes w + entry_size entry in
              if 128 * 1024 * 1024 < total
              then failInvalid ''authoring task-root immutable bytes exceed 134217728''
              else Inr (w\<lparr>tw_files := Suc (tw_files w), tw_bytes := total,
                          tw_entries := entry # tw_entries w\<rparr>))))"

text \<open>\<open>visit\<close>: the depth of the recursion is bounded by \<open>fuel\<close>. Every visit counts one entry and the
  count is bounded by \<open>max_tree_entries\<close>, so with that much fuel the recursion is never cut short.\<close>

definition out_of_fuel :: "'a result" where
  "out_of_fuel = Inl (PlainError ''fuel'')"

definition step_into :: "(string \<Rightarrow> string) \<Rightarrow> fs_view \<Rightarrow> effect_scope_binding \<Rightarrow> string \<Rightarrow> tree_walk \<Rightarrow>
  (tree_walk \<times> string list option) result" where
  "step_into sha fs b c w0 =
     (let w = w0\<lparr>tw_traversed := Suc (tw_traversed w0)\<rparr> in
      if max_tree_entries < tw_traversed w
      then failInvalid ''authoring task root exceeds 1024 filesystem entries''
      else
        (case fs_lstat fs c of
           Inl e \<Rightarrow> Inl e
         | Inr st \<Rightarrow>
             if st_kind st = Kind_symlink then failInvalid (''authoring task root contains a symlink: '' @ c)
             else if st_kind st = Kind_directory then
               (let w' = (if ignoredByWritableSubtree b c then w
                          else w\<lparr>tw_entries := Captured_directory (relativePath (eb_task_root b) c)
                            (decimal_text (st_dev st)) (decimal_text (st_ino st)) # tw_entries w\<rparr>) in
                case fs_readdir fs c of
                  Inl e \<Rightarrow> Inl e
                | Inr names \<Rightarrow> Inr (w', Some (map (path_join c) (sort_key (\<lambda>n. concat (map utf8_bytes n)) names))))
             else map_sum id (\<lambda>w'. (w', None)) (visit_file sha fs b c st w)))"

fun visit :: "nat \<Rightarrow> (string \<Rightarrow> string) \<Rightarrow> fs_view \<Rightarrow> effect_scope_binding \<Rightarrow> string \<Rightarrow> tree_walk \<Rightarrow> tree_walk result"
and visit_all ::
  "nat \<Rightarrow> (string \<Rightarrow> string) \<Rightarrow> fs_view \<Rightarrow> effect_scope_binding \<Rightarrow> string list \<Rightarrow> tree_walk \<Rightarrow> tree_walk result" where
  "visit 0 sha fs b c w = out_of_fuel"
| "visit (Suc n) sha fs b c w =
     (case step_into sha fs b c w of
        Inl e \<Rightarrow> Inl e
      | Inr (w', None) \<Rightarrow> Inr w'
      | Inr (w', Some children) \<Rightarrow> visit_all n sha fs b children w')"
| "visit_all n sha fs b [] w = Inr w"
| "visit_all n sha fs b (c # cs) w =
     (case visit n sha fs b c w of Inl e \<Rightarrow> Inl e | Inr w' \<Rightarrow> visit_all n sha fs b cs w')"

definition captureTree ::
  "(string \<Rightarrow> string) \<Rightarrow> fs_view \<Rightarrow> effect_scope_binding \<Rightarrow> captured_entry list result" where
  "captureTree sha fs b =
     map_sum id (\<lambda>w. sort_key (\<lambda>x. concat (map utf8_bytes (entry_path x))) (rev (tw_entries w)))
       (visit (Suc max_tree_entries) sha fs b (eb_task_root b)
          \<lparr>tw_traversed = 0, tw_files = 0, tw_bytes = 0, tw_entries = []\<rparr>)"

text \<open>The text of an entry: \<open>JSON.stringify\<close> with the properties in the order they were written.\<close>

fun entry_json :: "captured_entry \<Rightarrow> json" where
  "entry_json (Captured_directory p dev ino) =
     JObj [(''kind'', JStr ''directory''), (''relative_path'', JStr p), (''device'', JStr dev), (''inode'', JStr ino)]"
| "entry_json (Captured_file p sz sha dev ino) =
     JObj [(''kind'', JStr ''file''), (''relative_path'', JStr p), (''size_bytes'', JNum (of_nat sz)),
       (''sha256'', JStr sha), (''device'', JStr dev), (''inode'', JStr ino)]"

definition size_text :: "rat \<Rightarrow> string" where
  "size_text x = decimal_text (nat \<lfloor>x\<rfloor>)"

definition immutableTreeSha256 :: "(string \<Rightarrow> string) \<Rightarrow> captured_entry list \<Rightarrow> string" where
  "immutableTreeSha256 sha entries =
     sha (''subagent007.authoring_effect_scope.immutable_tree.v1'' @ [char_of (10 :: nat)] @
       json_text size_text (JArr (map entry_json entries)))"

definition writableScope :: "string \<Rightarrow> effect_profile \<Rightarrow> string list option \<Rightarrow> writable_scope" where
  "writableScope taskRoot profile allowed =
     (if profile = Task_root_authoring_v1 then Exact_output_files (nullish allowed [])
      else Fixed_state_subtree [boundedProfileStateRoot taskRoot profile])"

definition captureAuthoringEffectScope ::
  "(string \<Rightarrow> string) \<Rightarrow> fs_view \<Rightarrow> string \<Rightarrow> effect_profile \<Rightarrow> recursive_delegation \<Rightarrow> json option \<Rightarrow>
   captured_scope result" where
  "captureAuthoringEffectScope sha fs taskRoot profile delegation allowed =
     bind_result (assertCanonicalTaskRoot fs taskRoot) (\<lambda>_.
       if delegation \<noteq> RD_disabled
       then failInvalid ''authoring effect scopes require recursive delegation disabled''
       else
         bind_result (normalizeAllowedOutputPaths allowed taskRoot (Some profile)) (\<lambda>outputs.
         bind_result (case outputs of None \<Rightarrow> Inr () | Some ps \<Rightarrow> assertOutputPathsAbsent fs taskRoot ps) (\<lambda>_.
           let provisional = \<lparr>eb_effect_profile = profile, eb_task_root = taskRoot,
                 eb_task_root_device = ''0'', eb_task_root_inode = ''0'',
                 eb_immutable_tree_sha256 = replicate 64 CHR ''0'',
                 eb_writable_scope = writableScope taskRoot profile outputs\<rparr> in
           bind_result (assertBoundedStateRootAbsent fs provisional) (\<lambda>_.
           bind_result (captureTree sha fs provisional) (\<lambda>entries.
             case find (\<lambda>x. entry_path x = ''.'' \<and> is_Captured_directory x) entries of
               None \<Rightarrow> failInvalid ''authoring task-root identity was not captured''
             | Some x \<Rightarrow>
                 Inr \<lparr>cs_binding = provisional\<lparr>eb_task_root_device := entry_device x,
                        eb_task_root_inode := entry_inode x,
                        eb_immutable_tree_sha256 := immutableTreeSha256 sha entries\<rparr>,
                      cs_initial_entries = entries\<rparr>)))))"

section \<open>The binding as it is stored\<close>

definition claim_ceiling :: string where
  "claim_ceiling = ''pi_tool_dispatch_path_controller_and_terminal_reinspection_not_os_sandbox''"

definition binding_keys :: "string list" where
  "binding_keys =
     [''schema_version'', ''effect_profile'', ''task_root'', ''task_root_device'', ''task_root_inode'',
      ''recursive_delegation'', ''immutable_tree_sha256'', ''writable_scope'',
      ''terminal_reinspection_required'', ''claim_ceiling'']"

definition hasExactOwnKeys :: "json \<Rightarrow> string list \<Rightarrow> bool" where
  "hasExactOwnKeys v keys \<longleftrightarrow>
     is_object v \<and> length (jkeys v) = length keys \<and> list_all (\<lambda>k. jget v k \<noteq> None) keys"

definition digits :: "string \<Rightarrow> bool" where
  "digits s \<longleftrightarrow> s \<noteq> [] \<and> list_all is_digit s"

definition text_field :: "json \<Rightarrow> string \<Rightarrow> (string \<Rightarrow> bool) \<Rightarrow> bool" where
  "text_field v k P \<longleftrightarrow> (case jget v k of Some (JStr s) \<Rightarrow> P s | _ \<Rightarrow> False)"

definition binding_profile :: "json \<Rightarrow> effect_profile option" where
  "binding_profile v =
     (case jget v ''effect_profile'' of
        Some (JStr s) \<Rightarrow>
          (case map_of effect_profiles s of
             Some p \<Rightarrow> if isEffectScopedAuthoringProfile (Some p) then Some p else None
           | None \<Rightarrow> None)
      | _ \<Rightarrow> None)"

text \<open>\<open>assertAuthoringEffectScopeBinding\<close> on the JSON value of a binding; the fields that the type
  declares as strings are strings, or the check throws a type error of its own.\<close>

definition assertAuthoringEffectScopeBinding :: "json \<Rightarrow> unit result" where
  "assertAuthoringEffectScopeBinding v =
     (let scope = nullish (jget v ''writable_scope'') JNull; malformed = failInvalid ''authoring effect scope binding is malformed'' in
      if \<not> hasExactOwnKeys v binding_keys \<or> \<not> hasExactOwnKeys scope [''kind'', ''paths''] \<or>
         jget v ''schema_version'' \<noteq> Some (JNum 1)
      then malformed
      else
        (case (binding_profile v, jget v ''task_root'', jget scope ''paths'') of
           (Some profile, Some (JStr taskRoot), Some (JArr paths)) \<Rightarrow>
             if \<not> is_absolute taskRoot \<or> path_resolve taskRoot \<noteq> taskRoot \<or>
                \<not> text_field v ''task_root_device'' digits \<or> \<not> text_field v ''task_root_inode'' digits \<or>
                jget v ''recursive_delegation'' \<noteq> Some (JStr ''disabled'') \<or>
                \<not> text_field v ''immutable_tree_sha256'' sha256_hex \<or>
                jget v ''terminal_reinspection_required'' \<noteq> Some (JBool True) \<or>
                jget v ''claim_ceiling'' \<noteq> Some (JStr claim_ceiling)
             then malformed
             else if profile = Task_root_authoring_v1 then
               (if jget scope ''kind'' \<noteq> Some (JStr ''exact_output_files'')
                then failInvalid ''task_root_authoring_v1 effect scope binding requires exact_output_files''
                else map_sum id (\<lambda>_. ()) (normalizeAllowedOutputPaths (Some (JArr paths)) taskRoot (Some profile)))
             else if jget scope ''kind'' \<noteq> Some (JStr ''fixed_state_subtree'') \<or>
               paths \<noteq> [JStr (boundedProfileStateRoot taskRoot profile)]
             then failInvalid (effect_profile_name profile @
               '' effect scope binding requires its one exact fixed profile state subtree'')
             else Inr ()
         | _ \<Rightarrow> malformed))"

definition scope_json :: "writable_scope \<Rightarrow> json" where
  "scope_json s =
     (case s of
        Exact_output_files ps \<Rightarrow> JObj [(''kind'', JStr ''exact_output_files''), (''paths'', JArr (map JStr ps))]
      | Fixed_state_subtree ps \<Rightarrow> JObj [(''kind'', JStr ''fixed_state_subtree''), (''paths'', JArr (map JStr ps))])"

definition binding_json :: "effect_scope_binding \<Rightarrow> json" where
  "binding_json b =
     JObj [(''schema_version'', JNum 1), (''effect_profile'', JStr (effect_profile_name (eb_effect_profile b))),
       (''task_root'', JStr (eb_task_root b)), (''task_root_device'', JStr (eb_task_root_device b)),
       (''task_root_inode'', JStr (eb_task_root_inode b)), (''recursive_delegation'', JStr ''disabled''),
       (''immutable_tree_sha256'', JStr (eb_immutable_tree_sha256 b)),
       (''writable_scope'', scope_json (eb_writable_scope b)), (''terminal_reinspection_required'', JBool True),
       (''claim_ceiling'', JStr claim_ceiling)]"

section \<open>The reinspection after the run\<close>

text \<open>\<open>JSON.stringify(left) === JSON.stringify(right)\<close>\<close>

definition exactEntry :: "captured_entry \<Rightarrow> captured_entry \<Rightarrow> bool" where
  "exactEntry l r \<longleftrightarrow> json_text size_text (entry_json l) = json_text size_text (entry_json r)"

definition absoluteEntryPath :: "string \<Rightarrow> captured_entry \<Rightarrow> string" where
  "absoluteEntryPath taskRoot x =
     (if entry_path x = ''.'' then taskRoot else path_join taskRoot (entry_path x))"

definition allowedNewDirectory :: "effect_scope_binding \<Rightarrow> string \<Rightarrow> bool" where
  "allowedNewDirectory b c \<longleftrightarrow>
     list_ex (\<lambda>p. c \<noteq> eb_task_root b \<and> is_within c p) (scope_paths (eb_writable_scope b))"

definition assertBoundedWritableFileStat :: "string \<Rightarrow> fstat \<Rightarrow> unit result" where
  "assertBoundedWritableFileStat p st =
     (if st_kind st \<noteq> Kind_regular
      then failDrift (''authoring writable closure contains a non-regular or symlinked file: '' @ p)
      else if st_nlink st \<noteq> 1
      then failDrift (''authoring writable closure regular files must have link count one: '' @ p)
      else if 16 * 1024 * 1024 < st_size st
      then failDrift (''authoring writable file exceeds bounded logical size 16777216: '' @ p)
      else if materially_sparse st
      then failDrift (''authoring writable closure contains a materially sparse file: '' @ p)
      else Inr ())"

text \<open>\<open>inspectFile\<close>; the number is \<open>totalBytes\<close>.\<close>

definition inspectFile :: "fs_view \<Rightarrow> bool \<Rightarrow> string \<Rightarrow> nat \<Rightarrow> nat result" where
  "inspectFile fs allowMissing p acc =
     (case (if allowMissing then lstat_optional fs p else map_sum id Some (fs_lstat fs p)) of
        Inl e \<Rightarrow> Inl e
      | Inr None \<Rightarrow> Inr acc
      | Inr (Some st) \<Rightarrow>
          (case assertBoundedWritableFileStat p st of
             Inl e \<Rightarrow> Inl e
           | Inr _ \<Rightarrow>
               (case fs_realpath fs p of
                  Inl e \<Rightarrow> Inl e
                | Inr r \<Rightarrow>
                    if r \<noteq> p then failDrift (''authoring writable file is not at its exact real path: '' @ p)
                    else if 32 * 1024 * 1024 < acc + st_size st
                    then failDrift ''authoring writable closure aggregate logical size exceeds 33554432''
                    else Inr (acc + st_size st))))"

fun inspect_outputs :: "fs_view \<Rightarrow> bool \<Rightarrow> string list \<Rightarrow> nat \<Rightarrow> nat result" where
  "inspect_outputs fs allowMissing [] acc = Inr acc"
| "inspect_outputs fs allowMissing (p # ps) acc =
     (case inspectFile fs allowMissing p acc of
        Inl e \<Rightarrow> Inl e
      | Inr t \<Rightarrow> inspect_outputs fs allowMissing ps t)"

text \<open>The recursive \<open>visit\<close> of the state subtree, with the counters \<open>(traversed, totalBytes)\<close> and the
  same bound on its depth as above.\<close>

fun visit_state :: "nat \<Rightarrow> fs_view \<Rightarrow> string \<Rightarrow> nat \<times> nat \<Rightarrow> (nat \<times> nat) result"
and visit_state_all :: "nat \<Rightarrow> fs_view \<Rightarrow> string list \<Rightarrow> nat \<times> nat \<Rightarrow> (nat \<times> nat) result" where
  "visit_state 0 fs c w = out_of_fuel"
| "visit_state (Suc n) fs c (traversed, acc) =
     (if max_tree_entries < Suc traversed
      then failDrift ''authoring writable state exceeds 1024 filesystem entries''
      else
        (case fs_lstat fs c of
           Inl e \<Rightarrow> Inl e
         | Inr st \<Rightarrow>
             if st_kind st = Kind_symlink then failDrift (''authoring writable closure contains a symlink: '' @ c)
             else if st_kind st = Kind_directory then
               (case fs_realpath fs c of
                  Inl e \<Rightarrow> Inl e
                | Inr r \<Rightarrow>
                    if r \<noteq> c then failDrift (''authoring writable directory is not at its exact real path: '' @ c)
                    else
                      (case fs_readdir fs c of
                         Inl e \<Rightarrow> Inl e
                       | Inr names \<Rightarrow>
                           visit_state_all n fs (map (path_join c) (sort_key (\<lambda>m. concat (map utf8_bytes m)) names))
                             (Suc traversed, acc)))
             else map_sum id (\<lambda>t. (Suc traversed, t)) (inspectFile fs False c acc)))"
| "visit_state_all n fs [] w = Inr w"
| "visit_state_all n fs (c # cs) w =
     (case visit_state n fs c w of Inl e \<Rightarrow> Inl e | Inr w' \<Rightarrow> visit_state_all n fs cs w')"

definition assertAuthoringWritableClosure :: "fs_view \<Rightarrow> effect_scope_binding \<Rightarrow> bool option \<Rightarrow> unit result" where
  "assertAuthoringWritableClosure fs b requireExactOutputs =
     bind_result (assertAuthoringEffectScopeBinding (binding_json b)) (\<lambda>_.
       case eb_writable_scope b of
         Exact_output_files ps \<Rightarrow>
           map_sum id (\<lambda>_. ()) (inspect_outputs fs (requireExactOutputs = Some False) ps 0)
       | Fixed_state_subtree ps \<Rightarrow>
           (case ps of
              [] \<Rightarrow> Inr ()
            | stateRoot # _ \<Rightarrow>
                (case lstat_optional fs stateRoot of
                   Inl e \<Rightarrow> Inl e
                 | Inr None \<Rightarrow> Inr ()
                 | Inr (Some _) \<Rightarrow>
                     map_sum id (\<lambda>_. ()) (visit_state (Suc max_tree_entries) fs stateRoot (0, 0)))))"

text \<open>\<open>new Map(entries.map(...))\<close>: the last entry of a path wins.\<close>

definition by_path :: "captured_entry list \<Rightarrow> string \<Rightarrow> captured_entry option" where
  "by_path entries p = map_of (rev (map (\<lambda>x. (entry_path x, x)) entries)) p"

definition entry_drift :: "captured_scope \<Rightarrow> captured_entry list \<Rightarrow> unit result" where
  "entry_drift captured current =
     (let taskRoot = eb_task_root (cs_binding captured); initial = cs_initial_entries captured in
      case find (\<lambda>x. by_path initial (entry_path x) = Some x \<and>
          (case by_path current (entry_path x) of None \<Rightarrow> True | Some y \<Rightarrow> \<not> exactEntry x y)) initial of
        Some x \<Rightarrow> failDrift (''immutable authoring input changed identity or bytes: '' @ absoluteEntryPath taskRoot x)
      | None \<Rightarrow>
          (case find (\<lambda>x. by_path current (entry_path x) = Some x \<and> by_path initial (entry_path x) = None \<and>
              \<not> (is_Captured_directory x \<and>
                 allowedNewDirectory (cs_binding captured) (absoluteEntryPath taskRoot x))) current of
             Some x \<Rightarrow> failDrift (''authoring task root contains an undeclared entry: '' @ absoluteEntryPath taskRoot x)
           | None \<Rightarrow> Inr ()))"

definition as_drift :: "'a result \<Rightarrow> 'a result" where
  "as_drift r =
     (case r of
        Inr a \<Rightarrow> Inr a
      | Inl e \<Rightarrow>
          (case e of
             ValidationError m rc \<Rightarrow>
               (case rc of
                  Rc_authoring_effect_scope_drift \<Rightarrow> Inl e
                | _ \<Rightarrow> failDrift (''authoring effect scope terminal reinspection failed: '' @ message_of e))
           | _ \<Rightarrow> failDrift (''authoring effect scope terminal reinspection failed: '' @ message_of e)))"

definition assertAuthoringEffectScopeTerminal :: "(string \<Rightarrow> string) \<Rightarrow> fs_view \<Rightarrow> captured_scope \<Rightarrow> unit result" where
  "assertAuthoringEffectScopeTerminal sha fs captured =
     as_drift
       (bind_result (assertCanonicalTaskRoot fs (eb_task_root (cs_binding captured))) (\<lambda>_.
        bind_result (captureTree sha fs (cs_binding captured)) (\<lambda>current.
        bind_result (entry_drift captured current) (\<lambda>_.
          assertAuthoringWritableClosure fs (cs_binding captured) (Some True)))))"

section \<open>Declared output paths are what they should be\<close>

definition output_path_ok :: "string \<Rightarrow> string \<Rightarrow> bool" where
  "output_path_ok taskRoot p \<longleftrightarrow>
     is_absolute p \<and> path_resolve p = p \<and> p \<noteq> taskRoot \<and> is_within taskRoot p"

lemma check_output_paths_Cons_Inr:
  "check_output_paths taskRoot (v # vs) = Inr ps \<longleftrightarrow>
     (\<exists>c cs. v = JStr c \<and> ps = c # cs \<and> output_path_ok taskRoot c \<and> check_output_paths taskRoot vs = Inr cs)"
  by (cases v) (auto simp: failInvalid_def output_path_ok_def split: sum.splits if_splits)

lemma check_output_paths_Inr_iff:
  "check_output_paths taskRoot vs = Inr ps \<longleftrightarrow> vs = map JStr ps \<and> list_all (output_path_ok taskRoot) ps"
proof (induction vs arbitrary: ps)
  case Nil
  show ?case by (cases ps) auto
next
  case (Cons v vs)
  show ?case unfolding check_output_paths_Cons_Inr Cons.IH by (cases ps) auto
qed

lemma utf8_ascending_iff: "utf8_ascending ps \<longleftrightarrow> sorted_wrt utf8_less ps"
proof (induction ps rule: utf8_ascending.induct)
  case (1 a b rest)
  then show ?case by (auto dest: utf8_less_trans)
qed simp_all

lemma any_overlap_iff: "any_overlap ps \<longleftrightarrow> \<not> sorted_wrt (\<lambda>p q. \<not> pathsOverlap p q) ps"
  by (induction ps) (auto simp: list_ex_iff)

text \<open>
  The paths that a run may write are exactly those the caller declared. Declared output paths are
  accepted precisely for the task-root authoring profile and precisely when they are at most 128
  canonical absolute strict descendants of the task root, in strictly ascending UTF-8 byte order, no
  path lying within another; they are accepted unchanged, and no other profile takes any.
\<close>

theorem declared_outputs_accepted_iff:
  "normalizeAllowedOutputPaths v taskRoot profile = Inr (Some ps) \<longleftrightarrow>
     profile = Some Task_root_authoring_v1 \<and> v = Some (JArr (map JStr ps)) \<and> length ps \<le> 128 \<and>
     list_all (\<lambda>p. is_absolute p \<and> path_resolve p = p \<and> p \<noteq> taskRoot \<and> is_within taskRoot p) ps \<and>
     sorted_wrt utf8_less ps \<and> sorted_wrt (\<lambda>p q. \<not> is_within p q \<and> \<not> is_within q p) ps"
proof -
  have ov: "sorted_wrt (\<lambda>p q. \<not> pathsOverlap p q) ps = sorted_wrt (\<lambda>p q. \<not> is_within p q \<and> \<not> is_within q p) ps"
    by (simp add: pathsOverlap_def)
  have "normalizeAllowedOutputPaths v taskRoot profile = Inr (Some ps) \<longleftrightarrow>
      profile = Some Task_root_authoring_v1 \<and>
      (\<exists>vs. v = Some (JArr vs) \<and> length vs \<le> 128 \<and> check_output_paths taskRoot vs = Inr ps \<and>
        utf8_ascending ps \<and> \<not> any_overlap ps)"
    by (simp add: normalizeAllowedOutputPaths_def failInvalid_def max_allowed_output_paths_def
        split: option.split json.split sum.split) auto
  then show ?thesis
    by (auto simp: check_output_paths_Inr_iff utf8_ascending_iff any_overlap_iff ov output_path_ok_def[abs_def])
qed

section \<open>The text of an entry determines it\<close>

lemma digits_then_comma:
  assumes "list_all is_digit a" and "list_all is_digit b" and "a @ CHR '','' # r = b @ CHR '','' # r'"
  shows "a = b \<and> r = r'"
proof -
  have comma: "\<not> is_digit CHR '',''" by (simp add: is_digit_def)
  have "takeWhile is_digit (a @ CHR '','' # r) = a" "takeWhile is_digit (b @ CHR '','' # r') = b"
    using assms(1,2) comma by (auto simp: takeWhile_append2 list_all_iff)
  with assms(3) show ?thesis by (metis append_same_eq same_append_eq list.inject)
qed

lemma decimal_comma [simp]:
  "decimal_text m @ CHR '','' # r = decimal_text n @ CHR '','' # r' \<longleftrightarrow> m = n \<and> r = r'"
  using digits_then_comma[OF decimal_text_digits decimal_text_digits] decimal_text_inject by blast

lemma exactEntry_iff: "exactEntry x y \<longleftrightarrow> x = y"
  by (cases x; cases y) (auto simp: exactEntry_def size_text_def)

section \<open>What a capture has seen\<close>

text \<open>The paths below a directory, as \<open>lstat\<close> and \<open>readdir\<close> show them; \<open>readdir\<close> lists proper names.\<close>

inductive reaches :: "fs_view \<Rightarrow> string \<Rightarrow> string \<Rightarrow> bool" for fs c where
  reaches_self: "reaches fs c c"
| reaches_child: "reaches fs c d \<Longrightarrow> fs_lstat fs d = Inr st \<Longrightarrow> st_kind st = Kind_directory \<Longrightarrow>
    fs_readdir fs d = Inr names \<Longrightarrow> m \<in> set names \<Longrightarrow> reaches fs c (path_join d m)"

definition proper_names :: "fs_view \<Rightarrow> bool" where
  "proper_names fs \<longleftrightarrow>
     (\<forall>d names. fs_readdir fs d = Inr names \<longrightarrow> list_all (\<lambda>m. m \<noteq> [] \<and> m \<noteq> ''.'' \<and> slash \<notin> set m) names)"

text \<open>The entry that a path contributes to a capture.\<close>

definition entry_at :: "(string \<Rightarrow> string) \<Rightarrow> fs_view \<Rightarrow> effect_scope_binding \<Rightarrow> string \<Rightarrow> captured_entry option" where
  "entry_at sha fs b p =
     (case fs_lstat fs p of
        Inl _ \<Rightarrow> None
      | Inr st \<Rightarrow>
          if ignoredByWritableSubtree b p then None
          else if st_kind st = Kind_directory
          then Some (Captured_directory (relativePath (eb_task_root b) p) (decimal_text (st_dev st))
                 (decimal_text (st_ino st)))
          else if declared_output b p then None
          else (case captureFile sha fs (eb_task_root b) p of Inl _ \<Rightarrow> None | Inr x \<Rightarrow> Some x))"

text \<open>What every visited path satisfies, whether it is captured or not.\<close>

definition plain_path :: "fs_view \<Rightarrow> string \<Rightarrow> bool" where
  "plain_path fs p \<longleftrightarrow>
     (\<exists>st. fs_lstat fs p = Inr st \<and>
        (st_kind st = Kind_directory \<or> st_kind st = Kind_regular \<and> st_nlink st = 1))"

definition covered :: "(string \<Rightarrow> string) \<Rightarrow> fs_view \<Rightarrow> effect_scope_binding \<Rightarrow> string \<Rightarrow> captured_entry set \<Rightarrow> bool" where
  "covered sha fs b p es \<longleftrightarrow>
     plain_path fs p \<and>
     (case entry_at sha fs b p of
        Some x \<Rightarrow> x \<in> es
      | None \<Rightarrow> ignoredByWritableSubtree b p \<or> declared_output b p)"

lemma covered_mono: "covered sha fs b p es \<Longrightarrow> es \<subseteq> es' \<Longrightarrow> covered sha fs b p es'"
  unfolding covered_def by (auto split: option.splits)

lemma reaches_cases_down:
  "reaches fs c p \<Longrightarrow> p = c \<or>
     (\<exists>st names m. fs_lstat fs c = Inr st \<and> st_kind st = Kind_directory \<and> fs_readdir fs c = Inr names \<and>
        m \<in> set names \<and> reaches fs (path_join c m) p)"
proof (induction rule: reaches.induct)
  case (reaches_child d st names m)
  then show ?case by (metis reaches.intros)
qed simp

lemma reaches_up:
  assumes "fs_lstat fs c = Inr st" "st_kind st = Kind_directory" "fs_readdir fs c = Inr names" "m \<in> set names"
    and "reaches fs (path_join c m) p"
  shows "reaches fs c p"
  using assms(5) by (induction rule: reaches.induct) (use assms(1-4) reaches.intros in metis)+

lemma entry_at_dir:
  "fs_lstat fs c = Inr st \<Longrightarrow> st_kind st = Kind_directory \<Longrightarrow>
   entry_at sha fs b c = (if ignoredByWritableSubtree b c then None
     else Some (Captured_directory (relativePath (eb_task_root b) c) (decimal_text (st_dev st)) (decimal_text (st_ino st))))"
  by (simp add: entry_at_def)

lemma visit_file_Inr:
  assumes "visit_file sha fs b c st w = Inr w'" and "fs_lstat fs c = Inr st"
  shows "plain_path fs c \<and>
    (set (tw_entries w') = set (tw_entries w) \<and> entry_at sha fs b c = None \<and>
       (ignoredByWritableSubtree b c \<or> declared_output b c) \<or>
     (\<exists>x. entry_at sha fs b c = Some x \<and> set (tw_entries w') = insert x (set (tw_entries w))))"
  using assms by (auto simp: visit_file_def failInvalid_def plain_path_def entry_at_def Let_def split: if_splits sum.splits)


text \<open>What one visit adds: it never loses an entry, it covers everything below, it adds only entries from
  below.\<close>

definition adds :: "(string \<Rightarrow> string) \<Rightarrow> fs_view \<Rightarrow> effect_scope_binding \<Rightarrow> string set \<Rightarrow> captured_entry set \<Rightarrow>
  captured_entry set \<Rightarrow> bool" where
  "adds sha fs b cs es es' \<longleftrightarrow>
     es \<subseteq> es' \<and> (\<forall>c\<in>cs. \<forall>p. reaches fs c p \<longrightarrow> covered sha fs b p es') \<and>
     (\<forall>x\<in>es'. x \<in> es \<or> (\<exists>c\<in>cs. \<exists>p. reaches fs c p \<and> entry_at sha fs b p = Some x))"

lemma adds_empty: "adds sha fs b {} es es"
  by (simp add: adds_def)

lemma adds_insert:
  assumes "adds sha fs b {c} es es'" and "adds sha fs b cs es' es''"
  shows "adds sha fs b (insert c cs) es es''"
proof -
  have "\<And>p. covered sha fs b p es' \<Longrightarrow> covered sha fs b p es''"
    using assms(2) covered_mono unfolding adds_def by blast
  then show ?thesis using assms unfolding adds_def by (auto simp: subset_iff)
qed

lemma reaches_leaf:
  "fs_lstat fs c = Inr st \<Longrightarrow> st_kind st \<noteq> Kind_directory \<Longrightarrow> reaches fs c p \<longleftrightarrow> p = c"
  by (auto dest: reaches_cases_down intro: reaches_self)

lemma step_into_leaf:
  assumes "step_into sha fs b c w = Inr (w', None)"
  shows "adds sha fs b {c} (set (tw_entries w)) (set (tw_entries w'))"
proof -
  obtain st where st: "fs_lstat fs c = Inr st" "st_kind st \<noteq> Kind_directory"
    and v: "visit_file sha fs b c st (w\<lparr>tw_traversed := Suc (tw_traversed w)\<rparr>) = Inr w'"
    using assms by (auto simp: step_into_def failInvalid_def Let_def split: if_splits sum.splits)
  from visit_file_Inr[OF v st(1)] show ?thesis
    by (auto simp: adds_def covered_def reaches_leaf[OF st])
qed

lemma step_into_directory:
  assumes "step_into sha fs b c w = Inr (w', Some cs)"
    and "adds sha fs b (set cs) (set (tw_entries w')) es"
  shows "adds sha fs b {c} (set (tw_entries w)) es"
proof -
  obtain st names where st: "fs_lstat fs c = Inr st" "st_kind st = Kind_directory" "fs_readdir fs c = Inr names"
    and cs: "set cs = path_join c ` set names"
    and w': "tw_entries w' = (if ignoredByWritableSubtree b c then tw_entries w
      else Captured_directory (relativePath (eb_task_root b) c) (decimal_text (st_dev st)) (decimal_text (st_ino st))
        # tw_entries w)"
    using assms(1) by (auto simp: step_into_def failInvalid_def Let_def split: if_splits sum.splits)
  have plain: "plain_path fs c" using st by (simp add: plain_path_def)
  have own: "covered sha fs b c es"
    using plain entry_at_dir[OF st(1,2), of sha b] w' assms(2) by (auto simp: covered_def adds_def split: if_splits)
  have up: "reaches fs c p" if "d \<in> set cs" "reaches fs d p" for d p
    using that cs reaches_up[OF st(1-3)] by auto
  have down: "p = c \<or> (\<exists>d\<in>set cs. reaches fs d p)" if "reaches fs c p" for p
    using reaches_cases_down[OF that] st cs by auto
  show ?thesis
    unfolding adds_def
  proof (intro conjI ballI allI impI)
    show "set (tw_entries w) \<subseteq> es" using assms(2) w' by (auto simp: adds_def split: if_splits)
    show "covered sha fs b p es" if "d \<in> {c}" "reaches fs d p" for d p
      using that down[of p] own assms(2) by (auto simp: adds_def)
    show "x \<in> set (tw_entries w) \<or> (\<exists>d\<in>{c}. \<exists>p. reaches fs d p \<and> entry_at sha fs b p = Some x)" if "x \<in> es" for x
    proof -
      have "x \<in> set (tw_entries w') \<or> (\<exists>d\<in>set cs. \<exists>p. reaches fs d p \<and> entry_at sha fs b p = Some x)"
        using that assms(2) by (auto simp: adds_def)
      then show ?thesis
      proof
        assume "x \<in> set (tw_entries w')"
        then show ?thesis
          using entry_at_dir[OF st(1,2), of sha b] w' reaches_self[of fs c] by (auto split: if_splits)
      qed (use up in blast)
    qed
  qed
qed

lemma visit_adds:
  "visit n sha fs b c w = Inr w' \<Longrightarrow> adds sha fs b {c} (set (tw_entries w)) (set (tw_entries w'))"
  "visit_all n sha fs b cs w = Inr w' \<Longrightarrow> adds sha fs b (set cs) (set (tw_entries w)) (set (tw_entries w'))"
proof (induction n sha fs b c w and n sha fs b cs w arbitrary: w' and w' rule: visit_visit_all.induct)
  case (2 n sha fs b c w)
  show ?case
  proof (cases "step_into sha fs b c w")
    case (Inr r)
    obtain v t where r: "r = (v, t)" by (cases r)
    show ?thesis
    proof (cases t)
      case None
      with 2 Inr r show ?thesis by (auto intro: step_into_leaf)
    next
      case (Some cs)
      with 2 Inr r show ?thesis by (auto intro: step_into_directory)
    qed
  qed (use 2 in auto)
next
  case (4 n sha fs b c cs w)
  then show ?case by (auto split: sum.splits intro: adds_insert)
qed (auto simp: out_of_fuel_def adds_empty)

lemma captureTree_set:
  assumes "captureTree sha fs b = Inr es"
  shows "(\<forall>p. reaches fs (eb_task_root b) p \<longrightarrow> covered sha fs b p (set es)) \<and>
    (\<forall>x\<in>set es. \<exists>p. reaches fs (eb_task_root b) p \<and> entry_at sha fs b p = Some x)"
proof -
  obtain w where "visit (Suc max_tree_entries) sha fs b (eb_task_root b)
      \<lparr>tw_traversed = 0, tw_files = 0, tw_bytes = 0, tw_entries = []\<rparr> = Inr w"
    and "set es = set (tw_entries w)"
    using assms by (auto simp: captureTree_def)
  with visit_adds(1) show ?thesis by (fastforce simp: adds_def)
qed

subsection \<open>Relative paths name reachable paths\<close>

lemma path_join_join: "t \<noteq> [] \<Longrightarrow> path_join (path_join c t) m = path_join c (t @ slash # m)"
  by (cases c) (auto simp: path_join_def)

lemma reaches_shape:
  assumes "reaches fs c p" and "proper_names fs"
  shows "p = c \<or> (\<exists>t. t \<noteq> [] \<and> t \<noteq> ''.'' \<and> p = path_join c t)"
  using assms(1)
proof (induction rule: reaches.induct)
  case (reaches_child d st names m)
  then have m: "m \<noteq> [] \<and> m \<noteq> ''.''" using assms(2) by (auto simp: proper_names_def list_all_iff)
  show ?case
  proof (cases "d = c")
    case False
    then obtain t where t: "t \<noteq> []" "d = path_join c t" using reaches_child.IH by blast
    have "t @ slash # m \<noteq> ''.''" using t(1) by (cases t) auto
    then show ?thesis using t by (metis path_join_join append_is_Nil_conv)
  qed (use m in auto)
qed simp

lemma relativePath_join: "t \<noteq> [] \<Longrightarrow> relativePath c (path_join c t) = t"
  by (auto simp: relativePath_def path_join_def)

lemma relativePath_inject:
  assumes "reaches fs c p" "reaches fs' c q" "proper_names fs" "proper_names fs'"
    and "relativePath c p = relativePath c q"
  shows "p = q"
  using reaches_shape[OF assms(1,3)] reaches_shape[OF assms(2,4)] assms(5)
  by (elim disjE exE conjE) (auto simp: relativePath_join, auto simp: relativePath_def)

lemma entry_at_path: "entry_at sha fs b p = Some x \<Longrightarrow> entry_path x = relativePath (eb_task_root b) p"
  by (auto simp: entry_at_def captureFile_def failInvalid_def Let_def split: sum.splits if_splits prod.splits)


definition paths_unique :: "captured_entry list \<Rightarrow> bool" where
  "paths_unique es \<longleftrightarrow> (\<forall>x\<in>set es. \<forall>y\<in>set es. entry_path x = entry_path y \<longrightarrow> x = y)"

lemma captureTree_unique:
  assumes "captureTree sha fs b = Inr es" and "proper_names fs"
  shows "paths_unique es"
  unfolding paths_unique_def
proof (intro ballI impI)
  fix x y assume "x \<in> set es" "y \<in> set es" and eq: "entry_path x = entry_path y"
  then obtain p q where "reaches fs (eb_task_root b) p" "entry_at sha fs b p = Some x"
    and "reaches fs (eb_task_root b) q" "entry_at sha fs b q = Some y"
    using captureTree_set[OF assms(1)] by blast
  moreover from this have "p = q" using eq relativePath_inject[OF _ _ assms(2,2)] entry_at_path by metis
  ultimately show "x = y" by simp
qed

lemma by_path_Some:
  assumes "paths_unique es"
  shows "by_path es p = Some x \<longleftrightarrow> x \<in> set es \<and> entry_path x = p"
proof
  assume "by_path es p = Some x"
  then show "x \<in> set es \<and> entry_path x = p" by (auto simp: by_path_def dest!: map_of_SomeD)
next
  assume x: "x \<in> set es \<and> entry_path x = p"
  then have "by_path es p \<noteq> None" by (auto simp: by_path_def map_of_eq_None_iff image_image)
  then obtain y where y: "by_path es p = Some y" by blast
  then have "y \<in> set es \<and> entry_path y = p" by (auto simp: by_path_def dest!: map_of_SomeD)
  with x assms have "y = x" by (auto simp: paths_unique_def)
  with y show "by_path es p = Some x" by simp
qed

lemma find_None: "find P xs = None \<longleftrightarrow> (\<forall>x\<in>set xs. \<not> P x)"
  by (induction xs) auto

lemma entry_drift_Inr:
  assumes "paths_unique (cs_initial_entries cap)" and "paths_unique cur" and "entry_drift cap cur = Inr u"
  shows "set (cs_initial_entries cap) \<subseteq> set cur \<and>
    (\<forall>x\<in>set cur. x \<in> set (cs_initial_entries cap) \<or> is_Captured_directory x \<and>
       allowedNewDirectory (cs_binding cap) (absoluteEntryPath (eb_task_root (cs_binding cap)) x))"
proof -
  let ?ini = "cs_initial_entries cap"
  have a: "\<forall>x\<in>set ?ini. \<exists>y. by_path cur (entry_path x) = Some y \<and> exactEntry x y"
    using assms(3) by_path_Some[OF assms(1)]
    by (auto simp: entry_drift_def Let_def failDrift_def find_None split: option.splits)
  have sub: "set ?ini \<subseteq> set cur"
    using a by (auto simp: exactEntry_iff by_path_Some[OF assms(2)])
  have new: "by_path ?ini (entry_path x) = None \<longrightarrow> is_Captured_directory x \<and>
      allowedNewDirectory (cs_binding cap) (absoluteEntryPath (eb_task_root (cs_binding cap)) x)" if "x \<in> set cur" for x
    using assms(3) that by_path_Some[OF assms(2)]
    by (auto simp: entry_drift_def Let_def failDrift_def find_None split: option.splits)
  have old: "x \<in> set ?ini" if x: "x \<in> set cur" and "by_path ?ini (entry_path x) = Some y" for x y
  proof -
    have "y \<in> set ?ini" "entry_path y = entry_path x" using that(2) by_path_Some[OF assms(1)] by auto
    with sub x assms(2) show ?thesis by (auto simp: paths_unique_def)
  qed
  show ?thesis using sub new old by (metis option.exhaust)
qed

subsection \<open>The declared outputs at the end\<close>

lemma inspectFile_required:
  "inspectFile fs False p acc = Inr t \<Longrightarrow>
   \<exists>st. fs_lstat fs p = Inr st \<and> fs_realpath fs p = Inr p \<and> st_kind st = Kind_regular \<and> st_nlink st = 1 \<and>
     st_size st \<le> 16 * 1024 * 1024 \<and> \<not> materially_sparse st \<and> t = acc + st_size st \<and> t \<le> 32 * 1024 * 1024"
  by (auto simp: inspectFile_def assertBoundedWritableFileStat_def failDrift_def split: sum.splits if_splits)

definition size_at :: "fs_view \<Rightarrow> string \<Rightarrow> nat" where
  "size_at fs p = (case fs_lstat fs p of Inr st \<Rightarrow> st_size st | Inl _ \<Rightarrow> 0)"

lemma inspect_outputs_required:
  "inspect_outputs fs False ps acc = Inr t \<Longrightarrow>
   t = acc + sum_list (map (size_at fs) ps) \<and> (ps \<noteq> [] \<longrightarrow> t \<le> 32 * 1024 * 1024) \<and>
   (\<forall>p\<in>set ps. \<exists>st. fs_lstat fs p = Inr st \<and> fs_realpath fs p = Inr p \<and> st_kind st = Kind_regular \<and>
      st_nlink st = 1 \<and> st_size st \<le> 16 * 1024 * 1024)"
proof (induction ps arbitrary: acc)
  case (Cons p ps)
  from Cons.prems obtain u where u: "inspectFile fs False p acc = Inr u" and rest: "inspect_outputs fs False ps u = Inr t"
    by (auto split: sum.splits)
  have ih: "t = u + sum_list (map (size_at fs) ps)" "ps \<noteq> [] \<longrightarrow> t \<le> 32 * 1024 * 1024"
    "\<forall>p\<in>set ps. \<exists>st. fs_lstat fs p = Inr st \<and> fs_realpath fs p = Inr p \<and> st_kind st = Kind_regular \<and>
      st_nlink st = 1 \<and> st_size st \<le> 16 * 1024 * 1024"
    using Cons.IH[OF rest] by blast+
  obtain st where st: "fs_lstat fs p = Inr st" "fs_realpath fs p = Inr p" "st_kind st = Kind_regular" "st_nlink st = 1"
    "st_size st \<le> 16 * 1024 * 1024" "u = acc + st_size st" "u \<le> 32 * 1024 * 1024"
    using inspectFile_required[OF u] by blast
  have "size_at fs p = st_size st" using st(1) by (simp add: size_at_def)
  then show ?case using ih st by (cases ps) auto
qed simp

lemma as_drift_Inr [simp]: "as_drift r = Inr u \<longleftrightarrow> r = Inr u"
  by (auto simp: as_drift_def failDrift_def split: sum.splits js_error.splits failure_reason_code.splits)

lemma bind_result_Inr [simp]: "bind_result r f = Inr b \<longleftrightarrow> (\<exists>a. r = Inr a \<and> f a = Inr b)"
  by (rule bind_result_Inr_iff)

lemma terminal_Inr:
  "assertAuthoringEffectScopeTerminal sha fs cap = Inr u \<longleftrightarrow>
     assertCanonicalTaskRoot fs (eb_task_root (cs_binding cap)) = Inr () \<and>
     (\<exists>cur. captureTree sha fs (cs_binding cap) = Inr cur \<and> entry_drift cap cur = Inr ()) \<and>
     assertAuthoringWritableClosure fs (cs_binding cap) (Some True) = Inr ()"
  by (auto simp: assertAuthoringEffectScopeTerminal_def)

lemma capture_Inr:
  assumes "captureAuthoringEffectScope sha fs c profile delegation allowed = Inr cap"
  shows "eb_task_root (cs_binding cap) = c \<and>
    (\<exists>b. captureTree sha fs b = Inr (cs_initial_entries cap) \<and> eb_task_root b = c \<and>
       eb_writable_scope b = eb_writable_scope (cs_binding cap))"
proof -
  obtain b es where "captureTree sha fs b = Inr es" "eb_task_root b = c" "cs_initial_entries cap = es"
    "eb_task_root (cs_binding cap) = c" "eb_writable_scope (cs_binding cap) = eb_writable_scope b"
    using assms unfolding captureAuthoringEffectScope_def failInvalid_def Let_def
    by (clarsimp split: if_splits option.splits) force+
  then show ?thesis by metis
qed

lemma entry_at_cong:
  "eb_task_root b = eb_task_root b' \<Longrightarrow> eb_writable_scope b = eb_writable_scope b' \<Longrightarrow>
   entry_at sha fs b p = entry_at sha fs b' p"
proof -
  assume eq: "eb_task_root b = eb_task_root b'" "eb_writable_scope b = eb_writable_scope b'"
  then have "ignoredByWritableSubtree b p = ignoredByWritableSubtree b' p" "declared_output b p = declared_output b' p"
    by (simp_all add: ignoredByWritableSubtree_def declared_output_def)
  with eq show ?thesis by (cases "fs_lstat fs p") (simp_all add: entry_at_def)
qed

lemma captureFile_file: "captureFile sha fs c p = Inr x \<Longrightarrow> \<not> is_Captured_directory x"
  by (auto simp: captureFile_def failInvalid_def Let_def split: sum.splits if_splits)

lemma entry_at_directory:
  "entry_at sha fs b p = Some x \<Longrightarrow> is_Captured_directory x \<Longrightarrow>
   \<exists>st. fs_lstat fs p = Inr st \<and> st_kind st = Kind_directory"
  by (auto simp: entry_at_def dest: captureFile_file split: sum.splits if_splits)

lemma absoluteEntryPath_entry:
  assumes "reaches fs (eb_task_root b) p" "proper_names fs" "entry_at sha fs b p = Some x"
  shows "absoluteEntryPath (eb_task_root b) x = p"
  using reaches_shape[OF assms(1,2)] entry_at_path[OF assms(3)]
  by (auto simp: absoluteEntryPath_def relativePath_join) (auto simp: relativePath_def)


text \<open>
  C22: A run that passes the terminal reinspection has written only what it declared. Let the scope be
  captured on one file system and reinspected on a later one. Every path found below the task root
  then is a single-linked regular file or a directory, and lies in the profile's state subtree, is a
  declared output, has exactly the entry it had before the run (kind, identity, size and SHA-256 of
  its bytes), or is a new directory on the way to a declared path. Every entry from before the run is
  still there, unchanged. Every declared output exists as a regular file of at most 16 MiB at its real
  path, and together they have at most 32 MiB.
\<close>

theorem terminal_inspection_confines_writes:
  assumes "captureAuthoringEffectScope sha fs0 taskRoot profile delegation allowed = Inr cap"
    and "assertAuthoringEffectScopeTerminal sha fs1 cap = Inr ()"
    and "proper_names fs0" and "proper_names fs1"
  shows "(\<forall>p. reaches fs1 taskRoot p \<longrightarrow>
      plain_path fs1 p \<and>
      (ignoredByWritableSubtree (cs_binding cap) p \<or> declared_output (cs_binding cap) p \<or>
       reaches fs0 taskRoot p \<and> entry_at sha fs1 (cs_binding cap) p = entry_at sha fs0 (cs_binding cap) p \<or>
       (\<exists>st. fs_lstat fs1 p = Inr st \<and> st_kind st = Kind_directory) \<and> allowedNewDirectory (cs_binding cap) p)) \<and>
    (\<forall>p x. reaches fs0 taskRoot p \<longrightarrow> entry_at sha fs0 (cs_binding cap) p = Some x \<longrightarrow>
      reaches fs1 taskRoot p \<and> entry_at sha fs1 (cs_binding cap) p = Some x) \<and>
    (\<forall>ps. eb_writable_scope (cs_binding cap) = Exact_output_files ps \<longrightarrow>
      sum_list (map (size_at fs1) ps) \<le> 32 * 1024 * 1024 \<and>
      (\<forall>p\<in>set ps. \<exists>st. fs_lstat fs1 p = Inr st \<and> fs_realpath fs1 p = Inr p \<and> st_kind st = Kind_regular \<and>
         st_nlink st = 1 \<and> st_size st \<le> 16 * 1024 * 1024))"
proof -
  let ?b = "cs_binding cap" and ?ini = "set (cs_initial_entries cap)"
  obtain b0 where b0: "captureTree sha fs0 b0 = Inr (cs_initial_entries cap)" "eb_task_root b0 = taskRoot"
    "eb_writable_scope b0 = eb_writable_scope ?b" and c: "eb_task_root ?b = taskRoot"
    using capture_Inr[OF assms(1)] by blast
  obtain cur where cur: "captureTree sha fs1 ?b = Inr cur" and drift: "entry_drift cap cur = Inr ()"
    and closure: "assertAuthoringWritableClosure fs1 ?b (Some True) = Inr ()"
    using assms(2) unfolding terminal_Inr by blast
  have eq0: "entry_at sha fs0 b0 p = entry_at sha fs0 ?b p" for p
    using b0 c by (intro entry_at_cong) simp_all
  note was = captureTree_set[OF b0(1), unfolded b0(2) eq0] and now = captureTree_set[OF cur, unfolded c]
  note drift' = entry_drift_Inr[OF captureTree_unique[OF b0(1) assms(3)] captureTree_unique[OF cur assms(4)] drift]
  have same: "p = q" if "reaches fs0 taskRoot p" "entry_at sha fs0 ?b p = Some x"
      "reaches fs1 taskRoot q" "entry_at sha fs1 ?b q = Some x" for p q x
    using that relativePath_inject[OF that(1,3) assms(3,4)] entry_at_path c by metis
  have seen: "x \<in> ?ini" if "reaches fs0 taskRoot p" "entry_at sha fs0 ?b p = Some x" for p x
  proof -
    have "covered sha fs0 b0 p ?ini" using was that(1) by blast
    then show ?thesis using that(2) eq0[of p] by (simp add: covered_def)
  qed
  have kept: "reaches fs1 taskRoot p \<and> entry_at sha fs1 ?b p = Some x"
    if p: "reaches fs0 taskRoot p" "entry_at sha fs0 ?b p = Some x" for p x
  proof -
    have "x \<in> set cur" using seen[OF p] drift' by blast
    then obtain q where "reaches fs1 taskRoot q" "entry_at sha fs1 ?b q = Some x" using now by blast
    with same[OF p] show ?thesis by blast
  qed
  have confined: "plain_path fs1 p \<and>
      (ignoredByWritableSubtree ?b p \<or> declared_output ?b p \<or>
       reaches fs0 taskRoot p \<and> entry_at sha fs1 ?b p = entry_at sha fs0 ?b p \<or>
       (\<exists>st. fs_lstat fs1 p = Inr st \<and> st_kind st = Kind_directory) \<and> allowedNewDirectory ?b p)"
    if p: "reaches fs1 taskRoot p" for p
  proof -
    have cov: "covered sha fs1 ?b p (set cur)" using now p by blast
    have "reaches fs0 taskRoot p \<and> entry_at sha fs1 ?b p = entry_at sha fs0 ?b p \<or>
       (\<exists>st. fs_lstat fs1 p = Inr st \<and> st_kind st = Kind_directory) \<and> allowedNewDirectory ?b p"
      if x: "x \<in> set cur" "entry_at sha fs1 ?b p = Some x" for x
    proof (cases "x \<in> ?ini")
      case True
      then obtain q where q: "reaches fs0 taskRoot q" "entry_at sha fs0 ?b q = Some x" using was by blast
      then have "q = p" using same p x(2) by blast
      with q x show ?thesis by simp
    next
      case False
      then have "is_Captured_directory x" "allowedNewDirectory ?b (absoluteEntryPath taskRoot x)"
        using drift' x(1) c by auto
      moreover have "absoluteEntryPath taskRoot x = p"
        using absoluteEntryPath_entry[of fs1 ?b p sha x] p assms(4) x(2) c by simp
      ultimately show ?thesis
        using entry_at_directory[OF x(2)] by simp
    qed
    with cov show ?thesis unfolding covered_def by (cases "entry_at sha fs1 ?b p") auto
  qed
  have outputs: "sum_list (map (size_at fs1) ps) \<le> 32 * 1024 * 1024 \<and>
      (\<forall>p\<in>set ps. \<exists>st. fs_lstat fs1 p = Inr st \<and> fs_realpath fs1 p = Inr p \<and> st_kind st = Kind_regular \<and>
         st_nlink st = 1 \<and> st_size st \<le> 16 * 1024 * 1024)"
    if scope: "eb_writable_scope ?b = Exact_output_files ps" for ps
  proof -
    obtain t where "inspect_outputs fs1 False ps 0 = Inr t"
      using closure scope by (auto simp: assertAuthoringWritableClosure_def)
    from inspect_outputs_required[OF this] show ?thesis by (cases ps) auto
  qed
  show ?thesis
    by (rule conjI, intro allI impI, rule confined, assumption, rule conjI, intro allI impI, rule kept,
        assumption, assumption, intro allI impI, rule outputs, assumption)
qed

text \<open>A task root with one input file, before and after a run that wrote its one declared output.\<close>

definition sample_view :: "bool \<Rightarrow> fs_view" where
  "sample_view written =
     (let file_stat = \<lparr>st_kind = Kind_regular, st_dev = 7, st_ino = 3, st_nlink = 1, st_size = 2, st_blocks = 8\<rparr>;
          out_stat = \<lparr>st_kind = Kind_regular, st_dev = 7, st_ino = 4, st_nlink = 1, st_size = 5, st_blocks = 8\<rparr>;
          dir_stat = \<lparr>st_kind = Kind_directory, st_dev = 7, st_ino = 2, st_nlink = 2, st_size = 9, st_blocks = 8\<rparr> in
      \<lparr>fs_lstat = (\<lambda>p. if p = ''/w'' then Inr dir_stat else if p = ''/w/a'' then Inr file_stat
         else if p = ''/w/o'' \<and> written then Inr out_stat else Inl (ErrnoError ENOENT)),
       fs_readdir = (\<lambda>p. if p = ''/w'' then Inr (if written then [''o'', ''a''] else [''a'']) else Inl (ErrnoError ENOENT)),
       fs_realpath = (\<lambda>p. if p = ''/w'' \<or> p = ''/w/a'' \<or> p = ''/w/o'' \<and> written then Inr p else Inl (ErrnoError ENOENT)),
       fs_open = (\<lambda>p. if p = ''/w/a'' then Inr \<lparr>op_before = file_stat, op_bytes = ''hi'', op_after = file_stat\<rparr>
         else Inl (ErrnoError ENOENT))\<rparr>)"

definition sample_scope :: "captured_scope result" where
  "sample_scope = captureAuthoringEffectScope (\<lambda>_. replicate 64 CHR ''0'') (sample_view False) ''/w''
     Task_root_authoring_v1 RD_disabled (Some (JArr [JStr ''/w/o'']))"

lemma sample_names: "proper_names (sample_view w)"
  by (auto simp: proper_names_def sample_view_def Let_def split: if_splits)


lemma sample_digits [simp]:
  "decimal_text 7 = ''7''" "decimal_text 2 = ''2''" "decimal_text 3 = ''3''"
  by (code_simp, code_simp, code_simp)

lemma sample_lstat [simp]:
  "is_within ''/w'' ''/w/o''" 
  "fs_lstat (sample_view w) ''/w'' = Inr \<lparr>st_kind = Kind_directory, st_dev = 7, st_ino = 2, st_nlink = 2, st_size = 9, st_blocks = 8\<rparr>"
  "fs_lstat (sample_view w) ''/w/a'' = Inr \<lparr>st_kind = Kind_regular, st_dev = 7, st_ino = 3, st_nlink = 1, st_size = 2, st_blocks = 8\<rparr>"
  "fs_lstat (sample_view False) ''/w/o'' = Inl (ErrnoError ENOENT)"
  "fs_lstat (sample_view True) ''/w/o'' = Inr \<lparr>st_kind = Kind_regular, st_dev = 7, st_ino = 4, st_nlink = 1, st_size = 5, st_blocks = 8\<rparr>"
  "fs_readdir (sample_view w) ''/w'' = Inr (if w then [''o'', ''a''] else [''a''])"
  "fs_realpath (sample_view w) ''/w'' = Inr ''/w''"
  "fs_realpath (sample_view w) ''/w/a'' = Inr ''/w/a''"
  "fs_realpath (sample_view True) ''/w/o'' = Inr ''/w/o''"
  "fs_open (sample_view w) ''/w/a'' = Inr \<lparr>op_before = \<lparr>st_kind = Kind_regular, st_dev = 7, st_ino = 3, st_nlink = 1, st_size = 2, st_blocks = 8\<rparr>, op_bytes = ''hi'', op_after = \<lparr>st_kind = Kind_regular, st_dev = 7, st_ino = 3, st_nlink = 1, st_size = 2, st_blocks = 8\<rparr>\<rparr>"
  by (simp_all add: sample_view_def is_within_def starts_with_def Let_def)

lemma sample_path [simp]: "path_resolve ''/w'' = ''/w''" "path_resolve ''/w/o'' = ''/w/o''" "path_dirname ''/w/o'' = ''/w''"
  by (simp_all add: path_resolve_def path_dirname_def join_segments_def)

lemma sample_tree:
  assumes "eb_task_root b = ''/w''" and "eb_writable_scope b = Exact_output_files [''/w/o'']"
  shows "captureTree (\<lambda>_. replicate 64 CHR ''0'') (sample_view w) b =
    Inr [Captured_directory ''.'' ''7'' ''2'', Captured_file ''a'' 2 (replicate 64 CHR ''0'') ''7'' ''3'']"
proof -
  obtain n where n: "max_tree_entries = Suc n" by (simp add: max_tree_entries_def)
  have le: "\<not> max_tree_entries < Suc 0" "\<not> max_tree_entries < 2" "\<not> max_tree_entries < 3"
    by (simp_all add: max_tree_entries_def)
  show ?thesis
    using assms le unfolding captureTree_def n
    by (cases w)
      (simp_all add: step_into_def n Let_def visit_file_def ignoredByWritableSubtree_def
       declared_output_def captureFile_def materially_sparse_def relativePath_def path_join_def
       utf8_bytes_def)
qed

lemma sample_capture:
  "sample_scope = Inr \<lparr>cs_binding = \<lparr>eb_effect_profile = Task_root_authoring_v1, eb_task_root = ''/w'',
       eb_task_root_device = ''7'', eb_task_root_inode = ''2'', eb_immutable_tree_sha256 = replicate 64 CHR ''0'',
       eb_writable_scope = Exact_output_files [''/w/o'']\<rparr>,
     cs_initial_entries = [Captured_directory ''.'' ''7'' ''2'', Captured_file ''a'' 2 (replicate 64 CHR ''0'') ''7'' ''3'']\<rparr>"
proof -
  have "normalizeAllowedOutputPaths (Some (JArr [JStr ''/w/o''])) ''/w'' (Some Task_root_authoring_v1) = Inr (Some [''/w/o''])"
    by (simp add: normalizeAllowedOutputPaths_def max_allowed_output_paths_def is_absolute_def)
  then show ?thesis
    by (simp add: sample_scope_def captureAuthoringEffectScope_def assertCanonicalTaskRoot_def is_absolute_def
      lstat_optional_def is_enoent_def nearestExistingPath_def nearest_existing.simps writableScope_def
      assertBoundedStateRootAbsent_def sample_tree Let_def immutableTreeSha256_def)
qed


theorem terminal_inspection_confines_writes_witness:
  "\<exists>cap. sample_scope = Inr cap \<and> declared_output (cs_binding cap) ''/w/o'' \<and>
     size_at (sample_view True) ''/w/o'' \<le> 32 * 1024 * 1024 \<and>
     entry_at (\<lambda>_. replicate 64 CHR ''0'') (sample_view True) (cs_binding cap) ''/w/a'' =
       Some (Captured_file ''a'' 2 (replicate 64 CHR ''0'') ''7'' ''3'')"
proof -
  let ?sha = "\<lambda>_::string. replicate 64 CHR ''0''"
  obtain cap where cap: "sample_scope = Inr cap"
    and b: "eb_task_root (cs_binding cap) = ''/w''" "eb_writable_scope (cs_binding cap) = Exact_output_files [''/w/o'']"
    "eb_effect_profile (cs_binding cap) = Task_root_authoring_v1" "eb_task_root_device (cs_binding cap) = ''7''"
    "eb_task_root_inode (cs_binding cap) = ''2''" "eb_immutable_tree_sha256 (cs_binding cap) = replicate 64 CHR ''0''"
    and ini: "cs_initial_entries cap = [Captured_directory ''.'' ''7'' ''2'', Captured_file ''a'' 2 (replicate 64 CHR ''0'') ''7'' ''3'']"
    using sample_capture by simp
  have tree: "captureTree ?sha (sample_view w) (cs_binding cap) = Inr (cs_initial_entries cap)" for w
    using sample_tree[OF b(1,2)] ini by simp
  have canonical: "assertCanonicalTaskRoot (sample_view True) ''/w'' = Inr ()"
    by (simp add: assertCanonicalTaskRoot_def is_absolute_def)
  have drift: "entry_drift cap (cs_initial_entries cap) = Inr ()"
    by (simp add: entry_drift_def Let_def ini by_path_def exactEntry_iff)
  have binding: "assertAuthoringEffectScopeBinding (binding_json (cs_binding cap)) = Inr ()"
    by (simp add: assertAuthoringEffectScopeBinding_def binding_json_def b scope_json_def hasExactOwnKeys_def
        binding_keys_def is_object_def jkeys_def binding_profile_def effect_profiles_def
        text_field_def digits_def Let_def is_absolute_def isEffectScopedAuthoringProfile_def
        normalizeAllowedOutputPaths_def max_allowed_output_paths_def list_all_iff is_digit_def hex_string_def is_hex_lower_def)
  have closure: "assertAuthoringWritableClosure (sample_view True) (cs_binding cap) (Some True) = Inr ()"
    by (simp add: assertAuthoringWritableClosure_def binding b inspectFile_def assertBoundedWritableFileStat_def
        materially_sparse_def)
  have terminal: "assertAuthoringEffectScopeTerminal ?sha (sample_view True) cap = Inr ()"
    using canonical tree drift closure b(1) by (simp add: terminal_Inr)
  note confined = terminal_inspection_confines_writes[OF cap[unfolded sample_scope_def] terminal sample_names sample_names]
  have reach: "reaches (sample_view False) ''/w'' ''/w/a''"
    using reaches_child[OF reaches_self[of "sample_view False" "''/w''"], of _ "[''a'']" "''a''"] by (simp add: path_join_def)
  have entry: "entry_at ?sha (sample_view False) (cs_binding cap) ''/w/a'' = Some (Captured_file ''a'' 2 (replicate 64 CHR ''0'') ''7'' ''3'')"
    by (simp add: entry_at_def b ignoredByWritableSubtree_def declared_output_def captureFile_def Let_def
        materially_sparse_def relativePath_def)
  have "sum_list (map (size_at (sample_view True)) [''/w/o'']) \<le> 32 * 1024 * 1024" using confined b(2) by blast
  moreover have "entry_at ?sha (sample_view True) (cs_binding cap) ''/w/a'' = Some (Captured_file ''a'' 2 (replicate 64 CHR ''0'') ''7'' ''3'')"
    using confined reach entry by blast
  ultimately show ?thesis using cap b(2) by (auto simp: declared_output_def)
qed


section \<open>The fuel is never used up\<close>

lemma step_into_traversed:
  "step_into sha fs b c w = Inr (w', r) \<Longrightarrow> tw_traversed w' = Suc (tw_traversed w) \<and> tw_traversed w' \<le> max_tree_entries"
  by (auto simp: step_into_def visit_file_def failInvalid_def Let_def split: if_splits sum.splits)

lemma visit_traversed:
  "visit n sha fs b c w = Inr w' \<Longrightarrow> tw_traversed w \<le> tw_traversed w' \<and> tw_traversed w' \<le> max_tree_entries"
  "visit_all n sha fs b cs w = Inr w' \<Longrightarrow> tw_traversed w \<le> max_tree_entries \<Longrightarrow>
   tw_traversed w \<le> tw_traversed w' \<and> tw_traversed w' \<le> max_tree_entries"
proof (induction n sha fs b c w and n sha fs b cs w arbitrary: w' and w' rule: visit_visit_all.induct)
  case (2 n sha fs b c w)
  then show ?case by (fastforce split: sum.splits option.splits prod.splits dest: step_into_traversed)
next
  case (4 n sha fs b c cs w)
  then show ?case by (fastforce split: sum.splits)
qed (auto simp: out_of_fuel_def)

lemma visit_fuel:
  "max_tree_entries < n + tw_traversed w \<Longrightarrow> tw_traversed w \<le> max_tree_entries \<Longrightarrow>
   visit (n + k) sha fs b c w = visit n sha fs b c w"
  "max_tree_entries < n + tw_traversed w \<Longrightarrow> tw_traversed w \<le> max_tree_entries \<Longrightarrow>
   visit_all (n + k) sha fs b cs w = visit_all n sha fs b cs w"
proof (induction n sha fs b c w and n sha fs b cs w rule: visit_visit_all.induct)
  case (2 n sha fs b c w)
  show ?case
  proof (cases "step_into sha fs b c w")
    case (Inr r)
    obtain v t where r: "r = (v, t)" by (cases r)
    with Inr step_into_traversed have "tw_traversed v = Suc (tw_traversed w)" "tw_traversed v \<le> max_tree_entries" by blast+
    with 2 Inr r show ?thesis by (cases t) simp_all
  qed simp
next
  case (4 n sha fs b c cs w)
  show ?case
  proof (cases "visit n sha fs b c w")
    case (Inr w')
    with visit_traversed(1) have "tw_traversed w \<le> tw_traversed w'" "tw_traversed w' \<le> max_tree_entries" by blast+
    with 4 Inr show ?thesis by simp
  qed (use 4 in simp)
qed simp_all

text \<open>So the bound on the depth in \<open>captureTree\<close> is no bound: any larger one gives the same result.\<close>

lemma captureTree_fuel:
  "captureTree sha fs b =
     map_sum id (\<lambda>w. sort_key (\<lambda>x. concat (map utf8_bytes (entry_path x))) (rev (tw_entries w)))
       (visit (Suc max_tree_entries + k) sha fs b (eb_task_root b)
          \<lparr>tw_traversed = 0, tw_files = 0, tw_bytes = 0, tw_entries = []\<rparr>)"
proof -
  have "visit (Suc max_tree_entries + k) sha fs b (eb_task_root b)
      \<lparr>tw_traversed = 0, tw_files = 0, tw_bytes = 0, tw_entries = []\<rparr> =
    visit (Suc max_tree_entries) sha fs b (eb_task_root b)
      \<lparr>tw_traversed = 0, tw_files = 0, tw_bytes = 0, tw_entries = []\<rparr>"
    by (rule visit_fuel(1)) simp_all
  then show ?thesis by (simp only: captureTree_def)
qed

end
