(* ===== verification/Json_Objects.thy ===== *)
theory Json_Objects
  imports Terminal_Projection Effect_Scope
begin

text \<open>
  What the theories on run records share: object spreads and field tests as the source writes them
  on JSON views, and the comparison of canonical texts. The language's \<open>JSON\<close> number format, \<open>Date\<close>
  parser and SHA-256 are the fields of one record of the runtime.
\<close>

record js_runtime =
  rt_num :: "rat \<Rightarrow> string"
  rt_sha256 :: "string \<Rightarrow> string"
  rt_date :: "string \<Rightarrow> int option"
  rt_json_parse :: "string \<Rightarrow> json option"

section \<open>Objects\<close>

text \<open>\<open>{...a, ...b}\<close>\<close>

definition spread_fields :: "(string \<times> json) list \<Rightarrow> (string \<times> json) list \<Rightarrow> (string \<times> json) list" where
  "spread_fields a b =
     map (\<lambda>(k, v). (k, case map_of b k of Some v' \<Rightarrow> v' | None \<Rightarrow> v)) a @ filter (\<lambda>(k, _). map_of a k = None) b"

definition fields_of :: "json \<Rightarrow> (string \<times> json) list" where
  "fields_of v = (case v of JObj kvs \<Rightarrow> kvs | _ \<Rightarrow> [])"

definition spread :: "json \<Rightarrow> json \<Rightarrow> json" where
  "spread a b = JObj (spread_fields (fields_of a) (fields_of b))"

text \<open>\<open>{...a, k: undefined}\<close>, as far as reads and \<open>JSON.stringify\<close> can tell.\<close>

definition without :: "string list \<Rightarrow> json \<Rightarrow> json" where
  "without ks a = JObj (filter (\<lambda>(k, _). k \<notin> set ks) (fields_of a))"

text \<open>\<open>...(x ? { k: x } : {})\<close>\<close>

definition opt_field :: "string \<Rightarrow> json option \<Rightarrow> (string \<times> json) list" where
  "opt_field k x = (case x of None \<Rightarrow> [] | Some v \<Rightarrow> [(k, v)])"

lemma jget_fields: "jget v k = map_of (fields_of v) k"
  by (cases v) (simp_all add: fields_of_def)

lemma fields_of_JObj [simp]: "fields_of (JObj kvs) = kvs"
  by (simp add: fields_of_def)

lemma map_of_update_values:
  "map_of (map (\<lambda>(k, v). (k, f k v)) a) k = map_option (f k) (map_of a k)"
  by (induction a) auto

lemma map_of_filter_keys: "map_of (filter (\<lambda>(k, _). P k) a) k = (if P k then map_of a k else None)"
  by (induction a) auto

lemma jget_spread [simp]: "jget (spread a b) k = (case jget b k of Some v \<Rightarrow> Some v | None \<Rightarrow> jget a k)"
  by (auto simp: spread_def spread_fields_def jget_fields map_add_def map_of_update_values map_of_filter_keys
      split: option.splits)

lemma jget_without [simp]: "jget (without ks a) k = (if k \<in> set ks then None else jget a k)"
  by (simp add: without_def jget_fields map_of_filter_keys)

lemma is_object_spread [simp]: "is_object (spread a b)"
  by (simp add: is_object_def spread_def)

lemma is_object_without [simp]: "is_object (without ks a)"
  by (simp add: is_object_def without_def)

lemma opt_field_simps [simp]: "opt_field k None = []" "opt_field k (Some v) = [(k, v)]"
  by (simp_all add: opt_field_def)

section \<open>Tests on values\<close>

definition nonempty_string :: "json option \<Rightarrow> bool" where
  "nonempty_string v \<longleftrightarrow> (case v of Some (JStr s) \<Rightarrow> \<not> blank s | _ \<Rightarrow> False)"

definition is_bool :: "json option \<Rightarrow> bool" where
  "is_bool v \<longleftrightarrow> (case v of Some (JBool _) \<Rightarrow> True | _ \<Rightarrow> False)"

definition nonneg_number :: "json option \<Rightarrow> bool" where
  "nonneg_number v \<longleftrightarrow> (case v of Some (JNum x) \<Rightarrow> 0 \<le> x | _ \<Rightarrow> False)"

definition safe_integer :: "json option \<Rightarrow> bool" where
  "safe_integer v \<longleftrightarrow> (case v of Some (JNum x) \<Rightarrow> js_is_safe_integer x | _ \<Rightarrow> False)"

definition array_of :: "json option \<Rightarrow> json list option" where
  "array_of v = (case v of Some (JArr vs) \<Rightarrow> Some vs | _ \<Rightarrow> None)"

definition object_of :: "json option \<Rightarrow> json option" where
  "object_of v = (case v of Some (JObj kvs) \<Rightarrow> Some (JObj kvs) | _ \<Rightarrow> None)"

definition text_of :: "json option \<Rightarrow> string option" where
  "text_of v = (case v of Some (JStr s) \<Rightarrow> Some s | _ \<Rightarrow> None)"

definition sha_field :: "json option \<Rightarrow> bool" where
  "sha_field v \<longleftrightarrow> (case v of Some (JStr s) \<Rightarrow> sha256_hex s | _ \<Rightarrow> False)"

lemma text_of_Some [simp]: "text_of v = Some s \<longleftrightarrow> v = Some (JStr s)"
  by (auto simp: text_of_def split: option.splits json.splits)

lemma array_of_Some [simp]: "array_of v = Some vs \<longleftrightarrow> v = Some (JArr vs)"
  by (auto simp: array_of_def split: option.splits json.splits)

lemma array_of_simps [simp]: "array_of (Some (JArr vs)) = Some vs"
  by (simp add: array_of_def)

lemma text_of_simps [simp]: "text_of (Some (JStr s)) = Some s" "text_of None = None"
  by (simp_all add: text_of_def)

lemma nonempty_string_simps [simp]:
  "nonempty_string (Some (JStr s)) \<longleftrightarrow> \<not> blank s" "\<not> nonempty_string None" "\<not> nonempty_string (Some JNull)"
  by (simp_all add: nonempty_string_def)

lemma nonempty_stringD: "nonempty_string v \<Longrightarrow> \<exists>s. v = Some (JStr s) \<and> \<not> blank s"
  by (auto simp: nonempty_string_def split: option.splits json.splits)

section \<open>Equality of canonical texts\<close>

text \<open>\<open>sameCanonicalOwnerJson\<close>: the canonical text of \<open>undefined\<close> is an error, which compares as
  different.\<close>

definition sameCanonicalOwnerJson :: "(rat \<Rightarrow> string) \<Rightarrow> json option \<Rightarrow> json option \<Rightarrow> bool" where
  "sameCanonicalOwnerJson num l r \<longleftrightarrow>
     (case (l, r) of (Some a, Some b) \<Rightarrow> canonicalJson num a = canonicalJson num b | _ \<Rightarrow> False)"

lemma same_canonical_refl [simp]: "sameCanonicalOwnerJson num (Some a) (Some a)"
  by (simp add: sameCanonicalOwnerJson_def)

lemma same_canonical_sym: "sameCanonicalOwnerJson num a b \<Longrightarrow> sameCanonicalOwnerJson num b a"
  by (auto simp: sameCanonicalOwnerJson_def split: option.splits)

lemma same_canonical_trans:
  "sameCanonicalOwnerJson num a b \<Longrightarrow> sameCanonicalOwnerJson num b c \<Longrightarrow> sameCanonicalOwnerJson num a c"
  by (auto simp: sameCanonicalOwnerJson_def split: option.splits)

lemma same_canonical_defined: "sameCanonicalOwnerJson num a b \<Longrightarrow> a \<noteq> None \<and> b \<noteq> None"
  by (auto simp: sameCanonicalOwnerJson_def split: option.splits)

end
