(* ===== verification/Tool_Profile.thy ===== *)
theory Tool_Profile
  imports Json_Objects
begin

text \<open>
  Effect profiles and activation receipts, \<open>src/toolProfile.ts\<close>: which tools each profile activates,
  the receipts that a child issues before its prompt, and their validation by the owner. A receipt is
  the JSON value that travels between the processes; the session's tool registry (a third-party
  object) is the list of registered names and a function from the names that are set active to the
  names that are active afterwards.
\<close>

section \<open>Profiles and their tools\<close>

definition required_web_tools :: "string list" where
  "required_web_tools = [''web_search'', ''web_read'']"

definition task_root_read_only_tools :: "string list" where
  "task_root_read_only_tools = [''read'', ''grep'', ''find'', ''ls'']"

definition effectProfileToolNames :: "effect_profile \<Rightarrow> string list" where
  "effectProfileToolNames p =
     (case p of
        Workspace_read_only \<Rightarrow> [''read'', ''grep'', ''find'', ''ls'', ''web_search'', ''web_read'', ''request_input'']
      | Task_root_read_only_v1 \<Rightarrow> task_root_read_only_tools
      | Task_root_authoring_v1 \<Rightarrow> [''read'', ''write'']
      | Skill_creator_authoring_v1 \<Rightarrow> [''read'', ''grep'', ''find'', ''ls'', ''write'', ''edit'']
      | Researcher_bounded_v1 \<Rightarrow>
          [''read'', ''grep'', ''find'', ''ls'', ''write'', ''edit'', ''web_search'', ''web_read'', ''researchctl'']
      | Assumption_audit_bounded_v1 \<Rightarrow>
          [''read'', ''grep'', ''find'', ''ls'', ''write'', ''edit'', ''web_search'', ''web_read'', ''aj_switchboard''])"

definition isBoundedEffectProfile :: "effect_profile option \<Rightarrow> bool" where
  "isBoundedEffectProfile p \<longleftrightarrow> p = Some Researcher_bounded_v1 \<or> p = Some Assumption_audit_bounded_v1"

definition boundedEffectProfileSkill :: "effect_profile \<Rightarrow> string option" where
  "boundedEffectProfileSkill p =
     (if p = Researcher_bounded_v1 then Some ''researcher''
      else if p = Assumption_audit_bounded_v1 then Some ''assumption-judge''
      else None)"

definition controllerToolForEffectProfile :: "effect_profile \<Rightarrow> string option" where
  "controllerToolForEffectProfile p =
     (if p = Researcher_bounded_v1 then Some ''researchctl''
      else if p = Assumption_audit_bounded_v1 then Some ''aj_switchboard''
      else None)"

definition effectProfileBindingNames :: "effect_profile \<Rightarrow> string list" where
  "effectProfileBindingNames p =
     (case p of
        Workspace_read_only \<Rightarrow> [''request_input'', ''web_read'', ''web_search'']
      | Task_root_read_only_v1 \<Rightarrow> task_root_read_only_tools
      | Researcher_bounded_v1 \<Rightarrow> [''web_read'', ''web_search'', ''researchctl'']
      | Assumption_audit_bounded_v1 \<Rightarrow> [''web_read'', ''web_search'', ''aj_switchboard'']
      | Skill_creator_authoring_v1 \<Rightarrow> []
      | Task_root_authoring_v1 \<Rightarrow> [])"

section \<open>Activation in a session\<close>

record tool_registry =
  reg_registered :: "string list"
  reg_activate :: "string list \<Rightarrow> string list"

text \<open>The result is the list of active tools; an error aborts the child before its prompt.\<close>

definition activateAllRegisteredTools :: "tool_registry \<Rightarrow> recursive_delegation \<Rightarrow> string list result" where
  "activateAllRegisteredTools s d =
     (let names = (if d = RD_enabled then reg_registered s
                   else filter (\<lambda>n. n \<noteq> ''delegate'' \<and> n \<noteq> ''rejoin'') (reg_registered s));
          active = reg_activate s names;
          missing = filter (\<lambda>n. n \<notin> set active) required_web_tools in
      if missing \<noteq> [] then Inl (PlainError (''required Pi web search tools unavailable: '' @ join_texts '', '' missing @
        ''; install/configure the Pi web search extension before running Subagent007''))
      else if d = RD_enabled \<and> (''delegate'' \<notin> set active \<or> ''rejoin'' \<notin> set active)
      then Inl (PlainError ''recursive delegation was enabled but its native tools are unavailable'')
      else if d = RD_disabled \<and> (''delegate'' \<in> set active \<or> ''rejoin'' \<in> set active)
      then Inl (PlainError ''recursive delegation was disabled but its native tools remained active'')
      else Inr active)"

definition activateEffectProfileTools :: "tool_registry \<Rightarrow> effect_profile \<Rightarrow> string list result" where
  "activateEffectProfileTools s p =
     (let expected = effectProfileToolNames p;
          unavailable = filter (\<lambda>n. n \<notin> set (reg_registered s)) expected in
      if unavailable \<noteq> []
      then Inl (PlainError (effect_profile_name p @ '' tools unavailable: '' @ join_texts '', '' unavailable))
      else
        (let active = reg_activate s expected in
         if length active \<noteq> length expected \<or> \<not> list_all2 (\<lambda>a b. a = b) active expected
         then Inl (PlainError (effect_profile_name p @ '' activation mismatch: expected '' @ join_texts '', '' expected @
           ''; got '' @ join_texts '', '' active))
         else Inr active))"

section \<open>Tool bindings\<close>

text \<open>An \<open>ActivationToolBinding\<close> as a JSON object, with its keys in the order they are written.\<close>

definition tool_binding :: "string \<Rightarrow> string \<Rightarrow> string \<Rightarrow> json" where
  "tool_binding tool provider implementation =
     JObj [(''tool_name'', JStr tool), (''provider_id'', JStr provider), (''implementation_sha256'', JStr implementation)]"

definition task_root_provider_id :: string where
  "task_root_provider_id = ''subagent007-pi/task-root-path-guard-v1''"

definition taskRootReadOnlyActivationBindings :: "string \<Rightarrow> json list" where
  "taskRootReadOnlyActivationBindings implementation =
     map (\<lambda>t. tool_binding t task_root_provider_id implementation) task_root_read_only_tools"

record web_provider =
  wp_provider_id :: string
  wp_implementation_sha256 :: string

definition boundedControllerActivationBindings ::
  "effect_profile \<Rightarrow> string \<Rightarrow> web_provider \<Rightarrow> string \<Rightarrow> json list result" where
  "boundedControllerActivationBindings p skill w controller_sha =
     (case (boundedEffectProfileSkill p, controllerToolForEffectProfile p) of
        (Some expected, Some tool) \<Rightarrow>
          if skill \<noteq> expected
          then Inl (PlainError (effect_profile_name p @ '' requires canonical skill '' @ expected))
          else Inr [tool_binding ''web_read'' (wp_provider_id w) (wp_implementation_sha256 w),
                    tool_binding ''web_search'' (wp_provider_id w) (wp_implementation_sha256 w),
                    tool_binding tool (''subagent007-pi/'' @ tool) controller_sha]
      | _ \<Rightarrow> Inl (PlainError (effect_profile_name p @ '' requires canonical skill unknown'')))"

text \<open>\<open>JSON.stringify(expected) !== JSON.stringify(derived)\<close>: both assertions on tool bindings.\<close>

definition assertExactBoundedActivationToolBindings ::
  "(rat \<Rightarrow> string) \<Rightarrow> json list option \<Rightarrow> json list \<Rightarrow> unit result" where
  "assertExactBoundedActivationToolBindings num expected derived =
     (case expected of
        None \<Rightarrow> Inl (PlainError ''bounded controller or provider binding differs from parent preflight'')
      | Some e \<Rightarrow>
          if json_text num (JArr e) \<noteq> json_text num (JArr derived)
          then Inl (PlainError ''bounded controller or provider binding differs from parent preflight'')
          else Inr ())"

definition assertExactTaskRootReadOnlyActivationToolBindings ::
  "(rat \<Rightarrow> string) \<Rightarrow> json list option \<Rightarrow> json list \<Rightarrow> unit result" where
  "assertExactTaskRootReadOnlyActivationToolBindings num expected derived =
     (case expected of
        None \<Rightarrow> Inl (PlainError ''task-root read-only guard binding differs from parent preflight'')
      | Some e \<Rightarrow>
          if json_text num (JArr e) \<noteq> json_text num (JArr derived)
          then Inl (PlainError ''task-root read-only guard binding differs from parent preflight'')
          else Inr ())"

definition explicitWebProviderExtensionPaths :: "effect_profile option \<Rightarrow> string option \<Rightarrow> string list" where
  "explicitWebProviderExtensionPaths p extension =
     (if p = Some Workspace_read_only \<or> isBoundedEffectProfile p
      then (case extension of Some e \<Rightarrow> [e] | None \<Rightarrow> []) else [])"

definition canonicalToolsetDigest :: "js_runtime \<Rightarrow> effect_profile \<Rightarrow> json list \<Rightarrow> json list \<Rightarrow> string" where
  "canonicalToolsetDigest rt p active bindings =
     rt_sha256 rt (json_text (rt_num rt)
       (JObj [(''profile'', JStr (effect_profile_name p)), (''active_tool_names'', JArr active),
              (''tool_bindings'', JArr bindings)]))"

section \<open>Validation of a receipt\<close>

record receipt_expectation =
  re_profile :: "effect_profile option"
  re_skill_binding :: json
  re_expected_skill_sha256 :: "string option"
  re_tool_bindings :: "json list option"
  re_effect_scope_binding :: "json option"

text \<open>The keys of a receipt, by profile and version.\<close>

definition receipt_keys :: "bool \<Rightarrow> bool \<Rightarrow> bool \<Rightarrow> string list" where
  "receipt_keys scope research legacy =
     [''schema_version'', ''confirmed_before_prompt'', ''requested_effect_profile'', ''resolved_effect_profile'',
      ''active_tool_names'', ''tool_bindings'', ''toolset_sha256'', ''skill_binding''] @
     (if scope then [''effect_scope_binding''] else []) @
     (if research then ''controller_state_discovery'' # (if legacy then [] else [''controller_protocol'']) else [])"

definition receipt_version :: "bool \<Rightarrow> bool \<Rightarrow> bool \<Rightarrow> rat" where
  "receipt_version scope research legacy =
     (if research then (if legacy then 3 else 4) else if scope then 2 else 1)"

definition bindable_tools :: "string list" where
  "bindable_tools =
     [''read'', ''grep'', ''find'', ''ls'', ''request_input'', ''web_read'', ''web_search'', ''researchctl'', ''aj_switchboard'']"

definition binding_shape_ok :: "json \<Rightarrow> bool" where
  "binding_shape_ok b \<longleftrightarrow>
     is_object b \<and> exactKeys b [''tool_name'', ''provider_id'', ''implementation_sha256''] \<and>
     (case jget b ''tool_name'' of Some (JStr t) \<Rightarrow> t \<in> set bindable_tools | _ \<Rightarrow> False) \<and>
     nonempty_string (jget b ''provider_id'') \<and> sha_field (jget b ''implementation_sha256'')"

text \<open>The identities of the providers that a profile requires.\<close>

definition providers_ok :: "(rat \<Rightarrow> string) \<Rightarrow> receipt_expectation \<Rightarrow> json list \<Rightarrow> bool" where
  "providers_ok num x bs \<longleftrightarrow>
     (re_profile x = Some Workspace_read_only \<longrightarrow>
        (case bs of
           [request, rd, search] \<Rightarrow>
             has_text request ''provider_id'' ''subagent007-pi/request_input'' \<and>
             jget rd ''provider_id'' = jget search ''provider_id'' \<and>
             jget rd ''implementation_sha256'' = jget search ''implementation_sha256''
         | _ \<Rightarrow> False)) \<and>
     (re_profile x = Some Task_root_read_only_v1 \<longrightarrow>
        list_all (\<lambda>b. has_text b ''provider_id'' task_root_provider_id) bs \<and>
        list_all (\<lambda>b. jget b ''implementation_sha256'' = jget (hd bs) ''implementation_sha256'') bs \<and>
        is_ok (assertExactTaskRootReadOnlyActivationToolBindings num (re_tool_bindings x) bs)) \<and>
     (isBoundedEffectProfile (re_profile x) \<longrightarrow>
        is_ok (assertExactBoundedActivationToolBindings num (re_tool_bindings x) bs))"

definition effect_scope_ok :: "(rat \<Rightarrow> string) \<Rightarrow> receipt_expectation \<Rightarrow> json \<Rightarrow> bool" where
  "effect_scope_ok num x r \<longleftrightarrow>
     (isEffectScopedAuthoringProfile (re_profile x) \<longrightarrow>
        (case (re_effect_scope_binding x, re_profile x) of
           (Some e, Some p) \<Rightarrow>
             is_ok (assertAuthoringEffectScopeBinding e) \<and>
             has_text e ''effect_profile'' (effect_profile_name p) \<and>
             map_option (canonicalJson num) (jget r ''effect_scope_binding'') = Some (canonicalJson num e)
         | _ \<Rightarrow> False))"

definition skill_binding_ok :: "receipt_expectation \<Rightarrow> json \<Rightarrow> bool" where
  "skill_binding_ok x r \<longleftrightarrow>
     (if re_skill_binding x = JNull then jget r ''skill_binding'' = Some JNull
      else
        (case jget r ''skill_binding'' of
           Some b \<Rightarrow>
             is_object b \<and> exactKeys b [''name'', ''path'', ''content_sha256'', ''expected_content_sha256''] \<and>
             jget b ''name'' = jget (re_skill_binding x) ''name'' \<and>
             jget b ''path'' = jget (re_skill_binding x) ''path'' \<and>
             jget b ''content_sha256'' = jget (re_skill_binding x) ''content_sha256'' \<and>
             jget b ''expected_content_sha256'' =
               Some (case re_expected_skill_sha256 x of Some s \<Rightarrow> JStr s | None \<Rightarrow> JNull)
         | None \<Rightarrow> False))"

definition profile_json :: "effect_profile option \<Rightarrow> json" where
  "profile_json p = (case p of Some q \<Rightarrow> JStr (effect_profile_name q) | None \<Rightarrow> JNull)"

text \<open>The tool bindings of a receipt: shape, names in order, providers, digest of the toolset.\<close>

definition bindings_valid :: "js_runtime \<Rightarrow> receipt_expectation \<Rightarrow> json \<Rightarrow> json list \<Rightarrow> bool" where
  "bindings_valid rt x r bindings \<longleftrightarrow>
     list_all binding_shape_ok bindings \<and>
     map (\<lambda>b. jget b ''tool_name'') bindings =
       map (\<lambda>n. Some (JStr n)) (case re_profile x of Some p \<Rightarrow> effectProfileBindingNames p | None \<Rightarrow> []) \<and>
     providers_ok (rt_num rt) x bindings \<and>
     jget r ''toolset_sha256'' =
       Some (case re_profile x of
         Some p \<Rightarrow> JStr (canonicalToolsetDigest rt p (map JStr (effectProfileToolNames p)) bindings) | None \<Rightarrow> JNull)"

text \<open>\<open>validatedActivationReceiptVersion\<close>: every check that fails returns \<open>undefined\<close>, so the checks
  are one conjunction; the result is the receipt itself.\<close>

definition receipt_valid :: "js_runtime \<Rightarrow> receipt_expectation \<Rightarrow> bool \<Rightarrow> json \<Rightarrow> bool" where
  "receipt_valid rt x allowProjectedV3 r \<longleftrightarrow>
     (let scope = isEffectScopedAuthoringProfile (re_profile x);
          research = (re_profile x = Some Researcher_bounded_v1);
          legacy = (allowProjectedV3 \<and> research \<and> jget r ''schema_version'' = Some (JNum 3)) in
      scope = (re_effect_scope_binding x \<noteq> None) \<and>
      exactKeys r (receipt_keys scope research legacy) \<and>
      jget r ''schema_version'' = Some (JNum (receipt_version scope research legacy)) \<and>
      jget r ''confirmed_before_prompt'' = Some (JBool True) \<and>
      jget r ''requested_effect_profile'' = Some (profile_json (re_profile x)) \<and>
      jget r ''resolved_effect_profile'' = Some (profile_json (re_profile x)) \<and>
      jget r ''active_tool_names'' =
        Some (JArr (map JStr (case re_profile x of Some p \<Rightarrow> effectProfileToolNames p | None \<Rightarrow> []))) \<and>
      (case array_of (jget r ''tool_bindings'') of
         Some bindings \<Rightarrow> bindings_valid rt x r bindings | None \<Rightarrow> False) \<and>
      effect_scope_ok (rt_num rt) x r \<and>
      (research \<longrightarrow>
        has_text r ''controller_state_discovery'' ''researchctl_state_paths_v1'' \<and>
        (legacy \<or> has_text r ''controller_protocol'' ''researchctl_strict_v2'')) \<and>
      skill_binding_ok x r)"

definition validatedActivationReceiptVersion ::
  "js_runtime \<Rightarrow> json option \<Rightarrow> receipt_expectation \<Rightarrow> bool \<Rightarrow> json option" where
  "validatedActivationReceiptVersion rt value x allowProjectedV3 =
     (case object_of value of
        None \<Rightarrow> None
      | Some r \<Rightarrow> if receipt_valid rt x allowProjectedV3 r then Some r else None)"

definition validatedActivationReceipt :: "js_runtime \<Rightarrow> json option \<Rightarrow> receipt_expectation \<Rightarrow> json option" where
  "validatedActivationReceipt rt value x = validatedActivationReceiptVersion rt value x False"

definition validatedProjectedActivationReceipt ::
  "js_runtime \<Rightarrow> json option \<Rightarrow> effect_profile option \<Rightarrow> string option \<Rightarrow> json option" where
  "validatedProjectedActivationReceipt rt value p expected_sha =
     (case object_of value of
        None \<Rightarrow> None
      | Some r \<Rightarrow>
          let skill = (case jget r ''skill_binding'' of
                         Some JNull \<Rightarrow> Some JNull
                       | b \<Rightarrow> object_of b) in
          (case skill of
             None \<Rightarrow> None
           | Some binding \<Rightarrow>
               if expected_sha \<noteq> None \<and> binding = JNull then None
               else
                 validatedActivationReceiptVersion rt value
                   \<lparr>re_profile = p, re_skill_binding = binding, re_expected_skill_sha256 = expected_sha,
                    re_tool_bindings =
                      (if isBoundedEffectProfile p \<or> p = Some Task_root_read_only_v1
                       then array_of (jget r ''tool_bindings'') else None),
                    re_effect_scope_binding =
                      (if isEffectScopedAuthoringProfile p then object_of (jget r ''effect_scope_binding'') else None)\<rparr>
                   True))"

section \<open>Issuing a receipt\<close>

text \<open>The fields every receipt has, in the order they are written.\<close>

definition receipt_fields :: "js_runtime \<Rightarrow> effect_profile option \<Rightarrow> json list \<Rightarrow> json \<Rightarrow> (string \<times> json) list" where
  "receipt_fields rt p bindings skill =
     (let active = map JStr (case p of Some q \<Rightarrow> effectProfileToolNames q | None \<Rightarrow> []) in
      [(''confirmed_before_prompt'', JBool True), (''requested_effect_profile'', profile_json p),
       (''resolved_effect_profile'', profile_json p), (''active_tool_names'', JArr active),
       (''tool_bindings'', JArr bindings),
       (''toolset_sha256'', case p of Some q \<Rightarrow> JStr (canonicalToolsetDigest rt q active bindings) | None \<Rightarrow> JNull),
       (''skill_binding'', skill)])"

definition workspaceReadOnlyActivationReceipt :: "js_runtime \<Rightarrow> web_provider \<Rightarrow> string \<Rightarrow> json \<Rightarrow> json result" where
  "workspaceReadOnlyActivationReceipt rt w request_sha skill =
     (if \<not> sha256_hex request_sha \<or> \<not> sha256_hex (wp_implementation_sha256 w) \<or> blank (wp_provider_id w)
      then Inl (PlainError ''workspace_read_only provider identity or implementation digest is invalid'')
      else
        Inr (JObj ((''schema_version'', JNum 1) #
          receipt_fields rt (Some Workspace_read_only)
            [tool_binding ''request_input'' ''subagent007-pi/request_input'' request_sha,
             tool_binding ''web_read'' (wp_provider_id w) (wp_implementation_sha256 w),
             tool_binding ''web_search'' (wp_provider_id w) (wp_implementation_sha256 w)] skill)))"

definition taskRootReadOnlyV1ActivationReceipt :: "js_runtime \<Rightarrow> json \<Rightarrow> json list \<Rightarrow> json result" where
  "taskRootReadOnlyV1ActivationReceipt rt skill bindings =
     (if map (\<lambda>b. jget b ''tool_name'') bindings \<noteq> map (\<lambda>n. Some (JStr n)) task_root_read_only_tools \<or>
         \<not> list_all (\<lambda>b. has_text b ''provider_id'' task_root_provider_id \<and> sha_field (jget b ''implementation_sha256''))
           bindings
      then Inl (PlainError ''task_root_read_only_v1 guard binding is invalid'')
      else Inr (JObj ((''schema_version'', JNum 1) # receipt_fields rt (Some Task_root_read_only_v1) bindings skill)))"

definition skillCreatorAuthoringV1ActivationReceipt :: "js_runtime \<Rightarrow> json \<Rightarrow> json" where
  "skillCreatorAuthoringV1ActivationReceipt rt skill =
     JObj ((''schema_version'', JNum 1) # receipt_fields rt (Some Skill_creator_authoring_v1) [] skill)"

definition taskRootAuthoringV1ActivationReceipt :: "js_runtime \<Rightarrow> json \<Rightarrow> json \<Rightarrow> json" where
  "taskRootAuthoringV1ActivationReceipt rt skill scope =
     JObj ((''schema_version'', JNum 2) # receipt_fields rt (Some Task_root_authoring_v1) [] skill @
       [(''effect_scope_binding'', scope)])"

definition boundedAuthoringActivationReceipt ::
  "js_runtime \<Rightarrow> effect_profile \<Rightarrow> json \<Rightarrow> json list \<Rightarrow> json \<Rightarrow> json result" where
  "boundedAuthoringActivationReceipt rt p skill bindings scope =
     bind_result (assertAuthoringEffectScopeBinding scope) (\<lambda>_.
       if \<not> has_text scope ''effect_profile'' (effect_profile_name p)
       then Inl (PlainError ''bounded activation receipt effect scope does not match its profile'')
       else
         (let common = receipt_fields rt (Some p) bindings skill @ [(''effect_scope_binding'', scope)] in
          if p = Researcher_bounded_v1
          then Inr (JObj (common @ [(''schema_version'', JNum 4),
            (''controller_state_discovery'', JStr ''researchctl_state_paths_v1''),
            (''controller_protocol'', JStr ''researchctl_strict_v2'')]))
          else Inr (JObj (common @ [(''schema_version'', JNum 2)]))))"

definition skillOnlyActivationReceipt :: "js_runtime \<Rightarrow> json \<Rightarrow> json" where
  "skillOnlyActivationReceipt rt skill = JObj ((''schema_version'', JNum 1) # receipt_fields rt None [] skill)"

section \<open>What a validated receipt says\<close>

lemma exactKeys_mset: "mset (jkeys v) = mset ks \<Longrightarrow> exactKeys v ks"
  by (metis exactKeys_def mset_sort properties_for_sort sorted_sort)

lemma object_of_Some [simp]: "object_of v = Some r \<longleftrightarrow> v = Some r \<and> is_object r"
  by (auto simp: object_of_def is_object_def split: option.splits json.splits)

lemma object_of_None: "object_of v = None \<longleftrightarrow> (\<forall>r. v = Some r \<longrightarrow> \<not> is_object r)"
  by (auto simp: object_of_def is_object_def split: option.splits json.splits)

lemma validated_version_iff:
  "validatedActivationReceiptVersion rt value x allow = Some r \<longleftrightarrow>
     value = Some r \<and> is_object r \<and> receipt_valid rt x allow r"
  by (auto simp: validatedActivationReceiptVersion_def object_of_None split: option.splits if_splits)

text \<open>Profiles that may not change anything: no tool that writes, edits, runs or delegates.\<close>

definition mutating_tools :: "string list" where
  "mutating_tools = [''write'', ''edit'', ''bash'', ''delegate'', ''rejoin'', ''researchctl'', ''aj_switchboard'']"

lemma read_only_profile_tools:
  "p = Workspace_read_only \<or> p = Task_root_read_only_v1 \<Longrightarrow>
   set (effectProfileToolNames p) \<inter> set mutating_tools = {}"
  by (auto simp: effectProfileToolNames_def mutating_tools_def task_root_read_only_tools_def)

lemma no_profile_delegates: "''delegate'' \<notin> set (effectProfileToolNames p) \<and> ''bash'' \<notin> set (effectProfileToolNames p)"
  by (cases p) (simp_all add: effectProfileToolNames_def task_root_read_only_tools_def)

text \<open>
  C25: A confirmed activation receipt fixes the child's authority. Whatever the child reports, a
  receipt that the owner accepts for a profile names exactly that profile as requested and resolved,
  was confirmed before the prompt and lists exactly the profile's tools as the active ones, with the
  digest over these tools and the bound implementations; no profile's receipt can list a shell or
  delegation, and those of the read-only profiles list no tool that changes anything.
\<close>

theorem confirmed_receipt_fixes_authority:
  assumes "validatedActivationReceipt rt value x = Some r" and "re_profile x = Some p"
  shows "value = Some r \<and> has_text r ''requested_effect_profile'' (effect_profile_name p) \<and>
    has_text r ''resolved_effect_profile'' (effect_profile_name p) \<and>
    jget r ''confirmed_before_prompt'' = Some (JBool True) \<and>
    (\<exists>tools bindings. jget r ''active_tool_names'' = Some (JArr (map JStr tools)) \<and>
       tools = effectProfileToolNames p \<and> ''delegate'' \<notin> set tools \<and> ''bash'' \<notin> set tools \<and>
       (p = Workspace_read_only \<or> p = Task_root_read_only_v1 \<longrightarrow> set tools \<inter> set mutating_tools = {}) \<and>
       jget r ''tool_bindings'' = Some (JArr bindings) \<and>
       has_text r ''toolset_sha256'' (canonicalToolsetDigest rt p (map JStr tools) bindings))"
proof -
  have val: "value = Some r" and valid: "receipt_valid rt x False r"
    using assms(1) by (auto simp: validatedActivationReceipt_def validated_version_iff)
  from valid assms(2) obtain bindings where bindings: "jget r ''tool_bindings'' = Some (JArr bindings)"
    "bindings_valid rt x r bindings"
    by (auto simp: receipt_valid_def Let_def split: option.splits)
  show ?thesis
    using val valid bindings assms(2) no_profile_delegates[of p] read_only_profile_tools[of p]
    by (auto simp: receipt_valid_def Let_def bindings_valid_def has_text_def profile_json_def)
qed

text \<open>The receipt that a child with the given expectation issues.\<close>

definition issued_receipt :: "js_runtime \<Rightarrow> receipt_expectation \<Rightarrow> web_provider \<Rightarrow> string \<Rightarrow> json result" where
  "issued_receipt rt x w request_sha =
     (case re_profile x of
        None \<Rightarrow> Inr (skillOnlyActivationReceipt rt (re_skill_binding x))
      | Some p \<Rightarrow>
          (case p of
             Workspace_read_only \<Rightarrow> workspaceReadOnlyActivationReceipt rt w request_sha (re_skill_binding x)
           | Task_root_read_only_v1 \<Rightarrow>
               taskRootReadOnlyV1ActivationReceipt rt (re_skill_binding x) (nullish (re_tool_bindings x) [])
           | Task_root_authoring_v1 \<Rightarrow>
               Inr (taskRootAuthoringV1ActivationReceipt rt (re_skill_binding x)
                 (nullish (re_effect_scope_binding x) JNull))
           | Skill_creator_authoring_v1 \<Rightarrow> Inr (skillCreatorAuthoringV1ActivationReceipt rt (re_skill_binding x))
           | _ \<Rightarrow>
               boundedAuthoringActivationReceipt rt p (re_skill_binding x) (nullish (re_tool_bindings x) [])
                 (nullish (re_effect_scope_binding x) JNull)))"

text \<open>An expectation as the launcher builds it: a skill binding of the right shape, bindings only
  where the profile has them, a scope exactly for the scoped profiles.\<close>

definition expectation_ok :: "receipt_expectation \<Rightarrow> bool" where
  "expectation_ok x \<longleftrightarrow>
     (re_skill_binding x = JNull \<and> re_expected_skill_sha256 x = None \<or>
      is_object (re_skill_binding x) \<and>
      exactKeys (re_skill_binding x) [''name'', ''path'', ''content_sha256'', ''expected_content_sha256''] \<and>
      jget (re_skill_binding x) ''expected_content_sha256'' =
        Some (case re_expected_skill_sha256 x of Some s \<Rightarrow> JStr s | None \<Rightarrow> JNull)) \<and>
     (isEffectScopedAuthoringProfile (re_profile x) = (re_effect_scope_binding x \<noteq> None)) \<and>
     (case (re_profile x, re_effect_scope_binding x) of
        (Some p, Some e) \<Rightarrow> is_ok (assertAuthoringEffectScopeBinding e) \<and>
          has_text e ''effect_profile'' (effect_profile_name p) \<and> is_object e
      | _ \<Rightarrow> True) \<and>
     (isBoundedEffectProfile (re_profile x) \<longrightarrow>
        (case re_tool_bindings x of
           Some bs \<Rightarrow> list_all binding_shape_ok bs \<and>
             map (\<lambda>b. jget b ''tool_name'') bs =
               map (\<lambda>n. Some (JStr n)) (case re_profile x of Some p \<Rightarrow> effectProfileBindingNames p | None \<Rightarrow> [])
         | None \<Rightarrow> False)) \<and>
     (re_profile x = Some Task_root_read_only_v1 \<longrightarrow>
        (\<exists>sha. re_tool_bindings x = Some (taskRootReadOnlyActivationBindings sha)))"

lemma receipt_fields_get [simp]:
  "map_of (receipt_fields rt p bs sk) ''confirmed_before_prompt'' = Some (JBool True)"
  "map_of (receipt_fields rt p bs sk) ''requested_effect_profile'' = Some (profile_json p)"
  "map_of (receipt_fields rt p bs sk) ''resolved_effect_profile'' = Some (profile_json p)"
  "map_of (receipt_fields rt p bs sk) ''active_tool_names'' =
     Some (JArr (map JStr (case p of Some q \<Rightarrow> effectProfileToolNames q | None \<Rightarrow> [])))"
  "map_of (receipt_fields rt p bs sk) ''tool_bindings'' = Some (JArr bs)"
  "map_of (receipt_fields rt p bs sk) ''toolset_sha256'' =
     Some (case p of Some q \<Rightarrow> JStr (canonicalToolsetDigest rt q (map JStr (effectProfileToolNames q)) bs) | None \<Rightarrow> JNull)"
  "map_of (receipt_fields rt p bs sk) ''skill_binding'' = Some sk"
  "map_of (receipt_fields rt p bs sk) ''schema_version'' = None"
  "map_of (receipt_fields rt p bs sk) ''effect_scope_binding'' = None"
  "map_of (receipt_fields rt p bs sk) ''controller_state_discovery'' = None"
  "map_of (receipt_fields rt p bs sk) ''controller_protocol'' = None"
  by (simp_all add: receipt_fields_def Let_def split: option.split)

lemma receipt_fields_keys:
  "map fst (receipt_fields rt p bs sk) =
     [''confirmed_before_prompt'', ''requested_effect_profile'', ''resolved_effect_profile'', ''active_tool_names'',
      ''tool_bindings'', ''toolset_sha256'', ''skill_binding'']"
  by (simp add: receipt_fields_def Let_def)

lemma issued_keys:
  "exactKeys (JObj ((''schema_version'', v) # receipt_fields rt p bs sk)) (receipt_keys False False l)"
  "exactKeys (JObj ((''schema_version'', v) # receipt_fields rt p bs sk @ [(''effect_scope_binding'', e)]))
     (receipt_keys True False l)"
  "exactKeys (JObj (receipt_fields rt p bs sk @ [(''effect_scope_binding'', e), (''schema_version'', v)]))
     (receipt_keys True False l)"
  "exactKeys (JObj (receipt_fields rt p bs sk @ [(''effect_scope_binding'', e), (''schema_version'', v),
      (''controller_state_discovery'', d), (''controller_protocol'', c)])) (receipt_keys True True False)"
  by (rule exactKeys_mset, simp add: jkeys_def receipt_fields_keys receipt_keys_def add_mset_commute)+


lemma skill_binding_ok_own:
  "expectation_ok x \<Longrightarrow> jget r ''skill_binding'' = Some (re_skill_binding x) \<Longrightarrow> skill_binding_ok x r"
  by (auto simp: expectation_ok_def skill_binding_ok_def)

lemma blank_Cons: "blank (c # s) \<longleftrightarrow> js_space c \<and> blank s"
  by (auto simp: blank_def js_trim_def)

lemma not_blank_providers [simp]: "\<not> blank ''subagent007-pi/request_input''" "\<not> blank task_root_provider_id"
  by (simp_all add: blank_Cons js_space_def task_root_provider_id_def)

lemma tool_binding_shape:
  "t \<in> set bindable_tools \<Longrightarrow> \<not> blank pv \<Longrightarrow> sha256_hex h \<Longrightarrow> binding_shape_ok (tool_binding t pv h)"
  by (simp add: binding_shape_ok_def tool_binding_def is_object_def sha_field_def exactKeys_mset jkeys_def)

lemma tool_binding_get [simp]:
  "jget (tool_binding t pv h) ''tool_name'' = Some (JStr t)" "jget (tool_binding t pv h) ''provider_id'' = Some (JStr pv)"
  "jget (tool_binding t pv h) ''implementation_sha256'' = Some (JStr h)"
  by (simp_all add: tool_binding_def)

lemma scoped_profiles [simp]:
  "isEffectScopedAuthoringProfile (Some p) \<longleftrightarrow>
     p = Task_root_authoring_v1 \<or> p = Researcher_bounded_v1 \<or> p = Assumption_audit_bounded_v1"
  "\<not> isEffectScopedAuthoringProfile None"
  by (auto simp: isEffectScopedAuthoringProfile_def)

lemma assertExact_own [simp]:
  "is_ok (assertExactBoundedActivationToolBindings num (Some bs) bs)"
  "is_ok (assertExactTaskRootReadOnlyActivationToolBindings num (Some bs) bs)"
  by (simp_all add: assertExactBoundedActivationToolBindings_def assertExactTaskRootReadOnlyActivationToolBindings_def)

text \<open>The form of an issued receipt: the common fields, the version, for a scoped profile the scope, for
  the researcher the two controller fields.\<close>

lemma issued_bindings_valid:
  assumes "expectation_ok x" and "issued_receipt rt x w h = Inr r"
  shows "\<exists>bs. array_of (jget r ''tool_bindings'') = Some bs \<and> bindings_valid rt x r bs \<and>
    (isBoundedEffectProfile (re_profile x) \<or> re_profile x = Some Task_root_read_only_v1 \<longrightarrow> re_tool_bindings x = Some bs)"
proof (cases "re_profile x")
  case None
  with assms show ?thesis
    by (auto simp: issued_receipt_def skillOnlyActivationReceipt_def bindings_valid_def providers_ok_def
        isBoundedEffectProfile_def array_of_def)
next
  case (Some p)
  show ?thesis
  proof (cases p)
    case Workspace_read_only
    with Some assms show ?thesis
      by (auto simp: issued_receipt_def workspaceReadOnlyActivationReceipt_def bindings_valid_def providers_ok_def
          isBoundedEffectProfile_def array_of_def effectProfileBindingNames_def tool_binding_shape bindable_tools_def
          has_text_def split: if_splits)
  next
    case Task_root_read_only_v1
    with Some assms show ?thesis
      by (auto simp: issued_receipt_def taskRootReadOnlyV1ActivationReceipt_def bindings_valid_def providers_ok_def
          isBoundedEffectProfile_def array_of_def effectProfileBindingNames_def expectation_ok_def
          taskRootReadOnlyActivationBindings_def task_root_read_only_tools_def tool_binding_shape bindable_tools_def
          has_text_def sha_field_def split: if_splits)
  next
    case Task_root_authoring_v1
    with Some assms show ?thesis
      by (auto simp: issued_receipt_def taskRootAuthoringV1ActivationReceipt_def bindings_valid_def providers_ok_def
          isBoundedEffectProfile_def array_of_def effectProfileBindingNames_def)
  next
    case Skill_creator_authoring_v1
    with Some assms show ?thesis
      by (auto simp: issued_receipt_def skillCreatorAuthoringV1ActivationReceipt_def bindings_valid_def providers_ok_def
          isBoundedEffectProfile_def array_of_def effectProfileBindingNames_def)
  next
    case Researcher_bounded_v1
    with Some assms show ?thesis
      by (auto simp: issued_receipt_def boundedAuthoringActivationReceipt_def bindings_valid_def providers_ok_def
          isBoundedEffectProfile_def array_of_def effectProfileBindingNames_def expectation_ok_def Let_def
          split: if_splits option.splits)
  next
    case Assumption_audit_bounded_v1
    with Some assms show ?thesis
      by (auto simp: issued_receipt_def boundedAuthoringActivationReceipt_def bindings_valid_def providers_ok_def
          isBoundedEffectProfile_def array_of_def effectProfileBindingNames_def expectation_ok_def Let_def
          split: if_splits option.splits)
  qed
qed


lemma skill_binding_ok_cong:
  "re_skill_binding y = re_skill_binding x \<Longrightarrow> re_expected_skill_sha256 y = re_expected_skill_sha256 x \<Longrightarrow>
   skill_binding_ok y r = skill_binding_ok x r"
  by (simp add: skill_binding_ok_def cong: option.case_cong)

definition receipt_form ::
  "js_runtime \<Rightarrow> effect_profile option \<Rightarrow> json list \<Rightarrow> json \<Rightarrow> json \<Rightarrow> json" where
  "receipt_form rt p bs sk e =
     JObj (if p = Some Researcher_bounded_v1
           then receipt_fields rt p bs sk @ [(''effect_scope_binding'', e), (''schema_version'', JNum 4),
             (''controller_state_discovery'', JStr ''researchctl_state_paths_v1''),
             (''controller_protocol'', JStr ''researchctl_strict_v2'')]
           else if p = Some Assumption_audit_bounded_v1
           then receipt_fields rt p bs sk @ [(''effect_scope_binding'', e), (''schema_version'', JNum 2)]
           else if p = Some Task_root_authoring_v1
           then (''schema_version'', JNum 2) # receipt_fields rt p bs sk @ [(''effect_scope_binding'', e)]
           else (''schema_version'', JNum 1) # receipt_fields rt p bs sk)"

lemma issued_form:
  assumes "issued_receipt rt x w h = Inr r"
  shows "\<exists>bs. r = receipt_form rt (re_profile x) bs (re_skill_binding x) (nullish (re_effect_scope_binding x) JNull)"
proof (cases "re_profile x")
  case None
  with assms show ?thesis by (auto simp: issued_receipt_def skillOnlyActivationReceipt_def receipt_form_def)
next
  case (Some p)
  show ?thesis
    using assms
    by (cases p)
      (auto simp: Some issued_receipt_def receipt_form_def workspaceReadOnlyActivationReceipt_def
        taskRootReadOnlyV1ActivationReceipt_def taskRootAuthoringV1ActivationReceipt_def
        skillCreatorAuthoringV1ActivationReceipt_def boundedAuthoringActivationReceipt_def Let_def
        bind_result_Inr_iff split: if_splits)
qed

lemma issued_frame:
  assumes "expectation_ok x" and "issued_receipt rt x w h = Inr r"
  shows "is_object r \<and>
    exactKeys r (receipt_keys (isEffectScopedAuthoringProfile (re_profile x))
      (re_profile x = Some Researcher_bounded_v1) False) \<and>
    jget r ''schema_version'' = Some (JNum (receipt_version (isEffectScopedAuthoringProfile (re_profile x))
      (re_profile x = Some Researcher_bounded_v1) False)) \<and>
    jget r ''confirmed_before_prompt'' = Some (JBool True) \<and>
    jget r ''requested_effect_profile'' = Some (profile_json (re_profile x)) \<and>
    jget r ''resolved_effect_profile'' = Some (profile_json (re_profile x)) \<and>
    jget r ''active_tool_names'' =
      Some (JArr (map JStr (case re_profile x of Some p \<Rightarrow> effectProfileToolNames p | None \<Rightarrow> []))) \<and>
    jget r ''skill_binding'' = Some (re_skill_binding x) \<and>
    (isEffectScopedAuthoringProfile (re_profile x) \<longrightarrow>
      jget r ''effect_scope_binding'' = re_effect_scope_binding x) \<and>
    (re_profile x = Some Researcher_bounded_v1 \<longrightarrow>
      has_text r ''controller_state_discovery'' ''researchctl_state_paths_v1'' \<and>
      has_text r ''controller_protocol'' ''researchctl_strict_v2'')"
proof -
  obtain bs where r: "r = receipt_form rt (re_profile x) bs (re_skill_binding x) (nullish (re_effect_scope_binding x) JNull)"
    using issued_form[OF assms(2)] by blast
  have scope: "isEffectScopedAuthoringProfile (re_profile x) \<Longrightarrow>
      Some (nullish (re_effect_scope_binding x) JNull) = re_effect_scope_binding x"
    using assms(1) by (auto simp: expectation_ok_def)
  show ?thesis
  proof (cases "re_profile x")
    case None
    then show ?thesis by (simp add: r receipt_form_def issued_keys receipt_version_def is_object_def)
  next
    case (Some p)
    show ?thesis
      using scope
      by (cases p) (simp_all add: Some r receipt_form_def issued_keys receipt_version_def is_object_def has_text_def
          map_add_def)
  qed
qed

lemma issued_valid:
  assumes "expectation_ok x" and "issued_receipt rt x w h = Inr r"
    and "re_profile y = re_profile x" and "re_effect_scope_binding y = re_effect_scope_binding x"
    and "re_tool_bindings y = re_tool_bindings x \<or>
      \<not> (isBoundedEffectProfile (re_profile x) \<or> re_profile x = Some Task_root_read_only_v1)"
    and "skill_binding_ok y r"
  shows "receipt_valid rt y allow r"
proof -
  obtain bs where bs: "array_of (jget r ''tool_bindings'') = Some bs" "bindings_valid rt x r bs"
    using issued_bindings_valid[OF assms(1,2)] by blast
  have "providers_ok (rt_num rt) y bs = providers_ok (rt_num rt) x bs"
    using assms(3,5) by (auto simp: providers_ok_def)
  then have y: "bindings_valid rt y r bs" using bs(2) assms(3) by (simp add: bindings_valid_def)
  note frame = issued_frame[OF assms(1,2)]
  have scope: "effect_scope_ok (rt_num rt) y r"
    using frame assms(1,3,4) by (auto simp: effect_scope_ok_def expectation_ok_def split: option.splits)
  have legacy: "(allow \<and> re_profile x = Some Researcher_bounded_v1 \<and> jget r ''schema_version'' = Some (JNum 3)) = False"
    using frame by (auto simp: receipt_version_def)
  have bound: "isEffectScopedAuthoringProfile (re_profile x) = (re_effect_scope_binding x \<noteq> None)"
    using assms(1) by (simp add: expectation_ok_def)
  show ?thesis
    unfolding receipt_valid_def Let_def assms(3,4) legacy bs(1) option.case
    using frame y scope bound assms(6) by blast
qed

lemma issued_validates:
  assumes "expectation_ok x" and "issued_receipt rt x w h = Inr r"
  shows "validatedActivationReceipt rt (Some r) x = Some r"
proof -
  note frame = issued_frame[OF assms]
  have own: "skill_binding_ok x r" using frame assms(1) by (intro skill_binding_ok_own) blast+
  show ?thesis
    using issued_valid[OF assms refl refl _ own] frame
    by (simp add: validatedActivationReceipt_def validated_version_iff)
qed

text \<open>
  The receipts that a child issues are the ones that its owner accepts. For every profile, and for
  none, the receipt built from what the launcher expected validates against that expectation, and it
  validates again when the owner later revalidates the stored receipt by itself, without the launch
  expectation, as it does on every read of a durable run record.
\<close>

theorem issued_receipts_validate:
  assumes "expectation_ok x" and "issued_receipt rt x w h = Inr r"
  shows "validatedActivationReceipt rt (Some r) x = Some r \<and>
    validatedProjectedActivationReceipt rt (Some r) (re_profile x) (re_expected_skill_sha256 x) = Some r"
proof
  note frame = issued_frame[OF assms]
  have own: "skill_binding_ok x r" using frame assms(1) by (intro skill_binding_ok_own) blast+
  show "validatedActivationReceipt rt (Some r) x = Some r" by (rule issued_validates[OF assms])
  let ?y = "\<lparr>re_profile = re_profile x, re_skill_binding = re_skill_binding x,
    re_expected_skill_sha256 = re_expected_skill_sha256 x,
    re_tool_bindings = (if isBoundedEffectProfile (re_profile x) \<or> re_profile x = Some Task_root_read_only_v1
      then array_of (jget r ''tool_bindings'') else None),
    re_effect_scope_binding = (if isEffectScopedAuthoringProfile (re_profile x)
      then object_of (jget r ''effect_scope_binding'') else None)\<rparr>"
  have scope: "re_effect_scope_binding ?y = re_effect_scope_binding x"
  proof (cases "re_effect_scope_binding x")
    case None
    with assms(1) show ?thesis by (simp add: expectation_ok_def)
  next
    case (Some e)
    with assms(1) have "isEffectScopedAuthoringProfile (re_profile x)" by (simp add: expectation_ok_def)
    moreover from this obtain p where "re_profile x = Some p" by (cases "re_profile x") auto
    ultimately show ?thesis using frame Some assms(1) by (simp add: expectation_ok_def)
  qed
  have bindings: "re_tool_bindings ?y = re_tool_bindings x \<or>
      \<not> (isBoundedEffectProfile (re_profile x) \<or> re_profile x = Some Task_root_read_only_v1)"
    using issued_bindings_valid[OF assms] by auto
  have skill: "skill_binding_ok ?y r"
    by (rule iffD2[OF skill_binding_ok_cong own]) simp_all
  have "receipt_valid rt ?y True r" by (rule issued_valid[OF assms _ scope bindings skill]) simp
  then have stored: "validatedActivationReceiptVersion rt (Some r) ?y True = Some r"
    using frame by (simp add: validated_version_iff)
  have form: "re_skill_binding x = JNull \<or> is_object (re_skill_binding x)"
    and sha: "re_skill_binding x = JNull \<longrightarrow> re_expected_skill_sha256 x = None"
    using assms(1) by (auto simp: expectation_ok_def is_object_def)
  have read: "(case jget r ''skill_binding'' of Some JNull \<Rightarrow> Some JNull | b \<Rightarrow> object_of b) = Some (re_skill_binding x)"
    using frame form by (auto simp: is_object_def object_of_def split: json.splits)
  have obj: "object_of (Some r) = Some r" using frame by simp
  show "validatedProjectedActivationReceipt rt (Some r) (re_profile x) (re_expected_skill_sha256 x) = Some r"
    unfolding validatedProjectedActivationReceipt_def obj option.case Let_def read
    using stored sha by auto
qed


text \<open>A run of the read-only workspace profile.\<close>

definition sample_runtime :: js_runtime where
  "sample_runtime = \<lparr>rt_num = (\<lambda>_. ''0''), rt_sha256 = (\<lambda>_. replicate 64 CHR ''a''), rt_date = (\<lambda>_. Some 0),
     rt_json_parse = (\<lambda>_. None)\<rparr>"

definition sample_expectation :: receipt_expectation where
  "sample_expectation = \<lparr>re_profile = Some Workspace_read_only, re_skill_binding = JNull,
     re_expected_skill_sha256 = None, re_tool_bindings = None, re_effect_scope_binding = None\<rparr>"

definition sample_provider :: web_provider where
  "sample_provider = \<lparr>wp_provider_id = ''hub@1'', wp_implementation_sha256 = replicate 64 CHR ''b''\<rparr>"

lemma sample_expectation_ok: "expectation_ok sample_expectation"
  by (simp add: expectation_ok_def sample_expectation_def isBoundedEffectProfile_def)

lemma sample_issued:
  "\<exists>r. issued_receipt sample_runtime sample_expectation sample_provider (replicate 64 CHR ''c'') = Inr r"
  by (simp add: issued_receipt_def sample_expectation_def workspaceReadOnlyActivationReceipt_def sample_provider_def
      hex_string_def is_hex_lower_def is_digit_def list_all_iff blank_Cons js_space_def)

theorem issued_receipts_validate_witness:
  "\<exists>r. issued_receipt sample_runtime sample_expectation sample_provider (replicate 64 CHR ''c'') = Inr r \<and>
     validatedActivationReceipt sample_runtime (Some r) sample_expectation = Some r \<and>
     validatedProjectedActivationReceipt sample_runtime (Some r) (Some Workspace_read_only) None = Some r"
proof -
  obtain r where "issued_receipt sample_runtime sample_expectation sample_provider (replicate 64 CHR ''c'') = Inr r"
    using sample_issued by blast
  moreover from issued_receipts_validate[OF sample_expectation_ok this] show ?thesis
    using calculation by (auto simp: sample_expectation_def)
qed

theorem confirmed_receipt_fixes_authority_witness:
  "\<exists>r bindings. validatedActivationReceipt sample_runtime (Some r) sample_expectation = Some r \<and>
     jget r ''tool_bindings'' = Some (JArr bindings) \<and>
     has_text r ''resolved_effect_profile'' ''workspace_read_only''"
proof -
  obtain r where "issued_receipt sample_runtime sample_expectation sample_provider (replicate 64 CHR ''c'') = Inr r"
    using sample_issued by blast
  from issued_validates[OF sample_expectation_ok this]
  have valid: "validatedActivationReceipt sample_runtime (Some r) sample_expectation = Some r" .
  have profile: "re_profile sample_expectation = Some Workspace_read_only" by (simp add: sample_expectation_def)
  from confirmed_receipt_fixes_authority[OF valid profile] valid show ?thesis by auto
qed

end
