(* ===== verification/System_Skill.thy ===== *)
theory System_Skill
  imports Tool_Profile Skill_Binding
begin

text \<open>
  \<open>src/systemSkill.ts\<close>: the governing skill that is placed once, as the last section of the system
  prompt, and the receipt that says so. Resolving the skill's name to a file is the caller's
  (\<open>skillResources.ts\<close>, over the third-party loader): its result, the file's bytes, the fatal UTF-8
  decoder and SHA-256 are arguments.
\<close>

section \<open>Source\<close>

definition system_skill_placement :: string where
  "system_skill_placement = ''after_all_other_before_agent_start_handlers''"

definition system_skill_observation_scope :: string where
  "system_skill_observation_scope =
     ''pi_system_prompt_after_before_agent_start_not_provider_payload_or_model_obedience''"

record resolved_system_skill =
  sk_name :: string
  sk_path :: string
  sk_content :: string
  sk_content_sha256 :: string

definition resolveSystemSkillSource ::
  "(string \<Rightarrow> string) \<Rightarrow> (string \<Rightarrow> string option) \<Rightarrow> string \<Rightarrow> string result \<Rightarrow> string option \<Rightarrow>
   (string \<Rightarrow> string result) \<Rightarrow> resolved_system_skill result" where
  "resolveSystemSkillSource sha decode name resolved expected read_bytes =
     bind_result resolved (\<lambda>file_path.
       (let p = path_resolve file_path in
        if (case expected of None \<Rightarrow> False | Some e \<Rightarrow> path_resolve e \<noteq> p)
        then Inl (PlainError (''system skill '' @ quote_text name @ '' canonical source changed before child activation''))
        else bind_result (read_bytes p) (\<lambda>bytes.
          case decode bytes of
            None \<Rightarrow> Inl (PlainError (''system skill '' @ quote_text name @ '' is not valid UTF-8''))
          | Some content \<Rightarrow>
              if content = [] then Inl (PlainError (''system skill '' @ quote_text name @ '' is empty''))
              else Inr \<lparr>sk_name = name, sk_path = p, sk_content = content, sk_content_sha256 = sha bytes\<rparr>)))"

section \<open>Placement in the prompt\<close>

text \<open>The \<open>indexOf\<close> loop: each occurrence is searched from the end of the one before.\<close>

function countOccurrences :: "string \<Rightarrow> string \<Rightarrow> nat" where
  "countOccurrences needle [] = 0"
| "countOccurrences needle (c # cs) =
     (if needle = [] then 0
      else if starts_with needle (c # cs) then Suc (countOccurrences needle (drop (length needle) (c # cs)))
      else countOccurrences needle cs)"
  by pat_completeness auto
termination
  by (relation "measure (\<lambda>(n, s). length s)") auto

text \<open>\<open>value.split(needle).join("")\<close>\<close>

function remove_bodies :: "string \<Rightarrow> string \<Rightarrow> string" where
  "remove_bodies needle [] = []"
| "remove_bodies needle (c # cs) =
     (if needle = [] then c # cs
      else if starts_with needle (c # cs) then remove_bodies needle (drop (length needle) (c # cs))
      else c # remove_bodies needle cs)"
  by pat_completeness auto
termination
  by (relation "measure (\<lambda>(n, s). length s)") auto

definition newline :: string where
  "newline = [char_of (10 :: nat)]"

definition systemSkillPromptBlock :: "resolved_system_skill \<Rightarrow> string" where
  "systemSkillPromptBlock s = join_texts newline
     [''<subagent007-system-skill>'', ''Name: '' @ sk_name s, ''Canonical source: '' @ sk_path s, [],
      sk_content s, ''</subagent007-system-skill>'']"

definition system_skill_receipt :: "(string \<Rightarrow> string) \<Rightarrow> resolved_system_skill \<Rightarrow> string \<Rightarrow> json" where
  "system_skill_receipt sha s prompt = JObj
     [(''schema_version'', JNum 1), (''confirmed_before_prompt'', JBool True),
      (''system_skill_name'', JStr (sk_name s)), (''resolved_skill_path'', JStr (sk_path s)),
      (''content_sha256'', JStr (sk_content_sha256 s)), (''final_system_prompt_sha256'', JStr (sha prompt)),
      (''system_skill_content_occurrences'', JNum 1), (''final_system_prompt_ends_with_system_skill'', JBool True),
      (''placement'', JStr system_skill_placement), (''observation_scope'', JStr system_skill_observation_scope)]"

definition appendSystemSkillToPrompt ::
  "(string \<Rightarrow> string) \<Rightarrow> string \<Rightarrow> resolved_system_skill \<Rightarrow> (string \<times> json) result" where
  "appendSystemSkillToPrompt sha current s =
     (let bare = trim_end (remove_bodies (sk_content s) current);
          block = systemSkillPromptBlock s;
          prompt = bare @ newline @ newline @ block
      in if countOccurrences (sk_content s) prompt \<noteq> 1 \<or> \<not> ends_with block prompt
         then Inl (PlainError ''system skill could not be placed exactly once at the end of Pi's system prompt'')
         else Inr (prompt, system_skill_receipt sha s prompt))"

section \<open>Receipt\<close>

definition system_skill_receipt_keys :: "string list" where
  "system_skill_receipt_keys =
     [''schema_version'', ''confirmed_before_prompt'', ''system_skill_name'', ''resolved_skill_path'',
      ''content_sha256'', ''final_system_prompt_sha256'', ''system_skill_content_occurrences'',
      ''final_system_prompt_ends_with_system_skill'', ''placement'', ''observation_scope'']"

definition validatedSystemSkillActivationReceipt :: "json option \<Rightarrow> string \<Rightarrow> string \<Rightarrow> json option" where
  "validatedSystemSkillActivationReceipt value expectedName expectedPath =
     (case object_of value of
        None \<Rightarrow> None
      | Some r \<Rightarrow>
          if exactKeys r system_skill_receipt_keys \<and>
             jget r ''schema_version'' = Some (JNum 1) \<and>
             jget r ''confirmed_before_prompt'' = Some (JBool True) \<and>
             has_text r ''system_skill_name'' expectedName \<and>
             has_text r ''resolved_skill_path'' (path_resolve expectedPath) \<and>
             has_sha256 r ''content_sha256'' \<and> has_sha256 r ''final_system_prompt_sha256'' \<and>
             jget r ''system_skill_content_occurrences'' = Some (JNum 1) \<and>
             jget r ''final_system_prompt_ends_with_system_skill'' = Some (JBool True) \<and>
             has_text r ''placement'' system_skill_placement \<and>
             has_text r ''observation_scope'' system_skill_observation_scope
          then Some r else None)"

section \<open>What an accepted placement means\<close>

text \<open>The left-to-right search finds as many disjoint occurrences as there are.\<close>

lemma count_drop_and_prefix:
  "needle \<noteq> [] \<Longrightarrow>
   (\<forall>k \<le> length needle. countOccurrences needle s \<le> Suc (countOccurrences needle (drop k s))) \<and>
   (\<forall>k. countOccurrences needle (drop k s) \<le> countOccurrences needle s)"
proof (induction s rule: length_induct)
  case (1 s)
  note needle = 1(2)
  have drop_le: "countOccurrences needle s \<le> Suc (countOccurrences needle (drop k s))"
    and prefix_le: "countOccurrences needle (drop j s) \<le> countOccurrences needle s"
    if "k \<le> length needle" for k j
  proof -
    show "countOccurrences needle s \<le> Suc (countOccurrences needle (drop k s))"
    proof (cases s)
      case (Cons c cs)
      show ?thesis
      proof (cases "k = 0")
        case False
        then obtain k' where k: "k = Suc k'" by (cases k) auto
        show ?thesis
        proof (cases "starts_with needle s")
          case True
          have "drop (length needle) s = drop (length needle - k) (drop k s)" using \<open>k \<le> length needle\<close> by simp
          moreover have "length (drop k s) < length s" using False Cons by simp
          ultimately have "countOccurrences needle (drop (length needle) s) \<le> countOccurrences needle (drop k s)"
            using 1(1) needle by metis
          with True Cons needle show ?thesis by simp
        next
          case no: False
          have "countOccurrences needle s = countOccurrences needle cs" using no Cons needle by simp
          also have "\<dots> \<le> Suc (countOccurrences needle (drop k' cs))"
            using 1 Cons k \<open>k \<le> length needle\<close> by simp
          finally show ?thesis using Cons k by simp
        qed
      qed simp
    qed simp
    show "countOccurrences needle (drop j s) \<le> countOccurrences needle s"
    proof (cases s)
      case (Cons c cs)
      show ?thesis
      proof (cases "j = 0")
        case False
        then obtain j' where j: "j = Suc j'" by (cases j) auto
        have cs: "countOccurrences needle (drop j' cs) \<le> countOccurrences needle cs" using 1 Cons by simp
        show ?thesis
        proof (cases "starts_with needle s")
          case True
          have short: "length cs < length s" using Cons by simp
          have "countOccurrences needle cs \<le> Suc (countOccurrences needle (drop (length needle - 1) cs))"
            using 1(1) needle short by auto
          also have "drop (length needle - 1) cs = drop (length needle) s"
            using needle Cons by (cases needle) auto
          finally show ?thesis using True Cons needle j cs by simp
        next
          case no: False
          then show ?thesis using Cons needle j cs by simp
        qed
      qed simp
    qed simp
  qed
  then show ?case by blast
qed

lemma count_prefix_le: "needle \<noteq> [] \<Longrightarrow> countOccurrences needle s \<le> countOccurrences needle (a @ s)"
  using count_drop_and_prefix[of needle "a @ s"] by (metis append_eq_conv_conj)

lemma count_needle: "needle \<noteq> [] \<Longrightarrow> countOccurrences needle (needle @ s) = Suc (countOccurrences needle s)"
  by (cases needle) (simp_all add: starts_with_def)

lemma two_occurrences:
  assumes "needle \<noteq> []"
  shows "2 \<le> countOccurrences needle (a @ needle @ b @ needle @ d)"
proof -
  have "1 \<le> countOccurrences needle (needle @ d)" using assms by (simp add: count_needle)
  also have "\<dots> \<le> countOccurrences needle (b @ needle @ d)" by (rule count_prefix_le[OF assms])
  finally have "2 \<le> countOccurrences needle (needle @ b @ needle @ d)" using assms by (simp add: count_needle)
  also have "\<dots> \<le> countOccurrences needle (a @ needle @ b @ needle @ d)" by (rule count_prefix_le[OF assms])
  finally show ?thesis .
qed

lemma placed_form:
  "appendSystemSkillToPrompt sha current s = Inr (prompt, r) \<Longrightarrow>
   countOccurrences (sk_content s) prompt = 1 \<and> r = system_skill_receipt sha s prompt \<and>
   prompt = trim_end (remove_bodies (sk_content s) current) @ newline @ newline @ systemSkillPromptBlock s"
  by (auto simp: appendSystemSkillToPrompt_def Let_def split: if_splits)

lemma system_skill_receipt_valid:
  assumes "sha256_hex (sk_content_sha256 s)" and "sha256_hex (sha prompt)" and "path_resolve (sk_path s) = sk_path s"
  shows "validatedSystemSkillActivationReceipt (Some (system_skill_receipt sha s prompt)) (sk_name s) (sk_path s)
    = Some (system_skill_receipt sha s prompt)"
  using assms
  by (simp add: validatedSystemSkillActivationReceipt_def system_skill_receipt_def object_of_def
      system_skill_receipt_keys_def exactKeys_mset jkeys_def has_text_def has_sha256_def)

text \<open>
  A governing skill is in force exactly once. When the prompt is composed, it is the earlier prompt
  without the skill's body, followed by the block that names the skill and carries its whole text and by
  nothing else; no second copy of the text stands beside the first anywhere in the prompt; and the
  receipt issued with it is one that the owner accepts for this skill and path.
\<close>

theorem system_skill_placed_once:
  assumes "appendSystemSkillToPrompt sha current s = Inr (prompt, r)"
    and "sk_content s \<noteq> []" and "\<And>x. sha256_hex (sha x)" and "sha256_hex (sk_content_sha256 s)"
    and "path_resolve (sk_path s) = sk_path s"
  shows "prompt = trim_end (remove_bodies (sk_content s) current) @ newline @ newline @ systemSkillPromptBlock s \<and>
    (\<nexists>a b d. prompt = a @ sk_content s @ b @ sk_content s @ d) \<and>
    (\<exists>a. prompt = a @ sk_content s @ newline @ ''</subagent007-system-skill>'') \<and>
    validatedSystemSkillActivationReceipt (Some r) (sk_name s) (sk_path s) = Some r"
proof (intro conjI)
  note form = placed_form[OF assms(1)]
  then show "prompt = trim_end (remove_bodies (sk_content s) current) @ newline @ newline @ systemSkillPromptBlock s"
    by blast
  show "\<nexists>a b d. prompt = a @ sk_content s @ b @ sk_content s @ d"
    using two_occurrences[OF assms(2)] form by (metis Suc_1 Suc_n_not_le_n)
  show "\<exists>a. prompt = a @ sk_content s @ newline @ ''</subagent007-system-skill>''"
    using form by (auto simp: systemSkillPromptBlock_def newline_def)
  show "validatedSystemSkillActivationReceipt (Some r) (sk_name s) (sk_path s) = Some r"
    using form system_skill_receipt_valid assms(3-5) by blast
qed

definition sample_system_skill :: resolved_system_skill where
  "sample_system_skill = \<lparr>sk_name = ''g'', sk_path = ''/s'', sk_content = ''Obey.'',
     sk_content_sha256 = replicate 64 CHR ''b''\<rparr>"

theorem system_skill_placed_once_witness:
  "\<exists>prompt r. appendSystemSkillToPrompt (\<lambda>_. replicate 64 CHR ''a'') ''Be Obey.brief. '' sample_system_skill = Inr (prompt, r) \<and>
     prompt = ''Be brief.'' @ newline @ newline @ systemSkillPromptBlock sample_system_skill"
proof -
  let ?prompt = "''Be brief.'' @ newline @ newline @ systemSkillPromptBlock sample_system_skill"
  have "case appendSystemSkillToPrompt (\<lambda>_. replicate 64 CHR ''a'') ''Be Obey.brief. '' sample_system_skill of
      Inr (q, _) \<Rightarrow> q = ?prompt | Inl _ \<Rightarrow> False"
    by code_simp
  then obtain r where run:
    "appendSystemSkillToPrompt (\<lambda>_. replicate 64 CHR ''a'') ''Be Obey.brief. '' sample_system_skill = Inr (?prompt, r)"
    by (auto split: sum.splits prod.splits)
  have hex: "sha256_hex (replicate 64 CHR ''a'')" "sha256_hex (replicate 64 CHR ''b'')"
    by (simp_all add: hex_string_def is_hex_lower_def is_digit_def list_all_iff)
  have p: "path_resolve (sk_path sample_system_skill) = sk_path sample_system_skill" by code_simp
  show ?thesis
    using system_skill_placed_once[OF run _ _ _ p] run hex by (auto simp: sample_system_skill_def)
qed

end
