(* ===== verification/Launch_Receipts.thy ===== *)
theory Launch_Receipts
  imports System_Skill
begin

text \<open>
  The other confirmations that a child reports before its prompt: the receipt of a skill snapshot
  (\<open>src/skillSnapshot.ts\<close>, the validators of lines 873-938) and of recursive delegation, and the readers
  of \<open>src/runSubagent.ts\<close> that take the receipts from the child's output lines. \<open>JSON.parse\<close> and the
  number format are the runtime's.
\<close>

section \<open>Paths\<close>

text \<open>\<open>path.basename\<close> and \<open>path.dirname\<close> of the POSIX module, which do not normalise.\<close>

definition strip_slashes :: "string \<Rightarrow> string" where
  "strip_slashes p = rev (dropWhile (\<lambda>c. c = slash) (rev p))"

definition path_basename :: "string \<Rightarrow> string" where
  "path_basename p = rev (takeWhile (\<lambda>c. c \<noteq> slash) (rev (strip_slashes p)))"

definition posix_dirname :: "string \<Rightarrow> string" where
  "posix_dirname p =
     (case dropWhile (\<lambda>c. c \<noteq> slash) (rev (strip_slashes p)) of
        [] \<Rightarrow> if is_absolute p then [slash] else ''.''
      | _ # r \<Rightarrow> if r = [] then [slash] else if r = [slash] then [slash, slash] else rev r)"

lemma basename_join: "n \<noteq> [] \<Longrightarrow> slash \<notin> set n \<Longrightarrow> path_basename (d @ slash # n) = n"
proof -
  assume n: "n \<noteq> []" "slash \<notin> set n"
  then have "strip_slashes (d @ slash # n) = d @ slash # n"
    by (cases n rule: rev_cases) (auto simp: strip_slashes_def)
  moreover have "takeWhile (\<lambda>c. c \<noteq> slash) (rev n @ slash # rev d) = rev n"
    using n by (subst takeWhile_append2) auto
  ultimately show ?thesis by (simp add: path_basename_def)
qed

lemma dirname_join:
  "n \<noteq> [] \<Longrightarrow> slash \<notin> set n \<Longrightarrow> d \<noteq> [] \<Longrightarrow> d \<noteq> [slash] \<Longrightarrow> posix_dirname (d @ slash # n) = d"
proof -
  assume n: "n \<noteq> []" "slash \<notin> set n" "d \<noteq> []" "d \<noteq> [slash]"
  then have "strip_slashes (d @ slash # n) = d @ slash # n"
    by (cases n rule: rev_cases) (auto simp: strip_slashes_def)
  moreover have "dropWhile (\<lambda>c. c \<noteq> slash) (rev n @ slash # rev d) = slash # rev d"
    using n by (subst dropWhile_append2) auto
  ultimately show ?thesis using n by (auto simp: posix_dirname_def)
qed

section \<open>Snapshot receipts\<close>

definition publication_id_char :: "char \<Rightarrow> bool" where
  "publication_id_char c \<longleftrightarrow> is_alnum c \<or> c = CHR ''.'' \<or> c = CHR ''_'' \<or> c = CHR '':'' \<or> c = CHR ''-''"

definition publication_id_ok :: "string \<Rightarrow> bool" where
  "publication_id_ok s \<longleftrightarrow> length s \<le> 200 \<and> s \<noteq> [] \<and> is_alnum (hd s) \<and> list_all publication_id_char (tl s)"

definition snapshot_binding_keys :: "string list" where
  "snapshot_binding_keys =
     [''contract_version'', ''snapshot_id'', ''metadata_sha256'', ''publication_receipt_sha256'',
      ''reference_id'', ''project_id'', ''publication_id'']"

definition validatedSkillSnapshotLaunchBinding :: "json option \<Rightarrow> json option" where
  "validatedSkillSnapshotLaunchBinding value =
     (case object_of value of
        None \<Rightarrow> None
      | Some b \<Rightarrow>
          if exactKeys b snapshot_binding_keys \<and> jget b ''contract_version'' = Some (JNum 1) \<and>
             has_sha256 b ''snapshot_id'' \<and> has_sha256 b ''metadata_sha256'' \<and>
             has_sha256 b ''publication_receipt_sha256'' \<and> has_sha256 b ''reference_id'' \<and>
             nonempty_string (jget b ''project_id'') \<and>
             (case jget b ''publication_id'' of Some (JStr s) \<Rightarrow> publication_id_ok s | _ \<Rightarrow> False)
          then Some b else None)"

definition snapshot_receipt_keys :: "string list" where
  "snapshot_receipt_keys =
     [''schema_version'', ''confirmed_before_prompt'', ''skill_name'', ''snapshot_id'', ''metadata_sha256'',
      ''bundle_sha256'', ''publication_receipt_sha256'', ''reference_id'', ''project_id'', ''publication_id'',
      ''resolved_skill_path'', ''runtime_closure_sha256'']"

text \<open>The fields in which the receipt repeats the binding.\<close>

definition snapshot_shared_fields :: "string list" where
  "snapshot_shared_fields =
     [''snapshot_id'', ''metadata_sha256'', ''publication_receipt_sha256'', ''reference_id'', ''project_id'',
      ''publication_id'']"

definition snapshot_path_ok :: "string \<Rightarrow> json option \<Rightarrow> bool" where
  "snapshot_path_ok p snapshot_id \<longleftrightarrow>
     is_absolute p \<and> path_basename p = ''SKILL.md'' \<and> path_basename (posix_dirname p) = ''runtime'' \<and>
     snapshot_id = Some (JStr (path_basename (posix_dirname (posix_dirname p))))"

definition validatedSkillSnapshotActivationReceipt :: "json option \<Rightarrow> json option \<Rightarrow> json option" where
  "validatedSkillSnapshotActivationReceipt value rawBinding =
     (case (validatedSkillSnapshotLaunchBinding rawBinding, object_of value) of
        (Some b, Some r) \<Rightarrow>
          if exactKeys r snapshot_receipt_keys \<and> jget r ''schema_version'' = Some (JNum 1) \<and>
             jget r ''confirmed_before_prompt'' = Some (JBool True) \<and> nonempty_string (jget r ''skill_name'') \<and>
             list_all (\<lambda>k. jget r k = jget b k) snapshot_shared_fields \<and>
             has_sha256 r ''bundle_sha256'' \<and> has_sha256 r ''runtime_closure_sha256'' \<and>
             (case jget r ''resolved_skill_path'' of
                Some (JStr p) \<Rightarrow> snapshot_path_ok p (jget b ''snapshot_id'') | _ \<Rightarrow> False)
          then Some r else None
      | _ \<Rightarrow> None)"

section \<open>Recursive delegation\<close>

definition delegation_name :: "recursive_delegation \<Rightarrow> string" where
  "delegation_name d = (case d of RD_disabled \<Rightarrow> ''disabled'' | RD_enabled \<Rightarrow> ''enabled'')"

definition delegation_json :: "recursive_delegation option \<Rightarrow> json" where
  "delegation_json d = (case d of None \<Rightarrow> JNull | Some x \<Rightarrow> JStr (delegation_name x))"

definition recursive_receipt_keys :: "string list" where
  "recursive_receipt_keys =
     [''confirmed_before_prompt'', ''delegate_tool_active'', ''requested_recursive_delegation'',
      ''resolved_recursive_delegation'', ''schema_version'']"

definition validatedRecursiveDelegationReceipt ::
  "json option \<Rightarrow> recursive_delegation option \<Rightarrow> recursive_delegation \<Rightarrow> json option" where
  "validatedRecursiveDelegationReceipt value requested resolved =
     (case object_of value of
        None \<Rightarrow> None
      | Some r \<Rightarrow>
          if exactKeys r recursive_receipt_keys \<and> jget r ''schema_version'' = Some (JNum 1) \<and>
             jget r ''confirmed_before_prompt'' = Some (JBool True) \<and>
             jget r ''requested_recursive_delegation'' = Some (delegation_json requested) \<and>
             has_text r ''resolved_recursive_delegation'' (delegation_name resolved) \<and>
             jget r ''delegate_tool_active'' = Some (JBool (case resolved of RD_enabled \<Rightarrow> True | RD_disabled \<Rightarrow> False))
          then Some r else None)"

text \<open>The receipt that the child writes (\<open>src/piChild.ts\<close>), from the tools that are active.\<close>

definition recursive_delegation_receipt ::
  "recursive_delegation option \<Rightarrow> recursive_delegation \<Rightarrow> string list \<Rightarrow> json" where
  "recursive_delegation_receipt requested resolved activeTools = JObj
     [(''schema_version'', JNum 1), (''confirmed_before_prompt'', JBool True),
      (''requested_recursive_delegation'', delegation_json requested),
      (''resolved_recursive_delegation'', JStr (delegation_name resolved)),
      (''delegate_tool_active'', JBool (''delegate'' \<in> set activeTools))]"

section \<open>Receipts in the child's output\<close>

definition event_of_line :: "js_runtime \<Rightarrow> string \<Rightarrow> string \<Rightarrow> json option" where
  "event_of_line rt type line =
     (case rt_json_parse rt line of
        None \<Rightarrow> None | Some e \<Rightarrow> if has_text e ''type'' type then Some e else None)"

definition activationReceiptFromLine :: "js_runtime \<Rightarrow> string \<Rightarrow> receipt_expectation \<Rightarrow> json option" where
  "activationReceiptFromLine rt line x =
     (case event_of_line rt ''subagent007.activation_confirmed'' line of
        None \<Rightarrow> None | Some e \<Rightarrow> validatedActivationReceipt rt (jget e ''receipt'') x)"

definition skillSnapshotActivationReceiptFromLine ::
  "js_runtime \<Rightarrow> string \<Rightarrow> json option \<Rightarrow> json option \<Rightarrow> json option" where
  "skillSnapshotActivationReceiptFromLine rt line expected binding =
     (case (expected, binding) of
        (Some x, Some b) \<Rightarrow>
          (case event_of_line rt ''subagent007.skill_snapshot_activation_confirmed'' line of
             None \<Rightarrow> None
           | Some e \<Rightarrow>
               (case validatedSkillSnapshotActivationReceipt (jget e ''receipt'') (Some b) of
                  None \<Rightarrow> None
                | Some r \<Rightarrow> if json_text (rt_num rt) r = json_text (rt_num rt) x then Some x else None))
      | _ \<Rightarrow> None)"

definition systemSkillActivationReceiptFromLine ::
  "js_runtime \<Rightarrow> string \<Rightarrow> resolved_system_skill option \<Rightarrow> json option" where
  "systemSkillActivationReceiptFromLine rt line source =
     (case source of
        None \<Rightarrow> None
      | Some s \<Rightarrow>
          (case event_of_line rt ''subagent007.system_skill_activation_confirmed'' line of
             None \<Rightarrow> None
           | Some e \<Rightarrow> validatedSystemSkillActivationReceipt (jget e ''receipt'') (sk_name s) (sk_path s)))"

definition recursiveDelegationReceiptFromLine ::
  "js_runtime \<Rightarrow> string \<Rightarrow> recursive_delegation option \<Rightarrow> recursive_delegation \<Rightarrow> json option" where
  "recursiveDelegationReceiptFromLine rt line requested resolved =
     (case event_of_line rt ''subagent007.recursive_delegation_confirmed'' line of
        None \<Rightarrow> None
      | Some e \<Rightarrow> validatedRecursiveDelegationReceipt (jget e ''receipt'') requested resolved)"

section \<open>What a confirmation says\<close>

lemma validated_recursive_iff:
  "validatedRecursiveDelegationReceipt value requested resolved = Some r \<longleftrightarrow>
     value = Some r \<and> is_object r \<and> exactKeys r recursive_receipt_keys \<and> jget r ''schema_version'' = Some (JNum 1) \<and>
     jget r ''confirmed_before_prompt'' = Some (JBool True) \<and>
     jget r ''requested_recursive_delegation'' = Some (delegation_json requested) \<and>
     has_text r ''resolved_recursive_delegation'' (delegation_name resolved) \<and>
     jget r ''delegate_tool_active'' = Some (JBool (case resolved of RD_enabled \<Rightarrow> True | RD_disabled \<Rightarrow> False))"
  by (auto simp: validatedRecursiveDelegationReceipt_def object_of_None split: option.splits if_splits)

lemma validated_snapshot_binding_iff:
  "validatedSkillSnapshotLaunchBinding value = Some b \<longleftrightarrow>
     value = Some b \<and> is_object b \<and> exactKeys b snapshot_binding_keys \<and> jget b ''contract_version'' = Some (JNum 1) \<and>
     has_sha256 b ''snapshot_id'' \<and> has_sha256 b ''metadata_sha256'' \<and>
     has_sha256 b ''publication_receipt_sha256'' \<and> has_sha256 b ''reference_id'' \<and>
     nonempty_string (jget b ''project_id'') \<and>
     (case jget b ''publication_id'' of Some (JStr s) \<Rightarrow> publication_id_ok s | _ \<Rightarrow> False)"
  by (auto simp: validatedSkillSnapshotLaunchBinding_def object_of_None split: option.splits if_splits)

text \<open>A child's confirmation of delegation is accepted exactly when the delegate tool is active just in
  case delegation was resolved as enabled.\<close>

lemma recursive_receipt_accepted_iff:
  "validatedRecursiveDelegationReceipt (Some (recursive_delegation_receipt requested resolved tools)) requested resolved \<noteq> None
     \<longleftrightarrow> (''delegate'' \<in> set tools \<longleftrightarrow> resolved = RD_enabled)"
  by (cases resolved)
    (auto simp: validatedRecursiveDelegationReceipt_def recursive_delegation_receipt_def object_of_def has_text_def
      exactKeys_mset jkeys_def recursive_receipt_keys_def)

end
