(* ===== verification/Transcript.thy ===== *)
theory Transcript
  imports Launch_Receipts Run_Events
begin

text \<open>
  \<open>src/transcript.ts\<close> and the cleaning of \<open>src/output.ts\<close>: how the lines that a child prints become the
  public transcript of its run, once for a finished output (\<open>preparePublicTranscriptFromProcessOutput\<close>)
  and line by line while the child runs (\<open>projectProcessOutputLine\<close>, which the streaming transcript of
  \<open>Run_Output\<close> uses). \<open>JSON.parse\<close> is the runtime's.
\<close>

section \<open>Cleaning\<close>

abbreviation esc :: char where
  "esc \<equiv> char_of (27 :: nat)"

definition in_range :: "nat \<Rightarrow> nat \<Rightarrow> char \<Rightarrow> bool" where
  "in_range l h c \<longleftrightarrow> l \<le> of_char c \<and> of_char c \<le> h"

text \<open>The alternatives of the pattern after the escape character, in their order; the result is the
  length of the match behind it. The first is \<open>[@-Z\\-_]\<close>, the second a control sequence
  \<open>\[[0-?]*[ -/]*[@-~]\<close>, the third an operating-system command \<open>\][^\u0007]*(\u0007|\u001B\\)\<close>.\<close>

definition escape_single :: "string \<Rightarrow> nat option" where
  "escape_single s = (case s of c # _ \<Rightarrow> if in_range 64 90 c \<or> in_range 92 95 c then Some 1 else None | [] \<Rightarrow> None)"

definition escape_sequence :: "string \<Rightarrow> nat option" where
  "escape_sequence s =
     (case s of
        [] \<Rightarrow> None
      | c # cs \<Rightarrow>
          if c \<noteq> CHR ''['' then None
          else (let a = length (takeWhile (in_range 48 63) cs);
                    b = length (takeWhile (in_range 32 47) (drop a cs))
                in case drop (a + b) cs of
                     f # _ \<Rightarrow> if in_range 64 126 f then Some (a + b + 2) else None
                   | [] \<Rightarrow> None))"

fun last_string_terminator :: "nat \<Rightarrow> string \<Rightarrow> nat option" where
  "last_string_terminator n [] = None"
| "last_string_terminator n (c # cs) =
     (case last_string_terminator (Suc n) cs of
        Some m \<Rightarrow> Some m
      | None \<Rightarrow> if c = esc \<and> starts_with [char_of (92 :: nat)] cs then Some n else None)"

definition escape_command :: "string \<Rightarrow> nat option" where
  "escape_command s =
     (case s of
        [] \<Rightarrow> None
      | c # cs \<Rightarrow>
          if c \<noteq> CHR '']'' then None
          else (let payload = takeWhile (\<lambda>c. of_char c \<noteq> (7 :: nat)) cs in
                if length payload < length cs then Some (length payload + 2)
                else map_option (\<lambda>n. n + 3) (last_string_terminator 0 payload)))"

definition match_escape :: "char option \<Rightarrow> string \<Rightarrow> nat option" where
  "match_escape prev s =
     (case s of
        [] \<Rightarrow> None
      | c # cs \<Rightarrow>
          if c \<noteq> esc then None
          else map_option Suc
            (case escape_single cs of
               Some n \<Rightarrow> Some n
             | None \<Rightarrow> (case escape_sequence cs of Some n \<Rightarrow> Some n | None \<Rightarrow> escape_command cs)))"

definition control_char :: "char \<Rightarrow> bool" where
  "control_char c \<longleftrightarrow> in_range 0 8 c \<or> in_range 11 12 c \<or> in_range 14 31 c \<or> of_char c = (127 :: nat)"

definition stripAnsiAndControls :: "string \<Rightarrow> string" where
  "stripAnsiAndControls s = filter (\<lambda>c. \<not> control_char c) (replace_matches match_escape [] None s)"

section \<open>Public lines\<close>

record public_line =
  pl_text :: string
  pl_kind :: run_public_event_kind
  pl_event :: "run_public_event_name option"

definition textPartsFromContent :: "json option \<Rightarrow> string list" where
  "textPartsFromContent content =
     (case array_of content of
        None \<Rightarrow> []
      | Some parts \<Rightarrow>
          filter (\<lambda>t. \<not> blank t)
            (List.map_filter (\<lambda>p. if has_text p ''type'' ''text'' then text_of (jget p ''text'') else None) parts))"

definition eventMessageLine :: "json \<Rightarrow> public_line option" where
  "eventMessageLine event =
     (case jget event ''message'' of
        None \<Rightarrow> None
      | Some m \<Rightarrow>
          (let user = has_text m ''role'' ''user'';
               text = concat (textPartsFromContent (jget m ''content''))
           in if (\<not> user \<and> \<not> has_text m ''role'' ''assistant'') \<or> text = [] then None
              else Some \<lparr>pl_text = (if user then ''[user]'' else ''[assistant]'') @ newline @ text,
                pl_kind = (if user then Kind_user else Kind_assistant), pl_event = None\<rparr>))"

definition text_or :: "string \<Rightarrow> json option \<Rightarrow> string" where
  "text_or d v = (case text_of v of Some s \<Rightarrow> s | None \<Rightarrow> d)"

definition eventRequestId :: "json \<Rightarrow> string" where
  "eventRequestId event = text_or ''unknown'' (jget event ''request_id'')"

definition publicLineForEvent :: "json \<Rightarrow> public_line option" where
  "publicLineForEvent event =
     (let is = has_text event ''type'' in
      if is ''subagent007.input_request'' then
        (let question = js_trim (text_or [] (jget event ''question'')) in
         Some \<lparr>pl_text = ''[input_required] '' @ eventRequestId event @
             (if question = [] then [] else '' '' @ question),
           pl_kind = Kind_input, pl_event = Some Ev_input_required\<rparr>)
      else if is ''subagent007.input_timed_out'' then
        Some \<lparr>pl_text = ''[input_timed_out] '' @ eventRequestId event, pl_kind = Kind_input,
          pl_event = Some Ev_input_timed_out\<rparr>
      else if is ''subagent007.input_closed'' then
        Some \<lparr>pl_text = ''[input_closed] '' @ eventRequestId event, pl_kind = Kind_input,
          pl_event = Some Ev_input_closed\<rparr>
      else if is ''subagent007.error'' then
        Some \<lparr>pl_text = ''[subagent007 error] '' @ text_or ''unknown error'' (jget event ''error''),
          pl_kind = Kind_error, pl_event = Some Ev_failed\<rparr>
      else if is ''subagent007.warning'' then
        Some \<lparr>pl_text = ''[subagent007 warning] '' @ text_or ''warning'' (jget event ''message''),
          pl_kind = Kind_warning, pl_event = Some Ev_message\<rparr>
      else if is ''message_end'' then eventMessageLine event
      else None)"

definition publicMarkerLine :: "string \<Rightarrow> public_line option" where
  "publicMarkerLine line =
     (let t = js_trim line;
          timeout = starts_with ''[subagent007 timeout]'' t;
          cancelled = (t = ''[subagent007 cancelled]'')
      in if timeout \<or> cancelled \<or> starts_with ''[subagent007 disk reserve exhausted]'' t
         then Some \<lparr>pl_text = t, pl_kind = Kind_terminal,
           pl_event = Some (if timeout then Ev_timeout else if cancelled then Ev_cancellation_settled else Ev_failed)\<rparr>
         else None)"

definition eventObjectFromJsonLine :: "js_runtime \<Rightarrow> string \<Rightarrow> json option" where
  "eventObjectFromJsonLine rt line =
     (let t = js_trim line in
      if \<not> starts_with ''{'' t then None
      else (case rt_json_parse rt t of
          Some (JObj kvs) \<Rightarrow> Some (JObj kvs) | Some (JArr vs) \<Rightarrow> Some (JArr vs) | _ \<Rightarrow> None))"

definition silent_event_types :: "string list" where
  "silent_event_types =
     [''subagent007.lifecycle'', ''subagent007.session'', ''subagent007.activation_confirmed'',
      ''subagent007.recursive_delegation_confirmed'', ''subagent007.system_skill_activation_confirmed'']"

definition eventControlsTranscriptMode :: "json \<Rightarrow> bool" where
  "eventControlsTranscriptMode event \<longleftrightarrow> list_all (\<lambda>t. \<not> has_text event ''type'' t) silent_event_types"

record line_projection =
  lp_controls :: bool
  lp_public :: "public_line option"
  lp_raw :: "string option"

definition projectProcessOutputLine :: "js_runtime \<Rightarrow> string \<Rightarrow> line_projection" where
  "projectProcessOutputLine rt line =
     (case publicMarkerLine line of
        Some m \<Rightarrow> \<lparr>lp_controls = False, lp_public = Some m, lp_raw = Some (pl_text m)\<rparr>
      | None \<Rightarrow>
          (case eventObjectFromJsonLine rt line of
             Some e \<Rightarrow> \<lparr>lp_controls = eventControlsTranscriptMode e, lp_public = publicLineForEvent e, lp_raw = None\<rparr>
           | None \<Rightarrow> \<lparr>lp_controls = False, lp_public = None, lp_raw = (if blank line then None else Some line)\<rparr>))"

definition publicOutputLineFromProcessLine :: "js_runtime \<Rightarrow> string \<Rightarrow> public_line option" where
  "publicOutputLineFromProcessLine rt line =
     (case eventObjectFromJsonLine rt line of Some e \<Rightarrow> publicLineForEvent e | None \<Rightarrow> None)"

section \<open>Provenance\<close>

record prompt_provenance =
  pp_public_prompt :: string
  pp_skill_marker :: "string option"
  pp_packet_marker :: "string option"

definition provenancePublicLines :: "prompt_provenance option \<Rightarrow> public_line list" where
  "provenancePublicLines provenance =
     (case provenance of
        None \<Rightarrow> []
      | Some p \<Rightarrow>
          \<lparr>pl_text = ''[user]'' @ newline @ pp_public_prompt p, pl_kind = Kind_user, pl_event = Some Ev_message\<rparr> #
          (case pp_skill_marker p of
             Some (c # m) \<Rightarrow> [\<lparr>pl_text = c # m, pl_kind = Kind_task, pl_event = Some Ev_message\<rparr>] | _ \<Rightarrow> []) @
          (case pp_packet_marker p of
             Some (c # m) \<Rightarrow> [\<lparr>pl_text = c # m, pl_kind = Kind_packet, pl_event = Some Ev_message\<rparr>] | _ \<Rightarrow> []))"

section \<open>The whole output at once\<close>

function renderedHasLabeledContent :: "string \<Rightarrow> string \<Rightarrow> bool" where
  "renderedHasLabeledContent label [] = False"
| "renderedHasLabeledContent label (c # cs) =
     (if label \<noteq> [] \<and> starts_with label (c # cs)
      then (let rest = drop (length label) (c # cs) in
            if \<not> blank rest then True else renderedHasLabeledContent label rest)
      else renderedHasLabeledContent label cs)"
  by pat_completeness auto
termination
  by (relation "measure (\<lambda>(l, s). length s)") auto

record content_flags =
  cf_assistant :: bool
  cf_warning :: bool
  cf_error :: bool

definition publicTranscriptContentFlags :: "string \<Rightarrow> content_flags" where
  "publicTranscriptContentFlags text =
     \<lparr>cf_assistant = renderedHasLabeledContent (''[assistant]'' @ newline) text,
      cf_warning = renderedHasLabeledContent ''[subagent007 warning] '' text,
      cf_error = renderedHasLabeledContent ''[subagent007 error] '' text\<rparr>"

text \<open>\<open>rawOutput.split(/\r?\n/)\<close>\<close>

definition drop_cr :: "string \<Rightarrow> string" where
  "drop_cr s = (if s \<noteq> [] \<and> of_char (last s) = (13 :: nat) then butlast s else s)"

fun split_newlines :: "string \<Rightarrow> string list" where
  "split_newlines [] = [[]]"
| "split_newlines (c # cs) =
     (if of_char c = (10 :: nat) then [] # split_newlines cs
      else (case split_newlines cs of [] \<Rightarrow> [[c]] | w # ws \<Rightarrow> (c # w) # ws))"

definition split_lines :: "string \<Rightarrow> string list" where
  "split_lines s = (let ws = split_newlines s in map drop_cr (butlast ws) @ [last ws])"

definition transcript_unavailable :: string where
  "transcript_unavailable = ''[subagent007 transcript unavailable: no public events captured]''"

record batch_state =
  bt_public :: "public_line list"
  bt_raw :: "string list"
  bt_structured :: bool

definition batch_line :: "js_runtime \<Rightarrow> bool \<Rightarrow> string \<Rightarrow> batch_state \<Rightarrow> batch_state" where
  "batch_line rt provenance line b =
     (case publicMarkerLine line of
        Some m \<Rightarrow> b\<lparr>bt_public := bt_public b @ [m], bt_raw := bt_raw b @ [pl_text m]\<rparr>
      | None \<Rightarrow>
          (case eventObjectFromJsonLine rt line of
             Some e \<Rightarrow>
               (let b' = b\<lparr>bt_structured := bt_structured b \<or> eventControlsTranscriptMode e\<rparr> in
                case publicLineForEvent e of
                  None \<Rightarrow> b'
                | Some l \<Rightarrow>
                    if provenance \<and> pl_kind l = Kind_user then b'
                    else b'\<lparr>bt_public := bt_public b' @ [l]\<rparr>)
           | None \<Rightarrow> if blank line then b else b\<lparr>bt_raw := bt_raw b @ [line]\<rparr>))"

definition blank_line :: string where
  "blank_line = newline @ newline"

definition batch_text :: "prompt_provenance option \<Rightarrow> batch_state \<Rightarrow> string" where
  "batch_text provenance b =
     (if bt_structured b then join_texts blank_line (map pl_text (bt_public b))
      else join_texts blank_line (map pl_text (provenancePublicLines provenance) @ bt_raw b))"

definition preparePublicTranscriptFromProcessOutput ::
  "js_runtime \<Rightarrow> prompt_provenance option \<Rightarrow> string \<Rightarrow> string \<times> content_flags" where
  "preparePublicTranscriptFromProcessOutput rt provenance rawOutput =
     (let b = fold (batch_line rt (provenance \<noteq> None)) (split_lines rawOutput)
            \<lparr>bt_public = provenancePublicLines provenance, bt_raw = [], bt_structured = False\<rparr>;
          text = batch_text provenance b;
          shown = (if bt_structured b \<and> blank text then transcript_unavailable else text)
      in (shown, publicTranscriptContentFlags shown))"

section \<open>Cleaning and joining\<close>

abbreviation is_newline :: "char \<Rightarrow> bool" where
  "is_newline c \<equiv> of_char c = (10 :: nat)"

lemma newline_char [simp]: "newline = [c] \<longleftrightarrow> is_newline c"
  by (auto simp: newline_def) (metis char_of_char)

text \<open>An escape that the first two alternatives leave over is no operating-system command either: its
  introducer is in the range of the first alternative.\<close>

lemma escape_command_unreachable: "escape_single s = None \<Longrightarrow> escape_command s = None"
  by (cases s) (auto simp: escape_single_def escape_command_def in_range_def)

lemma match_escape_simp:
  "match_escape prev s =
     (case s of [] \<Rightarrow> None
      | c # cs \<Rightarrow> if c \<noteq> esc then None
          else map_option Suc (case escape_single cs of Some n \<Rightarrow> Some n | None \<Rightarrow> escape_sequence cs))"
  by (auto simp: match_escape_def escape_command_unreachable split: list.splits option.splits)

lemma takeWhile_stops: "\<not> P c \<Longrightarrow> takeWhile P (a @ c # b) = takeWhile P a"
  by (induction a) auto

lemma escape_single_local: "is_newline c \<Longrightarrow> escape_single (a @ c # b) = escape_single a"
  by (cases a) (auto simp: escape_single_def in_range_def)

lemma escape_sequence_local:
  assumes "is_newline c"
  shows "escape_sequence (a @ c # b) = escape_sequence a"
proof (cases a)
  case Nil
  with assms show ?thesis by (auto simp: escape_sequence_def)
next
  case (Cons x xs)
  let ?p = "in_range 48 63" and ?q = "in_range 32 47"
  have no: "\<not> ?p c" "\<not> ?q c" "\<not> in_range 64 126 c" using assms by (auto simp: in_range_def)
  have p: "takeWhile ?p (xs @ c # b) = takeWhile ?p xs" by (rule takeWhile_stops[where P = "?p", OF no(1)])
  have le: "length (takeWhile ?p xs) \<le> length xs" by (rule length_takeWhile_le)
  then have d: "drop (length (takeWhile ?p xs)) (xs @ c # b) = drop (length (takeWhile ?p xs)) xs @ c # b" by simp
  have q: "takeWhile ?q (drop (length (takeWhile ?p xs)) (xs @ c # b)) = takeWhile ?q (drop (length (takeWhile ?p xs)) xs)"
    unfolding d by (rule takeWhile_stops[where P = "?q", OF no(2)])
  let ?n = "length (takeWhile ?p xs) + length (takeWhile ?q (drop (length (takeWhile ?p xs)) xs))"
  have "?n \<le> length xs"
    using length_takeWhile_le[of ?q "drop (length (takeWhile ?p xs)) xs"] le by simp
  then have r: "drop ?n (xs @ c # b) = drop ?n xs @ c # b" by simp
  show ?thesis
    unfolding escape_sequence_def Cons using p q r no(3)
    by (cases "drop ?n xs") (simp_all add: Let_def)
qed

lemma escape_single_length: "escape_single s = Some n \<Longrightarrow> n \<le> length s"
  by (auto simp: escape_single_def split: list.splits if_splits)

lemma escape_sequence_length: "escape_sequence s = Some n \<Longrightarrow> n \<le> length s"
  by (auto simp: escape_sequence_def Let_def split: list.splits if_splits)
    (metis Suc_leI length_drop list.size(4) zero_less_Suc zero_less_diff add.commute add_Suc_right
      add.right_neutral One_nat_def)

lemma match_escape_length: "match_escape prev s = Some n \<Longrightarrow> 0 < n \<and> n \<le> length s"
  by (auto simp: match_escape_simp split: list.splits if_splits option.splits
      dest: escape_single_length escape_sequence_length)

lemma match_escape_local: "is_newline c \<Longrightarrow> a \<noteq> [] \<Longrightarrow> match_escape prev (a @ c # b) = match_escape prev a"
  by (cases a) (auto simp: match_escape_simp escape_single_local escape_sequence_local split: option.split)

lemma match_escape_prev: "match_escape p s = match_escape q s"
  by (simp add: match_escape_def)

lemma replace_prev: "replace_matches match_escape [] p s = replace_matches match_escape [] q s"
  by (cases s) (simp_all add: match_escape_prev[of p _ q] split: option.splits)

lemma replace_newline:
  "is_newline c \<Longrightarrow>
   replace_matches match_escape [] p (a @ c # b) = replace_matches match_escape [] p a @ c # replace_matches match_escape [] q b"
proof (induction a arbitrary: p rule: length_induct)
  case (1 a)
  show ?case
  proof (cases a)
    case Nil
    with 1(2) have "match_escape p (c # b) = None" by (auto simp: match_escape_simp)
    with Nil show ?thesis using replace_prev by simp
  next
    case (Cons x xs)
    have m: "match_escape p (x # xs @ c # b) = match_escape p (x # xs)"
      using match_escape_local[OF 1(2), of "x # xs"] by simp
    show ?thesis
    proof (cases "match_escape p (x # xs)")
      case None
      with m Cons 1 show ?thesis by simp
    next
      case (Some n)
      have n: "0 < n" "n \<le> length (x # xs)" using match_escape_length[OF Some] by auto
      have d: "drop n (x # xs @ c # b) = drop n (x # xs) @ c # b" using n by (cases n) auto
      have "length (drop n (x # xs)) < length a" using n Cons by simp
      then have "replace_matches match_escape [] r (drop n (x # xs) @ c # b) =
          replace_matches match_escape [] r (drop n (x # xs)) @ c # replace_matches match_escape [] q b" for r
        using 1(1) 1(2) by blast
      then have "replace_matches match_escape [] r (drop n (x # xs @ c # b)) =
          replace_matches match_escape [] r' (drop n (x # xs)) @ c # replace_matches match_escape [] q b" for r r'
        unfolding d using replace_prev by metis
      with m Some n show ?thesis unfolding Cons append_Cons by simp
    qed
  qed
qed

lemma strip_newline:
  "is_newline c \<Longrightarrow> stripAnsiAndControls (a @ c # b) = stripAnsiAndControls a @ c # stripAnsiAndControls b"
  using replace_newline[of c None a b None]
  by (simp add: stripAnsiAndControls_def control_char_def in_range_def)

lemma strip_Nil [simp]: "stripAnsiAndControls [] = []"
  by (simp add: stripAnsiAndControls_def)

lemma strip_blank_line:
  "stripAnsiAndControls (a @ blank_line @ b) = stripAnsiAndControls a @ blank_line @ stripAnsiAndControls b"
  using strip_newline[of "char_of (10 :: nat)" a "char_of (10 :: nat) # b"] strip_newline[of "char_of (10 :: nat)" "[]" b]
  by (simp add: blank_line_def newline_def)

lemma strip_join: "stripAnsiAndControls (join_texts blank_line ts) = join_texts blank_line (map stripAnsiAndControls ts)"
proof (induction ts)
  case (Cons t ts)
  then show ?case by (cases ts) (simp_all add: strip_blank_line)
qed simp

lemma replace_plain:
  "esc \<notin> set t \<Longrightarrow> replace_matches match_escape [] p (t @ s) = t @ replace_matches match_escape [] q s"
proof (induction t arbitrary: p)
  case Nil
  then show ?case using replace_prev by simp
next
  case (Cons c cs)
  then have "match_escape p (c # cs @ s) = None" by (auto simp: match_escape_simp)
  with Cons show ?case by simp
qed

definition printable :: "string \<Rightarrow> bool" where
  "printable t \<longleftrightarrow> (\<forall>c \<in> set t. 32 \<le> (of_char c :: nat) \<and> of_char c < (127 :: nat))"

lemma printable_kept: "printable t \<Longrightarrow> esc \<notin> set t \<and> filter (\<lambda>c. \<not> control_char c) t = t"
  by (force simp: printable_def filter_id_conv control_char_def in_range_def)

lemma strip_plain: "printable t \<Longrightarrow> stripAnsiAndControls t = t"
  using replace_plain[of t None "[]" None] printable_kept[of t] by (simp add: stripAnsiAndControls_def)

text \<open>The introducer of an operating-system command is taken alone, by the first alternative; the text
  behind it stays.\<close>

lemma osc_payload_kept:
  assumes "printable payload"
  shows "stripAnsiAndControls (esc # CHR '']'' # payload @ [char_of (7 :: nat)]) = payload"
proof -
  have plain: "replace_matches match_escape [] p (payload @ [char_of (7 :: nat)]) = payload @ [char_of (7 :: nat)]" for p
  proof -
    have "match_escape None [char_of (7 :: nat)] = None" by (simp add: match_escape_simp)
    then show ?thesis using replace_plain[of payload p "[char_of (7 :: nat)]" None] printable_kept[OF assms] by simp
  qed
  have "match_escape None (esc # CHR '']'' # payload @ [char_of (7 :: nat)]) = Some 2"
    by (simp add: match_escape_simp escape_single_def in_range_def)
  then have "replace_matches match_escape [] None (esc # CHR '']'' # payload @ [char_of (7 :: nat)]) =
      payload @ [char_of (7 :: nat)]"
    using plain by simp
  then show ?thesis
    using printable_kept[OF assms] by (simp add: stripAnsiAndControls_def control_char_def in_range_def)
qed

end
