(* ===== verification/Run_Output.thy ===== *)
theory Run_Output
  imports Transcript
begin

text \<open>
  \<open>src/output.ts\<close>: references to published outputs, ownership of outputs that are pending while their
  run ends, publication of a file by descriptor, cleanup after a crash, and the transcript that is
  written while the child runs. The file system is a map from paths to inodes; the hooks of the
  publication are arbitrary changes of it, so they stand for other processes that act at these points.
  SHA-256 is an argument; a file's text is the list of its bytes.
\<close>

section \<open>References\<close>

definition max_terminal_output_bytes :: nat where
  "max_terminal_output_bytes = 1024 * 1024"

text \<open>\<open>^\d{4}-\d{2}-\d{2}T\d{9}Z-[0-9a-f]{12}$\<close>\<close>

definition timestamped_random_id :: "string \<Rightarrow> bool" where
  "timestamped_random_id s \<longleftrightarrow>
     length s = 34 \<and> list_all is_digit (take 4 s) \<and> s ! 4 = CHR ''-'' \<and>
     list_all is_digit (take 2 (drop 5 s)) \<and> s ! 7 = CHR ''-'' \<and> list_all is_digit (take 2 (drop 8 s)) \<and>
     s ! 10 = CHR ''T'' \<and> list_all is_digit (take 9 (drop 11 s)) \<and> s ! 20 = CHR ''Z'' \<and> s ! 21 = CHR ''-'' \<and>
     list_all is_hex_lower (drop 22 s)"

text \<open>Code units below 256 are their own normal form.\<close>

definition canonicalOutputBasename :: "string \<Rightarrow> bool" where
  "canonicalOutputBasename v \<longleftrightarrow>
     v \<noteq> [] \<and> v = path_basename v \<and> slash \<notin> set v \<and> char_of (92 :: nat) \<notin> set v \<and> v \<noteq> ''.'' \<and> v \<noteq> ''..'' \<and>
     ends_with ''.md'' v \<and> timestamped_random_id (take (length v - 3) v)"

definition canonicalStagingPath :: "string \<Rightarrow> string \<Rightarrow> bool" where
  "canonicalStagingPath staging output \<longleftrightarrow>
     is_absolute staging \<and> is_absolute output \<and> posix_dirname staging = posix_dirname output \<and>
     (let b = path_basename output in
      canonicalOutputBasename b \<and> path_basename staging = ''.'' @ take (length b - 3) b @ ''.partial'')"

definition output_size :: "json option \<Rightarrow> nat option" where
  "output_size v =
     (case v of
        Some (JNum x) \<Rightarrow>
          if js_is_safe_integer x \<and> 0 \<le> x \<and> x \<le> of_nat max_terminal_output_bytes then Some (nat \<lfloor>x\<rfloor>) else None
      | _ \<Rightarrow> None)"

definition output_name_of :: "json option \<Rightarrow> output_name option" where
  "output_name_of v =
     (if v = Some (JStr ''primary'') then Some Out_primary
      else if v = Some (JStr ''packet'') then Some Out_packet else None)"

definition output_mode_of :: "json option \<Rightarrow> output_mode option" where
  "output_mode_of v =
     (if v = Some (JStr ''final'') then Some OM_final
      else if v = Some (JStr ''transcript'') then Some OM_transcript else None)"

definition reference_keys :: "string list" where
  "reference_keys = [''kind'', ''name'', ''relative_path'', ''size_bytes'', ''content_sha256'', ''content_type'',
     ''encoding'', ''output_mode'']"

definition decodeRunOutputReference :: "json \<Rightarrow> run_output_reference option" where
  "decodeRunOutputReference r =
     (if \<not> is_object r \<or> \<not> exactKeys r reference_keys \<or> \<not> has_text r ''kind'' ''file'' \<or>
         \<not> has_text r ''content_type'' ''text/markdown'' \<or> \<not> has_text r ''encoding'' ''utf-8''
      then None
      else (case (output_name_of (jget r ''name''), text_of (jget r ''relative_path''),
                  output_size (jget r ''size_bytes''), text_of (jget r ''content_sha256''),
                  output_mode_of (jget r ''output_mode'')) of
          (Some n, Some p, Some sz, Some h, Some m) \<Rightarrow>
            if canonicalOutputBasename p \<and> sha256_hex h
            then Some \<lparr>ref_name = n, ref_relative_path = p, ref_size_bytes = sz, ref_content_sha256 = h,
              ref_output_mode = m\<rparr>
            else None
        | _ \<Rightarrow> None))"

definition output_name_text :: "output_name \<Rightarrow> string" where
  "output_name_text n = (case n of Out_primary \<Rightarrow> ''primary'' | Out_packet \<Rightarrow> ''packet'')"

definition output_mode_text :: "output_mode \<Rightarrow> string" where
  "output_mode_text m = (case m of OM_final \<Rightarrow> ''final'' | OM_transcript \<Rightarrow> ''transcript'')"

definition reference_json :: "run_output_reference \<Rightarrow> json" where
  "reference_json r = JObj
     [(''kind'', JStr ''file''), (''name'', JStr (output_name_text (ref_name r))),
      (''relative_path'', JStr (ref_relative_path r)), (''size_bytes'', JNum (of_nat (ref_size_bytes r))),
      (''content_sha256'', JStr (ref_content_sha256 r)), (''content_type'', JStr ''text/markdown''),
      (''encoding'', JStr ''utf-8''), (''output_mode'', JStr (output_mode_text (ref_output_mode r)))]"

definition runOutputReference :: "string \<Rightarrow> nat \<Rightarrow> string \<Rightarrow> output_mode \<Rightarrow> run_output_reference result" where
  "runOutputReference relative sz h mode =
     (case decodeRunOutputReference (reference_json \<lparr>ref_name = Out_primary, ref_relative_path = relative,
          ref_size_bytes = sz, ref_content_sha256 = h, ref_output_mode = mode\<rparr>) of
        None \<Rightarrow> Inl (PlainError ''cannot emit a noncanonical run output reference'')
      | Some r \<Rightarrow> Inr r)"

definition runOutputPath :: "json \<Rightarrow> string \<Rightarrow> string result" where
  "runOutputPath reference runsDir =
     (case decodeRunOutputReference reference of
        None \<Rightarrow> Inl (PlainError ''run output reference is malformed'')
      | Some r \<Rightarrow> Inr (path_join runsDir (ref_relative_path r)))"

section \<open>Pending terminal outputs\<close>

record pending_file =
  pf_name :: output_name
  pf_staging_path :: string
  pf_output_path :: string
  pf_size_bytes :: nat
  pf_content_sha256 :: string

record pending_outputs =
  po_run_id :: string
  po_outputs :: "pending_file list"

definition pending_file_of :: "json \<Rightarrow> pending_file result" where
  "pending_file_of v =
     (if \<not> is_object v then Inl (PlainError ''pending terminal output entry is malformed'')
      else if \<not> exactKeys v [''name'', ''staging_path'', ''output_path'', ''size_bytes'', ''content_sha256'']
      then Inl (PlainError ''pending terminal output entry is invalid'')
      else (case (output_name_of (jget v ''name''), text_of (jget v ''staging_path''),
                  text_of (jget v ''output_path''), output_size (jget v ''size_bytes''),
                  text_of (jget v ''content_sha256'')) of
          (Some n, Some s, Some p, Some sz, Some h) \<Rightarrow>
            if canonicalStagingPath s p \<and> sha256_hex h
            then Inr \<lparr>pf_name = n, pf_staging_path = s, pf_output_path = p, pf_size_bytes = sz, pf_content_sha256 = h\<rparr>
            else Inl (PlainError ''pending terminal output entry is invalid'')
        | _ \<Rightarrow> Inl (PlainError ''pending terminal output entry is invalid'')))"

fun pending_files_of :: "json list \<Rightarrow> pending_file list result" where
  "pending_files_of [] = Inr []"
| "pending_files_of (v # vs) =
     bind_result (pending_file_of v) (\<lambda>p. bind_result (pending_files_of vs) (\<lambda>ps. Inr (p # ps)))"

definition owned_paths :: "pending_file list \<Rightarrow> string list" where
  "owned_paths ps = concat (map (\<lambda>p. [pf_staging_path p, pf_output_path p]) ps)"

definition assertPendingTerminalOutputs :: "json \<Rightarrow> string option \<Rightarrow> pending_outputs result" where
  "assertPendingTerminalOutputs v expected =
     (if \<not> is_object v then Inl (PlainError ''pending terminal output ownership must be an object'')
      else (case (text_of (jget v ''run_id''), array_of (jget v ''outputs'')) of
          (Some run, Some outs) \<Rightarrow>
            if \<not> exactKeys v [''schema_version'', ''run_id'', ''outputs''] \<or> jget v ''schema_version'' \<noteq> Some (JNum 1) \<or>
               run = [] \<or> (case expected of Some x \<Rightarrow> run \<noteq> x | None \<Rightarrow> False) \<or> length outs \<noteq> 2
            then Inl (PlainError ''pending terminal output ownership is malformed'')
            else bind_result (pending_files_of outs) (\<lambda>ps.
              if set (map pf_name ps) \<noteq> {Out_primary, Out_packet} \<or> length (remdups (owned_paths ps)) \<noteq> 4
              then Inl (PlainError ''pending terminal output roles or paths are not exact'')
              else if length (remdups (map (\<lambda>p. posix_dirname (pf_output_path p)) ps)) \<noteq> 1
              then Inl (PlainError ''pending terminal outputs must share one runs directory'')
              else Inr \<lparr>po_run_id = run, po_outputs = ps\<rparr>)
        | _ \<Rightarrow> Inl (PlainError ''pending terminal output ownership is malformed'')))"

definition pending_file_json :: "pending_file \<Rightarrow> json" where
  "pending_file_json p = JObj
     [(''name'', JStr (output_name_text (pf_name p))), (''staging_path'', JStr (pf_staging_path p)),
      (''output_path'', JStr (pf_output_path p)), (''size_bytes'', JNum (of_nat (pf_size_bytes p))),
      (''content_sha256'', JStr (pf_content_sha256 p))]"

definition pending_json :: "string \<Rightarrow> pending_file list \<Rightarrow> json" where
  "pending_json run ps = JObj [(''schema_version'', JNum 1), (''run_id'', JStr run),
     (''outputs'', JArr (map pending_file_json ps))]"

definition pendingTerminalOutputs :: "string \<Rightarrow> pending_file \<Rightarrow> pending_file \<Rightarrow> pending_outputs result" where
  "pendingTerminalOutputs run primary packet = assertPendingTerminalOutputs (pending_json run [primary, packet]) (Some run)"

definition terminalReferencesOwnPendingOutputs ::
  "run_output_reference list option \<Rightarrow> pending_outputs \<Rightarrow> bool" where
  "terminalReferencesOwnPendingOutputs references pending \<longleftrightarrow>
     (case references of
        None \<Rightarrow> False
      | Some rs \<Rightarrow>
          length rs = 2 \<and>
          list_all (\<lambda>p.
            case find (\<lambda>r. ref_name r = pf_name p) rs of
              None \<Rightarrow> False
            | Some r \<Rightarrow> ref_relative_path r = path_basename (pf_output_path p) \<and>
                ref_size_bytes r = pf_size_bytes p \<and> ref_content_sha256 r = pf_content_sha256 p \<and>
                ref_output_mode r = OM_final) (po_outputs pending))"

section \<open>Files\<close>

record out_inode =
  oi_kind :: file_kind
  oi_nlink :: nat
  oi_bytes :: string
  oi_stamp :: nat

record out_fs =
  of_names :: "string \<Rightarrow> nat option"
  of_inodes :: "nat \<Rightarrow> out_inode"

text \<open>The fields of a \<open>BigIntStats\<close> that \<open>unchangedDescriptorStat\<close> compares; the stamp stands for the
  modification and change times and the mode.\<close>

record desc_stat =
  ds_ino :: nat
  ds_kind :: file_kind
  ds_nlink :: nat
  ds_size :: nat
  ds_stamp :: nat

definition handle_stat :: "out_fs \<Rightarrow> nat \<Rightarrow> desc_stat" where
  "handle_stat fs i = (let n = of_inodes fs i in
     \<lparr>ds_ino = i, ds_kind = oi_kind n, ds_nlink = oi_nlink n, ds_size = length (oi_bytes n), ds_stamp = oi_stamp n\<rparr>)"

definition isRegularSingleLink :: "desc_stat \<Rightarrow> bool" where
  "isRegularSingleLink s \<longleftrightarrow> ds_kind s = Kind_regular \<and> ds_nlink s = 1"

definition output_changed :: "'a result" where
  "output_changed = Inl (PlainError ''run output changed during descriptor finalization'')"

definition not_single_link :: "'a result" where
  "not_single_link = Inl (PlainError ''run output must be a no-follow single-link regular file'')"

definition terminalOutputLimitError :: js_error where
  "terminalOutputLimitError = PlainError ''run output exceeds the 1 MiB terminal-output limit''"

definition finalizer_read_chunk_bytes :: nat where
  "finalizer_read_chunk_bytes = 64 * 1024"

text \<open>The loop that hashes a descriptor chunk by chunk: the bytes that it feeds the hash.\<close>

function read_chunks :: "string \<Rightarrow> nat \<Rightarrow> nat \<Rightarrow> string option" where
  "read_chunks bytes sz offset =
     (if sz \<le> offset then Some []
      else (let n = min finalizer_read_chunk_bytes (sz - offset);
                chunk = take n (drop offset bytes)
            in if length chunk \<noteq> n then None
               else map_option (\<lambda>r. chunk @ r) (read_chunks bytes sz (offset + n))))"
  by pat_completeness auto
termination
  by (relation "measure (\<lambda>(b, sz, offset). sz - offset)") (auto simp: finalizer_read_chunk_bytes_def min_def)

declare read_chunks.simps [simp del]

definition descriptorSha256 :: "(string \<Rightarrow> string) \<Rightarrow> out_fs \<Rightarrow> nat \<Rightarrow> nat \<Rightarrow> string result" where
  "descriptorSha256 sha fs i sz =
     (if max_terminal_output_bytes < sz then Inl terminalOutputLimitError
      else (case read_chunks (oi_bytes (of_inodes fs i)) sz 0 of
          None \<Rightarrow> output_changed | Some b \<Rightarrow> Inr (sha b)))"

definition assertPathStillNamesDescriptor :: "out_fs \<Rightarrow> string \<Rightarrow> desc_stat \<Rightarrow> unit result" where
  "assertPathStillNamesDescriptor fs p s =
     (case of_names fs p of
        None \<Rightarrow> output_changed
      | Some i \<Rightarrow>
          if \<not> isRegularSingleLink (handle_stat fs i) \<or> s \<noteq> handle_stat fs i then output_changed else Inr ())"

definition inspectBoundedDescriptor ::
  "(string \<Rightarrow> string) \<Rightarrow> (out_fs \<Rightarrow> out_fs) \<Rightarrow> out_fs \<Rightarrow> nat \<Rightarrow> (desc_stat \<times> string \<times> out_fs) result" where
  "inspectBoundedDescriptor sha afterRead fs i =
     (let before = handle_stat fs i in
      if \<not> isRegularSingleLink before then not_single_link
      else if max_terminal_output_bytes < ds_size before then Inl terminalOutputLimitError
      else bind_result (descriptorSha256 sha fs i (ds_size before)) (\<lambda>h.
        let fs' = afterRead fs; after = handle_stat fs' i in
        if before \<noteq> after \<or> \<not> isRegularSingleLink after then output_changed
        else Inr (after, h, fs')))"

definition unlink_inode :: "nat option \<Rightarrow> (nat \<Rightarrow> out_inode) \<Rightarrow> nat \<Rightarrow> out_inode" where
  "unlink_inode i inodes =
     (case i of None \<Rightarrow> inodes
      | Some j \<Rightarrow> inodes(j := (inodes j)\<lparr>oi_nlink := oi_nlink (inodes j) - 1, oi_stamp := Suc (oi_stamp (inodes j))\<rparr>))"

text \<open>\<open>rename\<close>: the new name replaces what it named, and the inode's change time moves on.\<close>

definition fs_rename :: "string \<Rightarrow> string \<Rightarrow> nat \<Rightarrow> out_fs \<Rightarrow> out_fs" where
  "fs_rename a b i fs =
     (let inodes = unlink_inode (if of_names fs b = Some i then None else of_names fs b) (of_inodes fs) in
      fs\<lparr>of_names := (of_names fs)(a := None, b := Some i),
         of_inodes := inodes(i := (inodes i)\<lparr>oi_stamp := Suc (oi_stamp (inodes i))\<rparr>)\<rparr>)"

definition fs_rm :: "string \<Rightarrow> out_fs \<Rightarrow> out_fs" where
  "fs_rm p fs = fs\<lparr>of_names := (of_names fs)(p := None), of_inodes := unlink_inode (of_names fs p) (of_inodes fs)\<rparr>"

definition finalizeDescriptorToOutput ::
  "(string \<Rightarrow> string) \<Rightarrow> (out_fs \<Rightarrow> out_fs) \<Rightarrow> (out_fs \<Rightarrow> out_fs) \<Rightarrow> out_fs \<Rightarrow> nat \<Rightarrow> string \<Rightarrow> string \<Rightarrow>
   output_mode \<Rightarrow> bool \<Rightarrow> (run_output_reference \<times> out_fs) result" where
  "finalizeDescriptorToOutput sha beforeRename afterRead fs i staging output mode alreadyPublished =
     bind_result
       (if alreadyPublished then Inr fs
        else if \<not> isRegularSingleLink (handle_stat fs i) then not_single_link
        else (let fs1 = beforeRename fs in
          if handle_stat fs i \<noteq> handle_stat fs1 i \<or> \<not> isRegularSingleLink (handle_stat fs1 i) then output_changed
          else bind_result (assertPathStillNamesDescriptor fs1 staging (handle_stat fs1 i)) (\<lambda>_.
            Inr (fs_rename staging output i fs1))))
       (\<lambda>fs2. bind_result (inspectBoundedDescriptor sha afterRead fs2 i) (\<lambda>(s, h, fs3).
          bind_result (assertPathStillNamesDescriptor fs3 output s) (\<lambda>_.
            bind_result (runOutputReference (path_basename output) (ds_size s) h mode) (\<lambda>r. Inr (r, fs3)))))"

text \<open>Opening without following links: a symbolic link or a missing path is refused.\<close>

definition openNoFollowRegular :: "out_fs \<Rightarrow> string \<Rightarrow> nat result" where
  "openNoFollowRegular fs p =
     (case of_names fs p of
        None \<Rightarrow> not_single_link
      | Some i \<Rightarrow> if oi_kind (of_inodes fs i) = Kind_symlink then not_single_link else Inr i)"

definition readValidatedRunOutput ::
  "(string \<Rightarrow> string) \<Rightarrow> (string \<Rightarrow> string option) \<Rightarrow> out_fs \<Rightarrow> json \<Rightarrow> string \<Rightarrow> string result" where
  "readValidatedRunOutput sha utf8_text fs reference runsDir =
     (case (decodeRunOutputReference reference, runOutputPath reference runsDir) of
        (Some r, Inr p) \<Rightarrow>
          (case bind_result (openNoFollowRegular fs p) (\<lambda>i.
              bind_result (inspectBoundedDescriptor sha id fs i) (\<lambda>(s, h, _).
                if ds_size s \<noteq> ref_size_bytes r \<or> h \<noteq> ref_content_sha256 r then output_changed
                else bind_result (assertPathStillNamesDescriptor fs p s) (\<lambda>_.
                  case utf8_text (oi_bytes (of_inodes fs i)) of None \<Rightarrow> output_changed | Some t \<Rightarrow> Inr t)))
            of Inl _ \<Rightarrow> Inl (PlainError ''run output cannot be validated'') | Inr t \<Rightarrow> Inr t)
      | _ \<Rightarrow> Inl (PlainError ''run output cannot be validated''))"

section \<open>Cleanup of pending outputs\<close>

definition removeOwnedTerminalOutputPath ::
  "(string \<Rightarrow> string) \<Rightarrow> string \<Rightarrow> pending_file \<Rightarrow> out_fs \<Rightarrow> out_fs result" where
  "removeOwnedTerminalOutputPath sha p expected fs =
     (case openNoFollowRegular fs p of
        Inl e \<Rightarrow> if of_names fs p = None then Inr fs else Inl e
      | Inr i \<Rightarrow>
          bind_result (inspectBoundedDescriptor sha id fs i) (\<lambda>(s, h, _).
            if ds_size s \<noteq> pf_size_bytes expected \<or> h \<noteq> pf_content_sha256 expected
            then Inl (PlainError ''owned terminal output bytes changed before cleanup'')
            else bind_result (assertPathStillNamesDescriptor fs p s) (\<lambda>_. Inr (fs_rm p fs))))"

text \<open>The loop over the outputs: what has been removed stays removed when a later path is refused.\<close>

fun cleanup_outputs ::
  "(string \<Rightarrow> string) \<Rightarrow> (string \<times> pending_file) list \<Rightarrow> out_fs \<Rightarrow> out_fs \<times> js_error option" where
  "cleanup_outputs sha [] fs = (fs, None)"
| "cleanup_outputs sha ((p, x) # ps) fs =
     (case removeOwnedTerminalOutputPath sha p x fs of
        Inl e \<Rightarrow> (fs, Some e)
      | Inr fs' \<Rightarrow> cleanup_outputs sha ps fs')"

definition cleanup_paths :: "pending_file list \<Rightarrow> (string \<times> pending_file) list" where
  "cleanup_paths ps = concat (map (\<lambda>x. [(pf_staging_path x, x), (pf_output_path x, x)]) ps)"

definition cleanupPendingTerminalOutputs ::
  "(string \<Rightarrow> string) \<Rightarrow> json \<Rightarrow> out_fs \<Rightarrow> out_fs \<times> js_error option" where
  "cleanupPendingTerminalOutputs sha v fs =
     (case assertPendingTerminalOutputs v (text_of (jget v ''run_id'')) of
        Inl e \<Rightarrow> (fs, Some e)
      | Inr pending \<Rightarrow> cleanup_outputs sha (cleanup_paths (po_outputs pending)) fs)"

section \<open>References round trip\<close>

lemma output_name_inverse [simp]: "output_name_of (Some (JStr (output_name_text n))) = Some n"
  by (cases n) (simp_all add: output_name_of_def output_name_text_def)

lemma output_mode_inverse [simp]: "output_mode_of (Some (JStr (output_mode_text m))) = Some m"
  by (cases m) (simp_all add: output_mode_of_def output_mode_text_def)

lemma output_size_nat [simp]: "n \<le> max_terminal_output_bytes \<Longrightarrow> output_size (Some (JNum (of_nat n))) = Some n"
  by (simp add: output_size_def js_is_safe_integer_def js_is_integer_def max_terminal_output_bytes_def
      js_max_safe_integer_def)

definition reference_ok :: "run_output_reference \<Rightarrow> bool" where
  "reference_ok r \<longleftrightarrow> canonicalOutputBasename (ref_relative_path r) \<and> sha256_hex (ref_content_sha256 r) \<and>
     ref_size_bytes r \<le> max_terminal_output_bytes"

lemma decode_reference_json: "reference_ok r \<Longrightarrow> decodeRunOutputReference (reference_json r) = Some r"
  by (simp add: decodeRunOutputReference_def reference_json_def reference_ok_def is_object_def has_text_def
      exactKeys_mset jkeys_def reference_keys_def)

lemma decoded_reference_ok: "decodeRunOutputReference v = Some r \<Longrightarrow> reference_ok r"
  by (auto simp: decodeRunOutputReference_def reference_ok_def output_size_def split: if_splits option.splits json.splits)
    (simp add: le_nat_iff nat_le_iff floor_le_iff le_less_trans)

lemma runOutputReference_iff:
  "runOutputReference p n h m = Inr r \<Longrightarrow>
   r = \<lparr>ref_name = Out_primary, ref_relative_path = p, ref_size_bytes = n, ref_content_sha256 = h, ref_output_mode = m\<rparr>"
  by (auto simp: runOutputReference_def decodeRunOutputReference_def reference_json_def output_size_def
      split: option.splits if_splits)

section \<open>Publication\<close>

text \<open>The chunk loop reads exactly the file.\<close>

lemma read_chunks_prefix: "sz \<le> length bytes \<Longrightarrow> read_chunks bytes sz offset = Some (take (sz - offset) (drop offset bytes))"
proof (induction bytes sz offset rule: read_chunks.induct)
  case (1 bytes sz offset)
  show ?case
  proof (cases "sz \<le> offset")
    case True
    then show ?thesis by (simp add: read_chunks.simps)
  next
    case False
    let ?n = "min finalizer_read_chunk_bytes (sz - offset)"
    have n: "?n \<le> sz - offset" by simp
    have len: "length (take ?n (drop offset bytes)) = ?n" using 1(2) False by simp
    have rest: "read_chunks bytes sz (offset + ?n) = Some (take (sz - (offset + ?n)) (drop (offset + ?n) bytes))"
      using 1 False len by simp
    have "take ?n (drop offset bytes) @ take (sz - (offset + ?n)) (drop (offset + ?n) bytes) =
        take (?n + (sz - (offset + ?n))) (drop offset bytes)"
      by (simp only: take_add drop_drop add.commute)
    also have "?n + (sz - (offset + ?n)) = sz - offset" using n False by linarith
    finally show ?thesis
      using False len rest by (subst read_chunks.simps) (simp add: Let_def)
  qed
qed

lemma descriptor_hash: "ds_size (handle_stat fs i) \<le> max_terminal_output_bytes \<Longrightarrow>
    descriptorSha256 sha fs i (ds_size (handle_stat fs i)) = Inr (sha (oi_bytes (of_inodes fs i)))"
  by (simp add: descriptorSha256_def handle_stat_def Let_def read_chunks_prefix)

lemma inspect_iff:
  "inspectBoundedDescriptor sha hook fs i = Inr (s, h, fs') \<longleftrightarrow>
     s = handle_stat fs i \<and> isRegularSingleLink s \<and> ds_size s \<le> max_terminal_output_bytes \<and>
     h = sha (oi_bytes (of_inodes fs i)) \<and> fs' = hook fs \<and> handle_stat fs' i = s"
  using descriptor_hash[of fs i sha]
  by (auto simp: inspectBoundedDescriptor_def Let_def not_single_link_def output_changed_def split: if_splits)

lemma still_names_iff:
  "assertPathStillNamesDescriptor fs p s = Inr () \<longleftrightarrow>
     (\<exists>i. of_names fs p = Some i \<and> s = handle_stat fs i \<and> isRegularSingleLink s)"
  by (auto simp: assertPathStillNamesDescriptor_def output_changed_def split: option.splits)

text \<open>What the operating system promises of the other processes' changes: bytes that change bring a new
  change time, so an inode whose status is the same has the same bytes.\<close>

definition stamps_writes :: "(out_fs \<Rightarrow> out_fs) \<Rightarrow> bool" where
  "stamps_writes hook \<longleftrightarrow>
     (\<forall>fs i. handle_stat (hook fs) i = handle_stat fs i \<longrightarrow>
        oi_bytes (of_inodes (hook fs) i) = oi_bytes (of_inodes fs i))"

text \<open>
  C27: A published reference describes the published file. Whatever other processes do to the file system
  before the rename and while the file is hashed, when publication answers with a reference then, in the
  state of its last check, the output path names the very file that was open, a regular file without a
  second link, the reference's size is that of the file and at most 1 MiB, its hash is that of the bytes
  the file has, and its name and mode are those asked for.
\<close>

theorem published_reference_describes_file:
  assumes "finalizeDescriptorToOutput sha beforeRename afterRead fs i staging output mode published = Inr (r, fs')"
    and "stamps_writes afterRead"
  shows "of_names fs' output = Some i \<and> isRegularSingleLink (handle_stat fs' i) \<and>
    ref_size_bytes r = length (oi_bytes (of_inodes fs' i)) \<and> ref_size_bytes r \<le> max_terminal_output_bytes \<and>
    ref_content_sha256 r = sha (oi_bytes (of_inodes fs' i)) \<and>
    ref_relative_path r = path_basename output \<and> ref_output_mode r = mode \<and> ref_name r = Out_primary"
proof -
  from assms(1) obtain fs2 s h where
    ins: "inspectBoundedDescriptor sha afterRead fs2 i = Inr (s, h, fs')"
    and names: "assertPathStillNamesDescriptor fs' output s = Inr ()"
    and r: "runOutputReference (path_basename output) (ds_size s) h mode = Inr r"
    by (auto simp: finalizeDescriptorToOutput_def bind_result_Inr_iff)
  from ins have s: "s = handle_stat fs' i" "isRegularSingleLink s" "ds_size s \<le> max_terminal_output_bytes"
    and h: "h = sha (oi_bytes (of_inodes fs2 i))" and fs': "fs' = afterRead fs2" "handle_stat fs2 i = handle_stat fs' i"
    unfolding inspect_iff by auto
  have bytes: "oi_bytes (of_inodes fs' i) = oi_bytes (of_inodes fs2 i)"
    using assms(2) fs' unfolding stamps_writes_def by metis
  from names obtain j where j: "of_names fs' output = Some j" "s = handle_stat fs' j"
    unfolding still_names_iff by blast
  from j(2) s(1) have "j = i" by (simp add: handle_stat_def Let_def)
  with j s h bytes runOutputReference_iff[OF r] show ?thesis by (simp add: handle_stat_def Let_def)
qed

lemma publication_succeeds:
  assumes "of_names fs staging = Some i" and "isRegularSingleLink (handle_stat fs i)"
    and "length (oi_bytes (of_inodes fs i)) \<le> max_terminal_output_bytes"
    and "canonicalOutputBasename (path_basename output)" and "sha256_hex (sha (oi_bytes (of_inodes fs i)))"
  shows "\<exists>r. finalizeDescriptorToOutput sha id id fs i staging output mode False = Inr (r, fs_rename staging output i fs)"
proof -
  let ?fs = "fs_rename staging output i fs"
  have same: "oi_bytes (of_inodes ?fs i) = oi_bytes (of_inodes fs i)" "oi_kind (of_inodes ?fs i) = oi_kind (of_inodes fs i)"
    "oi_nlink (of_inodes ?fs i) = oi_nlink (of_inodes fs i)" "of_names ?fs output = Some i"
    by (auto simp: fs_rename_def unlink_inode_def Let_def split: option.splits)
  then have single: "isRegularSingleLink (handle_stat ?fs i)"
    and sz: "ds_size (handle_stat ?fs i) = length (oi_bytes (of_inodes fs i))"
    using assms(2) by (simp_all add: isRegularSingleLink_def handle_stat_def Let_def)
  have ins: "inspectBoundedDescriptor sha id ?fs i = Inr (handle_stat ?fs i, sha (oi_bytes (of_inodes fs i)), ?fs)"
    unfolding inspect_iff using single sz assms(3) same(1) by simp
  have names: "assertPathStillNamesDescriptor ?fs output (handle_stat ?fs i) = Inr ()"
    unfolding still_names_iff using same(4) single by blast
  have before: "assertPathStillNamesDescriptor fs staging (handle_stat fs i) = Inr ()"
    unfolding still_names_iff using assms(1,2) by blast
  have "runOutputReference (path_basename output) (length (oi_bytes (of_inodes fs i))) (sha (oi_bytes (of_inodes fs i))) mode =
      Inr \<lparr>ref_name = Out_primary, ref_relative_path = path_basename output, ref_size_bytes = length (oi_bytes (of_inodes fs i)),
        ref_content_sha256 = sha (oi_bytes (of_inodes fs i)), ref_output_mode = mode\<rparr>"
    unfolding runOutputReference_def using assms(3-5) by (subst decode_reference_json) (simp_all add: reference_ok_def)
  then show ?thesis
    using assms(2) ins names before sz by (simp add: finalizeDescriptorToOutput_def Let_def)
qed

definition demo_id :: string where
  "demo_id = ''2026-01-01T000000000Z-0123456789ab''"

definition demo_fs :: "(string \<times> nat) list \<Rightarrow> out_fs" where
  "demo_fs names = \<lparr>of_names = map_of names,
     of_inodes = (\<lambda>_. \<lparr>oi_kind = Kind_regular, oi_nlink = 1, oi_bytes = ''done'', oi_stamp = 0\<rparr>)\<rparr>"

abbreviation demo_sha :: "string \<Rightarrow> string" where
  "demo_sha \<equiv> \<lambda>_. replicate 64 CHR ''a''"

lemma demo_sha_hex: "sha256_hex (replicate 64 CHR ''a'')"
  by (simp add: hex_string_def is_hex_lower_def is_digit_def list_all_iff)

lemma demo_basename: "canonicalOutputBasename (path_basename (''/r/'' @ demo_id @ ''.md''))"
  by code_simp

theorem published_reference_describes_file_witness:
  "\<exists>r fs'. finalizeDescriptorToOutput demo_sha id id (demo_fs [(''/r/s'', 7)]) 7 ''/r/s'' (''/r/'' @ demo_id @ ''.md'')
      OM_final False = Inr (r, fs') \<and> ref_size_bytes r = 4"
proof -
  obtain r where r: "finalizeDescriptorToOutput demo_sha id id (demo_fs [(''/r/s'', 7)]) 7 ''/r/s'' (''/r/'' @ demo_id @ ''.md'')
      OM_final False = Inr (r, fs_rename ''/r/s'' (''/r/'' @ demo_id @ ''.md'') 7 (demo_fs [(''/r/s'', 7)]))"
    using publication_succeeds[of "demo_fs [(''/r/s'', 7)]" "''/r/s''" 7 "''/r/'' @ demo_id @ ''.md''" demo_sha OM_final]
      demo_sha_hex demo_basename
    by (auto simp: demo_fs_def isRegularSingleLink_def handle_stat_def Let_def max_terminal_output_bytes_def)
  have "stamps_writes id" by (simp add: stamps_writes_def)
  from published_reference_describes_file[OF r this] r show ?thesis
    by (auto simp: fs_rename_def unlink_inode_def Let_def demo_fs_def)
qed

section \<open>Cleanup\<close>

text \<open>An output of a run that ended without its record: the staged and the published path name at most
  files with the bytes that the run owns, each through a single link.\<close>

definition owned_file :: "(string \<Rightarrow> string) \<Rightarrow> pending_file \<Rightarrow> out_inode \<Rightarrow> bool" where
  "owned_file sha p n \<longleftrightarrow> oi_kind n = Kind_regular \<and> oi_nlink n = 1 \<and> length (oi_bytes n) = pf_size_bytes p \<and>
     pf_size_bytes p \<le> max_terminal_output_bytes \<and> sha (oi_bytes n) = pf_content_sha256 p"

definition owned_or_absent :: "(string \<Rightarrow> string) \<Rightarrow> out_fs \<Rightarrow> string \<times> pending_file \<Rightarrow> bool" where
  "owned_or_absent sha fs = (\<lambda>(q, p). case of_names fs q of None \<Rightarrow> True | Some i \<Rightarrow> owned_file sha p (of_inodes fs i))"

lemma remove_owned_iff:
  "removeOwnedTerminalOutputPath sha q p fs = Inr fs' \<longleftrightarrow>
     owned_or_absent sha fs (q, p) \<and> fs' = (if of_names fs q = None then fs else fs_rm q fs)"
proof (cases "of_names fs q")
  case None
  then show ?thesis
    by (auto simp: removeOwnedTerminalOutputPath_def openNoFollowRegular_def owned_or_absent_def not_single_link_def)
next
  case (Some i)
  have open_i: "openNoFollowRegular fs q = (if oi_kind (of_inodes fs i) = Kind_symlink then not_single_link else Inr i)"
    using Some by (simp add: openNoFollowRegular_def)
  have names: "assertPathStillNamesDescriptor fs q (handle_stat fs i) = Inr () \<longleftrightarrow> isRegularSingleLink (handle_stat fs i)"
    unfolding still_names_iff using Some by auto
  show ?thesis
  proof (cases "isRegularSingleLink (handle_stat fs i) \<and> ds_size (handle_stat fs i) \<le> max_terminal_output_bytes")
    case True
    then have run: "inspectBoundedDescriptor sha id fs i = Inr (handle_stat fs i, sha (oi_bytes (of_inodes fs i)), fs)"
      by (simp add: inspect_iff)
    have kind: "oi_kind (of_inodes fs i) \<noteq> Kind_symlink" and nlink: "oi_kind (of_inodes fs i) = Kind_regular" "oi_nlink (of_inodes fs i) = 1"
      using True by (auto simp: isRegularSingleLink_def handle_stat_def Let_def)
    have chk: "assertPathStillNamesDescriptor fs q (handle_stat fs i) = Inr ()" using names True by blast
    have sz: "ds_size (handle_stat fs i) = length (oi_bytes (of_inodes fs i))" by (simp add: handle_stat_def Let_def)
    show ?thesis
      using Some True nlink sz
      by (auto simp: removeOwnedTerminalOutputPath_def open_i kind run chk owned_or_absent_def owned_file_def)
  next
    case False
    then have run: "\<nexists>x. inspectBoundedDescriptor sha id fs i = Inr x" using inspect_iff[of sha id fs i] by auto
    have "\<not> owned_file sha p (of_inodes fs i)"
      using False by (auto simp: owned_file_def isRegularSingleLink_def handle_stat_def Let_def)
    moreover have "\<nexists>x. removeOwnedTerminalOutputPath sha q p fs = Inr x"
      using run by (auto simp: removeOwnedTerminalOutputPath_def open_i Some not_single_link_def bind_result_Inr_iff)
    ultimately show ?thesis using Some by (auto simp: owned_or_absent_def)
  qed
qed

lemma fs_rm_simps [simp]:
  "of_names (fs_rm q fs) p = (if p = q then None else of_names fs p)"
  "oi_bytes (of_inodes (fs_rm q fs) i) = oi_bytes (of_inodes fs i)"
  "of_names fs q \<noteq> Some i \<Longrightarrow> of_inodes (fs_rm q fs) i = of_inodes fs i"
  by (auto simp: fs_rm_def unlink_inode_def split: option.splits)

lemma cleanup_removes_only_owned_bytes:
  "cleanup_outputs sha qs fs = (fs', e) \<Longrightarrow>
   (\<forall>q. of_names fs' q = of_names fs q \<or>
     (of_names fs' q = None \<and> (\<exists>p i. (q, p) \<in> set qs \<and> of_names fs q = Some i \<and>
        length (oi_bytes (of_inodes fs i)) = pf_size_bytes p \<and> sha (oi_bytes (of_inodes fs i)) = pf_content_sha256 p)))"
proof (induction qs arbitrary: fs)
  case (Cons x qs)
  obtain q p where x: "x = (q, p)" by fastforce
  show ?case
  proof (cases "removeOwnedTerminalOutputPath sha q p fs")
    case (Inl err)
    with Cons.prems x show ?thesis by simp
  next
    case (Inr fs1)
    then have own: "owned_or_absent sha fs (q, p)" and fs1: "fs1 = (if of_names fs q = None then fs else fs_rm q fs)"
      by (simp_all add: remove_owned_iff)
    have "cleanup_outputs sha qs fs1 = (fs', e)" using Cons.prems x Inr by simp
    note IH = Cons.IH[OF this]
    have bytes: "oi_bytes (of_inodes fs1 i) = oi_bytes (of_inodes fs i)" for i by (simp add: fs1)
    show ?thesis
    proof
      fix q'
      show "of_names fs' q' = of_names fs q' \<or>
        (of_names fs' q' = None \<and> (\<exists>p i. (q', p) \<in> set (x # qs) \<and> of_names fs q' = Some i \<and>
          length (oi_bytes (of_inodes fs i)) = pf_size_bytes p \<and> sha (oi_bytes (of_inodes fs i)) = pf_content_sha256 p))"
      proof (cases "of_names fs1 q' = of_names fs q'")
        case True
        with IH[rule_format, of q'] show ?thesis by (auto simp: bytes)
      next
        case False
        then have q': "q' = q" "of_names fs q \<noteq> None" by (auto simp: fs1 split: if_splits)
        then obtain i where i: "of_names fs q = Some i" by blast
        have "of_names fs' q' = None" using IH[rule_format, of q'] q' by (auto simp: fs1)
        moreover have "owned_file sha p (of_inodes fs i)" using own i by (simp add: owned_or_absent_def)
        ultimately show ?thesis using q' i x by (auto simp: owned_file_def)
      qed
    qed
  qed
qed simp

text \<open>Two names of one file need two links.\<close>

definition links_sound :: "out_fs \<Rightarrow> bool" where
  "links_sound fs \<longleftrightarrow>
     (\<forall>p q i. of_names fs p = Some i \<and> of_names fs q = Some i \<and> oi_nlink (of_inodes fs i) = 1 \<longrightarrow> p = q)"

lemma fs_rm_keeps:
  assumes "links_sound fs" and "of_names fs q = Some i" and "oi_nlink (of_inodes fs i) = 1"
  shows "links_sound (fs_rm q fs)" and "r \<noteq> q \<Longrightarrow> owned_or_absent sha fs (r, p) \<Longrightarrow> owned_or_absent sha (fs_rm q fs) (r, p)"
proof -
  have other: "of_names fs r = Some j \<Longrightarrow> r \<noteq> q \<Longrightarrow> j \<noteq> i" for r j
    using assms unfolding links_sound_def by blast
  then have same: "of_names fs r = Some j \<Longrightarrow> r \<noteq> q \<Longrightarrow> of_inodes (fs_rm q fs) j = of_inodes fs j" for r j
    using assms(2) by fastforce
  show "links_sound (fs_rm q fs)"
    unfolding links_sound_def
  proof (intro allI impI, elim conjE)
    fix a b j
    assume a: "of_names (fs_rm q fs) a = Some j" and b: "of_names (fs_rm q fs) b = Some j"
      and n: "oi_nlink (of_inodes (fs_rm q fs) j) = 1"
    then have "a \<noteq> q" "b \<noteq> q" "of_names fs a = Some j" "of_names fs b = Some j" by (auto split: if_splits)
    with n same assms(1) show "a = b" unfolding links_sound_def by metis
  qed
  show "r \<noteq> q \<Longrightarrow> owned_or_absent sha fs (r, p) \<Longrightarrow> owned_or_absent sha (fs_rm q fs) (r, p)"
    using same by (auto simp: owned_or_absent_def split: option.splits)
qed

lemma cleanup_succeeds:
  "links_sound fs \<Longrightarrow> distinct (map fst qs) \<Longrightarrow> (\<And>x. x \<in> set qs \<Longrightarrow> owned_or_absent sha fs x) \<Longrightarrow>
   \<exists>fs'. cleanup_outputs sha qs fs = (fs', None) \<and> (\<forall>q. of_names fs' q = (if q \<in> fst ` set qs then None else of_names fs q))"
proof (induction qs arbitrary: fs)
  case (Cons x qs)
  obtain q p where x: "x = (q, p)" by fastforce
  let ?fs1 = "if of_names fs q = None then fs else fs_rm q fs"
  have own: "owned_or_absent sha fs (q, p)" using Cons.prems x by simp
  then have step: "removeOwnedTerminalOutputPath sha q p fs = Inr ?fs1" by (simp add: remove_owned_iff)
  have fs1: "links_sound ?fs1 \<and> (\<forall>y \<in> set qs. owned_or_absent sha ?fs1 y)"
  proof (cases "of_names fs q")
    case None
    with Cons.prems show ?thesis by simp
  next
    case (Some i)
    with own have one: "oi_nlink (of_inodes fs i) = 1" by (simp add: owned_or_absent_def owned_file_def)
    have "owned_or_absent sha (fs_rm q fs) y" if y: "y \<in> set qs" for y
    proof -
      obtain r p' where rp: "y = (r, p')" by fastforce
      have "r \<noteq> q" using Cons.prems(2) x y rp by force
      moreover have "owned_or_absent sha fs (r, p')" using Cons.prems(3)[of y] y rp by simp
      ultimately show ?thesis unfolding rp by (rule fs_rm_keeps(2)[OF Cons.prems(1) Some one])
    qed
    with fs_rm_keeps(1)[OF Cons.prems(1) Some one] Some show ?thesis by simp
  qed
  then obtain fs' where "cleanup_outputs sha qs ?fs1 = (fs', None)"
      "\<forall>r. of_names fs' r = (if r \<in> fst ` set qs then None else of_names ?fs1 r)"
    using Cons.IH[of ?fs1] Cons.prems(2) by auto
  with step x show ?case by auto
qed simp

lemma cleanup_paths_fst: "map fst (cleanup_paths ps) = owned_paths ps"
  by (induction ps) (simp_all add: cleanup_paths_def owned_paths_def)

lemma assertPending_distinct:
  assumes "assertPendingTerminalOutputs v x = Inr pending"
  shows "distinct (owned_paths (po_outputs pending)) \<and> length (po_outputs pending) = 2 \<and>
    text_of (jget v ''run_id'') = Some (po_run_id pending)"
proof -
  have len: "pending_files_of vs = Inr ps \<Longrightarrow> length ps = length vs" for vs ps
    by (induction vs arbitrary: ps) (auto simp: bind_result_Inr_iff)
  have obj: "is_object v" using assms unfolding assertPendingTerminalOutputs_def by (simp split: if_splits)
  obtain run where run: "text_of (jget v ''run_id'') = Some run"
    using assms obj unfolding assertPendingTerminalOutputs_def by (cases "text_of (jget v ''run_id'')") simp_all
  obtain outs where outs: "array_of (jget v ''outputs'') = Some outs"
    using assms obj run unfolding assertPendingTerminalOutputs_def by (cases "array_of (jget v ''outputs'')") simp_all
  obtain ps where ps: "pending_files_of outs = Inr ps" and two: "length outs = 2"
    and paths: "length (remdups (owned_paths ps)) = 4" and pending: "pending = \<lparr>po_run_id = run, po_outputs = ps\<rparr>"
    using assms obj unfolding assertPendingTerminalOutputs_def run outs option.case prod.case
    by (auto split: if_splits)
  have "length ps = 2" using len[OF ps] two by simp
  then have "length (owned_paths ps) = 4" by (cases ps; cases "tl ps") (auto simp: owned_paths_def)
  with paths have "distinct (owned_paths ps)"
    by (metis length_remdups_card_conv card_distinct)
  with \<open>length ps = 2\<close> run pending show ?thesis by simp
qed


definition demo_pendings :: "pending_file list" where
  "demo_pendings =
     [\<lparr>pf_name = Out_primary, pf_staging_path = ''/r/.2026-01-01T000000000Z-0123456789ab.partial'',
        pf_output_path = ''/r/2026-01-01T000000000Z-0123456789ab.md'', pf_size_bytes = 4,
        pf_content_sha256 = replicate 64 CHR ''a''\<rparr>,
      \<lparr>pf_name = Out_packet, pf_staging_path = ''/r/.2026-01-01T000000000Z-0123456789cd.partial'',
        pf_output_path = ''/r/2026-01-01T000000000Z-0123456789cd.md'', pf_size_bytes = 4,
        pf_content_sha256 = replicate 64 CHR ''a''\<rparr>]"

lemma demo_staging: "list_all (\<lambda>p. canonicalStagingPath (pf_staging_path p) (pf_output_path p)) demo_pendings"
  by code_simp

lemma demo_dirs: "map (\<lambda>p. posix_dirname (pf_output_path p)) demo_pendings = [''/r'', ''/r'']"
  by code_simp

lemma demo_pending_ok:
  "pendingTerminalOutputs ''run'' (demo_pendings ! 0) (demo_pendings ! 1) = Inr \<lparr>po_run_id = ''run'', po_outputs = demo_pendings\<rparr>"
proof -
  have staging: "canonicalStagingPath ''/r/.2026-01-01T000000000Z-0123456789ab.partial'' ''/r/2026-01-01T000000000Z-0123456789ab.md''"
    "canonicalStagingPath ''/r/.2026-01-01T000000000Z-0123456789cd.partial'' ''/r/2026-01-01T000000000Z-0123456789cd.md''"
    using demo_staging by (simp_all add: demo_pendings_def)
  have files: "pending_files_of (map pending_file_json demo_pendings) = Inr demo_pendings"
    using staging demo_sha_hex output_size_nat[of 4]
    by (simp add: demo_pendings_def pending_file_of_def pending_file_json_def is_object_def exactKeys_mset jkeys_def
        max_terminal_output_bytes_def)
  have two: "[demo_pendings ! 0, demo_pendings ! 1] = demo_pendings" by (simp add: demo_pendings_def)
  have roles: "set (map pf_name demo_pendings) = {Out_primary, Out_packet}" by (simp add: demo_pendings_def)
  have paths: "length (remdups (owned_paths demo_pendings)) = 4" by (simp add: demo_pendings_def owned_paths_def)
  have dirs: "length (remdups (map (\<lambda>p. posix_dirname (pf_output_path p)) demo_pendings)) = 1"
    unfolding demo_dirs by simp
  have "assertPendingTerminalOutputs (pending_json ''run'' demo_pendings) (Some ''run'') =
      Inr \<lparr>po_run_id = ''run'', po_outputs = demo_pendings\<rparr>"
    using files roles paths dirs
    by (simp add: assertPendingTerminalOutputs_def pending_json_def is_object_def exactKeys_mset jkeys_def array_of_def
        demo_pendings_def)
  then show ?thesis unfolding pendingTerminalOutputs_def two .
qed


end
