(* ===== verification/Run_Stream.thy ===== *)
theory Run_Stream
  imports Run_Output
begin

text \<open>
  The transcript that is written while the child runs (\<open>createStreamingRunTranscript\<close> of
  \<open>src/output.ts\<close>): the state of the closure, its operations, and what the file holds. A step returns the
  state it leaves and the error it throws, if any. \<open>ts_text\<close> is the text in the staging file.
\<close>

datatype transcript_mode = Mode_undetermined | Mode_raw | Mode_structured

record transcript_state =
  ts_mode :: transcript_mode
  ts_blocks :: nat
  ts_bytes :: nat
  ts_text :: string
  ts_closed :: bool
  ts_assistant :: bool
  ts_warning :: bool
  ts_error :: bool

type_synonym transcript_step = "transcript_state \<times> js_error option"

definition and_then :: "transcript_step \<Rightarrow> (transcript_state \<Rightarrow> transcript_step) \<Rightarrow> transcript_step" where
  "and_then s f = (case s of (st, None) \<Rightarrow> f st | (st, Some e) \<Rightarrow> (st, Some e))"

definition appendBlock ::
  "string \<Rightarrow> run_public_event_kind option \<Rightarrow> transcript_state \<Rightarrow> transcript_step" where
  "appendBlock text kind st =
     (let cleaned = stripAnsiAndControls text in
      if blank cleaned then (st, None)
      else (let block = (if 0 < ts_blocks st then blank_line else []) @ cleaned in
            if max_terminal_output_bytes < ts_bytes st + utf8_length block then (st, Some terminalOutputLimitError)
            else (st\<lparr>ts_text := ts_text st @ block, ts_bytes := ts_bytes st + utf8_length block,
                ts_blocks := Suc (ts_blocks st), ts_assistant := ts_assistant st \<or> kind = Some Kind_assistant,
                ts_warning := ts_warning st \<or> kind = Some Kind_warning,
                ts_error := ts_error st \<or> kind = Some Kind_error\<rparr>, None)))"

fun append_lines :: "public_line list \<Rightarrow> transcript_state \<Rightarrow> transcript_step" where
  "append_lines [] st = (st, None)"
| "append_lines (l # ls) st = and_then (appendBlock (pl_text l) (Some (pl_kind l)) st) (append_lines ls)"

definition resetToInitialLines :: "prompt_provenance option \<Rightarrow> transcript_state \<Rightarrow> transcript_step" where
  "resetToInitialLines provenance st =
     append_lines (provenancePublicLines provenance)
       (st\<lparr>ts_text := [], ts_blocks := 0, ts_bytes := 0, ts_assistant := False, ts_warning := False, ts_error := False\<rparr>)"

definition createStreamingRunTranscript :: "prompt_provenance option \<Rightarrow> transcript_step" where
  "createStreamingRunTranscript provenance =
     resetToInitialLines provenance \<lparr>ts_mode = Mode_undetermined, ts_blocks = 0, ts_bytes = 0, ts_text = [],
       ts_closed = False, ts_assistant = False, ts_warning = False, ts_error = False\<rparr>"

definition append_projection ::
  "prompt_provenance option \<Rightarrow> line_projection \<Rightarrow> transcript_state \<Rightarrow> transcript_step" where
  "append_projection provenance p st =
     and_then
       (if lp_controls p \<and> ts_mode st \<noteq> Mode_structured
        then resetToInitialLines provenance (st\<lparr>ts_mode := Mode_structured\<rparr>) else (st, None))
       (\<lambda>st. if ts_mode st = Mode_structured
         then (case lp_public p of
             None \<Rightarrow> (st, None)
           | Some l \<Rightarrow> if provenance \<noteq> None \<and> pl_kind l = Kind_user then (st, None)
               else appendBlock (pl_text l) (Some (pl_kind l)) st)
         else (case lp_public p of
             Some l \<Rightarrow> appendBlock (pl_text l) (Some (pl_kind l)) st
           | None \<Rightarrow> (case lp_raw p of
               None \<Rightarrow> (st, None)
             | Some r \<Rightarrow> appendBlock r None (st\<lparr>ts_mode := Mode_raw\<rparr>))))"

definition appendProcessLine ::
  "js_runtime \<Rightarrow> prompt_provenance option \<Rightarrow> string \<Rightarrow> transcript_state \<Rightarrow> transcript_step" where
  "appendProcessLine rt provenance line st =
     (if ts_closed st then (st, Some (PlainError ''cannot append to a closed run transcript''))
      else append_projection provenance (projectProcessOutputLine rt line) st)"

fun append_process_lines ::
  "js_runtime \<Rightarrow> prompt_provenance option \<Rightarrow> string list \<Rightarrow> transcript_state \<Rightarrow> transcript_step" where
  "append_process_lines rt provenance [] st = (st, None)"
| "append_process_lines rt provenance (l # ls) st =
     and_then (appendProcessLine rt provenance l st) (append_process_lines rt provenance ls)"

text \<open>\<open>finalize\<close>, before the file is published: an empty transcript gets its notice.\<close>

definition finalize_transcript :: "transcript_state \<Rightarrow> transcript_step" where
  "finalize_transcript st =
     (if ts_closed st then (st, Some (PlainError ''cannot finalize a closed run transcript''))
      else if ts_blocks st = 0 then appendBlock transcript_unavailable None st else (st, None))"

section \<open>The text that a sequence of lines stands for\<close>

text \<open>A block: its text and, for a public line, its kind.\<close>

type_synonym block = "string \<times> run_public_event_kind option"

definition line_block :: "public_line \<Rightarrow> block" where
  "line_block l = (pl_text l, Some (pl_kind l))"

definition public_block :: "bool \<Rightarrow> line_projection \<Rightarrow> block option" where
  "public_block provenance p =
     (case lp_public p of None \<Rightarrow> None
      | Some l \<Rightarrow> if provenance \<and> pl_kind l = Kind_user then None else Some (line_block l))"

definition fallback_block :: "line_projection \<Rightarrow> block option" where
  "fallback_block p =
     (case lp_public p of Some l \<Rightarrow> Some (line_block l) | None \<Rightarrow> map_option (\<lambda>r. (r, None)) (lp_raw p))"

text \<open>From the first event of the agent on only public lines count; without one, everything does.\<close>

definition selected_blocks :: "bool \<Rightarrow> line_projection list \<Rightarrow> block list" where
  "selected_blocks provenance ps =
     (if list_ex lp_controls ps
      then List.map_filter (public_block provenance) (dropWhile (\<lambda>p. \<not> lp_controls p) ps)
      else List.map_filter fallback_block ps)"

definition visible :: "block list \<Rightarrow> block list" where
  "visible bs = filter (\<lambda>(t, _). \<not> blank t) (map (\<lambda>(t, k). (stripAnsiAndControls t, k)) bs)"

definition render :: "block list \<Rightarrow> string" where
  "render bs = join_texts blank_line (map fst (visible bs))"

definition has_kind :: "run_public_event_kind \<Rightarrow> block list \<Rightarrow> bool" where
  "has_kind k bs \<longleftrightarrow> Some k \<in> snd ` set (visible bs)"

definition represents :: "transcript_state \<Rightarrow> block list \<Rightarrow> bool" where
  "represents st bs \<longleftrightarrow>
     ts_text st = render bs \<and> ts_blocks st = length (visible bs) \<and>
     ts_assistant st = has_kind Kind_assistant bs \<and> ts_warning st = has_kind Kind_warning bs \<and>
     ts_error st = has_kind Kind_error bs"

definition within_limit :: "transcript_state \<Rightarrow> bool" where
  "within_limit st \<longleftrightarrow> ts_bytes st = utf8_length (ts_text st) \<and> ts_bytes st \<le> max_terminal_output_bytes"

lemma utf8_length_append [simp]: "utf8_length (a @ b) = utf8_length a + utf8_length b"
  by (simp add: utf8_length_def)

lemma utf8_length_Nil [simp]: "utf8_length [] = 0"
  by (simp add: utf8_length_def)

lemma join_texts_snoc: "join_texts sep (xs @ [y]) = (if xs = [] then y else join_texts sep xs @ sep @ y)"
  by (induction sep xs rule: join_texts.induct) auto

lemma visible_append [simp]: "visible (a @ b) = visible a @ visible b"
  by (simp add: visible_def)

lemma visible_single:
  "visible [(t, k)] = (if blank (stripAnsiAndControls t) then [] else [(stripAnsiAndControls t, k)])"
  by (simp add: visible_def)

lemma and_then_simps [simp]: "and_then (st, None) f = f st" "and_then (st, Some e) f = (st, Some e)"
  by (simp_all add: and_then_def)

lemma and_then_None: "and_then s f = (st', None) \<longleftrightarrow> (\<exists>st. s = (st, None) \<and> f st = (st', None))"
  by (cases s; cases "snd s") auto

lemma appendBlock_within: "within_limit st \<Longrightarrow> within_limit (fst (appendBlock t k st))"
  by (simp add: appendBlock_def Let_def within_limit_def)

lemma appendBlock_cases:
  assumes "appendBlock t k st = (st', None)"
  shows "(blank (stripAnsiAndControls t) \<and> st' = st) \<or>
    (\<not> blank (stripAnsiAndControls t) \<and>
     st' = st\<lparr>ts_text := ts_text st @ (if 0 < ts_blocks st then blank_line else []) @ stripAnsiAndControls t,
       ts_bytes := ts_bytes st + utf8_length ((if 0 < ts_blocks st then blank_line else []) @ stripAnsiAndControls t),
       ts_blocks := Suc (ts_blocks st), ts_assistant := ts_assistant st \<or> k = Some Kind_assistant,
       ts_warning := ts_warning st \<or> k = Some Kind_warning, ts_error := ts_error st \<or> k = Some Kind_error\<rparr>)"
  using assms unfolding appendBlock_def Let_def by (simp split: if_splits)

lemma has_kind_snoc:
  "has_kind x (bs @ [(t, k)]) \<longleftrightarrow> has_kind x bs \<or> (\<not> blank (stripAnsiAndControls t) \<and> k = Some x)"
  by (auto simp: has_kind_def visible_single)

lemma render_snoc:
  "render (bs @ [(t, k)]) =
     (if blank (stripAnsiAndControls t) then render bs
      else render bs @ (if 0 < length (visible bs) then blank_line else []) @ stripAnsiAndControls t)"
  by (simp add: render_def visible_single join_texts_snoc)

lemma appendBlock_represents:
  assumes "represents st bs" and "appendBlock t k st = (st', None)"
  shows "represents st' (bs @ [(t, k)]) \<and> ts_mode st' = ts_mode st \<and> ts_closed st' = ts_closed st"
  using appendBlock_cases[OF assms(2)] assms(1)
  by (elim disjE conjE) (simp_all add: represents_def has_kind_snoc render_snoc visible_single)

lemma append_lines_within: "within_limit st \<Longrightarrow> within_limit (fst (append_lines ls st))"
proof (induction ls arbitrary: st)
  case (Cons l ls)
  then show ?case
    using appendBlock_within[OF Cons.prems, of "pl_text l" "Some (pl_kind l)"]
    by (cases "appendBlock (pl_text l) (Some (pl_kind l)) st"; cases "snd (appendBlock (pl_text l) (Some (pl_kind l)) st)") auto
qed simp

lemma append_lines_represents:
  "represents st bs \<Longrightarrow> append_lines ls st = (st', None) \<Longrightarrow>
   represents st' (bs @ map line_block ls) \<and> ts_mode st' = ts_mode st \<and> ts_closed st' = ts_closed st"
proof (induction ls arbitrary: st bs)
  case (Cons l ls)
  then obtain st1 where st1: "appendBlock (pl_text l) (Some (pl_kind l)) st = (st1, None)" "append_lines ls st1 = (st', None)"
    by (auto simp: and_then_None)
  have "represents st1 (bs @ [line_block l])" "ts_mode st1 = ts_mode st" "ts_closed st1 = ts_closed st"
    using appendBlock_represents[OF Cons.prems(1) st1(1)] by (simp_all add: line_block_def)
  with Cons.IH[OF _ st1(2)] show ?case by fastforce
qed simp

lemma represents_empty: "represents (st\<lparr>ts_text := [], ts_blocks := 0, ts_bytes := 0, ts_assistant := False,
    ts_warning := False, ts_error := False\<rparr>) []"
  by (simp add: represents_def render_def visible_def has_kind_def)

lemma reset_represents:
  assumes "resetToInitialLines provenance st = (st', None)"
  shows "represents st' (map line_block (provenancePublicLines provenance)) \<and> ts_mode st' = ts_mode st \<and>
    ts_closed st' = ts_closed st"
  using append_lines_represents[OF represents_empty assms[unfolded resetToInitialLines_def]] by simp

lemma reset_within: "within_limit (fst (resetToInitialLines provenance st))"
  unfolding resetToInitialLines_def by (rule append_lines_within) (simp add: within_limit_def)

text \<open>The invariant of a run over the lines: the mode records whether an agent event was seen, and the
  file holds what the lines so far stand for.\<close>

definition stream_at :: "prompt_provenance option \<Rightarrow> line_projection list \<Rightarrow> transcript_state \<Rightarrow> bool" where
  "stream_at provenance ps st \<longleftrightarrow>
     represents st (map line_block (provenancePublicLines provenance) @ selected_blocks (provenance \<noteq> None) ps) \<and>
     (ts_mode st = Mode_structured \<longleftrightarrow> list_ex lp_controls ps) \<and> \<not> ts_closed st"

lemma map_filter_snoc: "List.map_filter f (xs @ [x]) = List.map_filter f xs @ (case f x of None \<Rightarrow> [] | Some y \<Rightarrow> [y])"
  by (simp add: map_filter_def split: option.split)

lemma selected_structured:
  "list_ex lp_controls ps \<Longrightarrow> selected_blocks b (ps @ [p]) =
     selected_blocks b ps @ (case public_block b p of None \<Rightarrow> [] | Some x \<Rightarrow> [x])"
  by (auto simp: selected_blocks_def list_ex_iff dropWhile_append1 map_filter_snoc)

lemma selected_switch:
  "\<not> list_ex lp_controls ps \<Longrightarrow> lp_controls p \<Longrightarrow>
   selected_blocks b (ps @ [p]) = (case public_block b p of None \<Rightarrow> [] | Some x \<Rightarrow> [x])"
proof -
  assume no: "\<not> list_ex lp_controls ps" and p: "lp_controls p"
  from no have "dropWhile (\<lambda>p. \<not> lp_controls p) (ps @ [p]) = [p]"
    using p by (subst dropWhile_append2) (auto simp: list_ex_iff)
  with p show ?thesis using map_filter_snoc[of "public_block b" "[]" p] by (simp add: selected_blocks_def)
qed

lemma selected_fallback:
  "\<not> list_ex lp_controls ps \<Longrightarrow> \<not> lp_controls p \<Longrightarrow>
   selected_blocks b (ps @ [p]) = selected_blocks b ps @ (case fallback_block p of None \<Rightarrow> [] | Some x \<Rightarrow> [x])"
  by (simp add: selected_blocks_def map_filter_snoc)

lemma structured_step:
  assumes "represents st bs" and "ts_mode st = Mode_structured" and "\<not> ts_closed st"
    and "(case lp_public p of None \<Rightarrow> (st, None)
       | Some l \<Rightarrow> if provenance \<noteq> None \<and> pl_kind l = Kind_user then (st, None)
           else appendBlock (pl_text l) (Some (pl_kind l)) st) = (st', None)"
  shows "represents st' (bs @ (case public_block (provenance \<noteq> None) p of None \<Rightarrow> [] | Some x \<Rightarrow> [x])) \<and>
    ts_mode st' = Mode_structured \<and> \<not> ts_closed st'"
  using assms appendBlock_represents[OF assms(1)]
  by (auto simp: public_block_def line_block_def split: option.splits if_splits)

lemma append_projection_step:
  assumes "stream_at provenance ps st" and "append_projection provenance p st = (st', None)"
  shows "stream_at provenance (ps @ [p]) st'"
proof (cases "list_ex lp_controls ps")
  case True
  let ?bs = "map line_block (provenancePublicLines provenance) @ selected_blocks (provenance \<noteq> None) ps"
  have st: "represents st ?bs" "ts_mode st = Mode_structured" "\<not> ts_closed st"
    using assms(1) True by (auto simp: stream_at_def)
  have step: "(case lp_public p of None \<Rightarrow> (st, None)
       | Some l \<Rightarrow> if provenance \<noteq> None \<and> pl_kind l = Kind_user then (st, None)
           else appendBlock (pl_text l) (Some (pl_kind l)) st) = (st', None)"
    using assms(2) st(2) by (simp add: append_projection_def)
  show ?thesis
    using structured_step[OF st step] True by (simp add: stream_at_def selected_structured)
next
  case no: False
  then have mode: "ts_mode st \<noteq> Mode_structured" and still: "\<not> ts_closed st" using assms(1) by (auto simp: stream_at_def)
  show ?thesis
  proof (cases "lp_controls p")
    case True
    with assms(2) mode obtain st1 where st1:
      "resetToInitialLines provenance (st\<lparr>ts_mode := Mode_structured\<rparr>) = (st1, None)"
      and rest: "(if ts_mode st1 = Mode_structured
         then (case lp_public p of
             None \<Rightarrow> (st1, None)
           | Some l \<Rightarrow> if provenance \<noteq> None \<and> pl_kind l = Kind_user then (st1, None)
               else appendBlock (pl_text l) (Some (pl_kind l)) st1)
         else (case lp_public p of
             Some l \<Rightarrow> appendBlock (pl_text l) (Some (pl_kind l)) st1
           | None \<Rightarrow> (case lp_raw p of
               None \<Rightarrow> (st1, None)
             | Some r \<Rightarrow> appendBlock r None (st1\<lparr>ts_mode := Mode_raw\<rparr>)))) = (st', None)"
      by (auto simp: append_projection_def and_then_None)
    have r: "represents st1 (map line_block (provenancePublicLines provenance))" "ts_mode st1 = Mode_structured"
      "\<not> ts_closed st1"
      using reset_represents[OF st1] still by auto
    show ?thesis
      using structured_step[OF r(1,2,3), where p = p and provenance = provenance and st' = st'] rest r(2) True no
      by (simp add: stream_at_def selected_switch)
  next
    case False
    with assms(2) mode have step: "(case lp_public p of
             Some l \<Rightarrow> appendBlock (pl_text l) (Some (pl_kind l)) st
           | None \<Rightarrow> (case lp_raw p of
               None \<Rightarrow> (st, None)
             | Some r \<Rightarrow> appendBlock r None (st\<lparr>ts_mode := Mode_raw\<rparr>))) = (st', None)"
      by (simp add: append_projection_def)
    let ?bs = "map line_block (provenancePublicLines provenance) @ selected_blocks (provenance \<noteq> None) ps"
    have rep: "represents st ?bs" and raw: "represents (st\<lparr>ts_mode := Mode_raw\<rparr>) ?bs"
      using assms(1) by (auto simp: stream_at_def represents_def)
    show ?thesis
      using step appendBlock_represents[OF rep] appendBlock_represents[OF raw] rep mode still False no
      by (auto simp: stream_at_def selected_fallback fallback_block_def line_block_def split: option.splits)
  qed
qed

lemma stream_lines:
  "stream_at provenance ps st \<Longrightarrow> append_process_lines rt provenance ls st = (st', None) \<Longrightarrow>
   stream_at provenance (ps @ map (projectProcessOutputLine rt) ls) st'"
proof (induction ls arbitrary: ps st)
  case (Cons l ls)
  then obtain st1 where st1: "appendProcessLine rt provenance l st = (st1, None)"
      "append_process_lines rt provenance ls st1 = (st', None)"
    by (auto simp: and_then_None)
  with Cons.prems(1) have "append_projection provenance (projectProcessOutputLine rt l) st = (st1, None)"
    by (simp add: appendProcessLine_def stream_at_def)
  with append_projection_step[OF Cons.prems(1)] Cons.IH[OF _ st1(2)] show ?case by fastforce
qed simp

lemma create_stream_at: "createStreamingRunTranscript provenance = (st, None) \<Longrightarrow> stream_at provenance [] st"
  using reset_represents[of provenance _ st]
  by (fastforce simp: createStreamingRunTranscript_def stream_at_def selected_blocks_def map_filter_def)

lemma append_projection_within: "within_limit st \<Longrightarrow> within_limit (fst (append_projection provenance p st))"
proof -
  assume st: "within_limit st"
  let ?first = "if lp_controls p \<and> ts_mode st \<noteq> Mode_structured
      then resetToInitialLines provenance (st\<lparr>ts_mode := Mode_structured\<rparr>) else (st, None)"
  have first: "within_limit (fst ?first)" using st reset_within by simp
  obtain st1 e where f: "?first = (st1, e)" by (cases ?first)
  with first have st1: "within_limit st1" by simp
  have raw: "within_limit (st1\<lparr>ts_mode := Mode_raw\<rparr>)" using st1 by (simp add: within_limit_def)
  show ?thesis
    unfolding append_projection_def f
    using st1 appendBlock_within[OF st1] appendBlock_within[OF raw] by (cases e) (auto split: option.splits)
qed

lemma append_process_lines_within: "within_limit st \<Longrightarrow> within_limit (fst (append_process_lines rt provenance ls st))"
proof (induction ls arbitrary: st)
  case (Cons l ls)
  have one: "within_limit (fst (appendProcessLine rt provenance l st))"
    using Cons.prems append_projection_within by (simp add: appendProcessLine_def)
  obtain st1 e where s: "appendProcessLine rt provenance l st = (st1, e)" by (cases "appendProcessLine rt provenance l st")
  with one Cons.IH show ?case by (cases e) simp_all
qed simp

text \<open>
  C29: The staging file of a running child always holds exactly the transcript of the lines so far. When
  no step has failed, its text is the prompt's provenance followed by the selected lines, cleaned, without
  the blank ones, with an empty line between any two: the public lines from the agent's first event on, or
  everything if the agent has not spoken; and the flags say whether the text has an assistant, warning or
  error line. Whether or not a step fails, the file never exceeds the limit of 1 MiB.
\<close>

theorem streaming_transcript_refines_lines:
  assumes "createStreamingRunTranscript provenance = (st0, None)"
  shows "within_limit (fst (append_process_lines rt provenance ls st0)) \<and>
    (\<forall>st. append_process_lines rt provenance ls st0 = (st, None) \<longrightarrow>
       represents st (map line_block (provenancePublicLines provenance) @
         selected_blocks (provenance \<noteq> None) (map (projectProcessOutputLine rt) ls)))"
proof (intro conjI allI impI)
  have "within_limit st0"
    using reset_within[of provenance] assms unfolding createStreamingRunTranscript_def by (metis fst_conv)
  then show "within_limit (fst (append_process_lines rt provenance ls st0))" by (rule append_process_lines_within)
  show "represents st (map line_block (provenancePublicLines provenance) @
         selected_blocks (provenance \<noteq> None) (map (projectProcessOutputLine rt) ls))"
    if "append_process_lines rt provenance ls st0 = (st, None)" for st
    using stream_lines[OF create_stream_at[OF assms] that] by (simp add: stream_at_def)
qed

abbreviation fresh_transcript :: transcript_state where
  "fresh_transcript \<equiv> fst (createStreamingRunTranscript None)"

lemma fresh_transcript: "createStreamingRunTranscript None = (fresh_transcript, None)"
  by (simp add: createStreamingRunTranscript_def resetToInitialLines_def provenancePublicLines_def)

lemma booting_line:
  "projectProcessOutputLine sample_runtime ''booting'' = \<lparr>lp_controls = False, lp_public = None, lp_raw = Some ''booting''\<rparr>"
  by code_simp

lemma booting_run:
  "\<exists>st. append_process_lines sample_runtime None [''booting''] fresh_transcript = (st, None)"
proof -
  have mode: "ts_mode fresh_transcript = Mode_undetermined" "\<not> ts_closed fresh_transcript"
    by (simp_all add: createStreamingRunTranscript_def resetToInitialLines_def provenancePublicLines_def)
  have "append_process_lines sample_runtime None [''booting''] fresh_transcript =
      appendBlock ''booting'' None (fresh_transcript\<lparr>ts_mode := Mode_raw\<rparr>)"
    using mode by (simp add: appendProcessLine_def booting_line append_projection_def and_then_def
        split: prod.splits option.splits)
  moreover have "snd (appendBlock ''booting'' None (fresh_transcript\<lparr>ts_mode := Mode_raw\<rparr>)) = None"
    by (simp add: appendBlock_def Let_def strip_plain printable_def createStreamingRunTranscript_def
        resetToInitialLines_def provenancePublicLines_def max_terminal_output_bytes_def utf8_length_def)
  ultimately show ?thesis by (metis prod.collapse)
qed

lemma booting_blocks:
  "map line_block (provenancePublicLines None) @
     selected_blocks (None \<noteq> (None :: prompt_provenance option)) (map (projectProcessOutputLine sample_runtime) [''booting'']) =
   [(''booting'', None)]"
  by (simp add: booting_line provenancePublicLines_def selected_blocks_def map_filter_def fallback_block_def)

theorem streaming_transcript_refines_lines_witness:
  "ts_text (fst (append_process_lines sample_runtime None [''booting''] fresh_transcript)) = ''booting''"
proof -
  obtain st where st: "append_process_lines sample_runtime None [''booting''] fresh_transcript = (st, None)"
    using booting_run by blast
  then have "represents st [(''booting'', None)]"
    using streaming_transcript_refines_lines[OF fresh_transcript] unfolding booting_blocks[symmetric] by blast
  moreover have "render [(''booting'', None)] = ''booting''" by code_simp
  ultimately show ?thesis using st by (simp add: represents_def)
qed

section \<open>Streaming and batch transcripts\<close>

lemma silent_events_show_nothing: "\<not> eventControlsTranscriptMode e \<Longrightarrow> publicLineForEvent e = None"
  by (auto simp: eventControlsTranscriptMode_def silent_event_types_def publicLineForEvent_def has_text_def Let_def)

lemma marker_kind: "publicMarkerLine line = Some m \<Longrightarrow> pl_kind m = Kind_terminal"
  by (auto simp: publicMarkerLine_def Let_def split: if_splits)

text \<open>What one line adds to the two lists of the batch.\<close>

definition batch_public :: "bool \<Rightarrow> line_projection \<Rightarrow> public_line list" where
  "batch_public b p = (case lp_public p of None \<Rightarrow> [] | Some l \<Rightarrow> if b \<and> pl_kind l = Kind_user then [] else [l])"

definition batch_raw :: "line_projection \<Rightarrow> string list" where
  "batch_raw p = (case lp_raw p of None \<Rightarrow> [] | Some r \<Rightarrow> [r])"

lemma batch_line_projection:
  "batch_line rt b line x =
     (let p = projectProcessOutputLine rt line in
      \<lparr>bt_public = bt_public x @ batch_public b p, bt_raw = bt_raw x @ batch_raw p,
       bt_structured = bt_structured x \<or> lp_controls p\<rparr>)"
  by (auto simp: batch_line_def projectProcessOutputLine_def Let_def batch_public_def batch_raw_def marker_kind
      split: option.splits)

lemma batch_fold:
  "fold (batch_line rt b) ls x =
     \<lparr>bt_public = bt_public x @ concat (map (batch_public b \<circ> projectProcessOutputLine rt) ls),
      bt_raw = bt_raw x @ concat (map (batch_raw \<circ> projectProcessOutputLine rt) ls),
      bt_structured = bt_structured x \<or> list_ex lp_controls (map (projectProcessOutputLine rt) ls)\<rparr>"
proof (induction ls arbitrary: x)
  case (Cons l ls)
  show ?case unfolding fold.simps o_apply Cons.IH by (simp add: batch_line_projection Let_def)
qed simp

lemma public_blocks: "map fst (List.map_filter (public_block b) ps) = map pl_text (concat (map (batch_public b) ps))"
  by (induction ps) (auto simp: map_filter_def public_block_def batch_public_def line_block_def split: option.splits)

lemma fallback_blocks:
  "\<not> lp_controls (projectProcessOutputLine rt l) \<Longrightarrow>
   map fst (List.map_filter fallback_block [projectProcessOutputLine rt l]) = batch_raw (projectProcessOutputLine rt l)"
  using silent_events_show_nothing
  by (auto simp: map_filter_def fallback_block_def batch_raw_def projectProcessOutputLine_def line_block_def
      split: option.splits)

lemma map_filter_Cons: "List.map_filter f (x # xs) = List.map_filter f [x] @ List.map_filter f xs"
  by (simp add: map_filter_def)

lemma fallback_blocks_all:
  "\<not> list_ex lp_controls (map (projectProcessOutputLine rt) ls) \<Longrightarrow>
   map fst (List.map_filter fallback_block (map (projectProcessOutputLine rt) ls)) =
   concat (map (batch_raw \<circ> projectProcessOutputLine rt) ls)"
proof (induction ls)
  case (Cons l ls)
  let ?p = "projectProcessOutputLine rt"
  have "map fst (List.map_filter fallback_block (?p l # map ?p ls)) =
      map fst (List.map_filter fallback_block [?p l]) @ map fst (List.map_filter fallback_block (map ?p ls))"
    by (subst map_filter_Cons) (rule map_append)
  with Cons fallback_blocks[of rt l] show ?case by simp
qed (simp add: map_filter_def)

lemma concat_dropWhile: "(\<And>x. x \<in> set (takeWhile P xs) \<Longrightarrow> f x = []) \<Longrightarrow> concat (map f (dropWhile P xs)) = concat (map f xs)"
  by (induction xs) (auto split: if_splits)

text \<open>The texts that the whole-output transcript joins.\<close>

lemma batch_texts:
  assumes "\<And>l. l \<in> set (takeWhile (\<lambda>l. \<not> lp_controls (projectProcessOutputLine rt l)) ls) \<Longrightarrow> publicMarkerLine l = None \<or>
      \<not> list_ex lp_controls (map (projectProcessOutputLine rt) ls)"
  shows "batch_text provenance (fold (batch_line rt (provenance \<noteq> None)) ls
      \<lparr>bt_public = provenancePublicLines provenance, bt_raw = [], bt_structured = False\<rparr>) =
    join_texts blank_line (map fst (map line_block (provenancePublicLines provenance) @
      selected_blocks (provenance \<noteq> None) (map (projectProcessOutputLine rt) ls)))"
proof (cases "list_ex lp_controls (map (projectProcessOutputLine rt) ls)")
  case True
  have silent: "batch_public (provenance \<noteq> None) p = []"
    if p: "p \<in> set (takeWhile (\<lambda>p. \<not> lp_controls p) (map (projectProcessOutputLine rt) ls))" for p
  proof -
    from p obtain l where l: "l \<in> set (takeWhile (\<lambda>l. \<not> lp_controls (projectProcessOutputLine rt l)) ls)"
        "p = projectProcessOutputLine rt l"
      by (auto simp: takeWhile_map o_def)
    then have "\<not> lp_controls p" by (auto dest: set_takeWhileD)
    moreover have "publicMarkerLine l = None" using assms[OF l(1)] True by blast
    ultimately show ?thesis
      using l(2) silent_events_show_nothing
      by (auto simp: batch_public_def projectProcessOutputLine_def split: option.splits)
  qed
  have drop: "concat (map (batch_public (provenance \<noteq> None))
      (dropWhile (\<lambda>p. \<not> lp_controls p) (map (projectProcessOutputLine rt) ls))) =
    concat (map (batch_public (provenance \<noteq> None)) (map (projectProcessOutputLine rt) ls))"
    by (rule concat_dropWhile) (rule silent)
  show ?thesis
    using True drop
    by (simp add: batch_fold batch_text_def selected_blocks_def public_blocks line_block_def comp_def)
next
  case False
  then show ?thesis
    using fallback_blocks_all[OF False] by (simp add: batch_fold batch_text_def selected_blocks_def line_block_def comp_def)
qed

lemma visible_all: "(\<And>x. x \<in> set bs \<Longrightarrow> \<not> blank (stripAnsiAndControls (fst x))) \<Longrightarrow>
    map fst (visible bs) = map (stripAnsiAndControls \<circ> fst) bs"
proof (induction bs)
  case (Cons b bs)
  from Cons.prems[of b] Cons.IH Cons.prems show ?case by (cases b) (simp add: visible_def)
qed (simp add: visible_def)

lemma blank_iff: "blank s \<longleftrightarrow> (\<forall>c \<in> set s. js_space c)"
proof -
  have "(\<forall>c \<in> set (dropWhile js_space s). js_space c) \<longleftrightarrow> (\<forall>c \<in> set s. js_space c)"
    by (induction s) auto
  then show ?thesis by (simp add: blank_def js_trim_def)
qed

lemma blank_append: "blank (a @ b) \<longleftrightarrow> blank a \<and> blank b"
  by (auto simp: blank_iff)

lemma blank_join: "blank (join_texts sep ts) \<Longrightarrow> t \<in> set ts \<Longrightarrow> blank t"
  by (induction sep ts rule: join_texts.induct) (auto simp: blank_append)

lemma strip_blank: "blank s \<Longrightarrow> blank (stripAnsiAndControls s)"
proof -
  have sub: "set (replace_matches match_escape [] p s) \<subseteq> set s" for p
  proof (induction s arbitrary: p rule: length_induct)
    case (1 s)
    show ?case
    proof (cases s)
      case (Cons c cs)
      show ?thesis
      proof (cases "match_escape p (c # cs)")
        case None
        with 1 Cons show ?thesis by auto
      next
        case (Some n)
        with match_escape_length[OF Some] have n: "length (drop n (c # cs)) < length s" "0 < n" using Cons by auto
        then have "set (replace_matches match_escape [] q (drop n (c # cs))) \<subseteq> set (drop n (c # cs))" for q
          using 1 by blast
        then have "set (replace_matches match_escape [] q (drop n (c # cs))) \<subseteq> set s" for q
          using set_drop_subset[of n "c # cs"] Cons by blast
        with Some Cons n show ?thesis by simp
      qed
    qed simp
  qed
  then show "blank s \<Longrightarrow> blank (stripAnsiAndControls s)" by (auto simp: blank_iff stripAnsiAndControls_def)
qed



end
