(* ===== verification/Run_View.thy ===== *)
theory Run_View
  imports Run_Stream Client_Admission Run_Lifecycle
begin

text \<open>
  What makes a stored run view valid (\<open>src/runTask.ts\<close>, lines 1079-1760): the declarations of its
  request, the activation receipts it projects, the evidence that a terminal view must carry (of a child's
  result, of a session, or of the owner's own settlement) and \<open>assertCurrentRunTaskSnapshot\<close>, which every
  read and every write of a run record goes through. A view is a JSON object; \<open>Date.parse\<close>, the number
  format and SHA-256 are the runtime's. An element of one of the view's arrays that is \<open>null\<close> would throw
  a \<open>TypeError\<close> in the source; here it has no fields.
\<close>

section \<open>Field tests\<close>

definition hasOwnDefined :: "json \<Rightarrow> string \<Rightarrow> bool" where
  "hasOwnDefined view f \<longleftrightarrow> jget view f \<noteq> None"

definition hasAnyOwnField :: "json \<Rightarrow> string list \<Rightarrow> bool" where
  "hasAnyOwnField view fs \<longleftrightarrow> list_ex (hasOwnDefined view) fs"

definition truthy :: "json option \<Rightarrow> bool" where
  "truthy v \<longleftrightarrow> (case v of None \<Rightarrow> False | Some JNull \<Rightarrow> False | Some (JBool b) \<Rightarrow> b | Some (JNum x) \<Rightarrow> x \<noteq> 0
     | Some (JStr s) \<Rightarrow> s \<noteq> [] | Some (JArr _) \<Rightarrow> True | Some (JObj _) \<Rightarrow> True)"

text \<open>\<open>===\<close> on fields of two parsed objects: equal primitives or both undefined, never two objects.\<close>

definition strictly_equal :: "json option \<Rightarrow> json option \<Rightarrow> bool" where
  "strictly_equal a b \<longleftrightarrow> a = b \<and> (case a of Some (JObj _) \<Rightarrow> False | Some (JArr _) \<Rightarrow> False | _ \<Rightarrow> True)"

definition is_true :: "json option \<Rightarrow> bool" where
  "is_true v \<longleftrightarrow> v = Some (JBool True)"

definition is_false :: "json option \<Rightarrow> bool" where
  "is_false v \<longleftrightarrow> v = Some (JBool False)"

definition text_in :: "string list \<Rightarrow> json option \<Rightarrow> bool" where
  "text_in ss v \<longleftrightarrow> (case v of Some (JStr s) \<Rightarrow> s \<in> set ss | _ \<Rightarrow> False)"

definition isFiniteTimestamp :: "js_runtime \<Rightarrow> json option \<Rightarrow> bool" where
  "isFiniteTimestamp rt v \<longleftrightarrow> (case v of Some (JStr s) \<Rightarrow> \<not> blank s \<and> rt_date rt s \<noteq> None | _ \<Rightarrow> False)"

definition isNullableFiniteNumber :: "json option \<Rightarrow> bool" where
  "isNullableFiniteNumber v \<longleftrightarrow> (case v of Some JNull \<Rightarrow> True | Some (JNum _) \<Rightarrow> True | _ \<Rightarrow> False)"

definition isNullableString :: "json option \<Rightarrow> bool" where
  "isNullableString v \<longleftrightarrow> v = Some JNull \<or> nonempty_string v"

definition isUniqueStringArray :: "json option \<Rightarrow> bool" where
  "isUniqueStringArray v \<longleftrightarrow>
     (case array_of v of None \<Rightarrow> False | Some vs \<Rightarrow> list_all (\<lambda>x. nonempty_string (Some x)) vs \<and> distinct vs)"

definition elements :: "json option \<Rightarrow> json list" where
  "elements v = (case array_of v of Some vs \<Rightarrow> vs | None \<Rightarrow> [])"

section \<open>Value sets\<close>

definition terminal_status_texts :: "(string \<times> run_status) list" where
  "terminal_status_texts =
     [(''completed'', Completed), (''failed'', Failed), (''cancelled'', Cancelled), (''timed_out'', Timed_out)]"

definition stop_reason_texts :: "(string \<times> run_stop_reason) list" where
  "stop_reason_texts =
     [(''completed'', Stop_completed), (''failed'', Stop_failed), (''timeout'', Stop_timeout),
      (''cancelled'', Stop_cancelled), (''spawn_error'', Stop_spawn_error),
      (''resource_exhausted'', Stop_resource_exhausted)]"

definition nonterminal_phases :: "string list" where
  "nonterminal_phases = [''starting'', ''queued'', ''awaiting_child_event'', ''running_silent'', ''running'',
     ''input_required'', ''cancelling'']"

definition owner_settlement_events :: "string list" where
  "owner_settlement_events = [''failed'', ''cancellation_settled'', ''completed'', ''timeout'']"

definition status_of :: "json \<Rightarrow> run_status option" where
  "status_of view = (case text_of (jget view ''status'') of Some s \<Rightarrow> map_of terminal_status_texts s | None \<Rightarrow> None)"

definition isTerminalView :: "json \<Rightarrow> bool" where
  "isTerminalView view \<longleftrightarrow> status_of view \<noteq> None"

section \<open>Declarations of the request\<close>

record owner_declarations =
  od_effect_profile :: "effect_profile option"
  od_system_skill :: "string option"
  od_selected_only :: bool
  od_expected_sha :: "string option"
  od_snapshot :: "json option"
  od_delegation :: "recursive_delegation option"

text \<open>A field that is absent or, if present, satisfies its test: outer \<open>None\<close> is a field that fails it.\<close>

definition optional_field :: "(json \<Rightarrow> 'a option) \<Rightarrow> json option \<Rightarrow> 'a option option" where
  "optional_field f v = (case v of None \<Rightarrow> Some None | Some x \<Rightarrow> map_option Some (f x))"

definition enum_value :: "(string \<times> 'a) list \<Rightarrow> json \<Rightarrow> 'a option" where
  "enum_value table x = (case x of JStr s \<Rightarrow> map_of table s | _ \<Rightarrow> None)"

definition declarations_compatible :: "owner_declarations \<Rightarrow> bool" where
  "declarations_compatible d \<longleftrightarrow>
     (od_selected_only d \<longrightarrow> od_system_skill d \<noteq> None) \<and>
     (isBoundedEffectProfile (od_effect_profile d) \<longrightarrow> od_snapshot d \<noteq> None) \<and>
     \<not> (od_expected_sha d \<noteq> None \<and> od_snapshot d \<noteq> None) \<and>
     \<not> (od_effect_profile d \<noteq> None \<and> od_delegation d = Some RD_enabled)"

definition ownerRequestDeclarations :: "json \<Rightarrow> owner_declarations option" where
  "ownerRequestDeclarations view =
     (case (optional_field (enum_value effect_profiles) (jget view ''requested_effect_profile''),
            optional_field (\<lambda>x. case x of JStr s \<Rightarrow> if s = [] then None else Some s | _ \<Rightarrow> None)
              (jget view ''requested_system_skill''),
            optional_field (enum_value specialist_catalogue_scopes) (jget view ''requested_specialist_catalogue_scope''),
            optional_field (\<lambda>x. case x of JStr s \<Rightarrow> if sha256_hex s then Some s else None | _ \<Rightarrow> None)
              (jget view ''expected_skill_sha256''),
            optional_field (\<lambda>x. validatedSkillSnapshotLaunchBinding (Some x)) (jget view ''skill_snapshot_binding''),
            optional_field (enum_value recursive_delegations) (jget view ''requested_recursive_delegation'')) of
        (Some p, Some s, Some c, Some h, Some b, Some d) \<Rightarrow>
          (let r = \<lparr>od_effect_profile = p, od_system_skill = s, od_selected_only = (c \<noteq> None), od_expected_sha = h,
             od_snapshot = b, od_delegation = d\<rparr>
           in if declarations_compatible r then Some r else None)
      | _ \<Rightarrow> None)"

definition declarations_json :: "owner_declarations \<Rightarrow> json" where
  "declarations_json d = JObj
     (opt_field ''effectProfile'' (map_option (JStr \<circ> effect_profile_name) (od_effect_profile d)) @
      opt_field ''systemSkillName'' (map_option JStr (od_system_skill d)) @
      opt_field ''specialistCatalogueScope'' (if od_selected_only d then Some (JStr ''selected_only'') else None) @
      opt_field ''expectedSkillSha256'' (map_option JStr (od_expected_sha d)) @
      opt_field ''skillSnapshotBinding'' (od_snapshot d) @
      [(''requestedRecursiveDelegation'', delegation_json (od_delegation d))])"

definition activation_triggered :: "owner_declarations \<Rightarrow> bool" where
  "activation_triggered d \<longleftrightarrow> od_effect_profile d \<noteq> None \<or> od_expected_sha d \<noteq> None"

section \<open>Projected receipts\<close>

text \<open>The part that \<open>terminalActivationClass\<close> and \<open>projectedActivationIsExact\<close> share: the receipt of a view
  that has one, revalidated and in agreement with the resolved profile.\<close>

definition projected_receipt :: "js_runtime \<Rightarrow> json \<Rightarrow> owner_declarations \<Rightarrow> json option" where
  "projected_receipt rt view d =
     (if \<not> activation_triggered d \<or> \<not> truthy (jget view ''activation_receipt'') then None
      else (case validatedProjectedActivationReceipt rt (jget view ''activation_receipt'') (od_effect_profile d)
            (od_expected_sha d) of
          None \<Rightarrow> None
        | Some r \<Rightarrow>
            if (if jget r ''resolved_effect_profile'' = Some JNull then \<not> hasOwnDefined view ''resolved_effect_profile''
                else strictly_equal (jget view ''resolved_effect_profile'') (jget r ''resolved_effect_profile''))
            then Some r else None))"

definition terminalActivationClass :: "js_runtime \<Rightarrow> json \<Rightarrow> terminal_activation_class option" where
  "terminalActivationClass rt view =
     (case ownerRequestDeclarations view of
        None \<Rightarrow> None
      | Some d \<Rightarrow>
          if \<not> hasOwnDefined view ''activation_receipt''
          then (if hasOwnDefined view ''resolved_effect_profile'' then None else Some Class_other)
          else (case projected_receipt rt view d of
              None \<Rightarrow> None
            | Some r \<Rightarrow>
                if od_effect_profile d \<noteq> Some Researcher_bounded_v1 then Some Class_other
                else if jget r ''schema_version'' = Some (JNum 3) then Some Class_researcher_v3_legacy
                else if jget r ''schema_version'' = Some (JNum 4) then Some Class_researcher_v4_strict
                else None))"

definition child_event_names :: "string list" where
  "child_event_names = [''child_spawned'', ''child_bridge_started'', ''child_session_established'',
     ''activation_confirmed'', ''skill_snapshot_activation_confirmed'', ''recursive_delegation_confirmed'',
     ''system_skill_activation_confirmed'', ''child_prompt_submitted'']"

definition hasChildLifecycleEvent :: "json \<Rightarrow> bool" where
  "hasChildLifecycleEvent view \<longleftrightarrow>
     list_ex (\<lambda>e. has_text e ''kind'' ''child'' \<and> text_in child_event_names (jget e ''event''))
       (elements (jget view ''recent_events''))"

definition childPromptWasSubmitted :: "json \<Rightarrow> bool" where
  "childPromptWasSubmitted view \<longleftrightarrow>
     has_text view ''last_child_lifecycle_event'' ''child_prompt_submitted'' \<or>
     list_ex (\<lambda>e. has_text e ''kind'' ''child'' \<and> has_text e ''event'' ''child_prompt_submitted'')
       (elements (jget view ''recent_events''))"

definition projectedActivationIsExact :: "js_runtime \<Rightarrow> json \<Rightarrow> owner_declarations \<Rightarrow> bool \<Rightarrow> bool" where
  "projectedActivationIsExact rt view d promptSubmitted \<longleftrightarrow>
     (if \<not> hasOwnDefined view ''activation_receipt''
      then \<not> hasOwnDefined view ''resolved_effect_profile'' \<and> \<not> (promptSubmitted \<and> activation_triggered d)
      else projected_receipt rt view d \<noteq> None)"

definition projectedSnapshotActivationIsExact :: "json \<Rightarrow> owner_declarations \<Rightarrow> bool \<Rightarrow> bool" where
  "projectedSnapshotActivationIsExact view d promptSubmitted \<longleftrightarrow>
     (if \<not> hasOwnDefined view ''skill_snapshot_activation_receipt''
      then \<not> (promptSubmitted \<and> od_snapshot d \<noteq> None)
      else od_snapshot d \<noteq> None \<and>
        validatedSkillSnapshotActivationReceipt (jget view ''skill_snapshot_activation_receipt'') (od_snapshot d) \<noteq> None)"

definition projectedRecursiveActivationIsExact :: "json \<Rightarrow> owner_declarations \<Rightarrow> bool \<Rightarrow> bool" where
  "projectedRecursiveActivationIsExact view d promptSubmitted \<longleftrightarrow>
     (if \<not> hasOwnDefined view ''recursive_delegation_receipt''
      then \<not> hasOwnDefined view ''resolved_recursive_delegation'' \<and> \<not> promptSubmitted
      else (case text_of (jget view ''resolved_recursive_delegation'') of
          None \<Rightarrow> False
        | Some s \<Rightarrow>
            (case map_of recursive_delegations s of
               None \<Rightarrow> False
             | Some resolved \<Rightarrow>
                 validatedRecursiveDelegationReceipt (jget view ''recursive_delegation_receipt'') (od_delegation d) resolved
                   \<noteq> None)))"

definition projectedSystemSkillActivationIsExact :: "json \<Rightarrow> owner_declarations \<Rightarrow> bool \<Rightarrow> bool" where
  "projectedSystemSkillActivationIsExact view d promptSubmitted \<longleftrightarrow>
     (if \<not> hasOwnDefined view ''system_skill_activation_receipt''
      then \<not> (promptSubmitted \<and> od_system_skill d \<noteq> None)
      else (case (od_system_skill d, object_of (jget view ''system_skill_activation_receipt'')) of
          (Some name, Some r) \<Rightarrow>
            (case text_of (jget r ''resolved_skill_path'') of
               None \<Rightarrow> False
             | Some p \<Rightarrow> validatedSystemSkillActivationReceipt (Some r) name p \<noteq> None)
        | _ \<Rightarrow> False))"

definition activationFamiliesJoinExactly :: "json \<Rightarrow> bool" where
  "activationFamiliesJoinExactly view \<longleftrightarrow>
     (let skill = (case jget view ''activation_receipt'' of None \<Rightarrow> None | Some r \<Rightarrow> jget r ''skill_binding'');
          snapshot = jget view ''skill_snapshot_activation_receipt''
      in if \<not> truthy skill \<or> \<not> truthy snapshot then True
         else strictly_equal (jget (the skill) ''name'') (jget (the snapshot) ''skill_name'') \<and>
           strictly_equal (jget (the skill) ''path'') (jget (the snapshot) ''resolved_skill_path''))"

section \<open>Evidence of a result\<close>

definition hasTerminalCoreEvidence :: "json \<Rightarrow> bool" where
  "hasTerminalCoreEvidence view \<longleftrightarrow>
     is_bool (jget view ''success'') \<and>
     (jget view ''exit_code'' = Some JNull \<or> safe_integer (jget view ''exit_code'')) \<and>
     is_bool (jget view ''timed_out'') \<and> is_bool (jget view ''partial_output_available'') \<and>
     is_bool (jget view ''resume_possible'') \<and> nonneg_number (jget view ''duration_ms'') \<and>
     isNullableFiniteNumber (jget view ''requested_timeout_ms'') \<and>
     isNullableFiniteNumber (jget view ''resolved_timeout_ms'') \<and>
     isNullableFiniteNumber (jget view ''effective_timeout_ms'') \<and>
     array_of (jget view ''output_references'') \<noteq> None"

fun decode_all :: "json list \<Rightarrow> run_output_reference list option" where
  "decode_all [] = Some []"
| "decode_all (v # vs) =
     (case (decodeRunOutputReference v, decode_all vs) of (Some r, Some rs) \<Rightarrow> Some (r # rs) | _ \<Rightarrow> None)"

definition hasProcessResultEvidence :: "js_runtime \<Rightarrow> json \<Rightarrow> bool" where
  "hasProcessResultEvidence rt view \<longleftrightarrow>
     (case (decode_all (elements (jget view ''output_references'')), terminalActivationClass rt view, status_of view) of
        (Some refs, Some cls, Some st) \<Rightarrow>
          (case find (\<lambda>r. ref_name r = Out_primary) refs of
             None \<Rightarrow> False
           | Some primary \<Rightarrow>
               \<not> hasOwnDefined view ''output_path'' \<and>
               terminalProjectionIsValid
                 \<lparr>tp_profile = (case text_of (jget view ''requested_effect_profile'') of
                      Some s \<Rightarrow> map_of effect_profiles s | None \<Rightarrow> None),
                  tp_class = cls, tp_status = st, tp_outputs = refs,
                  tp_receipt = jget view ''controller_terminal_receipt''\<rparr> \<and>
               jget view ''size_bytes'' = Some (JNum (of_nat (ref_size_bytes primary))) \<and>
               has_text view ''written_output_mode'' (output_mode_text (ref_output_mode primary)) \<and>
               nonneg_number (jget view ''timeout_floor_ms'') \<and> nonneg_number (jget view ''timeout_headroom_ms'') \<and>
               nonneg_number (jget view ''kill_grace_ms'') \<and> nonneg_number (jget view ''force_grace_ms'') \<and>
               nonneg_number (jget view ''size_bytes'') \<and>
               text_in (map fst model_classes) (jget view ''resolved_model_class'') \<and>
               text_in (map fst output_modes) (jget view ''requested_output_mode'') \<and>
               text_in (map fst output_modes) (jget view ''written_output_mode'') \<and>
               (jget view ''stop_signal'' = Some JNull \<or> nonempty_string (jget view ''stop_signal'')))
      | _ \<Rightarrow> False)"

definition process_result_fields :: "string list" where
  "process_result_fields =
     [''timeout_floor_ms'', ''timeout_headroom_ms'', ''kill_grace_ms'', ''force_grace_ms'', ''size_bytes'',
      ''resolved_model_class'', ''requested_skill'', ''resolved_skill_path'', ''resolved_skill_sha256'',
      ''requested_output_mode'', ''written_output_mode'', ''stop_signal'']"

definition session_result_fields :: "string list" where
  "session_result_fields =
     [''session_dir'', ''manifest_path'', ''ledger_path'', ''attempts_path'', ''subagent_session_id'',
      ''attempt_subagent_session_id'', ''attempt_session_established'', ''created_or_resumed'', ''resume_mode'',
      ''requested_packet_policy'', ''packet_path'', ''packet_parse_status'', ''packet_error'', ''claimed_packet'',
      ''run_record'', ''model_changed_from_manifest'']"

definition owner_only_forbidden_fields :: "string list" where
  "owner_only_forbidden_fields = process_result_fields @ session_result_fields @
     [''timeout_recovery_hint'', ''partial_output_path'', ''provider_error_type'', ''provider_status_code'',
      ''provider_error_message'', ''usage_limit_plan_type'', ''usage_limit_resets_at'',
      ''usage_limit_resets_in_seconds'', ''usage_limit_retry_after_seconds'', ''usage_limit_primary_used_percent'',
      ''usage_limit_secondary_used_percent'', ''usage_limit_primary_reset_after_seconds'',
      ''usage_limit_secondary_reset_after_seconds'', ''controller_terminal_receipt'']"

definition retired_current_run_fields :: "string list" where
  "retired_current_run_fields =
     [''auto_promoted_from'', ''promotion_reason_code'', ''promotion_reason'', ''poll_with'', ''cancel_with'',
      ''skill'', ''tool_profile'']"

definition hasConsistentResultStatus :: "json \<Rightarrow> bool" where
  "hasConsistentResultStatus view \<longleftrightarrow>
     (case (text_of (jget view ''stop_reason''), status_of view) of
        (Some s, Some st) \<Rightarrow>
          (case map_of stop_reason_texts s of
             None \<Rightarrow> False
           | Some stop \<Rightarrow>
               \<not> hasOwnDefined view ''error'' \<and> is_true (jget view ''child_started'') \<and>
               terminalRunTaskStatus \<lparr>ts_success = is_true (jget view ''success''),
                 ts_timed_out = is_true (jget view ''timed_out''), ts_stop_reason = stop, ts_status = None\<rparr> = st \<and>
               (case st of
                  Completed \<Rightarrow>
                    is_true (jget view ''success'') \<and> jget view ''exit_code'' = Some (JNum 0) \<and>
                    is_false (jget view ''timed_out'') \<and> stop = Stop_completed \<and>
                    \<not> hasOwnDefined view ''error_class'' \<and> \<not> hasOwnDefined view ''reason_code''
                | Failed \<Rightarrow>
                    is_false (jget view ''success'') \<and> is_false (jget view ''timed_out'') \<and>
                    stop \<noteq> Stop_cancelled \<and> stop \<noteq> Stop_timeout \<and>
                    nonempty_string (jget view ''error_class'') \<and> nonempty_string (jget view ''reason_code'')
                | Cancelled \<Rightarrow>
                    is_false (jget view ''success'') \<and> is_false (jget view ''timed_out'') \<and> stop = Stop_cancelled
                | Timed_out \<Rightarrow>
                    is_false (jget view ''success'') \<and> is_true (jget view ''timed_out'') \<and> stop = Stop_timeout
                | _ \<Rightarrow> False))
      | _ \<Rightarrow> False)"

definition hasRunTerminalEvidence :: "js_runtime \<Rightarrow> json \<Rightarrow> bool" where
  "hasRunTerminalEvidence rt view \<longleftrightarrow>
     hasProcessResultEvidence rt view \<and> isNullableString (jget view ''session_id'') \<and>
     is_bool (jget view ''session_established'') \<and> \<not> hasOwnDefined view ''session_key'' \<and>
     \<not> hasAnyOwnField view session_result_fields"

section \<open>Evidence of a session\<close>

text \<open>The three ways an attempt's identity can agree with its record.\<close>

definition attempt_matches :: "json \<Rightarrow> json \<Rightarrow> bool" where
  "attempt_matches view record \<longleftrightarrow>
     (let attemptId = jget view ''attempt_subagent_session_id'';
          established = jget view ''attempt_session_established'';
          recordId = jget record ''attempt_subagent_session_id'';
          recordEstablished = jget record ''attempt_session_established'';
          noAttemptSession = attemptId = Some JNull \<and> is_false established \<and> recordId = Some JNull \<and>
            is_false recordEstablished \<and> is_false (jget view ''success'') \<and>
            text_in [''failed'', ''cancelled'', ''timed_out''] (jget view ''status'') \<and>
            has_text view ''created_or_resumed'' ''not_created'' \<and>
            jget view ''subagent_session_id'' = Some JNull \<and> is_false (jget view ''session_established'');
          establishedAttempt = nonempty_string attemptId \<and> is_true established \<and>
            strictly_equal recordId attemptId \<and> is_true recordEstablished;
          historicalAttempt = attemptId = None \<and> established = None \<and> recordId = None \<and> recordEstablished = None
      in noAttemptSession \<or> establishedAttempt \<or> historicalAttempt)"

definition session_commit_matches :: "json \<Rightarrow> bool" where
  "session_commit_matches view \<longleftrightarrow>
     (if truthy (jget view ''success'')
      then is_true (jget view ''session_established'') \<and> nonempty_string (jget view ''subagent_session_id'') \<and>
        text_in [''created'', ''resumed''] (jget view ''created_or_resumed'')
      else has_text view ''created_or_resumed'' ''not_created'' \<and>
        jget view ''session_established'' = Some (JBool (nonempty_string (jget view ''subagent_session_id''))))"

definition session_fields_ok :: "json \<Rightarrow> bool" where
  "session_fields_ok view \<longleftrightarrow>
     list_all (\<lambda>f. nonempty_string (jget view f))
       [''session_key'', ''session_dir'', ''manifest_path'', ''ledger_path'', ''attempts_path''] \<and>
     isNullableString (jget view ''subagent_session_id'') \<and> is_bool (jget view ''session_established'') \<and>
     text_in [''created'', ''resumed'', ''not_created''] (jget view ''created_or_resumed'') \<and>
     text_in [''new'', ''resume_or_new'', ''require_existing''] (jget view ''resume_mode'') \<and>
     text_in [''none'', ''required'', ''best_effort''] (jget view ''requested_packet_policy'') \<and>
     isNullableString (jget view ''packet_path'') \<and>
     text_in [''valid'', ''missing'', ''invalid'', ''not_run''] (jget view ''packet_parse_status'') \<and>
     (\<not> hasOwnDefined view ''packet_error'' \<or> nonempty_string (jget view ''packet_error'')) \<and>
     (jget view ''claimed_packet'' = Some JNull \<or> object_of (jget view ''claimed_packet'') \<noteq> None) \<and>
     is_bool (jget view ''model_changed_from_manifest'') \<and> \<not> hasOwnDefined view ''session_id''"

text \<open>The run record's fields and the view's fields that they repeat.\<close>

definition record_view_fields :: "(string \<times> string) list" where
  "record_view_fields =
     [(''action'', ''created_or_resumed''), (''subagent_session_id'', ''subagent_session_id''),
      (''resume_mode'', ''resume_mode''), (''packet_path'', ''packet_path''),
      (''packet_policy'', ''requested_packet_policy''), (''success'', ''success''), (''exit_code'', ''exit_code''),
      (''timed_out'', ''timed_out''), (''duration_ms'', ''duration_ms''), (''requested_skill'', ''requested_skill''),
      (''requested_output_mode'', ''requested_output_mode''), (''written_output_mode'', ''written_output_mode''),
      (''stop_reason'', ''stop_reason''), (''packet_parse_status'', ''packet_parse_status'')]"

definition hasSessionTerminalEvidence :: "js_runtime \<Rightarrow> json \<Rightarrow> bool" where
  "hasSessionTerminalEvidence rt view \<longleftrightarrow>
     hasProcessResultEvidence rt view \<and> session_fields_ok view \<and>
     (case object_of (jget view ''run_record'') of
        None \<Rightarrow> False
      | Some record \<Rightarrow>
          nonempty_string (jget record ''run_id'') \<and>
          (case jget record ''sequence'' of Some (JNum x) \<Rightarrow> js_is_safe_integer x \<and> 0 < x | _ \<Rightarrow> False) \<and>
          isFiniteTimestamp rt (jget record ''started_at'') \<and> isFiniteTimestamp rt (jget record ''finished_at'') \<and>
          list_all (\<lambda>(f, g). strictly_equal (jget record f) (jget view g)) record_view_fields \<and>
          map_option (json_text (rt_num rt)) (jget record ''output_reference'') =
            map_option (json_text (rt_num rt)) (first_of (elements (jget view ''output_references''))) \<and>
          session_commit_matches view \<and> attempt_matches view record)"

section \<open>Evidence of the owner's settlement\<close>

definition owner_validation_reason_codes :: "string list" where
  "owner_validation_reason_codes =
     [''child_entrypoint_missing'', ''child_entrypoint_not_file'', ''config_missing_default_model_class'',
      ''cancelled_before_first_output'', ''cwd_inaccessible'', ''cwd_not_absolute'', ''cwd_not_directory'',
      ''disk_reserve_exhausted'', ''client_start_id_conflict'', ''client_start_id_fenced'', ''invalid_output_mode'',
      ''invalid_packet_policy'', ''invalid_model'', ''invalid_model_class'', ''model_class_unhealthy'',
      ''invalid_resume_mode'', ''invalid_session_id'', ''invalid_session_key'', ''invalid_skill'',
      ''invalid_thinking_level'', ''invalid_effect_profile'', ''authoring_effect_scope_invalid'',
      ''authoring_effect_scope_drift'', ''invalid_expected_skill_sha256'', ''effect_profile_unsupported'',
      ''skill_binding_unsupported'', ''effect_profile_activation_failed'', ''skill_content_mismatch'',
      ''invalid_skill_snapshot_binding'', ''skill_snapshot_not_found'', ''skill_snapshot_altered'',
      ''skill_snapshot_reference_mismatch'', ''skill_snapshot_reference_closed'', ''skill_snapshot_activation_failed'',
      ''invalid_timeout_ms'', ''invalid_wait_ms'', ''local_capacity_exhausted'', ''local_queue_exhausted'',
      ''missing_session_id'', ''missing_final_output'', ''nonzero_exit'', ''packet_required_invalid'',
      ''packet_required_missing'', ''packet_required_not_ready'', ''prompt_missing'', ''raw_session_id_unsupported'',
      ''recursive_control_invalid'', ''recursive_depth_exceeded'', ''run_not_accepting_input'',
      ''run_liveness_unknown'', ''run_not_found'', ''run_subagent_timeout_unsupported'',
      ''input_request_already_answered'', ''input_request_already_closed'', ''input_request_already_timed_out'',
      ''input_request_not_found'', ''input_request_not_part_of_run'', ''input_response_id_conflict'',
      ''session_already_exists'', ''session_already_running'', ''session_cwd_mismatch'', ''session_does_not_exist'',
      ''session_ledger_invalid'', ''session_commit_invalid'', ''session_manifest_invalid'', ''session_skill_mismatch'',
      ''spawn_error'', ''timeout'', ''usage_limit_reached'', ''process_signal_terminated'',
      ''recursive_delegation_reauthorization_required'', ''recursive_delegation_effect_conflict'',
      ''recursive_delegation_activation_failed'', ''recursive_delegation_unsupported'',
      ''system_skill_activation_failed'', ''unknown_error'', ''unknown_validation_error'']"

definition elapsedMsBetween :: "js_runtime \<Rightarrow> string \<Rightarrow> string \<Rightarrow> int" where
  "elapsedMsBetween rt started finished =
     (case (rt_date rt started, rt_date rt finished) of (Some s, Some f) \<Rightarrow> max 0 (f - s) | _ \<Rightarrow> 0)"

definition restart_drift_fields :: "json \<Rightarrow> bool" where
  "restart_drift_fields view \<longleftrightarrow>
     has_text view ''error_class'' ''restart_drift'' \<and> has_text view ''reason_code'' ''server_restarted_active_run''"

definition syntheticTerminalFailureEventMetadata :: "json \<Rightarrow> (string \<times> json) list" where
  "syntheticTerminalFailureEventMetadata view =
     concat (map (\<lambda>f. opt_field f (jget view f))
       [''success'', ''error_class'', ''reason_code'', ''exit_code'', ''timed_out'', ''duration_ms'',
        ''effective_timeout_ms'', ''partial_output_available'', ''resume_possible'', ''session_id'']) @
     [(''output_reference_count'', JNum (of_nat (length (elements (jget view ''output_references'')))))]"

record owner_event =
  oe_event :: string
  oe_text :: string
  oe_occurred_at :: string
  oe_metadata :: json

definition ownerTerminalEventProjection :: "js_runtime \<Rightarrow> json \<Rightarrow> owner_event option" where
  "ownerTerminalEventProjection rt view =
     (case text_of (jget view ''finished_at'') of
        None \<Rightarrow> None
      | Some finished \<Rightarrow>
          if \<not> isFiniteTimestamp rt (jget view ''finished_at'') then None
          else if has_text view ''status'' ''cancelled'' \<and> is_false (jget view ''child_started'')
          then Some \<lparr>oe_event = ''cancellation_settled'', oe_text = ''[cancellation_settled] run cancelled'',
            oe_occurred_at = finished, oe_metadata = JObj []\<rparr>
          else if restart_drift_fields view
          then Some \<lparr>oe_event = ''failed'', oe_text = ''[failed] run is not active after MCP server restart'',
            oe_occurred_at = finished, oe_metadata = JObj (syntheticTerminalFailureEventMetadata view)\<rparr>
          else
            (case text_of (jget view ''error'') of
               None \<Rightarrow> None
             | Some e \<Rightarrow>
                 if blank e then None
                 else (let metadata = JObj (syntheticTerminalFailureEventMetadata view @ [(''error'', JStr e)]) in
                   if has_text view ''status'' ''cancelled''
                   then Some \<lparr>oe_event = ''cancellation_settled'', oe_text = ''[cancellation_settled] run cancelled'',
                     oe_occurred_at = finished, oe_metadata = metadata\<rparr>
                   else Some \<lparr>oe_event = ''failed'', oe_text = ''[failed] '' @ e, oe_occurred_at = finished,
                     oe_metadata = metadata\<rparr>)))"

definition pre_child_fields :: "string list" where
  "pre_child_fields =
     [''child_started_at'', ''queue_wait_ms'', ''last_child_lifecycle_event'', ''last_child_lifecycle_at'',
      ''first_public_output_at'', ''resolved_effect_profile'', ''activation_receipt'',
      ''skill_snapshot_activation_receipt'', ''resolved_recursive_delegation'', ''recursive_delegation_receipt'',
      ''system_skill_activation_receipt'']"

text \<open>A view with a child: its life-cycle fields and every receipt it projects.\<close>

definition observation_exact :: "js_runtime \<Rightarrow> json \<Rightarrow> owner_declarations \<Rightarrow> bool" where
  "observation_exact rt view d \<longleftrightarrow>
     (let submitted = childPromptWasSubmitted view in
      (hasOwnDefined view ''last_child_lifecycle_event'' = hasOwnDefined view ''last_child_lifecycle_at'') \<and>
      (\<not> hasOwnDefined view ''last_child_lifecycle_at'' \<or> isFiniteTimestamp rt (jget view ''last_child_lifecycle_at'')) \<and>
      (\<not> hasOwnDefined view ''child_started_at'' \<or> isFiniteTimestamp rt (jget view ''child_started_at'')) \<and>
      (\<not> hasOwnDefined view ''queue_wait_ms'' \<or> nonneg_number (jget view ''queue_wait_ms'')) \<and>
      projectedActivationIsExact rt view d submitted \<and> projectedSnapshotActivationIsExact view d submitted \<and>
      projectedRecursiveActivationIsExact view d submitted \<and>
      projectedSystemSkillActivationIsExact view d submitted \<and> activationFamiliesJoinExactly view)"

definition pre_child_exact :: "json \<Rightarrow> bool" where
  "pre_child_exact view \<longleftrightarrow>
     \<not> nonempty_string (jget view ''session_id'') \<and> is_false (jget view ''session_established'') \<and>
     \<not> hasAnyOwnField view pre_child_fields \<and> \<not> hasChildLifecycleEvent view"

definition derivedOwnerTerminalLifecycle :: "js_runtime \<Rightarrow> json \<Rightarrow> owner_event option" where
  "derivedOwnerTerminalLifecycle rt view =
     (case (ownerRequestDeclarations view, ownerTerminalEventProjection rt view) of
        (Some d, Some e) \<Rightarrow>
          if is_false (jget view ''child_started'')
          then (if pre_child_exact view then Some e else None)
          else if observation_exact rt view d then Some e else None
      | _ \<Rightarrow> None)"

definition ownerOutputClosureIsExact :: "json \<Rightarrow> bool \<Rightarrow> bool" where
  "ownerOutputClosureIsExact view restartDrift \<longleftrightarrow>
     (case array_of (jget view ''output_references'') of
        None \<Rightarrow> False
      | Some refs \<Rightarrow>
          \<not> hasOwnDefined view ''output_path'' \<and>
          (if \<not> restartDrift \<or> is_false (jget view ''partial_output_available'')
           then is_false (jget view ''partial_output_available'') \<and> refs = []
           else (case refs of
               [v] \<Rightarrow> (case decodeRunOutputReference v of
                   None \<Rightarrow> False | Some r \<Rightarrow> ref_name r = Out_primary \<and> ref_output_mode r = OM_transcript)
             | _ \<Rightarrow> False)))"

definition hasExactOwnerTerminalEvent :: "js_runtime \<Rightarrow> json \<Rightarrow> owner_event \<Rightarrow> bool" where
  "hasExactOwnerTerminalEvent rt view e \<longleftrightarrow>
     (case filter (\<lambda>ev. has_text ev ''kind'' ''terminal'' \<and> text_in owner_settlement_events (jget ev ''event''))
         (elements (jget view ''recent_events'')) of
        [t] \<Rightarrow>
          has_text t ''event'' (oe_event e) \<and> has_text t ''text'' (oe_text e) \<and>
          has_text t ''occurred_at'' (oe_occurred_at e) \<and>
          json_text (rt_num rt) (case jget t ''metadata'' of None \<Rightarrow> JObj [] | Some JNull \<Rightarrow> JObj [] | Some m \<Rightarrow> m) =
            json_text (rt_num rt) (oe_metadata e)
      | _ \<Rightarrow> False)"

text \<open>The envelope that every settlement by the owner shares.\<close>

definition owner_envelope :: "js_runtime \<Rightarrow> json \<Rightarrow> bool" where
  "owner_envelope rt view \<longleftrightarrow>
     is_false (jget view ''success'') \<and> jget view ''exit_code'' = Some JNull \<and> is_false (jget view ''timed_out'') \<and>
     is_false (jget view ''resume_possible'') \<and> jget view ''requested_timeout_ms'' = Some JNull \<and>
     jget view ''resolved_timeout_ms'' = Some JNull \<and> jget view ''effective_timeout_ms'' = Some JNull \<and>
     isNullableString (jget view ''session_id'') \<and>
     jget view ''session_established'' = Some (JBool (nonempty_string (jget view ''session_id''))) \<and>
     (case (text_of (jget view ''started_at''), text_of (jget view ''finished_at'')) of
        (Some s, Some f) \<Rightarrow> jget view ''duration_ms'' = Some (JNum (of_int (elapsedMsBetween rt s f)))
      | _ \<Rightarrow> False) \<and>
     strictly_equal (jget view ''last_phase_at'') (jget view ''finished_at'')"

definition owner_taxonomy :: "json \<Rightarrow> bool" where
  "owner_taxonomy view \<longleftrightarrow>
     (if has_text view ''error_class'' ''unknown_error'' then has_text view ''reason_code'' ''handler_error''
      else has_text view ''error_class'' ''validation_error'' \<and>
        text_in owner_validation_reason_codes (jget view ''reason_code''))"

definition hasOwnerTerminalEvidence :: "js_runtime \<Rightarrow> json \<Rightarrow> bool" where
  "hasOwnerTerminalEvidence rt view \<longleftrightarrow>
     (let restartDrift = has_text view ''status'' ''failed'' \<and> restart_drift_fields view;
          cancelled = has_text view ''status'' ''cancelled'';
          started = is_true (jget view ''child_started'')
      in \<not> hasOwnDefined view ''stop_reason'' \<and> text_in [''failed'', ''cancelled''] (jget view ''status'') \<and>
         \<not> hasAnyOwnField view owner_only_forbidden_fields \<and>
         \<not> (has_text view ''task_kind'' ''run'' \<and> hasOwnDefined view ''session_key'') \<and> owner_envelope rt view \<and>
         (case derivedOwnerTerminalLifecycle rt view of
            None \<Rightarrow> False
          | Some e \<Rightarrow>
              ownerOutputClosureIsExact view restartDrift \<and> hasExactOwnerTerminalEvent rt view e \<and>
              (if cancelled \<and> is_false (jget view ''child_started'')
               then \<not> hasAnyOwnField view [''error'', ''error_class'', ''reason_code'']
               else if restartDrift
               then has_text view ''error''
                 ''run is not active in this MCP server process; the server may have restarted''
               else ((cancelled \<and> started) \<or> has_text view ''status'' ''failed'') \<and>
                 nonempty_string (jget view ''error'') \<and> nonempty_string (jget view ''error_class'') \<and>
                 nonempty_string (jget view ''reason_code'') \<and> owner_taxonomy view)))"

section \<open>Valid snapshots\<close>

definition hasCurrentSnapshotStructure :: "js_runtime \<Rightarrow> json \<Rightarrow> bool" where
  "hasCurrentSnapshotStructure rt view \<longleftrightarrow>
     has_text view ''contract_name'' ''subagent007.durable_run'' \<and> jget view ''contract_version'' = Some (JNum 3) \<and>
     nonempty_string (jget view ''run_id'') \<and> strictly_equal (jget view ''task_id'') (jget view ''run_id'') \<and>
     text_in [''run'', ''session''] (jget view ''task_kind'') \<and> nonempty_string (jget view ''root_run_id'') \<and>
     (case jget view ''recursion_depth'' of Some (JNum x) \<Rightarrow> js_is_safe_integer x \<and> 0 \<le> x | _ \<Rightarrow> False) \<and>
     isUniqueStringArray (jget view ''child_run_ids'') \<and> isUniqueStringArray (jget view ''descendant_run_ids'') \<and>
     (case object_of (jget view ''descendant_terminal_statuses'') of
        None \<Rightarrow> False
      | Some m \<Rightarrow> list_all (\<lambda>(_, st). text_in (map fst terminal_status_texts) (Some st)) (fields_of m)) \<and>
     isFiniteTimestamp rt (jget view ''started_at'') \<and>
     (case jget view ''input_requests_dir'' of Some (JStr p) \<Rightarrow> \<not> blank p \<and> is_absolute p | _ \<Rightarrow> False) \<and>
     array_of (jget view ''input_requests'') \<noteq> None \<and> is_bool (jget view ''child_started'') \<and>
     isFiniteTimestamp rt (jget view ''last_phase_at'') \<and> text_of (jget view ''active_phase'') \<noteq> None \<and>
     (has_text view ''task_kind'' ''session'' \<longrightarrow> nonempty_string (jget view ''session_key''))"

definition pending_input :: "json \<Rightarrow> bool" where
  "pending_input view \<longleftrightarrow> list_ex (\<lambda>r. has_text r ''status'' ''pending'') (elements (jget view ''input_requests''))"

definition terminal_evidence_fields :: "string list" where
  "terminal_evidence_fields = [''finished_at'', ''success'', ''exit_code'', ''timed_out'', ''stop_reason'', ''error'',
     ''error_class'', ''reason_code'']"

definition active_view_ok :: "json \<Rightarrow> bool" where
  "active_view_ok view \<longleftrightarrow>
     text_in [''working'', ''input_required''] (jget view ''status'') \<and>
     text_in nonterminal_phases (jget view ''active_phase'') \<and> \<not> hasAnyOwnField view terminal_evidence_fields \<and>
     (if has_text view ''status'' ''input_required''
      then is_true (jget view ''child_started'') \<and> has_text view ''active_phase'' ''input_required'' \<and> pending_input view
      else \<not> has_text view ''active_phase'' ''input_required'' \<and> \<not> pending_input view)"

definition terminal_frame_ok :: "js_runtime \<Rightarrow> json \<Rightarrow> bool" where
  "terminal_frame_ok rt view \<longleftrightarrow>
     isFiniteTimestamp rt (jget view ''finished_at'') \<and>
     (case (text_of (jget view ''started_at''), text_of (jget view ''finished_at'')) of
        (Some s, Some f) \<Rightarrow> (case (rt_date rt s, rt_date rt f) of (Some a, Some b) \<Rightarrow> a \<le> b | _ \<Rightarrow> True)
      | _ \<Rightarrow> True) \<and>
     strictly_equal (jget view ''active_phase'') (jget view ''status'') \<and> hasTerminalCoreEvidence view \<and>
     \<not> pending_input view"

definition terminal_source_valid :: "js_runtime \<Rightarrow> json \<Rightarrow> bool" where
  "terminal_source_valid rt view \<longleftrightarrow>
     (if \<not> hasOwnDefined view ''stop_reason'' then hasOwnerTerminalEvidence rt view
      else if has_text view ''task_kind'' ''session''
      then hasSessionTerminalEvidence rt view \<and> hasConsistentResultStatus view
      else hasRunTerminalEvidence rt view \<and> hasConsistentResultStatus view)"

definition invalidCurrentRunTaskSnapshot :: "json \<Rightarrow> string \<Rightarrow> 'a result" where
  "invalidCurrentRunTaskSnapshot view m =
     Inl (ValidationError m (if truthy (jget view ''client_start_binding'') then Rc_client_start_id_conflict
       else Rc_run_liveness_unknown))"

definition client_start_identity_ok :: "json \<Rightarrow> bool" where
  "client_start_identity_ok view \<longleftrightarrow>
     (truthy (jget view ''client_start_binding'') \<longrightarrow>
        (let b = the (jget view ''client_start_binding'') in
         nonempty_string (jget b ''client_start_id'') \<and> sha_field (jget b ''request_sha256'') \<and>
         strictly_equal (jget b ''run_id'') (jget view ''run_id'') \<and> has_text view ''task_kind'' ''run''))"

definition validateClientStartSnapshotBinding :: "json \<Rightarrow> client_start_admission \<Rightarrow> unit result" where
  "validateClientStartSnapshotBinding view a =
     (let b = (case jget view ''client_start_binding'' of Some b \<Rightarrow> b | None \<Rightarrow> JNull); c = ca_binding a in
      ensure (has_text view ''run_id'' (cb_run_id c) \<and> has_text view ''task_id'' (cb_run_id c) \<and>
          has_text b ''client_start_id'' (cb_client_start_id c) \<and> has_text b ''request_sha256'' (cb_request_sha256 c) \<and>
          has_text b ''run_id'' (cb_run_id c))
        (ValidationError ''client_start_id run snapshot does not match its authoritative binding''
           Rc_client_start_id_conflict) (Inr ()))"

definition assertCurrentRunTaskSnapshotAdmission :: "json \<Rightarrow> client_start_admission \<Rightarrow> unit result" where
  "assertCurrentRunTaskSnapshotAdmission view a =
     bind_result (validateClientStartSnapshotBinding view a) (\<lambda>_.
       if has_text view ''started_at'' (os_admitted_at (ca_owner a)) then Inr ()
       else invalidCurrentRunTaskSnapshot view ''client_start_id run snapshot start identity does not match admission'')"

definition assertCurrentRunTaskSnapshot :: "js_runtime \<Rightarrow> json \<Rightarrow> client_start_admission option \<Rightarrow> unit result" where
  "assertCurrentRunTaskSnapshot rt view admission =
     (let invalid = invalidCurrentRunTaskSnapshot view in
      if \<not> hasCurrentSnapshotStructure rt view
      then invalid ''current durable run snapshot has an invalid structural lifecycle''
      else if \<not> client_start_identity_ok view
      then invalid ''current durable run snapshot has an invalid client_start_id identity''
      else bind_result (case admission of None \<Rightarrow> Inr () | Some a \<Rightarrow> assertCurrentRunTaskSnapshotAdmission view a) (\<lambda>_.
        if hasAnyOwnField view retired_current_run_fields
        then invalid ''current durable run snapshot contains retired public fields''
        else if \<not> isTerminalView view
        then (if active_view_ok view then Inr ()
              else invalid ''current durable run snapshot has inconsistent active evidence'')
        else if \<not> terminal_frame_ok rt view
        then invalid ''current durable run snapshot has inconsistent terminal result evidence''
        else if terminal_source_valid rt view then Inr ()
        else invalid ''current durable run snapshot has invalid task-kind terminal evidence''))"

definition validatePreparedClientStartCandidate :: "js_runtime \<Rightarrow> json \<Rightarrow> client_start_admission \<Rightarrow> unit result" where
  "validatePreparedClientStartCandidate rt view a =
     bind_result (assertCurrentRunTaskSnapshot rt view (Some a)) (\<lambda>_.
       ensure (has_text view ''status'' ''working'' \<and> is_false (jget view ''child_started'') \<and>
           has_text view ''active_phase'' ''starting'')
         (ValidationError ''prepared client_start_id candidate is not a nonterminal pre-child run''
            Rc_client_start_id_conflict) (Inr ()))"

section \<open>What a valid view says\<close>

lemma snapshot_ok_iff:
  "assertCurrentRunTaskSnapshot rt view admission = Inr () \<longleftrightarrow>
     hasCurrentSnapshotStructure rt view \<and> client_start_identity_ok view \<and>
     (case admission of None \<Rightarrow> True | Some a \<Rightarrow> assertCurrentRunTaskSnapshotAdmission view a = Inr ()) \<and>
     \<not> hasAnyOwnField view retired_current_run_fields \<and>
     (if isTerminalView view then terminal_frame_ok rt view \<and> terminal_source_valid rt view else active_view_ok view)"
  by (simp add: assertCurrentRunTaskSnapshot_def Let_def invalidCurrentRunTaskSnapshot_def split: option.split)

lemma status_of_iff: "status_of view = Some st \<longleftrightarrow> (\<exists>s. has_text view ''status'' s \<and> map_of terminal_status_texts s = Some st)"
  by (auto simp: status_of_def has_text_def text_of_def split: option.splits json.splits)

lemma map_of_status:
  "map_of terminal_status_texts s = Some Completed \<longleftrightarrow> s = ''completed''"
  "map_of terminal_status_texts s = Some Failed \<longleftrightarrow> s = ''failed''"
  "map_of terminal_status_texts s = Some Cancelled \<longleftrightarrow> s = ''cancelled''"
  "map_of terminal_status_texts s = Some Timed_out \<longleftrightarrow> s = ''timed_out''"
  unfolding terminal_status_texts_def map_of.simps fst_conv snd_conv fun_upd_apply by simp_all

lemma status_of_cases:
  "status_of view = Some Completed \<longleftrightarrow> has_text view ''status'' ''completed''"
  "status_of view = Some Failed \<longleftrightarrow> has_text view ''status'' ''failed''"
  "status_of view = Some Cancelled \<longleftrightarrow> has_text view ''status'' ''cancelled''"
  "status_of view = Some Timed_out \<longleftrightarrow> has_text view ''status'' ''timed_out''"
  unfolding status_of_iff map_of_status by simp_all

lemma no_fields: "\<not> hasAnyOwnField view fs \<Longrightarrow> f \<in> set fs \<Longrightarrow> jget view f = None"
  by (auto simp: hasAnyOwnField_def hasOwnDefined_def list_ex_iff)

text \<open>The coherence of a terminal view, and the two kinds of evidence that give it.\<close>

definition terminal_coherent :: "json \<Rightarrow> bool" where
  "terminal_coherent view \<longleftrightarrow>
     is_bool (jget view ''success'') \<and> is_bool (jget view ''timed_out'') \<and>
     (is_true (jget view ''success'') \<longleftrightarrow> has_text view ''status'' ''completed'') \<and>
     (is_true (jget view ''timed_out'') \<longleftrightarrow> has_text view ''status'' ''timed_out'') \<and>
     (has_text view ''status'' ''completed'' \<longrightarrow>
        jget view ''exit_code'' = Some (JNum 0) \<and> is_true (jget view ''child_started'') \<and>
        \<not> hasAnyOwnField view [''error'', ''error_class'', ''reason_code'']) \<and>
     (has_text view ''status'' ''failed'' \<longrightarrow>
        nonempty_string (jget view ''error_class'') \<and> nonempty_string (jget view ''reason_code''))"

lemma result_coherent:
  assumes "hasConsistentResultStatus view"
  shows "terminal_coherent view"
proof -
  from assms obtain s st stop where
    st: "status_of view = Some st" and s: "map_of stop_reason_texts s = Some stop"
    and c: "\<not> hasOwnDefined view ''error'' \<and> is_true (jget view ''child_started'')"
    and cs: "case st of
                  Completed \<Rightarrow>
                    is_true (jget view ''success'') \<and> jget view ''exit_code'' = Some (JNum 0) \<and>
                    is_false (jget view ''timed_out'') \<and> stop = Stop_completed \<and>
                    \<not> hasOwnDefined view ''error_class'' \<and> \<not> hasOwnDefined view ''reason_code''
                | Failed \<Rightarrow>
                    is_false (jget view ''success'') \<and> is_false (jget view ''timed_out'') \<and>
                    stop \<noteq> Stop_cancelled \<and> stop \<noteq> Stop_timeout \<and>
                    nonempty_string (jget view ''error_class'') \<and> nonempty_string (jget view ''reason_code'')
                | Cancelled \<Rightarrow>
                    is_false (jget view ''success'') \<and> is_false (jget view ''timed_out'') \<and> stop = Stop_cancelled
                | Timed_out \<Rightarrow>
                    is_false (jget view ''success'') \<and> is_true (jget view ''timed_out'') \<and> stop = Stop_timeout
                | _ \<Rightarrow> False"
    unfolding hasConsistentResultStatus_def by (auto split: option.splits)
  show ?thesis
  proof (cases st)
    case Completed
    with st have "has_text view ''status'' ''completed''" by (simp add: status_of_cases)
    with c cs Completed show ?thesis
      by (simp add: terminal_coherent_def is_true_def is_false_def is_bool_def has_text_def hasAnyOwnField_def)
  next
    case Failed
    with st have "has_text view ''status'' ''failed''" by (simp add: status_of_cases)
    with c cs Failed show ?thesis
      by (simp add: terminal_coherent_def is_true_def is_false_def is_bool_def has_text_def)
  next
    case Cancelled
    with st have "has_text view ''status'' ''cancelled''" by (simp add: status_of_cases)
    with c cs Cancelled show ?thesis
      by (simp add: terminal_coherent_def is_true_def is_false_def is_bool_def has_text_def)
  next
    case Timed_out
    with st have "has_text view ''status'' ''timed_out''" by (simp add: status_of_cases)
    with c cs Timed_out show ?thesis
      by (simp add: terminal_coherent_def is_true_def is_false_def is_bool_def has_text_def)
  qed (use cs in simp_all)
qed

lemma owner_facts:
  assumes "hasOwnerTerminalEvidence rt view"
  shows "owner_envelope rt view" "text_in [''failed'', ''cancelled''] (jget view ''status'')"
    "has_text view ''status'' ''failed'' \<Longrightarrow> nonempty_string (jget view ''error_class'') \<and> nonempty_string (jget view ''reason_code'')"
    "has_text view ''status'' ''failed'' \<Longrightarrow> \<not> restart_drift_fields view \<Longrightarrow> owner_taxonomy view"
    "has_text view ''status'' ''cancelled'' \<Longrightarrow> \<not> is_false (jget view ''child_started'') \<Longrightarrow> owner_taxonomy view"
proof -
  note ev = assms[unfolded hasOwnerTerminalEvidence_def Let_def]
  show "owner_envelope rt view" "text_in [''failed'', ''cancelled''] (jget view ''status'')" using ev by blast+
  obtain e where e: "derivedOwnerTerminalLifecycle rt view = Some e"
    using ev by (cases "derivedOwnerTerminalLifecycle rt view") simp_all
  note body = ev[unfolded e option.case]
  show "nonempty_string (jget view ''error_class'') \<and> nonempty_string (jget view ''reason_code'')"
    if failed: "has_text view ''status'' ''failed''"
  proof (cases "restart_drift_fields view")
    case True
    then show ?thesis by (simp add: restart_drift_fields_def has_text_def blank_Cons js_space_def)
  next
    case False
    have "\<not> has_text view ''status'' ''cancelled''" using failed by (simp add: has_text_def)
    with False body show ?thesis by auto
  qed
  show "owner_taxonomy view" if "has_text view ''status'' ''failed''" "\<not> restart_drift_fields view"
  proof -
    have "\<not> has_text view ''status'' ''cancelled''" using that by (simp add: has_text_def)
    with that body show ?thesis by auto
  qed
  show "owner_taxonomy view" if "has_text view ''status'' ''cancelled''" "\<not> is_false (jget view ''child_started'')"
  proof -
    have "\<not> has_text view ''status'' ''failed''" using that by (simp add: has_text_def)
    with that body show ?thesis by auto
  qed
qed

lemma owner_coherent: "hasOwnerTerminalEvidence rt view \<Longrightarrow> terminal_coherent view"
  using owner_facts(1-3)[of rt view]
  by (auto simp: terminal_coherent_def owner_envelope_def is_true_def is_false_def is_bool_def has_text_def
      text_in_def split: option.splits json.splits)


text \<open>A run that was cancelled before its child started.\<close>

definition demo_view :: json where
  "demo_view = JObj
     [(''contract_name'', JStr ''subagent007.durable_run''), (''contract_version'', JNum 3), (''run_id'', JStr ''r''),
      (''task_id'', JStr ''r''), (''task_kind'', JStr ''run''), (''root_run_id'', JStr ''r''), (''recursion_depth'', JNum 0),
      (''child_run_ids'', JArr []), (''descendant_run_ids'', JArr []), (''descendant_terminal_statuses'', JObj []),
      (''started_at'', JStr ''t''), (''input_requests_dir'', JStr ''/i''), (''input_requests'', JArr []),
      (''child_started'', JBool False), (''last_phase_at'', JStr ''t''), (''active_phase'', JStr ''cancelled''),
      (''status'', JStr ''cancelled''), (''finished_at'', JStr ''t''), (''success'', JBool False), (''exit_code'', JNull),
      (''timed_out'', JBool False), (''partial_output_available'', JBool False), (''resume_possible'', JBool False),
      (''duration_ms'', JNum 0), (''requested_timeout_ms'', JNull), (''resolved_timeout_ms'', JNull),
      (''effective_timeout_ms'', JNull), (''session_id'', JNull), (''session_established'', JBool False),
      (''output_references'', JArr []),
      (''recent_events'', JArr [JObj [(''kind'', JStr ''terminal''), (''event'', JStr ''cancellation_settled''),
         (''text'', JStr ''[cancellation_settled] run cancelled''), (''occurred_at'', JStr ''t'')]])]"

lemma demo_structure: "hasCurrentSnapshotStructure sample_runtime demo_view"
  by code_simp

lemma demo_identity: "client_start_identity_ok demo_view"
  by code_simp

lemma demo_terminal: "isTerminalView demo_view"
  by code_simp

lemma demo_retired: "\<not> hasAnyOwnField demo_view retired_current_run_fields"
  by code_simp

lemma demo_frame: "terminal_frame_ok sample_runtime demo_view"
  by code_simp

lemma demo_event: "ownerTerminalEventProjection sample_runtime demo_view =
    Some \<lparr>oe_event = ''cancellation_settled'', oe_text = ''[cancellation_settled] run cancelled'',
      oe_occurred_at = ''t'', oe_metadata = JObj []\<rparr>"
  by code_simp

lemma demo_lifecycle: "derivedOwnerTerminalLifecycle sample_runtime demo_view =
    Some \<lparr>oe_event = ''cancellation_settled'', oe_text = ''[cancellation_settled] run cancelled'',
      oe_occurred_at = ''t'', oe_metadata = JObj []\<rparr>"
  by code_simp

lemma demo_owner: "hasOwnerTerminalEvidence sample_runtime demo_view"
  by code_simp

lemma demo_valid: "assertCurrentRunTaskSnapshot sample_runtime demo_view None = Inr ()"
proof -
  have "\<not> hasOwnDefined demo_view ''stop_reason''" by (simp add: demo_view_def hasOwnDefined_def)
  then show ?thesis
    unfolding snapshot_ok_iff
    using demo_structure demo_identity demo_terminal demo_retired demo_frame demo_owner
    by (simp add: terminal_source_valid_def)
qed


text \<open>
  The result of a child that was never spawned cannot be stored. Whatever view the owner builds from
  a result, one with a stop reason, if the child is not recorded as started then the snapshot check
  refuses it. A launch that ends in a spawn error is one of these: the process runner never reported a
  spawn, the result carries the stop reason \<open>spawn_error\<close>, and the settlement of the run fails.
\<close>

theorem unspawned_result_is_refused:
  assumes "isTerminalView view" and "hasOwnDefined view ''stop_reason''" and "\<not> is_true (jget view ''child_started'')"
  shows "assertCurrentRunTaskSnapshot rt view admission \<noteq> Inr ()"
proof
  assume "assertCurrentRunTaskSnapshot rt view admission = Inr ()"
  then have "terminal_source_valid rt view" using assms(1) unfolding snapshot_ok_iff by simp
  then have "hasConsistentResultStatus view" using assms(2) unfolding terminal_source_valid_def by (simp split: if_splits)
  then show False using assms(3) unfolding hasConsistentResultStatus_def by (auto split: option.splits)
qed

theorem unspawned_result_is_refused_witness:
  "assertCurrentRunTaskSnapshot sample_runtime
     (JObj [(''status'', JStr ''failed''), (''stop_reason'', JStr ''spawn_error''), (''child_started'', JBool False)]) None \<noteq> Inr ()"
  by (rule unspawned_result_is_refused)
    (simp_all add: isTerminalView_def status_of_def terminal_status_texts_def hasOwnDefined_def is_true_def)

end
