(* ===== verification/Canonical_Text.thy ===== *)
theory Canonical_Text
  imports Json_Objects
begin

text \<open>
  Canonical texts can be read back: the printer of \<open>Canonical_Json\<close> is injective up to its delimiters, for
  any format of numbers that is injective and uses a number's characters. So what the code compares by
  canonical text (\<open>sameCanonicalOwnerJson\<close>, request digests) is compared field by field.
\<close>

section \<open>Number formats\<close>

definition number_char :: "char \<Rightarrow> bool" where
  "number_char c \<longleftrightarrow> is_digit c \<or> c = CHR ''-'' \<or> c = CHR ''+'' \<or> c = CHR ''.'' \<or> c = CHR ''e''"

definition number_format :: "(rat \<Rightarrow> string) \<Rightarrow> bool" where
  "number_format num \<longleftrightarrow> inj num \<and> (\<forall>x. num x \<noteq> [] \<and> list_all number_char (num x))"

definition delimited :: "string \<Rightarrow> bool" where
  "delimited s \<longleftrightarrow> s = [] \<or> hd s = CHR '','' \<or> hd s = CHR '']'' \<or> hd s = CHR ''}''"

lemma delimited_simps [simp]:
  "delimited []" "delimited (c # s) \<longleftrightarrow> c = CHR '','' \<or> c = CHR '']'' \<or> c = CHR ''}''"
  by (simp_all add: delimited_def)

lemma quote_char: "char_of (34 :: nat) = CHR 0x22"
  by code_simp

lemma number_char_values [simp]:
  "\<not> number_char (CHR '','')" "\<not> number_char (CHR '']'')" "\<not> number_char (CHR ''}'')" "\<not> number_char (CHR ''['')"
  "\<not> number_char (CHR ''{'')" "\<not> number_char (CHR ''n'')" "\<not> number_char (CHR ''t'')" "\<not> number_char (CHR ''f'')"
  "\<not> number_char (CHR 0x22)"
  by (simp_all add: number_char_def is_digit_def)

lemma number_prefix:
  assumes "number_format num" and "delimited s" and "delimited t" and "num x @ s = num y @ t"
  shows "x = y \<and> s = t"
proof -
  have take: "takeWhile number_char (num z @ r) = num z" if "delimited r" for z r
  proof -
    have all: "\<forall>c \<in> set (num z). number_char c" using assms(1) by (simp add: number_format_def list_all_iff)
    then have "takeWhile number_char (num z @ r) = num z @ takeWhile number_char r" by (simp add: takeWhile_append2)
    moreover have "takeWhile number_char r = []" using that by (cases r) auto
    ultimately show ?thesis by simp
  qed
  have "num x = num y" using take[OF assms(2), of x] take[OF assms(3), of y] assms(4) by simp
  with assms show ?thesis by (simp add: number_format_def inj_eq)
qed

section \<open>Lists of texts\<close>

lemma comma_join_Cons: "comma_join (x # xs) = x @ (if xs = [] then [] else '','' @ comma_join xs)"
  by (cases xs) simp_all

lemma comma_join_inject:
  assumes "\<And>x y s t. x \<in> set xs \<Longrightarrow> delimited s \<Longrightarrow> delimited t \<Longrightarrow> f x @ s = f y @ t \<Longrightarrow> x = y \<and> s = t"
    and "\<And>y. f y \<noteq> [] \<and> hd (f y) \<noteq> close" and "close = CHR '']'' \<or> close = CHR ''}''"
    and "comma_join (map f xs) @ close # s = comma_join (map f ys) @ close # t"
  shows "xs = ys \<and> s = t"
  using assms(1,4)
proof (induction xs arbitrary: ys)
  case Nil
  show ?case
  proof (cases ys)
    case (Cons y ys')
    obtain c r where "f y = c # r" "c \<noteq> close" using assms(2)[of y] by (cases "f y") auto
    with Nil.prems(2) Cons show ?thesis by (simp add: comma_join_Cons)
  qed (use Nil.prems in simp)
next
  case (Cons x xs)
  let ?rest = "\<lambda>zs r. (if zs = [] then close # r else CHR '','' # comma_join (map f zs) @ close # r)"
  have delim: "delimited (?rest zs r)" for zs r using assms(3) by auto
  have form: "comma_join (map f (z # zs)) @ close # r = f z @ ?rest zs r" for z zs r
    by (simp add: comma_join_Cons)
  show ?case
  proof (cases ys)
    case Nil
    obtain c r where "f x = c # r" "c \<noteq> close" using assms(2)[of x] by (cases "f x") auto
    with Cons.prems(2) Nil show ?thesis by (simp add: comma_join_Cons)
  next
    case (Cons y ys')
    from Cons.prems(2) have eq: "f x @ ?rest xs s = f y @ ?rest ys' t"
      unfolding \<open>ys = y # ys'\<close> form .
    from Cons.prems(1)[OF _ delim delim eq] have xy: "x = y" and rest: "?rest xs s = ?rest ys' t" by simp_all
    have close: "close \<noteq> CHR '',''" using assms(3) by auto
    have "xs = ys' \<and> s = t"
    proof (cases "xs = [] \<or> ys' = []")
      case True
      with rest close show ?thesis by (auto split: if_splits)
    next
      case False
      with rest have "comma_join (map f xs) @ close # s = comma_join (map f ys') @ close # t" by simp
      moreover have "x' = y' \<and> s' = t'" if "x' \<in> set xs" "delimited s'" "delimited t'" "f x' @ s' = f y' @ t'" for x' y' s' t'
        using Cons.prems(1)[of x' s' t' y'] that by simp
      ultimately show ?thesis using Cons.IH[of ys'] by blast
    qed
    with xy \<open>ys = y # ys'\<close> show ?thesis by simp
  qed
qed

section \<open>Values\<close>

lemma quote_text_head: "\<exists>r. quote_text s = CHR 0x22 # r"
  by (simp add: quote_text_def quote_char)

lemma json_text_head:
  assumes "number_format num"
  shows "\<exists>c r. json_text num v = c # r \<and>
    (case v of JNull \<Rightarrow> c = CHR ''n'' | JBool b \<Rightarrow> c = (if b then CHR ''t'' else CHR ''f'') | JNum x \<Rightarrow> number_char c
     | JStr s \<Rightarrow> c = CHR 0x22 | JArr vs \<Rightarrow> c = CHR ''['' | JObj kvs \<Rightarrow> c = CHR ''{'')"
proof (cases v)
  case (JNum x)
  moreover have "num x \<noteq> []" "list_all number_char (num x)" using assms by (simp_all add: number_format_def)
  ultimately show ?thesis by (cases "num x") simp_all
next
  case (JStr s)
  then show ?thesis using quote_text_head by simp
qed simp_all

lemma json_text_not_close: "number_format num \<Longrightarrow> c = CHR '']'' \<or> c = CHR ''}'' \<Longrightarrow> json_text num v \<noteq> [] \<and> hd (json_text num v) \<noteq> c"
proof -
  assume n: "number_format num" and c: "c = CHR '']'' \<or> c = CHR ''}''"
  from n obtain d r where d: "json_text num v = d # r" and k: "case v of JNull \<Rightarrow> d = CHR ''n''
      | JBool b \<Rightarrow> d = (if b then CHR ''t'' else CHR ''f'') | JNum x \<Rightarrow> number_char d
      | JStr s \<Rightarrow> d = CHR 0x22 | JArr vs \<Rightarrow> d = CHR ''['' | JObj kvs \<Rightarrow> d = CHR ''{''"
    using json_text_head by blast
  from k c have "d \<noteq> c" by (cases v) (auto split: if_splits)
  with d show ?thesis by simp
qed

lemma json_text_same_kind:
  assumes "number_format num" and "json_text num a @ s = json_text num b @ t"
  shows "(a = JNull \<longleftrightarrow> b = JNull) \<and> (\<forall>x. a = JBool x \<longleftrightarrow> b = JBool x) \<and>
    ((\<exists>x. a = JNum x) \<longleftrightarrow> (\<exists>y. b = JNum y)) \<and> ((\<exists>x. a = JStr x) \<longleftrightarrow> (\<exists>y. b = JStr y)) \<and>
    ((\<exists>x. a = JArr x) \<longleftrightarrow> (\<exists>y. b = JArr y)) \<and> ((\<exists>x. a = JObj x) \<longleftrightarrow> (\<exists>y. b = JObj y))"
proof -
  obtain c r where a: "json_text num a = c # r" and ca: "case a of JNull \<Rightarrow> c = CHR ''n''
      | JBool b \<Rightarrow> c = (if b then CHR ''t'' else CHR ''f'') | JNum x \<Rightarrow> number_char c
      | JStr s \<Rightarrow> c = CHR 0x22 | JArr vs \<Rightarrow> c = CHR ''['' | JObj kvs \<Rightarrow> c = CHR ''{''"
    using json_text_head[OF assms(1), of a] by blast
  obtain r' where b: "json_text num b = c # r'" and cb: "case b of JNull \<Rightarrow> c = CHR ''n''
      | JBool b \<Rightarrow> c = (if b then CHR ''t'' else CHR ''f'') | JNum x \<Rightarrow> number_char c
      | JStr s \<Rightarrow> c = CHR 0x22 | JArr vs \<Rightarrow> c = CHR ''['' | JObj kvs \<Rightarrow> c = CHR ''{''"
    using json_text_head[OF assms(1), of b] assms(2) a by auto
  show ?thesis using ca cb by (cases a; cases b) (auto split: if_splits)
qed

lemma json_text_prefix:
  assumes "number_format num"
  shows "json_text num a @ s = json_text num b @ t \<Longrightarrow> delimited s \<Longrightarrow> delimited t \<Longrightarrow> a = b \<and> s = t"
proof (induction a arbitrary: b s t)
  case JNull
  then have b: "b = JNull" using json_text_same_kind[OF assms JNull.prems(1)] by blast
  have "s = t" using JNull(1) unfolding b same_append_eq .
  then show ?case unfolding b by blast
next
  case (JBool x)
  then have b: "b = JBool x" using json_text_same_kind[OF assms JBool.prems(1)] by blast
  have "s = t" using JBool(1) unfolding b same_append_eq .
  then show ?case unfolding b by blast
next
  case (JNum x)
  then obtain y where b: "b = JNum y" using json_text_same_kind[OF assms JNum.prems(1)] by blast
  have "num x @ s = num y @ t" using JNum(1) by (simp only: b json_text.simps)
  from number_prefix[OF assms JNum(2,3) this] show ?case unfolding b by blast
next
  case (JStr x)
  then obtain y where b: "b = JStr y" using json_text_same_kind[OF assms JStr.prems(1)] by blast
  have "quote_text x @ s = quote_text y @ t" using JStr(1) by (simp only: b json_text.simps)
  then show ?case unfolding b quote_text_append by blast
next
  case (JArr vs)
  then obtain ws where b: "b = JArr ws" using json_text_same_kind[OF assms JArr.prems(1)] by blast
  have "vs = ws \<and> s = t"
  proof (rule comma_join_inject[where f = "json_text num" and close = "CHR '']''"])
    show "x = y \<and> u = v" if "x \<in> set vs" "delimited u" "delimited v" "json_text num x @ u = json_text num y @ v" for x y u v
      using JArr.IH[OF that(1) that(4) that(2,3)] .
    show "comma_join (map (json_text num) vs) @ CHR '']'' # s = comma_join (map (json_text num) ws) @ CHR '']'' # t"
      using JArr.prems(1) by (simp add: b)
  qed (use json_text_not_close[OF assms] in auto)
  with b show ?case by simp
next
  case (JObj kvs)
  then obtain lws where b: "b = JObj lws" using json_text_same_kind[OF assms JObj.prems(1)] by blast
  let ?f = "\<lambda>(k, v). quote_text k @ '':'' @ json_text num v"
  have "kvs = lws \<and> s = t"
  proof (rule comma_join_inject[where f = ?f and close = "CHR ''}''"])
    show "x = y \<and> u = v" if x: "x \<in> set kvs" "delimited u" "delimited v" "?f x @ u = ?f y @ v" for x y u v
    proof -
      obtain k w l z where xy: "x = (k, w)" "y = (l, z)" by fastforce
      from x(4) have "k = l" "json_text num w @ u = json_text num z @ v" unfolding xy by simp_all
      moreover have "w \<in> Basic_BNFs.snds x" by (simp add: xy)
      ultimately show ?thesis using JObj.IH[OF x(1)] x(2,3) xy by blast
    qed
    show "?f y \<noteq> [] \<and> hd (?f y) \<noteq> CHR ''}''" for y
      using quote_text_head[of "fst y"] by (auto simp: case_prod_unfold)
    show "comma_join (map ?f kvs) @ CHR ''}'' # s = comma_join (map ?f lws) @ CHR ''}'' # t"
      using JObj.prems(1) by (simp add: b)
  qed simp
  with b show ?case by simp
qed

lemma json_text_inject: "number_format num \<Longrightarrow> json_text num a = json_text num b \<longleftrightarrow> a = b"
  using json_text_prefix[of num a "[]" b "[]"] by auto

section \<open>Canonical forms\<close>

lemma map_of_filter_key: "map_of (filter (\<lambda>kv. fst kv = k) xs) k = map_of xs k"
  by (induction xs) auto

lemma map_of_sort_key: "map_of (sort_key fst xs) k = map_of xs k"
  by (metis map_of_filter_key sort_key_stable)

lemma jget_canonical: "jget (canonicalValue v) k = map_option canonicalValue (jget v k)"
proof (cases v)
  case (JObj kvs)
  have "map_of (map (\<lambda>(k, v). (k, canonicalValue v)) xs) k = map_option canonicalValue (map_of xs k)" for xs
    by (induction xs) auto
  with JObj show ?thesis by (simp add: map_of_sort_key)
qed simp_all


lemma same_canonical_value:
  "number_format num \<Longrightarrow> sameCanonicalOwnerJson num (Some a) (Some b) \<longleftrightarrow> canonicalValue a = canonicalValue b"
  by (simp add: sameCanonicalOwnerJson_def canonicalJson_def json_text_inject)

lemma canonical_prim [simp]:
  "canonicalValue v = JStr s \<longleftrightarrow> v = JStr s" "canonicalValue v = JBool b \<longleftrightarrow> v = JBool b"
  "canonicalValue v = JNull \<longleftrightarrow> v = JNull" "canonicalValue v = JNum x \<longleftrightarrow> v = JNum x"
  by (cases v; simp)+

lemma canonical_text_field:
  assumes "canonicalValue a = canonicalValue b"
  shows "has_text a k s \<longleftrightarrow> has_text b k s"
proof -
  have "map_option canonicalValue (jget a k) = map_option canonicalValue (jget b k)"
    using assms jget_canonical by metis
  then show ?thesis
    by (cases "jget a k"; cases "jget b k") (simp_all add: has_text_def, metis canonical_prim(1))
qed

section \<open>An instance\<close>

text \<open>A number format: the numerator and denominator of the lowest terms, in decimal digits.\<close>

definition quotient_text :: "rat \<Rightarrow> string" where
  "quotient_text x = (case quotient_of x of
     (n, d) \<Rightarrow> (if n < 0 then ''-'' else ''+'') @ decimal_text (nat \<bar>n\<bar>) @ ''.'' @ decimal_text (nat d))"

lemma quotient_text_parts:
  assumes "quotient_text x = quotient_text y"
  shows "x = y"
proof -
  obtain n d where x: "quotient_of x = (n, d)" by fastforce
  obtain m e where y: "quotient_of y = (m, e)" by fastforce
  have pos: "0 < d" "0 < e" using x y by (simp_all add: quotient_of_denom_pos)
  have digits: "takeWhile is_digit (decimal_text k @ CHR ''.'' # r) = decimal_text k \<and>
      dropWhile is_digit (decimal_text k @ CHR ''.'' # r) = CHR ''.'' # r" for k r
    using decimal_text_digits[of k] by (auto simp: list_all_iff takeWhile_append2 dropWhile_append2 is_digit_def)
  have eq: "(if n < 0 then CHR ''-'' else CHR ''+'') # decimal_text (nat \<bar>n\<bar>) @ CHR ''.'' # decimal_text (nat d) =
      (if m < 0 then CHR ''-'' else CHR ''+'') # decimal_text (nat \<bar>m\<bar>) @ CHR ''.'' # decimal_text (nat e)"
    using assms by (simp add: quotient_text_def x y split: if_splits)
  then have sign: "n < 0 \<longleftrightarrow> m < 0" and rest: "decimal_text (nat \<bar>n\<bar>) @ CHR ''.'' # decimal_text (nat d) =
      decimal_text (nat \<bar>m\<bar>) @ CHR ''.'' # decimal_text (nat e)"
    by (auto split: if_splits)
  have "decimal_text (nat \<bar>n\<bar>) = decimal_text (nat \<bar>m\<bar>)"
    using arg_cong[OF rest, of "takeWhile is_digit"] digits by simp
  moreover have "CHR ''.'' # decimal_text (nat d) = CHR ''.'' # decimal_text (nat e)"
    using arg_cong[OF rest, of "dropWhile is_digit"] digits by simp
  ultimately have "nat \<bar>n\<bar> = nat \<bar>m\<bar>" "nat d = nat e" by (simp_all only: list.inject decimal_text_inject)
  then have "\<bar>n\<bar> = \<bar>m\<bar>" "d = e" using pos by (auto simp: eq_nat_nat_iff)
  with sign have "quotient_of x = quotient_of y" using x y by (auto simp: abs_if split: if_splits)
  then show ?thesis by (simp add: quotient_of_inject_eq)
qed

lemma quotient_text_format: "number_format quotient_text"
proof -
  have "inj quotient_text" by (rule injI) (rule quotient_text_parts)
  moreover have "quotient_text x \<noteq> [] \<and> list_all number_char (quotient_text x)" for x
  proof -
    have "list_all number_char (decimal_text n)" for n
      using decimal_text_digits[of n] by (auto simp: list_all_iff number_char_def)
    then show ?thesis by (simp add: quotient_text_def number_char_def split: prod.split)
  qed
  ultimately show ?thesis by (simp add: number_format_def)
qed


end
