(* ===== verification/Run_Owner.thy ===== *)
theory Run_Owner
  imports Run_View Canonical_Text File_Store
begin

text \<open>
  The durable record of a run (\<open>src/runTask.ts\<close>, lines 401-975): the claim that is stored of a view, the
  check of a record (\<open>assertRunOwnerRecord\<close>), the rules for replacing a record by a newer one
  (\<open>assertOwnerViewTransition\<close>) and the write (\<open>writeRunClaimOwned\<close>), which its caller runs under the
  run's claim lock, so here it is one step on the directory of run records. The file is replaced by a
  rename, after it has been written and synced under a temporary name; only the rename is a change of
  the model's directory.
\<close>

section \<open>Events of a view\<close>

text \<open>An event object, as far as the projections read it; the identity is its position.\<close>

definition view_event :: "nat \<Rightarrow> json \<Rightarrow> run_public_event" where
  "view_event i e =
     \<lparr>ev_id = i, ev_schema_version = None,
      ev_kind = (if has_text e ''kind'' ''child'' then Kind_child else Kind_task),
      ev_event = (if has_text e ''event'' ''run_started'' then Some Ev_run_started
        else if has_text e ''event'' ''child_spawned'' then Some Ev_child_spawned else None),
      ev_text = text_or [] (jget e ''text''), ev_occurred_at = text_or [] (jget e ''occurred_at''), ev_metadata = None\<rparr>"

definition view_events :: "json list \<Rightarrow> run_public_event list" where
  "view_events es = map2 view_event [0..<length es] es"

definition terminal_events_json :: "json list \<Rightarrow> json list" where
  "terminal_events_json es = map (\<lambda>e. es ! ev_id e) (terminalEventsProjection (view_events es))"

definition excerpt_json :: "json list \<Rightarrow> json option" where
  "excerpt_json es = map_option JStr (publicOutputExcerptProjection (view_events es))"

definition with_field :: "string \<Rightarrow> json option \<Rightarrow> json \<Rightarrow> json" where
  "with_field k v obj = (case v of None \<Rightarrow> without [k] obj | Some x \<Rightarrow> spread obj (JObj [(k, x)]))"

section \<open>Claims\<close>

definition run_owner_record_name :: string where
  "run_owner_record_name = ''subagent007.current_run_claim''"

definition claim_fields :: "string list" where
  "claim_fields = [''record_name'', ''record_version'', ''declarations'', ''launch_observation'', ''pending_terminal_outputs'']"

definition currentRunClaimView :: "json \<Rightarrow> json" where
  "currentRunClaimView claim =
     (let view = without claim_fields claim in
      if isTerminalView view \<and> elements (jget view ''recent_events'') \<noteq> [] \<and>
         \<not> truthy (jget view ''last_public_output_excerpt'')
      then with_field ''last_public_output_excerpt'' (excerpt_json (elements (jget view ''recent_events''))) view
      else view)"

definition volatile_fields :: "string list" where
  "volatile_fields =
     [''elapsed_ms'', ''last_progress_at'', ''last_progress_message'', ''heartbeat_count'',
      ''last_child_lifecycle_event'', ''last_child_lifecycle_at'', ''first_public_output_at'',
      ''no_public_output_elapsed_ms'', ''last_public_output_excerpt'', ''queued_at'', ''child_started_at'',
      ''queue_wait_ms'']"

definition retained_event_kinds :: "string list" where
  "retained_event_kinds = [''task'', ''user'', ''child'', ''input'', ''packet'', ''terminal'']"

definition runClaimSnapshot :: "json \<Rightarrow> json" where
  "runClaimSnapshot view =
     (let claim = without volatile_fields view in
      case array_of (jget claim ''recent_events'') of
        Some es \<Rightarrow>
          if isTerminalView view then claim
          else with_field ''recent_events''
            (Some (JArr (filter (\<lambda>e. text_in retained_event_kinds (jget e ''kind'')) es))) claim
      | None \<Rightarrow> claim)"

record claim_evidence =
  ce_declarations :: json
  ce_launch :: "json option"
  ce_pending :: "json option"

definition invalidOwnerRecord :: "string \<Rightarrow> 'a result" where
  "invalidOwnerRecord m = Inl (ValidationError m Rc_run_liveness_unknown)"

definition ownerLaunchObservationTransition :: "js_runtime \<Rightarrow> json \<Rightarrow> json \<Rightarrow> json result" where
  "ownerLaunchObservationTransition rt existing next =
     (if sameCanonicalOwnerJson (rt_num rt) (Some existing) (Some next) then Inr existing
      else invalidOwnerRecord ''run claim launch grant changed after capture'')"

definition owner_launch :: "js_runtime \<Rightarrow> json option \<Rightarrow> json option \<Rightarrow> json option result" where
  "owner_launch rt evidence existing =
     (case (evidence, existing) of
        (Some n, Some e) \<Rightarrow> bind_result (ownerLaunchObservationTransition rt e n) (\<lambda>l. Inr (Some l))
      | (Some n, None) \<Rightarrow> Inr (Some n)
      | (None, e) \<Rightarrow> Inr e)"

definition ownerRecordForSnapshot :: "js_runtime \<Rightarrow> json \<Rightarrow> json option \<Rightarrow> claim_evidence \<Rightarrow> json result" where
  "ownerRecordForSnapshot rt snapshot existing evidence =
     (let declarations = (case existing of None \<Rightarrow> Some (ce_declarations evidence)
          | Some e \<Rightarrow> (case jget e ''declarations'' of None \<Rightarrow> Some (ce_declarations evidence)
            | Some JNull \<Rightarrow> Some (ce_declarations evidence) | d \<Rightarrow> d)) in
      if \<not> sameCanonicalOwnerJson (rt_num rt) declarations (Some (ce_declarations evidence))
      then invalidOwnerRecord ''run claim declarations changed during persistence''
      else bind_result
        (owner_launch rt (ce_launch evidence) (case existing of None \<Rightarrow> None | Some e \<Rightarrow> jget e ''launch_observation''))
        (\<lambda>launch. Inr (spread (runClaimSnapshot snapshot) (JObj
          ([(''record_name'', JStr run_owner_record_name), (''record_version'', JNum 1),
            (''declarations'', the declarations)] @
           opt_field ''launch_observation'' launch @ opt_field ''pending_terminal_outputs'' (ce_pending evidence))))))"

section \<open>The check of a record\<close>

definition exactRecordKeys :: "json \<Rightarrow> string list \<Rightarrow> bool" where
  "exactRecordKeys v ks \<longleftrightarrow> sort (jkeys v) = sort ks"

definition scope_domain :: string where
  "scope_domain = ''subagent007.run_owner_record.effect_scope.v1'' @ newline"

definition null_or :: "json option \<Rightarrow> json option" where
  "null_or v = (case v of None \<Rightarrow> Some JNull | Some x \<Rightarrow> Some x)"

text \<open>The captured effect scope of a launch: absent, or exact bytes with their digest.\<close>

definition launch_scope_ok :: "js_runtime \<Rightarrow> json \<Rightarrow> json \<Rightarrow> bool" where
  "launch_scope_ok rt launch view \<longleftrightarrow>
     (case (jget launch ''effect_scope_binding_bytes'', jget launch ''effect_scope_binding_sha256'') of
        (None, None) \<Rightarrow> True
      | (Some (JStr bytes), Some (JStr h)) \<Rightarrow>
          sha256_hex h \<and> rt_sha256 rt (scope_domain @ bytes) = h \<and>
          (case rt_json_parse rt bytes of
             None \<Rightarrow> False
           | Some scope \<Rightarrow>
               canonicalJson (rt_num rt) scope = bytes \<and> is_ok (assertAuthoringEffectScopeBinding scope) \<and>
               (case (case jget view ''activation_receipt'' of Some r \<Rightarrow> jget r ''effect_scope_binding'' | None \<Rightarrow> None) of
                  None \<Rightarrow> True
                | Some receipt \<Rightarrow> sameCanonicalOwnerJson (rt_num rt) (Some receipt) (Some scope)))
      | _ \<Rightarrow> False)"

definition launch_keys_ok :: "json \<Rightarrow> bool" where
  "launch_keys_ok launch \<longleftrightarrow>
     exactRecordKeys launch (filter (hasOwnDefined launch)
       [''effect_scope_binding_bytes'', ''effect_scope_binding_sha256'', ''activation_expectation'']) \<and>
     object_of (jget launch ''activation_expectation'') \<noteq> None"

definition expectation_keys :: "json \<Rightarrow> string list" where
  "expectation_keys declarations =
     [''requested_effect_profile'', ''expected_skill_sha256'', ''skill_binding'', ''tool_bindings'',
      ''skill_snapshot_binding'', ''skill_snapshot_activation_receipt'', ''requested_recursive_delegation'',
      ''resolved_recursive_delegation''] @
     (if truthy (jget declarations ''systemSkillName'') then [''system_skill_name'', ''system_skill_path''] else []) @
     (if truthy (jget declarations ''specialistCatalogueScope'') then [''specialist_catalogue_scope''] else [])"

definition expectation_matches :: "js_runtime \<Rightarrow> json \<Rightarrow> json \<Rightarrow> json \<Rightarrow> bool" where
  "expectation_matches rt view declarations x \<longleftrightarrow>
     (let session = has_text view ''task_kind'' ''session'' in
      exactRecordKeys x (expectation_keys declarations) \<and>
      strictly_equal (jget x ''requested_effect_profile'') (null_or (jget declarations ''effectProfile'')) \<and>
      strictly_equal (jget x ''system_skill_name'') (jget declarations ''systemSkillName'') \<and>
      strictly_equal (jget x ''specialist_catalogue_scope'') (jget declarations ''specialistCatalogueScope'') \<and>
      (hasOwnDefined declarations ''systemSkillName'' \<longrightarrow> nonempty_string (jget x ''system_skill_path'')) \<and>
      strictly_equal (jget x ''expected_skill_sha256'') (null_or (jget declarations ''expectedSkillSha256'')) \<and>
      sameCanonicalOwnerJson (rt_num rt) (jget x ''skill_snapshot_binding'')
        (null_or (jget declarations ''skillSnapshotBinding'')) \<and>
      strictly_equal (jget x ''requested_recursive_delegation'')
        (if session then Some (JStr ''disabled'') else jget declarations ''requestedRecursiveDelegation'') \<and>
      array_of (jget x ''tool_bindings'') \<noteq> None \<and>
      text_in [''disabled'', ''enabled''] (jget x ''resolved_recursive_delegation'') \<and>
      (session \<longrightarrow> has_text x ''resolved_recursive_delegation'' ''disabled''))"

definition spawned_events :: "json \<Rightarrow> json list" where
  "spawned_events view =
     filter (\<lambda>e. has_text e ''kind'' ''child'' \<and> has_text e ''event'' ''child_spawned'') (elements (jget view ''recent_events''))"

definition expectation_of :: "js_runtime \<Rightarrow> json \<Rightarrow> json \<Rightarrow> receipt_expectation" where
  "expectation_of rt launch x =
     (let profile = (case text_of (jget x ''requested_effect_profile'') of
          Some s \<Rightarrow> map_of effect_profiles s | None \<Rightarrow> None) in
      \<lparr>re_profile = profile,
       re_skill_binding = (case jget x ''skill_binding'' of Some b \<Rightarrow> b | None \<Rightarrow> JNull),
       re_expected_skill_sha256 = text_of (jget x ''expected_skill_sha256''),
       re_tool_bindings = (if isBoundedEffectProfile profile \<or> profile = Some Task_root_read_only_v1
         then array_of (jget x ''tool_bindings'') else None),
       re_effect_scope_binding = (case jget launch ''effect_scope_binding_bytes'' of
          Some (JStr bytes) \<Rightarrow> if bytes = [] then None else rt_json_parse rt bytes | _ \<Rightarrow> None)\<rparr>)"

definition delegation_of :: "json option \<Rightarrow> recursive_delegation option" where
  "delegation_of v = (case text_of v of Some s \<Rightarrow> map_of recursive_delegations s | None \<Rightarrow> None)"

text \<open>The receipts that a child must have reported once its prompt was submitted.\<close>

definition submitted_receipts_ok :: "js_runtime \<Rightarrow> json \<Rightarrow> json \<Rightarrow> json \<Rightarrow> json \<Rightarrow> bool" where
  "submitted_receipts_ok rt view declarations launch x \<longleftrightarrow>
     (jget x ''requested_effect_profile'' \<noteq> Some JNull \<or> jget x ''expected_skill_sha256'' \<noteq> Some JNull \<longrightarrow>
        validatedActivationReceipt rt (jget view ''activation_receipt'') (expectation_of rt launch x) \<noteq> None) \<and>
     (jget x ''skill_snapshot_binding'' \<noteq> Some JNull \<longrightarrow>
        validatedSkillSnapshotActivationReceipt (jget view ''skill_snapshot_activation_receipt'')
          (jget x ''skill_snapshot_binding'') \<noteq> None) \<and>
     strictly_equal (jget view ''resolved_recursive_delegation'') (jget x ''resolved_recursive_delegation'') \<and>
     (case delegation_of (jget x ''resolved_recursive_delegation'') of
        None \<Rightarrow> False
      | Some resolved \<Rightarrow>
          validatedRecursiveDelegationReceipt (jget view ''recursive_delegation_receipt'')
            (delegation_of (jget x ''requested_recursive_delegation'')) resolved \<noteq> None) \<and>
     (truthy (jget declarations ''systemSkillName'') \<longrightarrow>
        (case (text_of (jget declarations ''systemSkillName''), text_of (jget x ''system_skill_path'')) of
           (Some name, Some p) \<Rightarrow>
             validatedSystemSkillActivationReceipt (jget view ''system_skill_activation_receipt'') name p \<noteq> None
         | _ \<Rightarrow> False))"

definition launch_ok :: "js_runtime \<Rightarrow> json \<Rightarrow> json \<Rightarrow> json \<Rightarrow> bool" where
  "launch_ok rt view declarations launch \<longleftrightarrow>
     launch_keys_ok launch \<and> launch_scope_ok rt launch view \<and>
     (let x = the (jget launch ''activation_expectation'') in
      expectation_matches rt view declarations x \<and>
      length (spawned_events view) = (if is_true (jget view ''child_started'') then 1 else 0) \<and>
      (childPromptWasSubmitted view \<longrightarrow> submitted_receipts_ok rt view declarations launch x))"

definition declarations_ok :: "js_runtime \<Rightarrow> json \<Rightarrow> json option \<Rightarrow> bool" where
  "declarations_ok rt view declarations \<longleftrightarrow>
     object_of declarations \<noteq> None \<and> nonempty_string (jget view ''run_id'') \<and>
     strictly_equal (jget view ''task_id'') (jget view ''run_id'') \<and> text_in [''run'', ''session''] (jget view ''task_kind'') \<and>
     (case ownerRequestDeclarations view of
        None \<Rightarrow> False
      | Some d \<Rightarrow> sameCanonicalOwnerJson (rt_num rt) (Some (declarations_json d)) declarations)"

text \<open>Each check of the source has its own message; all of them have the reason \<open>run_liveness_unknown\<close>. The
  checks of the launch observation share one message here, as do those of a regressed claim below.\<close>

definition assertRunOwnerRecord :: "js_runtime \<Rightarrow> json \<Rightarrow> unit result" where
  "assertRunOwnerRecord rt r =
     (let view = currentRunClaimView r; declarations = jget r ''declarations'' in
      if \<not> has_text r ''record_name'' run_owner_record_name \<or> jget r ''record_version'' \<noteq> Some (JNum 1)
      then invalidOwnerRecord ''run claim has an invalid representation''
      else if (case jget r ''pending_terminal_outputs'' of None \<Rightarrow> False
          | Some p \<Rightarrow> \<not> is_ok (assertPendingTerminalOutputs p (text_of (jget view ''run_id''))))
      then invalidOwnerRecord ''run claim pending terminal output ownership is invalid''
      else if \<not> declarations_ok rt view declarations
      then invalidOwnerRecord ''run claim declarations do not match current truth''
      else if (case jget r ''launch_observation'' of
          None \<Rightarrow> is_true (jget view ''child_started'')
        | Some launch \<Rightarrow> \<not> launch_ok rt view (the declarations) launch)
      then invalidOwnerRecord ''run owner record launch observation is invalid''
      else assertCurrentRunTaskSnapshot rt view None)"

definition ownerRecordFromValue :: "js_runtime \<Rightarrow> json \<Rightarrow> json option result" where
  "ownerRecordFromValue rt v =
     (if \<not> is_object v \<or> \<not> has_text v ''record_name'' run_owner_record_name then Inr None
      else bind_result (assertRunOwnerRecord rt v) (\<lambda>_. Inr (Some v)))"

section \<open>Replacing a record\<close>

definition stable_event :: "json \<Rightarrow> bool" where
  "stable_event e \<longleftrightarrow>
     has_text e ''event'' ''child_spawned'' \<or> has_text e ''event'' ''cancellation_requested'' \<or> has_text e ''kind'' ''terminal''"

definition stable_receipt_fields :: "string list" where
  "stable_receipt_fields =
     [''activation_receipt'', ''skill_snapshot_activation_receipt'', ''recursive_delegation_receipt'']"

text \<open>The claims of a record that a newer record must repeat.\<close>

definition stable_claims_kept :: "js_runtime \<Rightarrow> json \<Rightarrow> json \<Rightarrow> bool" where
  "stable_claims_kept rt existing next \<longleftrightarrow>
     (let same = (\<lambda>a b. sameCanonicalOwnerJson (rt_num rt) (Some a) (Some b)) in
      strictly_equal (jget existing ''run_id'') (jget next ''run_id'') \<and>
      strictly_equal (jget existing ''task_id'') (jget next ''task_id'') \<and>
      (is_true (jget existing ''child_started'') \<longrightarrow> is_true (jget next ''child_started'')) \<and>
      list_all (\<lambda>e. stable_event e \<longrightarrow> list_ex (\<lambda>c. same c e) (elements (jget next ''recent_events'')))
        (elements (jget existing ''recent_events'')) \<and>
      list_all (\<lambda>f. hasOwnDefined existing f \<longrightarrow> sameCanonicalOwnerJson (rt_num rt) (jget existing f) (jget next f))
        stable_receipt_fields \<and>
      list_all (\<lambda>f. set (elements (jget existing f)) \<subseteq> set (elements (jget next f)))
        [''child_run_ids'', ''descendant_run_ids''] \<and>
      list_all (\<lambda>r. has_text r ''status'' ''pending'' \<or>
          list_ex (\<lambda>c. strictly_equal (jget c ''request_id'') (jget r ''request_id'') \<and> same c r)
            (elements (jget next ''input_requests'')))
        (elements (jget existing ''input_requests'')))"

definition timeout_recovery_hint :: string where
  "timeout_recovery_hint = ''Use schedule_run or start_run with explicit timeout_ms for broad, exploratory, interactive, cancellable, polling, or long-running work.''"

definition hint_suffix :: "string \<Rightarrow> string" where
  "hint_suffix run_id = '' Inspect this run with get_run using run_id '' @ run_id @ ''.''"

definition hint_enriched :: "json \<Rightarrow> json \<Rightarrow> bool" where
  "hint_enriched existing next \<longleftrightarrow>
     (is_true (jget existing ''timed_out'') \<or> has_text existing ''error_class'' ''timeout'') \<and>
     (case (jget existing ''timeout_recovery_hint'', text_of (jget next ''timeout_recovery_hint'')) of
        (None, Some h) \<Rightarrow> h = timeout_recovery_hint @ hint_suffix (text_or [] (jget existing ''run_id''))
      | (Some (JStr g), Some h) \<Rightarrow> h = g @ hint_suffix (text_or [] (jget existing ''run_id''))
      | _ \<Rightarrow> False)"

definition timeout_enrichment :: "js_runtime \<Rightarrow> json \<Rightarrow> json \<Rightarrow> bool" where
  "timeout_enrichment rt existing next \<longleftrightarrow>
     sameCanonicalOwnerJson (rt_num rt) (Some (without [''timeout_recovery_hint''] existing))
       (Some (without [''timeout_recovery_hint''] next)) \<and>
     (strictly_equal (jget next ''timeout_recovery_hint'') (jget existing ''timeout_recovery_hint'') \<or>
      hint_enriched existing next)"

definition assertOwnerViewTransition :: "js_runtime \<Rightarrow> json option \<Rightarrow> json \<Rightarrow> unit result" where
  "assertOwnerViewTransition rt existing next =
     (case existing of
        None \<Rightarrow> Inr ()
      | Some e \<Rightarrow>
          if \<not> stable_claims_kept rt e next then invalidOwnerRecord ''run owner claim regressed''
          else if isTerminalView e \<and> \<not> timeout_enrichment rt e next
          then invalidOwnerRecord ''terminal run owner record cannot be replaced''
          else Inr ())"

section \<open>Reading and writing\<close>

definition taskRecordPath :: "string \<Rightarrow> string" where
  "taskRecordPath run_id = run_id @ ''.json''"

definition readRunOwnerRecordFile :: "js_runtime \<Rightarrow> directory \<Rightarrow> string \<Rightarrow> json option result" where
  "readRunOwnerRecordFile rt dir name = bind_result (read_json_file dir name) (ownerRecordFromValue rt)"

definition readPersistedRunView :: "js_runtime \<Rightarrow> directory \<Rightarrow> string \<Rightarrow> json result" where
  "readPersistedRunView rt dir name =
     bind_result (readRunOwnerRecordFile rt dir name) (\<lambda>r.
       case r of None \<Rightarrow> invalidOwnerRecord ''run snapshot is missing its current run claim''
       | Some v \<Rightarrow> Inr (currentRunClaimView v))"

definition isRestartDriftSnapshot :: "json \<Rightarrow> bool" where
  "isRestartDriftSnapshot view \<longleftrightarrow> has_text view ''status'' ''failed'' \<and> restart_drift_fields view"

text \<open>The terminal view that is stored: its events projected, those of a child that never started dropped,
  and the excerpt of the events.\<close>

definition terminal_snapshot :: "json \<Rightarrow> json" where
  "terminal_snapshot view =
     (let es = terminal_events_json (filter (\<lambda>e. \<not> is_false (jget view ''child_started'') \<or> \<not> has_text e ''kind'' ''child'')
          (elements (jget view ''recent_events'')));
          v = with_field ''recent_events'' (Some (JArr es)) view
      in if es = [] then v else with_field ''last_public_output_excerpt'' (excerpt_json es) v)"

definition writeRunClaimOwned ::
  "js_runtime \<Rightarrow> directory \<Rightarrow> json \<Rightarrow> claim_evidence \<Rightarrow> (directory \<times> json) result" where
  "writeRunClaimOwned rt dir view evidence =
     (let name = taskRecordPath (text_or [] (jget view ''run_id'')) in
      bind_result
        (case readRunOwnerRecordFile rt dir name of
           Inl e \<Rightarrow> if is_enoent e then Inr None else Inl e | Inr r \<Rightarrow> Inr r)
        (\<lambda>record.
          let existing = map_option (\<lambda>r. runClaimSnapshot (currentRunClaimView r)) record in
          case existing of
            Some e \<Rightarrow>
              if isRestartDriftSnapshot e \<and> isTerminalView view \<and> \<not> isRestartDriftSnapshot view then Inr (dir, e)
              else
                (let snapshot = (if isTerminalView view then terminal_snapshot view else view) in
                 bind_result (assertOwnerViewTransition rt existing (runClaimSnapshot snapshot)) (\<lambda>_.
                   bind_result (ownerRecordForSnapshot rt snapshot record evidence) (\<lambda>r.
                     bind_result (assertRunOwnerRecord rt r) (\<lambda>_. Inr (dir_replace dir name (JsonFile r), snapshot)))))
          | None \<Rightarrow>
                (let snapshot = (if isTerminalView view then terminal_snapshot view else view) in
                 bind_result (ownerRecordForSnapshot rt snapshot record evidence) (\<lambda>r.
                   bind_result (assertRunOwnerRecord rt r) (\<lambda>_. Inr (dir_replace dir name (JsonFile r), snapshot))))))"

section \<open>A claim survives its record\<close>

lemma spread_absent: "(\<And>k v. (k, v) \<in> set b \<Longrightarrow> map_of a k = None) \<Longrightarrow> spread_fields a b = a @ b"
proof -
  assume absent: "\<And>k v. (k, v) \<in> set b \<Longrightarrow> map_of a k = None"
  have "map_of b k = None" if "(k, v) \<in> set a" for k v
  proof (rule ccontr)
    assume "map_of b k \<noteq> None"
    then obtain x where "(k, x) \<in> set b" by (auto dest: map_of_SomeD)
    then have "map_of a k = None" by (rule absent)
    with that show False by (simp add: map_of_eq_None_iff image_iff) (metis fst_conv)
  qed
  then have "map (\<lambda>(k, v). (k, case map_of b k of Some v' \<Rightarrow> v' | None \<Rightarrow> v)) a = a"
    by (auto intro!: map_idI)
  moreover have "filter (\<lambda>(k, _). map_of a k = None) b = b" using absent by (auto simp: filter_id_conv)
  ultimately show ?thesis by (simp add: spread_fields_def)
qed

definition set_key :: "string \<Rightarrow> json \<Rightarrow> (string \<times> json) list \<Rightarrow> (string \<times> json) list" where
  "set_key k x a = map (\<lambda>(j, v). (j, if j = k then x else v)) a @ (if map_of a k = None then [(k, x)] else [])"

lemma with_field_Some: "with_field k (Some x) v = JObj (set_key k x (fields_of v))"
  by (auto simp: with_field_def spread_def spread_fields_def set_key_def intro!: arg_cong[where f = JObj])

lemma set_key_keys: "map_of (set_key k x a) j = (if j = k then Some x else map_of a j)"
proof -
  have "map_of (map (\<lambda>(j, v). (j, if j = k then x else v)) a) j = (if j = k \<and> map_of a j \<noteq> None then Some x else map_of a j)"
    by (induction a) auto
  then show ?thesis by (auto simp: set_key_def map_add_def split: option.splits)
qed

lemma jget_with_field [simp]: "jget (with_field k v obj) j = (if j = k then v else jget obj j)"
  by (cases v) (simp_all add: with_field_Some set_key_keys jget_fields[symmetric] with_field_def)

lemma set_key_idem: "set_key k x (set_key k y a) = set_key k x a"
proof -
  have "map_of (set_key k y a) k \<noteq> None" by (simp add: set_key_keys)
  then show ?thesis by (auto simp: set_key_def)
qed

lemma filter_set_key_in: "k \<in> K \<Longrightarrow> filter (\<lambda>(j, _). j \<notin> K) (set_key k x a) = filter (\<lambda>(j, _). j \<notin> K) a"
proof -
  assume "k \<in> K"
  then have "filter (\<lambda>(j, _). j \<notin> K) (map (\<lambda>(j, v). (j, if j = k then x else v)) a) = filter (\<lambda>(j, _). j \<notin> K) a"
    by (induction a) auto
  with \<open>k \<in> K\<close> show ?thesis by (simp add: set_key_def)
qed

lemma filter_set_key_notin: "k \<notin> K \<Longrightarrow> filter (\<lambda>(j, _). j \<notin> K) (set_key k x a) = set_key k x (filter (\<lambda>(j, _). j \<notin> K) a)"
proof -
  assume k: "k \<notin> K"
  then have "filter (\<lambda>(j, _). j \<notin> K) (map (\<lambda>(j, v). (j, if j = k then x else v)) a) =
      map (\<lambda>(j, v). (j, if j = k then x else v)) (filter (\<lambda>(j, _). j \<notin> K) a)"
    by (induction a) auto
  moreover have "map_of (filter (\<lambda>(j, _). j \<notin> K) a) k = map_of a k" using k map_of_filter_keys[of "\<lambda>j. j \<notin> K" a k] by simp
  ultimately show ?thesis using k by (simp add: set_key_def)
qed

lemma without_with_field: "k \<in> set ks \<Longrightarrow> without ks (with_field k v obj) = without ks obj"
proof (cases v)
  case None
  assume "k \<in> set ks"
  then show ?thesis using None by (auto simp: without_def with_field_def intro!: filter_cong)
next
  case (Some x)
  assume "k \<in> set ks"
  then show ?thesis unfolding Some with_field_Some without_def fields_of_JObj by (simp only: filter_set_key_in)
qed

lemma without_with_field_other: "k \<notin> set ks \<Longrightarrow> without ks (with_field k (Some x) obj) = with_field k (Some x) (without ks obj)"
  by (simp add: with_field_Some without_def filter_set_key_notin)

lemma with_field_idem: "with_field k (Some x) (with_field k (Some y) obj) = with_field k (Some x) obj"
  by (simp add: with_field_Some set_key_idem)

lemma without_absent: "is_object v \<Longrightarrow> list_all (\<lambda>k. jget v k = None) ks \<Longrightarrow> without ks v = v"
proof -
  assume "is_object v" and absent: "list_all (\<lambda>k. jget v k = None) ks"
  then obtain kvs where v: "v = JObj kvs" by (cases v) (simp_all add: is_object_def)
  have "k \<notin> set ks" if "(k, x) \<in> set kvs" for k x
    using absent that by (force simp: v list_all_iff map_of_eq_None_iff)
  then show ?thesis by (auto simp: v without_def filter_id_conv)
qed

lemma without_twice [simp]: "without ks (without ks v) = without ks v"
  by (simp add: without_def)

definition plain_view :: "json \<Rightarrow> bool" where
  "plain_view v \<longleftrightarrow> is_object v \<and> list_all (\<lambda>k. jget v k = None) claim_fields"

lemma is_object_with_field [simp]: "is_object (with_field k v obj)"
  by (cases v) (simp_all add: with_field_def)

lemma status_of_cong: "jget a ''status'' = jget b ''status'' \<Longrightarrow> isTerminalView a = isTerminalView b"
  by (simp add: isTerminalView_def status_of_def)

lemma recent_not_volatile [simp]: "''recent_events'' \<notin> set volatile_fields"
  by (simp add: volatile_fields_def)

lemma snapshot_form:
  "isTerminalView v \<or> array_of (jget v ''recent_events'') = None \<Longrightarrow> runClaimSnapshot v = without volatile_fields v"
  "\<not> isTerminalView v \<Longrightarrow> array_of (jget v ''recent_events'') = Some es \<Longrightarrow>
   runClaimSnapshot v = with_field ''recent_events''
     (Some (JArr (filter (\<lambda>e. text_in retained_event_kinds (jget e ''kind'')) es))) (without volatile_fields v)"
  unfolding runClaimSnapshot_def Let_def jget_without by (auto split: option.splits)

lemma snapshot_get: "k \<notin> set volatile_fields \<Longrightarrow> k \<noteq> ''recent_events'' \<Longrightarrow> jget (runClaimSnapshot v) k = jget v k"
  by (auto simp: runClaimSnapshot_def Let_def split: option.splits)

lemma snapshot_terminal [simp]: "isTerminalView (runClaimSnapshot v) = isTerminalView v"
  by (rule status_of_cong) (simp add: snapshot_get volatile_fields_def)

lemma snapshot_plain: "plain_view v \<Longrightarrow> plain_view (runClaimSnapshot v)"
  by (auto simp: plain_view_def claim_fields_def runClaimSnapshot_def Let_def split: option.splits)

lemma snapshot_without_volatile: "without volatile_fields (runClaimSnapshot v) = runClaimSnapshot v"
proof -
  have "''recent_events'' \<notin> set volatile_fields" by (simp add: volatile_fields_def)
  then show ?thesis
    by (auto simp: runClaimSnapshot_def Let_def without_with_field_other split: option.splits)
qed

lemma snapshot_idem: "runClaimSnapshot (runClaimSnapshot v) = runClaimSnapshot v"
proof -
  let ?w = "runClaimSnapshot v"
  have w: "without volatile_fields ?w = ?w" by (rule snapshot_without_volatile)
  show ?thesis
  proof (cases "isTerminalView v \<or> array_of (jget v ''recent_events'') = None")
    case True
    then have form: "?w = without volatile_fields v" by (rule snapshot_form(1))
    have "array_of (jget ?w ''recent_events'') = array_of (jget v ''recent_events'')" unfolding form by simp
    with True w show ?thesis by (subst snapshot_form(1)) auto
  next
    case False
    then obtain es where es: "array_of (jget v ''recent_events'') = Some es" and nt: "\<not> isTerminalView v" by auto
    let ?p = "\<lambda>e. text_in retained_event_kinds (jget e ''kind'')"
    note form = snapshot_form(2)[OF nt es]
    have arr: "array_of (jget ?w ''recent_events'') = Some (filter ?p es)" unfolding form by simp
    have "runClaimSnapshot ?w = with_field ''recent_events'' (Some (JArr (filter ?p (filter ?p es)))) ?w"
      using snapshot_form(2)[OF _ arr] nt w by simp
    also have "\<dots> = ?w" unfolding form with_field_idem by simp
    finally show ?thesis .
  qed
qed

lemma claim_of_record:
  assumes "plain_view w" and "runClaimSnapshot w = w" and "set (map fst b) \<subseteq> set claim_fields"
  shows "runClaimSnapshot (currentRunClaimView (spread w (JObj b))) = w"
proof -
  obtain a where w: "w = JObj a" using assms(1) by (cases w) (simp_all add: plain_view_def is_object_def)
  have absent: "map_of a k = None" if "k \<in> set claim_fields" for k
    using assms(1) that by (simp add: plain_view_def w list_all_iff)
  have keys: "k \<in> set claim_fields" if "(k, v) \<in> set b" for k v
    using assms(3) that by force
  have "spread w (JObj b) = JObj (a @ b)"
    unfolding spread_def w fields_of_JObj by (rule arg_cong[where f = JObj], rule spread_absent, rule absent, rule keys)
  moreover have "filter (\<lambda>(k, _). k \<notin> set claim_fields) b = []" using keys by (auto simp: filter_empty_conv)
  moreover have "without claim_fields w = w" using assms(1) by (simp add: plain_view_def without_absent)
  ultimately have view: "without claim_fields (spread w (JObj b)) = w" by (simp add: without_def w)
  have volatile: "without volatile_fields w = w" using snapshot_without_volatile[of w] assms(2) by simp
  have exc: "''last_public_output_excerpt'' \<in> set volatile_fields" "''last_public_output_excerpt'' \<noteq> ''recent_events''"
    by (simp_all add: volatile_fields_def)
  show ?thesis
  proof (cases "isTerminalView w \<and> elements (jget w ''recent_events'') \<noteq> [] \<and>
      \<not> truthy (jget w ''last_public_output_excerpt'')")
    case True
    let ?v = "with_field ''last_public_output_excerpt'' (excerpt_json (elements (jget w ''recent_events''))) w"
    have v: "currentRunClaimView (spread w (JObj b)) = ?v" using True by (simp add: currentRunClaimView_def view Let_def)
    have t: "isTerminalView ?v" using True by (subst status_of_cong[of _ w]) simp_all
    have "runClaimSnapshot ?v = without volatile_fields ?v" using t snapshot_form(1) by blast
    also have "\<dots> = w" using without_with_field[OF exc(1)] volatile by simp
    finally show ?thesis unfolding v .
  next
    case False
    then have "currentRunClaimView (spread w (JObj b)) = w" unfolding currentRunClaimView_def view Let_def by (simp only: if_False)
    then show ?thesis using assms(2) by simp
  qed
qed

section \<open>Writes\<close>

text \<open>The claim that a directory holds for a run.\<close>

definition claim_at :: "js_runtime \<Rightarrow> directory \<Rightarrow> string \<Rightarrow> json option" where
  "claim_at rt dir rid =
     (case readRunOwnerRecordFile rt dir (taskRecordPath rid) of
        Inr (Some r) \<Rightarrow> Some (runClaimSnapshot (currentRunClaimView r)) | _ \<Rightarrow> None)"

lemma record_form:
  assumes "ownerRecordForSnapshot rt snapshot existing evidence = Inr r"
  shows "\<exists>b. r = spread (runClaimSnapshot snapshot) (JObj b) \<and> set (map fst b) \<subseteq> set claim_fields"
proof -
  from assms obtain d launch where
    "r = spread (runClaimSnapshot snapshot) (JObj ([(''record_name'', JStr run_owner_record_name), (''record_version'', JNum 1),
        (''declarations'', d)] @ opt_field ''launch_observation'' launch @
        opt_field ''pending_terminal_outputs'' (ce_pending evidence)))"
    unfolding ownerRecordForSnapshot_def Let_def by (auto simp: invalidOwnerRecord_def split: if_splits)
  moreover have "set (map fst ([(''record_name'', JStr run_owner_record_name), (''record_version'', JNum 1),
        (''declarations'', d)] @ opt_field ''launch_observation'' launch @
        opt_field ''pending_terminal_outputs'' (ce_pending evidence))) \<subseteq> set claim_fields"
    by (auto simp: opt_field_def claim_fields_def split: option.splits)
  ultimately show ?thesis by blast
qed

lemma read_replaced: "read_json_file (dir_replace dir n (JsonFile v)) n = Inr v"
proof -
  have "dir_read (dir_replace dir n c) n = Some c" for c
    by (induction dir n c rule: dir_replace.induct) (auto simp: dir_read_def)
  then show ?thesis by (simp add: read_json_file_def parse_file_def)
qed

lemma assert_record_name: "assertRunOwnerRecord rt r = Inr () \<Longrightarrow> has_text r ''record_name'' run_owner_record_name"
  by (rule ccontr) (simp add: assertRunOwnerRecord_def Let_def invalidOwnerRecord_def)

lemma written_claim:
  assumes "plain_view snapshot" and "ownerRecordForSnapshot rt snapshot existing evidence = Inr r"
    and "assertRunOwnerRecord rt r = Inr ()"
  shows "claim_at rt (dir_replace dir (taskRecordPath rid) (JsonFile r)) rid = Some (runClaimSnapshot snapshot)"
proof -
  obtain b where b: "r = spread (runClaimSnapshot snapshot) (JObj b)" "set (map fst b) \<subseteq> set claim_fields"
    using record_form[OF assms(2)] by blast
  have "is_object r" unfolding b(1) by simp
  then have "ownerRecordFromValue rt r = Inr (Some r)"
    using assms(3) assert_record_name[OF assms(3)] by (simp add: ownerRecordFromValue_def)
  then have "claim_at rt (dir_replace dir (taskRecordPath rid) (JsonFile r)) rid = Some (runClaimSnapshot (currentRunClaimView r))"
    by (simp add: claim_at_def readRunOwnerRecordFile_def read_replaced)
  also have "runClaimSnapshot (currentRunClaimView r) = runClaimSnapshot snapshot"
    unfolding b(1) by (rule claim_of_record[OF snapshot_plain[OF assms(1)] snapshot_idem b(2)])
  finally show ?thesis .
qed

lemma terminal_snapshot_plain: "plain_view view \<Longrightarrow> plain_view (terminal_snapshot view)"
  by (auto simp: plain_view_def claim_fields_def terminal_snapshot_def Let_def)

text \<open>A write either leaves the directory alone or replaces the claim by one that may follow it.\<close>

lemma write_step:
  assumes "writeRunClaimOwned rt dir view evidence = Inr (dir', s)" and "plain_view view"
    and "text_or [] (jget view ''run_id'') = rid"
  shows "dir' = dir \<or>
    (\<exists>next. claim_at rt dir' rid = Some next \<and> assertOwnerViewTransition rt (claim_at rt dir rid) next = Inr () \<and>
       (\<forall>n. n \<noteq> taskRecordPath rid \<longrightarrow> dir_read dir' n = dir_read dir n))"
proof -
  let ?name = "taskRecordPath rid"
  let ?snap = "if isTerminalView view then terminal_snapshot view else view"
  have plain: "plain_view ?snap" using assms(2) terminal_snapshot_plain by simp
  obtain stored where stored: "(case readRunOwnerRecordFile rt dir ?name of
           Inl e \<Rightarrow> if is_enoent e then Inr None else Inl e | Inr r \<Rightarrow> Inr r) = Inr stored"
    using assms(1) unfolding writeRunClaimOwned_def Let_def assms(3) bind_result_Inr_iff by blast
  have claim: "claim_at rt dir rid = map_option (\<lambda>r. runClaimSnapshot (currentRunClaimView r)) stored"
    using stored by (auto simp: claim_at_def split: sum.splits option.splits if_splits)
  note run = assms(1)[unfolded writeRunClaimOwned_def Let_def assms(3) stored bind_result.simps claim[symmetric]]
  have other: "dir_read (dir_replace dir ?name c) n = dir_read dir n" if "n \<noteq> ?name" for c n
    using that by (induction dir ?name c rule: dir_replace.induct) (auto simp: dir_read_def)
  have store: ?thesis if "assertOwnerViewTransition rt (claim_at rt dir rid) (runClaimSnapshot ?snap) = Inr ()"
    "bind_result (ownerRecordForSnapshot rt ?snap stored evidence) (\<lambda>r.
       bind_result (assertRunOwnerRecord rt r) (\<lambda>_. Inr (dir_replace dir ?name (JsonFile r), ?snap))) = Inr (dir', s)"
  proof -
    from that(2) obtain r where r: "ownerRecordForSnapshot rt ?snap stored evidence = Inr r" "assertRunOwnerRecord rt r = Inr ()"
        "dir' = dir_replace dir ?name (JsonFile r)"
      unfolding bind_result_Inr_iff by auto
    have "claim_at rt dir' rid = Some (runClaimSnapshot ?snap)"
      unfolding r(3) by (rule written_claim[OF plain r(1,2)])
    with that(1) other r(3) show ?thesis by blast
  qed
  show ?thesis
  proof (cases "claim_at rt dir rid")
    case None
    have "assertOwnerViewTransition rt (claim_at rt dir rid) (runClaimSnapshot ?snap) = Inr ()"
      by (simp add: None assertOwnerViewTransition_def)
    moreover note run[unfolded None option.case]
    ultimately show ?thesis by (rule store)
  next
    case (Some e)
    show ?thesis
    proof (cases "isRestartDriftSnapshot e \<and> isTerminalView view \<and> \<not> isRestartDriftSnapshot view")
      case True
      with run show ?thesis unfolding Some option.case by simp
    next
      case False
      have "bind_result (assertOwnerViewTransition rt (Some e) (runClaimSnapshot ?snap)) (\<lambda>_.
          bind_result (ownerRecordForSnapshot rt ?snap stored evidence) (\<lambda>r.
            bind_result (assertRunOwnerRecord rt r) (\<lambda>_. Inr (dir_replace dir ?name (JsonFile r), ?snap)))) = Inr (dir', s)"
        using run[unfolded Some option.case if_not_P[OF False]] .
      then show ?thesis unfolding Some[symmetric] using store by (auto simp: bind_result_Inr_iff)
    qed
  qed
qed

section \<open>The history of a stored record\<close>

text \<open>The hint of a timed-out run is the one field that may still be completed.\<close>

abbreviation without_hint :: "json \<Rightarrow> json" where
  "without_hint \<equiv> without [''timeout_recovery_hint'']"

definition follows :: "js_runtime \<Rightarrow> json \<Rightarrow> json \<Rightarrow> bool" where
  "follows rt c c' \<longleftrightarrow> c = c' \<or>
     (stable_claims_kept rt c c' \<and>
      (isTerminalView c \<longrightarrow> canonicalValue (without_hint c) = canonicalValue (without_hint c')))"

lemma transition_follows:
  "number_format (rt_num rt) \<Longrightarrow> assertOwnerViewTransition rt (Some c) c' = Inr () \<Longrightarrow> follows rt c c'"
  by (auto simp: assertOwnerViewTransition_def follows_def timeout_enrichment_def same_canonical_value invalidOwnerRecord_def
      split: if_splits)

lemma canonical_status: "canonicalValue (without_hint c) = canonicalValue (without_hint c') \<Longrightarrow> isTerminalView c = isTerminalView c'"
proof -
  assume same: "canonicalValue (without_hint c) = canonicalValue (without_hint c')"
  have "has_text c ''status'' s \<longleftrightarrow> has_text c' ''status'' s" for s
    using canonical_text_field[OF same, of "''status''" s] by (simp add: has_text_def)
  then have "status_of c = Some st \<longleftrightarrow> status_of c' = Some st" for st by (simp add: status_of_iff)
  then show ?thesis by (auto simp: isTerminalView_def)
qed

lemma kept_trans:
  assumes num: "number_format (rt_num rt)" and ab: "stable_claims_kept rt a b" and bc: "stable_claims_kept rt b c"
  shows "stable_claims_kept rt a c"
proof -
  have same: "sameCanonicalOwnerJson (rt_num rt) (Some x) (Some y) \<longleftrightarrow> canonicalValue x = canonicalValue y" for x y
    using same_canonical_value[OF num] .
  have field: "canonicalValue x = canonicalValue y \<Longrightarrow> has_text x k s = has_text y k s" for x y k s
    by (rule canonical_text_field)
  have events: "list_all (\<lambda>e. stable_event e \<longrightarrow> list_ex (\<lambda>x. canonicalValue x = canonicalValue e) (elements (jget c ''recent_events'')))
      (elements (jget a ''recent_events''))"
    unfolding list_all_iff list_ex_iff
  proof (intro ballI impI)
    fix e assume e: "e \<in> set (elements (jget a ''recent_events''))" "stable_event e"
    then obtain x where x: "x \<in> set (elements (jget b ''recent_events''))" "canonicalValue x = canonicalValue e"
      using ab unfolding stable_claims_kept_def Let_def same list_all_iff list_ex_iff by blast
    have "stable_event x" using e(2) field[OF x(2)] by (simp add: stable_event_def)
    then obtain y where "y \<in> set (elements (jget c ''recent_events''))" "canonicalValue y = canonicalValue x"
      using bc x(1) unfolding stable_claims_kept_def Let_def same list_all_iff list_ex_iff by blast
    with x(2) show "\<exists>x\<in>set (elements (jget c ''recent_events'')). canonicalValue x = canonicalValue e" by metis
  qed
  have requests: "list_all (\<lambda>r. has_text r ''status'' ''pending'' \<or>
          list_ex (\<lambda>x. strictly_equal (jget x ''request_id'') (jget r ''request_id'') \<and> canonicalValue x = canonicalValue r)
            (elements (jget c ''input_requests'')))
        (elements (jget a ''input_requests''))"
    unfolding list_all_iff list_ex_iff
  proof (intro ballI)
    fix r assume r: "r \<in> set (elements (jget a ''input_requests''))"
    show "has_text r ''status'' ''pending'' \<or> (\<exists>x\<in>set (elements (jget c ''input_requests'')).
        strictly_equal (jget x ''request_id'') (jget r ''request_id'') \<and> canonicalValue x = canonicalValue r)"
    proof (cases "has_text r ''status'' ''pending''")
      case False
      then obtain x where x: "x \<in> set (elements (jget b ''input_requests''))"
          "strictly_equal (jget x ''request_id'') (jget r ''request_id'')" "canonicalValue x = canonicalValue r"
        using ab r unfolding stable_claims_kept_def Let_def same list_all_iff list_ex_iff by blast
      with False have "\<not> has_text x ''status'' ''pending''" using field[OF x(3)] by simp
      then obtain y where "y \<in> set (elements (jget c ''input_requests''))"
          "strictly_equal (jget y ''request_id'') (jget x ''request_id'')" "canonicalValue y = canonicalValue x"
        using bc x(1) unfolding stable_claims_kept_def Let_def same list_all_iff list_ex_iff by blast
      with x show ?thesis unfolding strictly_equal_def by metis
    qed simp
  qed
  have receipts: "list_all (\<lambda>f. hasOwnDefined a f \<longrightarrow> sameCanonicalOwnerJson (rt_num rt) (jget a f) (jget c f)) stable_receipt_fields"
    unfolding list_all_iff
  proof (intro ballI impI)
    fix f assume f: "f \<in> set stable_receipt_fields" "hasOwnDefined a f"
    then have 1: "sameCanonicalOwnerJson (rt_num rt) (jget a f) (jget b f)"
      using ab unfolding stable_claims_kept_def Let_def list_all_iff by blast
    then have "hasOwnDefined b f" using same_canonical_defined[OF 1] by (simp add: hasOwnDefined_def)
    then have "sameCanonicalOwnerJson (rt_num rt) (jget b f) (jget c f)"
      using bc f(1) unfolding stable_claims_kept_def Let_def list_all_iff by blast
    with 1 show "sameCanonicalOwnerJson (rt_num rt) (jget a f) (jget c f)" by (rule same_canonical_trans)
  qed
  have parts: "is_true (jget a ''child_started'') \<longrightarrow> is_true (jget b ''child_started'')"
      "is_true (jget b ''child_started'') \<longrightarrow> is_true (jget c ''child_started'')"
      "strictly_equal (jget a ''run_id'') (jget b ''run_id'')" "strictly_equal (jget b ''run_id'') (jget c ''run_id'')"
      "strictly_equal (jget a ''task_id'') (jget b ''task_id'')" "strictly_equal (jget b ''task_id'') (jget c ''task_id'')"
      "list_all (\<lambda>f. set (elements (jget a f)) \<subseteq> set (elements (jget b f))) [''child_run_ids'', ''descendant_run_ids'']"
      "list_all (\<lambda>f. set (elements (jget b f)) \<subseteq> set (elements (jget c f))) [''child_run_ids'', ''descendant_run_ids'']"
    using ab bc unfolding stable_claims_kept_def Let_def by - ((elim conjE, assumption)+)
  have rest: "strictly_equal (jget a ''run_id'') (jget c ''run_id'')" "strictly_equal (jget a ''task_id'') (jget c ''task_id'')"
    "is_true (jget a ''child_started'') \<longrightarrow> is_true (jget c ''child_started'')"
    "list_all (\<lambda>f. set (elements (jget a f)) \<subseteq> set (elements (jget c f))) [''child_run_ids'', ''descendant_run_ids'']"
    using parts by (auto simp: strictly_equal_def)
  show ?thesis
    unfolding stable_claims_kept_def Let_def same by (intro conjI rest events receipts requests)
qed

lemma follows_trans:
  assumes "number_format (rt_num rt)" and "follows rt a b" and "follows rt b c"
  shows "follows rt a c"
proof (cases "a = b \<or> b = c")
  case True
  with assms(2,3) show ?thesis by auto
next
  case False
  with assms(2,3) have ab: "stable_claims_kept rt a b" "isTerminalView a \<longrightarrow> canonicalValue (without_hint a) = canonicalValue (without_hint b)"
    and bc: "stable_claims_kept rt b c" "isTerminalView b \<longrightarrow> canonicalValue (without_hint b) = canonicalValue (without_hint c)"
    unfolding follows_def by blast+
  have "isTerminalView a \<longrightarrow> canonicalValue (without_hint a) = canonicalValue (without_hint c)"
    using ab(2) bc(2) canonical_status[of a b] by (cases "isTerminalView a") simp_all
  with kept_trans[OF assms(1) ab(1) bc(1)] show ?thesis unfolding follows_def by blast
qed

definition apply_write :: "js_runtime \<Rightarrow> json \<times> claim_evidence \<Rightarrow> directory \<Rightarrow> directory" where
  "apply_write rt w dir = (case writeRunClaimOwned rt dir (fst w) (snd w) of Inr (dir', _) \<Rightarrow> dir' | Inl _ \<Rightarrow> dir)"

lemma apply_write_follows:
  assumes "number_format (rt_num rt)" and "plain_view (fst w)" and "text_or [] (jget (fst w) ''run_id'') = rid"
    and "claim_at rt dir rid = Some c"
  shows "\<exists>c'. claim_at rt (apply_write rt w dir) rid = Some c' \<and> follows rt c c'"
proof (cases "writeRunClaimOwned rt dir (fst w) (snd w)")
  case (Inl e)
  with assms(4) show ?thesis by (simp add: apply_write_def follows_def)
next
  case (Inr x)
  obtain dir' s where x: "x = (dir', s)" by fastforce
  from write_step[OF Inr[unfolded x] assms(2,3)] assms(4)
  have "dir' = dir \<or> (\<exists>next. claim_at rt dir' rid = Some next \<and> assertOwnerViewTransition rt (Some c) next = Inr ())" by auto
  then show ?thesis
    using assms(4) transition_follows[OF assms(1)] by (auto simp: apply_write_def Inr x follows_def)
qed

lemma fold_writes_follow:
  assumes "number_format (rt_num rt)"
  shows "claim_at rt dir rid = Some c \<Longrightarrow>
    (\<And>w. w \<in> set ws \<Longrightarrow> plain_view (fst w) \<and> text_or [] (jget (fst w) ''run_id'') = rid) \<Longrightarrow>
    \<exists>c'. claim_at rt (fold (apply_write rt) ws dir) rid = Some c' \<and> follows rt c c'"
proof (induction ws arbitrary: dir c)
  case Nil
  then show ?case by (simp add: follows_def)
next
  case (Cons w ws)
  from apply_write_follows[OF assms _ _ Cons.prems(1), of w] Cons.prems(2)[of w]
  obtain c1 where c1: "claim_at rt (apply_write rt w dir) rid = Some c1" "follows rt c c1" by auto
  from Cons.IH[OF c1(1)] Cons.prems(2)
  obtain c' where "claim_at rt (fold (apply_write rt) ws (apply_write rt w dir)) rid = Some c'" "follows rt c1 c'" by auto
  with follows_trans[OF assms c1(2)] show ?case by auto
qed


definition demo_runtime :: js_runtime where
  "demo_runtime = sample_runtime\<lparr>rt_num := quotient_text\<rparr>"

definition demo_claim :: json where
  "demo_claim = JObj
     [(''contract_name'', JStr ''subagent007.durable_run''), (''contract_version'', JNum 3), (''run_id'', JStr ''r''),
      (''task_id'', JStr ''r''), (''task_kind'', JStr ''run''), (''root_run_id'', JStr ''r''), (''recursion_depth'', JNum 0),
      (''child_run_ids'', JArr []), (''descendant_run_ids'', JArr []), (''descendant_terminal_statuses'', JObj []),
      (''started_at'', JStr ''t''), (''input_requests_dir'', JStr ''/i''), (''input_requests'', JArr []),
      (''child_started'', JBool False), (''last_phase_at'', JStr ''t''), (''active_phase'', JStr ''queued''),
      (''status'', JStr ''working'')]"

definition demo_record :: json where
  "demo_record = spread demo_claim (JObj [(''record_name'', JStr run_owner_record_name), (''record_version'', JNum 1),
     (''declarations'', declarations_json (the (ownerRequestDeclarations demo_claim)))])"

lemma demo_claim_declarations: "ownerRequestDeclarations demo_claim \<noteq> None"
  by code_simp

lemma demo_current: "currentRunClaimView demo_record = demo_claim"
  by code_simp

lemma demo_snapshot: "runClaimSnapshot demo_claim = demo_claim"
  by code_simp

lemma demo_claim_ok: "hasCurrentSnapshotStructure demo_runtime demo_claim" "client_start_identity_ok demo_claim"
    "\<not> isTerminalView demo_claim" "\<not> hasAnyOwnField demo_claim retired_current_run_fields" "active_view_ok demo_claim"
  by code_simp+

lemma demo_record_fields: "has_text demo_record ''record_name'' run_owner_record_name"
    "jget demo_record ''record_version'' = Some (JNum 1)" "jget demo_record ''pending_terminal_outputs'' = None"
    "jget demo_record ''launch_observation'' = None" "\<not> is_true (jget demo_claim ''child_started'')"
    "jget demo_record ''declarations'' = Some (declarations_json (the (ownerRequestDeclarations demo_claim)))"
    "is_object demo_record" "plain_view demo_claim" "plain_view demo_view"
  by code_simp+

lemma demo_declarations: "declarations_ok demo_runtime demo_claim (jget demo_record ''declarations'')"
proof -
  obtain d where d: "ownerRequestDeclarations demo_claim = Some d" using demo_claim_declarations by blast
  have "nonempty_string (jget demo_claim ''run_id'')" "strictly_equal (jget demo_claim ''task_id'') (jget demo_claim ''run_id'')"
    "text_in [''run'', ''session''] (jget demo_claim ''task_kind'')" "object_of (jget demo_record ''declarations'') \<noteq> None"
    by code_simp+
  moreover have "number_format (rt_num demo_runtime)" by (simp add: demo_runtime_def quotient_text_format)
  ultimately show ?thesis
    by (simp add: declarations_ok_def d demo_record_fields(6) same_canonical_value)
qed

lemma demo_record_ok: "assertRunOwnerRecord demo_runtime demo_record = Inr ()"
  using demo_claim_ok demo_record_fields(1-5) demo_declarations
  by (simp add: assertRunOwnerRecord_def Let_def demo_current snapshot_ok_iff)

definition demo_directory :: directory where
  "demo_directory = [(taskRecordPath ''r'', JsonFile demo_record)]"

lemma demo_claim_at: "claim_at demo_runtime demo_directory ''r'' = Some demo_claim"
proof -
  have "read_json_file demo_directory (taskRecordPath ''r'') = Inr demo_record"
    by (simp add: demo_directory_def read_json_file_def parse_file_def dir_read_def)
  then show ?thesis
    using demo_record_fields(1,7) demo_record_ok
    by (simp add: claim_at_def readRunOwnerRecordFile_def ownerRecordFromValue_def demo_current demo_snapshot)
qed


end
