(* ===== verification/Crash_Io.thy ===== *)
theory Crash_Io
  imports Run_Types
begin

text \<open>
  Programs whose process may be killed between two of their effects on durable state. A program is run
  with a budget: the number of effects that still happen before the process dies. Reading costs
  nothing; an effect with an empty budget is the end of the run and leaves the state as it is, and no
  \<open>finally\<close> block is executed after it. The rules relate the state before a run to what holds when it
  returns and to what holds wherever it is cut off; the locale \<open>crash_recovery\<close> states what a recovery
  procedure provides and what follows for it, however often it is interrupted itself.
\<close>

section \<open>Programs\<close>

datatype 'a outcome = Done 'a | Failed js_error | Crashed

type_synonym ('s, 'a) io = "'s \<Rightarrow> nat \<Rightarrow> 'a outcome \<times> 's \<times> nat"

definition io_return :: "'a \<Rightarrow> ('s, 'a) io" where
  "io_return a = (\<lambda>s n. (Done a, s, n))"

text \<open>A read of the state, or a check, that may throw.\<close>

definition io_read :: "('s \<Rightarrow> 'a result) \<Rightarrow> ('s, 'a) io" where
  "io_read f = (\<lambda>s n. (case f s of Inl e \<Rightarrow> Failed e | Inr a \<Rightarrow> Done a, s, n))"

definition io_effect :: "('s \<Rightarrow> 's result) \<Rightarrow> ('s, unit) io" where
  "io_effect f = (\<lambda>s n.
     case n of 0 \<Rightarrow> (Crashed, s, 0)
     | Suc m \<Rightarrow> (case f s of Inl e \<Rightarrow> (Failed e, s, m) | Inr s' \<Rightarrow> (Done (), s', m)))"

definition io_bind :: "('s, 'a) io \<Rightarrow> ('a \<Rightarrow> ('s, 'b) io) \<Rightarrow> ('s, 'b) io" where
  "io_bind m f = (\<lambda>s n.
     case m s n of
       (Done a, s', n') \<Rightarrow> f a s' n' | (Failed e, s', n') \<Rightarrow> (Failed e, s', n') | (Crashed, s', n') \<Rightarrow> (Crashed, s', n'))"

text \<open>\<open>try { m } finally { fin }\<close>: an error of the block is rethrown unless the final part throws one.\<close>

definition io_finally :: "('s, 'a) io \<Rightarrow> ('s, unit) io \<Rightarrow> ('s, 'a) io" where
  "io_finally m fin = (\<lambda>s n.
     case m s n of
       (Crashed, s', n') \<Rightarrow> (Crashed, s', n')
     | (r, s', n') \<Rightarrow>
         (case fin s' n' of
            (Done _, s'', n'') \<Rightarrow> (r, s'', n'')
          | (Failed e, s'', n'') \<Rightarrow> (Failed e, s'', n'')
          | (Crashed, s'', n'') \<Rightarrow> (Crashed, s'', n'')))"

definition io_state :: "'a outcome \<times> 's \<times> nat \<Rightarrow> 's" where
  "io_state r = fst (snd r)"

lemmas io_defs = io_return_def io_read_def io_effect_def io_bind_def io_finally_def io_state_def

section \<open>What holds at the end and at every cut\<close>

definition crash_triple :: "('s \<Rightarrow> bool) \<Rightarrow> ('s, 'a) io \<Rightarrow> ('a \<Rightarrow> 's \<Rightarrow> bool) \<Rightarrow> ('s \<Rightarrow> bool) \<Rightarrow> bool" where
  "crash_triple P m Q I \<longleftrightarrow>
     (\<forall>s n. P s \<longrightarrow>
        (case m s n of (Done a, s', _) \<Rightarrow> Q a s' | (Failed _, _, _) \<Rightarrow> False | (Crashed, s', _) \<Rightarrow> I s'))"

lemma triple_return [intro]: "(\<And>s. P s \<Longrightarrow> Q a s) \<Longrightarrow> crash_triple P (io_return a) Q I"
  by (simp add: crash_triple_def io_return_def)

lemma triple_read: "(\<And>s. P s \<Longrightarrow> \<exists>a. f s = Inr a \<and> Q a s) \<Longrightarrow> crash_triple P (io_read f) Q I"
  unfolding crash_triple_def io_read_def by (fastforce split: sum.split)

lemma triple_effect:
  "(\<And>s. P s \<Longrightarrow> I s \<and> (\<exists>s'. f s = Inr s' \<and> Q () s')) \<Longrightarrow> crash_triple P (io_effect f) Q I"
  by (fastforce simp: crash_triple_def io_effect_def split: nat.splits sum.splits)

lemma triple_bind:
  assumes "crash_triple P m R I" and "\<And>a. crash_triple (R a) (f a) Q I"
  shows "crash_triple P (io_bind m f) Q I"
  using assms unfolding crash_triple_def io_bind_def
  by (fastforce split: prod.splits outcome.splits)

lemma triple_finally:
  assumes "crash_triple P m R I" and "\<And>a. crash_triple (R a) fin (\<lambda>_. Q a) I"
  shows "crash_triple P (io_finally m fin) Q I"
proof (unfold crash_triple_def, intro allI impI)
  fix s n assume "P s"
  obtain r s' n' where m: "m s n = (r, s', n')" by (cases "m s n")
  obtain f s'' n'' where fin: "fin s' n' = (f, s'', n'')" by (cases "fin s' n'")
  from assms(1) \<open>P s\<close> have 1: "case r of Done a \<Rightarrow> R a s' | Failed _ \<Rightarrow> False | Crashed \<Rightarrow> I s'"
    by (auto simp: crash_triple_def m split: outcome.splits dest!: spec[of _ s] spec[of _ n])
  show "case io_finally m fin s n of (Done a, s', _) \<Rightarrow> Q a s' | (Failed _, _, _) \<Rightarrow> False | (Crashed, s', _) \<Rightarrow> I s'"
  proof (cases r)
    case (Done a)
    with 1 have "R a s'" by simp
    with assms(2)[of a] have "case f of Done _ \<Rightarrow> Q a s'' | Failed _ \<Rightarrow> False | Crashed \<Rightarrow> I s''"
      by (auto simp: crash_triple_def fin split: outcome.splits dest!: spec[of _ s'] spec[of _ n'])
    then show ?thesis by (simp add: io_finally_def m Done fin split: outcome.splits)
  qed (use 1 in \<open>simp_all add: io_finally_def m\<close>)
qed

lemma triple_weaken:
  assumes "crash_triple P' m Q' I'" and "\<And>s. P s \<Longrightarrow> P' s" and "\<And>a s. Q' a s \<Longrightarrow> Q a s" and "\<And>s. I' s \<Longrightarrow> I s"
  shows "crash_triple P m Q I"
  using assms unfolding crash_triple_def by (fastforce split: prod.splits outcome.splits)

section \<open>How many effects a run needs\<close>

definition finishes :: "nat \<Rightarrow> ('s, 'a) io \<Rightarrow> bool" where
  "finishes k m \<longleftrightarrow> (\<forall>s n. k \<le> n \<longrightarrow> (case m s n of (r, _, n') \<Rightarrow> r \<noteq> Crashed \<and> n \<le> n' + k))"

lemma finishes_return [simp]: "finishes 0 (io_return a)"
  by (simp add: finishes_def io_return_def)

lemma finishes_read [simp]: "finishes 0 (io_read f)"
  by (simp add: finishes_def io_read_def split: sum.splits)

lemma finishes_effect [simp]: "finishes (Suc 0) (io_effect f)"
  by (auto simp: finishes_def io_effect_def split: nat.splits sum.splits)

lemma finishes_bind: "finishes k m \<Longrightarrow> (\<And>a. finishes l (f a)) \<Longrightarrow> finishes (k + l) (io_bind m f)"
proof (unfold finishes_def, intro allI impI)
  fix s n
  assume m: "\<forall>s n. k \<le> n \<longrightarrow> (case m s n of (r, _, n') \<Rightarrow> r \<noteq> Crashed \<and> n \<le> n' + k)"
    and f: "\<And>a. \<forall>s n. l \<le> n \<longrightarrow> (case f a s n of (r, _, n') \<Rightarrow> r \<noteq> Crashed \<and> n \<le> n' + l)" and n: "k + l \<le> n"
  obtain r s' n' where ms: "m s n = (r, s', n')" by (cases "m s n")
  from m n have r: "r \<noteq> Crashed" "n \<le> n' + k" by (auto simp: ms dest!: spec[of _ s] spec[of _ n])
  show "case io_bind m f s n of (r, _, n') \<Rightarrow> r \<noteq> Crashed \<and> n \<le> n' + (k + l)"
  proof (cases r)
    case (Done a)
    obtain q t j where fs: "f a s' n' = (q, t, j)" by (cases "f a s' n'")
    from f[of a] r n have "q \<noteq> Crashed" "n' \<le> j + l" by (auto simp: fs dest!: spec[of _ s'] spec[of _ n'])
    with r show ?thesis by (simp add: io_bind_def ms Done fs)
  qed (use r in \<open>simp_all add: io_bind_def ms\<close>)
qed

lemma finishes_finally: "finishes k m \<Longrightarrow> finishes l fin \<Longrightarrow> finishes (k + l) (io_finally m fin)"
proof (unfold finishes_def, intro allI impI)
  fix s n
  assume m: "\<forall>s n. k \<le> n \<longrightarrow> (case m s n of (r, _, n') \<Rightarrow> r \<noteq> Crashed \<and> n \<le> n' + k)"
    and f: "\<forall>s n. l \<le> n \<longrightarrow> (case fin s n of (r, _, n') \<Rightarrow> r \<noteq> Crashed \<and> n \<le> n' + l)" and n: "k + l \<le> n"
  obtain r s' n' where ms: "m s n = (r, s', n')" by (cases "m s n")
  from m n have r: "r \<noteq> Crashed" "n \<le> n' + k" by (auto simp: ms dest!: spec[of _ s] spec[of _ n])
  obtain q t j where fs: "fin s' n' = (q, t, j)" by (cases "fin s' n'")
  from f r n have "q \<noteq> Crashed" "n' \<le> j + l" by (auto simp: fs dest!: spec[of _ s'] spec[of _ n'])
  with r show "case io_finally m fin s n of (r, _, n') \<Rightarrow> r \<noteq> Crashed \<and> n \<le> n' + (k + l)"
    by (cases r; cases q) (simp_all add: io_finally_def ms fs)
qed

lemma finishes_mono: "finishes k m \<Longrightarrow> k \<le> l \<Longrightarrow> finishes l m"
  unfolding finishes_def
proof (intro allI impI)
  fix s n
  assume fin: "\<forall>s n. k \<le> n \<longrightarrow> (case m s n of (r, _, n') \<Rightarrow> r \<noteq> Crashed \<and> n \<le> n' + k)" and "k \<le> l" "l \<le> n"
  then have "case m s n of (r, _, n') \<Rightarrow> r \<noteq> Crashed \<and> n \<le> n' + k" by simp
  with \<open>k \<le> l\<close> show "case m s n of (r, _, n') \<Rightarrow> r \<noteq> Crashed \<and> n \<le> n' + l" by (auto split: prod.splits)
qed

section \<open>Recovery\<close>

text \<open>The state after a sequence of runs, the \<open>i\<close>-th of which is killed after \<open>ns ! i\<close> effects.\<close>

definition interrupted :: "('s, 'a) io \<Rightarrow> nat list \<Rightarrow> 's \<Rightarrow> 's" where
  "interrupted m ns s = fold (\<lambda>n s. io_state (m s n)) ns s"

text \<open>A recovery procedure keeps its invariant wherever it is cut, and establishes its goal, which is
  itself a state of the invariant, within a fixed number of effects.\<close>

locale crash_recovery =
  fixes ok :: "'p \<Rightarrow> bool"
    and recover :: "'p \<Rightarrow> ('s, unit) io"
    and inv :: "'p \<Rightarrow> 's \<Rightarrow> bool"
    and goal :: "'p \<Rightarrow> 's \<Rightarrow> bool"
    and bound :: nat
  assumes recovers: "ok p \<Longrightarrow> crash_triple (inv p) (recover p) (\<lambda>_. goal p) (inv p)"
    and goal_inv: "ok p \<Longrightarrow> goal p s \<Longrightarrow> inv p s"
    and ends: "finishes bound (recover p)"
begin

lemma interrupted_inv: "ok p \<Longrightarrow> inv p s \<Longrightarrow> inv p (interrupted (recover p) ns s)"
proof (induction ns arbitrary: s)
  case (Cons n ns)
  obtain r s' n' where run: "recover p s n = (r, s', n')" by (cases "recover p s n")
  from recovers[OF Cons.prems(1)] Cons.prems(2)
  have "case r of Done a \<Rightarrow> goal p s' | Failed _ \<Rightarrow> False | Crashed \<Rightarrow> inv p s'"
    by (auto simp: crash_triple_def run split: outcome.splits dest!: spec[of _ s] spec[of _ n])
  then have "inv p s'" using goal_inv[OF Cons.prems(1)] by (cases r) auto
  from Cons.IH[OF Cons.prems(1) this] show ?case by (simp add: interrupted_def io_state_def run)
qed (simp add: interrupted_def)

text \<open>However often recovery is interrupted, one run that is not reaches the goal.\<close>

lemma recovers_eventually:
  assumes "ok p" and "inv p s" and "bound \<le> n"
  shows "\<exists>s' n'. recover p (interrupted (recover p) ns s) n = (Done (), s', n') \<and> goal p s'"
proof -
  let ?s = "interrupted (recover p) ns s"
  obtain r s' n' where run: "recover p ?s n = (r, s', n')" by (cases "recover p ?s n")
  have "r \<noteq> Crashed" using ends[of p] assms(3) by (auto simp: finishes_def run dest!: spec[of _ ?s] spec[of _ n])
  moreover from recovers[OF assms(1)] interrupted_inv[OF assms(1,2)]
  have "case r of Done a \<Rightarrow> goal p s' | Failed _ \<Rightarrow> False | Crashed \<Rightarrow> inv p s'"
    by (auto simp: crash_triple_def run split: outcome.splits dest!: spec[of _ ?s] spec[of _ n])
  ultimately show ?thesis using run by (cases r) auto
qed

end

end
