(* ===== verification/Session_Commit.thy ===== *)
theory Session_Commit
  imports Crash_Io Run_View Run_Output Transcript Canonical_Text "HOL-Library.AList"
begin

text \<open>
  The durable state of a named session and its commit protocol (\<open>src/session.ts\<close>, lines 55-130 and
  270-290 and 420-690): the manifest, the ledger of committed runs, the canonical session file and the
  pending commit that names all three. The disk is a map from resolved paths to file texts; a process
  may die between any two changes of it (\<open>Crash_Io\<close>). A file that is written under a temporary name and
  renamed counts as one change, and so does the appending of one line. Session files are only hashed and
  copied. The schema library is a parameter: a schema of the code is a \<open>zod_type\<close>, and \<open>se_zod\<close> answers
  with the parsed value or the summary of its issues; the pretty printer of \<open>JSON.stringify\<close> and the
  collation keys behind \<open>localeCompare\<close> are parameters of the runtime too.
\<close>

section \<open>The environment\<close>

datatype zod_type =
    Z_literal json
  | Z_string
  | Z_boolean
  | Z_int "int option"
  | Z_enum "string list"
  | Z_nullable zod_type
  | Z_optional zod_type
  | Z_primary_reference
  | Z_object bool "(string \<times> zod_type) list"

text \<open>\<open>Z_int m\<close> is \<open>z.number().int()\<close> with the lower bound \<open>m\<close> of \<open>nonnegative()\<close> or \<open>positive()\<close>;
  \<open>Z_object p\<close> passes unknown keys through when \<open>p\<close> and drops them otherwise.\<close>

record session_env =
  se_rt :: js_runtime
  se_pretty :: "json \<Rightarrow> string"
  se_collate :: "string \<Rightarrow> string"
  se_zod :: "zod_type \<Rightarrow> json \<Rightarrow> string + json"
  se_cwd :: string

type_synonym disk = "(string \<times> string) list"

definition se_path :: "session_env \<Rightarrow> string \<Rightarrow> string" where
  "se_path env p = (if is_absolute p then path_resolve p else path_resolve (se_cwd env @ slash # p))"

definition disk_read :: "session_env \<Rightarrow> disk \<Rightarrow> string \<Rightarrow> string option" where
  "disk_read env d p = map_of d (se_path env p)"

definition disk_write :: "session_env \<Rightarrow> string \<Rightarrow> string \<Rightarrow> disk \<Rightarrow> disk" where
  "disk_write env p t d = AList.update (se_path env p) t d"

text \<open>\<open>fs.rm(path, { force: true })\<close> and \<open>fs.rm(path, { recursive: true, force: true })\<close>\<close>

definition disk_rm :: "session_env \<Rightarrow> string \<Rightarrow> disk \<Rightarrow> disk" where
  "disk_rm env p d = AList.delete (se_path env p) d"

definition disk_rm_tree :: "session_env \<Rightarrow> string \<Rightarrow> disk \<Rightarrow> disk" where
  "disk_rm_tree env p d = filter (\<lambda>(q, _). \<not> is_within (se_path env p) q) d"

definition disk_link :: "session_env \<Rightarrow> disk \<Rightarrow> string \<Rightarrow> string \<Rightarrow> disk option" where
  "disk_link env d p t = (if disk_read env d p = None then Some (disk_write env p t d) else None)"

section \<open>Schemas\<close>

definition resume_modes :: "string list" where
  "resume_modes = [''new'', ''resume_or_new'', ''require_existing'']"

definition session_packet_policies :: "string list" where
  "session_packet_policies = [''none'', ''required'', ''best_effort'']"

definition packet_parse_statuses :: "string list" where
  "packet_parse_statuses = [''valid'', ''missing'', ''invalid'', ''not_run'']"

definition session_manifest_schema :: zod_type where
  "session_manifest_schema = Z_object False
     [(''schema_version'', Z_literal (JNum 1)), (''session_key'', Z_string), (''cwd'', Z_string),
      (''skill'', Z_nullable Z_string), (''initial_model_class'', Z_optional (Z_enum (map fst model_classes))),
      (''initial_model'', Z_optional Z_string), (''subagent_session_id'', Z_string), (''created_at'', Z_string),
      (''last_run_at'', Z_string), (''run_count'', Z_int (Some 0)), (''last_output_reference'', Z_primary_reference),
      (''status'', Z_literal (JStr ''active''))]"

definition session_run_record_schema :: zod_type where
  "session_run_record_schema = Z_object True
     [(''run_id'', Z_string), (''sequence'', Z_int (Some 1)), (''started_at'', Z_string), (''finished_at'', Z_string),
      (''action'', Z_enum [''created'', ''resumed'', ''not_created'']), (''subagent_session_id'', Z_nullable Z_string),
      (''attempt_subagent_session_id'', Z_optional (Z_nullable Z_string)),
      (''attempt_session_established'', Z_optional Z_boolean), (''resume_mode'', Z_enum resume_modes),
      (''output_reference'', Z_primary_reference), (''packet_path'', Z_nullable Z_string),
      (''packet_policy'', Z_enum session_packet_policies), (''packet_parse_status'', Z_enum packet_parse_statuses),
      (''packet_error'', Z_optional Z_string), (''success'', Z_boolean), (''exit_code'', Z_nullable (Z_int None)),
      (''timed_out'', Z_boolean), (''partial_output_available'', Z_optional Z_boolean),
      (''resume_possible'', Z_optional Z_boolean), (''duration_ms'', Z_int (Some 0)),
      (''requested_timeout_ms'', Z_optional (Z_nullable (Z_int (Some 1)))),
      (''resolved_timeout_ms'', Z_optional (Z_nullable (Z_int (Some 1)))),
      (''timeout_floor_ms'', Z_optional (Z_int (Some 0))),
      (''effective_timeout_ms'', Z_optional (Z_nullable (Z_int (Some 1)))),
      (''timeout_headroom_ms'', Z_optional (Z_int (Some 0))), (''kill_grace_ms'', Z_optional (Z_int (Some 0))),
      (''force_grace_ms'', Z_optional (Z_int (Some 0))),
      (''resolved_model_class'', Z_optional (Z_enum (map fst model_classes))),
      (''requested_skill'', Z_nullable Z_string), (''resolved_skill_path'', Z_optional (Z_nullable Z_string)),
      (''resolved_skill_sha256'', Z_optional (Z_nullable Z_string)),
      (''requested_output_mode'', Z_enum (map fst output_modes)), (''written_output_mode'', Z_enum (map fst output_modes)),
      (''stop_reason'', Z_optional (Z_enum (map fst stop_reason_texts))),
      (''stop_signal'', Z_optional (Z_nullable Z_string)), (''error'', Z_optional Z_string)]"

definition session_commit_schema :: zod_type where
  "session_commit_schema = Z_object False
     [(''schema_version'', Z_literal (JNum 1)), (''attempt_subagent_session_id'', Z_string),
      (''predecessor_sha256'', Z_nullable Z_string), (''successor_sha256'', Z_string),
      (''run_record'', session_run_record_schema), (''next_manifest'', session_manifest_schema)]"

text \<open>A commit that has been parsed.\<close>

record pending_commit =
  pc_attempt :: string
  pc_predecessor :: "string option"
  pc_successor :: string
  pc_record :: json
  pc_manifest :: json

definition commit_json :: "pending_commit \<Rightarrow> json" where
  "commit_json c = JObj
     [(''schema_version'', JNum 1), (''attempt_subagent_session_id'', JStr (pc_attempt c)),
      (''predecessor_sha256'', case pc_predecessor c of None \<Rightarrow> JNull | Some h \<Rightarrow> JStr h),
      (''successor_sha256'', JStr (pc_successor c)), (''run_record'', pc_record c), (''next_manifest'', pc_manifest c)]"

definition commit_of_json :: "json \<Rightarrow> pending_commit" where
  "commit_of_json v =
     \<lparr>pc_attempt = text_or [] (jget v ''attempt_subagent_session_id''),
      pc_predecessor = text_of (jget v ''predecessor_sha256''), pc_successor = text_or [] (jget v ''successor_sha256''),
      pc_record = (case jget v ''run_record'' of Some r \<Rightarrow> r | None \<Rightarrow> JNull),
      pc_manifest = (case jget v ''next_manifest'' of Some m \<Rightarrow> m | None \<Rightarrow> JNull)\<rparr>"

definition run_id_of :: "json \<Rightarrow> string" where
  "run_id_of v = text_or [] (jget v ''run_id'')"

definition pc_canonical :: "pending_commit \<Rightarrow> string" where
  "pc_canonical c = text_or [] (jget (pc_manifest c) ''subagent_session_id'')"

section \<open>Reading\<close>

definition invalid_with :: "string \<Rightarrow> failure_reason_code \<Rightarrow> string \<Rightarrow> 'a result" where
  "invalid_with m rc detail = Inl (ValidationError (m @ detail) rc)"

definition readManifest :: "session_env \<Rightarrow> disk \<Rightarrow> string \<Rightarrow> json option result" where
  "readManifest env d p =
     (case disk_read env d p of
        None \<Rightarrow> Inr None
      | Some t \<Rightarrow>
          (case rt_json_parse (se_rt env) t of
             None \<Rightarrow> invalid_with ''session manifest is unreadable: '' Rc_session_manifest_invalid (message_of JsonSyntaxError)
           | Some v \<Rightarrow>
               (case se_zod env session_manifest_schema v of
                  Inl issues \<Rightarrow> invalid_with ''session manifest is invalid: '' Rc_session_manifest_invalid issues
                | Inr m \<Rightarrow> Inr (Some m))))"

fun parse_ledger_lines :: "session_env \<Rightarrow> nat \<Rightarrow> string list \<Rightarrow> json list result" where
  "parse_ledger_lines env i [] = Inr []"
| "parse_ledger_lines env i (line # lines) =
     (let here = (\<lambda>detail. invalid_with (''session ledger is invalid at line '' @ rt_num (se_rt env) (of_nat i) @ '': '')
                    Rc_session_ledger_invalid detail) in
      case rt_json_parse (se_rt env) line of
        None \<Rightarrow> here (message_of JsonSyntaxError)
      | Some v \<Rightarrow>
          (case se_zod env session_run_record_schema v of
             Inl issues \<Rightarrow> here issues
           | Inr r \<Rightarrow> bind_result (parse_ledger_lines env (Suc i) lines) (\<lambda>rs. Inr (r # rs))))"

definition ledger_lines :: "string \<Rightarrow> string list" where
  "ledger_lines t = filter (\<lambda>l. \<not> blank l) (split_lines t)"

definition readLedgerRecords :: "session_env \<Rightarrow> disk \<Rightarrow> string \<Rightarrow> json list result" where
  "readLedgerRecords env d p =
     (case disk_read env d p of None \<Rightarrow> Inr [] | Some t \<Rightarrow> parse_ledger_lines env 1 (ledger_lines t))"

definition sha256File :: "session_env \<Rightarrow> disk \<Rightarrow> string \<Rightarrow> string option" where
  "sha256File env d p = map_option (rt_sha256 (se_rt env)) (disk_read env d p)"

text \<open>\<open>normalize\<close> sorts the keys of every object by \<open>localeCompare\<close>, which compares collation keys.\<close>

fun normalize :: "(string \<Rightarrow> string) \<Rightarrow> json \<Rightarrow> json" where
  "normalize col (JArr vs) = JArr (map (normalize col) vs)"
| "normalize col (JObj kvs) = JObj (map (\<lambda>(k, v). (k, normalize col v)) (sort_key (col \<circ> fst) kvs))"
| "normalize col v = v"

definition jsonEquivalent :: "session_env \<Rightarrow> json \<Rightarrow> json \<Rightarrow> bool" where
  "jsonEquivalent env a b \<longleftrightarrow>
     json_text (rt_num (se_rt env)) (normalize (se_collate env) a) =
     json_text (rt_num (se_rt env)) (normalize (se_collate env) b)"

section \<open>Paths of a commit\<close>

definition path_segments :: "string \<Rightarrow> string list" where
  "path_segments p = resolve_segments [] (split_slash p)"

fun common_prefix :: "'a list \<Rightarrow> 'a list \<Rightarrow> nat" where
  "common_prefix (x # xs) (y # ys) = (if x = y then Suc (common_prefix xs ys) else 0)"
| "common_prefix _ _ = 0"

text \<open>\<open>path.relative(from, to)\<close> of resolved paths\<close>

definition path_relative :: "string \<Rightarrow> string \<Rightarrow> string" where
  "path_relative a b =
     (let xs = path_segments a; ys = path_segments b; n = common_prefix xs ys;
          ws = replicate (length xs - n) ''..'' @ drop n ys
      in if ws = [] then [] else tl (join_segments ws))"

definition path_basename :: "string \<Rightarrow> string" where
  "path_basename p = (let ws = path_segments p in if ws = [] then [] else last ws)"

definition commit_path_ok :: "session_env \<Rightarrow> string \<Rightarrow> string \<Rightarrow> bool" where
  "commit_path_ok env sessionDir p \<longleftrightarrow>
     (let relative = path_relative (se_path env sessionDir) (se_path env p)
      in \<not> (relative = [] \<or> starts_with ''../'' relative \<or> is_absolute relative))"

definition assertCommitPathInside :: "session_env \<Rightarrow> string \<Rightarrow> string \<Rightarrow> unit result" where
  "assertCommitPathInside env sessionDir p =
     (if commit_path_ok env sessionDir p then Inr ()
      else Inl (ValidationError ''session commit contains an invalid artifact path'' Rc_session_commit_invalid))"

definition pendingCommitPath :: "string \<Rightarrow> string" where
  "pendingCommitPath sessionDir = path_join sessionDir ''pending-commit.json''"

definition readPendingCommit :: "session_env \<Rightarrow> disk \<Rightarrow> string \<Rightarrow> pending_commit option result" where
  "readPendingCommit env d sessionDir =
     (case disk_read env d (pendingCommitPath sessionDir) of
        None \<Rightarrow> Inr None
      | Some t \<Rightarrow>
          (case rt_json_parse (se_rt env) t of
             None \<Rightarrow> invalid_with ''session commit is unreadable: '' Rc_session_commit_invalid (message_of JsonSyntaxError)
           | Some v \<Rightarrow>
               (case se_zod env session_commit_schema v of
                  Inl issues \<Rightarrow> invalid_with ''session commit is invalid: '' Rc_session_commit_invalid issues
                | Inr w \<Rightarrow>
                    (let c = commit_of_json w in
                     bind_result (assertCommitPathInside env sessionDir (pc_canonical c)) (\<lambda>_.
                       bind_result (assertCommitPathInside env sessionDir (pc_attempt c)) (\<lambda>_. Inr (Some c)))))))"

text \<open>\<open>encodeURIComponent\<close>, for code units below 256.\<close>

definition uri_unreserved :: "char \<Rightarrow> bool" where
  "uri_unreserved c \<longleftrightarrow> is_alnum c \<or> c \<in> set (''-_.!~*()'' @ [char_of (39 :: nat)])"

definition percent_byte :: "nat \<Rightarrow> string" where
  "percent_byte n = (let hex = (\<lambda>k. char_of (if k < 10 then 48 + k else 55 + k :: nat)) in [CHR ''%'', hex (n div 16), hex (n mod 16)])"

definition encode_uri_component :: "string \<Rightarrow> string" where
  "encode_uri_component s = concat (map (\<lambda>c.
     if uri_unreserved c then [c]
     else let n = of_char c :: nat in
       if n < 128 then percent_byte n else percent_byte (192 + n div 64) @ percent_byte (128 + n mod 64)) s)"

definition stagedCanonicalPath :: "session_env \<Rightarrow> pending_commit \<Rightarrow> string" where
  "stagedCanonicalPath env c =
     (let p = se_path env (pc_canonical c) in
      path_join (path_dirname p)
        (''.'' @ path_basename p @ ''.pending-'' @ encode_uri_component (run_id_of (pc_record c))))"

section \<open>Writing\<close>

type_synonym 'a disk_io = "(disk, 'a) io"

definition writeJsonAtomic :: "session_env \<Rightarrow> string \<Rightarrow> json \<Rightarrow> unit disk_io" where
  "writeJsonAtomic env p v = io_effect (\<lambda>d. Inr (disk_write env p (se_pretty env v @ newline) d))"

definition rm_file :: "session_env \<Rightarrow> string \<Rightarrow> unit disk_io" where
  "rm_file env p = io_effect (\<lambda>d. Inr (disk_rm env p d))"

definition rm_tree :: "session_env \<Rightarrow> string \<Rightarrow> unit disk_io" where
  "rm_tree env p = io_effect (\<lambda>d. Inr (disk_rm_tree env p d))"

definition copy_file :: "session_env \<Rightarrow> string \<Rightarrow> string \<Rightarrow> unit disk_io" where
  "copy_file env src dst = io_effect (\<lambda>d.
     case disk_read env d src of None \<Rightarrow> Inl (ErrnoError ENOENT) | Some t \<Rightarrow> Inr (disk_write env dst t d))"

definition rename_file :: "session_env \<Rightarrow> string \<Rightarrow> string \<Rightarrow> unit disk_io" where
  "rename_file env src dst = io_effect (\<lambda>d.
     case disk_read env d src of None \<Rightarrow> Inl (ErrnoError ENOENT)
     | Some t \<Rightarrow> Inr (disk_write env dst t (disk_rm env src d)))"

definition appendRunRecordIdempotent :: "session_env \<Rightarrow> string \<Rightarrow> json \<Rightarrow> unit disk_io" where
  "appendRunRecordIdempotent env p r =
     io_bind (io_read (\<lambda>d. readLedgerRecords env d p)) (\<lambda>rs.
       case find (\<lambda>x. run_id_of x = run_id_of r) rs of
         Some x \<Rightarrow>
           if jsonEquivalent env x r then io_return ()
           else io_read (\<lambda>_. Inl (ValidationError ''session ledger already contains a conflicting committed run''
                                  Rc_session_ledger_invalid))
       | None \<Rightarrow> io_effect (\<lambda>d.
           Inr (disk_write env p
             ((case disk_read env d p of None \<Rightarrow> [] | Some t \<Rightarrow> t) @ json_text (rt_num (se_rt env)) r @ newline) d)))"

definition publishAttemptFile :: "session_env \<Rightarrow> pending_commit \<Rightarrow> unit disk_io" where
  "publishAttemptFile env c =
     (let staged = stagedCanonicalPath env c; canonical = pc_canonical c in
      io_bind (io_read (\<lambda>d. Inr (sha256File env d canonical))) (\<lambda>canonicalHash.
        if canonicalHash = Some (pc_successor c) then io_return ()
        else if canonicalHash \<noteq> pc_predecessor c
        then io_read (\<lambda>_. Inl (ValidationError ''canonical session content does not match the pending commit''
                               Rc_session_commit_invalid))
        else io_bind (io_read (\<lambda>d. Inr (sha256File env d (pc_attempt c)))) (\<lambda>attemptHash.
          if attemptHash \<noteq> Some (pc_successor c)
          then io_read (\<lambda>_. Inl (ValidationError ''attempt session content does not match the pending commit''
                                 Rc_session_commit_invalid))
          else io_bind (rm_file env staged) (\<lambda>_.
            io_finally
              (io_bind (copy_file env (pc_attempt c) staged) (\<lambda>_. rename_file env staged canonical))
              (rm_file env staged)))))"

definition verify_commit :: "session_env \<Rightarrow> string \<Rightarrow> string \<Rightarrow> pending_commit \<Rightarrow> disk \<Rightarrow> unit result" where
  "verify_commit env ledgerPath manifestPath c d =
     (if sha256File env d (pc_canonical c) \<noteq> Some (pc_successor c)
      then Inl (ValidationError ''canonical session verification failed after commit'' Rc_session_commit_invalid)
      else bind_result (readLedgerRecords env d ledgerPath) (\<lambda>rs.
        if (case find (\<lambda>x. run_id_of x = run_id_of (pc_record c)) rs of
              None \<Rightarrow> True | Some x \<Rightarrow> \<not> jsonEquivalent env x (pc_record c))
        then Inl (ValidationError ''session ledger verification failed after commit'' Rc_session_commit_invalid)
        else bind_result (readManifest env d manifestPath) (\<lambda>m.
          if (case m of None \<Rightarrow> True | Some x \<Rightarrow> \<not> jsonEquivalent env x (pc_manifest c))
          then Inl (ValidationError ''session manifest verification failed after commit'' Rc_session_commit_invalid)
          else Inr ())))"

definition applyPendingCommit :: "session_env \<Rightarrow> string \<Rightarrow> string \<Rightarrow> string \<Rightarrow> pending_commit \<Rightarrow> unit disk_io" where
  "applyPendingCommit env sessionDir ledgerPath manifestPath c =
     io_bind (publishAttemptFile env c) (\<lambda>_.
     io_bind (appendRunRecordIdempotent env ledgerPath (pc_record c)) (\<lambda>_.
     io_bind (writeJsonAtomic env manifestPath (pc_manifest c)) (\<lambda>_.
     io_bind (io_read (verify_commit env ledgerPath manifestPath c)) (\<lambda>_.
     io_bind (rm_file env (stagedCanonicalPath env c)) (\<lambda>_.
     io_bind (rm_tree env (path_dirname (se_path env (pc_attempt c)))) (\<lambda>_.
       rm_file env (pendingCommitPath sessionDir)))))))"

definition commitAttemptSession ::
  "session_env \<Rightarrow> string \<Rightarrow> string \<Rightarrow> string \<Rightarrow> string \<Rightarrow> json \<Rightarrow> json \<Rightarrow> unit disk_io" where
  "commitAttemptSession env sessionDir ledgerPath manifestPath attempt runRecord nextManifest =
     io_bind (io_read (\<lambda>d.
         case sha256File env d attempt of
           None \<Rightarrow> Inl (ValidationError ''attempt session file is missing before commit'' Rc_session_commit_invalid)
         | Some h \<Rightarrow> Inr \<lparr>pc_attempt = attempt,
             pc_predecessor = sha256File env d (text_or [] (jget nextManifest ''subagent_session_id'')),
             pc_successor = h, pc_record = runRecord, pc_manifest = nextManifest\<rparr>)) (\<lambda>c.
     io_bind (writeJsonAtomic env (pendingCommitPath sessionDir) (commit_json c)) (\<lambda>_.
       applyPendingCommit env sessionDir ledgerPath manifestPath c))"

text \<open>What every run of a session does first, under the session's lock.\<close>

definition recover_pending :: "session_env \<Rightarrow> string \<Rightarrow> string \<Rightarrow> string \<Rightarrow> unit disk_io" where
  "recover_pending env sessionDir ledgerPath manifestPath =
     io_bind (io_read (\<lambda>d. readPendingCommit env d sessionDir)) (\<lambda>pending.
       case pending of None \<Rightarrow> io_return () | Some c \<Rightarrow> applyPendingCommit env sessionDir ledgerPath manifestPath c)"

definition reconcileManifestWithLedger :: "session_env \<Rightarrow> json \<Rightarrow> string \<Rightarrow> string \<Rightarrow> json disk_io" where
  "reconcileManifestWithLedger env manifest manifestPath ledgerPath =
     io_bind (io_read (\<lambda>d. readLedgerRecords env d ledgerPath)) (\<lambda>rs.
       let count = (case jget manifest ''run_count'' of Some (JNum x) \<Rightarrow> x | _ \<Rightarrow> 0);
           num = rt_num (se_rt env);
           invalid = (\<lambda>m. io_read (\<lambda>_. Inl (ValidationError m Rc_session_ledger_invalid)))
       in if of_nat (length rs) = count then io_return manifest
          else if of_nat (length rs) < count
          then invalid (''session ledger is behind manifest: ledger='' @ num (of_nat (length rs)) @ '' manifest='' @ num count)
          else (let l = last rs in
            if rs = [] \<or> jget l ''action'' = Some (JStr ''not_created'')
            then invalid ''session ledger cannot reconcile manifest from a failed start record''
            else if (case jget l ''subagent_session_id'' of
                Some (JStr s) \<Rightarrow> s \<noteq> [] \<and> jget manifest ''subagent_session_id'' \<noteq> Some (JStr s) | _ \<Rightarrow> False)
            then invalid ''session ledger subagent_session_id does not match manifest''
            else (let reconciled = spread manifest (JObj
                [(''run_count'', JNum (of_nat (length rs))), (''last_run_at'', JStr (text_or [] (jget l ''finished_at''))),
                 (''last_output_reference'', case jget l ''output_reference'' of Some r \<Rightarrow> r | None \<Rightarrow> JNull)])
              in io_bind (writeJsonAtomic env manifestPath reconciled) (\<lambda>_. io_return reconciled))))"

section \<open>The disk\<close>

interpretation disk: file_store map_of "\<lambda>d k t. if map_of d k = None then Some (AList.update k t d) else None"
    "\<lambda>d k t. AList.update k t d" "\<lambda>d k. AList.delete k d"
  by unfold_locales (auto simp: update_conv' delete_conv' split: if_splits)

lemma disk_read_write [store_simps]:
  "disk_read env (disk_write env p t d) q = (if se_path env q = se_path env p then Some t else disk_read env d q)"
  by (simp add: disk_read_def disk_write_def update_conv')

lemma disk_read_rm [store_simps]:
  "disk_read env (disk_rm env p d) q = (if se_path env q = se_path env p then None else disk_read env d q)"
  by (simp add: disk_read_def disk_rm_def delete_conv')

lemma disk_read_rm_tree [store_simps]:
  "\<not> is_within (se_path env p) (se_path env q) \<Longrightarrow> disk_read env (disk_rm_tree env p d) q = disk_read env d q"
proof -
  assume outside: "\<not> is_within (se_path env p) (se_path env q)"
  have "map_of (filter (\<lambda>(r, _). \<not> is_within (se_path env p) r) d) (se_path env q) = map_of d (se_path env q)"
    using outside by (induction d) auto
  then show ?thesis by (simp add: disk_read_def disk_rm_tree_def)
qed

section \<open>Ledger lines\<close>

lemma split_newlines_nonempty [simp]: "split_newlines t \<noteq> []"
  by (induction t rule: split_newlines.induct) (auto split: list.splits)

lemma split_newlines_join: "split_newlines (t @ newline @ u) = split_newlines t @ split_newlines u"
proof (induction t rule: split_newlines.induct)
  case 1
  then show ?case by (simp add: newline_def)
next
  case (2 c cs)
  then show ?case by (cases "split_newlines cs") (auto split: list.splits)
qed

lemma split_newlines_line: "list_all (\<lambda>c. of_char c \<noteq> (10 :: nat)) l \<Longrightarrow> split_newlines l = [l]"
  by (induction l) auto

lemma ledger_lines_append:
  assumes "t = [] \<or> (\<exists>u. t = u @ newline)" and "list_all (\<lambda>c. of_char c \<noteq> (10 :: nat)) l" and "drop_cr l = l" and "\<not> blank l"
  shows "ledger_lines (t @ l @ newline) = ledger_lines t @ [l]"
proof -
  have empty: "drop_cr [] = []" "blank []" by (simp_all add: drop_cr_def blank_def js_trim_def)
  have line: "split_newlines (l @ newline) = [l, []]"
    using split_newlines_join[of l "[]"] split_newlines_line[OF assms(2)] by simp
  from assms(1) show ?thesis
  proof
    assume "t = []"
    then show ?thesis using line assms(3,4) empty by (simp add: ledger_lines_def split_lines_def)
  next
    assume "\<exists>u. t = u @ newline"
    then obtain u where t: "t = u @ newline" by blast
    have "split_newlines t = split_newlines u @ [[]]" using split_newlines_join[of u "[]"] by (simp add: t)
    moreover have "split_newlines (t @ l @ newline) = split_newlines u @ [l, []]"
      using split_newlines_join[of u "l @ newline"] line by (simp add: t)
    ultimately show ?thesis using assms(3,4) empty by (simp add: ledger_lines_def split_lines_def butlast_append)
  qed
qed

text \<open>The text of a JSON value is one line.\<close>

lemma escape_char_line: "list_all (\<lambda>c. of_char c \<noteq> (10 :: nat)) (escape_char c)"
proof -
  have "of_char (hex_digit k) \<noteq> (10 :: nat)" if "k < 16" for k
    using that by (simp add: hex_digit_def)
  moreover have "of_char c mod 16 < (16 :: nat)" by simp
  ultimately show ?thesis by (auto simp: escape_char_def Let_def)
qed

lemma quote_text_line: "list_all (\<lambda>c. of_char c \<noteq> (10 :: nat)) (quote_text s)"
  using escape_char_line by (induction s) (auto simp: quote_text_def)

lemma comma_join_line:
  "list_all (list_all (\<lambda>c. of_char c \<noteq> (10 :: nat))) ts \<Longrightarrow> list_all (\<lambda>c. of_char c \<noteq> (10 :: nat)) (comma_join ts)"
  by (induction ts rule: comma_join.induct) auto

lemma json_text_line: "number_format num \<Longrightarrow> list_all (\<lambda>c. of_char c \<noteq> (10 :: nat)) (json_text num v)"
proof (induction num v rule: json_text.induct)
  case (3 num x)
  then have "list_all number_char (num x)" unfolding number_format_def by blast
  moreover have "number_char c \<Longrightarrow> of_char c \<noteq> (10 :: nat)" for c by (auto simp: number_char_def is_digit_def)
  ultimately show ?case by (simp add: list_all_iff)
next
  case (5 num vs)
  have "list_all (list_all (\<lambda>c. of_char c \<noteq> (10 :: nat))) (map (json_text num) vs)"
    using 5 by (simp add: list_all_iff)
  from comma_join_line[OF this] show ?case by simp
next
  case (6 num kvs)
  have "list_all (list_all (\<lambda>c. of_char c \<noteq> (10 :: nat))) (map (\<lambda>(k, v). quote_text k @ '':'' @ json_text num v) kvs)"
    using 6 quote_text_line by (auto simp: list_all_iff)
  from comma_join_line[OF this] show ?case by simp
qed (auto simp: quote_text_line)

lemma json_object_line:
  assumes "is_object v"
  shows "drop_cr (json_text num v) = json_text num v" and "\<not> blank (json_text num v)"
proof -
  obtain kvs where v: "v = JObj kvs" using assms by (cases v) (auto simp: is_object_def)
  then obtain t where t: "json_text num v = CHR ''{'' # t @ [CHR ''}'']" by simp
  then show "drop_cr (json_text num v) = json_text num v" by (simp add: drop_cr_def)
  show "\<not> blank (json_text num v)" by (simp add: t blank_def js_trim_def js_space_def)
qed

section \<open>A commit survives every crash\<close>

text \<open>A commit that fits its session: the files are pairwise different, only the attempt lies in the
  attempt's directory, the texts written are read back as what they say, and the ledger so far is a valid
  one without a record of the run. Together they are a commit job.\<close>

record commit_job =
  cj_env :: session_env
  cj_dir :: string
  cj_ledger :: string
  cj_manifest :: string
  cj_commit :: pending_commit
  cj_before :: "string option"

definition text_before :: "commit_job \<Rightarrow> string" where
  "text_before j = (case cj_before j of None \<Rightarrow> [] | Some t \<Rightarrow> t)"

definition ledger_after :: "commit_job \<Rightarrow> string" where
  "ledger_after j = text_before j @ json_text (rt_num (se_rt (cj_env j))) (pc_record (cj_commit j)) @ newline"

definition commit_text :: "session_env \<Rightarrow> pending_commit \<Rightarrow> string" where
  "commit_text env c = se_pretty env (commit_json c) @ newline"

definition manifest_text :: "session_env \<Rightarrow> pending_commit \<Rightarrow> string" where
  "manifest_text env c = se_pretty env (pc_manifest c) @ newline"

definition files_apart :: "session_env \<Rightarrow> string \<Rightarrow> string \<Rightarrow> string \<Rightarrow> pending_commit \<Rightarrow> bool" where
  "files_apart env sd lp mp c \<longleftrightarrow>
     distinct (map (se_path env) [pc_canonical c, lp, mp, pendingCommitPath sd, stagedCanonicalPath env c, pc_attempt c]) \<and>
     list_all (\<lambda>p. \<not> is_within (se_path env (path_dirname (se_path env (pc_attempt c)))) (se_path env p))
       [pc_canonical c, lp, mp, pendingCommitPath sd]"

definition texts_read_back :: "session_env \<Rightarrow> pending_commit \<Rightarrow> bool" where
  "texts_read_back env c \<longleftrightarrow>
     rt_json_parse (se_rt env) (json_text (rt_num (se_rt env)) (pc_record c)) = Some (pc_record c) \<and>
     rt_json_parse (se_rt env) (manifest_text env c) = Some (pc_manifest c) \<and>
     rt_json_parse (se_rt env) (commit_text env c) = Some (commit_json c) \<and>
     se_zod env session_run_record_schema (pc_record c) = Inr (pc_record c) \<and>
     se_zod env session_manifest_schema (pc_manifest c) = Inr (pc_manifest c) \<and>
     se_zod env session_commit_schema (commit_json c) = Inr (commit_json c)"

definition ledger_fits :: "session_env \<Rightarrow> pending_commit \<Rightarrow> string \<Rightarrow> bool" where
  "ledger_fits env c t \<longleftrightarrow>
     (t = [] \<or> (\<exists>u. t = u @ newline)) \<and>
     (\<exists>rs. parse_ledger_lines env 1 (ledger_lines t) = Inr rs \<and> list_all (\<lambda>r. run_id_of r \<noteq> run_id_of (pc_record c)) rs)"

definition job_ok :: "commit_job \<Rightarrow> bool" where
  "job_ok j \<longleftrightarrow>
     (let env = cj_env j; c = cj_commit j in
      files_apart env (cj_dir j) (cj_ledger j) (cj_manifest j) c \<and> texts_read_back env c \<and>
      commit_path_ok env (cj_dir j) (pc_canonical c) \<and> commit_path_ok env (cj_dir j) (pc_attempt c) \<and>
      number_format (rt_num (se_rt env)) \<and> is_object (pc_record c) \<and> ledger_fits env c (text_before j))"

text \<open>The stages of the protocol. While the commit is pending, the canonical file is the old or the new one
  and the ledger is the old or the new one; the goal is that all three are new and nothing is pending.\<close>

definition pending_at :: "commit_job \<Rightarrow> disk \<Rightarrow> bool" where
  "pending_at j d \<longleftrightarrow> disk_read (cj_env j) d (pendingCommitPath (cj_dir j)) = Some (commit_text (cj_env j) (cj_commit j))"

definition published :: "commit_job \<Rightarrow> disk \<Rightarrow> bool" where
  "published j d \<longleftrightarrow> sha256File (cj_env j) d (pc_canonical (cj_commit j)) = Some (pc_successor (cj_commit j))"

definition attempt_kept :: "commit_job \<Rightarrow> disk \<Rightarrow> bool" where
  "attempt_kept j d \<longleftrightarrow>
     sha256File (cj_env j) d (pc_canonical (cj_commit j)) = pc_predecessor (cj_commit j) \<and>
     sha256File (cj_env j) d (pc_attempt (cj_commit j)) = Some (pc_successor (cj_commit j))"

definition ledger_old :: "commit_job \<Rightarrow> disk \<Rightarrow> bool" where
  "ledger_old j d \<longleftrightarrow> disk_read (cj_env j) d (cj_ledger j) = cj_before j"

definition ledger_new :: "commit_job \<Rightarrow> disk \<Rightarrow> bool" where
  "ledger_new j d \<longleftrightarrow> disk_read (cj_env j) d (cj_ledger j) = Some (ledger_after j)"

definition manifest_new :: "commit_job \<Rightarrow> disk \<Rightarrow> bool" where
  "manifest_new j d \<longleftrightarrow> disk_read (cj_env j) d (cj_manifest j) = Some (manifest_text (cj_env j) (cj_commit j))"

definition commit_goal :: "commit_job \<Rightarrow> disk \<Rightarrow> bool" where
  "commit_goal j d \<longleftrightarrow> disk_read (cj_env j) d (pendingCommitPath (cj_dir j)) = None \<and> published j d \<and> ledger_new j d \<and> manifest_new j d"

definition commit_inv :: "commit_job \<Rightarrow> disk \<Rightarrow> bool" where
  "commit_inv j d \<longleftrightarrow>
     pending_at j d \<and> (published j d \<or> attempt_kept j d) \<and> (ledger_old j d \<or> ledger_new j d) \<or> commit_goal j d"

lemmas stage_defs = pending_at_def published_def attempt_kept_def ledger_old_def ledger_new_def manifest_new_def sha256File_def

definition job_recovery :: "commit_job \<Rightarrow> unit disk_io" where
  "job_recovery j = recover_pending (cj_env j) (cj_dir j) (cj_ledger j) (cj_manifest j)"

lemma triple_impossible: "(\<And>s. \<not> P s) \<Longrightarrow> crash_triple P m Q I"
  by (simp add: crash_triple_def)

lemma apart:
  assumes "files_apart env sd lp mp c"
  shows "se_path env lp \<noteq> se_path env (pc_canonical c)" "se_path env mp \<noteq> se_path env (pc_canonical c)"
    "se_path env (pendingCommitPath sd) \<noteq> se_path env (pc_canonical c)" "se_path env (stagedCanonicalPath env c) \<noteq> se_path env (pc_canonical c)"
    "se_path env (pc_attempt c) \<noteq> se_path env (pc_canonical c)" "se_path env mp \<noteq> se_path env lp"
    "se_path env (pendingCommitPath sd) \<noteq> se_path env lp" "se_path env (stagedCanonicalPath env c) \<noteq> se_path env lp"
    "se_path env (pc_attempt c) \<noteq> se_path env lp" "se_path env (pendingCommitPath sd) \<noteq> se_path env mp"
    "se_path env (stagedCanonicalPath env c) \<noteq> se_path env mp" "se_path env (pc_attempt c) \<noteq> se_path env mp"
    "se_path env (stagedCanonicalPath env c) \<noteq> se_path env (pendingCommitPath sd)" "se_path env (pc_attempt c) \<noteq> se_path env (pendingCommitPath sd)"
    "se_path env (pc_attempt c) \<noteq> se_path env (stagedCanonicalPath env c)"
  using assms by (auto simp: files_apart_def)

lemmas apart_simps = apart apart[symmetric]

lemma publish_triple:
  assumes ok: "job_ok j"
  shows "crash_triple (\<lambda>d. pending_at j d \<and> (published j d \<or> attempt_kept j d) \<and> (ledger_old j d \<or> ledger_new j d))
     (publishAttemptFile (cj_env j) (cj_commit j))
     (\<lambda>_ d. pending_at j d \<and> published j d \<and> (ledger_old j d \<or> ledger_new j d)) (commit_inv j)"
proof -
  let ?env = "cj_env j" and ?c = "cj_commit j"
  let ?frame = "\<lambda>d. pending_at j d \<and> (ledger_old j d \<or> ledger_new j d)"
  have files: "files_apart ?env (cj_dir j) (cj_ledger j) (cj_manifest j) ?c" using ok by (simp add: job_ok_def Let_def)
  note [simp] = apart_simps[OF files]
  have rm_staged: "crash_triple (\<lambda>d. ?frame d \<and> attempt_kept j d) (rm_file ?env (stagedCanonicalPath ?env ?c))
      (\<lambda>_ d. ?frame d \<and> attempt_kept j d) (commit_inv j)"
    unfolding rm_file_def by (rule triple_effect) (auto simp: commit_inv_def stage_defs store_simps)
  have copy: "crash_triple (\<lambda>d. ?frame d \<and> attempt_kept j d) (copy_file ?env (pc_attempt ?c) (stagedCanonicalPath ?env ?c))
      (\<lambda>_ d. ?frame d \<and> attempt_kept j d \<and> sha256File ?env d (stagedCanonicalPath ?env ?c) = Some (pc_successor ?c)) (commit_inv j)"
    unfolding copy_file_def by (rule triple_effect) (auto simp: commit_inv_def stage_defs store_simps)
  have rename: "crash_triple (\<lambda>d. ?frame d \<and> attempt_kept j d \<and> sha256File ?env d (stagedCanonicalPath ?env ?c) = Some (pc_successor ?c))
      (rename_file ?env (stagedCanonicalPath ?env ?c) (pc_canonical ?c)) (\<lambda>_ d. ?frame d \<and> published j d) (commit_inv j)"
    unfolding rename_file_def by (rule triple_effect) (auto simp: commit_inv_def stage_defs store_simps)
  have rm_again: "crash_triple (\<lambda>d. ?frame d \<and> published j d) (rm_file ?env (stagedCanonicalPath ?env ?c))
      (\<lambda>_ d. ?frame d \<and> published j d) (commit_inv j)"
    unfolding rm_file_def by (rule triple_effect) (auto simp: commit_inv_def stage_defs store_simps)
  have body: "crash_triple (\<lambda>d. ?frame d \<and> attempt_kept j d)
     (io_bind (rm_file ?env (stagedCanonicalPath ?env ?c)) (\<lambda>_.
        io_finally (io_bind (copy_file ?env (pc_attempt ?c) (stagedCanonicalPath ?env ?c))
            (\<lambda>_. rename_file ?env (stagedCanonicalPath ?env ?c) (pc_canonical ?c)))
          (rm_file ?env (stagedCanonicalPath ?env ?c))))
     (\<lambda>_ d. ?frame d \<and> published j d) (commit_inv j)"
    by (rule triple_bind[OF rm_staged], rule triple_finally, rule triple_bind[OF copy], rule rename, rule rm_again)
  have attempt: "crash_triple (\<lambda>d. ?frame d \<and> attempt_kept j d \<and> h = sha256File ?env d (pc_attempt ?c))
     (if h \<noteq> Some (pc_successor ?c) then io_read (\<lambda>_. Inl e) else m) Q (commit_inv j)"
    if "crash_triple (\<lambda>d. ?frame d \<and> attempt_kept j d) m Q (commit_inv j)" for h e m and Q :: "unit \<Rightarrow> disk \<Rightarrow> bool"
  proof (cases "h = Some (pc_successor ?c)")
    case True
    then show ?thesis by (auto intro: triple_weaken[OF that])
  next
    case False
    show ?thesis by (rule triple_impossible) (use False in \<open>auto simp: attempt_kept_def\<close>)
  qed
  have canonical: "crash_triple (\<lambda>d. ?frame d \<and> (published j d \<or> attempt_kept j d) \<and> h = sha256File ?env d (pc_canonical ?c))
     (if h = Some (pc_successor ?c) then io_return ()
      else if h \<noteq> pc_predecessor ?c then io_read (\<lambda>_. Inl e)
      else io_bind (io_read (\<lambda>d. Inr (sha256File ?env d (pc_attempt ?c)))) (\<lambda>a.
        if a \<noteq> Some (pc_successor ?c) then io_read (\<lambda>_. Inl e')
        else io_bind (rm_file ?env (stagedCanonicalPath ?env ?c)) (\<lambda>_.
        io_finally (io_bind (copy_file ?env (pc_attempt ?c) (stagedCanonicalPath ?env ?c))
            (\<lambda>_. rename_file ?env (stagedCanonicalPath ?env ?c) (pc_canonical ?c)))
          (rm_file ?env (stagedCanonicalPath ?env ?c)))))
     (\<lambda>_ d. ?frame d \<and> published j d) (commit_inv j)" for h e e'
  proof (cases "h = Some (pc_successor ?c)")
    case True
    then show ?thesis by (auto simp: published_def)
  next
    case new: False
    show ?thesis
    proof (cases "h = pc_predecessor ?c")
      case True
      show ?thesis
        unfolding True if_not_P[OF new[unfolded True]] simp_thms if_False
      proof (rule triple_bind[where R = "\<lambda>a d. ?frame d \<and> attempt_kept j d \<and> a = sha256File ?env d (pc_attempt ?c)"], goal_cases)
        case 1
        show ?case by (rule triple_read) (use new[unfolded True] in \<open>auto simp: published_def\<close>)
      next
        case (2 a)
        show ?case by (rule attempt[OF body])
      qed
    next
      case False
      show ?thesis by (rule triple_impossible) (use new False in \<open>auto simp: published_def attempt_kept_def\<close>)
    qed
  qed
  show ?thesis
    unfolding publishAttemptFile_def Let_def
    by (rule triple_weaken[where P' = "\<lambda>d. ?frame d \<and> (published j d \<or> attempt_kept j d)" and Q' = "\<lambda>_ d. ?frame d \<and> published j d"
          and I' = "commit_inv j"], rule triple_bind[OF triple_read canonical]) auto
qed

lemma parse_ledger_append:
  "parse_ledger_lines env i ls = Inr rs \<Longrightarrow> rt_json_parse (se_rt env) l = Some v \<Longrightarrow> se_zod env session_run_record_schema v = Inr r \<Longrightarrow>
   parse_ledger_lines env i (ls @ [l]) = Inr (rs @ [r])"
proof (induction env i ls arbitrary: rs rule: parse_ledger_lines.induct)
  case (2 env i line lines)
  from "2.prems"(1) obtain w x ws where w: "rt_json_parse (se_rt env) line = Some w" "se_zod env session_run_record_schema w = Inr x"
      "parse_ledger_lines env (Suc i) lines = Inr ws" "rs = x # ws"
    by (auto simp: invalid_with_def Let_def bind_result_Inr_iff split: option.splits sum.splits)
  from "2.IH"[OF refl w(1,2,3) "2.prems"(2,3)] w show ?case by simp
qed simp

lemma ledger_reads:
  assumes "job_ok j"
  obtains rs where "\<And>d. ledger_old j d \<Longrightarrow> readLedgerRecords (cj_env j) d (cj_ledger j) = Inr rs"
    and "\<And>d. ledger_new j d \<Longrightarrow> readLedgerRecords (cj_env j) d (cj_ledger j) = Inr (rs @ [pc_record (cj_commit j)])"
    and "find (\<lambda>x. run_id_of x = run_id_of (pc_record (cj_commit j))) rs = None"
proof -
  let ?env = "cj_env j" and ?c = "cj_commit j"
  let ?line = "json_text (rt_num (se_rt ?env)) (pc_record ?c)"
  from assms have fit: "ledger_fits ?env ?c (text_before j)" and num: "number_format (rt_num (se_rt ?env))"
    and obj: "is_object (pc_record ?c)" and reads: "texts_read_back ?env ?c"
    by (simp_all add: job_ok_def Let_def)
  from fit obtain rs where rs: "parse_ledger_lines ?env 1 (ledger_lines (text_before j)) = Inr rs"
      "list_all (\<lambda>r. run_id_of r \<noteq> run_id_of (pc_record ?c)) rs" and nl: "text_before j = [] \<or> (\<exists>u. text_before j = u @ newline)"
    by (auto simp: ledger_fits_def)
  have "ledger_lines (ledger_after j) = ledger_lines (text_before j) @ [?line]"
    unfolding ledger_after_def by (rule ledger_lines_append[OF nl json_text_line[OF num] json_object_line[OF obj]])
  with parse_ledger_append[OF rs(1), of ?line] reads have new: "parse_ledger_lines ?env 1 (ledger_lines (ledger_after j)) = Inr (rs @ [pc_record ?c])"
    by (simp add: texts_read_back_def)
  have none: "ledger_lines [] = []" by (simp add: ledger_lines_def split_lines_def blank_def js_trim_def)
  show ?thesis
  proof (rule that[of rs])
    fix d assume "ledger_old j d"
    then show "readLedgerRecords ?env d (cj_ledger j) = Inr rs"
      using rs(1) none by (auto simp: readLedgerRecords_def ledger_old_def text_before_def split: option.splits)
  next
    fix d assume "ledger_new j d"
    then show "readLedgerRecords ?env d (cj_ledger j) = Inr (rs @ [pc_record ?c])"
      using new by (simp add: readLedgerRecords_def ledger_new_def)
  next
    show "find (\<lambda>x. run_id_of x = run_id_of (pc_record ?c)) rs = None"
      using rs(2) by (simp add: find_None_iff list_all_iff)
  qed
qed

lemma find_snoc: "find P xs = None \<Longrightarrow> P x \<Longrightarrow> find P (xs @ [x]) = Some x"
  by (induction xs) (auto split: if_splits)

lemma append_triple:
  assumes ok: "job_ok j"
  shows "crash_triple (\<lambda>d. pending_at j d \<and> published j d \<and> (ledger_old j d \<or> ledger_new j d))
     (appendRunRecordIdempotent (cj_env j) (cj_ledger j) (pc_record (cj_commit j)))
     (\<lambda>_ d. pending_at j d \<and> published j d \<and> ledger_new j d) (commit_inv j)"
proof -
  let ?env = "cj_env j" and ?c = "cj_commit j"
  let ?frame = "\<lambda>d. pending_at j d \<and> published j d"
  have files: "files_apart ?env (cj_dir j) (cj_ledger j) (cj_manifest j) ?c" using ok by (simp add: job_ok_def Let_def)
  note [simp] = apart_simps[OF files]
  obtain rs where old: "\<And>d. ledger_old j d \<Longrightarrow> readLedgerRecords ?env d (cj_ledger j) = Inr rs"
    and new: "\<And>d. ledger_new j d \<Longrightarrow> readLedgerRecords ?env d (cj_ledger j) = Inr (rs @ [pc_record ?c])"
    and fresh: "find (\<lambda>x. run_id_of x = run_id_of (pc_record ?c)) rs = None"
    using ledger_reads[OF ok] by blast
  have found: "find (\<lambda>x. run_id_of x = run_id_of (pc_record ?c)) (rs @ [pc_record ?c]) = Some (pc_record ?c)"
    using find_snoc[OF fresh] by simp
  show ?thesis
    unfolding appendRunRecordIdempotent_def
  proof (rule triple_bind[where R = "\<lambda>xs d. ?frame d \<and> (xs = rs \<and> ledger_old j d \<or> xs = rs @ [pc_record ?c] \<and> ledger_new j d)"], goal_cases)
    case 1
    show ?case by (rule triple_read) (use old new in auto)
  next
    case (2 xs)
    show ?case
    proof (cases "xs = rs @ [pc_record ?c]")
      case True
      then show ?thesis using found by (auto simp: jsonEquivalent_def)
    next
      case False
      show ?thesis
      proof (cases "xs = rs")
        case True
        show ?thesis
          unfolding True fresh option.case
          by (rule triple_effect) (auto simp: commit_inv_def stage_defs store_simps ledger_after_def text_before_def)
      next
        case other: False
        show ?thesis by (rule triple_impossible) (use False other in auto)
      qed
    qed
  qed
qed

lemma verified:
  assumes "job_ok j" and "published j d" and "ledger_new j d" and "manifest_new j d"
  shows "verify_commit (cj_env j) (cj_ledger j) (cj_manifest j) (cj_commit j) d = Inr ()"
proof -
  obtain rs where rs: "readLedgerRecords (cj_env j) d (cj_ledger j) = Inr (rs @ [pc_record (cj_commit j)])"
      "find (\<lambda>x. run_id_of x = run_id_of (pc_record (cj_commit j))) rs = None"
    using ledger_reads[OF assms(1)] assms(3) by metis
  have m: "readManifest (cj_env j) d (cj_manifest j) = Inr (Some (pc_manifest (cj_commit j)))"
    using assms(1,4) by (simp add: readManifest_def manifest_new_def job_ok_def Let_def texts_read_back_def)
  show ?thesis
    using assms(2) by (simp add: verify_commit_def published_def rs(1) m find_snoc[OF rs(2)] jsonEquivalent_def)
qed

lemma apply_triple:
  assumes ok: "job_ok j"
  shows "crash_triple (\<lambda>d. pending_at j d \<and> (published j d \<or> attempt_kept j d) \<and> (ledger_old j d \<or> ledger_new j d))
     (applyPendingCommit (cj_env j) (cj_dir j) (cj_ledger j) (cj_manifest j) (cj_commit j)) (\<lambda>_. commit_goal j) (commit_inv j)"
proof -
  let ?env = "cj_env j" and ?c = "cj_commit j"
  let ?done = "\<lambda>d. pending_at j d \<and> published j d \<and> ledger_new j d \<and> manifest_new j d"
  have files: "files_apart ?env (cj_dir j) (cj_ledger j) (cj_manifest j) ?c" using ok by (simp add: job_ok_def Let_def)
  note [simp] = apart_simps[OF files]
  have outside: "\<not> is_within (se_path ?env (path_dirname (se_path ?env (pc_attempt ?c)))) (se_path ?env p)"
    if "p \<in> {pc_canonical ?c, cj_ledger j, cj_manifest j, pendingCommitPath (cj_dir j)}" for p
    using files that by (auto simp: files_apart_def)
  have manifest: "crash_triple (\<lambda>d. pending_at j d \<and> published j d \<and> ledger_new j d)
      (writeJsonAtomic ?env (cj_manifest j) (pc_manifest ?c)) (\<lambda>_. ?done) (commit_inv j)"
    unfolding writeJsonAtomic_def by (rule triple_effect) (auto simp: commit_inv_def stage_defs store_simps manifest_text_def)
  have verify: "crash_triple ?done (io_read (verify_commit ?env (cj_ledger j) (cj_manifest j) ?c)) (\<lambda>_. ?done) (commit_inv j)"
    by (rule triple_read) (use verified[OF ok] in auto)
  have staged: "crash_triple ?done (rm_file ?env (stagedCanonicalPath ?env ?c)) (\<lambda>_. ?done) (commit_inv j)"
    unfolding rm_file_def by (rule triple_effect) (auto simp: commit_inv_def stage_defs store_simps)
  have tree: "crash_triple ?done (rm_tree ?env (path_dirname (se_path ?env (pc_attempt ?c)))) (\<lambda>_. ?done) (commit_inv j)"
    unfolding rm_tree_def by (rule triple_effect) (auto simp: commit_inv_def stage_defs disk_read_rm_tree[OF outside])
  have clear: "crash_triple ?done (rm_file ?env (pendingCommitPath (cj_dir j))) (\<lambda>_. commit_goal j) (commit_inv j)"
    unfolding rm_file_def by (rule triple_effect) (auto simp: commit_inv_def commit_goal_def stage_defs store_simps)
  show ?thesis
    unfolding applyPendingCommit_def
    by (rule triple_bind[OF publish_triple[OF ok]], rule triple_bind[OF append_triple[OF ok]], rule triple_bind[OF manifest],
        rule triple_bind[OF verify], rule triple_bind[OF staged], rule triple_bind[OF tree], rule clear)
qed

lemma pending_read:
  assumes "job_ok j" and "pending_at j d"
  shows "readPendingCommit (cj_env j) d (cj_dir j) = Inr (Some (cj_commit j))"
proof -
  have "commit_of_json (commit_json c) = c" for c
    by (cases "pc_predecessor c") (simp_all add: commit_of_json_def commit_json_def text_or_def text_of_def)
  then show ?thesis
    using assms by (simp add: readPendingCommit_def pending_at_def job_ok_def Let_def texts_read_back_def assertCommitPathInside_def)
qed

lemma recovery_triple:
  assumes ok: "job_ok j"
  shows "crash_triple (commit_inv j) (job_recovery j) (\<lambda>_. commit_goal j) (commit_inv j)"
  unfolding job_recovery_def recover_pending_def
proof (rule triple_bind[where R = "\<lambda>p d. p = Some (cj_commit j) \<and> pending_at j d \<and> (published j d \<or> attempt_kept j d) \<and>
      (ledger_old j d \<or> ledger_new j d) \<or> p = None \<and> commit_goal j d"], goal_cases)
  case 1
  have "readPendingCommit (cj_env j) d (cj_dir j) = Inr None" if "commit_goal j d" for d
    using that by (simp add: readPendingCommit_def commit_goal_def)
  then show ?case
    by (intro triple_read) (auto simp: commit_inv_def pending_read[OF ok])
next
  case (2 p)
  show ?case
  proof (cases p)
    case None
    then show ?thesis by auto
  next
    case (Some c)
    show ?thesis
    proof (cases "c = cj_commit j")
      case True
      with Some show ?thesis by (auto intro!: triple_weaken[OF apply_triple[OF ok]])
    next
      case False
      show ?thesis by (rule triple_impossible) (use Some False in auto)
    qed
  qed
qed

lemma if_finishes: "(b \<Longrightarrow> finishes k m) \<Longrightarrow> (\<not> b \<Longrightarrow> finishes k m') \<Longrightarrow> finishes k (if b then m else m')"
  by simp

lemma append_finishes: "finishes 1 (appendRunRecordIdempotent env p r)"
  unfolding appendRunRecordIdempotent_def
  by (rule finishes_mono[OF finishes_bind[OF finishes_read, where l = 1]])
    (auto split: option.split intro!: if_finishes intro: finishes_mono[OF finishes_return] finishes_mono[OF finishes_read]
      simp: finishes_effect[simplified])

lemma publish_finishes: "finishes 4 (publishAttemptFile env c)"
proof -
  have tail: "finishes 4 (io_bind (rm_file env a) (\<lambda>_. io_finally (io_bind (copy_file env b a) (\<lambda>_. rename_file env a e)) (rm_file env a)))" for a b e
    unfolding rm_file_def copy_file_def rename_file_def
    by (rule finishes_mono[where k = "Suc 0 + ((Suc 0 + Suc 0) + Suc 0)"], intro finishes_bind finishes_finally finishes_effect) simp
  have some: "finishes 4 (if x then io_read f else m)" if "finishes 4 m" for x f and m :: "unit disk_io"
    using that by (auto intro: finishes_mono[OF finishes_read])
  have inner: "finishes 4 (io_bind (io_read g) (\<lambda>h. if z h then io_read k else
      io_bind (rm_file env a) (\<lambda>_. io_finally (io_bind (copy_file env b a) (\<lambda>_. rename_file env a e)) (rm_file env a))))"
    for z a b e k and g :: "disk \<Rightarrow> string option result"
    by (rule finishes_mono[OF finishes_bind[OF finishes_read some[OF tail]]]) simp
  have outer: "finishes 4 (if x then io_return () else if y then io_read f else m)" if "finishes 4 m" for x y f and m :: "unit disk_io"
    using some[OF that, of y f] by (cases x) (simp_all add: finishes_mono[OF finishes_return])
  show ?thesis
    unfolding publishAttemptFile_def Let_def
    by (rule finishes_mono[OF finishes_bind[OF finishes_read outer[OF inner]]]) simp
qed

lemma recovery_finishes: "finishes 9 (job_recovery j)"
proof -
  have apply_: "finishes (4 + (1 + (1 + (0 + (1 + (1 + 1)))))) (applyPendingCommit env sd lp mp c)" for env sd lp mp c
    unfolding applyPendingCommit_def
    by (intro finishes_bind publish_finishes append_finishes finishes_read)
      (simp_all add: writeJsonAtomic_def rm_file_def rm_tree_def)
  show ?thesis
    unfolding job_recovery_def recover_pending_def
    by (rule finishes_mono[OF finishes_bind[OF finishes_read, where l = 9]])
      (auto split: option.split intro: finishes_mono[OF finishes_return] apply_[simplified])
qed

interpretation commit: crash_recovery job_ok job_recovery commit_inv commit_goal 9
  by unfold_locales (use recovery_triple recovery_finishes in \<open>auto simp: commit_inv_def\<close>)

lemma commit_starts:
  assumes ok: "job_ok j" and old: "ledger_old j d" and kept: "attempt_kept j d" and "0 < k"
  shows "commit_inv j (io_state (commitAttemptSession (cj_env j) (cj_dir j) (cj_ledger j) (cj_manifest j)
     (pc_attempt (cj_commit j)) (pc_record (cj_commit j)) (pc_manifest (cj_commit j)) d k))"
proof -
  let ?env = "cj_env j" and ?c = "cj_commit j"
  obtain m where k: "k = Suc m" using \<open>0 < k\<close> by (cases k) auto
  have files: "files_apart ?env (cj_dir j) (cj_ledger j) (cj_manifest j) ?c" using ok by (simp add: job_ok_def Let_def)
  note [simp] = apart_simps[OF files]
  have c: "\<lparr>pc_attempt = pc_attempt ?c, pc_predecessor = pc_predecessor ?c,
      pc_successor = pc_successor ?c, pc_record = pc_record ?c, pc_manifest = pc_manifest ?c\<rparr> = ?c"
    by simp
  let ?d = "disk_write ?env (pendingCommitPath (cj_dir j)) (commit_text ?env ?c) d"
  have "pending_at j ?d \<and> (published j ?d \<or> attempt_kept j ?d) \<and> (ledger_old j ?d \<or> ledger_new j ?d)"
    using old kept by (simp add: stage_defs store_simps)
  then have "case applyPendingCommit ?env (cj_dir j) (cj_ledger j) (cj_manifest j) ?c ?d m of
      (Done a, s', _) \<Rightarrow> commit_goal j s' | (Failed _, _, _) \<Rightarrow> False | (Crashed, s', _) \<Rightarrow> commit_inv j s'"
    by (rule apply_triple[OF ok, unfolded crash_triple_def, THEN spec, THEN spec, THEN mp])
  moreover have "commitAttemptSession ?env (cj_dir j) (cj_ledger j) (cj_manifest j) (pc_attempt ?c) (pc_record ?c) (pc_manifest ?c) d k =
      applyPendingCommit ?env (cj_dir j) (cj_ledger j) (cj_manifest j) ?c ?d m"
    using kept by (simp add: commitAttemptSession_def io_bind_def io_read_def writeJsonAtomic_def io_effect_def attempt_kept_def
      c k commit_text_def pc_canonical_def[symmetric])
  ultimately show ?thesis
    by (simp add: io_state_def commit_inv_def split: prod.splits outcome.splits)
qed

text \<open>
  C8: A session commit is all or nothing under crashes. Let a commit be started on a disk that holds the
  finished attempt and the ledger before it, and let the process be killed after any number of changes of the
  disk; let any number of later runs of the session be killed while they recover the pending commit, each
  after any number of changes of its own. If the first process died before its first change, the disk is
  what it was. Otherwise the first recovery that is not killed, which takes at most nine changes, succeeds;
  then the canonical session file is the attempt's, the ledger is the old ledger with the run's record once
  at its end, the manifest is the new one and nothing is pending.
\<close>

theorem session_commit_survives_crashes:
  assumes "job_ok j" and "ledger_old j d" and "attempt_kept j d" and "9 \<le> n"
  shows "let d1 = io_state (commitAttemptSession (cj_env j) (cj_dir j) (cj_ledger j) (cj_manifest j)
             (pc_attempt (cj_commit j)) (pc_record (cj_commit j)) (pc_manifest (cj_commit j)) d k)
     in if k = 0 then d1 = d
        else \<exists>d' n'. job_recovery j (interrupted (job_recovery j) ns d1) n = (Done (), d', n') \<and> commit_goal j d'"
proof (cases "k = 0")
  case True
  then show ?thesis
    by (simp add: Let_def commitAttemptSession_def io_bind_def io_read_def writeJsonAtomic_def io_effect_def io_state_def
        split: option.split)
next
  case False
  then show ?thesis
    using commit.recovers_eventually[OF assms(1) commit_starts[OF assms(1-3)] assms(4)] by (simp add: Let_def)
qed

definition demo_session_record :: json where
  "demo_session_record = JObj [(''run_id'', JStr ''0001-a'')]"

definition demo_session_manifest :: json where
  "demo_session_manifest = JObj [(''subagent_session_id'', JStr ''/s/pi/a'')]"

definition demo_commit :: pending_commit where
  "demo_commit = \<lparr>pc_attempt = ''/s/at/r/a'', pc_predecessor = Some ''old'', pc_successor = ''new'',
     pc_record = demo_session_record, pc_manifest = demo_session_manifest\<rparr>"

definition demo_parse :: "string \<Rightarrow> json option" where
  "demo_parse t =
     (if t = json_text quotient_text demo_session_record then Some demo_session_record
      else if t = json_text quotient_text demo_session_manifest @ newline then Some demo_session_manifest
      else if t = json_text quotient_text (commit_json demo_commit) @ newline then Some (commit_json demo_commit)
      else None)"

definition demo_session_env :: session_env where
  "demo_session_env = \<lparr>se_rt = \<lparr>rt_num = quotient_text, rt_sha256 = id, rt_date = (\<lambda>_. None), rt_json_parse = demo_parse\<rparr>,
     se_pretty = json_text quotient_text, se_collate = id, se_zod = (\<lambda>_. Inr), se_cwd = ''/''\<rparr>"

definition demo_job :: commit_job where
  "demo_job = \<lparr>cj_env = demo_session_env, cj_dir = ''/s'', cj_ledger = ''/s/ledger.jsonl'', cj_manifest = ''/s/manifest.json'',
     cj_commit = demo_commit, cj_before = None\<rparr>"

definition demo_session_disk :: disk where
  "demo_session_disk = [(''/s/pi/a'', ''old''), (''/s/at/r/a'', ''new'')]"

lemma demo_paths:
  "map (se_path demo_session_env) [pc_canonical demo_commit, ''/s/ledger.jsonl'', ''/s/manifest.json'', pendingCommitPath ''/s'',
      stagedCanonicalPath demo_session_env demo_commit, pc_attempt demo_commit] =
   [''/s/pi/a'', ''/s/ledger.jsonl'', ''/s/manifest.json'', ''/s/pending-commit.json'', ''/s/pi/.a.pending-0001-a'', ''/s/at/r/a'']"
  "path_dirname ''/s/at/r/a'' = ''/s/at/r''" "se_path demo_session_env ''/s/at/r'' = ''/s/at/r''"
  "commit_path_ok demo_session_env ''/s'' (pc_canonical demo_commit)" "commit_path_ok demo_session_env ''/s'' (pc_attempt demo_commit)"
  by code_simp+

lemma demo_texts: "texts_read_back demo_session_env demo_commit"
proof -
  have line: "t @ newline \<noteq> json_text quotient_text v" for t v
  proof
    assume "t @ newline = json_text quotient_text v"
    then have "list_all (\<lambda>c. of_char c \<noteq> (10 :: nat)) (t @ newline)" using json_text_line[OF quotient_text_format, of v] by simp
    then show False by (simp add: newline_def)
  qed
  have "demo_session_manifest \<noteq> commit_json demo_commit"
    by (simp add: demo_session_manifest_def commit_json_def)
  then show ?thesis
    using line by (simp add: texts_read_back_def manifest_text_def commit_text_def demo_session_env_def demo_parse_def demo_commit_def
        json_text_inject[OF quotient_text_format])
qed

lemma demo_job_ok: "job_ok demo_job"
proof -
  have "files_apart demo_session_env ''/s'' ''/s/ledger.jsonl'' ''/s/manifest.json'' demo_commit"
    using demo_paths(1) by (simp add: files_apart_def demo_paths(2,3) is_within_def starts_with_def)
  moreover have "ledger_fits demo_session_env demo_commit []"
    by (simp add: ledger_fits_def ledger_lines_def split_lines_def blank_def js_trim_def)
  moreover have "is_object (pc_record demo_commit)" "number_format (rt_num (se_rt demo_session_env))"
    by (simp_all add: demo_commit_def demo_session_record_def is_object_def demo_session_env_def quotient_text_format)
  ultimately show ?thesis
    using demo_texts demo_paths(4,5) by (simp add: job_ok_def demo_job_def text_before_def)
qed

text \<open>The process dies with the pending commit just written; the next two recoveries die too.\<close>

theorem session_commit_survives_crashes_witness:
  "\<exists>d' n'. job_recovery demo_job (interrupted (job_recovery demo_job) [2, 4]
       (io_state (commitAttemptSession demo_session_env ''/s'' ''/s/ledger.jsonl'' ''/s/manifest.json'' ''/s/at/r/a''
          demo_session_record demo_session_manifest demo_session_disk 1))) 9 = (Done (), d', n') \<and>
     disk_read demo_session_env d' ''/s/pi/a'' = Some ''new''"
proof -
  have old: "ledger_old demo_job demo_session_disk" and kept: "attempt_kept demo_job demo_session_disk"
    by code_simp+
  have path: "pc_canonical demo_commit = ''/s/pi/a''" by code_simp
  show ?thesis
    using session_commit_survives_crashes[OF demo_job_ok old kept, of 9 1 "[2, 4]"]
    by (auto simp: Let_def demo_job_def commit_goal_def published_def sha256File_def path)
      (auto simp: demo_session_env_def demo_commit_def)
qed

end
