(* ===== verification/Request_Validation.thy ===== *)
theory Request_Validation
  imports Run_Lifecycle Skill_Binding Tool_Profile
begin

text \<open>
  From a caller's request to the resolved request that everything else works on: the model allow-list and
  the calibration of the model classes (\<open>src/modelAllowlist.ts\<close>), the configuration record
  (\<open>src/config.ts\<close>) and \<open>validateAndResolveRequest\<close> (\<open>src/validate.ts\<close>), in the order of their checks. A
  request is a JSON tree, so no field is taken to have the type the interface declares. The file system
  and the environment are parameters.
\<close>

section \<open>Models\<close>

definition known_model_providers :: "string list" where
  "known_model_providers = [''openai-codex'', ''ollama'', ''openrouter'']"

definition openai_codex_gpt54_plus_ref :: string where
  "openai_codex_gpt54_plus_ref = ''openai-codex/gpt-5.4+''"

definition openai_codex_min_gpt5_minor :: nat where
  "openai_codex_min_gpt5_minor = 4"

definition curated_exact_model_refs :: "string list" where
  "curated_exact_model_refs =
     [''openai-codex/gpt-6-luna'', ''openai-codex/gpt-6.1-sol'', ''openrouter/deepseek/deepseek-v4.1-flash'',
      ''openrouter/anthropic/claude-sonnet-5'', ''openrouter/google/gemini-3.8-flash'',
      ''openrouter/qwen/qwen3.8-2.4t-a95b'', ''openrouter/x-ai/grok-4.7'']"

definition default_model_class :: model_class where
  "default_model_class = MC_C"

record calibration =
  cal_model :: string
  cal_thinking :: thinking_level

fun model_class_calibration :: "model_class \<Rightarrow> calibration" where
  "model_class_calibration MC_A = \<lparr>cal_model = ''openai-codex/gpt-6-luna'', cal_thinking = TL_medium\<rparr>"
| "model_class_calibration MC_B = \<lparr>cal_model = ''openai-codex/gpt-6-luna'', cal_thinking = TL_xhigh\<rparr>"
| "model_class_calibration MC_C = \<lparr>cal_model = ''openai-codex/gpt-6.1-sol'', cal_thinking = TL_medium\<rparr>"
| "model_class_calibration MC_D = \<lparr>cal_model = ''openai-codex/gpt-6.1-sol'', cal_thinking = TL_high\<rparr>"
| "model_class_calibration MC_E = \<lparr>cal_model = ''openai-codex/gpt-6.1-sol'', cal_thinking = TL_xhigh\<rparr>"
| "model_class_calibration MC_Z1 = \<lparr>cal_model = ''openrouter/deepseek/deepseek-v4.1-flash'', cal_thinking = TL_xhigh\<rparr>"
| "model_class_calibration MC_Z2 = \<lparr>cal_model = ''openrouter/qwen/qwen3.8-2.4t-a95b'', cal_thinking = TL_xhigh\<rparr>"
| "model_class_calibration MC_Z3 = \<lparr>cal_model = ''openrouter/x-ai/grok-4.7'', cal_thinking = TL_xhigh\<rparr>"
| "model_class_calibration MC_Z4 = \<lparr>cal_model = ''openrouter/google/gemini-3.8-flash'', cal_thinking = TL_xhigh\<rparr>"

definition modelClassChoices :: "model_class list" where
  "modelClassChoices = map snd model_classes"

definition normalizeModelRef :: "string \<Rightarrow> string" where
  "normalizeModelRef ref = map ascii_lower (js_trim ref)"

definition splitKnownProviderModelRef :: "string \<Rightarrow> string option \<times> string" where
  "splitKnownProviderModelRef ref =
     (let normalized = normalizeModelRef ref in
      case find (\<lambda>p. starts_with (p @ ''/'') normalized) known_model_providers of
        Some p \<Rightarrow> (Some p, drop (length p + 1) normalized)
      | None \<Rightarrow> (None, normalized))"

text \<open>The pattern \<open>^gpt-5\.(\d+)(?:$|[-.].*)\<close> on the normalised identifier, and the value of its group.\<close>

definition gpt5_minor :: "string \<Rightarrow> nat option" where
  "gpt5_minor s =
     (if \<not> starts_with ''gpt-5.'' s then None
      else let r = drop 6 s; digits = takeWhile is_digit r; rest = dropWhile is_digit r in
        if digits = [] then None
        else if rest = [] \<or> hd rest = CHR ''-'' \<or> hd rest = CHR ''.''
        then Some (foldl (\<lambda>n c. 10 * n + (of_char c - 48)) 0 digits)
        else None)"

definition isOpenAICodexGpt54OrNewerModelId :: "string \<Rightarrow> bool" where
  "isOpenAICodexGpt54OrNewerModelId modelId =
     (case gpt5_minor (normalizeModelRef modelId) of None \<Rightarrow> False | Some n \<Rightarrow> openai_codex_min_gpt5_minor \<le> n)"

definition canonicalAllowedModelRef :: "string \<Rightarrow> string option" where
  "canonicalAllowedModelRef ref =
     (let (provider, model) = splitKnownProviderModelRef ref in
      if (provider = None \<or> provider = Some ''openai-codex'') \<and> isOpenAICodexGpt54OrNewerModelId model
      then Some (''openai-codex/'' @ model)
      else find (\<lambda>allowedRef. let (p, m) = splitKnownProviderModelRef allowedRef in
          m = model \<and> (provider = None \<or> provider = p)) curated_exact_model_refs)"

fun join_with :: "string \<Rightarrow> string list \<Rightarrow> string" where
  "join_with sep [] = []"
| "join_with sep [x] = x"
| "join_with sep (x # y # ys) = x @ sep @ join_with sep (y # ys)"

definition formatAllowedModelChoices :: string where
  "formatAllowedModelChoices =
     ''exact models: '' @ join_with '', '' curated_exact_model_refs @ ''; patterns: '' @ openai_codex_gpt54_plus_ref @
     '' (pass a matching literal model, not the pattern)''"

definition resolveAllowedModelRef :: "string \<Rightarrow> string result" where
  "resolveAllowedModelRef ref =
     (case canonicalAllowedModelRef ref of
        Some r \<Rightarrow> Inr r
      | None \<Rightarrow> Inl (ValidationError (''model '' @ quote_text ref @
          '' is not in the curated Subagent007 Pi allowlist; allowed models: '' @ formatAllowedModelChoices) Rc_invalid_model))"

definition resolveModelClass :: "model_class \<Rightarrow> calibration result" where
  "resolveModelClass c =
     (let cal = model_class_calibration c in
      bind_result (resolveAllowedModelRef (cal_model cal)) (\<lambda>m. Inr \<lparr>cal_model = m, cal_thinking = cal_thinking cal\<rparr>))"

text \<open>The search through the classes; a calibration that the list does not allow would be thrown.\<close>

fun class_for_pair :: "string \<Rightarrow> thinking_level \<Rightarrow> model_class list \<Rightarrow> model_class option result" where
  "class_for_pair model level [] = Inr None"
| "class_for_pair model level (c # cs) =
     bind_result (resolveAllowedModelRef (cal_model (model_class_calibration c))) (\<lambda>m.
       if m = model \<and> cal_thinking (model_class_calibration c) = level then Inr (Some c)
       else class_for_pair model level cs)"

definition modelClassForResolvedPair :: "string \<Rightarrow> thinking_level \<Rightarrow> model_class option result" where
  "modelClassForResolvedPair ref level =
     (case resolveAllowedModelRef ref of
        Inl _ \<Rightarrow> Inr None
      | Inr model \<Rightarrow> class_for_pair model level modelClassChoices)"

section \<open>Configuration\<close>

definition thinking_levels :: "(string \<times> thinking_level) list" where
  "thinking_levels = [(''low'', TL_low), (''medium'', TL_medium), (''high'', TL_high), (''xhigh'', TL_xhigh)]"

definition legacyNonEmptyString :: "json option \<Rightarrow> string option" where
  "legacyNonEmptyString v = (case v of Some (JStr s) \<Rightarrow> if blank s then None else Some (js_trim s) | _ \<Rightarrow> None)"

definition config_model_class :: "json option \<Rightarrow> string \<Rightarrow> model_class option result" where
  "config_model_class v key =
     (case v of
        None \<Rightarrow> Inr None
      | Some (JStr s) \<Rightarrow>
          if blank s then Inl (ValidationError (key @ '' must be a nonempty string when provided'') Rc_invalid_model_class)
          else (case map_of model_classes (js_trim s) of
              Some c \<Rightarrow> Inr (Some c)
            | None \<Rightarrow> Inl (ValidationError (key @ '' must be one of: '' @ join_with '', '' (map fst model_classes))
                Rc_invalid_model_class))
      | Some _ \<Rightarrow> Inl (ValidationError (key @ '' must be a nonempty string when provided'') Rc_invalid_model_class))"

definition normalizeConfigRecord :: "json \<Rightarrow> model_class option result" where
  "normalizeConfigRecord record =
     bind_result (config_model_class (jget record ''default_model_class'') ''default_model_class'') (\<lambda>configured.
       if configured \<noteq> None then Inr configured
       else (case (legacyNonEmptyString (jget record ''default_model''),
              legacyNonEmptyString (jget record ''default_thinking_level'')) of
            (Some model, Some level) \<Rightarrow>
              (case map_of thinking_levels level of
                 Some l \<Rightarrow> modelClassForResolvedPair model l
               | None \<Rightarrow> Inr None)
          | _ \<Rightarrow> Inr None))"

section \<open>Fields of a request\<close>

definition validationReasonCodeForKey :: "string \<Rightarrow> failure_reason_code" where
  "validationReasonCodeForKey key =
     (case map_of
        [(''model_class'', Rc_invalid_model_class), (''output_mode'', Rc_invalid_output_mode),
         (''effect_profile'', Rc_invalid_effect_profile), (''allowed_output_paths'', Rc_authoring_effect_scope_invalid),
         (''expected_skill_sha256'', Rc_invalid_expected_skill_sha256), (''skill_name'', Rc_invalid_skill),
         (''system_skill_name'', Rc_invalid_skill), (''specialist_catalogue_scope'', Rc_invalid_skill),
         (''continuity.mode'', Rc_invalid_session_id), (''continuity.session_id'', Rc_invalid_session_id),
         (''prompt'', Rc_prompt_missing), (''cwd'', Rc_cwd_not_absolute), (''timeout_ms'', Rc_invalid_timeout_ms),
         (''max_output_tokens'', Rc_invalid_max_output_tokens)] key of
        Some rc \<Rightarrow> rc | None \<Rightarrow> Rc_unknown_validation_error)"

definition trimOptional :: "json option \<Rightarrow> string \<Rightarrow> string option result" where
  "trimOptional v key =
     (case v of
        None \<Rightarrow> Inr None
      | Some (JStr s) \<Rightarrow> Inr (if blank s then None else Some (js_trim s))
      | Some _ \<Rightarrow> Inl (ValidationError (key @ '' must be a string'') (validationReasonCodeForKey key)))"

definition validateChoice :: "json option \<Rightarrow> string \<Rightarrow> (string \<times> 'a) list \<Rightarrow> 'a option \<Rightarrow> 'a option result" where
  "validateChoice v key choices fallback =
     bind_result (trimOptional v key) (\<lambda>choice.
       case choice of
         None \<Rightarrow> Inr fallback
       | Some s \<Rightarrow>
           (case map_of choices s of
              Some x \<Rightarrow> Inr (Some x)
            | None \<Rightarrow> Inl (ValidationError (key @ '' must be one of: '' @ join_with '', '' (map fst choices))
                (validationReasonCodeForKey key))))"

definition session_id_input_error :: string where
  "session_id_input_error = ''session_id is not a run_subagent input; use continuity.mode fresh or continuity.mode resume with continuity.session_id''"

definition validateContinuity :: "json option \<Rightarrow> json \<Rightarrow> run_continuity result" where
  "validateContinuity v request =
     (let bad = (\<lambda>m. Inl (ValidationError m Rc_invalid_session_id)) in
      if jget request ''session_id'' \<noteq> None then bad session_id_input_error
      else (case v of
          None \<Rightarrow> Inr Ephemeral
        | Some c \<Rightarrow>
            if \<not> is_object c then bad ''continuity must be an object when provided''
            else bind_result (validateChoice (jget c ''mode'') ''continuity.mode'' (map (\<lambda>m. (m, m)) run_continuity_modes) None) (\<lambda>mode.
              case mode of
                None \<Rightarrow> bad (''continuity.mode must be one of: '' @ join_with '', '' run_continuity_modes)
              | Some m \<Rightarrow>
                  bind_result (trimOptional (jget c ''session_id'') ''continuity.session_id'') (\<lambda>rawSessionId.
                    if m = ''resume'' then
                      (case rawSessionId of
                         None \<Rightarrow> bad ''continuity.session_id is required when continuity.mode is resume''
                       | Some s \<Rightarrow>
                           if \<not> is_absolute s
                           then bad ''continuity.session_id must be an absolute path when continuity.mode is resume''
                           else Inr (Resume s))
                    else if rawSessionId \<noteq> None
                    then bad ''continuity.session_id is only valid when continuity.mode is resume''
                    else Inr (if m = ''fresh'' then Fresh else Ephemeral)))))"

record path_stat =
  ps_is_file :: bool
  ps_is_directory :: bool
  ps_size :: nat

record validation_env =
  ve_stat :: "string \<Rightarrow> path_stat result"
  ve_access :: "string \<Rightarrow> unit result"
  ve_realpath :: "string \<Rightarrow> string result"
  ve_number :: "string \<Rightarrow> rat option"
  ve_getenv :: "string \<Rightarrow> string option"
  ve_num :: "rat \<Rightarrow> string"

definition validateResumeSessionFile :: "validation_env \<Rightarrow> run_continuity \<Rightarrow> unit result" where
  "validateResumeSessionFile env continuity =
     (case continuity of
        Resume p \<Rightarrow>
          (let bad = (\<lambda>m. Inl (ValidationError m Rc_invalid_session_id)) in
           case ve_stat env p of
             Inl e \<Rightarrow>
               if is_enoent e then bad (''resume session file does not exist: '' @ p)
               else bad (''resume session file is not accessible: '' @ p @ '': '' @ message_of e)
           | Inr st \<Rightarrow>
               if \<not> ps_is_file st then bad (''resume session path is not a file: '' @ p)
               else if ps_size st = 0 then bad (''resume session file is empty: '' @ p)
               else (case ve_access env p of
                   Inl e \<Rightarrow> bad (''resume session file is not readable: '' @ p @ '': '' @ message_of e)
                 | Inr _ \<Rightarrow> Inr ()))
      | _ \<Rightarrow> Inr ())"

definition validateCwd :: "validation_env \<Rightarrow> json option \<Rightarrow> string result" where
  "validateCwd env v =
     (case v of
        Some (JStr s) \<Rightarrow>
          if blank s then Inl (ValidationError ''cwd must be a nonempty absolute path'' Rc_cwd_not_absolute)
          else (let cwd = js_trim s in
            if \<not> is_absolute cwd then Inl (ValidationError ''cwd must be an absolute path'' Rc_cwd_not_absolute)
            else (case ve_stat env cwd of
                Inl e \<Rightarrow> Inl (ValidationError (''cwd is not accessible: '' @ message_of e) Rc_cwd_inaccessible)
              | Inr st \<Rightarrow>
                  if \<not> ps_is_directory st then Inl (ValidationError ''cwd must be a directory'' Rc_cwd_not_directory)
                  else Inr cwd))
      | _ \<Rightarrow> Inl (ValidationError ''cwd must be a nonempty absolute path'' Rc_cwd_not_absolute))"

text \<open>A positive integer, as both numeric fields are tested.\<close>

definition positive_integer :: "json \<Rightarrow> bool" where
  "positive_integer v \<longleftrightarrow> (case v of JNum x \<Rightarrow> 0 < x \<and> js_is_integer x | _ \<Rightarrow> False)"

definition integer_value :: "json \<Rightarrow> int" where
  "integer_value v = (case v of JNum x \<Rightarrow> \<lfloor>x\<rfloor> | _ \<Rightarrow> 0)"

definition validateMaxOutputTokens :: "json option \<Rightarrow> int option result" where
  "validateMaxOutputTokens v =
     (case v of
        None \<Rightarrow> Inr None
      | Some x \<Rightarrow>
          if positive_integer x then Inr (Some (integer_value x))
          else Inl (ValidationError ''max_output_tokens must be a positive integer when provided'' Rc_invalid_max_output_tokens))"

definition no_timeout_options :: timeout_budget_options where
  "no_timeout_options = \<lparr>to_min_requested = None, to_headroom = None, to_kill_grace = None, to_force_grace = None\<rparr>"

definition validateTimeout :: "validation_env \<Rightarrow> json option \<Rightarrow> int option result" where
  "validateTimeout env v =
     (case v of
        None \<Rightarrow> Inr None
      | Some x \<Rightarrow>
          if \<not> positive_integer x
          then Inl (ValidationError ''timeout_ms must be a positive integer when provided'' Rc_invalid_timeout_ms)
          else (let least = minimumRequestedTimeoutMs (ve_number env) (ve_getenv env) no_timeout_options in
            if integer_value x < least
            then Inl (ValidationError (''timeout_ms must be at least '' @ ve_num env (of_int least) @
              '' ms with the configured response headroom and kill grace'') Rc_invalid_timeout_ms)
            else Inr (Some (integer_value x))))"

section \<open>The whole request\<close>

record resolved_request =
  rq_prompt :: string
  rq_cwd :: string
  rq_model_class :: model_class
  rq_model :: string
  rq_thinking :: thinking_level
  rq_max_output_tokens :: "int option"
  rq_timeout_ms :: "int option"
  rq_continuity :: run_continuity
  rq_skill :: "string option"
  rq_system_skill :: "string option"
  rq_scope :: "specialist_catalogue_scope option"
  rq_effect_profile :: "effect_profile option"
  rq_delegation :: json
  rq_requested_delegation :: json
  rq_allowed_outputs :: "string list option"
  rq_expected_sha :: "string option"
  rq_snapshot :: "json option"
  rq_output_mode :: output_mode

definition reject_when :: "bool \<Rightarrow> string \<Rightarrow> failure_reason_code \<Rightarrow> unit result" where
  "reject_when b m rc = (if b then Inl (ValidationError m rc) else Inr ())"

text \<open>\<open>request.continuity?.mode === "resume"\<close>\<close>

definition asks_resume :: "json \<Rightarrow> bool" where
  "asks_resume request \<longleftrightarrow>
     (case jget request ''continuity'' of Some c \<Rightarrow> jget c ''mode'' = Some (JStr ''resume'') | None \<Rightarrow> False)"

definition nonblank_text :: "json option \<Rightarrow> bool" where
  "nonblank_text v \<longleftrightarrow> (case v of Some (JStr s) \<Rightarrow> \<not> blank s | _ \<Rightarrow> False)"

definition bounded_profile_checks :: "json \<Rightarrow> effect_profile option \<Rightarrow> unit result" where
  "bounded_profile_checks request profile =
     (case profile of
        None \<Rightarrow> Inr ()
      | Some p \<Rightarrow>
          if \<not> isBoundedEffectProfile profile then Inr ()
          else (let name = effect_profile_name p; required = the (boundedEffectProfileSkill p) in
            bind_result (reject_when (jget request ''skill_name'' \<noteq> Some (JStr required))
              (name @ '' requires exact canonical skill_name '' @ quote_text required) Rc_invalid_skill) (\<lambda>_.
            bind_result (reject_when (asks_resume request)
              (name @ '' supports only ephemeral and fresh continuity; resume is not supported'') Rc_effect_profile_unsupported) (\<lambda>_.
            bind_result (reject_when
              (case jget request ''skill_snapshot_binding'' of Some (JObj _) \<Rightarrow> False | Some (JArr _) \<Rightarrow> False | _ \<Rightarrow> True)
              (name @ '' requires an immutable skill_snapshot_binding with a complete runtime-bundle digest'')
              Rc_invalid_skill_snapshot_binding) (\<lambda>_.
              reject_when (jget request ''expected_skill_sha256'' \<noteq> None)
                (name @ '' requires skill_snapshot_binding instead of expected_skill_sha256'')
                Rc_invalid_skill_snapshot_binding)))))"

definition delegation_checks :: "json \<Rightarrow> effect_profile option \<Rightarrow> json \<Rightarrow> unit result" where
  "delegation_checks request profile delegation =
     bind_result (reject_when (asks_resume request \<and> jget request ''recursive_delegation'' = None)
       ''raw resume requires explicit recursive_delegation reauthorization'' Rc_recursive_delegation_reauthorization_required) (\<lambda>_.
       reject_when (profile \<noteq> None \<and> delegation = JStr ''enabled'')
         ((case profile of Some p \<Rightarrow> effect_profile_name p | None \<Rightarrow> []) @ '' excludes recursive delegation'')
         Rc_recursive_delegation_effect_conflict)"

definition skill_identity_checks :: "json \<Rightarrow> string option \<Rightarrow> unit result" where
  "skill_identity_checks request expected =
     (let named = nonblank_text (jget request ''skill_name'') in
      bind_result
        (if jget request ''skill_snapshot_binding'' = None then Inr ()
         else bind_result (reject_when (\<not> named) ''skill_snapshot_binding requires canonical skill_name''
             Rc_invalid_skill_snapshot_binding) (\<lambda>_.
           reject_when (expected \<noteq> None) ''skill_snapshot_binding and expected_skill_sha256 are mutually exclusive''
             Rc_invalid_skill_snapshot_binding)) (\<lambda>_.
        (case expected of
           None \<Rightarrow> Inr ()
         | Some h \<Rightarrow>
             bind_result (reject_when (\<not> sha256_hex h) ''expected_skill_sha256 must be a lowercase 64-character SHA-256 hex digest''
               Rc_invalid_expected_skill_sha256) (\<lambda>_.
             reject_when (\<not> named) ''expected_skill_sha256 requires canonical skill_name'' Rc_invalid_expected_skill_sha256))))"

definition system_skill_checks ::
  "string option \<Rightarrow> string option \<Rightarrow> effect_profile option \<Rightarrow> specialist_catalogue_scope option \<Rightarrow> unit result" where
  "system_skill_checks skill system profile scope =
     bind_result (reject_when (system \<noteq> None \<and> system = skill)
       ''system_skill_name must differ from skill_name so the governing body is not duplicated as a specialist invocation''
       Rc_invalid_skill) (\<lambda>_.
     bind_result (reject_when (system \<noteq> None \<and> profile \<noteq> None)
       ''system_skill_name preserves ambient tools and is not supported with an effect_profile''
       Rc_effect_profile_unsupported) (\<lambda>_.
       reject_when (scope \<noteq> None \<and> system = None) ''specialist_catalogue_scope requires system_skill_name'' Rc_invalid_skill))"

definition retired_input_checks :: "json \<Rightarrow> unit result" where
  "retired_input_checks request =
     bind_result (reject_when (jget request ''skill'' \<noteq> None) ''skill is not a supported input; use skill_name'' Rc_invalid_skill) (\<lambda>_.
       reject_when (jget request ''tool_profile'' \<noteq> None) ''tool_profile is not a supported input'' Rc_unknown_validation_error)"

definition retired_model_checks :: "json \<Rightarrow> unit result" where
  "retired_model_checks request =
     bind_result (reject_when (jget request ''model'' \<noteq> None) ''model is no longer a public input; use model_class''
       Rc_invalid_model) (\<lambda>_.
       reject_when (jget request ''thinking_level'' \<noteq> None)
         ''thinking_level is calibrated by model_class and is no longer a public input'' Rc_invalid_thinking_level)"

definition task_root :: "validation_env \<Rightarrow> effect_profile option \<Rightarrow> string \<Rightarrow> string result" where
  "task_root env profile cwd =
     (if isEffectScopedAuthoringProfile profile \<or> profile = Some Task_root_read_only_v1 then ve_realpath env cwd else Inr cwd)"

definition validateAndResolveRequest :: "validation_env \<Rightarrow> json \<Rightarrow> model_class option \<Rightarrow> resolved_request result" where
  "validateAndResolveRequest env request config =
     bind_result (retired_input_checks request) (\<lambda>_.
     bind_result (trimOptional (jget request ''prompt'') ''prompt'') (\<lambda>prompt.
     bind_result (reject_when (prompt = None) ''prompt must be a nonempty string'' Rc_prompt_missing) (\<lambda>_.
     bind_result (validateCwd env (jget request ''cwd'')) (\<lambda>cwd.
     bind_result (retired_model_checks request) (\<lambda>_.
     bind_result (validateChoice (jget request ''model_class'') ''model_class'' model_classes None) (\<lambda>asked.
     let modelClass = nullish asked (nullish config default_model_class) in
     bind_result (resolveModelClass modelClass) (\<lambda>model.
     bind_result (validateMaxOutputTokens (jget request ''max_output_tokens'')) (\<lambda>maxOutputTokens.
     bind_result (validateTimeout env (jget request ''timeout_ms'')) (\<lambda>timeoutMs.
     bind_result (validateContinuity (jget request ''continuity'') request) (\<lambda>continuity.
     bind_result (validateResumeSessionFile env continuity) (\<lambda>_.
     bind_result (validateChoice (jget request ''effect_profile'') ''effect_profile'' effect_profiles None) (\<lambda>profile.
     let delegation = (case jget request ''recursive_delegation'' of None \<Rightarrow> JStr ''disabled'' | Some JNull \<Rightarrow> JStr ''disabled'' | Some d \<Rightarrow> d);
         requested = (case jget request ''recursive_delegation'' of None \<Rightarrow> JNull | Some d \<Rightarrow> d) in
     bind_result (bounded_profile_checks request profile) (\<lambda>_.
     bind_result (delegation_checks request profile delegation) (\<lambda>_.
     bind_result (trimOptional (jget request ''expected_skill_sha256'') ''expected_skill_sha256'') (\<lambda>expected.
     bind_result (skill_identity_checks request expected) (\<lambda>_.
     bind_result (resolveSkillBinding (jget request ''skill_name'') (the prompt)) (\<lambda>skill.
     bind_result (validateSkillName (jget request ''system_skill_name'') ''system_skill_name'') (\<lambda>systemSkill.
     bind_result (validateChoice (jget request ''specialist_catalogue_scope'') ''specialist_catalogue_scope''
       specialist_catalogue_scopes None) (\<lambda>scope.
     bind_result (system_skill_checks skill systemSkill profile scope) (\<lambda>_.
     bind_result (task_root env profile cwd) (\<lambda>taskRoot.
     bind_result (normalizeAllowedOutputPaths (jget request ''allowed_output_paths'') taskRoot profile) (\<lambda>outputs.
     bind_result (validateChoice (jget request ''output_mode'') ''output_mode'' output_modes (Some OM_final)) (\<lambda>mode.
       Inr \<lparr>rq_prompt = the prompt, rq_cwd = taskRoot, rq_model_class = modelClass, rq_model = cal_model model,
         rq_thinking = cal_thinking model, rq_max_output_tokens = maxOutputTokens, rq_timeout_ms = timeoutMs,
         rq_continuity = continuity, rq_skill = skill, rq_system_skill = systemSkill, rq_scope = scope,
         rq_effect_profile = profile, rq_delegation = delegation, rq_requested_delegation = requested,
         rq_allowed_outputs = outputs, rq_expected_sha = expected, rq_snapshot = jget request ''skill_snapshot_binding'',
         rq_output_mode = the mode\<rparr>)))))))))))))))))))))))"

section \<open>Model classes\<close>

definition plain_ref :: "string \<Rightarrow> bool" where
  "plain_ref s \<longleftrightarrow> list_all (\<lambda>c. \<not> js_space c \<and> \<not> is_upper c) s"

lemma normalize_plain: "plain_ref s \<Longrightarrow> normalizeModelRef s = s"
proof -
  assume plain: "plain_ref s"
  then have "dropWhile js_space s = s" "dropWhile js_space (rev s) = rev s"
    by (cases s; cases "rev s"; fastforce simp: plain_ref_def list_all_iff dest: arg_cong[where f = set])+
  moreover have "map ascii_lower s = s"
    using plain by (auto simp: plain_ref_def list_all_iff ascii_lower_def intro: map_idI)
  ultimately show ?thesis by (simp add: normalizeModelRef_def js_trim_def)
qed

lemma curated_plain: "list_all plain_ref curated_exact_model_refs"
  by code_simp

lemma split_curated: "list_all (\<lambda>r. splitKnownProviderModelRef r =
     (case find (\<lambda>p. starts_with (p @ ''/'') r) known_model_providers of
        Some p \<Rightarrow> (Some p, drop (length p + 1) r) | None \<Rightarrow> (None, r))) curated_exact_model_refs"
  unfolding list_all_iff
proof
  fix r assume "r \<in> set curated_exact_model_refs"
  then have "normalizeModelRef r = r" using curated_plain by (intro normalize_plain) (simp add: list_all_iff)
  then show "splitKnownProviderModelRef r =
     (case find (\<lambda>p. starts_with (p @ ''/'') r) known_model_providers of
        Some p \<Rightarrow> (Some p, drop (length p + 1) r) | None \<Rightarrow> (None, r))"
    by (simp add: splitKnownProviderModelRef_def Let_def)
qed

lemma curated_resolves: "list_all (\<lambda>r. canonicalAllowedModelRef r = Some r) curated_exact_model_refs"
  using split_curated
  by (simp add: curated_exact_model_refs_def known_model_providers_def starts_with_def canonicalAllowedModelRef_def
      isOpenAICodexGpt54OrNewerModelId_def gpt5_minor_def normalize_plain plain_ref_def js_space_def is_upper_def)

lemma calibration_curated: "cal_model (model_class_calibration c) \<in> set curated_exact_model_refs"
  by (cases c) (simp_all add: curated_exact_model_refs_def)

lemma calibration_resolves: "resolveAllowedModelRef (cal_model (model_class_calibration c)) = Inr (cal_model (model_class_calibration c))"
  using curated_resolves calibration_curated[of c] by (simp add: resolveAllowedModelRef_def list_all_iff)

lemma resolve_class: "resolveModelClass c = Inr (model_class_calibration c)"
  by (simp add: resolveModelClass_def Let_def calibration_resolves)

lemma class_for_pair_find:
  "class_for_pair model level cs =
     Inr (find (\<lambda>c. cal_model (model_class_calibration c) = model \<and> cal_thinking (model_class_calibration c) = level) cs)"
  by (induction cs) (simp_all add: calibration_resolves)

text \<open>
  Every model class resolves, to the model and thinking level of its calibration, and no two classes
  share a calibration: the class of a resolved pair is the class it was resolved from. So a configuration
  that names a model and a level of the calibrations is migrated to the class that means exactly that.
\<close>

theorem model_class_roundtrip:
  "\<exists>cal. resolveModelClass c = Inr cal \<and> cal = model_class_calibration c \<and>
     modelClassForResolvedPair (cal_model cal) (cal_thinking cal) = Inr (Some c)"
proof -
  have "find (\<lambda>d. cal_model (model_class_calibration d) = cal_model (model_class_calibration c) \<and>
      cal_thinking (model_class_calibration d) = cal_thinking (model_class_calibration c)) modelClassChoices = Some c"
    by (cases c) (simp_all add: modelClassChoices_def model_classes_def)
  then show ?thesis
    by (simp add: resolve_class modelClassForResolvedPair_def calibration_resolves class_for_pair_find)
qed

section \<open>A resolved request is well formed\<close>

lemma reject_when_Inr [simp]: "reject_when b m rc = Inr u \<longleftrightarrow> \<not> b"
  by (simp add: reject_when_def)

lemma trimOptional_Inr: "trimOptional v key = Inr r \<longleftrightarrow> (v = None \<and> r = None) \<or> (\<exists>s. v = Some (JStr s) \<and> r = (if blank s then None else Some (js_trim s)))"
  by (auto simp: trimOptional_def split: option.splits json.splits)

lemma trimOptional_nonblank: "trimOptional v key = Inr (Some s) \<Longrightarrow> \<not> blank s \<and> js_trim s = s"
  by (auto simp: trimOptional_Inr split: if_splits)

lemma validateContinuity_resume: "validateContinuity v request = Inr (Resume p) \<Longrightarrow> is_absolute p"
  by (auto simp: validateContinuity_def Let_def bind_result_Inr_iff split: if_splits option.splits)

lemma validateResumeSessionFile_Inr:
  "validateResumeSessionFile env (Resume p) = Inr u \<longleftrightarrow>
     (\<exists>st. ve_stat env p = Inr st \<and> ps_is_file st \<and> ps_size st \<noteq> 0) \<and> is_ok (ve_access env p)"
  by (auto simp: validateResumeSessionFile_def Let_def is_ok_def split: sum.splits if_splits)

lemma validateCwd_Inr:
  "validateCwd env v = Inr cwd \<Longrightarrow> is_absolute cwd \<and> (\<exists>st. ve_stat env cwd = Inr st \<and> ps_is_directory st)"
  by (auto simp: validateCwd_def Let_def split: option.splits json.splits sum.splits if_splits)

lemma positive_integer_value: "positive_integer v \<Longrightarrow> 0 < integer_value v"
  by (auto simp: positive_integer_def integer_value_def js_is_integer_def split: json.splits)

lemma validateMaxOutputTokens_Inr: "validateMaxOutputTokens v = Inr (Some n) \<Longrightarrow> 0 < n"
  using positive_integer_value by (auto simp: validateMaxOutputTokens_def split: option.splits if_splits)

lemma validateTimeout_Inr:
  "validateTimeout env v = Inr (Some n) \<Longrightarrow> 0 < n \<and> minimumRequestedTimeoutMs (ve_number env) (ve_getenv env) no_timeout_options \<le> n"
  using positive_integer_value by (auto simp: validateTimeout_def Let_def split: option.splits if_splits)

definition continuity_sound :: "validation_env \<Rightarrow> run_continuity \<Rightarrow> bool" where
  "continuity_sound env c \<longleftrightarrow>
     (case c of Resume p \<Rightarrow> is_absolute p \<and> is_ok (ve_access env p) \<and>
          (\<exists>st. ve_stat env p = Inr st \<and> ps_is_file st \<and> ps_size st \<noteq> 0)
      | _ \<Rightarrow> True)"

definition limits_sound :: "validation_env \<Rightarrow> resolved_request \<Rightarrow> bool" where
  "limits_sound env r \<longleftrightarrow>
     (case rq_max_output_tokens r of Some n \<Rightarrow> 0 < n | None \<Rightarrow> True) \<and>
     (case rq_timeout_ms r of
        Some n \<Rightarrow> 0 < n \<and> minimumRequestedTimeoutMs (ve_number env) (ve_getenv env) no_timeout_options \<le> n | None \<Rightarrow> True)"

text \<open>Which authorities and skill identities can be in one request.\<close>

definition authority_sound :: "resolved_request \<Rightarrow> bool" where
  "authority_sound r \<longleftrightarrow>
     (isBoundedEffectProfile (rq_effect_profile r) \<longrightarrow>
        rq_skill r = boundedEffectProfileSkill (the (rq_effect_profile r)) \<and> rq_snapshot r \<noteq> None \<and> rq_expected_sha r = None) \<and>
     (rq_effect_profile r \<noteq> None \<longrightarrow> rq_delegation r \<noteq> JStr ''enabled'' \<and> rq_system_skill r = None) \<and>
     (rq_scope r \<noteq> None \<longrightarrow> rq_system_skill r \<noteq> None) \<and>
     (rq_system_skill r \<noteq> None \<longrightarrow> rq_system_skill r \<noteq> rq_skill r) \<and>
     (rq_snapshot r \<noteq> None \<longrightarrow> rq_skill r \<noteq> None \<and> rq_expected_sha r = None) \<and>
     (\<forall>h. rq_expected_sha r = Some h \<longrightarrow> sha256_hex h \<and> rq_skill r \<noteq> None) \<and>
     (rq_allowed_outputs r \<noteq> None \<longleftrightarrow> rq_effect_profile r = Some Task_root_authoring_v1)"

lemma skill_of_name:
  assumes "resolveSkillBinding v prompt = Inr skill"
  shows "nonblank_text v \<Longrightarrow> skill \<noteq> None" and "v = Some (JStr s) \<Longrightarrow> skill = Some s"
  using assms by (auto simp: resolveSkillBinding_def validateSkillName_def nonblank_text_def split: sum.splits option.splits json.splits if_splits)

lemma bounded_checks_Inr:
  assumes "bounded_profile_checks request profile = Inr u" and "isBoundedEffectProfile profile"
  shows "jget request ''skill_name'' = Some (JStr (the (boundedEffectProfileSkill (the profile))))"
    and "jget request ''skill_snapshot_binding'' \<noteq> None" and "jget request ''expected_skill_sha256'' = None"
  using assms by (auto simp: bounded_profile_checks_def isBoundedEffectProfile_def Let_def bind_result_Inr_iff split: option.splits json.splits)

lemma bounded_skill: "isBoundedEffectProfile profile \<Longrightarrow> boundedEffectProfileSkill (the profile) \<noteq> None"
  by (auto simp: isBoundedEffectProfile_def boundedEffectProfileSkill_def)

lemma outputs_iff: "normalizeAllowedOutputPaths v base profile = Inr outputs \<Longrightarrow> outputs \<noteq> None \<longleftrightarrow> profile = Some Task_root_authoring_v1"
  by (auto simp: normalizeAllowedOutputPaths_def failInvalid_def split: option.splits json.splits sum.splits if_splits)

lemma skill_identity_Inr:
  assumes "skill_identity_checks request expected = Inr u"
  shows "jget request ''skill_snapshot_binding'' \<noteq> None \<Longrightarrow> nonblank_text (jget request ''skill_name'') \<and> expected = None"
    and "expected = Some h \<Longrightarrow> sha256_hex h \<and> nonblank_text (jget request ''skill_name'')"
  using assms by (auto simp: skill_identity_checks_def Let_def bind_result_Inr_iff split: option.splits if_splits)

text \<open>
  C26: What validation lets through is well formed, whatever the caller sent. The prompt is not blank, the
  working directory was an absolute path of a directory, the model and the thinking level are those of
  the model class, and limits are positive, with a timeout that leaves room for the child. A resumed
  session is an absolute path of a readable, nonempty file. A bounded profile comes with exactly its own skill and
  a snapshot binding; no effect profile is combined with enabled delegation or with a system skill; a
  skill is identified by a snapshot or by a digest, never by both; and output paths are declared exactly for
  the authoring profile.
\<close>

theorem resolved_request_is_well_formed:
  assumes "validateAndResolveRequest env request config = Inr r"
  shows "\<not> blank (rq_prompt r) \<and> (\<exists>cwd. is_absolute cwd \<and> (\<exists>st. ve_stat env cwd = Inr st \<and> ps_is_directory st) \<and>
       task_root env (rq_effect_profile r) cwd = Inr (rq_cwd r)) \<and>
     rq_model r = cal_model (model_class_calibration (rq_model_class r)) \<and>
     rq_thinking r = cal_thinking (model_class_calibration (rq_model_class r)) \<and>
     limits_sound env r \<and> continuity_sound env (rq_continuity r) \<and> authority_sound r"
proof -
  from assms obtain prompt cwd cls model maxo tmo cont profile expected skill system scope base outputs mode delegation requested u1 u2 u3 u4 u5 where
    prompt: "trimOptional (jget request ''prompt'') ''prompt'' = Inr prompt" "prompt \<noteq> None" and
    cwd: "validateCwd env (jget request ''cwd'') = Inr cwd" "task_root env profile cwd = Inr base" and
    model: "resolveModelClass cls = Inr model" and
    maxo: "validateMaxOutputTokens (jget request ''max_output_tokens'') = Inr maxo" and
    tmo: "validateTimeout env (jget request ''timeout_ms'') = Inr tmo" and
    cont: "validateContinuity (jget request ''continuity'') request = Inr cont" "validateResumeSessionFile env cont = Inr u1" and
    bounded: "bounded_profile_checks request profile = Inr u2" and
    delegation: "delegation_checks request profile delegation = Inr u3" and
    expected: "trimOptional (jget request ''expected_skill_sha256'') ''expected_skill_sha256'' = Inr expected" and
    ident: "skill_identity_checks request expected = Inr u4" and
    skill: "resolveSkillBinding (jget request ''skill_name'') (the prompt) = Inr skill" and
    sys: "system_skill_checks skill system profile scope = Inr u5" and
    outs: "normalizeAllowedOutputPaths (jget request ''allowed_output_paths'') base profile = Inr outputs" and
    form: "\<lparr>rq_prompt = the prompt, rq_cwd = base, rq_model_class = cls, rq_model = cal_model model, rq_thinking = cal_thinking model,
      rq_max_output_tokens = maxo, rq_timeout_ms = tmo, rq_continuity = cont, rq_skill = skill, rq_system_skill = system,
      rq_scope = scope, rq_effect_profile = profile, rq_delegation = delegation, rq_requested_delegation = requested,
      rq_allowed_outputs = outputs, rq_expected_sha = expected, rq_snapshot = jget request ''skill_snapshot_binding'',
      rq_output_mode = mode\<rparr> = r"
    unfolding validateAndResolveRequest_def Let_def bind_result_Inr_iff reject_when_Inr sum.inject
    by (elim exE conjE) (rule that, assumption+)
  note r = form[symmetric] resolved_request.select_convs
  have "limits_sound env r"
    using maxo tmo by (auto simp: limits_sound_def r validateMaxOutputTokens_Inr dest: validateTimeout_Inr split: option.split)
  moreover have "continuity_sound env cont"
    using cont validateResumeSessionFile_Inr by (cases cont) (auto simp: continuity_sound_def dest: validateContinuity_resume)
  moreover have "authority_sound r"
    unfolding authority_sound_def r
  proof (intro conjI impI allI)
    assume b: "isBoundedEffectProfile profile"
    show "skill = boundedEffectProfileSkill (the profile)"
      using skill_of_name(2)[OF skill bounded_checks_Inr(1)[OF bounded b]] bounded_skill[OF b] by simp
    show "jget request ''skill_snapshot_binding'' \<noteq> None" by (rule bounded_checks_Inr(2)[OF bounded b])
    show "expected = None" using expected bounded_checks_Inr(3)[OF bounded b] by (simp add: trimOptional_def)
  next
    assume "profile \<noteq> None"
    then show "delegation \<noteq> JStr ''enabled''" "system = None"
      using delegation sys by (auto simp: delegation_checks_def system_skill_checks_def bind_result_Inr_iff)
  next
    assume "scope \<noteq> None"
    then show "system \<noteq> None" using sys by (auto simp: system_skill_checks_def bind_result_Inr_iff)
  next
    assume "system \<noteq> None"
    then show "system \<noteq> skill" using sys by (auto simp: system_skill_checks_def bind_result_Inr_iff)
  next
    assume "jget request ''skill_snapshot_binding'' \<noteq> None"
    then show "skill \<noteq> None" "expected = None" using skill_identity_Inr(1)[OF ident] skill_of_name(1)[OF skill] by auto
  next
    fix h assume "expected = Some h"
    then show "sha256_hex h" "skill \<noteq> None" using skill_identity_Inr(2)[OF ident] skill_of_name(1)[OF skill] by auto
  next
    show "outputs \<noteq> None \<longleftrightarrow> profile = Some Task_root_authoring_v1" by (rule outputs_iff[OF outs])
  qed
  moreover have "\<not> blank (the prompt)" using prompt by (auto dest: trimOptional_nonblank)
  ultimately show ?thesis
    using validateCwd_Inr[OF cwd(1)] cwd(2) model by (auto simp: r resolve_class)
qed

definition demo_request :: json where
  "demo_request = JObj [(''prompt'', JStr '' do it ''), (''cwd'', JStr ''/w''), (''model_class'', JStr ''D'')]"

definition demo_validation_env :: validation_env where
  "demo_validation_env = \<lparr>ve_stat = (\<lambda>_. Inr \<lparr>ps_is_file = False, ps_is_directory = True, ps_size = 0\<rparr>), ve_access = (\<lambda>_. Inr ()),
     ve_realpath = Inr, ve_number = (\<lambda>_. None), ve_getenv = (\<lambda>_. None), ve_num = (\<lambda>_. ''0'')\<rparr>"

lemma demo_resolves: "is_ok (validateAndResolveRequest demo_validation_env demo_request None)"
  by code_simp

theorem resolved_request_is_well_formed_witness:
  "\<exists>r. validateAndResolveRequest demo_validation_env demo_request None = Inr r \<and> \<not> blank (rq_prompt r) \<and> authority_sound r"
proof -
  obtain r where r: "validateAndResolveRequest demo_validation_env demo_request None = Inr r"
    using demo_resolves by (cases "validateAndResolveRequest demo_validation_env demo_request None") simp_all
  show ?thesis using resolved_request_is_well_formed[OF r] r by blast
qed

end
