(* ===== verification/Run_State.thy ===== *)
theory Run_State
  imports Run_Owner
begin

text \<open>
  The resident state of a run (\<open>src/runTask.ts\<close>, \<open>RunTaskState\<close>, lines 141-412 and 1914-2568): its creation,
  the setters of phase and progress, the projection of public events and of the child's life cycle, and the
  views that are derived of it, \<open>runTaskViewFromState\<close> above all. Events, input requests, receipts and results
  are the JSON values that the views show. A time is an ISO text that the caller passes; \<open>now_ms\<close> is
  \<open>Date.now()\<close>. The abort controller, the promises and the observers of a run are not part of the state;
  the child's control channel is \<open>rs_control\<close>, whether one is registered.
\<close>

section \<open>Names\<close>

fun phase_text :: "run_task_active_phase \<Rightarrow> string" where
  "phase_text Phase_starting = ''starting''"
| "phase_text Phase_queued = ''queued''"
| "phase_text Phase_awaiting_child_event = ''awaiting_child_event''"
| "phase_text Phase_running_silent = ''running_silent''"
| "phase_text Phase_running = ''running''"
| "phase_text Phase_input_required = ''input_required''"
| "phase_text Phase_cancelling = ''cancelling''"
| "phase_text Phase_timed_out = ''timed_out''"
| "phase_text Phase_cancelled = ''cancelled''"
| "phase_text Phase_completed = ''completed''"
| "phase_text Phase_failed = ''failed''"

fun event_kind_text :: "run_public_event_kind \<Rightarrow> string" where
  "event_kind_text Kind_task = ''task''"
| "event_kind_text Kind_child = ''child''"
| "event_kind_text Kind_user = ''user''"
| "event_kind_text Kind_assistant = ''assistant''"
| "event_kind_text Kind_warning = ''warning''"
| "event_kind_text Kind_error = ''error''"
| "event_kind_text Kind_input = ''input''"
| "event_kind_text Kind_packet = ''packet''"
| "event_kind_text Kind_terminal = ''terminal''"

fun event_name_text :: "run_public_event_name \<Rightarrow> string" where
  "event_name_text Ev_run_started = ''run_started''"
| "event_name_text Ev_child_spawned = ''child_spawned''"
| "event_name_text Ev_child_bridge_started = ''child_bridge_started''"
| "event_name_text Ev_child_session_established = ''child_session_established''"
| "event_name_text Ev_activation_confirmed = ''activation_confirmed''"
| "event_name_text Ev_skill_snapshot_activation_confirmed = ''skill_snapshot_activation_confirmed''"
| "event_name_text Ev_recursive_delegation_confirmed = ''recursive_delegation_confirmed''"
| "event_name_text Ev_system_skill_activation_confirmed = ''system_skill_activation_confirmed''"
| "event_name_text Ev_child_prompt_submitted = ''child_prompt_submitted''"
| "event_name_text Ev_recursive_child_started = ''recursive_child_started''"
| "event_name_text Ev_recursive_child_finished = ''recursive_child_finished''"
| "event_name_text Ev_input_required = ''input_required''"
| "event_name_text Ev_input_answered = ''input_answered''"
| "event_name_text Ev_input_timed_out = ''input_timed_out''"
| "event_name_text Ev_input_closed = ''input_closed''"
| "event_name_text Ev_timeout = ''timeout''"
| "event_name_text Ev_cancellation_requested = ''cancellation_requested''"
| "event_name_text Ev_cancellation_settled = ''cancellation_settled''"
| "event_name_text Ev_packet_accepted = ''packet_accepted''"
| "event_name_text Ev_packet_rejected = ''packet_rejected''"
| "event_name_text Ev_completed = ''completed''"
| "event_name_text Ev_failed = ''failed''"
| "event_name_text Ev_message = ''message''"

text \<open>The observations of a child before its first prompt, in the order of their generations.\<close>

datatype child_lifecycle =
    LC_spawned | LC_bridge_started | LC_delegation_confirmed | LC_session_established
  | LC_activation_confirmed | LC_snapshot_confirmed | LC_system_skill_confirmed | LC_prompt_submitted

fun lifecycle_event :: "child_lifecycle \<Rightarrow> run_public_event_name" where
  "lifecycle_event LC_spawned = Ev_child_spawned"
| "lifecycle_event LC_bridge_started = Ev_child_bridge_started"
| "lifecycle_event LC_delegation_confirmed = Ev_recursive_delegation_confirmed"
| "lifecycle_event LC_session_established = Ev_child_session_established"
| "lifecycle_event LC_activation_confirmed = Ev_activation_confirmed"
| "lifecycle_event LC_snapshot_confirmed = Ev_skill_snapshot_activation_confirmed"
| "lifecycle_event LC_system_skill_confirmed = Ev_system_skill_activation_confirmed"
| "lifecycle_event LC_prompt_submitted = Ev_child_prompt_submitted"

abbreviation lifecycle_text :: "child_lifecycle \<Rightarrow> string" where
  "lifecycle_text l \<equiv> event_name_text (lifecycle_event l)"

fun lifecycle_generation :: "child_lifecycle \<Rightarrow> nat" where
  "lifecycle_generation LC_spawned = 0"
| "lifecycle_generation LC_bridge_started = 1"
| "lifecycle_generation LC_delegation_confirmed = 2"
| "lifecycle_generation LC_session_established = 3"
| "lifecycle_generation LC_activation_confirmed = 4"
| "lifecycle_generation LC_snapshot_confirmed = 5"
| "lifecycle_generation LC_system_skill_confirmed = 6"
| "lifecycle_generation LC_prompt_submitted = 7"

fun lifecycle_message :: "child_lifecycle \<Rightarrow> string" where
  "lifecycle_message LC_spawned = ''child process running; waiting for first public output''"
| "lifecycle_message LC_bridge_started = ''child bridge started; waiting for first public output''"
| "lifecycle_message LC_delegation_confirmed = ''recursive delegation authority confirmed before prompt''"
| "lifecycle_message LC_session_established = ''Pi session established; waiting for first public output''"
| "lifecycle_message LC_activation_confirmed = ''constrained activation confirmed before prompt''"
| "lifecycle_message LC_snapshot_confirmed = ''immutable runtime snapshot confirmed before prompt''"
| "lifecycle_message LC_system_skill_confirmed = ''governing system skill placement confirmed before prompt''"
| "lifecycle_message LC_prompt_submitted = ''prompt submitted; waiting for first public output''"

instantiation child_lifecycle :: linorder
begin

definition less_eq_child_lifecycle :: "child_lifecycle \<Rightarrow> child_lifecycle \<Rightarrow> bool" where
  "less_eq_child_lifecycle a b \<longleftrightarrow> lifecycle_generation a \<le> lifecycle_generation b"

definition less_child_lifecycle :: "child_lifecycle \<Rightarrow> child_lifecycle \<Rightarrow> bool" where
  "less_child_lifecycle a b \<longleftrightarrow> lifecycle_generation a < lifecycle_generation b"

instance
proof
  fix a b :: child_lifecycle
  show "a \<le> b \<Longrightarrow> b \<le> a \<Longrightarrow> a = b"
    by (cases a; cases b) (simp_all add: less_eq_child_lifecycle_def)
qed (auto simp: less_eq_child_lifecycle_def less_child_lifecycle_def)

end

section \<open>The state\<close>

record accepted_response =
  ar_response_id :: string
  ar_answer_sha256 :: string
  ar_receipt :: string

record pending_delivery =
  pd_response_id :: string
  pd_answer :: string
  pd_receipt :: string

record run_state =
  rs_run_id :: string
  rs_started_at :: string
  rs_inputs_dir :: string
  rs_task_kind :: string
  rs_finished_at :: "string option"
  rs_inputs :: "json list"
  rs_result :: "json option"
  rs_error :: "js_error option"
  rs_cancel_requested :: bool
  rs_heartbeat :: int
  rs_progress_at :: "string option"
  rs_progress_message :: "string option"
  rs_phase :: run_task_active_phase
  rs_phase_at :: string
  rs_lifecycle :: "child_lifecycle option"
  rs_lifecycle_at :: "string option"
  rs_first_output_at :: "string option"
  rs_events :: "json list"
  rs_excerpt :: "json option"
  rs_settled :: bool
  rs_cwd :: "string option"
  rs_tool :: "string option"
  rs_session_key :: "string option"
  rs_parent :: "string option"
  rs_root :: string
  rs_depth :: nat
  rs_children :: "string list"
  rs_descendants :: "string list"
  rs_descendant_statuses :: "(string \<times> run_status) list"
  rs_control :: bool
  rs_accepted :: "(string \<times> accepted_response) list"
  rs_deliveries :: "(string \<times> pending_delivery) list"
  rs_terminalizing :: bool
  rs_partial_output :: "string option"
  rs_pending_outputs :: "json option"
  rs_child_started :: bool
  rs_queued_at :: "string option"
  rs_child_started_at :: "string option"
  rs_released :: bool
  rs_binding :: "json option"
  rs_effect_profile :: "string option"
  rs_activation :: "json option"
  rs_snapshot_binding :: "json option"
  rs_snapshot_receipt :: "json option"
  rs_delegation_receipt :: "json option"
  rs_delegation :: "string option"
  rs_system_skill :: "string option"
  rs_scope :: "string option"
  rs_governing :: "string option"
  rs_system_receipt :: "json option"
  rs_expected_sha :: "string option"
  rs_declarations :: "json option"
  rs_launch :: "json option"

text \<open>\<open>rs_settled\<close> is \<open>terminalSnapshotStarted\<close>, \<open>rs_released\<close> is \<open>capacityReleased\<close>.\<close>

record task_lineage =
  tl_parent :: "string option"
  tl_root :: "string option"
  tl_depth :: "nat option"

definition default_heartbeat_message :: string where
  "default_heartbeat_message = ''running''"

definition setTaskProgress :: "string \<Rightarrow> int \<Rightarrow> string \<Rightarrow> run_state \<Rightarrow> run_state" where
  "setTaskProgress message beat at_time s =
     (if rs_settled s then s
      else s\<lparr>rs_heartbeat := beat, rs_progress_at := Some at_time, rs_progress_message := Some message\<rparr>)"

text \<open>With the default for the heartbeat count.\<close>

abbreviation note_progress :: "string \<Rightarrow> string \<Rightarrow> run_state \<Rightarrow> run_state" where
  "note_progress message at_time s \<equiv> setTaskProgress message (rs_heartbeat s) at_time s"

definition settling_phases :: "run_task_active_phase list" where
  "settling_phases = [Phase_cancelling, Phase_cancelled, Phase_timed_out, Phase_completed, Phase_failed]"

definition setTaskPhase :: "run_task_active_phase \<Rightarrow> string \<Rightarrow> run_state \<Rightarrow> run_state" where
  "setTaskPhase phase at_time s =
     (if rs_settled s then s
      else if rs_cancel_requested s \<and> phase \<notin> set settling_phases then s
      else s\<lparr>rs_phase := phase, rs_phase_at := at_time\<rparr>)"

definition noteFirstPublicOutput :: "string \<Rightarrow> run_state \<Rightarrow> run_state" where
  "noteFirstPublicOutput at_time s =
     (if rs_settled s \<or> rs_first_output_at s \<noteq> None then s else s\<lparr>rs_first_output_at := Some at_time\<rparr>)"

definition nonempty :: "string option \<Rightarrow> string option" where
  "nonempty t = (if t = Some [] then None else t)"

definition createRunTaskState ::
  "string \<Rightarrow> string option \<Rightarrow> task_lineage \<Rightarrow> string \<Rightarrow> string \<Rightarrow> json option \<Rightarrow> string \<Rightarrow> string \<Rightarrow> run_state" where
  "createRunTaskState kind sessionKey lineage run_id mailboxRoot binding started now =
     setTaskProgress default_heartbeat_message 0 now
       \<lparr>rs_run_id = run_id, rs_started_at = started, rs_inputs_dir = path_join mailboxRoot run_id, rs_task_kind = kind,
        rs_finished_at = None, rs_inputs = [], rs_result = None, rs_error = None, rs_cancel_requested = False,
        rs_heartbeat = 0, rs_progress_at = None, rs_progress_message = None, rs_phase = Phase_starting,
        rs_phase_at = started, rs_lifecycle = None, rs_lifecycle_at = None, rs_first_output_at = None, rs_events = [],
        rs_excerpt = None, rs_settled = False, rs_cwd = None, rs_tool = None, rs_session_key = nonempty sessionKey,
        rs_parent = nonempty (tl_parent lineage), rs_root = nullish (tl_root lineage) run_id,
        rs_depth = nullish (tl_depth lineage) 0, rs_children = [], rs_descendants = [], rs_descendant_statuses = [],
        rs_control = False, rs_accepted = [], rs_deliveries = [], rs_terminalizing = False, rs_partial_output = None,
        rs_pending_outputs = None, rs_child_started = False, rs_queued_at = None, rs_child_started_at = None,
        rs_released = False, rs_binding = binding, rs_effect_profile = None, rs_activation = None,
        rs_snapshot_binding = None, rs_snapshot_receipt = None, rs_delegation_receipt = None, rs_delegation = None,
        rs_system_skill = None, rs_scope = None, rs_governing = None, rs_system_receipt = None, rs_expected_sha = None,
        rs_declarations = None, rs_launch = None\<rparr>"

section \<open>Events\<close>

text \<open>\<open>localeCompare\<close> of two times is a parameter: \<open>le_after a b\<close> when \<open>a\<close> sorts behind \<open>b\<close>.\<close>

record life_env =
  le_rt :: js_runtime
  le_after :: "string \<Rightarrow> string \<Rightarrow> bool"

definition public_event ::
  "run_public_event_kind \<Rightarrow> run_public_event_name \<Rightarrow> string \<Rightarrow> string \<Rightarrow> json option \<Rightarrow> json" where
  "public_event kind event words at_time metadata = JObj
     ([(''kind'', JStr (event_kind_text kind)), (''event'', JStr (event_name_text event)), (''text'', JStr words),
       (''occurred_at'', JStr at_time)] @ opt_field ''metadata'' metadata)"

text \<open>\<open>JSON.parse(JSON.stringify(metadata))\<close> is the metadata itself, its undefined fields aside.\<close>

definition canonical_event :: "json \<Rightarrow> json" where
  "canonical_event e = spread (spread (without [''metadata''] e)
     (JObj [(''schema_version'', JNum 1),
            (''text'', JStr (truncatePublicEventText (redactPublicEventText (text_or [] (jget e ''text'')))))]))
     (JObj (opt_field ''metadata'' (jget e ''metadata'')))"

definition recent_events_json :: "json list \<Rightarrow> json list" where
  "recent_events_json es = map (\<lambda>e. es ! ev_id e) (recentEventsProjection (view_events es))"

definition projectPublicEvent :: "json \<Rightarrow> run_state \<Rightarrow> run_state" where
  "projectPublicEvent e s =
     (let events = rs_events s @ [canonical_event e] in
      s\<lparr>rs_events := recent_events_json events, rs_excerpt := excerpt_json events\<rparr>)"

definition projectStatusEvent :: "json \<Rightarrow> string \<Rightarrow> run_state \<Rightarrow> run_state" where
  "projectStatusEvent e message s =
     note_progress message (text_or [] (jget (canonical_event e) ''occurred_at'')) (projectPublicEvent e s)"

subsection \<open>The child's life cycle\<close>

record lifecycle_baseline =
  lb_phase :: run_task_active_phase
  lb_phase_at :: string
  lb_lifecycle :: "child_lifecycle option"
  lb_lifecycle_at :: "string option"
  lb_progress_at :: "string option"
  lb_progress_message :: "string option"
  lb_heartbeat :: int
  lb_first_output_at :: "string option"

definition childLifecycleProjectionBaseline :: "run_state \<Rightarrow> lifecycle_baseline" where
  "childLifecycleProjectionBaseline s =
     \<lparr>lb_phase = rs_phase s, lb_phase_at = rs_phase_at s, lb_lifecycle = rs_lifecycle s,
      lb_lifecycle_at = rs_lifecycle_at s, lb_progress_at = rs_progress_at s,
      lb_progress_message = rs_progress_message s, lb_heartbeat = rs_heartbeat s,
      lb_first_output_at = rs_first_output_at s\<rparr>"

definition sameChildLifecycleProjectionBaseline :: "run_state \<Rightarrow> lifecycle_baseline \<Rightarrow> bool" where
  "sameChildLifecycleProjectionBaseline s b \<longleftrightarrow> childLifecycleProjectionBaseline s = b"

definition childLifecycleGenerationPrecedes :: "child_lifecycle option \<Rightarrow> child_lifecycle \<Rightarrow> bool" where
  "childLifecycleGenerationPrecedes current incoming \<longleftrightarrow> (case current of None \<Rightarrow> True | Some c \<Rightarrow> c < incoming)"

definition hasCoherentChildLifecycleProjection :: "run_state \<Rightarrow> bool" where
  "hasCoherentChildLifecycleProjection s \<longleftrightarrow>
     (case (rs_lifecycle s, rs_lifecycle_at s) of
        (Some l, Some t) \<Rightarrow> rs_phase s = Phase_running_silent \<and> rs_phase_at s = t \<and> rs_progress_at s = Some t \<and>
          rs_progress_message s = Some (lifecycle_message l)
      | _ \<Rightarrow> False)"

definition canProjectWrittenChildLifecycleEvent :: "run_state \<Rightarrow> child_lifecycle \<Rightarrow> lifecycle_baseline \<Rightarrow> bool" where
  "canProjectWrittenChildLifecycleEvent s l b \<longleftrightarrow>
     \<not> (rs_terminalizing s \<or> rs_result s \<noteq> None \<or> rs_error s \<noteq> None \<or> rs_cancel_requested s \<or>
        rs_phase s \<notin> set [Phase_starting, Phase_awaiting_child_event, Phase_running_silent] \<or>
        \<not> childLifecycleGenerationPrecedes (lb_lifecycle b) l) \<and>
     (sameChildLifecycleProjectionBaseline s b \<or>
      (hasCoherentChildLifecycleProjection s \<and> rs_heartbeat s = lb_heartbeat b \<and>
       rs_first_output_at s = lb_first_output_at b \<and> childLifecycleGenerationPrecedes (rs_lifecycle s) l))"

definition projectWrittenChildLifecycleEvent ::
  "life_env \<Rightarrow> json \<Rightarrow> child_lifecycle \<Rightarrow> string \<Rightarrow> lifecycle_baseline \<Rightarrow> run_state \<Rightarrow> run_state" where
  "projectWrittenChildLifecycleEvent env written l at_time b s =
     (if rs_settled s then s
      else
        (let events = rs_events s @ [written];
             s' = s\<lparr>rs_events := recent_events_json events, rs_excerpt := excerpt_json events\<rparr>
         in if (case rs_lifecycle_at s' of Some t \<Rightarrow> t \<noteq> [] \<and> le_after env t at_time | None \<Rightarrow> False) then s'
            else if \<not> canProjectWrittenChildLifecycleEvent s' l b then s'
            else s'\<lparr>rs_phase := Phase_running_silent, rs_phase_at := at_time, rs_lifecycle := Some l,
                    rs_lifecycle_at := Some at_time, rs_progress_at := Some at_time,
                    rs_progress_message := Some (lifecycle_message l)\<rparr>))"

definition projectChildLifecycleEvent ::
  "life_env \<Rightarrow> child_lifecycle \<Rightarrow> string \<Rightarrow> string \<Rightarrow> json option \<Rightarrow> run_state \<Rightarrow> run_state" where
  "projectChildLifecycleEvent env l words at_time metadata s =
     projectWrittenChildLifecycleEvent env
       (canonical_event (public_event Kind_child (lifecycle_event l) words at_time metadata)) l at_time
       (childLifecycleProjectionBaseline s) s"

section \<open>Views\<close>

definition text_field :: "string \<Rightarrow> string option \<Rightarrow> (string \<times> json) list" where
  "text_field k t = opt_field k (map_option JStr t)"

definition contractFields :: "(string \<times> json) list" where
  "contractFields = [(''contract_name'', JStr ''subagent007.durable_run''), (''contract_version'', JNum 3)]"

text \<open>\<open>Math.max(0, x)\<close>; an unreadable time makes it \<open>NaN\<close>, which is serialised as \<open>null\<close>.\<close>

definition clamped :: "int option \<Rightarrow> json" where
  "clamped x = (case x of None \<Rightarrow> JNull | Some i \<Rightarrow> JNum (of_int (max 0 i)))"

definition time_difference :: "js_runtime \<Rightarrow> string \<Rightarrow> string \<Rightarrow> int option" where
  "time_difference rt b a =
     (case (rt_date rt b, rt_date rt a) of (Some x, Some y) \<Rightarrow> Some (x - y) | _ \<Rightarrow> None)"

definition progressView :: "run_state \<Rightarrow> json \<Rightarrow> (string \<times> json) list" where
  "progressView s elapsed =
     [(''elapsed_ms'', elapsed)] @ text_field ''last_progress_at'' (nonempty (rs_progress_at s)) @
     text_field ''last_progress_message'' (nonempty (rs_progress_message s)) @
     [(''heartbeat_count'', JNum (of_int (rs_heartbeat s))), (''active_phase'', JStr (phase_text (rs_phase s))),
      (''last_phase_at'', JStr (rs_phase_at s))] @
     text_field ''last_child_lifecycle_event'' (map_option lifecycle_text (rs_lifecycle s)) @
     text_field ''last_child_lifecycle_at'' (nonempty (rs_lifecycle_at s)) @
     text_field ''first_public_output_at'' (nonempty (rs_first_output_at s)) @
     (if rs_first_output_at s = None
      then [(''no_public_output_elapsed_ms'', case elapsed of JNum x \<Rightarrow> JNum (max 0 x) | v \<Rightarrow> v)] else []) @
     [(''recent_events'', JArr (rs_events s))] @
     opt_field ''last_public_output_excerpt'' (rs_excerpt s)"

definition activeProgressView :: "js_runtime \<Rightarrow> int \<Rightarrow> run_state \<Rightarrow> (string \<times> json) list" where
  "activeProgressView rt now_ms s =
     progressView s (clamped (map_option (\<lambda>t. now_ms - t) (rt_date rt (rs_started_at s))))"

text \<open>What the classification of a result reads of it.\<close>

definition result_status_input :: "json \<Rightarrow> run_task_terminal_status_input" where
  "result_status_input r =
     \<lparr>ts_success = truthy (jget r ''success''), ts_timed_out = truthy (jget r ''timed_out''),
      ts_stop_reason = nullish (Option.bind (text_of (jget r ''stop_reason'')) (map_of stop_reason_texts)) Stop_failed,
      ts_status = Option.bind (text_of (jget r ''status'')) (map_of terminal_status_texts)\<rparr>"

definition status_text :: "run_status \<Rightarrow> string" where
  "status_text st = (case st of Working \<Rightarrow> ''working'' | Input_required \<Rightarrow> ''input_required'' | Completed \<Rightarrow> ''completed''
     | Failed \<Rightarrow> ''failed'' | Cancelled \<Rightarrow> ''cancelled'' | Timed_out \<Rightarrow> ''timed_out'')"

definition result_fields :: "string list \<Rightarrow> json \<Rightarrow> (string \<times> json) list" where
  "result_fields ks r = concat (map (\<lambda>k. opt_field k (jget r k)) ks)"

definition result_event_metadata :: "json \<Rightarrow> json" where
  "result_event_metadata r = JObj (result_fields [''success'', ''stop_reason'', ''exit_code'', ''timed_out''] r)"

definition terminalProgressView :: "string \<Rightarrow> run_state \<Rightarrow> json \<Rightarrow> json" where
  "terminalProgressView now s r =
     (let d = terminalRunTaskEventDetails (result_status_input r);
          events = (if list_ex (\<lambda>e. has_text e ''kind'' ''terminal'' \<and> has_text e ''event'' (event_name_text (td_event d)))
                (rs_events s)
            then rs_events s
            else recent_events_json (rs_events s @ [public_event Kind_terminal (td_event d) (td_text d)
                (nullish (rs_finished_at s) now) (Some (result_event_metadata r))]))
      in spread (JObj (progressView s (nullish (jget r ''duration_ms'') JNull)))
        (JObj [(''active_phase'', JStr (phase_text (td_phase d))),
          (''last_phase_at'', JStr (nullish (rs_finished_at s) (rs_phase_at s))),
          (''recent_events'', JArr events)]))"

definition admissionView :: "js_runtime \<Rightarrow> run_state \<Rightarrow> (string \<times> json) list" where
  "admissionView rt s =
     [(''child_started'', JBool (rs_child_started s))] @ text_field ''queued_at'' (nonempty (rs_queued_at s)) @
     (case (nonempty (rs_queued_at s), nonempty (rs_child_started_at s)) of
        (Some q, Some c) \<Rightarrow> [(''child_started_at'', JStr c), (''queue_wait_ms'', clamped (time_difference rt c q))]
      | _ \<Rightarrow> []) @
     opt_field ''client_start_binding'' (rs_binding s)"

definition lineageView :: "run_state \<Rightarrow> (string \<times> json) list" where
  "lineageView s =
     text_field ''parent_run_id'' (nonempty (rs_parent s)) @
     [(''root_run_id'', JStr (rs_root s)), (''recursion_depth'', JNum (of_nat (rs_depth s))),
      (''child_run_ids'', JArr (map JStr (rs_children s))), (''descendant_run_ids'', JArr (map JStr (rs_descendants s))),
      (''descendant_terminal_statuses'', JObj (map (\<lambda>(k, st). (k, JStr (status_text st))) (rs_descendant_statuses s)))]"

definition activationView :: "run_state \<Rightarrow> (string \<times> json) list" where
  "activationView s =
     text_field ''requested_effect_profile'' (nonempty (rs_effect_profile s)) @
     text_field ''expected_skill_sha256'' (nonempty (rs_expected_sha s)) @
     (case rs_activation s of
        None \<Rightarrow> []
      | Some r \<Rightarrow>
          (if truthy (jget r ''resolved_effect_profile'')
           then opt_field ''resolved_effect_profile'' (jget r ''resolved_effect_profile'') else []) @
          [(''activation_receipt'', r)]) @
     opt_field ''skill_snapshot_binding'' (rs_snapshot_binding s) @
     opt_field ''skill_snapshot_activation_receipt'' (rs_snapshot_receipt s) @
     text_field ''requested_recursive_delegation'' (nonempty (rs_delegation s)) @
     (case rs_delegation_receipt s of
        None \<Rightarrow> []
      | Some r \<Rightarrow> opt_field ''resolved_recursive_delegation'' (jget r ''resolved_recursive_delegation'') @
          [(''recursive_delegation_receipt'', r)]) @
     text_field ''requested_system_skill'' (nonempty (rs_system_skill s)) @
     text_field ''requested_specialist_catalogue_scope'' (nonempty (rs_scope s)) @
     opt_field ''system_skill_activation_receipt'' (rs_system_receipt s)"

definition pending_request :: "json \<Rightarrow> bool" where
  "pending_request r \<longleftrightarrow> has_text r ''status'' ''pending''"

definition activeRunTaskView :: "js_runtime \<Rightarrow> int \<Rightarrow> run_state \<Rightarrow> json list \<Rightarrow> json" where
  "activeRunTaskView rt now_ms s inputs = JObj
     (contractFields @
      [(''run_id'', JStr (rs_run_id s)), (''task_id'', JStr (rs_run_id s)), (''task_kind'', JStr (rs_task_kind s))] @
      lineageView s @ text_field ''session_key'' (nonempty (rs_session_key s)) @
      [(''status'', JStr (if list_ex pending_request inputs then ''input_required'' else ''working'')),
       (''started_at'', JStr (rs_started_at s)), (''input_requests_dir'', JStr (rs_inputs_dir s)),
       (''input_requests'', JArr inputs)] @
      admissionView rt s @ activeProgressView rt now_ms s @ activationView s @
      text_field ''partial_output_path'' (nonempty (rs_partial_output s)))"

subsection \<open>Failures of the owner\<close>

primrec reason_code_text :: "failure_reason_code \<Rightarrow> string" where
  "reason_code_text Rc_child_entrypoint_missing = ''child_entrypoint_missing''"
| "reason_code_text Rc_child_entrypoint_not_file = ''child_entrypoint_not_file''"
| "reason_code_text Rc_config_missing_default_model_class = ''config_missing_default_model_class''"
| "reason_code_text Rc_cancelled_before_first_output = ''cancelled_before_first_output''"
| "reason_code_text Rc_cwd_inaccessible = ''cwd_inaccessible''"
| "reason_code_text Rc_cwd_not_absolute = ''cwd_not_absolute''"
| "reason_code_text Rc_cwd_not_directory = ''cwd_not_directory''"
| "reason_code_text Rc_disk_reserve_exhausted = ''disk_reserve_exhausted''"
| "reason_code_text Rc_handler_error = ''handler_error''"
| "reason_code_text Rc_client_start_id_conflict = ''client_start_id_conflict''"
| "reason_code_text Rc_client_start_id_fenced = ''client_start_id_fenced''"
| "reason_code_text Rc_invalid_output_mode = ''invalid_output_mode''"
| "reason_code_text Rc_invalid_packet_policy = ''invalid_packet_policy''"
| "reason_code_text Rc_invalid_model = ''invalid_model''"
| "reason_code_text Rc_invalid_model_class = ''invalid_model_class''"
| "reason_code_text Rc_model_class_unhealthy = ''model_class_unhealthy''"
| "reason_code_text Rc_invalid_resume_mode = ''invalid_resume_mode''"
| "reason_code_text Rc_invalid_session_id = ''invalid_session_id''"
| "reason_code_text Rc_invalid_session_key = ''invalid_session_key''"
| "reason_code_text Rc_invalid_skill = ''invalid_skill''"
| "reason_code_text Rc_invalid_thinking_level = ''invalid_thinking_level''"
| "reason_code_text Rc_invalid_effect_profile = ''invalid_effect_profile''"
| "reason_code_text Rc_authoring_effect_scope_invalid = ''authoring_effect_scope_invalid''"
| "reason_code_text Rc_authoring_effect_scope_drift = ''authoring_effect_scope_drift''"
| "reason_code_text Rc_invalid_expected_skill_sha256 = ''invalid_expected_skill_sha256''"
| "reason_code_text Rc_effect_profile_unsupported = ''effect_profile_unsupported''"
| "reason_code_text Rc_skill_binding_unsupported = ''skill_binding_unsupported''"
| "reason_code_text Rc_effect_profile_activation_failed = ''effect_profile_activation_failed''"
| "reason_code_text Rc_skill_content_mismatch = ''skill_content_mismatch''"
| "reason_code_text Rc_invalid_skill_snapshot_binding = ''invalid_skill_snapshot_binding''"
| "reason_code_text Rc_skill_snapshot_not_found = ''skill_snapshot_not_found''"
| "reason_code_text Rc_skill_snapshot_altered = ''skill_snapshot_altered''"
| "reason_code_text Rc_skill_snapshot_reference_mismatch = ''skill_snapshot_reference_mismatch''"
| "reason_code_text Rc_skill_snapshot_reference_closed = ''skill_snapshot_reference_closed''"
| "reason_code_text Rc_skill_snapshot_activation_failed = ''skill_snapshot_activation_failed''"
| "reason_code_text Rc_invalid_timeout_ms = ''invalid_timeout_ms''"
| "reason_code_text Rc_invalid_max_output_tokens = ''invalid_max_output_tokens''"
| "reason_code_text Rc_invalid_wait_ms = ''invalid_wait_ms''"
| "reason_code_text Rc_local_capacity_exhausted = ''local_capacity_exhausted''"
| "reason_code_text Rc_local_queue_exhausted = ''local_queue_exhausted''"
| "reason_code_text Rc_missing_session_id = ''missing_session_id''"
| "reason_code_text Rc_missing_final_output = ''missing_final_output''"
| "reason_code_text Rc_nonzero_exit = ''nonzero_exit''"
| "reason_code_text Rc_packet_required_invalid = ''packet_required_invalid''"
| "reason_code_text Rc_packet_required_missing = ''packet_required_missing''"
| "reason_code_text Rc_packet_required_not_ready = ''packet_required_not_ready''"
| "reason_code_text Rc_prompt_missing = ''prompt_missing''"
| "reason_code_text Rc_raw_session_id_unsupported = ''raw_session_id_unsupported''"
| "reason_code_text Rc_recursive_control_invalid = ''recursive_control_invalid''"
| "reason_code_text Rc_recursive_depth_exceeded = ''recursive_depth_exceeded''"
| "reason_code_text Rc_run_not_accepting_input = ''run_not_accepting_input''"
| "reason_code_text Rc_run_liveness_unknown = ''run_liveness_unknown''"
| "reason_code_text Rc_run_not_found = ''run_not_found''"
| "reason_code_text Rc_run_subagent_timeout_unsupported = ''run_subagent_timeout_unsupported''"
| "reason_code_text Rc_input_request_already_answered = ''input_request_already_answered''"
| "reason_code_text Rc_input_request_already_closed = ''input_request_already_closed''"
| "reason_code_text Rc_input_request_already_timed_out = ''input_request_already_timed_out''"
| "reason_code_text Rc_input_request_not_found = ''input_request_not_found''"
| "reason_code_text Rc_input_request_not_part_of_run = ''input_request_not_part_of_run''"
| "reason_code_text Rc_input_response_id_conflict = ''input_response_id_conflict''"
| "reason_code_text Rc_session_already_exists = ''session_already_exists''"
| "reason_code_text Rc_session_already_running = ''session_already_running''"
| "reason_code_text Rc_session_cwd_mismatch = ''session_cwd_mismatch''"
| "reason_code_text Rc_session_does_not_exist = ''session_does_not_exist''"
| "reason_code_text Rc_session_ledger_invalid = ''session_ledger_invalid''"
| "reason_code_text Rc_session_commit_invalid = ''session_commit_invalid''"
| "reason_code_text Rc_session_manifest_invalid = ''session_manifest_invalid''"
| "reason_code_text Rc_session_skill_mismatch = ''session_skill_mismatch''"
| "reason_code_text Rc_server_restarted_active_run = ''server_restarted_active_run''"
| "reason_code_text Rc_spawn_error = ''spawn_error''"
| "reason_code_text Rc_timeout = ''timeout''"
| "reason_code_text Rc_usage_limit_reached = ''usage_limit_reached''"
| "reason_code_text Rc_process_signal_terminated = ''process_signal_terminated''"
| "reason_code_text Rc_recursive_delegation_reauthorization_required = ''recursive_delegation_reauthorization_required''"
| "reason_code_text Rc_recursive_delegation_effect_conflict = ''recursive_delegation_effect_conflict''"
| "reason_code_text Rc_recursive_delegation_activation_failed = ''recursive_delegation_activation_failed''"
| "reason_code_text Rc_recursive_delegation_unsupported = ''recursive_delegation_unsupported''"
| "reason_code_text Rc_system_skill_activation_failed = ''system_skill_activation_failed''"
| "reason_code_text Rc_unknown_error = ''unknown_error''"
| "reason_code_text Rc_unknown_validation_error = ''unknown_validation_error''"

definition failureReasonCodeForError :: "js_error \<Rightarrow> failure_reason_code" where
  "failureReasonCodeForError e = nullish (reason_of e) Rc_handler_error"

definition errorTaxonomyForError :: "js_error \<Rightarrow> string \<times> string" where
  "errorTaxonomyForError e =
     (if reason_of e \<noteq> None then ''validation_error'' else ''unknown_error'',
      reason_code_text (failureReasonCodeForError e))"

record failure_envelope_options =
  fo_started_at :: string
  fo_finished_at :: string
  fo_error_class :: string
  fo_reason_code :: string
  fo_session_id :: "string option"
  fo_session_established :: "bool option"
  fo_outputs :: "json list option"
  fo_partial_output :: "bool option"

definition syntheticTerminalFailureEnvelope :: "js_runtime \<Rightarrow> failure_envelope_options \<Rightarrow> (string \<times> json) list" where
  "syntheticTerminalFailureEnvelope rt f =
     [(''success'', JBool False), (''exit_code'', JNull), (''timed_out'', JBool False),
      (''partial_output_available'', JBool (nullish (fo_partial_output f) False)), (''resume_possible'', JBool False),
      (''duration_ms'', JNum (of_int (elapsedMsBetween rt (fo_started_at f) (fo_finished_at f)))),
      (''requested_timeout_ms'', JNull), (''resolved_timeout_ms'', JNull), (''effective_timeout_ms'', JNull),
      (''session_id'', case fo_session_id f of None \<Rightarrow> JNull | Some i \<Rightarrow> JStr i),
      (''session_established'', JBool (nullish (fo_session_established f) (fo_session_id f \<noteq> None))),
      (''output_references'', JArr (nullish (fo_outputs f) [])),
      (''error_class'', JStr (fo_error_class f)), (''reason_code'', JStr (fo_reason_code f))]"

definition sessionIdFromEvents :: "json list \<Rightarrow> string option" where
  "sessionIdFromEvents events =
     (case find (\<lambda>e. case jget e ''metadata'' of None \<Rightarrow> False | Some m \<Rightarrow> nonempty_string (jget m ''session_id''))
         (rev events) of
        None \<Rightarrow> None
      | Some e \<Rightarrow> Option.bind (jget e ''metadata'') (\<lambda>m. text_of (jget m ''session_id'')))"

text \<open>A run that was cancelled before its child was launched has no error to show.\<close>

definition cancelled_before_launch :: "run_state \<Rightarrow> bool" where
  "cancelled_before_launch s \<longleftrightarrow> rs_cancel_requested s \<and> \<not> rs_child_started s"

definition state_failure_envelope :: "js_runtime \<Rightarrow> run_state \<Rightarrow> js_error \<Rightarrow> string \<Rightarrow> (string \<times> json) list" where
  "state_failure_envelope rt s e finished =
     syntheticTerminalFailureEnvelope rt
       \<lparr>fo_started_at = rs_started_at s, fo_finished_at = finished, fo_error_class = fst (errorTaxonomyForError e),
        fo_reason_code = snd (errorTaxonomyForError e), fo_session_id = sessionIdFromEvents (rs_events s),
        fo_session_established = None, fo_outputs = None, fo_partial_output = None\<rparr>"

definition shown_envelope :: "js_runtime \<Rightarrow> run_state \<Rightarrow> js_error \<Rightarrow> string \<Rightarrow> (string \<times> json) list" where
  "shown_envelope rt s e finished =
     filter (\<lambda>(k, _). \<not> (cancelled_before_launch s \<and> k \<in> set [''error_class'', ''reason_code'']))
       (state_failure_envelope rt s e finished)"

definition owner_status :: "run_state \<Rightarrow> string" where
  "owner_status s = (if rs_cancel_requested s then ''cancelled'' else ''failed'')"

definition resultView :: "js_runtime \<Rightarrow> string \<Rightarrow> run_state \<Rightarrow> json list \<Rightarrow> json \<Rightarrow> json" where
  "resultView rt now s inputs r =
     spread (spread (spread (spread (JObj contractFields) r) (JObj (activationView s)))
       (with_field ''finished_at'' (map_option JStr (rs_finished_at s))
         (JObj ([(''run_id'', JStr (rs_run_id s)), (''task_id'', JStr (rs_run_id s)), (''task_kind'', JStr (rs_task_kind s))] @
           lineageView s @
           [(''status'', JStr (status_text (terminalRunTaskStatus (result_status_input r)))),
            (''started_at'', JStr (rs_started_at s)), (''input_requests_dir'', JStr (rs_inputs_dir s)),
            (''input_requests'', JArr inputs)] @ admissionView rt s))))
       (terminalProgressView now s r)"

definition errorView :: "js_runtime \<Rightarrow> string \<Rightarrow> int \<Rightarrow> run_state \<Rightarrow> json list \<Rightarrow> js_error \<Rightarrow> json" where
  "errorView rt now now_ms s inputs e = JObj
     (contractFields @
      [(''run_id'', JStr (rs_run_id s)), (''task_id'', JStr (rs_run_id s)), (''task_kind'', JStr (rs_task_kind s))] @
      lineageView s @ activationView s @ text_field ''session_key'' (nonempty (rs_session_key s)) @
      [(''status'', JStr (owner_status s)), (''started_at'', JStr (rs_started_at s))] @
      text_field ''finished_at'' (rs_finished_at s) @
      [(''input_requests_dir'', JStr (rs_inputs_dir s)), (''input_requests'', JArr inputs)] @ admissionView rt s @
      shown_envelope rt s e (nullish (rs_finished_at s) now) @ activeProgressView rt now_ms s @
      (if cancelled_before_launch s then [] else [(''error'', JStr (message_of e))]))"

definition runTaskViewFromState :: "js_runtime \<Rightarrow> string \<Rightarrow> int \<Rightarrow> run_state \<Rightarrow> json list \<Rightarrow> bool \<Rightarrow> json" where
  "runTaskViewFromState rt now now_ms s inputs allowUnreleased =
     (if (rs_result s \<noteq> None \<or> rs_error s \<noteq> None) \<and> (\<not> rs_settled s \<or> (\<not> rs_released s \<and> \<not> allowUnreleased))
      then activeRunTaskView rt now_ms s inputs
      else case rs_result s of
        Some r \<Rightarrow> resultView rt now s inputs r
      | None \<Rightarrow> (case rs_error s of
          Some e \<Rightarrow> errorView rt now now_ms s inputs e
        | None \<Rightarrow> activeRunTaskView rt now_ms s inputs))"

section \<open>Drafts\<close>

text \<open>A transition works on a copy; its publication copies every field but the identity of the run.\<close>

definition publishRunTaskTransitionState :: "run_state \<Rightarrow> run_state \<Rightarrow> run_state" where
  "publishRunTaskTransitionState s draft =
     draft\<lparr>rs_run_id := rs_run_id s, rs_started_at := rs_started_at s, rs_inputs_dir := rs_inputs_dir s,
           rs_task_kind := rs_task_kind s\<rparr>"

section \<open>The window of events\<close>

text \<open>An event that the window treats by age alone.\<close>

definition plain_json :: "json \<Rightarrow> bool" where
  "plain_json e \<longleftrightarrow> \<not> has_text e ''event'' ''run_started'' \<and> \<not> (has_text e ''kind'' ''child'' \<and> has_text e ''event'' ''child_spawned'')"

lemma plain_view_event [simp]: "plain_event (view_event i e) = plain_json e"
  by (auto simp: plain_event_def view_event_def plain_json_def has_text_def)

lemma ids_view_events: "map ev_id (view_events es) = [0..<length es]"
  unfolding view_events_def by (rule nth_equalityI) (simp_all add: view_event_def)

lemma distinct_view_events: "distinct (map ev_id (view_events es))"
  by (simp add: ids_view_events)

lemma view_events_nth: "v \<in> set (view_events es) \<Longrightarrow> v = view_event (ev_id v) (es ! ev_id v) \<and> ev_id v < length es"
  by (auto simp: view_events_def in_set_zip view_event_def)

lemma view_events_back: "map (\<lambda>v. es ! ev_id v) (view_events es) = es"
  unfolding view_events_def by (rule nth_equalityI) (simp_all add: view_event_def)

lemma recent_events_sub: "set (recentEventsProjection es) \<subseteq> set es"
  by (cases "length es \<le> 25") (auto simp: recentEventsProjection_def Let_def)

lemma recent_json_length: "length (recent_events_json es) \<le> 25"
  using window_facts[OF distinct_view_events[of es]] by (simp add: recent_events_json_def)

lemma recent_json_sub: "set (recent_events_json es) \<subseteq> set es"
  using recent_events_sub[of "view_events es"] view_events_nth by (fastforce simp: recent_events_json_def)

lemma recent_json_plain: "\<exists>m. filter plain_json (recent_events_json es) = drop m (filter plain_json es)"
proof -
  let ?g = "\<lambda>v. es ! ev_id v"
  have g: "plain_json (?g v) = plain_event v" if "v \<in> set (view_events es)" for v
    using view_events_nth[OF that] plain_view_event by metis
  have "filter plain_json (recent_events_json es) = map ?g (filter plain_event (recentEventsProjection (view_events es)))"
    using g recent_events_sub[of "view_events es"]
    by (auto simp: recent_events_json_def filter_map intro!: arg_cong[of _ _ "map ?g"] filter_cong)
  moreover have "filter plain_json es = map ?g (filter plain_event (view_events es))"
  proof -
    have "filter plain_json es = filter plain_json (map ?g (view_events es))" by (simp only: view_events_back)
    also have "\<dots> = map ?g (filter plain_event (view_events es))"
      using g by (auto simp: filter_map intro!: arg_cong[of _ _ "map ?g"] filter_cong)
    finally show ?thesis .
  qed
  ultimately show ?thesis using window_plain_suffix[OF distinct_view_events[of es]] by (auto simp: drop_map)
qed

end
