(* ===== verification/Run_Transitions.thy ===== *)
theory Run_Transitions
  imports Run_State Input_Mailbox Skill_Binding
begin

text \<open>
  The transitions of a resident run (\<open>src/runTask.ts\<close>, lines 490-577, 2381-2842, 3455-3914, 5144-5177 and
  5403-5606): the resident ones of \<open>commitActiveRunTransition\<close> (heartbeats, output lines, phases) and the
  durable ones, which write the run's record before they publish their draft (the launch grant, the spawn of
  the child, the receipts, pending outputs, lineage, cancellation, answered input). All run one after another under the run's owner
  chain, so a transition is a function of the whole world of the run: its state, the directory of records,
  its mailbox and whether it is still listed among the resident runs. The claim lock of the durable ones is
  held (\<open>Claim_Lock\<close>).
\<close>

section \<open>The world of a run\<close>

record run_world =
  rw_state :: run_state
  rw_dir :: directory
  rw_mailbox :: mailbox
  rw_listed :: bool

text \<open>The time of a transition: the text and the milliseconds of its clock.\<close>

record moment =
  at_text :: string
  at_ms :: int

definition taskNotFound :: "string \<Rightarrow> js_error" where
  "taskNotFound run_id = ValidationError (''run not found: '' @ run_id) Rc_run_not_found"

definition inactive :: "run_state \<Rightarrow> bool" where
  "inactive s \<longleftrightarrow> rs_settled s \<or> rs_result s \<noteq> None \<or> rs_error s \<noteq> None"

definition state_view :: "life_env \<Rightarrow> moment \<Rightarrow> run_state \<Rightarrow> json list \<Rightarrow> json" where
  "state_view env t s inputs = runTaskViewFromState (le_rt env) (at_text t) (at_ms t) s inputs False"

definition publish :: "run_state \<Rightarrow> run_world \<Rightarrow> run_world" where
  "publish draft w = w\<lparr>rw_state := publishRunTaskTransitionState (rw_state w) draft\<rparr>"

text \<open>\<open>apply\<close> answers with the changed draft, or with \<open>None\<close> and the unchanged one's input requests. No
  operation stages an event and answers that nothing changed, which the code would refuse.\<close>

definition commitActiveRunTransition ::
  "life_env \<Rightarrow> moment \<Rightarrow> (run_state \<Rightarrow> run_state option result) \<Rightarrow> run_world \<Rightarrow> run_world \<times> json result" where
  "commitActiveRunTransition env t apply_draft w =
     (let s = rw_state w in
      if \<not> rw_listed w then (w, Inl (taskNotFound (rs_run_id s)))
      else if inactive s then (w, Inr (state_view env t s (rs_inputs s)))
      else case apply_draft s of
        Inl e \<Rightarrow> (w, Inl e)
      | Inr None \<Rightarrow> (w, Inr (state_view env t s (rs_inputs s)))
      | Inr (Some draft) \<Rightarrow> (publish draft w, Inr (state_view env t draft (rs_inputs draft))))"

section \<open>Writing the record\<close>

definition runClaimPersistenceEvidence :: "run_state \<Rightarrow> claim_evidence result" where
  "runClaimPersistenceEvidence s =
     (case rs_declarations s of
        None \<Rightarrow> invalidOwnerRecord ''current v3 run has no claim declarations''
      | Some d \<Rightarrow> Inr \<lparr>ce_declarations = d, ce_launch = rs_launch s, ce_pending = rs_pending_outputs s\<rparr>)"

definition persist_draft ::
  "life_env \<Rightarrow> moment \<Rightarrow> bool \<Rightarrow> run_state \<Rightarrow> directory \<Rightarrow> (directory \<times> json) result" where
  "persist_draft env t unreleased draft dir =
     bind_result (runClaimPersistenceEvidence draft)
       (writeRunClaimOwned (le_rt env) dir
         (runTaskViewFromState (le_rt env) (at_text t) (at_ms t) draft (rs_inputs draft) unreleased))"

text \<open>Write the draft and publish it.\<close>

definition commit_draft :: "life_env \<Rightarrow> moment \<Rightarrow> run_state \<Rightarrow> run_world \<Rightarrow> run_world \<times> json result" where
  "commit_draft env t draft w =
     (case persist_draft env t False draft (rw_dir w) of
        Inl e \<Rightarrow> (w, Inl e)
      | Inr (dir, committed) \<Rightarrow> ((publish draft w)\<lparr>rw_dir := dir\<rparr>, Inr committed))"

text \<open>The frame of a durable transition: it does nothing for a run that is no longer active.\<close>

definition durable ::
  "(run_state \<Rightarrow> run_state option result) \<Rightarrow> life_env \<Rightarrow> moment \<Rightarrow> run_world \<Rightarrow> run_world \<times> json option result" where
  "durable apply_draft env t w =
     (if \<not> rw_listed w then (w, Inl (taskNotFound (rs_run_id (rw_state w))))
      else case apply_draft (rw_state w) of
        Inl e \<Rightarrow> (w, Inl e)
      | Inr None \<Rightarrow> (w, Inr None)
      | Inr (Some draft) \<Rightarrow> map_prod id (map_sum id Some) (commit_draft env t draft w))"

definition when_active :: "(run_state \<Rightarrow> run_state option result) \<Rightarrow> run_state \<Rightarrow> run_state option result" where
  "when_active f s = (if inactive s then Inr None else f s)"

section \<open>Receipts\<close>

text \<open>A receipt is accepted once; the same one again changes nothing, a different one is refused.\<close>

definition accept_receipt ::
  "js_runtime \<Rightarrow> (run_state \<Rightarrow> json option) \<Rightarrow> (json option \<Rightarrow> run_state \<Rightarrow> run_state) \<Rightarrow> string \<Rightarrow> json \<Rightarrow>
   run_state \<Rightarrow> run_state option result" where
  "accept_receipt rt get put conflict r s =
     (case get s of
        Some old \<Rightarrow> if sameCanonicalOwnerJson (rt_num rt) (Some old) (Some r) then Inr None else invalidOwnerRecord conflict
      | None \<Rightarrow> Inr (Some (put (Some r) s)))"

definition acceptActivationReceipt :: "json \<Rightarrow> life_env \<Rightarrow> moment \<Rightarrow> run_world \<Rightarrow> run_world \<times> json option result" where
  "acceptActivationReceipt r env = durable (when_active (accept_receipt (le_rt env) rs_activation (\<lambda>v. rs_activation_update (\<lambda>_. v))
     ''activation receipt conflicts with its prior bytes'' r)) env"

definition acceptSkillSnapshotActivationReceipt :: "json \<Rightarrow> life_env \<Rightarrow> moment \<Rightarrow> run_world \<Rightarrow> run_world \<times> json option result" where
  "acceptSkillSnapshotActivationReceipt r env = durable (when_active (accept_receipt (le_rt env) rs_snapshot_receipt
     (\<lambda>v. rs_snapshot_receipt_update (\<lambda>_. v)) ''skill snapshot receipt conflicts with its prior bytes'' r)) env"

definition acceptSystemSkillActivationReceipt :: "json \<Rightarrow> life_env \<Rightarrow> moment \<Rightarrow> run_world \<Rightarrow> run_world \<times> json option result" where
  "acceptSystemSkillActivationReceipt r env = durable (when_active (accept_receipt (le_rt env) rs_system_receipt
     (\<lambda>v. rs_system_receipt_update (\<lambda>_. v)) ''system skill receipt conflicts with its prior bytes'' r)) env"

definition acceptRecursiveDelegationReceipt :: "json \<Rightarrow> life_env \<Rightarrow> moment \<Rightarrow> run_world \<Rightarrow> run_world \<times> json option result" where
  "acceptRecursiveDelegationReceipt r env = durable (when_active (accept_receipt (le_rt env) rs_delegation_receipt
     (\<lambda>v. rs_delegation_receipt_update (\<lambda>_. v)) ''recursive delegation receipt conflicts with its prior bytes'' r)) env"

text \<open>The ownership of terminal outputs is accepted like a receipt, but an inactive run refuses it.\<close>

definition acceptPendingTerminalOutputs :: "json \<Rightarrow> life_env \<Rightarrow> moment \<Rightarrow> run_world \<Rightarrow> run_world \<times> json option result" where
  "acceptPendingTerminalOutputs ownership env t w =
     (case assertPendingTerminalOutputs ownership (Some (rs_run_id (rw_state w))) of
        Inl e \<Rightarrow> (w, Inl e)
      | Inr _ \<Rightarrow> durable (\<lambda>s.
          if inactive s then invalidOwnerRecord ''terminal output ownership arrived after terminalization''
          else accept_receipt (le_rt env) rs_pending_outputs (\<lambda>v. rs_pending_outputs_update (\<lambda>_. v))
            ''pending terminal output ownership conflicts with its prior bytes'' ownership s) env t w)"

definition clearPendingTerminalOutputs :: "json \<Rightarrow> life_env \<Rightarrow> moment \<Rightarrow> run_world \<Rightarrow> run_world \<times> json option result" where
  "clearPendingTerminalOutputs ownership env t w =
     (case assertPendingTerminalOutputs ownership (Some (rs_run_id (rw_state w))) of
        Inl e \<Rightarrow> (w, Inl e)
      | Inr _ \<Rightarrow> durable (\<lambda>s.
          case rs_pending_outputs s of
            None \<Rightarrow> Inr None
          | Some p \<Rightarrow>
              if \<not> sameCanonicalOwnerJson (rt_num (le_rt env)) (Some p) (Some ownership)
              then invalidOwnerRecord ''pending terminal output cleanup identity changed''
              else Inr (Some (s\<lparr>rs_pending_outputs := None\<rparr>))) env t w)"

section \<open>The launch grant\<close>

text \<open>The declarations of a request, and what the launch of the child observed of it.\<close>

definition truthy_text :: "string \<Rightarrow> json \<Rightarrow> string \<Rightarrow> (string \<times> json) list" where
  "truthy_text k request f =
     (if truthy (jget request f) then Json_Objects.opt_field k (jget request f) else [])"

definition ownerRequestDeclarationsFromRequest :: "json \<Rightarrow> json" where
  "ownerRequestDeclarationsFromRequest request =
     (if jget request ''session_key'' \<noteq> None then JObj [(''requestedRecursiveDelegation'', JNull)]
      else JObj
        (truthy_text ''effectProfile'' request ''effect_profile'' @
         truthy_text ''systemSkillName'' request ''system_skill_name'' @
         truthy_text ''specialistCatalogueScope'' request ''specialist_catalogue_scope'' @
         truthy_text ''expectedSkillSha256'' request ''expected_skill_sha256'' @
         truthy_text ''skillSnapshotBinding'' request ''skill_snapshot_binding'' @
         [(''requestedRecursiveDelegation'', nullish (jget request ''recursive_delegation'') JNull)]))"

definition ensureClaimDeclarations :: "js_runtime \<Rightarrow> json \<Rightarrow> run_state \<Rightarrow> run_state result" where
  "ensureClaimDeclarations rt request s =
     (let d = ownerRequestDeclarationsFromRequest request in
      if (case rs_declarations s of Some old \<Rightarrow> \<not> sameCanonicalOwnerJson (rt_num rt) (Some old) (Some d) | None \<Rightarrow> False)
      then Inl (ValidationError ''run claim declarations changed after capture'' Rc_client_start_id_conflict)
      else Inr (s\<lparr>rs_declarations := Some d\<rparr>))"

record launch_input =
  li_scope_binding :: "json option"
  li_effect_profile :: "string option"
  li_expected_sha :: "string option"
  li_skill_binding :: json
  li_tool_bindings :: "json list"
  li_snapshot_binding :: "json option"
  li_snapshot_receipt :: "json option"
  li_requested_delegation :: "string option"
  li_resolved_delegation :: string
  li_system_skill :: "string option"
  li_system_path :: "string option"
  li_scope :: "string option"
  li_governing :: "string option"

definition ownerRecordDigest :: "js_runtime \<Rightarrow> string \<Rightarrow> string \<Rightarrow> string" where
  "ownerRecordDigest rt domain bytes = rt_sha256 rt (domain @ bytes)"

definition or_null :: "string option \<Rightarrow> json" where
  "or_null t = (case t of None \<Rightarrow> JNull | Some s \<Rightarrow> JStr s)"

definition recordOwnerLaunchObservation :: "js_runtime \<Rightarrow> launch_input \<Rightarrow> run_state \<Rightarrow> run_state" where
  "recordOwnerLaunchObservation rt i s =
     (let scopeBytes = map_option (canonicalJson (rt_num rt)) (li_scope_binding i) in
      s\<lparr>rs_launch := Some (JObj
        ((case scopeBytes of None \<Rightarrow> []
          | Some b \<Rightarrow> [(''effect_scope_binding_bytes'', JStr b),
                       (''effect_scope_binding_sha256'', JStr (ownerRecordDigest rt scope_domain b))]) @
         [(''activation_expectation'', JObj
            ([(''requested_effect_profile'', or_null (li_effect_profile i)),
              (''expected_skill_sha256'', or_null (li_expected_sha i)), (''skill_binding'', li_skill_binding i),
              (''tool_bindings'', JArr (li_tool_bindings i)),
              (''skill_snapshot_binding'', nullish (li_snapshot_binding i) JNull),
              (''skill_snapshot_activation_receipt'', nullish (li_snapshot_receipt i) JNull),
              (''requested_recursive_delegation'', or_null (li_requested_delegation i)),
              (''resolved_recursive_delegation'', JStr (li_resolved_delegation i))] @
             (case (nonempty (li_system_skill i), nonempty (li_system_path i)) of
                (Some n, Some p) \<Rightarrow> [(''system_skill_name'', JStr n), (''system_skill_path'', JStr p)] | _ \<Rightarrow> []) @
             text_field ''specialist_catalogue_scope'' (nonempty (li_scope i))))]))\<rparr>)"

definition grant_draft :: "js_runtime \<Rightarrow> launch_input \<Rightarrow> run_state \<Rightarrow> run_state option result" where
  "grant_draft rt i s =
     (case li_governing i of
        None \<Rightarrow> Inr (Some (recordOwnerLaunchObservation rt i s))
      | Some g \<Rightarrow>
          if nonempty (li_system_skill i) = None \<or> g \<notin> set (map fst model_classes)
          then invalidOwnerRecord ''governed model class is not bound to a governing system skill''
          else if (case nonempty (rs_governing s) of Some old \<Rightarrow> old \<noteq> g | None \<Rightarrow> False)
          then invalidOwnerRecord ''governed model class changed after launch observation''
          else Inr (Some (recordOwnerLaunchObservation rt i (s\<lparr>rs_governing := Some g\<rparr>))))"

definition grantRunClaimFromLaunchObservation ::
  "launch_input \<Rightarrow> life_env \<Rightarrow> moment \<Rightarrow> run_world \<Rightarrow> run_world \<times> json option result" where
  "grantRunClaimFromLaunchObservation i env = durable (when_active (grant_draft (le_rt env) i)) env"

section \<open>The mailbox\<close>

definition status_fields :: "status_view \<Rightarrow> (string \<times> json) list" where
  "status_fields v =
     (case v of
        Pending_view \<Rightarrow> [(''status'', JStr ''pending'')]
      | Settled_view out settledAt \<Rightarrow>
          [(''status'', JStr (outcome_name out))] @ Json_Objects.opt_field ''settled_at'' settledAt @
          Json_Objects.opt_field (case out of Answered \<Rightarrow> ''answered_at'' | Input_timed_out \<Rightarrow> ''timed_out_at''
            | Closed \<Rightarrow> ''closed_at'') settledAt)"

definition request_view_json :: "input_request_view \<Rightarrow> json" where
  "request_view_json v = spread (iv_request v) (JObj (status_fields (iv_status v)))"

definition listed_inputs :: "mailbox \<Rightarrow> string \<Rightarrow> json list result" where
  "listed_inputs m run_id = map_sum id (map request_view_json) (listInputRequests m (Some run_id) None)"

section \<open>The spawn of the child\<close>

definition child_spawned_event :: "string \<Rightarrow> json" where
  "child_spawned_event at_time = canonical_event
     (public_event Kind_child Ev_child_spawned ''[child_spawned] Pi child process started'' at_time None)"

definition spawn_draft :: "life_env \<Rightarrow> string \<Rightarrow> mailbox \<Rightarrow> run_state \<Rightarrow> run_state option result" where
  "spawn_draft env at_time m s =
     (let event = child_spawned_event at_time in
      if rs_child_started s
      then (case find (\<lambda>e. has_text e ''kind'' ''child'' \<and> has_text e ''event'' ''child_spawned'') (rs_events s) of
          Some e \<Rightarrow> if sameCanonicalOwnerJson (rt_num (le_rt env)) (Some e) (Some event) then Inr None
            else invalidOwnerRecord ''child spawn identity conflicts with its committed observation''
        | None \<Rightarrow> invalidOwnerRecord ''child spawn identity conflicts with its committed observation'')
      else if rs_launch s = None then invalidOwnerRecord ''child spawn has no execution grant''
      else
        (let started = s\<lparr>rs_child_started := True\<rparr>;
             queued = (if nonempty (rs_queued_at s) = None then started else started\<lparr>rs_child_started_at := Some at_time\<rparr>)
         in bind_result (listed_inputs m (rs_run_id s)) (\<lambda>inputs.
              Inr (Some ((projectWrittenChildLifecycleEvent env event LC_spawned at_time
                (childLifecycleProjectionBaseline queued) queued)\<lparr>rs_inputs := inputs\<rparr>)))))"

definition commitChildSpawnTransition ::
  "string \<Rightarrow> life_env \<Rightarrow> moment \<Rightarrow> run_world \<Rightarrow> run_world \<times> json option result" where
  "commitChildSpawnTransition at_time env t w = durable (spawn_draft env at_time (rw_mailbox w)) env t w"

section \<open>Heartbeats and phases\<close>

definition heartbeat_message :: "string option \<Rightarrow> run_state \<Rightarrow> string" where
  "heartbeat_message message s =
     (if rs_first_output_at s \<noteq> None then nullish message default_heartbeat_message
      else ''child alive; waiting for first public output'')"

definition heartbeat_draft :: "int \<Rightarrow> string option \<Rightarrow> string \<Rightarrow> run_state \<Rightarrow> run_state option result" where
  "heartbeat_draft beat message now s =
     (let shown = heartbeat_message message s; silent = rs_phase s \<in> set [Phase_awaiting_child_event, Phase_running_silent] in
      if beat < rs_heartbeat s then Inr None
      else if beat = rs_heartbeat s
      then (if rs_progress_message s = Some shown then Inr None
            else invalidOwnerRecord ''heartbeat identity conflicts with its prior progress'')
      else Inr (Some (setTaskProgress shown beat now
        (if \<not> silent then s
         else setTaskPhase (if rs_first_output_at s = None then Phase_running_silent else Phase_running) now s))))"

definition handleTaskHeartbeat ::
  "int \<Rightarrow> string option \<Rightarrow> life_env \<Rightarrow> moment \<Rightarrow> run_world \<Rightarrow> run_world \<times> json result" where
  "handleTaskHeartbeat beat message env t = commitActiveRunTransition env t (heartbeat_draft beat message (at_text t))"

definition prepareChildRun :: "life_env \<Rightarrow> moment \<Rightarrow> run_world \<Rightarrow> run_world \<times> json result" where
  "prepareChildRun env t = commitActiveRunTransition env t (\<lambda>s.
     Inr (Some (note_progress ''preparing child process'' (at_text t) (setTaskPhase Phase_starting (at_text t) s))))"

definition queued_state :: "string \<Rightarrow> string \<Rightarrow> run_state \<Rightarrow> run_state" where
  "queued_state queuedAt now s =
     note_progress ''queued; waiting for local child capacity'' now
       (setTaskPhase Phase_queued queuedAt (s\<lparr>rs_queued_at := Some queuedAt\<rparr>))"

definition queueRun :: "string \<Rightarrow> life_env \<Rightarrow> moment \<Rightarrow> run_world \<Rightarrow> run_world \<times> json result" where
  "queueRun queuedAt env t = commitActiveRunTransition env t (\<lambda>s. Inr (Some (queued_state queuedAt (at_text t) s)))"

definition stage_transcript :: "string \<Rightarrow> life_env \<Rightarrow> moment \<Rightarrow> run_world \<Rightarrow> run_world \<times> json result" where
  "stage_transcript path env t = commitActiveRunTransition env t (\<lambda>s.
     if rs_partial_output s = Some path then Inr None else Inr (Some (s\<lparr>rs_partial_output := Some path\<rparr>)))"

section \<open>Output lines\<close>

text \<open>What a line says of the child's life cycle: the event, its text and its metadata.\<close>

definition standard_lifecycle :: "json option \<Rightarrow> (child_lifecycle \<times> string) option" where
  "standard_lifecycle event =
     (case text_of event of
        None \<Rightarrow> None
      | Some e \<Rightarrow>
          if e = ''child_bridge_started'' then Some (LC_bridge_started, ''[child_bridge_started] Pi child bridge started'')
          else if e = ''child_prompt_submitted''
          then Some (LC_prompt_submitted, ''[child_prompt_submitted] prompt submitted to Pi session'')
          else if e = ''child_session_established''
          then Some (LC_session_established, ''[child_session_established] Pi session established'')
          else None)"

definition session_metadata :: "json \<Rightarrow> json" where
  "session_metadata v = JObj
     ([(''session_id'', or_null (text_of (jget v ''session_id''))),
       (''session_file'', or_null (text_of (jget v ''session_file'')))] @
      text_field ''pi_session_id'' (text_of (jget v ''pi_session_id'')))"

definition childLifecycleFromProcessLine :: "js_runtime \<Rightarrow> string \<Rightarrow> (child_lifecycle \<times> string \<times> json option) option" where
  "childLifecycleFromProcessLine rt line =
     (case eventObjectFromJsonLine rt line of
        None \<Rightarrow> None
      | Some v \<Rightarrow>
          (let is = has_text v ''type'' in
           if is ''subagent007.session'' then
             Some (LC_session_established, ''[child_session_established] Pi session established'', Some (session_metadata v))
           else if is ''subagent007.activation_confirmed'' then
             Some (LC_activation_confirmed, ''[activation_confirmed] constrained child activation confirmed'', None)
           else if is ''subagent007.skill_snapshot_activation_confirmed'' then
             Some (LC_snapshot_confirmed,
               ''[skill_snapshot_activation_confirmed] immutable runtime snapshot confirmed'', None)
           else if is ''subagent007.recursive_delegation_confirmed'' then
             Some (LC_delegation_confirmed,
               ''[recursive_delegation_confirmed] recursive delegation authority confirmed'', None)
           else if is ''subagent007.system_skill_activation_confirmed'' then
             Some (LC_system_skill_confirmed,
               ''[system_skill_activation_confirmed] governing system skill placement confirmed'', None)
           else if \<not> is ''subagent007.lifecycle'' then None
           else map_option (\<lambda>(l, words). (l, words, None))
             (standard_lifecycle (case jget v ''event'' of None \<Rightarrow> jget v ''phase'' | Some JNull \<Rightarrow> jget v ''phase'' | e \<Rightarrow> e))))"

definition isProcessControlMarkerLine :: "string \<Rightarrow> bool" where
  "isProcessControlMarkerLine line \<longleftrightarrow>
     js_trim line = ''[subagent007 cancelled]'' \<or> starts_with ''[subagent007 timeout]'' (js_trim line)"

definition hasCompletePrePromptOwnerObservations :: "run_state \<Rightarrow> bool" where
  "hasCompletePrePromptOwnerObservations s \<longleftrightarrow>
     (rs_effect_profile s = None \<and> rs_expected_sha s = None \<or> rs_activation s \<noteq> None) \<and>
     (rs_snapshot_binding s = None \<or> rs_snapshot_receipt s \<noteq> None) \<and> rs_delegation_receipt s \<noteq> None \<and>
     (rs_system_skill s = None \<or> rs_system_receipt s \<noteq> None)"

text \<open>The receipt that must have been accepted before its confirmation counts.\<close>

fun confirmed_receipt :: "child_lifecycle \<Rightarrow> run_state \<Rightarrow> json option" where
  "confirmed_receipt LC_activation_confirmed s = rs_activation s"
| "confirmed_receipt LC_snapshot_confirmed s = rs_snapshot_receipt s"
| "confirmed_receipt LC_delegation_confirmed s = rs_delegation_receipt s"
| "confirmed_receipt LC_system_skill_confirmed s = rs_system_receipt s"
| "confirmed_receipt l s = None"

definition is_confirmation :: "child_lifecycle \<Rightarrow> bool" where
  "is_confirmation l \<longleftrightarrow> l \<in> set [LC_activation_confirmed, LC_snapshot_confirmed, LC_delegation_confirmed,
     LC_system_skill_confirmed]"

definition lifecycle_draft ::
  "life_env \<Rightarrow> string \<Rightarrow> child_lifecycle \<times> string \<times> json option \<Rightarrow> run_state \<Rightarrow> run_state option" where
  "lifecycle_draft env now = (\<lambda>(l, words, metadata) s.
     if is_confirmation l \<and> confirmed_receipt l s = None then None
     else if l = LC_prompt_submitted \<and> \<not> hasCompletePrePromptOwnerObservations s then None
     else Some (projectChildLifecycleEvent env l words now
       (case confirmed_receipt l s of Some r \<Rightarrow> Some (JObj [(''receipt'', r)]) | None \<Rightarrow> metadata) s))"

definition raw_output_draft :: "string \<Rightarrow> run_state \<Rightarrow> run_state" where
  "raw_output_draft now s =
     (let s1 = noteFirstPublicOutput now s;
          s2 = (if rs_phase s1 \<in> set [Phase_awaiting_child_event, Phase_running_silent]
            then setTaskPhase Phase_running now s1 else s1)
      in note_progress ''child output received'' now s2)"

definition public_output_phase :: "public_line \<Rightarrow> run_task_active_phase option" where
  "public_output_phase l =
     (if pl_event l = Some Ev_input_required then Some Phase_input_required
      else if pl_kind l \<in> set [Kind_assistant, Kind_warning, Kind_error] then Some Phase_running
      else if pl_event l = Some Ev_input_timed_out \<or> pl_event l = Some Ev_input_closed then Some Phase_running
      else None)"

definition public_output_progress :: "public_line \<Rightarrow> string option" where
  "public_output_progress l =
     (if pl_event l = Some Ev_input_required then Some ''input required''
      else if pl_event l = Some Ev_input_timed_out then Some ''input timed out''
      else if pl_event l = Some Ev_input_closed then Some ''input request closed'' else None)"

definition public_line_event :: "public_line \<Rightarrow> string \<Rightarrow> json" where
  "public_line_event l now = public_event (pl_kind l) (nullish (pl_event l) Ev_message) (pl_text l) now None"

definition public_output_draft :: "string \<Rightarrow> public_line \<Rightarrow> run_state \<Rightarrow> run_state" where
  "public_output_draft now l s =
     (let s1 = noteFirstPublicOutput now s;
          s2 = (case public_output_phase l of Some p \<Rightarrow> setTaskPhase p now s1 | None \<Rightarrow> s1);
          s3 = projectPublicEvent (public_line_event l now) s2
      in case public_output_progress l of Some m \<Rightarrow> note_progress m now s3 | None \<Rightarrow> s3)"

definition changes_inputs :: "public_line \<Rightarrow> bool" where
  "changes_inputs l \<longleftrightarrow> pl_event l \<in> Some ` set [Ev_input_required, Ev_input_timed_out, Ev_input_closed]"

definition output_line_draft ::
  "life_env \<Rightarrow> string \<Rightarrow> mailbox \<Rightarrow> string \<Rightarrow> run_state \<Rightarrow> run_state option result" where
  "output_line_draft env now m line s =
     (case childLifecycleFromProcessLine (le_rt env) line of
        Some lifecycle \<Rightarrow> Inr (lifecycle_draft env now lifecycle s)
      | None \<Rightarrow>
          (case publicOutputLineFromProcessLine (le_rt env) line of
             None \<Rightarrow>
               if blank line \<or> isProcessControlMarkerLine line \<or> eventObjectFromJsonLine (le_rt env) line \<noteq> None
               then Inr None else Inr (Some (raw_output_draft now s))
           | Some l \<Rightarrow>
               if pl_kind l = Kind_user then Inr None
               else if changes_inputs l
               then bind_result (listed_inputs m (rs_run_id s))
                 (\<lambda>inputs. Inr (Some (public_output_draft now l (s\<lparr>rs_inputs := inputs\<rparr>))))
               else Inr (Some (public_output_draft now l s))))"

definition observeOutputLine :: "string \<Rightarrow> life_env \<Rightarrow> moment \<Rightarrow> run_world \<Rightarrow> run_world \<times> json result" where
  "observeOutputLine line env t w =
     commitActiveRunTransition env t (output_line_draft env (at_text t) (rw_mailbox w) line) w"

section \<open>Closing and answering questions\<close>

definition closed_view :: "string \<Rightarrow> json \<Rightarrow> json" where
  "closed_view settledAt r = spread r (JObj
     [(''status'', JStr ''closed''), (''settled_at'', JStr settledAt), (''closed_at'', JStr settledAt)])"

definition planClosedInputRequests ::
  "json list \<Rightarrow> string \<Rightarrow> string \<Rightarrow> json list \<times> input_terminal_record list" where
  "planClosedInputRequests inputs settledAt reason =
     (let gone = map (\<lambda>r. \<lparr>it_request_id = text_or [] (jget r ''request_id''), it_status = Closed, it_settled_at = settledAt,
            it_response_id = None, it_receipt = None, it_reason = Some reason\<rparr>) (filter pending_request inputs);
          ids = map it_request_id gone
      in (map (\<lambda>r. if text_or [] (jget r ''request_id'') \<in> set ids then closed_view settledAt r else r) inputs, gone))"

definition input_closed_event :: "input_terminal_record \<Rightarrow> json" where
  "input_closed_event c = public_event Kind_input Ev_input_closed (''[input_closed] '' @ it_request_id c)
     (it_settled_at c) (Some (JObj [(''request_id'', JStr (it_request_id c)), (''status'', JStr ''closed'')]))"

definition appendClosedInputEvents :: "input_terminal_record list \<Rightarrow> run_state \<Rightarrow> run_state" where
  "appendClosedInputEvents gone s = fold (\<lambda>c. projectStatusEvent (input_closed_event c) ''input request closed'') gone s"

definition cancellation_event :: "string \<Rightarrow> json" where
  "cancellation_event at_time =
     public_event Kind_terminal Ev_cancellation_requested ''[cancellation_requested] cancellation requested'' at_time None"

definition cancel_draft :: "string \<Rightarrow> run_state \<Rightarrow> run_state" where
  "cancel_draft now s =
     (let s1 = setTaskPhase Phase_cancelling now (s\<lparr>rs_cancel_requested := True\<rparr>);
          s2 = projectStatusEvent (cancellation_event now) ''cancellation requested'' s1;
          (inputs, gone) = planClosedInputRequests (rs_inputs s2) now ''run cancelled''
      in appendClosedInputEvents gone (s2\<lparr>rs_inputs := inputs\<rparr>))"

text \<open>The deliveries that wait are rejected; the draft drops them.\<close>

definition acceptRunCancellation :: "life_env \<Rightarrow> moment \<Rightarrow> run_world \<Rightarrow> run_world \<times> (json \<times> string option) result" where
  "acceptRunCancellation env t w =
     (let s = rw_state w in
      if \<not> rw_listed w then (w, Inl (taskNotFound (rs_run_id s)))
      else if inactive s \<or> rs_cancel_requested s then (w, Inr (state_view env t s (rs_inputs s), None))
      else
        (let draft = cancel_draft (at_text t) s in
         case persist_draft env t False draft (rw_dir w) of
           Inl e \<Rightarrow> (w, Inl e)
         | Inr (dir, committed) \<Rightarrow>
             ((publish (draft\<lparr>rs_deliveries := []\<rparr>) w)\<lparr>rw_dir := dir\<rparr>, Inr (committed, Some (at_text t)))))"

definition cancelResidentRun :: "life_env \<Rightarrow> moment \<Rightarrow> run_world \<Rightarrow> run_world \<times> json result" where
  "cancelResidentRun env t w =
     (case acceptRunCancellation env t w of
        (w', Inl e) \<Rightarrow> (w', Inl e)
      | (w', Inr (view, None)) \<Rightarrow> (w', Inr view)
      | (w', Inr (view, Some cancelledAt)) \<Rightarrow>
          (case closePendingInputRequestsForRun (rw_mailbox w') (rs_run_id (rw_state w')) (Some ''run cancelled'') cancelledAt of
             (m, Inl e) \<Rightarrow> (w'\<lparr>rw_mailbox := m\<rparr>, Inl e)
           | (m, Inr _) \<Rightarrow> (w'\<lparr>rw_mailbox := m\<rparr>, Inr view)))"

definition live_input_response_domain :: string where
  "live_input_response_domain = ''subagent007.live_input_response.v1'' @ newline"

definition inputAnswerSha256 :: "js_runtime \<Rightarrow> string \<Rightarrow> string" where
  "inputAnswerSha256 rt answer = ownerRecordDigest rt live_input_response_domain answer"

definition answered_view :: "string \<Rightarrow> json \<Rightarrow> json" where
  "answered_view settledAt r = spread r (JObj
     [(''status'', JStr ''answered''), (''settled_at'', JStr settledAt), (''answered_at'', JStr settledAt)])"

definition recordAnsweredInput :: "string \<Rightarrow> string \<Rightarrow> string \<Rightarrow> run_state \<Rightarrow> run_state" where
  "recordAnsweredInput requestId responseId now s =
     (let inputs = map (\<lambda>r. if has_text r ''request_id'' requestId then answered_view now r else r) (rs_inputs s);
          s1 = s\<lparr>rs_inputs := inputs\<rparr>;
          s2 = setTaskPhase (if list_ex pending_request inputs then Phase_input_required else Phase_running) now s1
      in projectStatusEvent (public_event Kind_input Ev_input_answered (''[input_answered] '' @ requestId) now
           (Some (JObj [(''request_id'', JStr requestId), (''response_id'', JStr responseId), (''status'', JStr ''answered'')])))
           ''input answered'' s2)"

definition drop_delivery :: "string \<Rightarrow> run_state \<Rightarrow> run_state" where
  "drop_delivery requestId s = s\<lparr>rs_deliveries := filter (\<lambda>(k, _). k \<noteq> requestId) (rs_deliveries s)\<rparr>"

definition accepted_draft :: "js_runtime \<Rightarrow> string \<Rightarrow> pending_delivery \<Rightarrow> string \<Rightarrow> run_state \<Rightarrow> run_state" where
  "accepted_draft rt requestId d now s =
     recordAnsweredInput requestId (pd_response_id d) now
       ((drop_delivery requestId s)\<lparr>rs_accepted := (requestId, \<lparr>ar_response_id = pd_response_id d,
          ar_answer_sha256 = inputAnswerSha256 rt (pd_answer d), ar_receipt = pd_receipt d\<rparr>) #
            filter (\<lambda>(k, _). k \<noteq> requestId) (rs_accepted s)\<rparr>)"

definition run_not_accepting :: "run_state \<Rightarrow> js_error" where
  "run_not_accepting s = ValidationError (''run is not accepting input: '' @ rs_run_id s) Rc_run_not_accepting_input"

text \<open>The child acknowledges a delivered answer; \<open>Inr None\<close> when the delivery is not known.\<close>

definition settleChildAcceptedInputResponse ::
  "string \<Rightarrow> string \<Rightarrow> life_env \<Rightarrow> moment \<Rightarrow> run_world \<Rightarrow> run_world \<times> json option result" where
  "settleChildAcceptedInputResponse requestId responseId env t w =
     (let s = rw_state w; dropped = w\<lparr>rw_state := drop_delivery requestId s\<rparr> in
      case map_of (rs_deliveries s) requestId of
        None \<Rightarrow> (w, Inr None)
      | Some d \<Rightarrow>
          if pd_response_id d \<noteq> responseId then (w, Inr None)
          else if rs_cancel_requested s \<or> rs_terminalizing s then (dropped, Inl (run_not_accepting s))
          else
            (case settleInputResponse (rw_mailbox w) requestId responseId (pd_receipt d) (at_text t) of
               (m, Inl e) \<Rightarrow> (dropped\<lparr>rw_mailbox := m\<rparr>, Inl e)
             | (m, Inr _) \<Rightarrow>
                 (let draft = accepted_draft (le_rt env) requestId d (at_text t) s in
                  case persist_draft env t False draft (rw_dir w) of
                    Inl e \<Rightarrow> (dropped\<lparr>rw_mailbox := m\<rparr>, Inl e)
                  | Inr (dir, committed) \<Rightarrow>
                      ((publish draft w)\<lparr>rw_dir := dir, rw_mailbox := m\<rparr>, Inr (Some committed)))))"

text \<open>The caller's side: an answer that was accepted is replayed, one that is under way is joined, and a new
  one is sent to the child. \<open>receipt\<close> is the fresh receipt, \<open>sent\<close> what the control channel answers.\<close>

datatype answer_step =
    Answer_replayed (as_view: json) (as_response: string) (as_receipt: string)
  | Answer_delivering pending_delivery

definition request_closed_error :: "string \<Rightarrow> string \<Rightarrow> js_error" where
  "request_closed_error requestId st =
     (if st = ''closed'' then ValidationError (''input request is already closed: '' @ requestId) Rc_input_request_already_closed
      else if st = ''timed_out''
      then ValidationError (''input request is already timed out: '' @ requestId) Rc_input_request_already_timed_out
      else ValidationError (''input request is already answered: '' @ requestId) Rc_input_request_already_answered)"

definition already_answered :: "string \<Rightarrow> js_error" where
  "already_answered requestId =
     ValidationError (''input request is already answered: '' @ requestId) Rc_input_request_already_answered"

definition response_conflict :: "string \<Rightarrow> js_error" where
  "response_conflict responseId =
     ValidationError (''response_id conflicts with its prior input: '' @ responseId) Rc_input_response_id_conflict"

definition validate_answer :: "json \<Rightarrow> string \<Rightarrow> unit result" where
  "validate_answer r answer =
     (if blank answer then generic_validation ''answer must be a nonempty string''
      else if (case jget r ''max_answer_chars'' of Some (JNum x) \<Rightarrow> x < of_nat (length answer) | _ \<Rightarrow> False)
      then generic_validation ''answer exceeds max_answer_chars''
      else if char_of (0 :: nat) \<in> set answer then generic_validation ''answer cannot contain NUL''
      else if \<not> truthy (jget r ''freeform'') \<and> JStr answer \<notin> set (elements (jget r ''option_ids''))
      then generic_validation ''answer must be a declared option id''
      else Inr ())"

definition start_delivery ::
  "string \<Rightarrow> string \<Rightarrow> string \<Rightarrow> string \<Rightarrow> bool \<Rightarrow> run_state \<Rightarrow> run_state \<times> answer_step result" where
  "start_delivery requestId responseId answer receipt sent s =
     (case find (\<lambda>r. has_text r ''request_id'' requestId) (rs_inputs s) of
        None \<Rightarrow> (s, Inl (ValidationError (''input request is not part of run '' @ rs_run_id s @ '': '' @ requestId)
                  Rc_input_request_not_part_of_run))
      | Some r \<Rightarrow>
          if \<not> pending_request r then (s, Inl (request_closed_error requestId (text_or [] (jget r ''status''))))
          else if rs_cancel_requested s \<or> rs_terminalizing s \<or> rs_result s \<noteq> None \<or> rs_error s \<noteq> None
          then (s, Inl (run_not_accepting s))
          else (case validate_answer r answer of
              Inl e \<Rightarrow> (s, Inl e)
            | Inr _ \<Rightarrow>
                if \<not> rs_control s then (s, Inl (run_not_accepting s))
                else (let d = \<lparr>pd_response_id = responseId, pd_answer = answer, pd_receipt = receipt\<rparr> in
                  if sent then (s\<lparr>rs_deliveries := (requestId, d) # rs_deliveries s\<rparr>, Inr (Answer_delivering d))
                  else (s, Inl (run_not_accepting s)))))"

definition answerRunTaskInput ::
  "string \<Rightarrow> string \<Rightarrow> string \<Rightarrow> string \<Rightarrow> bool \<Rightarrow> life_env \<Rightarrow> moment \<Rightarrow> run_world \<Rightarrow> run_world \<times> answer_step result" where
  "answerRunTaskInput requestId given answer receipt sent env t w =
     (let responseId = js_trim given; s = rw_state w; fail = (\<lambda>e. (w, Inl e)) in
      if responseId = [] then fail (ValidationError ''response_id must be a nonempty string'' Rc_unknown_validation_error)
      else if \<not> rw_listed w then fail (taskNotFound (rs_run_id s))
      else case map_of (rs_accepted s) requestId of
        Some a \<Rightarrow>
          if ar_response_id a \<noteq> responseId then fail (already_answered requestId)
          else if ar_answer_sha256 a \<noteq> inputAnswerSha256 (le_rt env) answer then fail (response_conflict responseId)
          else (w, Inr (Answer_replayed (state_view env t s (rs_inputs s)) responseId (ar_receipt a)))
      | None \<Rightarrow>
          (case map_of (rs_deliveries s) requestId of
             Some d \<Rightarrow>
               if pd_response_id d = responseId \<and> pd_answer d = answer then (w, Inr (Answer_delivering d))
               else if pd_response_id d = responseId then fail (response_conflict responseId)
               else fail (already_answered requestId)
           | None \<Rightarrow>
               (let (s', out) = start_delivery requestId responseId answer receipt sent s in (w\<lparr>rw_state := s'\<rparr>, out))))"

section \<open>Registration\<close>

text \<open>What a request binds, and the events that a run starts with.\<close>

definition bindRequestToRunTaskState :: "json \<Rightarrow> run_state \<Rightarrow> run_state" where
  "bindRequestToRunTaskState request s =
     (let given = (\<lambda>f old. if jget request f \<noteq> None then text_of (jget request f) else old) in
      s\<lparr>rs_cwd := text_of (jget request ''cwd''), rs_effect_profile := given ''effect_profile'' (rs_effect_profile s),
        rs_expected_sha := given ''expected_skill_sha256'' (rs_expected_sha s),
        rs_snapshot_binding := (if jget request ''skill_snapshot_binding'' \<noteq> None
          then jget request ''skill_snapshot_binding'' else rs_snapshot_binding s),
        rs_delegation := given ''recursive_delegation'' (rs_delegation s),
        rs_system_skill := given ''system_skill_name'' (rs_system_skill s),
        rs_scope := given ''specialist_catalogue_scope'' (rs_scope s)\<rparr>)"

definition public_prompt_redacted_marker :: string where
  "public_prompt_redacted_marker = ''[prompt supplied; content redacted]''"

definition serverContractSkillMarker :: "string \<Rightarrow> string" where
  "serverContractSkillMarker skill = ''[server_contract] skill_name='' @ skill"

definition serverContractPacketMarker :: "string \<Rightarrow> string" where
  "serverContractPacketMarker policy =
     ''[server_contract] packet_policy='' @ policy @ '' contract_packet_v1 instruction applied''"

definition marked_skill :: "json \<Rightarrow> string option" where
  "marked_skill request = skillBindingForPublicMarker (jget request ''skill_name'')"

definition run_started_event :: "json \<Rightarrow> run_state \<Rightarrow> json" where
  "run_started_event request s = public_event Kind_task Ev_run_started
     (''[run_started] '' @ rs_task_kind s @ '' '' @ rs_run_id s) (rs_started_at s)
     (Some (JObj ([(''task_kind'', JStr (rs_task_kind s))] @ text_field ''cwd'' (text_of (jget request ''cwd'')) @
        text_field ''tool'' (rs_tool s))))"

definition appendRunStartedEvent :: "json \<Rightarrow> run_state \<Rightarrow> run_state" where
  "appendRunStartedEvent request s =
     (let s1 = projectStatusEvent (run_started_event request s) default_heartbeat_message s;
          s2 = (if nonempty_string (jget request ''prompt'')
            then projectPublicEvent (public_event Kind_user Ev_message
              (''[user]'' @ newline @ public_prompt_redacted_marker) (rs_started_at s) None) s1
            else s1);
          s3 = (case marked_skill request of
              Some n \<Rightarrow> projectPublicEvent (public_event Kind_task Ev_message (serverContractSkillMarker n) (rs_started_at s) None) s2
            | None \<Rightarrow> s2)
      in case text_of (jget request ''packet_policy'') of
           Some policy \<Rightarrow>
             if policy = [] \<or> policy = ''none'' then s3
             else projectPublicEvent (public_event Kind_packet Ev_message (serverContractPacketMarker policy)
               (rs_started_at s) None) s3
         | None \<Rightarrow> s3)"

text \<open>The run is listed before its first write; if that fails, it stays listed. A record that exists
  already, of a prepared start, is only compared.\<close>

definition registerRunTaskState :: "json \<Rightarrow> life_env \<Rightarrow> moment \<Rightarrow> run_world \<Rightarrow> run_world \<times> unit result" where
  "registerRunTaskState request env t w =
     (case ensureClaimDeclarations (le_rt env) request (rw_state w) of
        Inl e \<Rightarrow> (w, Inl e)
      | Inr declared \<Rightarrow>
          (let s = bindRequestToRunTaskState request declared; w1 = w\<lparr>rw_state := s, rw_listed := True\<rparr>;
               draft = appendRunStartedEvent request s; view = state_view env t draft (rs_inputs draft);
               name = taskRecordPath (rs_run_id s)
           in case (case readRunOwnerRecordFile (le_rt env) (rw_dir w) name of
               Inl e \<Rightarrow> if is_enoent e then Inr None else Inl e | Inr r \<Rightarrow> Inr r) of
             Inl e \<Rightarrow> (w1, Inl e)
           | Inr (Some record) \<Rightarrow>
               (case bind_result (assertOwnerViewTransition (le_rt env) (Some (currentRunClaimView record)) (runClaimSnapshot view))
                   (\<lambda>_. bind_result (runClaimPersistenceEvidence draft) (\<lambda>ev.
                     bind_result (ownerRecordForSnapshot (le_rt env) view (Some record) ev) (assertRunOwnerRecord (le_rt env)))) of
                  Inl e \<Rightarrow> (w1, Inl e)
                | Inr _ \<Rightarrow> (publish draft w1, Inr ()))
           | Inr None \<Rightarrow>
               (case commit_draft env t draft w1 of (w2, Inl e) \<Rightarrow> (w2, Inl e) | (w2, Inr _) \<Rightarrow> (w2, Inr ()))))"

section \<open>Lineage\<close>

definition add_last :: "string \<Rightarrow> string list \<Rightarrow> string list" where
  "add_last x xs = (if x \<in> set xs then xs else xs @ [x])"

definition lineage_draft :: "string \<Rightarrow> bool \<Rightarrow> run_state \<Rightarrow> run_state option result" where
  "lineage_draft child direct s =
     (let children = (if direct then add_last child (rs_children s) else rs_children s);
          descendants = add_last child (rs_descendants s)
      in if children = rs_children s \<and> descendants = rs_descendants s then Inr None
         else Inr (Some (s\<lparr>rs_children := children, rs_descendants := descendants\<rparr>)))"

definition recordParentChildLineage :: "string \<Rightarrow> bool \<Rightarrow> life_env \<Rightarrow> moment \<Rightarrow> run_world \<Rightarrow> run_world \<times> json option result" where
  "recordParentChildLineage child direct env = durable (when_active (lineage_draft child direct)) env"

definition put_status :: "string \<Rightarrow> run_status \<Rightarrow> (string \<times> run_status) list \<Rightarrow> (string \<times> run_status) list" where
  "put_status child st m =
     (if map_of m child = None then m @ [(child, st)] else map (\<lambda>(k, v). (k, if k = child then st else v)) m)"

definition descendant_draft :: "string \<Rightarrow> run_status \<Rightarrow> run_state \<Rightarrow> run_state option result" where
  "descendant_draft child st s =
     (if map_of (rs_descendant_statuses s) child = Some st then Inr None
      else Inr (Some (s\<lparr>rs_descendant_statuses := put_status child st (rs_descendant_statuses s)\<rparr>)))"

definition recordDescendantTerminalLineage ::
  "string \<Rightarrow> run_status \<Rightarrow> life_env \<Rightarrow> moment \<Rightarrow> run_world \<Rightarrow> run_world \<times> json option result" where
  "recordDescendantTerminalLineage child st env = durable (when_active (descendant_draft child st)) env"

definition terminalStatusForRecursiveChild :: "run_state \<Rightarrow> run_status" where
  "terminalStatusForRecursiveChild s =
     (case rs_result s of Some r \<Rightarrow> terminalRunTaskStatus (result_status_input r)
      | None \<Rightarrow> if rs_cancel_requested s then Cancelled else Failed)"

definition recursiveChildMetadata :: "run_state \<Rightarrow> (string \<times> json) list" where
  "recursiveChildMetadata c =
     [(''child_run_id'', JStr (rs_run_id c))] @ text_field ''parent_run_id'' (rs_parent c) @
     [(''root_run_id'', JStr (rs_root c)), (''recursion_depth'', JNum (of_nat (rs_depth c)))]"

definition appendParentRecursiveChildEvent ::
  "json \<Rightarrow> string \<Rightarrow> life_env \<Rightarrow> moment \<Rightarrow> run_world \<Rightarrow> run_world \<times> json result" where
  "appendParentRecursiveChildEvent event message env t =
     commitActiveRunTransition env t (\<lambda>s. Inr (Some (projectStatusEvent event message s)))"

definition child_started_event :: "run_state \<Rightarrow> string \<Rightarrow> json" where
  "child_started_event c now = public_event Kind_task Ev_recursive_child_started
     (''[recursive_child_started] child run '' @ rs_run_id c) now (Some (JObj (recursiveChildMetadata c)))"

definition child_finished_event :: "run_state \<Rightarrow> string \<Rightarrow> json" where
  "child_finished_event c now =
     (let st = status_text (terminalStatusForRecursiveChild c) in
      public_event Kind_task Ev_recursive_child_finished
        (''[recursive_child_finished] child run '' @ rs_run_id c @ '' status='' @ st) (nullish (rs_finished_at c) now)
        (Some (JObj (recursiveChildMetadata c @ [(''status'', JStr st),
          (''success'', case rs_result c of Some r \<Rightarrow> nullish (jget r ''success'') (JBool False) | None \<Rightarrow> JBool False)]))))"

text \<open>Who may delegate: an active parent whose lineage is the caller's, with delegation enabled.\<close>

record caller_lineage =
  cl_parent :: string
  cl_root :: string
  cl_depth :: nat

definition activeRecursiveCaller :: "(string \<times> run_state) list \<Rightarrow> caller_lineage \<Rightarrow> run_state result" where
  "activeRecursiveCaller tasks c =
     (case map_of tasks (cl_parent c) of
        None \<Rightarrow> Inl (ValidationError (''recursive caller parent run is not active: '' @ cl_parent c) Rc_recursive_control_invalid)
      | Some p \<Rightarrow>
          if inactive p
          then Inl (ValidationError (''recursive caller parent run is not active: '' @ cl_parent c) Rc_recursive_control_invalid)
          else if rs_root p \<noteq> cl_root c \<or> rs_depth p \<noteq> cl_depth c \<or> rs_delegation p \<noteq> Some ''enabled''
          then Inl (ValidationError ''recursive caller lineage does not match the active parent run'' Rc_recursive_control_invalid)
          else Inr p)"

definition governingModelClassForRecursiveDelegate :: "(string \<times> run_state) list \<Rightarrow> caller_lineage \<Rightarrow> string option result" where
  "governingModelClassForRecursiveDelegate tasks c = bind_result (activeRecursiveCaller tasks c) (\<lambda>p. Inr (rs_governing p))"

definition lineageForRecursiveDelegate :: "(string \<times> run_state) list \<Rightarrow> caller_lineage \<Rightarrow> task_lineage result" where
  "lineageForRecursiveDelegate tasks c = bind_result (activeRecursiveCaller tasks c) (\<lambda>p.
     Inr \<lparr>tl_parent = Some (rs_run_id p), tl_root = Some (rs_root p), tl_depth = Some (rs_depth p + 1)\<rparr>)"

definition rejoin_allowed :: "(string \<times> run_state) list \<Rightarrow> caller_lineage \<Rightarrow> string \<Rightarrow> unit result" where
  "rejoin_allowed tasks c descendant = bind_result (activeRecursiveCaller tasks c) (\<lambda>p.
     if blank descendant \<or> descendant \<notin> set (rs_descendants p)
     then Inl (ValidationError ''recursive rejoin run_id is not a descendant of the active caller'' Rc_recursive_control_invalid)
     else Inr ())"

end
