(* ===== verification/Resident_Run.thy ===== *)
theory Resident_Run
  imports Run_Transitions "HOL-Library.Option_ord"
begin

text \<open>
  What the transitions of \<open>Run_Transitions\<close> keep. \<open>state_grows\<close> is the order in which a resident run only
  moves up: identity, cancellation, spawn, receipts, lineage and accepted answers are never lost. A locale
  states what makes a field of the state a receipt, once for the four receipts and the pending outputs. The
  durable transitions are atomic: they change state and record together or not at all.
\<close>

section \<open>Operations\<close>

datatype receipt_kind = Receipt_activation | Receipt_snapshot | Receipt_system_skill | Receipt_delegation

datatype run_op =
    Op_register json
  | Op_queue string
  | Op_heartbeat int "string option"
  | Op_line string
  | Op_prepare
  | Op_stage string
  | Op_grant launch_input
  | Op_spawn string
  | Op_receipt receipt_kind json
  | Op_pending json
  | Op_clear json
  | Op_lineage string bool
  | Op_descendant string run_status
  | Op_parent_event json string
  | Op_cancel
  | Op_answer string string string string bool
  | Op_acknowledge string string

fun accept_kind :: "receipt_kind \<Rightarrow> json \<Rightarrow> life_env \<Rightarrow> moment \<Rightarrow> run_world \<Rightarrow> run_world \<times> json option result" where
  "accept_kind Receipt_activation = acceptActivationReceipt"
| "accept_kind Receipt_snapshot = acceptSkillSnapshotActivationReceipt"
| "accept_kind Receipt_system_skill = acceptSystemSkillActivationReceipt"
| "accept_kind Receipt_delegation = acceptRecursiveDelegationReceipt"

fun perform :: "life_env \<Rightarrow> moment \<times> run_op \<Rightarrow> run_world \<Rightarrow> run_world" where
  "perform env (t, Op_register request) w = fst (registerRunTaskState request env t w)"
| "perform env (t, Op_queue queuedAt) w = fst (queueRun queuedAt env t w)"
| "perform env (t, Op_heartbeat beat message) w = fst (handleTaskHeartbeat beat message env t w)"
| "perform env (t, Op_line line) w = fst (observeOutputLine line env t w)"
| "perform env (t, Op_prepare) w = fst (prepareChildRun env t w)"
| "perform env (t, Op_stage path) w = fst (stage_transcript path env t w)"
| "perform env (t, Op_grant i) w = fst (grantRunClaimFromLaunchObservation i env t w)"
| "perform env (t, Op_spawn at_time) w = fst (commitChildSpawnTransition at_time env t w)"
| "perform env (t, Op_receipt k r) w = fst (accept_kind k r env t w)"
| "perform env (t, Op_pending ownership) w = fst (acceptPendingTerminalOutputs ownership env t w)"
| "perform env (t, Op_clear ownership) w = fst (clearPendingTerminalOutputs ownership env t w)"
| "perform env (t, Op_lineage child direct) w = fst (recordParentChildLineage child direct env t w)"
| "perform env (t, Op_descendant child st) w = fst (recordDescendantTerminalLineage child st env t w)"
| "perform env (t, Op_parent_event event message) w = fst (appendParentRecursiveChildEvent event message env t w)"
| "perform env (t, Op_cancel) w = fst (cancelResidentRun env t w)"
| "perform env (t, Op_answer requestId given answer receipt sent) w =
     fst (answerRunTaskInput requestId given answer receipt sent env t w)"
| "perform env (t, Op_acknowledge requestId responseId) w =
     fst (settleChildAcceptedInputResponse requestId responseId env t w)"

section \<open>The order on states\<close>

definition kept :: "'a option \<Rightarrow> 'a option \<Rightarrow> bool" where
  "kept a b \<longleftrightarrow> a = None \<or> b = a"

lemma kept_simps [simp]: "kept None b" "kept a a" "kept (Some x) b \<longleftrightarrow> b = Some x"
  by (auto simp: kept_def)

lemma kept_value_trans [trans]: "kept a b \<Longrightarrow> kept b c \<Longrightarrow> kept a c"
  by (auto simp: kept_def)

definition state_grows :: "run_state \<Rightarrow> run_state \<Rightarrow> bool" where
  "state_grows s s' \<longleftrightarrow>
     rs_run_id s' = rs_run_id s \<and> rs_started_at s' = rs_started_at s \<and> rs_task_kind s' = rs_task_kind s \<and>
     rs_parent s' = rs_parent s \<and> rs_root s' = rs_root s \<and> rs_depth s' = rs_depth s \<and>
     (rs_declarations s \<noteq> None \<longrightarrow> rs_declarations s' \<noteq> None) \<and>
     (rs_cancel_requested s \<longrightarrow> rs_cancel_requested s') \<and> (rs_child_started s \<longrightarrow> rs_child_started s') \<and>
     rs_heartbeat s \<le> rs_heartbeat s' \<and> rs_lifecycle s \<le> rs_lifecycle s' \<and>
     kept (rs_first_output_at s) (rs_first_output_at s') \<and> kept (rs_activation s) (rs_activation s') \<and>
     kept (rs_snapshot_receipt s) (rs_snapshot_receipt s') \<and> kept (rs_system_receipt s) (rs_system_receipt s') \<and>
     kept (rs_delegation_receipt s) (rs_delegation_receipt s') \<and>
     set (rs_children s) \<subseteq> set (rs_children s') \<and> set (rs_descendants s) \<subseteq> set (rs_descendants s') \<and>
     (\<forall>k. kept (map_of (rs_accepted s) k) (map_of (rs_accepted s') k)) \<and>
     (rs_launch s \<noteq> None \<longrightarrow> rs_launch s' \<noteq> None)"

lemma grows_refl [simp, intro]: "state_grows s s"
  by (simp add: state_grows_def)

lemma grows_trans [trans]: "state_grows a b \<Longrightarrow> state_grows b c \<Longrightarrow> state_grows a c"
  unfolding state_grows_def
  apply (elim conjE, intro conjI allI)
                     apply ((erule trans, assumption)+)[6]
               apply ((rule impI, drule (1) mp, drule (1) mp, assumption)+)[3]
            apply ((erule order_trans, assumption)+)[2]
          apply ((erule kept_value_trans, assumption)+)[5]
     apply ((erule subset_trans, assumption)+)[2]
   apply (erule allE, erule allE, erule kept_value_trans, assumption)
  apply (rule impI, drule (1) mp, drule (1) mp, assumption)
  done

text \<open>The setters and projections that every transition is made of.\<close>

named_theorems grows

lemma grows_progress [grows]: "rs_heartbeat s \<le> beat \<Longrightarrow> state_grows s (setTaskProgress m beat t s)"
  by (simp add: setTaskProgress_def state_grows_def)

lemma grows_phase [grows]: "state_grows s (setTaskPhase p t s)"
  by (simp add: setTaskPhase_def state_grows_def)

lemma grows_first_output [grows]: "state_grows s (noteFirstPublicOutput t s)"
  by (simp add: noteFirstPublicOutput_def state_grows_def)

lemma grows_public_event [grows]: "state_grows s (projectPublicEvent e s)"
  by (simp add: projectPublicEvent_def Let_def state_grows_def)

lemma grows_status_event [grows]: "state_grows s (projectStatusEvent e m s)"
  unfolding projectStatusEvent_def
  by (rule grows_trans[OF grows_public_event]) (rule grows_progress, rule order_refl)

lemma grows_closed_events [grows]: "state_grows s (appendClosedInputEvents gone s)"
  unfolding appendClosedInputEvents_def
  by (induction gone arbitrary: s) (auto intro: grows_trans grows_status_event)

lemma grows_lifecycle:
  "lb_lifecycle b = rs_lifecycle s \<Longrightarrow> state_grows s (projectWrittenChildLifecycleEvent env e l t b s)"
  by (auto simp: projectWrittenChildLifecycleEvent_def Let_def state_grows_def canProjectWrittenChildLifecycleEvent_def
      childLifecycleGenerationPrecedes_def split: option.splits)

lemma grows_lifecycle_event [grows]: "state_grows s (projectChildLifecycleEvent env l w t m s)"
  by (simp add: projectChildLifecycleEvent_def grows_lifecycle childLifecycleProjectionBaseline_def)

section \<open>Drafts that grow\<close>

definition draft_grows :: "(run_state \<Rightarrow> run_state option result) \<Rightarrow> bool" where
  "draft_grows f \<longleftrightarrow> (\<forall>s s'. f s = Inr (Some s') \<longrightarrow> state_grows s s')"

lemma draft_growsI: "(\<And>s s'. f s = Inr (Some s') \<Longrightarrow> state_grows s s') \<Longrightarrow> draft_grows f"
  by (simp add: draft_grows_def)

lemma draft_growsD: "draft_grows f \<Longrightarrow> f s = Inr (Some s') \<Longrightarrow> state_grows s s'"
  by (simp add: draft_grows_def)

lemma published: "state_grows s draft \<Longrightarrow> state_grows s (publishRunTaskTransitionState s draft)"
  by (simp add: publishRunTaskTransitionState_def state_grows_def)

lemma active_grows:
  "draft_grows f \<Longrightarrow> state_grows (rw_state w) (rw_state (fst (commitActiveRunTransition env t f w)))"
  by (auto simp: commitActiveRunTransition_def Let_def publish_def split: sum.split option.split
      intro: published dest: draft_growsD)

lemma commit_grows:
  "state_grows (rw_state w) draft \<Longrightarrow> state_grows (rw_state w) (rw_state (fst (commit_draft env t draft w)))"
  by (auto simp: commit_draft_def publish_def split: sum.split intro: published)

lemma durable_grows: "draft_grows f \<Longrightarrow> state_grows (rw_state w) (rw_state (fst (durable f env t w)))"
  by (auto simp: durable_def split: sum.split option.split intro: commit_grows dest: draft_growsD)

lemma when_active_grows: "draft_grows f \<Longrightarrow> draft_grows (when_active f)"
  by (simp add: draft_grows_def when_active_def)

section \<open>Receipts\<close>

text \<open>What makes a field of the state a slot for a receipt, and what makes it one that is never emptied.\<close>

locale receipt_slot =
  fixes get :: "run_state \<Rightarrow> json option"
    and put :: "json option \<Rightarrow> run_state \<Rightarrow> run_state"
  assumes get_put: "get (put v s) = v"
    and put_grows: "get s = None \<Longrightarrow> state_grows s (put v s)"
begin

lemma accept_grows: "draft_grows (accept_receipt rt get put conflict r)"
  by (rule draft_growsI) (auto simp: accept_receipt_def invalidOwnerRecord_def put_grows split: option.splits if_splits)

lemma accept_fills: "accept_receipt rt get put conflict r s = Inr (Some s') \<Longrightarrow> get s = None \<and> get s' = Some r"
  by (auto simp: accept_receipt_def invalidOwnerRecord_def get_put split: option.splits if_splits)

lemma accept_conflict:
  assumes "get s = Some old" and "\<not> sameCanonicalOwnerJson (rt_num rt) (Some old) (Some r)"
  shows "accept_receipt rt get put conflict r s = invalidOwnerRecord conflict"
  using assms by (simp add: accept_receipt_def)

end

locale write_once_receipt = receipt_slot +
  assumes get_kept: "state_grows s s' \<Longrightarrow> kept (get s) (get s')"
begin

text \<open>Once filled, the slot holds the same receipt whatever happens, so a conflicting one stays refused.\<close>

lemma conflict_stays:
  assumes "get s = Some old" and "\<not> sameCanonicalOwnerJson (rt_num rt) (Some old) (Some r)" and "state_grows s s'"
  shows "accept_receipt rt get put conflict r s' = invalidOwnerRecord conflict"
  using get_kept[OF assms(3)] assms(1,2) by (intro accept_conflict) auto

end

interpretation activation_slot: write_once_receipt rs_activation "\<lambda>v. rs_activation_update (\<lambda>_. v)"
  by unfold_locales (auto simp: state_grows_def)

interpretation snapshot_slot: write_once_receipt rs_snapshot_receipt "\<lambda>v. rs_snapshot_receipt_update (\<lambda>_. v)"
  by unfold_locales (auto simp: state_grows_def)

interpretation system_slot: write_once_receipt rs_system_receipt "\<lambda>v. rs_system_receipt_update (\<lambda>_. v)"
  by unfold_locales (auto simp: state_grows_def)

interpretation delegation_slot: write_once_receipt rs_delegation_receipt "\<lambda>v. rs_delegation_receipt_update (\<lambda>_. v)"
  by unfold_locales (auto simp: state_grows_def)

interpretation outputs_slot: receipt_slot rs_pending_outputs "\<lambda>v. rs_pending_outputs_update (\<lambda>_. v)"
  by unfold_locales (auto simp: state_grows_def)

section \<open>Every operation grows\<close>

lemma grows_heartbeat [grows]: "draft_grows (heartbeat_draft beat m now)"
proof (rule draft_growsI)
  fix s s' assume "heartbeat_draft beat m now s = Inr (Some s')"
  then have beat: "rs_heartbeat s < beat" and
    s': "s' = setTaskProgress (heartbeat_message m s) beat now
      (if rs_phase s \<notin> set [Phase_awaiting_child_event, Phase_running_silent] then s
       else setTaskPhase (if rs_first_output_at s = None then Phase_running_silent else Phase_running) now s)"
    by (auto simp: heartbeat_draft_def Let_def invalidOwnerRecord_def split: if_splits)
  have same: "rs_heartbeat (setTaskPhase p now s) = rs_heartbeat s" for p by (simp add: setTaskPhase_def)
  show "state_grows s s'"
    unfolding s' using beat by (auto simp: same intro!: grows_trans[OF grows_phase grows_progress] grows_progress)
qed

lemma grows_note [grows]: "state_grows s (note_progress m t s)"
  by (rule grows_progress) (rule order_refl)

lemma grows_public_output [grows]: "state_grows s (public_output_draft now l s)"
proof -
  let ?s1 = "noteFirstPublicOutput now s"
  let ?s2 = "case public_output_phase l of Some p \<Rightarrow> setTaskPhase p now ?s1 | None \<Rightarrow> ?s1"
  let ?s3 = "projectPublicEvent (public_line_event l now) ?s2"
  have "state_grows s ?s1" by (rule grows)
  also have "state_grows ?s1 ?s2" by (simp split: option.split add: grows_phase)
  also have "state_grows ?s2 ?s3" by (rule grows)
  also have "state_grows ?s3 (public_output_draft now l s)"
    unfolding public_output_draft_def Let_def by (cases "public_output_progress l") (simp_all add: grows_note)
  finally show ?thesis .
qed

lemma grows_raw_output [grows]: "state_grows s (raw_output_draft now s)"
proof -
  let ?s1 = "noteFirstPublicOutput now s"
  let ?s2 = "if rs_phase ?s1 \<in> set [Phase_awaiting_child_event, Phase_running_silent]
    then setTaskPhase Phase_running now ?s1 else ?s1"
  have "state_grows s ?s1" by (rule grows)
  also have "state_grows ?s1 ?s2" using grows_phase by simp
  also have "state_grows ?s2 (raw_output_draft now s)" unfolding raw_output_draft_def Let_def by (rule grows_note)
  finally show ?thesis .
qed

lemma grows_inputs [grows]: "state_grows s (s\<lparr>rs_inputs := i\<rparr>)"
  by (simp add: state_grows_def)

lemma grows_lifecycle_draft [grows]: "lifecycle_draft env now x s = Some s' \<Longrightarrow> state_grows s s'"
  by (cases x) (auto simp: lifecycle_draft_def intro: grows_lifecycle_event split: if_splits)

lemma grows_output_line [grows]: "draft_grows (output_line_draft env now m line)"
proof (rule draft_growsI)
  fix s s' assume a: "output_line_draft env now m line s = Inr (Some s')"
  consider (lifecycle) x where "lifecycle_draft env now x s = Some s'"
    | (raw) "s' = raw_output_draft now s"
    | (inputs) l i where "s' = public_output_draft now l (s\<lparr>rs_inputs := i\<rparr>)"
    | (line) l where "s' = public_output_draft now l s"
    using a unfolding output_line_draft_def
    by (auto simp: bind_result_Inr_iff split: option.splits if_splits)
  then show "state_grows s s'"
  proof cases
    case inputs
    then show ?thesis using grows_trans[OF grows_inputs grows_public_output] by simp
  qed (simp_all add: grows_lifecycle_draft grows_raw_output grows_public_output)
qed

lemma launch_form: "\<exists>x. recordOwnerLaunchObservation rt i s = s\<lparr>rs_launch := Some x\<rparr>"
  unfolding recordOwnerLaunchObservation_def Let_def by (rule exI) (rule refl)

lemma grant_form:
  assumes "grant_draft rt i s = Inr (Some s')"
  shows "\<exists>g x. s' = s\<lparr>rs_governing := g, rs_launch := Some x\<rparr>"
proof (cases "li_governing i")
  case None
  then have "s' = recordOwnerLaunchObservation rt i (s\<lparr>rs_governing := rs_governing s\<rparr>)" using assms by (simp add: grant_draft_def)
  then show ?thesis using launch_form by blast
next
  case (Some g)
  then have "s' = recordOwnerLaunchObservation rt i (s\<lparr>rs_governing := Some g\<rparr>)"
    using assms unfolding grant_draft_def invalidOwnerRecord_def by (simp split: if_splits)
  then show ?thesis using launch_form by blast
qed

lemma grows_grant [grows]: "draft_grows (grant_draft rt i)"
  by (rule draft_growsI, drule grant_form) (auto simp: state_grows_def)

lemma grows_spawn [grows]: "draft_grows (spawn_draft env at_time m)"
proof (rule draft_growsI)
  fix s s' assume a: "spawn_draft env at_time m s = Inr (Some s')"
  let ?q = "if nonempty (rs_queued_at s) = None then s\<lparr>rs_child_started := True\<rparr>
    else s\<lparr>rs_child_started := True, rs_child_started_at := Some at_time\<rparr>"
  from a obtain i where s': "s' = (projectWrittenChildLifecycleEvent env (child_spawned_event at_time) LC_spawned at_time
      (childLifecycleProjectionBaseline ?q) ?q)\<lparr>rs_inputs := i\<rparr>"
    by (auto simp: spawn_draft_def Let_def invalidOwnerRecord_def bind_result_Inr_iff split: option.splits if_splits)
  have "state_grows s ?q" by (simp add: state_grows_def)
  also have "state_grows ?q (projectWrittenChildLifecycleEvent env (child_spawned_event at_time) LC_spawned at_time
      (childLifecycleProjectionBaseline ?q) ?q)"
    by (rule grows_lifecycle) (simp add: childLifecycleProjectionBaseline_def)
  also have "state_grows \<dots> s'" unfolding s' by (rule grows_inputs)
  finally show "state_grows s s'" .
qed

lemma grows_lineage [grows]: "draft_grows (lineage_draft child direct)"
  by (rule draft_growsI) (auto simp: lineage_draft_def Let_def add_last_def state_grows_def split: if_splits)

lemma grows_descendant [grows]: "draft_grows (descendant_draft child st)"
  by (rule draft_growsI) (auto simp: descendant_draft_def state_grows_def split: if_splits)

lemma grows_cancel [grows]: "state_grows s (cancel_draft now s)"
proof -
  have "state_grows s (s\<lparr>rs_cancel_requested := True\<rparr>)" by (simp add: state_grows_def)
  also have "state_grows (s\<lparr>rs_cancel_requested := True\<rparr>) (cancel_draft now s)"
    unfolding cancel_draft_def Let_def prod.case_eq_if
    by (rule grows_trans[OF grows_phase], rule grows_trans[OF grows_status_event], rule grows_trans[OF grows_inputs],
        rule grows_closed_events)
  finally show ?thesis .
qed

section \<open>The invariant of a resident run\<close>

text \<open>The window of events and their texts are bounded, a cancelled run only settles, a spawned child had its
  grant, and a question is answered at most once.\<close>

definition short_event :: "json \<Rightarrow> bool" where
  "short_event e \<longleftrightarrow> length (text_or [] (jget e ''text'')) \<le> 4000"

lemma short_canonical [simp]: "short_event (canonical_event e)"
  using truncatePublicEventText_bound
  by (simp add: short_event_def canonical_event_def text_or_def text_of_def Json_Objects.opt_field_def split: option.split)

definition resident_ok :: "run_state \<Rightarrow> bool" where
  "resident_ok s \<longleftrightarrow>
     length (rs_events s) \<le> 25 \<and> list_all short_event (rs_events s) \<and>
     (rs_cancel_requested s \<longrightarrow> rs_phase s \<in> set settling_phases) \<and>
     (rs_child_started s \<longrightarrow> rs_launch s \<noteq> None) \<and>
     (\<forall>k. map_of (rs_deliveries s) k \<noteq> None \<longrightarrow> map_of (rs_accepted s) k = None)"

named_theorems resident

lemma ok_progress [resident]: "resident_ok s \<Longrightarrow> resident_ok (setTaskProgress m beat t s)"
  by (simp add: setTaskProgress_def resident_ok_def)

lemma ok_phase [resident]: "resident_ok s \<Longrightarrow> resident_ok (setTaskPhase p t s)"
  by (simp add: setTaskPhase_def resident_ok_def)

lemma ok_first_output [resident]: "resident_ok s \<Longrightarrow> resident_ok (noteFirstPublicOutput t s)"
  by (simp add: noteFirstPublicOutput_def resident_ok_def)

lemma short_window: "list_all short_event es \<Longrightarrow> short_event e \<Longrightarrow> list_all short_event (recent_events_json (es @ [e]))"
  using recent_json_sub[of "es @ [e]"] by (auto simp: list_all_iff)

lemma ok_public_event [resident]: "resident_ok s \<Longrightarrow> resident_ok (projectPublicEvent e s)"
  by (simp add: projectPublicEvent_def Let_def resident_ok_def recent_json_length short_window)

lemma ok_status_event [resident]: "resident_ok s \<Longrightarrow> resident_ok (projectStatusEvent e m s)"
  unfolding projectStatusEvent_def by (intro resident)

lemma ok_closed_events [resident]: "resident_ok s \<Longrightarrow> resident_ok (appendClosedInputEvents gone s)"
  unfolding appendClosedInputEvents_def by (induction gone arbitrary: s) (auto intro: resident)

lemma ok_inputs [resident]: "resident_ok s \<Longrightarrow> resident_ok (s\<lparr>rs_inputs := i\<rparr>)"
  by (simp add: resident_ok_def)

lemma ok_lifecycle [resident]:
  "resident_ok s \<Longrightarrow> short_event e \<Longrightarrow> resident_ok (projectWrittenChildLifecycleEvent env e l t b s)"
  by (auto simp: projectWrittenChildLifecycleEvent_def Let_def resident_ok_def canProjectWrittenChildLifecycleEvent_def
      recent_json_length short_window split: option.splits)

lemma ok_raw_output [resident]: "resident_ok s \<Longrightarrow> resident_ok (raw_output_draft now s)"
  unfolding raw_output_draft_def Let_def by (auto intro!: resident)

lemma ok_public_output [resident]: "resident_ok s \<Longrightarrow> resident_ok (public_output_draft now l s)"
  unfolding public_output_draft_def Let_def
  by (cases "public_output_progress l"; cases "public_output_phase l") (simp_all add: resident)

definition draft_ok :: "(run_state \<Rightarrow> run_state option result) \<Rightarrow> bool" where
  "draft_ok f \<longleftrightarrow> (\<forall>s s'. resident_ok s \<longrightarrow> f s = Inr (Some s') \<longrightarrow> resident_ok s')"

lemma draft_okI: "(\<And>s s'. resident_ok s \<Longrightarrow> f s = Inr (Some s') \<Longrightarrow> resident_ok s') \<Longrightarrow> draft_ok f"
  by (simp add: draft_ok_def)

lemma draft_okD: "draft_ok f \<Longrightarrow> resident_ok s \<Longrightarrow> f s = Inr (Some s') \<Longrightarrow> resident_ok s'"
  by (simp add: draft_ok_def)

lemma publish_ok: "resident_ok draft \<Longrightarrow> resident_ok (publishRunTaskTransitionState s draft)"
  by (simp add: publishRunTaskTransitionState_def resident_ok_def)

lemma active_ok:
  "draft_ok f \<Longrightarrow> resident_ok (rw_state w) \<Longrightarrow> resident_ok (rw_state (fst (commitActiveRunTransition env t f w)))"
  by (auto simp: commitActiveRunTransition_def Let_def publish_def split: sum.split option.split
      intro: publish_ok dest: draft_okD)

lemma commit_ok:
  "resident_ok draft \<Longrightarrow> resident_ok (rw_state w) \<Longrightarrow> resident_ok (rw_state (fst (commit_draft env t draft w)))"
  by (auto simp: commit_draft_def publish_def split: sum.split intro: publish_ok)

lemma durable_ok: "draft_ok f \<Longrightarrow> resident_ok (rw_state w) \<Longrightarrow> resident_ok (rw_state (fst (durable f env t w)))"
  by (auto simp: durable_def split: sum.split option.split intro: commit_ok dest: draft_okD)

lemma when_active_ok: "draft_ok f \<Longrightarrow> draft_ok (when_active f)"
  by (simp add: draft_ok_def when_active_def)

lemma ok_receipt: "(\<And>s v. resident_ok s \<Longrightarrow> resident_ok (put v s)) \<Longrightarrow> draft_ok (accept_receipt rt get put c r)"
  by (rule draft_okI) (auto simp: accept_receipt_def invalidOwnerRecord_def split: option.splits if_splits)

lemma ok_heartbeat [resident]: "draft_ok (heartbeat_draft beat m now)"
  by (rule draft_okI)
    (auto simp: heartbeat_draft_def Let_def invalidOwnerRecord_def split: if_splits intro: resident)

lemma ok_output_line [resident]: "draft_ok (output_line_draft env now m line)"
proof (rule draft_okI)
  fix s s' assume ok: "resident_ok s" and a: "output_line_draft env now m line s = Inr (Some s')"
  consider (lifecycle) x where "lifecycle_draft env now x s = Some s'"
    | (raw) "s' = raw_output_draft now s"
    | (inputs) l i where "s' = public_output_draft now l (s\<lparr>rs_inputs := i\<rparr>)"
    | (line) l where "s' = public_output_draft now l s"
    using a unfolding output_line_draft_def
    by (auto simp: bind_result_Inr_iff split: option.splits if_splits)
  then show "resident_ok s'"
  proof cases
    case (lifecycle x)
    then show ?thesis using ok
      by (cases x) (auto simp: lifecycle_draft_def projectChildLifecycleEvent_def split: if_splits intro: ok_lifecycle)
  qed (use ok in \<open>simp_all add: resident\<close>)
qed

lemma ok_grant [resident]: "draft_ok (grant_draft rt i)"
  by (rule draft_okI, drule grant_form) (auto simp: resident_ok_def)

lemma ok_spawn [resident]: "draft_ok (spawn_draft env at_time m)"
proof (rule draft_okI)
  fix s s' assume ok: "resident_ok s" and a: "spawn_draft env at_time m s = Inr (Some s')"
  let ?q = "if nonempty (rs_queued_at s) = None then s\<lparr>rs_child_started := True\<rparr>
    else s\<lparr>rs_child_started := True, rs_child_started_at := Some at_time\<rparr>"
  from a obtain i where l: "rs_launch s \<noteq> None" and
    s': "s' = (projectWrittenChildLifecycleEvent env (child_spawned_event at_time) LC_spawned at_time
      (childLifecycleProjectionBaseline ?q) ?q)\<lparr>rs_inputs := i\<rparr>"
    by (auto simp: spawn_draft_def Let_def invalidOwnerRecord_def bind_result_Inr_iff split: option.splits if_splits)
  have "resident_ok ?q" using ok l by (simp add: resident_ok_def)
  then show "resident_ok s'" unfolding s' by (intro resident) (simp_all add: child_spawned_event_def)
qed

lemma ok_lineage [resident]: "draft_ok (lineage_draft child direct)"
  by (rule draft_okI) (auto simp: lineage_draft_def Let_def resident_ok_def split: if_splits)

lemma ok_descendant [resident]: "draft_ok (descendant_draft child st)"
  by (rule draft_okI) (auto simp: descendant_draft_def resident_ok_def split: if_splits)

lemma ok_cancel: "resident_ok s \<Longrightarrow> \<not> rs_settled s \<Longrightarrow> resident_ok (cancel_draft now s)"
proof -
  assume "resident_ok s" "\<not> rs_settled s"
  then have "resident_ok (setTaskPhase Phase_cancelling now (s\<lparr>rs_cancel_requested := True\<rparr>))"
    by (simp add: resident_ok_def setTaskPhase_def settling_phases_def)
  then show ?thesis unfolding cancel_draft_def Let_def prod.case_eq_if
    by (rule ok_closed_events[OF ok_inputs[OF ok_status_event]])
qed

section \<open>Histories\<close>

lemma grows_deliveries [grows]: "state_grows s (s\<lparr>rs_deliveries := x\<rparr>)"
  by (simp add: state_grows_def)

lemma grows_answered [grows]: "state_grows s (recordAnsweredInput q r now s)"
  unfolding recordAnsweredInput_def Let_def
  by (rule grows_trans[OF grows_inputs], rule grows_trans[OF grows_phase], rule grows_status_event)

lemma ok_answered [resident]: "resident_ok s \<Longrightarrow> resident_ok (recordAnsweredInput q r now s)"
  unfolding recordAnsweredInput_def Let_def by (intro ok_status_event ok_phase ok_inputs)

lemma map_of_other [simp]: "map_of (filter (\<lambda>(k, _). k \<noteq> q) m) k = (if k = q then None else map_of m k)"
  by (induction m) auto

lemma accepted_draft_ok:
  assumes "resident_ok s" and "map_of (rs_deliveries s) q = Some d"
  shows "state_grows s (accepted_draft rt q d now s)" "resident_ok (accepted_draft rt q d now s)"
proof -
  let ?a = "\<lparr>ar_response_id = pd_response_id d, ar_answer_sha256 = inputAnswerSha256 rt (pd_answer d), ar_receipt = pd_receipt d\<rparr>"
  let ?s = "(drop_delivery q s)\<lparr>rs_accepted := (q, ?a) # filter (\<lambda>(k, _). k \<noteq> q) (rs_accepted s)\<rparr>"
  have q: "map_of (rs_accepted s) q = None" using assms by (auto simp: resident_ok_def)
  have "state_grows s ?s" using q by (simp add: state_grows_def drop_delivery_def)
  then show "state_grows s (accepted_draft rt q d now s)"
    unfolding accepted_draft_def by (rule grows_trans) (rule grows_answered)
  have "resident_ok ?s" using assms(1) q by (auto simp: resident_ok_def drop_delivery_def)
  then show "resident_ok (accepted_draft rt q d now s)" unfolding accepted_draft_def by (rule ok_answered)
qed

lemma drop_delivery_ok [resident]: "resident_ok s \<Longrightarrow> resident_ok (drop_delivery q s)"
  by (auto simp: resident_ok_def drop_delivery_def split: if_splits)

lemma grows_drop_delivery [grows]: "state_grows s (drop_delivery q s)"
  by (simp add: drop_delivery_def grows_deliveries)

definition world_ok :: "run_world \<Rightarrow> run_world \<Rightarrow> bool" where
  "world_ok w w' \<longleftrightarrow> state_grows (rw_state w) (rw_state w') \<and> (resident_ok (rw_state w) \<longrightarrow> resident_ok (rw_state w'))"

lemma acknowledge_ok:
  assumes "resident_ok (rw_state w)"
  shows "world_ok w (fst (settleChildAcceptedInputResponse q r env t w))"
proof (cases "map_of (rs_deliveries (rw_state w)) q")
  case None
  then show ?thesis by (simp add: settleChildAcceptedInputResponse_def world_ok_def)
next
  case (Some d)
  note draft = accepted_draft_ok[OF assms Some, of "le_rt env" "at_text t"]
  have same: "world_ok w w" by (simp add: world_ok_def)
  have dropped: "world_ok w (w\<lparr>rw_state := drop_delivery q (rw_state w), rw_mailbox := m\<rparr>)" for m
    using drop_delivery_ok[OF assms, of q] by (simp add: world_ok_def grows_drop_delivery)
  have dropped': "world_ok w (w\<lparr>rw_state := drop_delivery q (rw_state w)\<rparr>)"
    using drop_delivery_ok[OF assms, of q] by (simp add: world_ok_def grows_drop_delivery)
  have done': "world_ok w ((publish (accepted_draft (le_rt env) q d (at_text t) (rw_state w)) w)\<lparr>rw_dir := dir, rw_mailbox := m\<rparr>)"
    for dir m using published[OF draft(1)] publish_ok[OF draft(2)] by (simp add: world_ok_def publish_def)
  show ?thesis unfolding settleChildAcceptedInputResponse_def Let_def
    using Some same dropped dropped' done' by (simp split: prod.split sum.split)
qed

lemma cancellation_ok: "world_ok w (fst (acceptRunCancellation env t w))"
proof -
  let ?d = "(cancel_draft (at_text t) (rw_state w))\<lparr>rs_deliveries := []\<rparr>"
  have "state_grows (rw_state w) ?d" by (rule grows_trans[OF grows_cancel grows_deliveries])
  then have g: "state_grows (rw_state w) (publishRunTaskTransitionState (rw_state w) ?d)" by (rule published)
  have ok: "resident_ok (publishRunTaskTransitionState (rw_state w) ?d)"
    if "resident_ok (rw_state w)" "\<not> inactive (rw_state w)"
  proof (rule publish_ok)
    have "resident_ok (cancel_draft (at_text t) (rw_state w))" using that by (simp add: ok_cancel inactive_def)
    then show "resident_ok ?d" by (simp add: resident_ok_def)
  qed
  show ?thesis using g ok
    by (auto simp: acceptRunCancellation_def Let_def world_ok_def publish_def split: sum.split)
qed

lemma cancel_run_ok: "world_ok w (fst (cancelResidentRun env t w))"
  using cancellation_ok[of w env t] by (auto simp: cancelResidentRun_def world_ok_def split: prod.split sum.split option.split)

lemma answer_world:
  "fst (answerRunTaskInput q given a r sent env t w) = w \<or>
   map_of (rs_accepted (rw_state w)) q = None \<and>
   fst (answerRunTaskInput q given a r sent env t w) =
     w\<lparr>rw_state := fst (start_delivery q (js_trim given) a r sent (rw_state w))\<rparr>"
proof -
  consider "js_trim given = [] \<or> \<not> rw_listed w" | "js_trim given \<noteq> []" "rw_listed w" "map_of (rs_accepted (rw_state w)) q \<noteq> None"
    | "js_trim given \<noteq> []" "rw_listed w" "map_of (rs_accepted (rw_state w)) q = None" by blast
  then show ?thesis
  proof cases
    case 3
    then show ?thesis
      by (cases "map_of (rs_deliveries (rw_state w)) q") (simp_all add: answerRunTaskInput_def Let_def case_prod_beta)
  qed (auto simp: answerRunTaskInput_def Let_def)
qed

lemma start_delivery_cases:
  assumes "P s" and "\<And>d. P (s\<lparr>rs_deliveries := (q, d) # rs_deliveries s\<rparr>)"
  shows "P (fst (start_delivery q x a r sent s))"
proof (cases "find (\<lambda>r. has_text r ''request_id'' q) (rs_inputs s)")
  case (Some req)
  then show ?thesis using assms by (cases "validate_answer req a") (simp_all add: start_delivery_def Let_def)
qed (simp add: start_delivery_def assms)

lemma delivered_ok:
  assumes "resident_ok s" and "map_of (rs_accepted s) q = None"
  shows "state_grows s (fst (start_delivery q x a r sent s)) \<and> resident_ok (fst (start_delivery q x a r sent s))"
proof (rule start_delivery_cases[where P = "\<lambda>s'. state_grows s s' \<and> resident_ok s'"])
  fix d show "state_grows s (s\<lparr>rs_deliveries := (q, d) # rs_deliveries s\<rparr>) \<and> resident_ok (s\<lparr>rs_deliveries := (q, d) # rs_deliveries s\<rparr>)"
    using assms by (simp add: resident_ok_def grows_deliveries)
qed (simp add: assms)

lemma answer_ok:
  assumes "resident_ok (rw_state w)"
  shows "world_ok w (fst (answerRunTaskInput q given a r sent env t w))"
  using answer_world[of q given a r sent env t w] delivered_ok[OF assms] by (auto simp: world_ok_def)

lemma receipt_ok: "world_ok w (fst (accept_kind k r env t w))"
proof -
  have ok: "draft_ok (accept_receipt rt rs_activation (\<lambda>v. rs_activation_update (\<lambda>_. v)) c r)"
    "draft_ok (accept_receipt rt rs_snapshot_receipt (\<lambda>v. rs_snapshot_receipt_update (\<lambda>_. v)) c r)"
    "draft_ok (accept_receipt rt rs_system_receipt (\<lambda>v. rs_system_receipt_update (\<lambda>_. v)) c r)"
    "draft_ok (accept_receipt rt rs_delegation_receipt (\<lambda>v. rs_delegation_receipt_update (\<lambda>_. v)) c r)" for rt c
    by (rule ok_receipt, simp add: resident_ok_def)+
  show ?thesis unfolding world_ok_def
    by (cases k)
      (simp_all add: acceptActivationReceipt_def acceptSkillSnapshotActivationReceipt_def
        acceptSystemSkillActivationReceipt_def acceptRecursiveDelegationReceipt_def durable_grows durable_ok
        when_active_grows when_active_ok ok activation_slot.accept_grows snapshot_slot.accept_grows
        system_slot.accept_grows delegation_slot.accept_grows)
qed

lemma grows_queued: "state_grows s (queued_state q now s)"
proof -
  have "state_grows s (s\<lparr>rs_queued_at := Some q\<rparr>)" by (simp add: state_grows_def)
  also have "state_grows \<dots> (setTaskPhase Phase_queued q (s\<lparr>rs_queued_at := Some q\<rparr>))" by (rule grows_phase)
  also have "state_grows \<dots> (queued_state q now s)" unfolding queued_state_def by (rule grows_note)
  finally show ?thesis .
qed

lemma ok_queued: "resident_ok s \<Longrightarrow> resident_ok (queued_state q now s)"
  unfolding queued_state_def by (intro ok_progress ok_phase) (simp add: resident_ok_def)

lemma started_ok: "state_grows s (appendRunStartedEvent r s)" "resident_ok s \<Longrightarrow> resident_ok (appendRunStartedEvent r s)"
proof -
  let ?r = "\<lambda>s s'. state_grows s s' \<and> (resident_ok s \<longrightarrow> resident_ok s')"
  have step: "?r x (projectPublicEvent e x)" "?r x x" for e x by (simp_all add: grows_public_event ok_public_event)
  have tr: "?r a b \<Longrightarrow> ?r b c \<Longrightarrow> ?r a c" for a b c using grows_trans by blast
  let ?s1 = "projectStatusEvent (run_started_event r s) default_heartbeat_message s"
  let ?s2 = "if nonempty_string (jget r ''prompt'') then projectPublicEvent (public_event Kind_user Ev_message
      (''[user]'' @ newline @ public_prompt_redacted_marker) (rs_started_at s) None) ?s1 else ?s1"
  let ?s3 = "case marked_skill r of
      Some n \<Rightarrow> projectPublicEvent (public_event Kind_task Ev_message (serverContractSkillMarker n) (rs_started_at s) None) ?s2
    | None \<Rightarrow> ?s2"
  have "?r s ?s1" by (simp add: grows_status_event ok_status_event)
  moreover have "?r ?s1 ?s2" using step by simp
  moreover have "?r ?s2 ?s3" using step by (simp split: option.split)
  moreover have "?r ?s3 (appendRunStartedEvent r s)"
    unfolding appendRunStartedEvent_def Let_def using step by (simp split: option.split)
  ultimately have "?r s (appendRunStartedEvent r s)" using tr by blast
  then show "state_grows s (appendRunStartedEvent r s)" "resident_ok s \<Longrightarrow> resident_ok (appendRunStartedEvent r s)" by auto
qed

lemma register_ok: "world_ok w (fst (registerRunTaskState request env t w))"
proof (cases "ensureClaimDeclarations (le_rt env) request (rw_state w)")
  case (Inl e)
  then show ?thesis by (simp add: registerRunTaskState_def world_ok_def)
next
  case (Inr declared)
  define s where "s = bindRequestToRunTaskState request declared"
  define d where "d = appendRunStartedEvent request s"
  have s: "state_grows (rw_state w) s" "resident_ok (rw_state w) \<Longrightarrow> resident_ok s"
    using Inr by (auto simp: s_def ensureClaimDeclarations_def bindRequestToRunTaskState_def Let_def state_grows_def
        resident_ok_def split: if_splits)
  let ?w = "w\<lparr>rw_state := s, rw_listed := True\<rparr>"
  have d: "state_grows s d" "resident_ok s \<Longrightarrow> resident_ok d" using started_ok by (simp_all add: d_def)
  have bound: "world_ok w ?w" using s by (simp add: world_ok_def)
  have pub: "world_ok w (publish d ?w)"
    using published[OF d(1)] publish_ok[of d s] d(2) s by (auto simp: world_ok_def publish_def intro: grows_trans)
  have com: "world_ok w (fst (commit_draft env t d ?w))"
    using commit_grows[of ?w d env t] commit_ok[of d ?w env t] d s by (auto simp: world_ok_def intro: grows_trans)
  show ?thesis using bound pub com
    by (auto simp: registerRunTaskState_def Inr Let_def s_def[symmetric] d_def[symmetric] prod.case_eq_if
        split: sum.split option.split)
qed

lemma active_world: "draft_grows f \<Longrightarrow> draft_ok f \<Longrightarrow> world_ok w (fst (commitActiveRunTransition env t f w))"
  by (simp add: world_ok_def active_grows active_ok)

lemma durable_world: "draft_grows f \<Longrightarrow> draft_ok f \<Longrightarrow> world_ok w (fst (durable f env t w))"
  by (simp add: world_ok_def durable_grows durable_ok)

lemma changed_drafts:
  assumes "\<And>s. state_grows s (g s)" and "\<And>s. resident_ok s \<Longrightarrow> resident_ok (g s)"
  shows "draft_grows (\<lambda>s. if P s then Inr None else Inr (Some (g s)))" "draft_ok (\<lambda>s. if P s then Inr None else Inr (Some (g s)))"
    "draft_grows (\<lambda>s. Inr (Some (g s)))" "draft_ok (\<lambda>s. Inr (Some (g s)))"
  using assms by (simp_all add: draft_grows_def draft_ok_def)

lemma pending_drafts:
  "draft_grows (\<lambda>s. if inactive s then invalidOwnerRecord m else accept_receipt rt rs_pending_outputs
     (\<lambda>v. rs_pending_outputs_update (\<lambda>_. v)) c r s)"
  "draft_ok (\<lambda>s. if inactive s then invalidOwnerRecord m else accept_receipt rt rs_pending_outputs
     (\<lambda>v. rs_pending_outputs_update (\<lambda>_. v)) c r s)"
proof -
  have "draft_ok (accept_receipt rt rs_pending_outputs (\<lambda>v. rs_pending_outputs_update (\<lambda>_. v)) c r)"
    by (rule ok_receipt) (simp add: resident_ok_def)
  then show "draft_ok (\<lambda>s. if inactive s then invalidOwnerRecord m else accept_receipt rt rs_pending_outputs
     (\<lambda>v. rs_pending_outputs_update (\<lambda>_. v)) c r s)" by (simp add: draft_ok_def invalidOwnerRecord_def)
  show "draft_grows (\<lambda>s. if inactive s then invalidOwnerRecord m else accept_receipt rt rs_pending_outputs
     (\<lambda>v. rs_pending_outputs_update (\<lambda>_. v)) c r s)"
    using outputs_slot.accept_grows by (simp add: draft_grows_def invalidOwnerRecord_def)
qed

lemma clear_drafts:
  "draft_grows (\<lambda>s. case rs_pending_outputs s of None \<Rightarrow> Inr None | Some p \<Rightarrow>
     if \<not> same p then invalidOwnerRecord m else Inr (Some (s\<lparr>rs_pending_outputs := None\<rparr>)))"
  "draft_ok (\<lambda>s. case rs_pending_outputs s of None \<Rightarrow> Inr None | Some p \<Rightarrow>
     if \<not> same p then invalidOwnerRecord m else Inr (Some (s\<lparr>rs_pending_outputs := None\<rparr>)))"
  by (auto simp: draft_grows_def draft_ok_def invalidOwnerRecord_def state_grows_def resident_ok_def split: option.splits if_splits)

lemma perform_ok:
  assumes "resident_ok (rw_state w)"
  shows "world_ok w (perform env (t, op) w)"
proof (cases op)
  case (Op_register request)
  then show ?thesis by (simp add: register_ok)
next
  case (Op_queue q)
  then show ?thesis by (simp add: queueRun_def active_world changed_drafts grows_queued ok_queued)
next
  case (Op_heartbeat beat m)
  then show ?thesis by (simp add: handleTaskHeartbeat_def active_world grows_heartbeat ok_heartbeat)
next
  case (Op_line line)
  then show ?thesis by (simp add: observeOutputLine_def active_world grows_output_line ok_output_line)
next
  case Op_prepare
  have "state_grows s (note_progress m n (setTaskPhase Phase_starting n s))" for s m n
    by (rule grows_trans[OF grows_phase grows_note])
  then show ?thesis by (simp add: Op_prepare prepareChildRun_def active_world changed_drafts ok_progress ok_phase)
next
  case (Op_stage path)
  have "state_grows s (s\<lparr>rs_partial_output := p\<rparr>)" "resident_ok s \<Longrightarrow> resident_ok (s\<lparr>rs_partial_output := p\<rparr>)" for s p
    by (simp_all add: state_grows_def resident_ok_def)
  then show ?thesis by (simp add: Op_stage stage_transcript_def active_world changed_drafts)
next
  case (Op_grant i)
  then show ?thesis
    by (simp add: grantRunClaimFromLaunchObservation_def durable_world when_active_grows when_active_ok grows_grant ok_grant)
next
  case (Op_spawn at_time)
  then show ?thesis by (simp add: commitChildSpawnTransition_def durable_world grows_spawn ok_spawn)
next
  case (Op_receipt k r)
  then show ?thesis by (simp add: receipt_ok)
next
  case (Op_pending ownership)
  then show ?thesis
    using durable_world[OF pending_drafts] by (auto simp: acceptPendingTerminalOutputs_def world_ok_def split: sum.split)
next
  case (Op_clear ownership)
  then show ?thesis
    using durable_world[OF clear_drafts] by (auto simp: clearPendingTerminalOutputs_def world_ok_def split: sum.split)
next
  case (Op_lineage child direct)
  then show ?thesis
    by (simp add: recordParentChildLineage_def durable_world when_active_grows when_active_ok grows_lineage ok_lineage)
next
  case (Op_descendant child st)
  then show ?thesis
    by (simp add: recordDescendantTerminalLineage_def durable_world when_active_grows when_active_ok grows_descendant ok_descendant)
next
  case (Op_parent_event event message)
  then show ?thesis
    by (simp add: appendParentRecursiveChildEvent_def active_world changed_drafts grows_status_event ok_status_event)
next
  case Op_cancel
  then show ?thesis by (simp add: cancel_run_ok)
next
  case (Op_answer q given a r sent)
  then show ?thesis using answer_ok[OF assms] by simp
next
  case (Op_acknowledge q r)
  then show ?thesis using acknowledge_ok[OF assms] by simp
qed

lemma history_ok: "resident_ok (rw_state w) \<Longrightarrow> world_ok w (fold (perform env) ops w)"
proof (induction ops arbitrary: w)
  case Nil
  then show ?case by (simp add: world_ok_def)
next
  case (Cons op ops)
  obtain t x where op: "op = (t, x)" by (cases op)
  have first: "world_ok w (perform env op w)" using perform_ok[OF Cons.prems] by (simp add: op)
  then have "resident_ok (rw_state (perform env op w))" using Cons.prems by (simp add: world_ok_def)
  from Cons.IH[OF this] first show ?case using Cons.prems by (auto simp: world_ok_def intro: grows_trans)
qed

text \<open>The life of a run: the operations on a fresh state.\<close>

record fresh_run =
  fr_kind :: string
  fr_session_key :: "string option"
  fr_lineage :: task_lineage
  fr_run_id :: string
  fr_binding :: "json option"
  fr_started :: string
  fr_mailbox_root :: string

definition fresh_state :: "fresh_run \<Rightarrow> run_state" where
  "fresh_state f = createRunTaskState (fr_kind f) (fr_session_key f) (fr_lineage f) (fr_run_id f) (fr_mailbox_root f)
     (fr_binding f) (fr_started f) (fr_started f)"

definition resident_at ::
  "life_env \<Rightarrow> fresh_run \<Rightarrow> directory \<Rightarrow> mailbox \<Rightarrow> (moment \<times> run_op) list \<Rightarrow> run_world" where
  "resident_at env f dir m ops = fold (perform env) ops \<lparr>rw_state = fresh_state f, rw_dir = dir, rw_mailbox = m, rw_listed = False\<rparr>"

lemma fresh_ok: "resident_ok (fresh_state f)"
  by (simp add: fresh_state_def createRunTaskState_def setTaskProgress_def resident_ok_def)

lemma resident_at_append: "resident_at env f dir m (a @ b) = fold (perform env) b (resident_at env f dir m a)"
  by (simp add: resident_at_def)

lemma resident_at_ok: "resident_ok (rw_state (resident_at env f dir m ops))"
  using history_ok[of _ env ops] fresh_ok by (fastforce simp: resident_at_def world_ok_def)

text \<open>
  C1: A resident run only moves forward. Whatever operations a fresh run goes through (registration,
  heartbeats, output lines, the launch grant, the spawn, receipts, outputs, lineage, cancellation and
  answers, in any order, with whatever the record directory and the mailbox hold), its window never holds more than 25
  events, each of bounded text, a cancelled run stays in a settling phase, and a spawned child had its grant. Between any two
  moments its identity and lineage root stay, cancellation and spawn are never taken back, heartbeats
  and life-cycle generations do not decrease, and no accepted receipt, answer, first output, child or descendant is lost or replaced.
\<close>

theorem resident_run_history:
  "let s = rw_state (resident_at env f dir m before); s' = rw_state (resident_at env f dir m (before @ after))
   in resident_ok s \<and> state_grows s s'"
  using history_ok[OF resident_at_ok[of env f dir m before], of env after] resident_at_ok
  by (simp add: resident_at_append world_ok_def Let_def)

end
