(* ===== verification/Run_Settlement.thy ===== *)
theory Run_Settlement
  imports Resident_Run
begin

text \<open>
  The end of a run (\<open>src/runTask.ts\<close>, lines 3057-3103, 3151-3416, 3435-3453, 3567-3626 and 4005-4086): the normalisation
  of a cancelled result, the terminal events, \<open>settleRunClaim\<close>, the settlement of a run whose owner is gone,
  the class under which a failure is logged, and the eviction of a settled run. The lemmas
  characterise which settlements the record accepts; four of the properties are runs that can never settle.
\<close>

section \<open>Terminal intents\<close>

record terminal_intent =
  ti_result :: "json option"
  ti_error :: "js_error option"

definition cancelled_result :: "json \<Rightarrow> json" where
  "cancelled_result r = without [''error_class'', ''reason_code'']
     (spread r (JObj [(''status'', JStr ''cancelled''), (''success'', JBool False), (''timed_out'', JBool False),
        (''stop_reason'', JStr ''cancelled'')]))"

definition cancelled_before_launch_error :: js_error where
  "cancelled_before_launch_error = ValidationError ''run cancelled before child launch'' Rc_local_capacity_exhausted"

definition normalizeAcceptedCancellation :: "run_state \<Rightarrow> run_state" where
  "normalizeAcceptedCancellation s =
     (case rs_result s of
        None \<Rightarrow> s
      | Some r \<Rightarrow>
          if \<not> rs_cancel_requested s then s
          else if has_text r ''stop_reason'' ''cancelled''
          then (if rs_child_started s then s
                else s\<lparr>rs_result := None, rs_error := Some cancelled_before_launch_error\<rparr>)
          else s\<lparr>rs_result := Some (cancelled_result r)\<rparr>)"

definition normalizeOwnerTerminalError :: "run_state \<Rightarrow> run_state" where
  "normalizeOwnerTerminalError s =
     (case rs_error s of
        None \<Rightarrow> s
      | Some e \<Rightarrow>
          if \<not> blank (message_of e) then s
          else s\<lparr>rs_error := Some (case e of
              ValidationError _ rc \<Rightarrow> ValidationError ''run task failed without an error message'' rc
            | _ \<Rightarrow> PlainError ''run task handler failed'')\<rparr>)"

definition packetTerminalEvent :: "json \<Rightarrow> string \<Rightarrow> json option" where
  "packetTerminalEvent r at_time =
     (case jget r ''packet_parse_status'' of
        None \<Rightarrow> None
      | Some status \<Rightarrow>
          if status = JStr ''not_run'' then None
          else (let accepted = truthy (jget r ''success'') \<and> status = JStr ''valid'';
                    shown = '' packet_parse_status='' @ text_or [] (Some status) in
            Some (public_event Kind_packet (if accepted then Ev_packet_accepted else Ev_packet_rejected)
              ((if accepted then ''[packet_accepted]'' else ''[packet_rejected]'') @ shown) at_time
              (Some (JObj (result_fields [''packet_parse_status'', ''packet_error''] r @
                 Json_Objects.opt_field ''committed'' (jget r ''success'')))))))"

definition packet_progress :: "json \<Rightarrow> string" where
  "packet_progress e = (if has_text e ''event'' ''packet_accepted'' then ''packet accepted'' else ''packet rejected'')"

definition owner_event_json :: "owner_event \<Rightarrow> json" where
  "owner_event_json e = JObj [(''kind'', JStr ''terminal''), (''event'', JStr (oe_event e)), (''text'', JStr (oe_text e)),
     (''occurred_at'', JStr (oe_occurred_at e)), (''metadata'', oe_metadata e)]"

definition owner_view :: "js_runtime \<Rightarrow> run_state \<Rightarrow> js_error \<Rightarrow> string \<Rightarrow> json" where
  "owner_view rt s e at_time = JObj
     (shown_envelope rt s e at_time @
      [(''status'', JStr (owner_status s)), (''finished_at'', JStr at_time), (''child_started'', JBool (rs_child_started s)),
       (''last_phase_at'', JStr at_time)] @
      (if cancelled_before_launch s then [] else [(''error'', JStr (message_of e))]))"

definition append_result_event :: "string \<Rightarrow> json \<Rightarrow> run_state \<Rightarrow> run_state" where
  "append_result_event at_time r s =
     (let s1 = (case packetTerminalEvent r at_time of None \<Rightarrow> s | Some e \<Rightarrow> projectStatusEvent e (packet_progress e) s);
          d = terminalRunTaskEventDetails (result_status_input r);
          s2 = projectStatusEvent (public_event Kind_terminal (td_event d) (td_text d) at_time (Some (result_event_metadata r)))
            (td_progress_message d) s1
      in setTaskPhase (td_phase d) at_time s2)"

definition append_error_event :: "js_runtime \<Rightarrow> string \<Rightarrow> js_error \<Rightarrow> run_state \<Rightarrow> run_state result" where
  "append_error_event rt at_time e s =
     (case ownerTerminalEventProjection rt (owner_view rt s e at_time) of
        None \<Rightarrow> Inl (PlainError ''owner terminal event projection unexpectedly missing'')
      | Some oe \<Rightarrow>
          Inr (setTaskPhase (if rs_cancel_requested s then Phase_cancelled else Phase_failed) at_time
            (projectStatusEvent (owner_event_json oe)
              (if rs_cancel_requested s then ''run cancelled'' else message_of e) s)))"

definition appendTerminalEvent :: "js_runtime \<Rightarrow> string \<Rightarrow> run_state \<Rightarrow> run_state result" where
  "appendTerminalEvent rt now s =
     (let at_time = nullish (rs_finished_at s) now in
      case rs_result s of
        Some r \<Rightarrow> Inr (append_result_event at_time r s)
      | None \<Rightarrow> (case rs_error s of Some e \<Rightarrow> append_error_event rt at_time e s | None \<Rightarrow> Inr s))"

section \<open>Settling the claim\<close>

definition readTaskSnapshot :: "js_runtime \<Rightarrow> directory \<Rightarrow> string \<Rightarrow> json option result" where
  "readTaskSnapshot rt dir run_id =
     (case readPersistedRunView rt dir (taskRecordPath run_id) of
        Inl e \<Rightarrow> if is_enoent e then Inr None else Inl e | Inr v \<Rightarrow> Inr (Some v))"

definition references_of :: "json \<Rightarrow> run_output_reference list option" where
  "references_of r = (case jget r ''output_references'' of None \<Rightarrow> None
     | Some v \<Rightarrow> Some (List.map_filter decodeRunOutputReference (elements (Some v))))"

text \<open>Pending outputs that the result publishes are its own from now on.\<close>

definition release_outputs :: "terminal_intent \<Rightarrow> run_state \<Rightarrow> run_state" where
  "release_outputs ti s =
     (case (rs_pending_outputs s, ti_result ti) of
        (Some p, Some r) \<Rightarrow>
          (case assertPendingTerminalOutputs p None of
             Inr pending \<Rightarrow>
               if terminalReferencesOwnPendingOutputs (references_of r) pending then s\<lparr>rs_pending_outputs := None\<rparr> else s
           | Inl _ \<Rightarrow> s)
      | _ \<Rightarrow> s)"

definition close_reason :: "string \<Rightarrow> run_state \<Rightarrow> string" where
  "close_reason reason s = (if rs_cancel_requested s then ''run cancelled'' else reason)"

text \<open>The draft with the intent, its normalisations and its closed questions, before the terminal event.\<close>

definition intended :: "terminal_intent \<Rightarrow> string \<Rightarrow> string \<Rightarrow> run_state \<Rightarrow> run_state" where
  "intended ti reason now s =
     (let s1 = release_outputs ti (s\<lparr>rs_result := ti_result ti, rs_error := ti_error ti\<rparr>);
          s2 = normalizeOwnerTerminalError (normalizeAcceptedCancellation
                 (s1\<lparr>rs_terminalizing := True, rs_finished_at := Some now\<rparr>));
          s3 = s2\<lparr>rs_control := False\<rparr>;
          (inputs, gone) = planClosedInputRequests (rs_inputs s3) now (close_reason reason s3)
      in appendClosedInputEvents gone (s3\<lparr>rs_inputs := inputs\<rparr>))"

definition settlement_draft :: "js_runtime \<Rightarrow> terminal_intent \<Rightarrow> string \<Rightarrow> string \<Rightarrow> run_state \<Rightarrow> run_state result" where
  "settlement_draft rt ti reason now s =
     (if ti_result ti \<noteq> None \<and> ti_error ti \<noteq> None
      then invalidOwnerRecord ''run terminal transition cannot contain both a result and an error''
      else bind_result (appendTerminalEvent rt now (intended ti reason now s)) (\<lambda>draft.
        if rs_result draft = None \<and> rs_error draft = None
        then invalidOwnerRecord ''terminal settlement lacks owner evidence''
        else Inr (draft\<lparr>rs_settled := True\<rparr>)))"

datatype settlement = Preserved | Settled_run json

definition settleRunClaim ::
  "life_env \<Rightarrow> moment \<Rightarrow> string \<Rightarrow> terminal_intent \<Rightarrow> run_world \<Rightarrow> run_world \<times> settlement result" where
  "settleRunClaim env t reason ti w =
     (let rt = le_rt env; s = rw_state w in
      case readTaskSnapshot rt (rw_dir w) (rs_run_id s) of
        Inl e \<Rightarrow> (w, Inl e)
      | Inr existing \<Rightarrow>
          if (case existing of Some v \<Rightarrow> isTerminalView v | None \<Rightarrow> False)
          then (publish (s\<lparr>rs_finished_at := Some (text_or (at_text t) (jget (the existing) ''finished_at'')),
                  rs_settled := True, rs_terminalizing := True\<rparr>) w, Inr Preserved)
          else (case settlement_draft rt ti reason (at_text t) s of
              Inl e \<Rightarrow> (w, Inl e)
            | Inr draft \<Rightarrow>
                (case persist_draft env t True draft (rw_dir w) of
                   Inl e \<Rightarrow> (w, Inl e)
                 | Inr (dir, committed) \<Rightarrow>
                     ((publish (draft\<lparr>rs_deliveries := [],
                         rs_events := (case jget committed ''recent_events'' of
                           None \<Rightarrow> rs_events draft | v \<Rightarrow> elements v),
                         rs_excerpt := jget committed ''last_public_output_excerpt''\<rparr>) w)\<lparr>rw_dir := dir\<rparr>,
                      Inr (Settled_run committed)))))"

text \<open>After the claim: the mailbox of the run is closed and removed.\<close>

definition settleRunMailbox :: "string \<Rightarrow> string \<Rightarrow> run_world \<Rightarrow> run_world \<times> unit result" where
  "settleRunMailbox reason settledAt w =
     (let run_id = rs_run_id (rw_state w) in
      case closePendingInputRequestsForRun (rw_mailbox w) run_id (Some reason) settledAt of
        (m, Inl e) \<Rightarrow> (w\<lparr>rw_mailbox := m\<rparr>, Inl e)
      | (m, Inr _) \<Rightarrow> (w\<lparr>rw_mailbox := fst (removeTerminalInputRequestsForRun m run_id)\<rparr>, Inr ()))"

section \<open>Eviction\<close>

text \<open>A settled run leaves the table of resident runs when its capacity is released, none of its answers can be
  retried and none of its children is still running.\<close>

definition unfinished :: "run_state \<Rightarrow> bool" where
  "unfinished s \<longleftrightarrow> \<not> rs_settled s \<or> \<not> rs_released s"

definition maybeEvictTerminalTask :: "run_state \<Rightarrow> (string \<times> run_state) list \<Rightarrow> (string \<times> run_state) list" where
  "maybeEvictTerminalTask s tasks =
     (if unfinished s \<or> rs_accepted s \<noteq> [] \<or>
         list_ex (\<lambda>c. case map_of tasks c of Some child \<Rightarrow> unfinished child | None \<Rightarrow> False) (rs_children s)
      then tasks else filter (\<lambda>(k, _). k \<noteq> rs_run_id s) tasks)"

section \<open>A run whose owner is gone\<close>

definition failure_log_tools :: "string list" where
  "failure_log_tools = [''run_subagent'', ''schedule_run'', ''start_run'', ''start_session_run'', ''run_subagent_session'']"

definition isRunTaskFailureLogTool :: "json option \<Rightarrow> bool" where
  "isRunTaskFailureLogTool v \<longleftrightarrow> text_in failure_log_tools v"

definition started_tool :: "json \<Rightarrow> json option" where
  "started_tool e = (if has_text e ''event'' ''run_started'' then Option.bind (jget e ''metadata'') (\<lambda>m. jget m ''tool'') else None)"

definition failureLogToolFromRunEvents :: "json list \<Rightarrow> json option \<Rightarrow> string" where
  "failureLogToolFromRunEvents events kind =
     (case find (\<lambda>e. isRunTaskFailureLogTool (started_tool e)) (rev events) of
        Some e \<Rightarrow> text_or [] (started_tool e)
      | None \<Rightarrow> if kind = Some (JStr ''session'') then ''start_session_run'' else ''start_run'')"

definition restart_error :: string where
  "restart_error = ''run is not active in this MCP server process; the server may have restarted''"

definition normalizeHistoricalSnapshotForRepublication :: "json \<Rightarrow> json" where
  "normalizeHistoricalSnapshotForRepublication v = spread v (JObj contractFields)"

definition loss_session_id :: "json \<Rightarrow> json option" where
  "loss_session_id v = (case jget v ''session_id'' of
     None \<Rightarrow> map_option JStr (sessionIdFromEvents (elements (jget v ''recent_events'')))
   | Some JNull \<Rightarrow> map_option JStr (sessionIdFromEvents (elements (jget v ''recent_events''))) | i \<Rightarrow> i)"

definition loss_envelope :: "js_runtime \<Rightarrow> json \<Rightarrow> string \<Rightarrow> json option \<Rightarrow> (string \<times> json) list" where
  "loss_envelope rt v finished recovered = syntheticTerminalFailureEnvelope rt
     \<lparr>fo_started_at = text_or [] (jget v ''started_at''), fo_finished_at = finished,
      fo_error_class = ''restart_drift'', fo_reason_code = ''server_restarted_active_run'',
      fo_session_id = text_of (loss_session_id v),
      fo_session_established = Some (case jget v ''session_established'' of Some (JBool b) \<Rightarrow> b
        | _ \<Rightarrow> loss_session_id v \<noteq> None),
      fo_outputs = Some (case recovered of None \<Rightarrow> [] | Some r \<Rightarrow> [r]), fo_partial_output = Some (recovered \<noteq> None)\<rparr>"

definition loss_events :: "json \<Rightarrow> string \<Rightarrow> (string \<times> json) list \<Rightarrow> json list" where
  "loss_events v finished envelope =
     recent_events_json (filter (\<lambda>e. \<not> is_false (jget v ''child_started'') \<or> \<not> has_text e ''kind'' ''child'')
       (elements (jget v ''recent_events'') @
        [canonical_event (public_event Kind_terminal Ev_failed ''[failed] run is not active after MCP server restart''
           finished (Some (JObj (syntheticTerminalFailureEventMetadata (JObj envelope)))))]))"

definition settleRunOwnerLossSnapshot :: "js_runtime \<Rightarrow> json \<Rightarrow> string \<Rightarrow> json option \<Rightarrow> json" where
  "settleRunOwnerLossSnapshot rt v finished recovered =
     (let envelope = loss_envelope rt v finished recovered; events = loss_events v finished envelope;
          inputs = fst (planClosedInputRequests (elements (jget v ''input_requests'')) finished
            ''MCP server restarted while run was active'')
      in with_field ''partial_output_path'' None
        (with_field ''last_public_output_excerpt''
          (if events = [] then jget v ''last_public_output_excerpt'' else excerpt_json events)
          (spread (normalizeHistoricalSnapshotForRepublication v) (JObj
            ([(''recent_events'', JArr events), (''status'', JStr ''failed''),
              (''finished_at'', JStr (text_or finished (jget v ''finished_at''))), (''active_phase'', JStr ''failed''),
              (''last_phase_at'', JStr finished), (''input_requests'', JArr inputs)] @ envelope @
             [(''error'', JStr restart_error)])))))"

end
