(* ===== verification/View_Fields.thy ===== *)
theory View_Fields
  imports Run_State
begin

text \<open>
  Reading a view: what \<open>runTaskViewFromState\<close> puts under the fields that the checks of a stored view read,
  for the views of an active run, of a failed one and of a result.
\<close>

section \<open>Lookups\<close>

lemma map_of_opt [simp]: "map_of (Json_Objects.opt_field f v) k = (if k = f then v else None)"
  by (simp add: Json_Objects.opt_field_def split: option.split)

lemma map_of_text [simp]: "map_of (Run_State.text_field f t) k = (if k = f then map_option JStr t else None)"
  by (simp add: Run_State.text_field_def)

lemma map_of_app: "map_of (a @ b) k = (case map_of a k of None \<Rightarrow> map_of b k | Some v \<Rightarrow> Some v)"
  by (simp add: map_add_def split: option.split)

definition progress_fields :: "string list" where
  "progress_fields = [''elapsed_ms'', ''last_progress_at'', ''last_progress_message'', ''heartbeat_count'', ''active_phase'',
     ''last_phase_at'', ''last_child_lifecycle_event'', ''last_child_lifecycle_at'', ''first_public_output_at'',
     ''no_public_output_elapsed_ms'', ''recent_events'', ''last_public_output_excerpt'']"

lemma map_of_progress:
  "map_of (progressView s e) ''active_phase'' = Some (JStr (phase_text (rs_phase s)))"
  "map_of (progressView s e) ''last_phase_at'' = Some (JStr (rs_phase_at s))"
  "map_of (progressView s e) ''recent_events'' = Some (JArr (rs_events s))"
  "k \<notin> set progress_fields \<Longrightarrow> map_of (progressView s e) k = None"
  by (simp_all add: progressView_def progress_fields_def map_of_app del: map_of_append)

lemma map_of_lineage: "k \<notin> set [''parent_run_id'', ''root_run_id'', ''recursion_depth'', ''child_run_ids'', ''descendant_run_ids'',
   ''descendant_terminal_statuses''] \<Longrightarrow> map_of (lineageView s) k = None"
  by (simp add: lineageView_def map_of_app del: map_of_append)

lemma map_of_admission: "k \<notin> set [''child_started'', ''queued_at'', ''child_started_at'', ''queue_wait_ms'', ''client_start_binding''] \<Longrightarrow>
   map_of (admissionView rt s) k = None"
  by (simp add: admissionView_def map_of_app split: option.split del: map_of_append)

lemma child_started_view: "map_of (admissionView rt s) ''child_started'' = Some (JBool (rs_child_started s))"
  by (simp add: admissionView_def map_of_app del: map_of_append)

lemma map_of_activation: "k \<notin> set [''requested_effect_profile'', ''expected_skill_sha256'', ''resolved_effect_profile'',
   ''activation_receipt'', ''skill_snapshot_binding'', ''skill_snapshot_activation_receipt'', ''requested_recursive_delegation'',
   ''resolved_recursive_delegation'', ''recursive_delegation_receipt'', ''requested_system_skill'',
   ''requested_specialist_catalogue_scope'', ''system_skill_activation_receipt''] \<Longrightarrow> map_of (activationView s) k = None"
  by (simp add: activationView_def map_of_app split: option.split del: map_of_append)

lemma active_view_field:
  "jget (activeRunTaskView rt n s i) k = (case map_of contractFields k of Some v \<Rightarrow> Some v | None \<Rightarrow>
     (case map_of [(''run_id'', JStr (rs_run_id s)), (''task_id'', JStr (rs_run_id s)), (''task_kind'', JStr (rs_task_kind s))] k of
        Some v \<Rightarrow> Some v | None \<Rightarrow>
     (case map_of (lineageView s) k of Some v \<Rightarrow> Some v | None \<Rightarrow>
     (case map_of (Run_State.text_field ''session_key'' (nonempty (rs_session_key s))) k of Some v \<Rightarrow> Some v | None \<Rightarrow>
     (case map_of [(''status'', JStr (if list_ex pending_request i then ''input_required'' else ''working'')),
       (''started_at'', JStr (rs_started_at s)), (''input_requests_dir'', JStr (rs_inputs_dir s)),
       (''input_requests'', JArr i)] k of Some v \<Rightarrow> Some v | None \<Rightarrow>
     (case map_of (admissionView rt s) k of Some v \<Rightarrow> Some v | None \<Rightarrow>
     (case map_of (activeProgressView rt n s) k of Some v \<Rightarrow> Some v | None \<Rightarrow>
     (case map_of (activationView s) k of Some v \<Rightarrow> Some v | None \<Rightarrow>
      map_of (Run_State.text_field ''partial_output_path'' (nonempty (rs_partial_output s))) k))))))))"
  unfolding activeRunTaskView_def jget.simps map_of_app by (intro option.case_cong refl)

lemma active_view_fields:
  "jget (activeRunTaskView rt n s i) ''run_id'' = Some (JStr (rs_run_id s))"
  "jget (activeRunTaskView rt n s i) ''status'' = Some (JStr (if list_ex pending_request i then ''input_required'' else ''working''))"
  "jget (activeRunTaskView rt n s i) ''active_phase'' = Some (JStr (phase_text (rs_phase s)))"
  "jget (activeRunTaskView rt n s i) ''input_requests'' = Some (JArr i)"
  "jget (activeRunTaskView rt n s i) ''recent_events'' = Some (JArr (rs_events s))"
  "jget (activeRunTaskView rt n s i) ''child_started'' = Some (JBool (rs_child_started s))"
  by (simp_all add: active_view_field contractFields_def activeProgressView_def map_of_progress map_of_lineage map_of_admission child_started_view map_of_activation
      progress_fields_def)

section \<open>The view of a failure\<close>

lemma error_view_field:
  "jget (errorView rt now n s i e) k = (case map_of contractFields k of Some v \<Rightarrow> Some v | None \<Rightarrow>
     (case map_of [(''run_id'', JStr (rs_run_id s)), (''task_id'', JStr (rs_run_id s)), (''task_kind'', JStr (rs_task_kind s))] k of
        Some v \<Rightarrow> Some v | None \<Rightarrow>
     (case map_of (lineageView s) k of Some v \<Rightarrow> Some v | None \<Rightarrow>
     (case map_of (activationView s) k of Some v \<Rightarrow> Some v | None \<Rightarrow>
     (case map_of (Run_State.text_field ''session_key'' (nonempty (rs_session_key s))) k of Some v \<Rightarrow> Some v | None \<Rightarrow>
     (case map_of [(''status'', JStr (owner_status s)), (''started_at'', JStr (rs_started_at s))] k of Some v \<Rightarrow> Some v | None \<Rightarrow>
     (case map_of (Run_State.text_field ''finished_at'' (rs_finished_at s)) k of Some v \<Rightarrow> Some v | None \<Rightarrow>
     (case map_of [(''input_requests_dir'', JStr (rs_inputs_dir s)), (''input_requests'', JArr i)] k of Some v \<Rightarrow> Some v | None \<Rightarrow>
     (case map_of (admissionView rt s) k of Some v \<Rightarrow> Some v | None \<Rightarrow>
     (case map_of (shown_envelope rt s e (nullish (rs_finished_at s) now)) k of Some v \<Rightarrow> Some v | None \<Rightarrow>
     (case map_of (activeProgressView rt n s) k of Some v \<Rightarrow> Some v | None \<Rightarrow>
      map_of (if cancelled_before_launch s then [] else [(''error'', JStr (message_of e))]) k)))))))))))"
  unfolding errorView_def jget.simps map_of_app by (intro option.case_cong refl)

definition envelope_fields :: "string list" where
  "envelope_fields = [''success'', ''exit_code'', ''timed_out'', ''partial_output_available'', ''resume_possible'',
     ''duration_ms'', ''requested_timeout_ms'', ''resolved_timeout_ms'', ''effective_timeout_ms'', ''session_id'',
     ''session_established'', ''output_references'', ''error_class'', ''reason_code'']"

lemma map_of_envelope_other: "k \<notin> set envelope_fields \<Longrightarrow> map_of (shown_envelope rt s e f) k = None"
  by (auto simp: map_of_eq_None_iff shown_envelope_def state_failure_envelope_def syntheticTerminalFailureEnvelope_def
      envelope_fields_def)

lemmas view_field_simps = contractFields_def activeProgressView_def map_of_progress map_of_lineage map_of_admission
  child_started_view map_of_activation progress_fields_def map_of_envelope_other envelope_fields_def

lemma error_view_fields:
  "jget (errorView rt now n s i e) ''run_id'' = Some (JStr (rs_run_id s))"
  "jget (errorView rt now n s i e) ''status'' = Some (JStr (owner_status s))"
  "jget (errorView rt now n s i e) ''recent_events'' = Some (JArr (rs_events s))"
  "jget (errorView rt now n s i e) ''child_started'' = Some (JBool (rs_child_started s))"
  "jget (errorView rt now n s i e) ''stop_reason'' = None"
  "jget (errorView rt now n s i e) ''finished_at'' = map_option JStr (rs_finished_at s)"
  "\<not> cancelled_before_launch s \<Longrightarrow> jget (errorView rt now n s i e) ''error'' = Some (JStr (message_of e))"
  by (simp_all add: error_view_field view_field_simps split: option.split)

lemma error_view_taxonomy:
  "\<not> cancelled_before_launch s \<Longrightarrow>
   jget (errorView rt now n s i e) ''error_class'' = Some (JStr (fst (errorTaxonomyForError e)))"
  "\<not> cancelled_before_launch s \<Longrightarrow>
   jget (errorView rt now n s i e) ''reason_code'' = Some (JStr (snd (errorTaxonomyForError e)))"
  by (simp_all add: error_view_field view_field_simps shown_envelope_def state_failure_envelope_def
      syntheticTerminalFailureEnvelope_def)

section \<open>The view of a result\<close>

lemma terminal_progress_other: "k \<notin> set progress_fields \<Longrightarrow> jget (terminalProgressView now s r) k = None"
  by (simp add: terminalProgressView_def Let_def map_of_progress(4)) (simp add: progress_fields_def)

lemma terminal_progress_phase:
  "jget (terminalProgressView now s r) ''active_phase'' = Some (JStr (phase_text (td_phase (terminalRunTaskEventDetails (result_status_input r)))))"
  by (simp add: terminalProgressView_def Let_def)

lemma terminal_progress_events:
  "\<exists>es. jget (terminalProgressView now s r) ''recent_events'' = Some (JArr es) \<and>
     set es \<subseteq> insert (public_event Kind_terminal (td_event (terminalRunTaskEventDetails (result_status_input r)))
       (td_text (terminalRunTaskEventDetails (result_status_input r))) (nullish (rs_finished_at s) now)
       (Some (result_event_metadata r))) (set (rs_events s))"
  using recent_json_sub by (fastforce simp: terminalProgressView_def Let_def)

lemma result_view_field:
  "jget (resultView rt now s i r) k = (case jget (terminalProgressView now s r) k of Some v \<Rightarrow> Some v | None \<Rightarrow>
     (case (if k = ''finished_at'' then map_option JStr (rs_finished_at s)
        else (case map_of [(''run_id'', JStr (rs_run_id s)), (''task_id'', JStr (rs_run_id s)), (''task_kind'', JStr (rs_task_kind s))] k of
            Some v \<Rightarrow> Some v | None \<Rightarrow>
          (case map_of (lineageView s) k of Some v \<Rightarrow> Some v | None \<Rightarrow>
          (case map_of [(''status'', JStr (status_text (terminalRunTaskStatus (result_status_input r)))),
            (''started_at'', JStr (rs_started_at s)), (''input_requests_dir'', JStr (rs_inputs_dir s)),
            (''input_requests'', JArr i)] k of Some v \<Rightarrow> Some v | None \<Rightarrow> map_of (admissionView rt s) k)))) of
        Some v \<Rightarrow> Some v | None \<Rightarrow>
     (case map_of (activationView s) k of Some v \<Rightarrow> Some v | None \<Rightarrow>
     (case jget r k of Some v \<Rightarrow> Some v | None \<Rightarrow> map_of contractFields k))))"
  unfolding resultView_def jget_spread jget_with_field jget.simps map_of_app by (intro option.case_cong refl)

definition owner_result_fields :: "string list" where
  "owner_result_fields = [''contract_name'', ''contract_version'', ''run_id'', ''task_id'', ''task_kind'', ''parent_run_id'',
     ''root_run_id'', ''recursion_depth'', ''child_run_ids'', ''descendant_run_ids'', ''descendant_terminal_statuses'',
     ''status'', ''started_at'', ''finished_at'', ''input_requests_dir'', ''input_requests'', ''child_started'',
     ''queued_at'', ''child_started_at'', ''queue_wait_ms'', ''client_start_binding'', ''requested_effect_profile'',
     ''expected_skill_sha256'', ''resolved_effect_profile'', ''activation_receipt'', ''skill_snapshot_binding'',
     ''skill_snapshot_activation_receipt'', ''requested_recursive_delegation'', ''resolved_recursive_delegation'',
     ''recursive_delegation_receipt'', ''requested_system_skill'', ''requested_specialist_catalogue_scope'',
     ''system_skill_activation_receipt''] @ progress_fields"

text \<open>Every other field of the view is the result's own.\<close>

lemma result_view_own: "k \<notin> set owner_result_fields \<Longrightarrow> jget (resultView rt now s i r) k = jget r k"
  unfolding result_view_field owner_result_fields_def
  by (simp add: terminal_progress_other contractFields_def map_of_lineage map_of_admission map_of_activation split: option.split)

lemma result_view_fields:
  "jget (resultView rt now s i r) ''run_id'' = Some (JStr (rs_run_id s))"
  "jget (resultView rt now s i r) ''task_kind'' = Some (JStr (rs_task_kind s))"
  "jget (resultView rt now s i r) ''status'' = Some (JStr (status_text (terminalRunTaskStatus (result_status_input r))))"
  by (simp_all add: result_view_field view_field_simps terminal_progress_other)

end
