(* ===== verification/Settled_Views.thy ===== *)
theory Settled_Views
  imports Run_Settlement View_Fields
begin

text \<open>
  What the record demands of the view that a transition writes: \<open>stored_as\<close> relates a view to the forms in which it is
  stored, and a successful write or settlement stores a form that the snapshot checks of \<open>Run_View\<close> accept and
  that keeps the claims of the record before it. The rest follows a draft through the settlement: what it leaves
  alone, which outcome it gives the run, and what its view shows.
\<close>

section \<open>The view that a write stores\<close>

definition stored_as :: "json \<Rightarrow> json \<Rightarrow> bool" where
  "stored_as view v \<longleftrightarrow>
     (\<forall>k. k \<notin> set volatile_fields \<longrightarrow> k \<noteq> ''recent_events'' \<longrightarrow> jget v k = jget view k) \<and>
     set (elements (jget v ''recent_events'')) \<subseteq> set (elements (jget view ''recent_events''))"

lemma stored_field:
  "stored_as view v \<Longrightarrow> k \<notin> set volatile_fields \<Longrightarrow> k \<noteq> ''recent_events'' \<Longrightarrow> jget v k = jget view k"
  by (simp add: stored_as_def)

lemma stored_text: "stored_as view v \<Longrightarrow> k \<notin> set volatile_fields \<Longrightarrow> k \<noteq> ''recent_events'' \<Longrightarrow> has_text v k = has_text view k"
  by (simp add: has_text_def fun_eq_iff stored_field)

lemma elements_arr [simp]: "elements (Some (JArr es)) = es"
  by (simp add: elements_def array_of_def)

lemma elements_array: "array_of v = Some es \<Longrightarrow> elements v = es"
  by (simp add: elements_def)

lemma snapshot_stored: "stored_as view (runClaimSnapshot view)"
proof -
  have "set (elements (jget (runClaimSnapshot view) ''recent_events'')) \<subseteq> set (elements (jget view ''recent_events''))"
  proof (cases "isTerminalView view \<or> array_of (jget view ''recent_events'') = None")
    case True
    then show ?thesis using snapshot_form(1) by (simp add: elements_def)
  next
    case False
    then obtain es where es: "array_of (jget view ''recent_events'') = Some es" and nt: "\<not> isTerminalView view" by auto
    show ?thesis unfolding snapshot_form(2)[OF nt es] elements_array[OF es] by auto
  qed
  then show ?thesis by (simp add: stored_as_def snapshot_get)
qed

lemma stored_trans: "stored_as a b \<Longrightarrow> stored_as b c \<Longrightarrow> stored_as a c"
  unfolding stored_as_def by auto

lemma terminal_events_sub: "set (terminal_events_json es) \<subseteq> set es"
  using recent_events_sub[of "view_events es"] view_events_nth
  by (fastforce simp: terminal_events_json_def terminalEventsProjection_def)

lemma terminal_stored: "stored_as view (terminal_snapshot view)"
proof -
  have "''last_public_output_excerpt'' \<in> set volatile_fields" by (simp add: volatile_fields_def)
  moreover have "set (elements (jget (terminal_snapshot view) ''recent_events'')) \<subseteq> set (elements (jget view ''recent_events''))"
    using subset_trans[OF terminal_events_sub filter_is_subset] by (simp add: terminal_snapshot_def Let_def)
  ultimately show ?thesis by (auto simp: stored_as_def terminal_snapshot_def Let_def)
qed

lemma record_stored:
  assumes "plain_view w" and "set (map fst b) \<subseteq> set claim_fields"
  shows "stored_as w (currentRunClaimView (spread w (JObj b)))"
proof -
  obtain a where w: "w = JObj a" using assms(1) by (cases w) (simp_all add: plain_view_def is_object_def)
  have absent: "map_of a k = None" if "k \<in> set claim_fields" for k
    using assms(1) that by (simp add: plain_view_def w list_all_iff)
  have keys: "k \<in> set claim_fields" if "(k, v) \<in> set b" for k v using assms(2) that by force
  have "spread w (JObj b) = JObj (a @ b)"
    unfolding spread_def w fields_of_JObj by (rule arg_cong[where f = JObj], rule spread_absent, rule absent, rule keys)
  moreover have "filter (\<lambda>(k, _). k \<notin> set claim_fields) b = []" using keys by (auto simp: filter_empty_conv)
  moreover have "without claim_fields w = w" using assms(1) by (simp add: plain_view_def without_absent)
  ultimately have view: "without claim_fields (spread w (JObj b)) = w" by (simp add: without_def w)
  have "''last_public_output_excerpt'' \<in> set volatile_fields" by (simp add: volatile_fields_def)
  then show ?thesis by (auto simp: currentRunClaimView_def view Let_def stored_as_def)
qed

lemma assert_record_view: "assertRunOwnerRecord rt r = Inr () \<Longrightarrow> assertCurrentRunTaskSnapshot rt (currentRunClaimView r) None = Inr ()"
  unfolding assertRunOwnerRecord_def Let_def invalidOwnerRecord_def by (simp split: if_splits)

text \<open>A write that is not a late result over a restart-drift record stores a valid form of the view, which keeps
  the claims of the record before it.\<close>

lemma written_view_valid:
  assumes "writeRunClaimOwned rt dir view evidence = Inr (dir', s)" and "plain_view view"
    and "\<not> (isTerminalView view \<and> \<not> isRestartDriftSnapshot view \<and>
           (\<exists>c. claim_at rt dir (text_or [] (jget view ''run_id'')) = Some c \<and> isRestartDriftSnapshot c))"
  shows "(\<exists>v. stored_as view v \<and> assertCurrentRunTaskSnapshot rt v None = Inr ()) \<and>
    (\<exists>next. stored_as view next \<and>
       assertOwnerViewTransition rt (claim_at rt dir (text_or [] (jget view ''run_id''))) next = Inr ())"
proof -
  define rid where "rid = text_or [] (jget view ''run_id'')"
  let ?snap = "if isTerminalView view then terminal_snapshot view else view"
  have plain: "plain_view ?snap" using assms(2) terminal_snapshot_plain by simp
  have stored: "stored_as view ?snap" using terminal_stored by (simp add: stored_as_def)
  obtain old where old: "(case readRunOwnerRecordFile rt dir (taskRecordPath rid) of
           Inl e \<Rightarrow> if is_enoent e then Inr None else Inl e | Inr r \<Rightarrow> Inr r) = Inr old"
    using assms(1) unfolding writeRunClaimOwned_def Let_def rid_def[symmetric] bind_result_Inr_iff by blast
  have claim: "claim_at rt dir rid = map_option (\<lambda>r. runClaimSnapshot (currentRunClaimView r)) old"
    using old by (auto simp: claim_at_def split: sum.splits option.splits if_splits)
  note run = assms(1)[unfolded writeRunClaimOwned_def Let_def rid_def[symmetric] old bind_result.simps claim[symmetric]]
  have finish: ?thesis if "assertOwnerViewTransition rt (claim_at rt dir rid) (runClaimSnapshot ?snap) = Inr ()"
    "bind_result (ownerRecordForSnapshot rt ?snap old evidence) (\<lambda>r.
       bind_result (assertRunOwnerRecord rt r) (\<lambda>_. Inr (dir_replace dir (taskRecordPath rid) (JsonFile r), ?snap))) = Inr (dir', s)"
  proof -
    from that(2) obtain r where r: "ownerRecordForSnapshot rt ?snap old evidence = Inr r" "assertRunOwnerRecord rt r = Inr ()"
      unfolding bind_result_Inr_iff by auto
    obtain b where b: "r = spread (runClaimSnapshot ?snap) (JObj b)" "set (map fst b) \<subseteq> set claim_fields"
      using record_form[OF r(1)] by blast
    have snap: "stored_as view (runClaimSnapshot ?snap)" using stored snapshot_stored by (rule stored_trans)
    have "stored_as view (currentRunClaimView r)"
      unfolding b(1) by (rule stored_trans[OF snap record_stored[OF snapshot_plain[OF plain] b(2)]])
    with assert_record_view[OF r(2)] snap that(1) show ?thesis unfolding rid_def[symmetric] by blast
  qed
  show ?thesis
  proof (cases "claim_at rt dir rid")
    case None
    have "assertOwnerViewTransition rt (claim_at rt dir rid) (runClaimSnapshot ?snap) = Inr ()"
      by (simp add: None assertOwnerViewTransition_def)
    then show ?thesis by (rule finish) (rule run[unfolded None option.case])
  next
    case (Some e)
    have no: "\<not> (isRestartDriftSnapshot e \<and> isTerminalView view \<and> \<not> isRestartDriftSnapshot view)"
      using assms(3) Some unfolding rid_def by auto
    have "bind_result (assertOwnerViewTransition rt (Some e) (runClaimSnapshot ?snap)) (\<lambda>_.
        bind_result (ownerRecordForSnapshot rt ?snap old evidence) (\<lambda>r.
          bind_result (assertRunOwnerRecord rt r) (\<lambda>_. Inr (dir_replace dir (taskRecordPath rid) (JsonFile r), ?snap)))) = Inr (dir', s)"
      using run[unfolded Some option.case if_not_P[OF no]] .
    then show ?thesis using finish unfolding Some[symmetric] by (auto simp: bind_result_Inr_iff)
  qed
qed

section \<open>What a settlement writes\<close>

lemma drift_is_terminal: "isRestartDriftSnapshot (runClaimSnapshot v) \<Longrightarrow> isTerminalView v"
proof -
  assume "isRestartDriftSnapshot (runClaimSnapshot v)"
  then have "isTerminalView (runClaimSnapshot v)"
    by (simp add: isRestartDriftSnapshot_def isTerminalView_def status_of_def has_text_def terminal_status_texts_def text_of_def)
  then show ?thesis by simp
qed

lemma claim_read:
  "claim_at rt dir rid = Some c \<Longrightarrow> \<exists>v. readTaskSnapshot rt dir rid = Inr (Some v) \<and> c = runClaimSnapshot v"
  by (auto simp: claim_at_def readTaskSnapshot_def readPersistedRunView_def split: sum.splits option.splits)

lemma persisted:
  "persist_draft env t u draft dir = Inr r \<Longrightarrow> \<exists>ev. writeRunClaimOwned (le_rt env) dir
     (runTaskViewFromState (le_rt env) (at_text t) (at_ms t) draft (rs_inputs draft) u) ev = Inr r"
  unfolding persist_draft_def bind_result_Inr_iff by blast

lemma settled_draft:
  assumes "snd (settleRunClaim env t reason ti w) = Inr (Settled_run c)"
  shows "\<exists>draft dir. settlement_draft (le_rt env) ti reason (at_text t) (rw_state w) = Inr draft \<and>
    persist_draft env t True draft (rw_dir w) = Inr (dir, c) \<and>
    (\<forall>v. readTaskSnapshot (le_rt env) (rw_dir w) (rs_run_id (rw_state w)) = Inr (Some v) \<longrightarrow> \<not> isTerminalView v)"
proof (cases "readTaskSnapshot (le_rt env) (rw_dir w) (rs_run_id (rw_state w))")
  case (Inl e)
  then show ?thesis using assms by (simp add: settleRunClaim_def)
next
  case (Inr existing)
  then show ?thesis using assms unfolding settleRunClaim_def Let_def
    by (cases "settlement_draft (le_rt env) ti reason (at_text t) (rw_state w)")
      (auto split: sum.splits if_splits option.splits)
qed

lemma settled_valid:
  assumes "snd (settleRunClaim env t reason ti w) = Inr (Settled_run c)"
    and "settlement_draft (le_rt env) ti reason (at_text t) (rw_state w) = Inr draft"
    and "view = runTaskViewFromState (le_rt env) (at_text t) (at_ms t) draft (rs_inputs draft) True"
    and "plain_view view" and "text_or [] (jget view ''run_id'') = rs_run_id (rw_state w)"
  shows "(\<exists>v. stored_as view v \<and> assertCurrentRunTaskSnapshot (le_rt env) v None = Inr ()) \<and>
    (\<exists>next. stored_as view next \<and>
       assertOwnerViewTransition (le_rt env) (claim_at (le_rt env) (rw_dir w) (rs_run_id (rw_state w))) next = Inr ())"
proof -
  from settled_draft[OF assms(1)] assms(2) obtain dir where
    p: "persist_draft env t True draft (rw_dir w) = Inr (dir, c)" and
    ex: "\<And>v. readTaskSnapshot (le_rt env) (rw_dir w) (rs_run_id (rw_state w)) = Inr (Some v) \<Longrightarrow> \<not> isTerminalView v"
    by auto
  from persisted[OF p] obtain ev where "writeRunClaimOwned (le_rt env) (rw_dir w) view ev = Inr (dir, c)"
    unfolding assms(3)[symmetric] by blast
  moreover have "\<not> (\<exists>c. claim_at (le_rt env) (rw_dir w) (rs_run_id (rw_state w)) = Some c \<and> isRestartDriftSnapshot c)"
    using claim_read drift_is_terminal ex by metis
  ultimately show ?thesis using written_view_valid[of "le_rt env" "rw_dir w" view ev] assms(4,5) by fastforce
qed

text \<open>What the settlement leaves alone, and the events it adds.\<close>

definition same_run :: "run_state \<Rightarrow> run_state \<Rightarrow> bool" where
  "same_run a b \<longleftrightarrow> rs_run_id b = rs_run_id a \<and> rs_task_kind b = rs_task_kind a \<and>
     rs_cancel_requested b = rs_cancel_requested a \<and> rs_child_started b = rs_child_started a"

lemma status_event_state:
  "same_run s (projectStatusEvent e m s)" "rs_result (projectStatusEvent e m s) = rs_result s"
  "rs_error (projectStatusEvent e m s) = rs_error s" "rs_finished_at (projectStatusEvent e m s) = rs_finished_at s"
  "rs_inputs (projectStatusEvent e m s) = rs_inputs s"
  "rs_events (projectStatusEvent e m s) = recent_events_json (rs_events s @ [canonical_event e])"
  by (simp_all add: projectStatusEvent_def projectPublicEvent_def setTaskProgress_def same_run_def Let_def)

lemma phase_state:
  "same_run s (setTaskPhase p t s)" "rs_result (setTaskPhase p t s) = rs_result s"
  "rs_error (setTaskPhase p t s) = rs_error s" "rs_finished_at (setTaskPhase p t s) = rs_finished_at s"
  "rs_inputs (setTaskPhase p t s) = rs_inputs s" "rs_events (setTaskPhase p t s) = rs_events s"
  by (simp_all add: setTaskPhase_def same_run_def)

lemma closed_events_state:
  "same_run s (appendClosedInputEvents gone s) \<and> rs_result (appendClosedInputEvents gone s) = rs_result s \<and>
   rs_error (appendClosedInputEvents gone s) = rs_error s \<and>
   rs_finished_at (appendClosedInputEvents gone s) = rs_finished_at s"
proof (induction gone arbitrary: s)
  case Nil
  then show ?case by (simp add: appendClosedInputEvents_def same_run_def)
next
  case (Cons g gone)
  let ?s = "projectStatusEvent (input_closed_event g) ''input request closed'' s"
  have "appendClosedInputEvents (g # gone) s = appendClosedInputEvents gone ?s" by (simp add: appendClosedInputEvents_def)
  then show ?case using Cons[of ?s] status_event_state[where s = s] by (simp add: same_run_def)
qed

text \<open>The draft once its outcome is fixed and before its questions are closed.\<close>

definition outcome_state :: "terminal_intent \<Rightarrow> string \<Rightarrow> run_state \<Rightarrow> run_state" where
  "outcome_state ti now s = (normalizeOwnerTerminalError (normalizeAcceptedCancellation
     ((release_outputs ti (s\<lparr>rs_result := ti_result ti, rs_error := ti_error ti\<rparr>))
        \<lparr>rs_terminalizing := True, rs_finished_at := Some now\<rparr>)))\<lparr>rs_control := False\<rparr>"

lemma intended_eq: "\<exists>gone inputs. intended ti reason now s = appendClosedInputEvents gone ((outcome_state ti now s)\<lparr>rs_inputs := inputs\<rparr>)"
  unfolding intended_def outcome_state_def Let_def case_prod_beta by blast

lemma release_state:
  "release_outputs ti s = s \<or> release_outputs ti s = s\<lparr>rs_pending_outputs := None\<rparr>"
  by (auto simp: release_outputs_def split: option.split sum.split)

definition kept_run :: "run_state \<Rightarrow> run_state \<Rightarrow> bool" where
  "kept_run a b \<longleftrightarrow> same_run a b \<and> rs_finished_at b = rs_finished_at a \<and> rs_events b = rs_events a \<and>
     (resident_ok a \<longrightarrow> resident_ok b)"

lemma kept_trans_run: "kept_run a b \<Longrightarrow> kept_run b c \<Longrightarrow> kept_run a c"
  by (simp add: kept_run_def same_run_def)

lemma kept_updates:
  "kept_run s (s\<lparr>rs_result := r\<rparr>)" "kept_run s (s\<lparr>rs_error := e\<rparr>)" "kept_run s (s\<lparr>rs_pending_outputs := p\<rparr>)"
  "kept_run s (s\<lparr>rs_terminalizing := x\<rparr>)" "kept_run s (s\<lparr>rs_control := x\<rparr>)" "kept_run s s"
  by (simp_all add: kept_run_def same_run_def resident_ok_def)

lemma kept_cancellation:
  "kept_run s (normalizeAcceptedCancellation s) \<and>
   rs_result (normalizeAcceptedCancellation s) \<in> {None, rs_result s, map_option cancelled_result (rs_result s)}"
proof (cases "rs_result s")
  case None
  then show ?thesis by (simp add: normalizeAcceptedCancellation_def kept_updates)
next
  case (Some r)
  consider "\<not> rs_cancel_requested s" | "rs_cancel_requested s" "has_text r ''stop_reason'' ''cancelled''" "rs_child_started s"
    | "rs_cancel_requested s" "has_text r ''stop_reason'' ''cancelled''" "\<not> rs_child_started s"
    | "rs_cancel_requested s" "\<not> has_text r ''stop_reason'' ''cancelled''" by blast
  then show ?thesis
  proof cases
    case 3
    with Some show ?thesis
      using kept_trans_run[OF kept_updates(1)[of s None] kept_updates(2)] by (simp add: normalizeAcceptedCancellation_def)
  qed (simp_all add: normalizeAcceptedCancellation_def Some kept_updates)
qed

lemma kept_terminal_error:
  "kept_run s (normalizeOwnerTerminalError s) \<and> rs_result (normalizeOwnerTerminalError s) = rs_result s"
  by (cases "rs_error s") (simp_all add: normalizeOwnerTerminalError_def kept_updates)

lemma outcome_facts:
  fixes ti now s
  defines "n \<equiv> outcome_state ti now s"
  shows "same_run s n" "rs_finished_at n = Some now" "rs_events n = rs_events s"
    "rs_result n \<in> {None, ti_result ti, map_option cancelled_result (ti_result ti)}"
    "resident_ok s \<Longrightarrow> resident_ok n"
proof -
  let ?a = "s\<lparr>rs_result := ti_result ti, rs_error := ti_error ti\<rparr>"
  let ?b = "release_outputs ti ?a"
  let ?c = "?b\<lparr>rs_terminalizing := True, rs_finished_at := Some now\<rparr>"
  let ?d = "normalizeAcceptedCancellation ?c"
  have "kept_run s ?a" by (rule kept_trans_run[OF kept_updates(1) kept_updates(2)])
  moreover have b: "kept_run ?a ?b" "rs_result ?b = ti_result ti"
    using release_state[of ti ?a] kept_updates(3,6) by auto
  moreover have "same_run ?b ?c" "rs_events ?c = rs_events ?b" "resident_ok ?b \<longrightarrow> resident_ok ?c" "rs_result ?c = rs_result ?b"
    by (simp_all add: same_run_def resident_ok_def)
  moreover have "kept_run ?c ?d" "rs_result ?d \<in> {None, rs_result ?c, map_option cancelled_result (rs_result ?c)}"
    using kept_cancellation[of ?c] by blast+
  moreover have "kept_run ?d (normalizeOwnerTerminalError ?d)" "rs_result (normalizeOwnerTerminalError ?d) = rs_result ?d"
    using kept_terminal_error[of ?d] by blast+
  moreover have "kept_run (normalizeOwnerTerminalError ?d) n" "rs_result n = rs_result (normalizeOwnerTerminalError ?d)"
    unfolding n_def outcome_state_def by (simp_all add: kept_updates(5))
  ultimately show "same_run s n" "rs_finished_at n = Some now" "rs_events n = rs_events s"
    "rs_result n \<in> {None, ti_result ti, map_option cancelled_result (ti_result ti)}"
    "resident_ok s \<Longrightarrow> resident_ok n" by (simp_all add: kept_run_def same_run_def)
qed

lemma outcome_of_failure:
  assumes "ti_result ti = None" and "ti_error ti = Some e" and "\<not> blank (message_of e)"
  shows "rs_result (outcome_state ti now s) = None" "rs_error (outcome_state ti now s) = Some e"
  using assms by (simp_all add: outcome_state_def release_outputs_def normalizeOwnerTerminalError_def
      normalizeAcceptedCancellation_def split: option.split)

lemma outcome_of_cancelled_result:
  assumes "ti_result ti = Some r" and "ti_error ti = None" and "rs_cancel_requested s" and "\<not> has_text r ''stop_reason'' ''cancelled''"
  shows "rs_result (outcome_state ti now s) = Some (cancelled_result r)" "rs_error (outcome_state ti now s) = None"
  using assms release_state[of ti "s\<lparr>rs_result := ti_result ti, rs_error := ti_error ti\<rparr>"]
  by (auto simp: outcome_state_def normalizeOwnerTerminalError_def normalizeAcceptedCancellation_def)

lemma intended_facts:
  fixes ti reason now s
  defines "n \<equiv> outcome_state ti now s" and "i \<equiv> intended ti reason now s"
  shows "same_run s i" "rs_result i = rs_result n" "rs_error i = rs_error n" "rs_finished_at i = Some now"
    "resident_ok s \<Longrightarrow> resident_ok i"
proof -
  obtain gone inputs where i: "i = appendClosedInputEvents gone (n\<lparr>rs_inputs := inputs\<rparr>)"
    using intended_eq[of ti reason now s] unfolding n_def i_def by blast
  note c = closed_events_state[of "n\<lparr>rs_inputs := inputs\<rparr>" gone, folded i]
  show "same_run s i" using c outcome_facts(1)[of s ti now, folded n_def] by (simp add: same_run_def)
  show "rs_result i = rs_result n" "rs_error i = rs_error n" using c by simp_all
  show "rs_finished_at i = Some now" using c outcome_facts(2)[of ti now s, folded n_def] by simp
  assume "resident_ok s"
  then have "resident_ok n" unfolding n_def by (rule outcome_facts(5))
  then show "resident_ok i" unfolding i by (intro ok_closed_events ok_inputs)
qed

section \<open>Views of a settled draft\<close>

lemma settled_view:
  assumes "rs_settled draft"
  shows "runTaskViewFromState rt now ms draft inputs True =
    (case rs_result draft of Some r \<Rightarrow> resultView rt now draft inputs r
     | None \<Rightarrow> (case rs_error draft of Some e \<Rightarrow> errorView rt now ms draft inputs e
       | None \<Rightarrow> activeRunTaskView rt ms draft inputs))"
  using assms by (simp add: runTaskViewFromState_def)

lemma plain_views: "plain_view (errorView rt now ms s i e)" "plain_view (activeRunTaskView rt ms s i)"
  unfolding plain_view_def claim_fields_def list.pred_inject
  by (simp add: error_view_field view_field_simps, simp add: is_object_def errorView_def)
    (simp add: active_view_field view_field_simps, simp add: is_object_def activeRunTaskView_def)

lemma plain_result: "plain_view r \<Longrightarrow> plain_view (resultView rt now s i r)"
proof -
  assume "plain_view r"
  then have "jget (resultView rt now s i r) k = None" if "k \<in> set claim_fields" for k
    using that by (auto simp: plain_view_def claim_fields_def result_view_own owner_result_fields_def progress_fields_def)
  then show ?thesis by (simp add: plain_view_def list_all_iff resultView_def)
qed

lemma plain_cancelled: "plain_view r \<Longrightarrow> plain_view (cancelled_result r)"
  by (simp add: plain_view_def cancelled_result_def claim_fields_def)

end
