(* ===== verification/Stuck_Runs.thy ===== *)
theory Stuck_Runs
  imports Settled_Views
begin

text \<open>
  Runs that can never settle because their last view does not meet the checks of their record: an error text that
  the event window shortens, a cancellation event that has left the window, a cancelled session whose run record kept
  its own stop reason; and a question that is open while the child prints, which blocks every update of the record.
\<close>

section \<open>A failure whose text the event window shortens\<close>

lemma failure_draft:
  assumes "settlement_draft rt ti reason now s = Inr draft"
    and "ti_result ti = None" and "ti_error ti = Some e" and "\<not> blank (message_of e)"
  shows "rs_settled draft" "same_run s draft" "rs_result draft = None" "rs_error draft = Some e"
    "rs_finished_at draft = Some now" "resident_ok s \<Longrightarrow> resident_ok draft"
proof -
  let ?i = "intended ti reason now s"
  note i = intended_facts[where ti = ti and reason = reason and now = now and s = s] outcome_of_failure[OF assms(2-4)]
  obtain d where d: "append_error_event rt now e ?i = Inr d" "draft = d\<lparr>rs_settled := True\<rparr>"
    using assms(1,2) i(2,3,4,6,7)
    by (auto simp: settlement_draft_def appendTerminalEvent_def bind_result_Inr_iff invalidOwnerRecord_def split: if_splits)
  obtain p x m where form: "d = setTaskPhase p now (projectStatusEvent x m ?i)"
    using d(1) by (auto simp: append_error_event_def split: option.splits)
  show "rs_settled draft" "same_run s draft" "rs_result draft = None" "rs_error draft = Some e" "rs_finished_at draft = Some now"
    using i phase_state status_event_state[where s = ?i] by (simp_all add: d(2) form same_run_def)
  assume "resident_ok s"
  then have "resident_ok d" unfolding form by (intro ok_phase ok_status_event i(5))
  then show "resident_ok draft" by (simp add: d(2) resident_ok_def)
qed

lemma exact_event:
  "hasExactOwnerTerminalEvent rt v oe \<Longrightarrow> \<exists>e \<in> set (elements (jget v ''recent_events'')). has_text e ''text'' (oe_text oe)"
  by (auto simp: hasExactOwnerTerminalEvent_def split: list.splits dest!: filter_eq_ConsD)

lemma owner_text:
  assumes "assertCurrentRunTaskSnapshot rt v None = Inr ()" and "has_text v ''status'' ''failed''"
    and "jget v ''stop_reason'' = None" and "jget v ''error'' = Some (JStr m)" and "\<not> blank m"
    and "\<not> has_text v ''error_class'' ''restart_drift''"
  shows "\<exists>e \<in> set (elements (jget v ''recent_events'')). has_text e ''text'' (''[failed] '' @ m)"
proof -
  have "isTerminalView v" using assms(2) by (simp add: isTerminalView_def status_of_def has_text_def terminal_status_texts_def text_of_def)
  then have "hasOwnerTerminalEvidence rt v"
    using assms(1,3) by (simp add: snapshot_ok_iff terminal_source_valid_def hasOwnDefined_def)
  then obtain oe where proj: "ownerTerminalEventProjection rt v = Some oe" and exact: "hasExactOwnerTerminalEvent rt v oe"
    by (auto simp: hasOwnerTerminalEvidence_def derivedOwnerTerminalLifecycle_def Let_def split: option.splits if_splits)
  have "\<not> has_text v ''status'' ''cancelled''" "\<not> restart_drift_fields v" "text_of (jget v ''error'') = Some m"
    using assms(2,4,6) by (simp_all add: has_text_def text_of_def restart_drift_fields_def)
  then have "map_option oe_text (ownerTerminalEventProjection rt v) \<in> {None, Some (''[failed] '' @ m)}"
    using assms(5) by (simp add: ownerTerminalEventProjection_def Let_def split: option.split)
  then show ?thesis using exact_event[OF exact] by (simp add: proj)
qed

lemma failure_text_kept:
  assumes "snd (settleRunClaim env t reason ti w) = Inr (Settled_run c)" and "resident_ok (rw_state w)"
    and "\<not> rs_cancel_requested (rw_state w)" and "ti_result ti = None" and "ti_error ti = Some e" and "\<not> blank (message_of e)"
  shows "length (message_of e) \<le> 3991"
proof -
  obtain draft where draft: "settlement_draft (le_rt env) ti reason (at_text t) (rw_state w) = Inr draft"
    using settled_draft[OF assms(1)] by blast
  note d = failure_draft[OF draft assms(4-6)]
  define view where "view = errorView (le_rt env) (at_text t) (at_ms t) draft (rs_inputs draft) e"
  have view: "view = runTaskViewFromState (le_rt env) (at_text t) (at_ms t) draft (rs_inputs draft) True"
    by (simp add: settled_view d view_def)
  have live: "\<not> rs_cancel_requested draft" "\<not> cancelled_before_launch draft"
    using assms(3) d(2) by (simp_all add: same_run_def cancelled_before_launch_def)
  have "text_or [] (jget view ''run_id'') = rs_run_id (rw_state w)"
    using d(2) by (simp add: view_def error_view_fields text_or_def same_run_def)
  from settled_valid[OF assms(1) draft view _ this] obtain v where
    v: "stored_as view v" "assertCurrentRunTaskSnapshot (le_rt env) v None = Inr ()"
    by (auto simp: view_def plain_views)
  note field = stored_field[OF v(1)]
  have "has_text v ''status'' ''failed''" "jget v ''stop_reason'' = None" "jget v ''error'' = Some (JStr (message_of e))"
    "\<not> has_text v ''error_class'' ''restart_drift''"
    using live by (simp_all add: has_text_def field volatile_fields_def view_def error_view_fields error_view_taxonomy
        owner_status_def errorTaxonomyForError_def)
  from owner_text[OF v(2) this(1-3) assms(6) this(4)] obtain x where
    x: "x \<in> set (elements (jget v ''recent_events''))" "has_text x ''text'' (''[failed] '' @ message_of e)" by blast
  have "x \<in> set (rs_events draft)" using x(1) v(1) by (auto simp: stored_as_def view_def error_view_fields)
  then have "short_event x" using d(6)[OF assms(2)] by (auto simp: resident_ok_def list_all_iff)
  then show ?thesis using x(2) by (simp add: short_event_def has_text_def text_or_def)
qed

section \<open>A cancelled session\<close>

lemma result_events_state:
  "same_run i (append_result_event now r i)" "rs_result (append_result_event now r i) = rs_result i"
  "rs_error (append_result_event now r i) = rs_error i" "rs_finished_at (append_result_event now r i) = rs_finished_at i"
  using status_event_state phase_state
  by (simp_all add: append_result_event_def Let_def same_run_def split: option.split)

lemma result_draft:
  assumes "settlement_draft rt ti reason now s = Inr draft" and "rs_result (outcome_state ti now s) = Some r"
  shows "rs_settled draft" "same_run s draft" "rs_result draft = Some r" "rs_finished_at draft = Some now"
    "draft = (append_result_event now r (intended ti reason now s))\<lparr>rs_settled := True\<rparr>"
proof -
  let ?i = "intended ti reason now s"
  note i = intended_facts[where ti = ti and reason = reason and now = now and s = s] assms(2)
  have "appendTerminalEvent rt now ?i = Inr (append_result_event now r ?i)"
    using i by (simp add: appendTerminalEvent_def)
  then show form: "draft = (append_result_event now r ?i)\<lparr>rs_settled := True\<rparr>"
    using assms(1) by (auto simp: settlement_draft_def bind_result_Inr_iff invalidOwnerRecord_def split: if_splits)
  show "rs_settled draft" "same_run s draft" "rs_result draft = Some r" "rs_finished_at draft = Some now"
    using i result_events_state[where i = ?i and r = r and now = now] by (simp_all add: form same_run_def)
qed

lemma session_record_stop:
  assumes "assertCurrentRunTaskSnapshot rt v None = Inr ()" and "isTerminalView v" and "has_text v ''task_kind'' ''session''"
    and "has_text v ''stop_reason'' x" and "jget v ''run_record'' = Some rec"
  shows "has_text rec ''stop_reason'' x"
proof -
  have "terminal_source_valid rt v" using assms(1,2) by (simp add: snapshot_ok_iff)
  then have "hasSessionTerminalEvidence rt v" using assms(3,4) by (simp add: terminal_source_valid_def hasOwnDefined_def has_text_def)
  then have "list_all (\<lambda>(f, g). strictly_equal (jget rec f) (jget v g)) record_view_fields"
    by (simp add: hasSessionTerminalEvidence_def assms(5) split: option.splits)
  then have "strictly_equal (jget rec ''stop_reason'') (jget v ''stop_reason'')" by (simp add: record_view_fields_def)
  then show ?thesis using assms(4) by (simp add: strictly_equal_def has_text_def)
qed

lemma cancelled_fields:
  "has_text (cancelled_result r) ''stop_reason'' ''cancelled''" "jget (cancelled_result r) ''run_record'' = jget r ''run_record''"
  "terminalRunTaskStatus (result_status_input (cancelled_result r)) = Cancelled"
  by (simp_all add: cancelled_result_def has_text_def terminalRunTaskStatus_def result_status_input_def text_of_def
      stop_reason_texts_def)

lemma cancelled_session_record:
  assumes "snd (settleRunClaim env t reason ti w) = Inr (Settled_run c)" and "rs_cancel_requested (rw_state w)"
    and "rs_task_kind (rw_state w) = ''session''" and "ti_result ti = Some r" and "ti_error ti = None" and "plain_view r"
    and "jget r ''run_record'' = Some rec" and "jget rec ''stop_reason'' = jget r ''stop_reason''"
  shows "has_text r ''stop_reason'' ''cancelled''"
proof (rule ccontr)
  assume other: "\<not> has_text r ''stop_reason'' ''cancelled''"
  obtain draft where draft: "settlement_draft (le_rt env) ti reason (at_text t) (rw_state w) = Inr draft"
    using settled_draft[OF assms(1)] by blast
  note d = result_draft[OF draft outcome_of_cancelled_result(1)[OF assms(4,5,2) other]]
  define view where "view = resultView (le_rt env) (at_text t) draft (rs_inputs draft) (cancelled_result r)"
  have view: "view = runTaskViewFromState (le_rt env) (at_text t) (at_ms t) draft (rs_inputs draft) True"
    by (simp add: settled_view d(1,3) view_def)
  have "text_or [] (jget view ''run_id'') = rs_run_id (rw_state w)"
    using d(2) by (simp add: view_def result_view_fields text_or_def same_run_def)
  from settled_valid[OF assms(1) draft view _ this] obtain v where
    v: "stored_as view v" "assertCurrentRunTaskSnapshot (le_rt env) v None = Inr ()"
    using plain_result[OF plain_cancelled[OF assms(6)]] by (auto simp: view_def)
  have own: "jget view ''stop_reason'' = Some (JStr ''cancelled'')" "jget view ''run_record'' = Some rec"
    using cancelled_fields(1,2)[of r] assms(7) by (simp_all add: view_def result_view_own owner_result_fields_def progress_fields_def has_text_def)
  note field = stored_field[OF v(1)]
  have fields: "has_text v ''status'' ''cancelled''" "has_text v ''task_kind'' ''session''"
    "has_text v ''stop_reason'' ''cancelled''" "jget v ''run_record'' = Some rec"
    using d(2) assms(3) own cancelled_fields(3)[of r]
    by (simp_all add: has_text_def field volatile_fields_def view_def[symmetric])
      (simp_all add: view_def result_view_fields status_text_def same_run_def)
  then have "isTerminalView v" by (simp add: isTerminalView_def status_of_def has_text_def terminal_status_texts_def text_of_def)
  from session_record_stop[OF v(2) this fields(2-4)] show False using other assms(8) by (simp add: has_text_def)
qed

section \<open>A cancellation that has left the window\<close>

definition cancel_event :: "json \<Rightarrow> bool" where
  "cancel_event e \<longleftrightarrow> has_text e ''event'' ''cancellation_requested''"

definition quiet :: "run_state \<Rightarrow> bool" where
  "quiet s \<longleftrightarrow> list_all (\<lambda>e. \<not> cancel_event e) (rs_events s)"

lemma canonical_fields:
  "k \<noteq> ''text'' \<Longrightarrow> k \<noteq> ''schema_version'' \<Longrightarrow> k \<noteq> ''metadata'' \<Longrightarrow> jget (canonical_event e) k = jget e k"
  by (simp add: canonical_event_def Json_Objects.opt_field_def split: option.split)

lemma canonical_cancel [simp]: "cancel_event (canonical_event e) = cancel_event e"
  by (simp add: cancel_event_def has_text_def canonical_fields)

lemma public_event_name: "cancel_event (public_event k n x t m) \<longleftrightarrow> event_name_text n = ''cancellation_requested''"
  by (simp add: cancel_event_def public_event_def has_text_def)

lemma quiet_status: "quiet s \<Longrightarrow> \<not> cancel_event e \<Longrightarrow> quiet (projectStatusEvent e m s)"
  using recent_json_sub[of "rs_events s @ [canonical_event e]"] by (auto simp: quiet_def list_all_iff status_event_state(6))

lemma quiet_phase: "quiet (setTaskPhase p t s) = quiet s"
  by (simp add: quiet_def phase_state)

lemma closed_not_cancel: "\<not> cancel_event (input_closed_event c)"
  by (simp add: input_closed_event_def public_event_name)

lemma quiet_closed: "quiet s \<Longrightarrow> quiet (appendClosedInputEvents gone s)"
  unfolding appendClosedInputEvents_def
  by (induction gone arbitrary: s) (simp_all add: quiet_status closed_not_cancel)

lemma quiet_intended: "quiet s \<Longrightarrow> quiet (intended ti reason now s)"
proof -
  assume "quiet s"
  then have "quiet (outcome_state ti now s)" by (simp add: quiet_def outcome_facts(3))
  moreover obtain gone inputs where
    "intended ti reason now s = appendClosedInputEvents gone ((outcome_state ti now s)\<lparr>rs_inputs := inputs\<rparr>)"
    using intended_eq by blast
  ultimately show ?thesis using quiet_closed by (simp add: quiet_def)
qed

lemma terminal_names:
  "event_name_text (td_event (terminalRunTaskEventDetails i)) \<noteq> ''cancellation_requested''"
  "ownerTerminalEventProjection rt v = Some oe \<Longrightarrow> \<not> cancel_event (owner_event_json oe)"
  "packetTerminalEvent r t = Some e \<Longrightarrow> \<not> cancel_event e"
proof -
  show "event_name_text (td_event (terminalRunTaskEventDetails i)) \<noteq> ''cancellation_requested''"
    by (simp add: terminalRunTaskEventDetails_def)
  show "ownerTerminalEventProjection rt v = Some oe \<Longrightarrow> \<not> cancel_event (owner_event_json oe)"
    by (auto simp: ownerTerminalEventProjection_def cancel_event_def owner_event_json_def has_text_def Let_def
        split: option.splits if_splits)
  show "packetTerminalEvent r t = Some e \<Longrightarrow> \<not> cancel_event e"
    by (auto simp: packetTerminalEvent_def Let_def public_event_name split: option.splits if_splits)
qed

lemma quiet_result: "quiet s \<Longrightarrow> quiet (append_result_event now r s)"
proof -
  assume q: "quiet s"
  have "quiet (case packetTerminalEvent r now of None \<Rightarrow> s | Some e \<Rightarrow> projectStatusEvent e (packet_progress e) s)"
    using q quiet_status terminal_names(3) by (simp split: option.split)
  then show ?thesis using quiet_status public_event_name terminal_names(1)
    by (simp add: append_result_event_def Let_def quiet_phase)
qed

lemma quiet_settlement:
  assumes "settlement_draft rt ti reason now s = Inr draft" and "quiet s"
  shows "quiet draft" "rs_settled draft" "same_run s draft"
    "rs_result draft = rs_result (outcome_state ti now s)" "rs_result draft \<noteq> None \<or> rs_error draft \<noteq> None"
proof -
  let ?i = "intended ti reason now s"
  note i = intended_facts[where ti = ti and reason = reason and now = now and s = s]
  obtain d where d: "appendTerminalEvent rt now ?i = Inr d" "draft = d\<lparr>rs_settled := True\<rparr>" "rs_result d \<noteq> None \<or> rs_error d \<noteq> None"
    using assms(1) by (auto simp: settlement_draft_def bind_result_Inr_iff invalidOwnerRecord_def split: if_splits)
  have q: "quiet ?i" using assms(2) by (rule quiet_intended)
  have "quiet d \<and> same_run ?i d \<and> rs_result d = rs_result ?i"
  proof (cases "rs_result ?i")
    case (Some r)
    then have "d = append_result_event now r ?i" using d(1) i(4) by (simp add: appendTerminalEvent_def)
    then show ?thesis using quiet_result[OF q] result_events_state[where i = ?i and now = now and r = r] by simp
  next
    case None
    show ?thesis
    proof (cases "rs_error ?i")
      case n: None
      then show ?thesis using d(1) None q by (simp add: appendTerminalEvent_def same_run_def)
    next
      case (Some e)
      then obtain oe where "ownerTerminalEventProjection rt (owner_view rt ?i e now) = Some oe"
        and "d = setTaskPhase (if rs_cancel_requested ?i then Phase_cancelled else Phase_failed) now
          (projectStatusEvent (owner_event_json oe) (if rs_cancel_requested ?i then ''run cancelled'' else message_of e) ?i)"
        using d(1) None i(4) by (auto simp: appendTerminalEvent_def append_error_event_def split: option.splits)
      then show ?thesis using quiet_status[OF q terminal_names(2)] status_event_state[where s = ?i] phase_state
        by (simp add: quiet_phase same_run_def)
    qed
  qed
  then show "quiet draft" "rs_settled draft" "same_run s draft" "rs_result draft = rs_result (outcome_state ti now s)"
    "rs_result draft \<noteq> None \<or> rs_error draft \<noteq> None"
    using d(2,3) i by (simp_all add: quiet_def same_run_def)
qed

lemma quiet_view:
  assumes "quiet draft" and "rs_settled draft" and "rs_result draft \<noteq> None \<or> rs_error draft \<noteq> None"
    and "x \<in> set (elements (jget (runTaskViewFromState rt now ms draft inputs True) ''recent_events''))"
  shows "\<not> cancel_event x"
proof (cases "rs_result draft")
  case (Some r)
  let ?d = "terminalRunTaskEventDetails (result_status_input r)"
  obtain es where es: "jget (terminalProgressView now draft r) ''recent_events'' = Some (JArr es)" and
    sub: "set es \<subseteq> insert (public_event Kind_terminal (td_event ?d) (td_text ?d) (nullish (rs_finished_at draft) now)
       (Some (result_event_metadata r))) (set (rs_events draft))"
    using terminal_progress_events by blast
  have "x \<in> set es" using assms(4) by (simp add: settled_view assms(2) Some result_view_field es)
  with sub have "x = public_event Kind_terminal (td_event ?d) (td_text ?d) (nullish (rs_finished_at draft) now)
       (Some (result_event_metadata r)) \<or> x \<in> set (rs_events draft)" by blast
  then show ?thesis using assms(1) public_event_name terminal_names(1) by (auto simp: quiet_def list_all_iff)
next
  case None
  then obtain e where "rs_error draft = Some e" using assms(3) by auto
  then have "x \<in> set (rs_events draft)" using assms(4) by (simp add: settled_view assms(2) None error_view_fields)
  then show ?thesis using assms(1) by (auto simp: quiet_def list_all_iff)
qed

lemma settled_run_id:
  assumes "rs_settled draft" and "rs_result draft \<noteq> None \<or> rs_error draft \<noteq> None"
  shows "text_or [] (jget (runTaskViewFromState rt now ms draft inputs True) ''run_id'') = rs_run_id draft"
  using assms by (auto simp: settled_view result_view_fields error_view_fields text_or_def split: option.split)

lemma settled_plain:
  assumes "rs_settled draft" and "\<And>r. rs_result draft = Some r \<Longrightarrow> plain_view r"
  shows "plain_view (runTaskViewFromState rt now ms draft inputs True)"
  using assms plain_result by (auto simp: settled_view plain_views split: option.split)

lemma outcome_plain:
  assumes "\<And>r. ti_result ti = Some r \<Longrightarrow> plain_view r" and "rs_result (outcome_state ti now s) = Some r"
  shows "plain_view r"
  using outcome_facts(4)[of ti now s] assms plain_cancelled by (cases "ti_result ti") auto

lemma quiet_run_keeps_no_cancellation:
  assumes "number_format (rt_num (le_rt env))" and "quiet (rw_state w)"
    and "\<And>r. ti_result ti = Some r \<Longrightarrow> plain_view r"
    and "claim_at (le_rt env) (rw_dir w) (rs_run_id (rw_state w)) = Some claim"
    and "e \<in> set (elements (jget claim ''recent_events''))" and "cancel_event e"
  shows "snd (settleRunClaim env t reason ti w) \<noteq> Inr (Settled_run c)"
proof
  assume settled: "snd (settleRunClaim env t reason ti w) = Inr (Settled_run c)"
  then obtain draft where draft: "settlement_draft (le_rt env) ti reason (at_text t) (rw_state w) = Inr draft"
    using settled_draft by blast
  note q = quiet_settlement[OF draft assms(2)]
  define view where "view = runTaskViewFromState (le_rt env) (at_text t) (at_ms t) draft (rs_inputs draft) True"
  have "plain_view view" unfolding view_def
    by (rule settled_plain[OF q(2)]) (rule outcome_plain[OF assms(3)], assumption, simp add: q(4))
  moreover have "text_or [] (jget view ''run_id'') = rs_run_id (rw_state w)"
    using settled_run_id[OF q(2,5)] q(3) by (simp add: view_def same_run_def)
  ultimately obtain new where new: "stored_as view new" "assertOwnerViewTransition (le_rt env) (Some claim) new = Inr ()"
    using settled_valid[OF settled draft view_def] assms(4) by auto
  have "stable_claims_kept (le_rt env) claim new"
    using new(2) by (simp add: assertOwnerViewTransition_def invalidOwnerRecord_def split: if_splits)
  then have "list_all (\<lambda>e. stable_event e \<longrightarrow> list_ex (\<lambda>c. sameCanonicalOwnerJson (rt_num (le_rt env)) (Some c) (Some e))
      (elements (jget new ''recent_events''))) (elements (jget claim ''recent_events''))"
    by (simp add: stable_claims_kept_def Let_def)
  moreover have "stable_event e" using assms(6) by (simp add: stable_event_def cancel_event_def)
  ultimately obtain x where x: "x \<in> set (elements (jget new ''recent_events''))"
    "sameCanonicalOwnerJson (rt_num (le_rt env)) (Some x) (Some e)"
    using assms(5) unfolding list_all_iff list_ex_iff by blast
  then have "cancel_event x"
    using assms(6) canonical_text_field[of x e] by (simp add: cancel_event_def same_canonical_value[OF assms(1)])
  moreover have "\<not> cancel_event x"
    using quiet_view[OF q(1,2,5)] x(1) new(1) unfolding stored_as_def view_def by blast
  ultimately show False by simp
qed

text \<open>A line that is a plain message of the child, its own output.\<close>

definition message_line :: "js_runtime \<Rightarrow> string \<Rightarrow> bool" where
  "message_line rt line \<longleftrightarrow> childLifecycleFromProcessLine rt line = None \<and>
     (\<exists>l. publicOutputLineFromProcessLine rt line = Some l \<and> pl_kind l \<in> set [Kind_assistant, Kind_warning] \<and>
        nullish (pl_event l) Ev_message = Ev_message)"

definition observed :: "life_env \<Rightarrow> (moment \<times> string) list \<Rightarrow> run_world \<Rightarrow> run_world" where
  "observed env lines = fold (\<lambda>(t, line) w. fst (observeOutputLine line env t w)) lines"

definition live :: "run_world \<Rightarrow> bool" where
  "live w \<longleftrightarrow> rw_listed w \<and> \<not> inactive (rw_state w)"

lemma message_draft:
  assumes "message_line (le_rt env) line"
  shows "\<exists>l. output_line_draft env now m line s = Inr (Some (public_output_draft now l s)) \<and>
    pl_kind l \<in> set [Kind_assistant, Kind_warning] \<and> nullish (pl_event l) Ev_message = Ev_message"
proof -
  obtain l where l: "publicOutputLineFromProcessLine (le_rt env) line = Some l" "pl_kind l \<in> set [Kind_assistant, Kind_warning]"
    "nullish (pl_event l) Ev_message = Ev_message" and c: "childLifecycleFromProcessLine (le_rt env) line = None"
    using assms by (auto simp: message_line_def)
  have "\<not> changes_inputs l" "pl_kind l \<noteq> Kind_user"
    using l(2,3) by (auto simp: changes_inputs_def nullish_def split: option.splits)
  then show ?thesis using l c by (intro exI[of _ l]) (simp add: output_line_draft_def)
qed

lemma output_draft_state:
  "same_run s (public_output_draft now l s)" "rs_result (public_output_draft now l s) = rs_result s"
  "rs_error (public_output_draft now l s) = rs_error s" "rs_settled (public_output_draft now l s) = rs_settled s"
  "rs_inputs (public_output_draft now l s) = rs_inputs s"
  "rs_events (public_output_draft now l s) = recent_events_json (rs_events s @ [canonical_event (public_line_event l now)])"
  by (simp_all add: public_output_draft_def noteFirstPublicOutput_def setTaskPhase_def projectPublicEvent_def
      setTaskProgress_def same_run_def Let_def split: option.split)

lemma published_state:
  "rw_state (publish d w) = publishRunTaskTransitionState (rw_state w) d" "rw_listed (publish d w) = rw_listed w"
  "rw_dir (publish d w) = rw_dir w"
  by (simp_all add: publish_def)

lemma publish_state:
  "rs_run_id (publishRunTaskTransitionState s d) = rs_run_id s" "rs_events (publishRunTaskTransitionState s d) = rs_events d"
  "inactive (publishRunTaskTransitionState s d) = inactive d" "rs_inputs (publishRunTaskTransitionState s d) = rs_inputs d"
  "rs_phase (publishRunTaskTransitionState s d) = rs_phase d"
  by (simp_all add: publishRunTaskTransitionState_def inactive_def)

text \<open>One message: the run stays live, its record stays as it is, and the message is the newest event.\<close>

lemma message_step:
  fixes t
  assumes "live w" and "message_line (le_rt env) line"
  defines "w' \<equiv> fst (observeOutputLine line env t w)"
  shows "\<exists>l. pl_kind l \<in> set [Kind_assistant, Kind_warning] \<and> nullish (pl_event l) Ev_message = Ev_message \<and>
    w' = publish (public_output_draft (at_text t) l (rw_state w)) w \<and> live w' \<and>
    rs_events (rw_state w') = recent_events_json (rs_events (rw_state w) @ [canonical_event (public_line_event l (at_text t))])"
proof -
  obtain l where l: "output_line_draft env (at_text t) (rw_mailbox w) line (rw_state w) =
      Inr (Some (public_output_draft (at_text t) l (rw_state w)))"
    "pl_kind l \<in> set [Kind_assistant, Kind_warning]" "nullish (pl_event l) Ev_message = Ev_message"
    using message_draft[OF assms(2)] by blast
  have w': "w' = publish (public_output_draft (at_text t) l (rw_state w)) w"
    using assms(1) l(1) by (simp add: w'_def observeOutputLine_def commitActiveRunTransition_def live_def Let_def)
  have "inactive (public_output_draft (at_text t) l (rw_state w)) = inactive (rw_state w)"
    using output_draft_state[where s = "rw_state w"] by (simp add: inactive_def)
  then have "live w'" using assms(1) by (simp add: w' live_def published_state publish_state)
  moreover have "rs_events (rw_state w') =
      recent_events_json (rs_events (rw_state w) @ [canonical_event (public_line_event l (at_text t))])"
    using output_draft_state[where s = "rw_state w"] by (simp add: w' published_state publish_state)
  ultimately show ?thesis using l w' by blast
qed

definition plain_events :: "run_state \<Rightarrow> json list" where
  "plain_events s = filter plain_json (rs_events s)"

lemma message_event_plain:
  assumes "pl_kind l \<in> set [Kind_assistant, Kind_warning]" and "nullish (pl_event l) Ev_message = Ev_message"
  shows "plain_json (canonical_event (public_line_event l t))" "\<not> cancel_event (canonical_event (public_line_event l t))"
  using assms by (auto simp: plain_json_def has_text_def canonical_fields public_line_event_def public_event_def cancel_event_def)

lemma drop_app: "\<exists>k. drop m (drop j xs @ ys) = drop k (xs @ ys)"
proof -
  have "drop j xs @ ys = drop (min j (length xs)) (xs @ ys)" by (cases "j \<le> length xs") simp_all
  then show ?thesis by (metis drop_drop)
qed

lemma messages:
  assumes "live w" and "\<forall>(t, line) \<in> set lines. message_line (le_rt env) line"
  shows "live (observed env lines w) \<and> rw_dir (observed env lines w) = rw_dir w \<and>
    rs_run_id (rw_state (observed env lines w)) = rs_run_id (rw_state w) \<and>
    (lines = [] \<or> length (rs_events (rw_state (observed env lines w))) \<le> 25) \<and>
    (\<exists>k ms. length ms = length lines \<and> list_all (\<lambda>e. \<not> cancel_event e) ms \<and>
       plain_events (rw_state (observed env lines w)) = drop k (plain_events (rw_state w) @ ms))"
  using assms
proof (induction lines arbitrary: w)
  case Nil
  then show ?case by (auto simp: observed_def intro!: exI[of _ 0])
next
  case (Cons l lines)
  obtain t line where l: "l = (t, line)" by (cases l)
  define w1 where "w1 = fst (observeOutputLine line env t w)"
  have step: "observed env (l # lines) w = observed env lines w1" by (simp add: observed_def l w1_def)
  have "message_line (le_rt env) line" using Cons.prems(2) by (simp add: l)
  from message_step[OF Cons.prems(1) this, of t, folded w1_def] obtain p where p: "pl_kind p \<in> set [Kind_assistant, Kind_warning]" "nullish (pl_event p) Ev_message = Ev_message"
    "w1 = publish (public_output_draft (at_text t) p (rw_state w)) w" "live w1"
    "rs_events (rw_state w1) = recent_events_json (rs_events (rw_state w) @ [canonical_event (public_line_event p (at_text t))])"
    by blast
  let ?m = "canonical_event (public_line_event p (at_text t))"
  obtain j where j: "plain_events (rw_state w1) = drop j (plain_events (rw_state w) @ [?m])"
    using recent_json_plain[of "rs_events (rw_state w) @ [?m]"] message_event_plain[OF p(1,2)]
    by (auto simp: plain_events_def p(5))
  have IH: "live (observed env lines w1)" "rw_dir (observed env lines w1) = rw_dir w1"
    "rs_run_id (rw_state (observed env lines w1)) = rs_run_id (rw_state w1)"
    "lines = [] \<or> length (rs_events (rw_state (observed env lines w1))) \<le> 25"
    using Cons.IH[OF p(4)] Cons.prems(2) by auto
  obtain k ms where k: "length ms = length lines" "list_all (\<lambda>e. \<not> cancel_event e) ms"
    "plain_events (rw_state (observed env lines w1)) = drop k (plain_events (rw_state w1) @ ms)"
    using Cons.IH[OF p(4)] Cons.prems(2) by auto
  obtain k' where k': "plain_events (rw_state (observed env lines w1)) = drop k' ((plain_events (rw_state w) @ [?m]) @ ms)"
    using drop_app[of k j "plain_events (rw_state w) @ [?m]" ms] k(3) j by auto
  have "\<exists>k ms. length ms = length (l # lines) \<and> list_all (\<lambda>e. \<not> cancel_event e) ms \<and>
      plain_events (rw_state (observed env (l # lines) w)) = drop k (plain_events (rw_state w) @ ms)"
    by (rule exI[of _ k'], rule exI[of _ "?m # ms"]) (use k(1,2) k' message_event_plain(2)[OF p(1,2)] in \<open>simp add: step\<close>)
  moreover have "length (rs_events (rw_state w1)) \<le> 25" by (simp add: p(5) recent_json_length)
  then have "length (rs_events (rw_state (observed env lines w1))) \<le> 25" using IH(4) by (auto simp: observed_def)
  moreover have "rw_dir w1 = rw_dir w" "rs_run_id (rw_state w1) = rs_run_id (rw_state w)"
    by (simp_all add: p(3) published_state publish_state)
  ultimately show ?case using IH(1-3) by (simp add: step)
qed

lemma cancel_is_plain: "cancel_event e \<Longrightarrow> plain_json e"
  by (simp add: cancel_event_def plain_json_def has_text_def)

text \<open>After as many messages as the window holds, no cancellation is left in it.\<close>

lemma messages_quiet:
  assumes "live w" and "\<forall>(t, line) \<in> set lines. message_line (le_rt env) line" and "25 \<le> length lines"
  shows "quiet (rw_state (observed env lines w))"
proof -
  let ?s = "rw_state (observed env lines w)"
  obtain k ms where ms: "length ms = length lines" "list_all (\<lambda>e. \<not> cancel_event e) ms"
    "plain_events ?s = drop k (plain_events (rw_state w) @ ms)" and len: "length (rs_events ?s) \<le> 25"
    using messages[OF assms(1,2)] assms(3) by auto
  have "length (plain_events ?s) \<le> 25" using len by (simp add: plain_events_def order_trans[OF length_filter_le])
  then have "length (plain_events (rw_state w)) \<le> k" using ms(1,3) assms(3) by simp
  then have "set (plain_events ?s) \<subseteq> set ms" using ms(3) by (simp add: set_drop_subset)
  then have "list_all (\<lambda>e. \<not> cancel_event e) (plain_events ?s)" using ms(2) by (auto simp: list_all_iff)
  then show ?thesis using cancel_is_plain by (auto simp: quiet_def plain_events_def list_all_iff)
qed

section \<open>A question that is open while the child prints\<close>

definition asking :: "run_state \<Rightarrow> bool" where
  "asking s \<longleftrightarrow> \<not> inactive s \<and> list_ex pending_request (rs_inputs s)"

lemma phase_text_input: "phase_text p = ''input_required'' \<longleftrightarrow> p = Phase_input_required"
  by (cases p) simp_all

lemma asking_view_refused:
  assumes "asking s" and "rs_phase s \<noteq> Phase_input_required"
  shows "\<exists>e. persist_draft env t u s dir = Inl e"
proof (rule ccontr)
  assume "\<not> ?thesis"
  then obtain r where r: "persist_draft env t u s dir = Inr r" by (cases "persist_draft env t u s dir") auto
  define view where "view = activeRunTaskView (le_rt env) (at_ms t) s (rs_inputs s)"
  have "runTaskViewFromState (le_rt env) (at_text t) (at_ms t) s (rs_inputs s) u = view"
    using assms(1) by (simp add: asking_def inactive_def runTaskViewFromState_def view_def)
  from persisted[OF r, unfolded this] obtain ev where w: "writeRunClaimOwned (le_rt env) dir view ev = Inr (fst r, snd r)" by auto
  have status: "has_text view ''status'' ''input_required''" "\<not> has_text view ''active_phase'' ''input_required''"
    using assms by (simp_all add: view_def has_text_def active_view_fields asking_def phase_text_input)
  then have active: "\<not> isTerminalView view"
    by (simp add: isTerminalView_def status_of_def has_text_def terminal_status_texts_def text_of_def)
  then obtain v where v: "stored_as view v" "assertCurrentRunTaskSnapshot (le_rt env) v None = Inr ()"
    using written_view_valid[OF w] by (auto simp: view_def plain_views)
  have "jget v ''status'' = jget view ''status''" "jget v ''active_phase'' = jget view ''active_phase''"
    by (rule stored_field[OF v(1)]; simp add: volatile_fields_def)+
  then show False using v(2) status active status_of_cong[of v view]
    by (simp add: snapshot_ok_iff active_view_ok_def has_text_def)
qed

definition draft_asks :: "(run_state \<Rightarrow> run_state option result) \<Rightarrow> bool" where
  "draft_asks f \<longleftrightarrow> (\<forall>s s'. f s = Inr (Some s') \<longrightarrow> rs_inputs s' = rs_inputs s \<and> rs_phase s' = rs_phase s \<and> inactive s' = inactive s)"

lemma durable_refused:
  assumes "asking (rw_state w)" and "rs_phase (rw_state w) \<noteq> Phase_input_required" and "draft_asks f"
  shows "fst (durable f env t w) = w"
proof (cases "f (rw_state w)")
  case (Inr d)
  show ?thesis
  proof (cases d)
    case (Some s')
    then have "asking s'" "rs_phase s' \<noteq> Phase_input_required" using assms Inr by (auto simp: draft_asks_def asking_def)
    then obtain e where "persist_draft env t False s' (rw_dir w) = Inl e" using asking_view_refused by blast
    then show ?thesis using Inr Some by (simp add: durable_def commit_draft_def)
  qed (simp add: durable_def Inr)
qed (simp add: durable_def)

lemma asks_receipt:
  assumes "\<And>v s. rs_inputs (put v s) = rs_inputs s \<and> rs_phase (put v s) = rs_phase s \<and> inactive (put v s) = inactive s"
  shows "draft_asks (accept_receipt rt get put c r)"
  using assms by (auto simp: draft_asks_def accept_receipt_def invalidOwnerRecord_def split: option.splits if_splits)

lemma asks_when_active: "draft_asks f \<Longrightarrow> draft_asks (when_active f)"
  by (simp add: draft_asks_def when_active_def)

lemma asks_lineage: "draft_asks (lineage_draft child direct)" "draft_asks (descendant_draft child st)"
  by (auto simp: draft_asks_def lineage_draft_def descendant_draft_def inactive_def Let_def split: if_splits)

fun durable_update :: "run_op \<Rightarrow> bool" where
  "durable_update (Op_receipt k r) = True"
| "durable_update (Op_pending ownership) = True"
| "durable_update (Op_clear ownership) = True"
| "durable_update (Op_lineage child direct) = True"
| "durable_update (Op_descendant child st) = True"
| "durable_update _ = False"

lemma update_refused:
  assumes "asking (rw_state w)" and "rs_phase (rw_state w) \<noteq> Phase_input_required" and "durable_update op"
  shows "perform env (t, op) w = w"
proof -
  note refused = durable_refused[OF assms(1,2)]
  show ?thesis
  proof (cases op)
    case (Op_receipt k r)
    have "draft_asks (accept_receipt rt rs_activation (\<lambda>v. rs_activation_update (\<lambda>_. v)) c r)"
      "draft_asks (accept_receipt rt rs_snapshot_receipt (\<lambda>v. rs_snapshot_receipt_update (\<lambda>_. v)) c r)"
      "draft_asks (accept_receipt rt rs_system_receipt (\<lambda>v. rs_system_receipt_update (\<lambda>_. v)) c r)"
      "draft_asks (accept_receipt rt rs_delegation_receipt (\<lambda>v. rs_delegation_receipt_update (\<lambda>_. v)) c r)" for rt c
      by (rule asks_receipt, simp add: inactive_def)+
    note slots = this[THEN asks_when_active, THEN refused]
    show ?thesis
      by (cases k) (simp_all add: Op_receipt acceptActivationReceipt_def acceptSkillSnapshotActivationReceipt_def
          acceptSystemSkillActivationReceipt_def acceptRecursiveDelegationReceipt_def slots)
  next
    case (Op_pending ownership)
    have "draft_asks (\<lambda>s. if inactive s then invalidOwnerRecord m else accept_receipt rt rs_pending_outputs
        (\<lambda>v. rs_pending_outputs_update (\<lambda>_. v)) c ownership s)" for m rt c
      using asks_receipt[of "\<lambda>v. rs_pending_outputs_update (\<lambda>_. v)" rt rs_pending_outputs c ownership]
      by (simp add: draft_asks_def invalidOwnerRecord_def inactive_def)
    then show ?thesis using refused by (simp add: Op_pending acceptPendingTerminalOutputs_def split: sum.split)
  next
    case (Op_clear ownership)
    have "draft_asks (\<lambda>s. case rs_pending_outputs s of None \<Rightarrow> Inr None | Some p \<Rightarrow>
        if \<not> same p then invalidOwnerRecord m else Inr (Some (s\<lparr>rs_pending_outputs := None\<rparr>)))" for same m
      by (auto simp: draft_asks_def invalidOwnerRecord_def inactive_def split: option.splits if_splits)
    then show ?thesis using refused by (simp add: Op_clear clearPendingTerminalOutputs_def split: sum.split)
  qed (use assms(3) refused asks_lineage[THEN asks_when_active] in
      \<open>simp_all add: recordParentChildLineage_def recordDescendantTerminalLineage_def\<close>)
qed

section \<open>Properties\<close>

definition demo_env :: life_env where
  "demo_env = \<lparr>le_rt = demo_runtime\<lparr>rt_json_parse := (\<lambda>_. Some (JObj [(''type'', JStr ''subagent007.warning''),
     (''message'', JStr ''low memory'')]))\<rparr>, le_after = (\<lambda>_ _. False)\<rparr>"

definition demo_moment :: moment where
  "demo_moment = \<lparr>at_text = ''t'', at_ms = 0\<rparr>"

definition demo_fresh :: "string \<Rightarrow> fresh_run" where
  "demo_fresh kind = \<lparr>fr_kind = kind, fr_session_key = None, fr_lineage = \<lparr>tl_parent = None, tl_root = None, tl_depth = None\<rparr>,
     fr_run_id = ''r'', fr_binding = None, fr_started = ''t'', fr_mailbox_root = ''/m''\<rparr>"

definition demo_world :: "run_state \<Rightarrow> directory \<Rightarrow> run_world" where
  "demo_world s dir = \<lparr>rw_state = s, rw_dir = dir, rw_mailbox = [], rw_listed = True\<rparr>"

definition plain_failure :: "string \<Rightarrow> terminal_intent" where
  "plain_failure m = \<lparr>ti_result = None, ti_error = Some (PlainError m)\<rparr>"

text \<open>
  C2: A cancelled run whose child keeps talking cannot settle. The record of an accepted cancellation holds
  the event that announced it, and every later record must repeat that event; but the event comes from a window
  of the 25 newest events that keeps only the start and the spawn beyond their age. Once a live run has
  printed 25 messages after its cancellation was recorded, no settlement is accepted, whatever its result or error.
\<close>

theorem talking_child_blocks_cancelled_settlement:
  assumes "number_format (rt_num (le_rt env))" and "live w"
    and "claim_at (le_rt env) (rw_dir w) (rs_run_id (rw_state w)) = Some claim"
    and "list_ex cancel_event (elements (jget claim ''recent_events''))"
    and "\<forall>(t, line) \<in> set lines. message_line (le_rt env) line" and "25 \<le> length lines"
    and "\<forall>r. ti_result ti = Some r \<longrightarrow> plain_view r"
  shows "snd (settleRunClaim env t reason ti (observed env lines w)) \<noteq> Inr (Settled_run c)"
proof -
  note m = messages[OF assms(2,5)]
  obtain e where "e \<in> set (elements (jget claim ''recent_events''))" "cancel_event e"
    using assms(4) by (auto simp: list_ex_iff)
  then show ?thesis
    using quiet_run_keeps_no_cancellation[OF assms(1) messages_quiet[OF assms(2,5,6)]] assms(3,7) m by simp
qed

definition cancel_claim :: json where
  "cancel_claim = spread demo_claim (JObj [(''active_phase'', JStr ''cancelling''),
     (''recent_events'', JArr [cancellation_event ''t''])])"

definition cancel_record :: json where
  "cancel_record = spread cancel_claim (JObj [(''record_name'', JStr run_owner_record_name), (''record_version'', JNum 1),
     (''declarations'', declarations_json (the (ownerRequestDeclarations cancel_claim)))])"

lemma cancel_claim_ok: "hasCurrentSnapshotStructure (le_rt demo_env) cancel_claim" "client_start_identity_ok cancel_claim"
    "\<not> isTerminalView cancel_claim" "\<not> hasAnyOwnField cancel_claim retired_current_run_fields" "active_view_ok cancel_claim"
    "currentRunClaimView cancel_record = cancel_claim" "runClaimSnapshot cancel_claim = cancel_claim"
    "list_ex cancel_event (elements (jget cancel_claim ''recent_events''))"
    "ownerRequestDeclarations cancel_claim \<noteq> None"
  by code_simp+

lemma cancel_record_fields: "has_text cancel_record ''record_name'' run_owner_record_name"
    "jget cancel_record ''record_version'' = Some (JNum 1)" "jget cancel_record ''pending_terminal_outputs'' = None"
    "jget cancel_record ''launch_observation'' = None" "\<not> is_true (jget cancel_claim ''child_started'')"
    "jget cancel_record ''declarations'' = Some (declarations_json (the (ownerRequestDeclarations cancel_claim)))"
    "is_object cancel_record" "nonempty_string (jget cancel_claim ''run_id'')"
    "strictly_equal (jget cancel_claim ''task_id'') (jget cancel_claim ''run_id'')"
    "text_in [''run'', ''session''] (jget cancel_claim ''task_kind'')" "object_of (jget cancel_record ''declarations'') \<noteq> None"
  by code_simp+

lemma demo_number: "number_format (rt_num (le_rt demo_env))"
  by (simp add: demo_env_def demo_runtime_def quotient_text_format)

lemma cancel_record_ok: "assertRunOwnerRecord (le_rt demo_env) cancel_record = Inr ()"
proof -
  obtain d where d: "ownerRequestDeclarations cancel_claim = Some d" using cancel_claim_ok(9) by blast
  have "declarations_ok (le_rt demo_env) cancel_claim (jget cancel_record ''declarations'')"
    using cancel_record_fields(8-11) demo_number
    by (simp add: declarations_ok_def d cancel_record_fields(6) same_canonical_value)
  then show ?thesis using cancel_claim_ok(1-5) cancel_record_fields(1-5)
    by (simp add: assertRunOwnerRecord_def Let_def cancel_claim_ok(6) snapshot_ok_iff)
qed

lemma cancel_claim_at:
  "claim_at (le_rt demo_env) [(taskRecordPath ''r'', JsonFile cancel_record)] ''r'' = Some cancel_claim"
proof -
  have "read_json_file [(taskRecordPath ''r'', JsonFile cancel_record)] (taskRecordPath ''r'') = Inr cancel_record"
    by (simp add: read_json_file_def parse_file_def dir_read_def)
  then show ?thesis
    using cancel_record_fields(1,7) cancel_record_ok
    by (simp add: claim_at_def readRunOwnerRecordFile_def ownerRecordFromValue_def cancel_claim_ok(6,7))
qed

lemma demo_message: "message_line (le_rt demo_env) ''{}''"
proof -
  have "eventObjectFromJsonLine (le_rt demo_env) ''{}'' = Some (JObj [(''type'', JStr ''subagent007.warning''),
     (''message'', JStr ''low memory'')])" by code_simp
  then show ?thesis
    by (simp add: message_line_def childLifecycleFromProcessLine_def publicOutputLineFromProcessLine_def
        publicLineForEvent_def has_text_def Let_def)
qed

lemma demo_live:
  assumes "rs_result s = None" and "rs_error s = None" and "\<not> rs_settled s"
  shows "live (demo_world s dir)"
  using assms by (simp add: live_def inactive_def demo_world_def)

lemma fresh_fields:
  "rs_result (fresh_state f) = None" "rs_error (fresh_state f) = None" "\<not> rs_settled (fresh_state f)"
  "rs_run_id (fresh_state f) = fr_run_id f" "rs_task_kind (fresh_state f) = fr_kind f" "rs_inputs (fresh_state f) = []"
  "\<not> rs_cancel_requested (fresh_state f)" "rs_phase (fresh_state f) = Phase_starting"
  by (simp_all add: fresh_state_def createRunTaskState_def setTaskProgress_def)

theorem talking_child_blocks_cancelled_settlement_witness:
  "snd (settleRunClaim demo_env demo_moment ''done'' (plain_failure ''gone'')
     (observed demo_env (replicate 25 (demo_moment, ''{}''))
       (demo_world ((fresh_state (demo_fresh ''run''))\<lparr>rs_cancel_requested := True\<rparr>)
         [(taskRecordPath ''r'', JsonFile cancel_record)]))) \<noteq> Inr (Settled_run JNull)"
proof (rule talking_child_blocks_cancelled_settlement[OF demo_number])
  let ?w = "demo_world ((fresh_state (demo_fresh ''run''))\<lparr>rs_cancel_requested := True\<rparr>)
         [(taskRecordPath ''r'', JsonFile cancel_record)]"
  show "live ?w" by (rule demo_live) (simp_all add: fresh_fields)
  show "claim_at (le_rt demo_env) (rw_dir ?w) (rs_run_id (rw_state ?w)) = Some cancel_claim"
    using cancel_claim_at by (simp add: demo_world_def fresh_fields demo_fresh_def)
  show "list_ex cancel_event (elements (jget cancel_claim ''recent_events''))" by (rule cancel_claim_ok(8))
qed (simp_all add: demo_message plain_failure_def)





text \<open>
  C5: A failure with a long message cannot settle. The event of a failure carries its message, which the window of
  events cuts at 4000 characters; the check of a settled record compares the event with the whole message. So
  whatever a run went through, a settlement for an error of more than 3991 characters is never accepted.
\<close>

theorem long_failure_never_settles:
  assumes "\<not> rs_cancel_requested (rw_state (resident_at env f dir m ops))" and "\<not> blank (message_of e)"
    and "3991 < length (message_of e)"
  shows "snd (settleRunClaim env t reason \<lparr>ti_result = None, ti_error = Some e\<rparr> (resident_at env f dir m ops)) \<noteq>
    Inr (Settled_run c)"
  using failure_text_kept[of env t reason "\<lparr>ti_result = None, ti_error = Some e\<rparr>" "resident_at env f dir m ops" c e]
    resident_at_ok[of env f dir m ops] assms by auto

theorem long_failure_never_settles_witness:
  "snd (settleRunClaim demo_env demo_moment ''failed''
     \<lparr>ti_result = None, ti_error = Some (PlainError (CHR ''x'' # replicate 4000 CHR ''x''))\<rparr> (resident_at demo_env (demo_fresh ''run'') [] [] [])) \<noteq>
   Inr (Settled_run JNull)"
proof (rule long_failure_never_settles)
  show "\<not> blank (message_of (PlainError (CHR ''x'' # replicate 4000 CHR ''x'')))"
    by (simp add: message_of_def blank_Cons js_space_def)
qed (simp_all add: resident_at_def fresh_fields message_of_def)

end
