(* ===== verification/Bounded_Controller.thy ===== *)
theory Bounded_Controller
  imports Effect_Scope Transcript
begin

text \<open>
  The bounded controllers, \<open>src/boundedController.ts\<close>: the check of the arguments that the model passes to a fixed
  script, the binding of the interpreter, the execution with its checks of the state directories before and
  after, the products of a completed research job, and the queue that serialises executions. The operating
  system is an argument: \<open>mkdir\<close> and \<open>execFile\<close> map a file system to the next one.
\<close>

section \<open>Commands\<close>

datatype controller_tool = Researchctl | Aj_switchboard

fun tool_name :: "controller_tool \<Rightarrow> string" where
  "tool_name Researchctl = ''researchctl''"
| "tool_name Aj_switchboard = ''aj_switchboard''"

definition research_model_commands :: "string list" where
  "research_model_commands = [''state-paths'', ''init'', ''plan'', ''advance'', ''start-attempt'', ''finish-attempt'',
     ''add-evidence'', ''assess-question'', ''set-finding'', ''close'', ''validate'', ''status'', ''render'']"

definition research_dispatch_commands :: "string list" where
  "research_dispatch_commands = [''claim-dispatch'', ''record-dispatch-result'']"

definition aj_commands :: "string list" where
  "aj_commands = [''gate'', ''anchors'', ''reconcile'', ''triage'', ''validate'', ''emit'', ''run'']"

definition aj_run_commands :: "string list" where
  "aj_run_commands = [''init'', ''next'', ''commit'', ''status'', ''check'']"

fun bounded_controller_commands :: "controller_tool \<Rightarrow> string list" where
  "bounded_controller_commands Researchctl = research_model_commands"
| "bounded_controller_commands Aj_switchboard = aj_commands"

definition max_arguments :: nat where "max_arguments = 64"
definition max_argument_chars :: nat where "max_argument_chars = 4096"
definition max_stdout_bytes :: nat where "max_stdout_bytes = 128 * 1024"
definition max_stderr_bytes :: nat where "max_stderr_bytes = 64 * 1024"
definition max_json_bytes :: nat where "max_json_bytes = 512 * 1024"

definition path_options :: "string list" where
  "path_options = [''--input'', ''--root'', ''--target'', ''--user'', ''--session'', ''--receipt-file'', ''--ledger'',
     ''--triage'', ''--reconcile'', ''--artifact'', ''--pass2'', ''--pass3'', ''--mediation-receipt'']"

definition json_path_options :: "string list" where
  "json_path_options = [''--input'', ''--ledger'', ''--triage'', ''--reconcile'']"

section \<open>The world\<close>

datatype exec_outcome =
    Exec_ok string string
  | Exec_failed string "string option" "string option" bool

record controller_call =
  cc_cwd :: string
  cc_program :: string
  cc_args :: "string list"

record controller_os =
  co_mkdir :: "string \<Rightarrow> fs_view \<Rightarrow> fs_view \<times> unit result"
  co_exec :: "controller_call \<Rightarrow> fs_view \<Rightarrow> fs_view \<times> exec_outcome"
  co_executable :: "fs_view \<Rightarrow> string \<Rightarrow> bool"
  co_sha256 :: "string \<Rightarrow> string"
  co_decode :: "nat list \<Rightarrow> string"
  co_json_parse :: "string \<Rightarrow> json option"
  co_process_cwd :: string

text \<open>The file system and the programs that were run, in order.\<close>

record controller_world =
  cw_fs :: fs_view
  cw_calls :: "controller_call list"

definition execute_file :: "controller_os \<Rightarrow> controller_call \<Rightarrow> controller_world \<Rightarrow> controller_world \<times> exec_outcome" where
  "execute_file os c w =
     (let (fs, out) = co_exec os c (cw_fs w) in (\<lparr>cw_fs = fs, cw_calls = cw_calls w @ [c]\<rparr>, out))"

definition fail :: "string \<Rightarrow> 'a result" where
  "fail m = Inl (PlainError m)"

text \<open>\<open>fs.stat\<close> and \<open>fs.readFile\<close> follow links.\<close>

definition fs_stat :: "fs_view \<Rightarrow> string \<Rightarrow> fstat result" where
  "fs_stat fs p = bind_result (fs_realpath fs p) (fs_lstat fs)"

definition read_file :: "fs_view \<Rightarrow> string \<Rightarrow> string result" where
  "read_file fs p = bind_result (fs_realpath fs p) (\<lambda>r. map_sum id op_bytes (fs_open fs r))"

text \<open>\<open>path.isAbsolute(v) ? path.resolve(v) : path.resolve(root, v)\<close>\<close>

definition resolve_in :: "string \<Rightarrow> string \<Rightarrow> string" where
  "resolve_in r v = (if is_absolute v then path_resolve v else path_resolve (r @ [slash] @ v))"

section \<open>The interpreter\<close>

record resolved_python =
  rp_realpath :: string
  rp_sha256 :: string

fun boundedControllerRuntimeImports :: "controller_tool \<Rightarrow> string list" where
  "boundedControllerRuntimeImports Researchctl = [''json'']"
| "boundedControllerRuntimeImports Aj_switchboard = [''json'', ''yaml'']"

fun controller_profile :: "controller_tool \<Rightarrow> effect_profile" where
  "controller_profile Researchctl = Researcher_bounded_v1"
| "controller_profile Aj_switchboard = Assumption_audit_bounded_v1"

definition join_lines :: "string list \<Rightarrow> string" where
  "join_lines ls = concat (map (\<lambda>l. l @ newline) (butlast ls)) @ (if ls = [] then [] else last ls)"

definition capabilityProbeProgram :: "string list \<Rightarrow> string" where
  "capabilityProbeProgram imports = join_lines [''import importlib'',
     ''for name in '' @ json_text (\<lambda>_. []) (JArr (map JStr imports)) @ '':'', ''    importlib.import_module(name)'']"

definition probe_call :: "controller_os \<Rightarrow> string \<Rightarrow> controller_tool \<Rightarrow> controller_call" where
  "probe_call os p tool = \<lparr>cc_cwd = co_process_cwd os, cc_program = p,
     cc_args = [''-c'', capabilityProbeProgram (boundedControllerRuntimeImports tool)]\<rparr>"

definition assertExactIdentity :: "controller_os \<Rightarrow> resolved_python \<Rightarrow> fs_view \<Rightarrow> unit result" where
  "assertExactIdentity os v fs =
     bind_result (fs_realpath fs (rp_realpath v)) (\<lambda>r.
     bind_result (fs_stat fs r) (\<lambda>st.
       if st_kind st \<noteq> Kind_regular \<or> \<not> co_executable os fs r \<or> r \<noteq> rp_realpath v
       then fail ''bounded controller resolved Python path changed''
       else bind_result (read_file fs r) (\<lambda>bytes.
         if co_sha256 os bytes \<noteq> rp_sha256 v then fail ''bounded controller resolved Python identity changed'' else Inr ())))"

definition capabilityDescription :: "controller_tool \<Rightarrow> string" where
  "capabilityDescription tool = (case boundedControllerRuntimeImports tool of [a, b] \<Rightarrow> a @ '', '' @ b | ls \<Rightarrow> concat ls)"

definition assertResolvedBoundedControllerPython ::
  "controller_os \<Rightarrow> resolved_python option \<Rightarrow> controller_tool \<Rightarrow> controller_world \<Rightarrow> controller_world \<times> resolved_python result" where
  "assertResolvedBoundedControllerPython os value tool w =
     (case value of
        None \<Rightarrow> (w, fail ''bounded controller resolved Python binding is invalid'')
      | Some v \<Rightarrow>
          if \<not> is_absolute (rp_realpath v) \<or> \<not> hex_string 64 (rp_sha256 v)
          then (w, fail ''bounded controller resolved Python binding is invalid'')
          else (case assertExactIdentity os v (cw_fs w) of
              Inl e \<Rightarrow> (w, Inl e)
            | Inr _ \<Rightarrow>
                (case execute_file os (probe_call os (rp_realpath v) tool) w of
                   (w1, Exec_failed _ _ _ _) \<Rightarrow> (w1, fail (''bounded controller resolved Python cannot import required '' @
                     effect_profile_name (controller_profile tool) @ '' runtime dependencies: '' @ capabilityDescription tool))
                 | (w1, Exec_ok _ _) \<Rightarrow> (w1, map_sum id (\<lambda>_. v) (assertExactIdentity os v (cw_fs w1))))))"

fun resolve_python ::
  "controller_os \<Rightarrow> controller_tool \<Rightarrow> string list \<Rightarrow> string list \<Rightarrow> controller_world \<Rightarrow> controller_world \<times> resolved_python result" where
  "resolve_python os tool seen [] w = (w, fail (''no capable python3 interpreter is available for '' @
     effect_profile_name (controller_profile tool) @ ''; required imports: '' @ capabilityDescription tool))"
| "resolve_python os tool seen (d # ds) w =
     (let candidate = resolve_in (co_process_cwd os) (d @ ''/python3''); skip = (\<lambda>e. is_enoent e \<or> e = ErrnoError (OtherErrno ''ENOTDIR''))
      in case fs_realpath (cw_fs w) candidate of
        Inl e \<Rightarrow> if skip e then resolve_python os tool seen ds w else (w, Inl e)
      | Inr r \<Rightarrow>
          if r \<in> set seen then resolve_python os tool seen ds w
          else (case fs_stat (cw_fs w) r of
              Inl e \<Rightarrow> if skip e then resolve_python os tool (r # seen) ds w else (w, Inl e)
            | Inr st \<Rightarrow>
                if st_kind st \<noteq> Kind_regular \<or> \<not> co_executable os (cw_fs w) r then resolve_python os tool (r # seen) ds w
                else (case read_file (cw_fs w) r of
                    Inl e \<Rightarrow> if skip e then resolve_python os tool (r # seen) ds w else (w, Inl e)
                  | Inr bytes \<Rightarrow>
                      (case assertResolvedBoundedControllerPython os
                          (Some \<lparr>rp_realpath = r, rp_sha256 = co_sha256 os bytes\<rparr>) tool w of
                         (w1, Inr v) \<Rightarrow> (w1, Inr v)
                       | (w1, Inl e) \<Rightarrow> resolve_python os tool (r # seen) ds w1))))"

fun split_char :: "char \<Rightarrow> string \<Rightarrow> string list" where
  "split_char d [] = [[]]"
| "split_char d (c # cs) =
     (if c = d then [] # split_char d cs else (case split_char d cs of [] \<Rightarrow> [[c]] | w # ws \<Rightarrow> (c # w) # ws))"

definition pythonSearchPath :: "controller_os \<Rightarrow> string option \<Rightarrow> string list" where
  "pythonSearchPath os env_path = map (\<lambda>e. if e = [] then co_process_cwd os else e)
     (split_char (CHR '':'') (nullish env_path ''/usr/local/bin:/usr/bin:/bin''))"

definition resolveBoundedControllerPython ::
  "controller_os \<Rightarrow> string option \<Rightarrow> controller_tool \<Rightarrow> controller_world \<Rightarrow> controller_world \<times> resolved_python result" where
  "resolveBoundedControllerPython os env_path tool = resolve_python os tool [] (pythonSearchPath os env_path)"

section \<open>Arguments\<close>

definition nul :: char where
  "nul = char_of (0 :: nat)"

definition lower :: "char \<Rightarrow> char" where
  "lower c = (if is_upper c then char_of (of_char c + 32 :: nat) else c)"

definition isHttpUrl :: "string \<Rightarrow> bool" where
  "isHttpUrl v \<longleftrightarrow>
     (let rest = (if starts_with ''http://'' (map lower v) then drop 7 v
        else if starts_with ''https://'' (map lower v) then drop 8 v else [])
      in rest \<noteq> [] \<and> list_all (\<lambda>c. \<not> js_space c) rest)"

definition hasLexicalTraversal :: "string \<Rightarrow> bool" where
  "hasLexicalTraversal v \<longleftrightarrow> ''..'' \<in> set (split_slash (map (\<lambda>c. if c = CHR 0x5C then slash else c) v))"

definition is_letter :: "char \<Rightarrow> bool" where
  "is_letter c \<longleftrightarrow> is_upper c \<or> is_lower c"

definition windows_path :: "string \<Rightarrow> bool" where
  "windows_path v \<longleftrightarrow> (case v of a # b # c # _ \<Rightarrow> is_letter a \<and> b = CHR '':'' \<and> (c = slash \<or> c = CHR 0x5C) | _ \<Rightarrow> False) \<or>
     starts_with [CHR 0x5C, CHR 0x5C] v"

definition assertTaskRootPath :: "fs_view \<Rightarrow> string \<Rightarrow> string \<Rightarrow> string \<Rightarrow> unit result" where
  "assertTaskRootPath fs taskRoot v label =
     (if v = [] \<or> v = ''-'' then fail (label @ '' must name a task-root file or directory'')
      else if nul \<in> set v then fail (label @ '' contains NUL'')
      else if hasLexicalTraversal v then fail (label @ '' contains lexical traversal'')
      else if windows_path v then fail (label @ '' contains an absolute local path'')
      else if \<not> is_within taskRoot (resolve_in taskRoot v) then fail (label @ '' must remain under the exact task root'')
      else bind_result (nearestExistingPath fs (resolve_in taskRoot v)) (\<lambda>resolved.
        if \<not> is_within taskRoot resolved then fail (label @ '' escapes the exact task root through a symlink'') else Inr ()))"

definition assertBoundEffectScopeRoot :: "fs_view \<Rightarrow> string \<Rightarrow> effect_scope_binding option \<Rightarrow> unit result" where
  "assertBoundEffectScopeRoot fs taskRoot binding =
     (case binding of
        None \<Rightarrow> Inr ()
      | Some b \<Rightarrow> bind_result (assertAuthoringEffectScopeBinding (binding_json b)) (\<lambda>_.
          if eb_task_root b \<noteq> taskRoot \<or> (case eb_writable_scope b of Fixed_state_subtree _ \<Rightarrow> False | _ \<Rightarrow> True)
          then fail ''bounded controller requires its exact fixed state-subtree effect binding''
          else bind_result (fs_lstat fs taskRoot) (\<lambda>st.
            if st_kind st \<noteq> Kind_directory \<or> decimal_text (st_dev st) \<noteq> eb_task_root_device b \<or>
               decimal_text (st_ino st) \<noteq> eb_task_root_inode b
            then fail ''bounded controller task-root identity changed after activation'' else Inr ())))"

definition state_root_of :: "effect_scope_binding \<Rightarrow> string" where
  "state_root_of b = hd (scope_paths (eb_writable_scope b))"

definition assertMutationPathInStateSubtree ::
  "string \<Rightarrow> string \<Rightarrow> string \<Rightarrow> effect_scope_binding option \<Rightarrow> unit result" where
  "assertMutationPathInStateSubtree taskRoot v label binding =
     (case binding of
        None \<Rightarrow> Inr ()
      | Some b \<Rightarrow>
          if \<not> is_within (state_root_of b) (resolve_in taskRoot v)
          then fail (label @ '' is outside the fixed profile-owned state subtree writable scope; use '' @ state_root_of b)
          else Inr ())"

text \<open>Whether \<open>positionalPathIndexes\<close> holds 0, its only possible member.\<close>

definition positional_path :: "controller_tool \<Rightarrow> string \<Rightarrow> bool" where
  "positional_path tool subcommand =
     (case tool of Researchctl \<Rightarrow> subcommand \<noteq> ''state-paths'' | Aj_switchboard \<Rightarrow> subcommand \<noteq> ''run'')"

definition option_before :: "string list \<Rightarrow> nat \<Rightarrow> string option" where
  "option_before argv i = find (starts_with ''--'') (rev (take i argv))"

definition isPathValue :: "controller_tool \<Rightarrow> string \<Rightarrow> string list \<Rightarrow> nat \<Rightarrow> bool" where
  "isPathValue tool subcommand argv i =
     (if i = 0 then positional_path tool subcommand
      else (case option_before argv i of
          None \<Rightarrow> False
        | Some opt \<Rightarrow>
            opt \<in> set path_options \<or>
            (tool = Aj_switchboard \<and> subcommand = ''run'' \<and>
             (if argv ! 0 = ''init'' then opt \<in> set [''--root'', ''--target'', ''--user'', ''--session'']
              else opt \<in> set [''--root'', ''--artifact'', ''--receipt-file'']))))"

definition inline_option :: "string \<Rightarrow> string option" where
  "inline_option v = find (\<lambda>opt. starts_with (opt @ ''='') v) path_options"

definition path_value :: "string \<Rightarrow> string" where
  "path_value v = (case inline_option v of Some opt \<Rightarrow> drop (length opt + 1) v | None \<Rightarrow> v)"

definition path_argument :: "controller_tool \<Rightarrow> string \<Rightarrow> string list \<Rightarrow> nat \<Rightarrow> bool" where
  "path_argument tool subcommand argv i \<longleftrightarrow> inline_option (argv ! i) \<noteq> None \<or> isPathValue tool subcommand argv i"

definition mutation_argument :: "controller_tool \<Rightarrow> string \<Rightarrow> string list \<Rightarrow> nat \<Rightarrow> bool" where
  "mutation_argument tool subcommand argv i \<longleftrightarrow>
     tool = Researchctl \<and> i = 0 \<or>
     tool = Aj_switchboard \<and> subcommand = ''run'' \<and>
       (case inline_option (argv ! i) of Some opt \<Rightarrow> Some opt | None \<Rightarrow> option_before argv i) = Some ''--root''"

definition argument_label :: "nat \<Rightarrow> string" where
  "argument_label i = ''argv['' @ decimal_text i @ '']''"

definition check_argument ::
  "fs_view \<Rightarrow> string \<Rightarrow> controller_tool \<Rightarrow> string \<Rightarrow> string list \<Rightarrow> effect_scope_binding option \<Rightarrow> nat \<Rightarrow> unit result" where
  "check_argument fs taskRoot tool subcommand argv binding i =
     (let v = argv ! i; label = argument_label i; p = path_value v in
      if max_argument_chars < length v
      then fail (label @ '' exceeds '' @ decimal_text max_argument_chars @ '' characters'')
      else if nul \<in> set v then fail (label @ '' contains NUL'')
      else if v = ''--'' then fail ''argument separator is not allowed''
      else if \<not> path_argument tool subcommand argv i then Inr ()
      else if isHttpUrl p then fail (label @ '' must remain under the exact task root'')
      else bind_result (assertTaskRootPath fs taskRoot p label) (\<lambda>_.
           bind_result (if mutation_argument tool subcommand argv i then assertMutationPathInStateSubtree taskRoot p label binding
             else Inr ()) (\<lambda>_.
             if (case (case inline_option v of Some opt \<Rightarrow> Some opt | None \<Rightarrow> option_before argv i) of
                   Some opt \<Rightarrow> opt \<in> set json_path_options | None \<Rightarrow> False) \<and>
                (case fs_stat fs (resolve_in taskRoot p) of Inr st \<Rightarrow> max_json_bytes < st_size st | Inl _ \<Rightarrow> False)
             then fail (''controller JSON input exceeds '' @ decimal_text max_json_bytes @ '' bytes'')
             else Inr ())))"

fun check_arguments ::
  "fs_view \<Rightarrow> string \<Rightarrow> controller_tool \<Rightarrow> string \<Rightarrow> string list \<Rightarrow> effect_scope_binding option \<Rightarrow> nat list \<Rightarrow> unit result" where
  "check_arguments fs taskRoot tool subcommand argv binding [] = Inr ()"
| "check_arguments fs taskRoot tool subcommand argv binding (i # is) =
     bind_result (check_argument fs taskRoot tool subcommand argv binding i) (\<lambda>_.
       check_arguments fs taskRoot tool subcommand argv binding is)"

definition validateArguments ::
  "fs_view \<Rightarrow> string \<Rightarrow> controller_tool \<Rightarrow> string \<Rightarrow> string list \<Rightarrow> effect_scope_binding option \<Rightarrow> unit result" where
  "validateArguments fs taskRoot tool subcommand argv binding =
     (if max_arguments < length argv
      then fail (tool_name tool @ '' argv exceeds '' @ decimal_text max_arguments @ '' arguments'')
      else if tool = Aj_switchboard \<and> subcommand = ''run'' \<and> (argv = [] \<or> argv ! 0 \<notin> set aj_run_commands)
      then fail ''aj_switchboard run subcommand is not allowed''
      else check_arguments fs taskRoot tool subcommand argv binding [0..<length argv])"

section \<open>State directories\<close>

text \<open>The longest prefix in bytes, decoded again.\<close>

definition boundedText :: "controller_os \<Rightarrow> string \<Rightarrow> nat \<Rightarrow> string" where
  "boundedText os v maxBytes =
     (let bytes = concat (map utf8_bytes v) in
      if length bytes \<le> maxBytes then v
      else co_decode os (take maxBytes bytes) @ newline @ ''[output truncated by bounded controller]'')"

record state_paths =
  sp_job_path :: string
  sp_input_root :: string

definition researchControllerStatePaths :: "effect_scope_binding option \<Rightarrow> state_paths result" where
  "researchControllerStatePaths binding =
     (case binding of
        Some b \<Rightarrow>
          (case (eb_effect_profile b, eb_writable_scope b) of
             (Researcher_bounded_v1, Fixed_state_subtree _) \<Rightarrow>
               Inr \<lparr>sp_job_path = path_join (state_root_of b) ''job.json'', sp_input_root = path_join (state_root_of b) ''inputs''\<rparr>
           | _ \<Rightarrow> fail ''researchctl state-paths requires its exact researcher_bounded_v1 effect binding'')
      | None \<Rightarrow> fail ''researchctl state-paths requires its exact researcher_bounded_v1 effect binding'')"

definition exactResearchControllerStateRoot :: "string \<Rightarrow> effect_scope_binding \<Rightarrow> state_paths \<Rightarrow> string result" where
  "exactResearchControllerStateRoot taskRoot b sp =
     (let stateRoot = path_dirname (sp_job_path sp);
          expected = path_join (path_join taskRoot ''.subagent007'') ''researcher_bounded_v1'' in
      if \<not> is_absolute stateRoot \<or> path_resolve stateRoot \<noteq> stateRoot \<or> stateRoot \<noteq> expected \<or> stateRoot \<noteq> state_root_of b
      then fail ''researchctl init state root is not the exact canonical binding-derived path''
      else Inr stateRoot)"

record exact_directory =
  ed_path :: string
  ed_realpath :: string
  ed_device :: nat
  ed_inode :: nat

definition inspectExactDirectory :: "fs_view \<Rightarrow> string \<Rightarrow> string \<Rightarrow> exact_directory result" where
  "inspectExactDirectory fs p label =
     bind_result (fs_lstat fs p) (\<lambda>st.
       if st_kind st \<noteq> Kind_directory then fail (label @ '' must be an exact real directory'')
       else bind_result (fs_realpath fs p) (\<lambda>r.
         if r \<noteq> p then fail (label @ '' realpath changed or is noncanonical'')
         else Inr \<lparr>ed_path = p, ed_realpath = r, ed_device = st_dev st, ed_inode = st_ino st\<rparr>))"

definition establishExactDirectory ::
  "controller_os \<Rightarrow> string \<Rightarrow> string \<Rightarrow> controller_world \<Rightarrow> controller_world \<times> unit result" where
  "establishExactDirectory os p label w =
     (case co_mkdir os p (cw_fs w) of
        (fs, made) \<Rightarrow>
          (w\<lparr>cw_fs := fs\<rparr>,
           case made of
             Inl e \<Rightarrow> if is_eexist e then map_sum id (\<lambda>_. ()) (inspectExactDirectory fs p label) else Inl e
           | Inr _ \<Rightarrow> map_sum id (\<lambda>_. ()) (inspectExactDirectory fs p label)))"

definition assertExactDirectoryIdentity :: "fs_view \<Rightarrow> exact_directory \<Rightarrow> string \<Rightarrow> unit result" where
  "assertExactDirectoryIdentity fs identity label =
     bind_result (inspectExactDirectory fs (ed_path identity) label) (\<lambda>current.
       if ed_realpath current \<noteq> ed_realpath identity \<or> ed_device current \<noteq> ed_device identity \<or>
          ed_inode current \<noteq> ed_inode identity
       then fail (label @ '' identity changed during researchctl init'') else Inr ())"

record init_directories =
  id_state_root :: exact_directory
  id_input_root :: exact_directory

definition assertResearchControllerInitDirectoryIdentities :: "fs_view \<Rightarrow> init_directories \<Rightarrow> unit result" where
  "assertResearchControllerInitDirectoryIdentities fs d =
     bind_result (assertExactDirectoryIdentity fs (id_state_root d) ''researchctl state root'') (\<lambda>_.
       assertExactDirectoryIdentity fs (id_input_root d) ''researchctl input root'')"

fun establish_all :: "controller_os \<Rightarrow> (string \<times> string) list \<Rightarrow> controller_world \<Rightarrow> controller_world \<times> unit result" where
  "establish_all os [] w = (w, Inr ())"
| "establish_all os ((p, label) # ds) w =
     (case establishExactDirectory os p label w of
        (w1, Inl e) \<Rightarrow> (w1, Inl e) | (w1, Inr _) \<Rightarrow> establish_all os ds w1)"

definition inspect_init :: "fs_view \<Rightarrow> string \<Rightarrow> string \<Rightarrow> init_directories result" where
  "inspect_init fs stateRoot inputRoot =
     bind_result (inspectExactDirectory fs stateRoot ''researchctl state root'') (\<lambda>s.
     bind_result (inspectExactDirectory fs inputRoot ''researchctl input root'') (\<lambda>i.
     bind_result (assertResearchControllerInitDirectoryIdentities fs \<lparr>id_state_root = s, id_input_root = i\<rparr>) (\<lambda>_.
       Inr \<lparr>id_state_root = s, id_input_root = i\<rparr>)))"

definition basename :: "string \<Rightarrow> string" where
  "basename p = (case resolve_segments [] (split_slash p) of [] \<Rightarrow> [] | ws \<Rightarrow> last ws)"

definition establishResearchControllerInitDirectories ::
  "controller_os \<Rightarrow> string \<Rightarrow> effect_scope_binding \<Rightarrow> state_paths \<Rightarrow> controller_world \<Rightarrow> controller_world \<times> init_directories result" where
  "establishResearchControllerInitDirectories os taskRoot b sp w =
     (case exactResearchControllerStateRoot taskRoot b sp of
        Inl e \<Rightarrow> (w, Inl e)
      | Inr stateRoot \<Rightarrow>
          if basename (sp_job_path sp) \<noteq> ''job.json'' \<or> path_dirname (sp_input_root sp) \<noteq> stateRoot \<or>
             basename (sp_input_root sp) \<noteq> ''inputs'' \<or> \<not> is_absolute (sp_job_path sp) \<or> \<not> is_absolute (sp_input_root sp) \<or>
             path_resolve (sp_job_path sp) \<noteq> sp_job_path sp \<or> path_resolve (sp_input_root sp) \<noteq> sp_input_root sp
          then (w, fail ''researchctl init state paths are not exact canonical binding-derived paths'')
          else if path_dirname stateRoot \<noteq> path_join taskRoot ''.subagent007''
          then (w, fail ''researchctl init state directory chain is not canonical'')
          else (case establish_all os [(path_dirname stateRoot, ''researchctl profile parent''),
                (stateRoot, ''researchctl state root''), (sp_input_root sp, ''researchctl input root'')] w of
              (w1, Inl e) \<Rightarrow> (w1, Inl e)
            | (w1, Inr _) \<Rightarrow> (w1, inspect_init (cw_fs w1) stateRoot (sp_input_root sp))))"

definition assertResearchControllerInitSuccess ::
  "fs_view \<Rightarrow> init_directories \<Rightarrow> state_paths \<Rightarrow> effect_scope_binding \<Rightarrow> unit result" where
  "assertResearchControllerInitSuccess fs d sp b =
     bind_result (assertResearchControllerInitDirectoryIdentities fs d) (\<lambda>_.
     bind_result (fs_lstat fs (sp_job_path sp)) (\<lambda>job.
       if st_kind job \<noteq> Kind_regular \<or> st_nlink job \<noteq> 1
       then fail ''researchctl init must produce the exact regular single-link job.json''
       else bind_result (fs_realpath fs (sp_job_path sp)) (\<lambda>r.
         if r \<noteq> sp_job_path sp then fail ''researchctl init job.json is noncanonical''
         else bind_result (fs_realpath fs (sp_input_root sp)) (\<lambda>i.
           if i \<noteq> ed_realpath (id_input_root d) then fail ''researchctl init input root changed before successful closure''
           else assertAuthoringWritableClosure fs b None))))"

section \<open>Execution\<close>

fun script_name :: "controller_tool \<Rightarrow> string" where
  "script_name Researchctl = ''researchctl.py''"
| "script_name Aj_switchboard = ''aj.py''"

definition script_ok :: "controller_tool \<Rightarrow> string \<Rightarrow> string \<Rightarrow> bool" where
  "script_ok tool runtimeRoot script \<longleftrightarrow>
     script = path_join (path_join runtimeRoot ''scripts'') (script_name tool) \<and>
     basename (path_dirname script) = ''scripts'' \<and> basename script = script_name tool \<and> starts_with [slash] script"

record verified_command =
  vc_script :: string
  vc_python :: string

definition verifiedControllerCommand ::
  "controller_os \<Rightarrow> controller_tool \<Rightarrow> string \<Rightarrow> resolved_python option \<Rightarrow> controller_world \<Rightarrow>
   controller_world \<times> verified_command result" where
  "verifiedControllerCommand os tool script python w =
     (case fs_realpath (cw_fs w) script of
        Inl e \<Rightarrow> (w, Inl e)
      | Inr resolved \<Rightarrow>
          (case fs_realpath (cw_fs w) (path_dirname (path_dirname (resolve_in (co_process_cwd os) script))) of
             Inl e \<Rightarrow> (w, Inl e)
           | Inr runtimeRoot \<Rightarrow>
               if \<not> script_ok tool runtimeRoot resolved
               then (w, fail (tool_name tool @ '' controller script identity is invalid''))
               else (case assertResolvedBoundedControllerPython os python tool w of
                   (w1, Inl e) \<Rightarrow> (w1, Inl e)
                 | (w1, Inr v) \<Rightarrow> (w1, Inr \<lparr>vc_script = resolved, vc_python = rp_realpath v\<rparr>))))"

definition controller_argv :: "controller_tool \<Rightarrow> json option \<Rightarrow> string list result" where
  "controller_argv tool raw =
     (case raw of
        None \<Rightarrow> Inr []
      | Some (JArr vs) \<Rightarrow>
          if list_all (\<lambda>v. case v of JStr _ \<Rightarrow> True | _ \<Rightarrow> False) vs
          then Inr (map (\<lambda>v. case v of JStr t \<Rightarrow> t | _ \<Rightarrow> []) vs)
          else fail (tool_name tool @ '' argv must be an array of strings'')
      | Some _ \<Rightarrow> fail (tool_name tool @ '' argv must be an array of strings''))"

text \<open>What an execution of \<open>researchctl init\<close> establishes first.\<close>

record research_init =
  ri_directories :: init_directories
  ri_paths :: state_paths
  ri_binding :: effect_scope_binding

definition begin_research_init ::
  "controller_os \<Rightarrow> controller_tool \<Rightarrow> string \<Rightarrow> string \<Rightarrow> string list \<Rightarrow> effect_scope_binding option \<Rightarrow>
   controller_world \<Rightarrow> controller_world \<times> research_init option result" where
  "begin_research_init os tool subcommand taskRoot args binding w =
     (case binding of
        None \<Rightarrow> (w, Inr None)
      | Some b \<Rightarrow>
          if tool \<noteq> Researchctl \<or> subcommand \<noteq> ''init'' \<or> eb_effect_profile b \<noteq> Researcher_bounded_v1 then (w, Inr None)
          else if (case eb_writable_scope b of Fixed_state_subtree _ \<Rightarrow> False | _ \<Rightarrow> True)
          then (w, fail ''researchctl init requires its exact researcher_bounded_v1 effect binding'')
          else (case researchControllerStatePaths binding of
              Inl e \<Rightarrow> (w, Inl e)
            | Inr sp \<Rightarrow>
                if args = [] \<or> args ! 0 \<noteq> sp_job_path sp
                then (w, fail ''researchctl init argv[0] must equal the exact binding-derived canonical job_path'')
                else (case establishResearchControllerInitDirectories os taskRoot b sp w of
                    (w1, Inl e) \<Rightarrow> (w1, Inl e)
                  | (w1, Inr d) \<Rightarrow>
                      (case assertResearchControllerInitDirectoryIdentities (cw_fs w1) d of
                         Inl e \<Rightarrow> (w1, Inl e)
                       | Inr _ \<Rightarrow> (w1, Inr (Some \<lparr>ri_directories = d, ri_paths = sp, ri_binding = b\<rparr>))))))"

definition closure_after :: "fs_view \<Rightarrow> effect_scope_binding option \<Rightarrow> unit result" where
  "closure_after fs binding = (case binding of None \<Rightarrow> Inr () | Some b \<Rightarrow> assertAuthoringWritableClosure fs b None)"

definition check_success :: "fs_view \<Rightarrow> research_init option \<Rightarrow> effect_scope_binding option \<Rightarrow> unit result" where
  "check_success fs init binding =
     (case init of
        Some i \<Rightarrow> assertResearchControllerInitSuccess fs (ri_directories i) (ri_paths i) (ri_binding i)
      | None \<Rightarrow> closure_after fs binding)"

definition check_failure :: "fs_view \<Rightarrow> research_init option \<Rightarrow> effect_scope_binding option \<Rightarrow> unit result" where
  "check_failure fs init binding =
     (case init of
        Some i \<Rightarrow> bind_result (assertResearchControllerInitDirectoryIdentities fs (ri_directories i)) (\<lambda>_.
          assertAuthoringWritableClosure fs (ri_binding i) None)
      | None \<Rightarrow> closure_after fs binding)"

definition success_result :: "controller_os \<Rightarrow> string \<Rightarrow> string \<Rightarrow> string \<Rightarrow> json" where
  "success_result os subcommand out err = JObj [(''success'', JBool True), (''subcommand'', JStr subcommand),
     (''stdout'', JStr (boundedText os out max_stdout_bytes)), (''stderr'', JStr (boundedText os err max_stderr_bytes))]"

definition failure_result :: "controller_os \<Rightarrow> string \<Rightarrow> string \<Rightarrow> string option \<Rightarrow> string option \<Rightarrow> bool \<Rightarrow> json" where
  "failure_result os subcommand m out err killed = JObj [(''success'', JBool False), (''subcommand'', JStr subcommand),
     (''timed_out'', JBool killed), (''stdout'', JStr (boundedText os (nullish out []) max_stdout_bytes)),
     (''stderr'', JStr (boundedText os (nullish err (''Error: '' @ m)) max_stderr_bytes))]"

text \<open>The \<open>catch\<close> of the execution, which also sees a check that failed after a success.\<close>

definition caught ::
  "controller_os \<Rightarrow> controller_tool \<Rightarrow> string \<Rightarrow> fs_view \<Rightarrow> research_init option \<Rightarrow> effect_scope_binding option \<Rightarrow>
   string \<Rightarrow> string option \<Rightarrow> string option \<Rightarrow> bool \<Rightarrow> json result" where
  "caught os tool subcommand fs init binding m out err killed =
     bind_result (check_failure fs init binding) (\<lambda>_.
       if out \<noteq> None \<or> err \<noteq> None then Inr (failure_result os subcommand m out err killed)
       else fail (tool_name tool @ '' failed: '' @ m))"

definition run_controller ::
  "controller_os \<Rightarrow> controller_tool \<Rightarrow> string \<Rightarrow> string \<Rightarrow> string list \<Rightarrow> verified_command \<Rightarrow> research_init option \<Rightarrow>
   effect_scope_binding option \<Rightarrow> controller_world \<Rightarrow> controller_world \<times> json result" where
  "run_controller os tool subcommand taskRoot args v init binding w =
     (case execute_file os \<lparr>cc_cwd = taskRoot, cc_program = vc_python v, cc_args = vc_script v # subcommand # args\<rparr> w of
        (w1, Exec_ok out err) \<Rightarrow>
          (w1, case check_success (cw_fs w1) init binding of
             Inr _ \<Rightarrow> Inr (success_result os subcommand out err)
           | Inl e \<Rightarrow> caught os tool subcommand (cw_fs w1) init binding (message_of e) None None False)
      | (w1, Exec_failed m out err killed) \<Rightarrow>
          (w1, caught os tool subcommand (cw_fs w1) init binding m out err killed))"

definition state_paths_result :: "string \<Rightarrow> state_paths \<Rightarrow> json" where
  "state_paths_result subcommand sp = JObj [(''success'', JBool True), (''subcommand'', JStr subcommand),
     (''state_paths'', JObj [(''schema_version'', JNum 1), (''job_path'', JStr (sp_job_path sp)),
        (''input_root'', JStr (sp_input_root sp))])]"

definition executeController ::
  "controller_os \<Rightarrow> string \<Rightarrow> controller_tool \<Rightarrow> string \<Rightarrow> json option \<Rightarrow> string \<Rightarrow> resolved_python option \<Rightarrow>
   effect_scope_binding option \<Rightarrow> string list \<Rightarrow> controller_world \<Rightarrow> controller_world \<times> json result" where
  "executeController os taskRoot tool subcommand rawArgv script python binding allowed w =
     (case bind_result (controller_argv tool rawArgv) (\<lambda>args.
             bind_result (fs_realpath (cw_fs w) taskRoot) (\<lambda>base.
             bind_result (assertBoundEffectScopeRoot (cw_fs w) base binding) (\<lambda>_.
               if subcommand \<notin> set allowed then fail (tool_name tool @ '' subcommand is not allowed'') else Inr (args, base)))) of
        Inl e \<Rightarrow> (w, Inl e)
      | Inr (args, base) \<Rightarrow>
          if tool = Researchctl \<and> subcommand = ''state-paths''
          then (w, if args \<noteq> [] then fail ''researchctl state-paths does not accept argv''
                   else map_sum id (state_paths_result subcommand) (researchControllerStatePaths binding))
          else (case validateArguments (cw_fs w) base tool subcommand args binding of
              Inl e \<Rightarrow> (w, Inl e)
            | Inr _ \<Rightarrow>
                (case verifiedControllerCommand os tool script python w of
                   (w1, Inl e) \<Rightarrow> (w1, Inl e)
                 | (w1, Inr v) \<Rightarrow>
                     (case begin_research_init os tool subcommand base args binding w1 of
                        (w2, Inl e) \<Rightarrow> (w2, Inl e)
                      | (w2, Inr init) \<Rightarrow> run_controller os tool subcommand base args v init binding w2))))"

section \<open>A completed research job\<close>

text \<open>Everything that goes wrong below makes the answer \<open>undefined\<close>; the programs that ran stay run.\<close>

definition completed_job ::
  "controller_os \<Rightarrow> string \<Rightarrow> effect_scope_binding \<Rightarrow> fs_view \<Rightarrow> (string \<times> state_paths \<times> string \<times> json) option" where
  "completed_job os taskRoot b fs =
     (case bind_result (fs_realpath fs taskRoot) (\<lambda>base.
           bind_result (assertBoundEffectScopeRoot fs base (Some b)) (\<lambda>_.
           bind_result (researchControllerStatePaths (Some b)) (\<lambda>sp.
           bind_result (fs_lstat fs (sp_job_path sp)) (\<lambda>st.
             if st_kind st \<noteq> Kind_regular \<or> st_nlink st \<noteq> 1 \<or> max_json_bytes < st_size st then fail []
             else bind_result (read_file fs (sp_job_path sp)) (\<lambda>bytes.
               case co_json_parse os bytes of None \<Rightarrow> Inl JsonSyntaxError | Some job \<Rightarrow> Inr (base, sp, bytes, job)))))) of
        Inl _ \<Rightarrow> None
      | Inr (base, sp, bytes, job) \<Rightarrow>
          if jget job ''state'' = Some (JStr ''complete'') then Some (base, sp, bytes, job) else None)"

definition run_script ::
  "controller_os \<Rightarrow> string \<Rightarrow> verified_command \<Rightarrow> string list \<Rightarrow> controller_world \<Rightarrow> controller_world \<times> string option" where
  "run_script os cwd v args w =
     (case execute_file os \<lparr>cc_cwd = cwd, cc_program = vc_python v, cc_args = vc_script v # args\<rparr> w of
        (w1, Exec_ok out _) \<Rightarrow> (w1, Some out) | (w1, Exec_failed _ _ _ _) \<Rightarrow> (w1, None))"

definition job_unchanged :: "fs_view \<Rightarrow> state_paths \<Rightarrow> string \<Rightarrow> bool" where
  "job_unchanged fs sp bytes \<longleftrightarrow> read_file fs (sp_job_path sp) = Inr bytes"

definition receipt_start :: "controller_os \<Rightarrow> nat \<Rightarrow> (string \<times> json) list" where
  "receipt_start os version = [(''schema_version'', JNum (of_nat version)), (''controller'', JStr ''researchctl''),
     (''state'', JStr ''complete''), (''validation'', JStr ''passed'')]"

definition inspectResearchControllerCompletion ::
  "controller_os \<Rightarrow> string \<Rightarrow> string \<Rightarrow> resolved_python option \<Rightarrow> effect_scope_binding \<Rightarrow> controller_world \<Rightarrow>
   controller_world \<times> json option" where
  "inspectResearchControllerCompletion os taskRoot script python b w =
     (case completed_job os taskRoot b (cw_fs w) of
        None \<Rightarrow> (w, None)
      | Some (base, sp, bytes, _) \<Rightarrow>
          (case verifiedControllerCommand os Researchctl script python w of
             (w1, Inl _) \<Rightarrow> (w1, None)
           | (w1, Inr v) \<Rightarrow>
               (case run_script os base v [''validate'', sp_job_path sp] w1 of
                  (w2, None) \<Rightarrow> (w2, None)
                | (w2, Some _) \<Rightarrow>
                    (case run_script os base v [''render'', sp_job_path sp, ''--profile'', ''full''] w2 of
                       (w3, None) \<Rightarrow> (w3, None)
                     | (w3, Some rendered) \<Rightarrow>
                         (w3, if \<not> job_unchanged (cw_fs w3) sp bytes then None
                          else Some (JObj (receipt_start os 1 @ [(''job_sha256'', JStr (co_sha256 os bytes)),
                            (''render_profile'', JStr ''full''), (''render_sha256'', JStr (co_sha256 os rendered))])))))))"

record terminal_product =
  tp_receipt :: json
  tp_primary :: string
  tp_packet :: string

definition terminal_receipt :: "controller_os \<Rightarrow> string \<Rightarrow> string \<Rightarrow> string \<Rightarrow> json" where
  "terminal_receipt os bytes primary packet = JObj (receipt_start os 2 @
     [(''dispatch_protocol'', JStr ''research_web_dispatch_v1''), (''job_sha256'', JStr (co_sha256 os bytes)),
      (''primary_profile'', JStr ''primary''), (''primary_sha256'', JStr (co_sha256 os primary)),
      (''packet_profile'', JStr ''bendum''), (''packet_sha256'', JStr (co_sha256 os packet))])"

text \<open>A script run after which the job file must still be what it was.\<close>

definition run_unchanged ::
  "controller_os \<Rightarrow> string \<Rightarrow> verified_command \<Rightarrow> state_paths \<Rightarrow> string \<Rightarrow> string list \<Rightarrow> controller_world \<Rightarrow>
   controller_world \<times> string option" where
  "run_unchanged os cwd v sp bytes args w =
     (case run_script os cwd v args w of
        (w1, out) \<Rightarrow> (w1, if job_unchanged (cw_fs w1) sp bytes then out else None))"

definition materializeResearchControllerCompletion ::
  "controller_os \<Rightarrow> string \<Rightarrow> string \<Rightarrow> resolved_python option \<Rightarrow> effect_scope_binding \<Rightarrow> controller_world \<Rightarrow>
   controller_world \<times> terminal_product option" where
  "materializeResearchControllerCompletion os taskRoot script python b w =
     (case completed_job os taskRoot b (cw_fs w) of
        None \<Rightarrow> (w, None)
      | Some (base, sp, bytes, job) \<Rightarrow>
          if jget job ''dispatch_protocol'' \<noteq> Some (JStr ''research_web_dispatch_v1'') then (w, None)
          else (case verifiedControllerCommand os Researchctl script python w of
             (w1, Inl _) \<Rightarrow> (w1, None)
           | (w1, Inr v) \<Rightarrow>
               (case run_unchanged os base v sp bytes [''validate'', sp_job_path sp] w1 of
                  (w2, None) \<Rightarrow> (w2, None)
                | (w2, Some _) \<Rightarrow>
                    (case run_unchanged os base v sp bytes [''render'', sp_job_path sp, ''--profile'', ''primary''] w2 of
                       (w3, None) \<Rightarrow> (w3, None)
                     | (w3, Some primary) \<Rightarrow>
                         (case run_unchanged os base v sp bytes [''render'', sp_job_path sp, ''--profile'', ''bendum''] w3 of
                            (w4, None) \<Rightarrow> (w4, None)
                          | (w4, Some packet) \<Rightarrow>
                              (let p = stripAnsiAndControls primary; q = stripAnsiAndControls packet in
                                (w4, Some \<lparr>tp_receipt = terminal_receipt os bytes p q, tp_primary = p, tp_packet = q\<rparr>)))))))"

section \<open>The tool and the private dispatch controller\<close>

text \<open>\<open>queued\<close> tells whether the tool was made with the shared execution queue.\<close>

definition controller_tool_execute ::
  "controller_os \<Rightarrow> string \<Rightarrow> controller_tool \<Rightarrow> string \<Rightarrow> resolved_python option \<Rightarrow> effect_scope_binding option \<Rightarrow> bool \<Rightarrow>
   json \<Rightarrow> controller_world \<Rightarrow> controller_world \<times> json result" where
  "controller_tool_execute os taskRoot tool script python binding queued params w =
     (case jget params ''subcommand'' of
        Some (JStr subcommand) \<Rightarrow>
          if tool = Researchctl \<and> subcommand = ''init'' \<and> map_option eb_effect_profile binding = Some Researcher_bounded_v1 \<and> \<not> queued
          then (w, fail ''researchctl init requires the shared bounded controller execution queue'')
          else executeController os taskRoot tool subcommand (jget params ''argv'') script python binding
            (bounded_controller_commands tool) w
      | _ \<Rightarrow> (w, fail (tool_name tool @ '' subcommand is required'')))"

definition dispatch_controller_execute ::
  "controller_os \<Rightarrow> string \<Rightarrow> string \<Rightarrow> resolved_python option \<Rightarrow> effect_scope_binding \<Rightarrow> string \<Rightarrow> string list \<Rightarrow>
   controller_world \<Rightarrow> controller_world \<times> json result" where
  "dispatch_controller_execute os taskRoot script python b subcommand argv =
     executeController os taskRoot Researchctl subcommand (Some (JArr (map JStr argv))) script python (Some b)
       research_dispatch_commands"

definition controllerToolForEffectProfile :: "effect_profile \<Rightarrow> controller_tool option" where
  "controllerToolForEffectProfile p = (case p of Researcher_bounded_v1 \<Rightarrow> Some Researchctl
     | Assumption_audit_bounded_v1 \<Rightarrow> Some Aj_switchboard | _ \<Rightarrow> None)"

section \<open>The execution queue\<close>

text \<open>The calls of \<open>run\<close> in the order of their arrival: each waits for the one before it to be released.\<close>

datatype queued_call = Waiting_call | Running_call | Released_call

inductive queue_step :: "queued_call list \<Rightarrow> queued_call list \<Rightarrow> bool" where
  arrive: "queue_step q (q @ [Waiting_call])"
| start: "i < length q \<Longrightarrow> q ! i = Waiting_call \<Longrightarrow> i = 0 \<or> q ! (i - 1) = Released_call \<Longrightarrow> queue_step q (q[i := Running_call])"
| settle: "i < length q \<Longrightarrow> q ! i = Running_call \<Longrightarrow> queue_step q (q[i := Released_call])"

inductive_cases queue_stepE: "queue_step q q'"

definition served_in_order :: "queued_call list \<Rightarrow> bool" where
  "served_in_order q \<longleftrightarrow> (\<exists>a r b. q = replicate a Released_call @ r @ replicate b Waiting_call \<and> (r = [] \<or> r = [Running_call]))"

section \<open>What a validated argument names\<close>

definition confined_argument ::
  "fs_view \<Rightarrow> string \<Rightarrow> controller_tool \<Rightarrow> string \<Rightarrow> string list \<Rightarrow> effect_scope_binding option \<Rightarrow> nat \<Rightarrow> bool" where
  "confined_argument fs taskRoot tool subcommand argv binding i \<longleftrightarrow>
     (path_argument tool subcommand argv i \<longrightarrow>
        (let p = resolve_in taskRoot (path_value (argv ! i)) in
         is_within taskRoot p \<and> (\<exists>r. nearestExistingPath fs p = Inr r \<and> is_within taskRoot r) \<and>
         (mutation_argument tool subcommand argv i \<longrightarrow> (\<forall>b. binding = Some b \<longrightarrow> is_within (state_root_of b) p))))"

lemma task_root_path: "assertTaskRootPath fs r v l = Inr () \<Longrightarrow>
   is_within r (resolve_in r v) \<and> (\<exists>x. nearestExistingPath fs (resolve_in r v) = Inr x \<and> is_within r x)"
  by (auto simp: assertTaskRootPath_def fail_def bind_result_Inr_iff split: if_splits)

lemma mutation_path: "assertMutationPathInStateSubtree r v l (Some b) = Inr () \<Longrightarrow> is_within (state_root_of b) (resolve_in r v)"
  by (simp add: assertMutationPathInStateSubtree_def fail_def split: if_splits)

lemma checked_argument: "check_argument fs r tool sub argv binding i = Inr () \<Longrightarrow> confined_argument fs r tool sub argv binding i"
  unfolding check_argument_def confined_argument_def Let_def
  by (auto simp: fail_def bind_result_Inr_iff dest: task_root_path mutation_path split: if_splits)

lemma checked_all: "check_arguments fs r tool sub argv binding is = Inr () \<longleftrightarrow>
   (\<forall>i \<in> set is. check_argument fs r tool sub argv binding i = Inr ())"
  by (induction "is") (auto simp: bind_result_Inr_iff)

lemma validated_confined:
  assumes "validateArguments fs r tool sub argv binding = Inr ()"
  shows "length argv \<le> 64 \<and> (\<forall>i < length argv. confined_argument fs r tool sub argv binding i)"
  using assms checked_argument
  by (auto simp: validateArguments_def fail_def max_arguments_def checked_all split: if_splits)

section \<open>Calls\<close>

lemma execute_calls: "execute_file os c w = (w', out) \<Longrightarrow> cw_calls w' = cw_calls w @ [c]"
  by (auto simp: execute_file_def split: prod.splits)

lemma python_calls:
  assumes "assertResolvedBoundedControllerPython os python tool w = (w', r)"
  shows "cw_calls w' = cw_calls w \<and> (\<exists>e. r = Inl e) \<or>
    (\<exists>p. python = Some p \<and> cw_calls w' = cw_calls w @ [probe_call os (rp_realpath p) tool] \<and> (\<forall>v. r = Inr v \<longrightarrow> v = p))"
  using assms unfolding assertResolvedBoundedControllerPython_def fail_def
  by (auto split: option.splits if_splits sum.splits prod.splits exec_outcome.splits dest!: execute_calls)

lemma verified_calls:
  assumes "verifiedControllerCommand os tool script python w = (w', r)"
  shows "cw_calls w' = cw_calls w \<and> (\<exists>e. r = Inl e) \<or>
    (\<exists>p. python = Some p \<and> cw_calls w' = cw_calls w @ [probe_call os (rp_realpath p) tool] \<and>
      (\<forall>v. r = Inr v \<longrightarrow> vc_python v = rp_realpath p \<and> (\<exists>home. script_ok tool home (vc_script v))))"
proof (cases "fs_realpath (cw_fs w) script")
  case (Inr resolved)
  show ?thesis
  proof (cases "fs_realpath (cw_fs w) (path_dirname (path_dirname (resolve_in (co_process_cwd os) script)))")
    case (Inr home)
    obtain w1 v where v: "assertResolvedBoundedControllerPython os python tool w = (w1, v)" by fastforce
    show ?thesis using assms python_calls[OF v] \<open>fs_realpath (cw_fs w) script = Inr resolved\<close> Inr
      by (auto simp: verifiedControllerCommand_def fail_def v split: if_splits sum.splits)
  qed (use assms Inr in \<open>auto simp: verifiedControllerCommand_def\<close>)
qed (use assms in \<open>auto simp: verifiedControllerCommand_def\<close>)

lemma mkdir_calls: "establishExactDirectory os p l w = (w', r) \<Longrightarrow> cw_calls w' = cw_calls w"
  by (auto simp: establishExactDirectory_def split: prod.splits)

lemma establish_calls: "establish_all os ds w = (w', r) \<Longrightarrow> cw_calls w' = cw_calls w"
  by (induction os ds w rule: establish_all.induct) (auto split: prod.splits sum.splits dest!: mkdir_calls)

lemma establish_init_calls:
  "establishResearchControllerInitDirectories os r b sp w = (w', d) \<Longrightarrow> cw_calls w' = cw_calls w"
  unfolding establishResearchControllerInitDirectories_def fail_def
  by (auto simp del: establish_all.simps split: sum.splits if_splits prod.splits dest!: establish_calls)

lemma init_calls:
  "begin_research_init os tool sub home args binding w = (w', r) \<Longrightarrow>
   cw_calls w' = cw_calls w \<and> (\<forall>i. r = Inr (Some i) \<longrightarrow> binding = Some (ri_binding i))"
  unfolding begin_research_init_def fail_def
  by (auto split: option.splits if_splits sum.splits prod.splits dest!: establish_init_calls)

lemma success_closure:
  "check_success fs init binding = Inr () \<Longrightarrow> (\<And>i. init = Some i \<Longrightarrow> binding = Some (ri_binding i)) \<Longrightarrow> closure_after fs binding = Inr ()"
  by (auto simp: check_success_def assertResearchControllerInitSuccess_def closure_after_def fail_def bind_result_Inr_iff
      split: option.splits if_splits)

lemma failure_closure:
  "check_failure fs init binding = Inr () \<Longrightarrow> (\<And>i. init = Some i \<Longrightarrow> binding = Some (ri_binding i)) \<Longrightarrow> closure_after fs binding = Inr ()"
  by (auto simp: check_failure_def closure_after_def bind_result_Inr_iff split: option.splits)

lemma run_calls:
  assumes "run_controller os tool sub home args v init binding w = (w', r)"
    and "\<And>i. init = Some i \<Longrightarrow> binding = Some (ri_binding i)"
  shows "cw_calls w' = cw_calls w @ [\<lparr>cc_cwd = home, cc_program = vc_python v, cc_args = vc_script v # sub # args\<rparr>] \<and>
    (\<forall>x. r = Inr x \<longrightarrow> closure_after (cw_fs w') binding = Inr ())"
proof -
  let ?c = "\<lparr>cc_cwd = home, cc_program = vc_python v, cc_args = vc_script v # sub # args\<rparr>"
  obtain w1 out where w1: "execute_file os ?c w = (w1, out)" by fastforce
  have caught: "closure_after (cw_fs w1) binding = Inr ()" if "caught os tool sub (cw_fs w1) init binding m a b k = Inr x" for m a b k x
    using that failure_closure[OF _ assms(2)] by (auto simp: caught_def bind_result_Inr_iff)
  show ?thesis using assms(1) execute_calls[OF w1] success_closure[OF _ assms(2)] caught
    by (cases out) (auto simp: run_controller_def w1 split: sum.splits)
qed

section \<open>The queue\<close>

lemma served_nth:
  assumes "i < length (replicate a x @ r @ replicate b z)"
  shows "(replicate a x @ r @ replicate b z) ! i = (if i < a then x else if i < a + length r then r ! (i - a) else z)"
  using assms by (auto simp: nth_append)

lemma queue_keeps_order: "queue_step q q' \<Longrightarrow> served_in_order q \<Longrightarrow> served_in_order q'"
proof (induction rule: queue_step.induct)
  case (arrive q)
  then obtain a r b where "q = replicate a Released_call @ r @ replicate b Waiting_call" "r = [] \<or> r = [Running_call]"
    by (auto simp: served_in_order_def)
  then have "q @ [Waiting_call] = replicate a Released_call @ r @ replicate (Suc b) Waiting_call"
    by (simp add: replicate_append_same)
  then show ?case using \<open>r = [] \<or> r = [Running_call]\<close> unfolding served_in_order_def by blast
next
  case (start i q)
  then obtain a r b where q: "q = replicate a Released_call @ r @ replicate b Waiting_call" and r: "r = [] \<or> r = [Running_call]"
    by (auto simp: served_in_order_def)
  have i: "i = a" "r = []" using start.hyps r unfolding q by (auto simp: served_nth nth_append split: if_splits)
  then obtain b' where "b = Suc b'" using start.hyps unfolding q by (cases b) auto
  then have "q[i := Running_call] = replicate a Released_call @ [Running_call] @ replicate b' Waiting_call"
    using i q by (simp add: list_update_append)
  then show ?case unfolding served_in_order_def by blast
next
  case (settle i q)
  then obtain a r b where q: "q = replicate a Released_call @ r @ replicate b Waiting_call" and r: "r = [] \<or> r = [Running_call]"
    by (auto simp: served_in_order_def)
  have i: "i = a" "r = [Running_call]" using settle.hyps r unfolding q by (auto simp: served_nth nth_append split: if_splits)
  then have "q[i := Released_call] = replicate (Suc a) Released_call @ [] @ replicate b Waiting_call"
    using q by (simp add: list_update_append replicate_append_same)
  then show ?case unfolding served_in_order_def by blast
qed

lemma queue_progress:
  assumes "served_in_order q"
  shows "set q \<subseteq> {Released_call} \<or> (\<exists>i < length q. \<exists>c \<in> {Running_call, Released_call}. q ! i \<noteq> c \<and> queue_step q (q[i := c]))"
proof -
  obtain a r b where q: "q = replicate a Released_call @ r @ replicate b Waiting_call" and r: "r = [] \<or> r = [Running_call]"
    using assms by (auto simp: served_in_order_def)
  consider "r = [Running_call]" | "r = []" "b = 0" | b' where "r = []" "b = Suc b'" using r by (cases b) auto
  then show ?thesis
  proof cases
    case 1
    then have "a < length q" "q ! a = Running_call" by (simp_all add: q nth_append)
    then show ?thesis using queue_step.settle by (intro disjI2 exI[of _ a]) auto
  next
    case 2
    then show ?thesis by (auto simp: q)
  next
    case 3
    then have "a < length q" "q ! a = Waiting_call" by (simp_all add: q nth_append)
    moreover have "a = 0 \<or> q ! (a - 1) = Released_call" by (auto simp: q nth_append)
    ultimately show ?thesis using queue_step.start by (intro disjI2 exI[of _ a]) auto
  qed
qed

section \<open>Properties\<close>

text \<open>The two calls of an execution: the probe of the interpreter and the script.\<close>

definition script_call :: "string \<Rightarrow> resolved_python \<Rightarrow> string \<Rightarrow> string \<Rightarrow> string list \<Rightarrow> controller_call" where
  "script_call cwd p script subcommand args = \<lparr>cc_cwd = cwd, cc_program = rp_realpath p, cc_args = script # subcommand # args\<rparr>"

definition validated_call ::
  "controller_tool \<Rightarrow> string \<Rightarrow> string list \<Rightarrow> effect_scope_binding option \<Rightarrow> fs_view \<Rightarrow> string \<Rightarrow> string list \<Rightarrow> string \<Rightarrow> bool" where
  "validated_call tool subcommand allowed binding fs cwd args script \<longleftrightarrow>
     subcommand \<in> set allowed \<and> length args \<le> 64 \<and> (\<exists>home. script_ok tool home script) \<and>
     (\<forall>i < length args. confined_argument fs cwd tool subcommand args binding i)"

lemma validated_execution:
  assumes "verifiedControllerCommand os tool script (Some p) w = (w1, v)"
    and "(case v of Inl e \<Rightarrow> (w1, Inl e) | Inr v \<Rightarrow>
        (case begin_research_init os tool sub cwd args binding w1 of
           (w2, Inl e) \<Rightarrow> (w2, Inl e) | (w2, Inr init) \<Rightarrow> run_controller os tool sub cwd args v init binding w2)) = (w', r)"
  shows "cw_calls w' \<in> {cw_calls w, cw_calls w @ [probe_call os (rp_realpath p) tool]} \<or>
    (\<exists>s home. cw_calls w' = cw_calls w @ [probe_call os (rp_realpath p) tool, script_call cwd p s sub args] \<and>
       script_ok tool home s \<and> (is_ok r \<longrightarrow> closure_after (cw_fs w') binding = Inr ()))"
proof (cases v)
  case Inl
  then show ?thesis using assms(2) verified_calls[OF assms(1)] by auto
next
  case (Inr vc)
  then obtain home where vc: "cw_calls w1 = cw_calls w @ [probe_call os (rp_realpath p) tool]" "vc_python vc = rp_realpath p"
    "script_ok tool home (vc_script vc)" using verified_calls[OF assms(1)] by auto
  obtain w2 i where i: "begin_research_init os tool sub cwd args binding w1 = (w2, i)" by fastforce
  show ?thesis
  proof (cases i)
    case Inl
    then show ?thesis using assms(2) Inr i vc(1) init_calls[OF i] by auto
  next
    case began: (Inr init)
    have "run_controller os tool sub cwd args vc init binding w2 = (w', r)" using assms(2) Inr i began by simp
    from run_calls[OF this] init_calls[OF i] began vc
    have "cw_calls w' = cw_calls w @ [probe_call os (rp_realpath p) tool, script_call cwd p (vc_script vc) sub args]"
      and "is_ok r \<longrightarrow> closure_after (cw_fs w') binding = Inr ()"
      by (auto simp: script_call_def is_ok_def split: sum.splits)
    then show ?thesis using vc(3) by blast
  qed
qed

text \<open>The checks before the arguments are read.\<close>

definition admitted ::
  "controller_tool \<Rightarrow> string \<Rightarrow> string \<Rightarrow> json option \<Rightarrow> string list \<Rightarrow> effect_scope_binding option \<Rightarrow> fs_view \<Rightarrow>
   (string list \<times> string) result" where
  "admitted tool subcommand taskRoot raw allowed binding fs =
     bind_result (controller_argv tool raw) (\<lambda>args.
     bind_result (fs_realpath fs taskRoot) (\<lambda>base.
     bind_result (assertBoundEffectScopeRoot fs base binding) (\<lambda>_.
       if subcommand \<notin> set allowed then fail (tool_name tool @ '' subcommand is not allowed'') else Inr (args, base))))"


text \<open>A machine where every path is its own real path, and programs answer at once.\<close>

definition demo_fs :: fs_view where
  "demo_fs = \<lparr>fs_lstat = (\<lambda>p. Inr \<lparr>st_kind = (if p = ''/w'' then Kind_directory else Kind_regular), st_dev = 1, st_ino = 2,
       st_nlink = 1, st_size = 0, st_blocks = 0\<rparr>), fs_readdir = (\<lambda>_. Inr []), fs_realpath = Inr,
     fs_open = (\<lambda>p. Inr \<lparr>op_before = \<lparr>st_kind = Kind_regular, st_dev = 1, st_ino = 2, st_nlink = 1, st_size = 0, st_blocks = 0\<rparr>,
       op_bytes = [], op_after = \<lparr>st_kind = Kind_regular, st_dev = 1, st_ino = 2, st_nlink = 1, st_size = 0, st_blocks = 0\<rparr>\<rparr>)\<rparr>"

definition demo_os :: controller_os where
  "demo_os = \<lparr>co_mkdir = (\<lambda>_ fs. (fs, Inr ())), co_exec = (\<lambda>_ fs. (fs, Exec_ok ''done'' [])), co_executable = (\<lambda>_ _. True),
     co_sha256 = (\<lambda>_. replicate 64 CHR ''a''), co_decode = (\<lambda>_. []), co_json_parse = (\<lambda>_. None), co_process_cwd = ''/''\<rparr>"

definition demo_python :: resolved_python where
  "demo_python = \<lparr>rp_realpath = ''/py'', rp_sha256 = replicate 64 CHR ''a''\<rparr>"

definition demo_execution :: "controller_world \<times> json result" where
  "demo_execution = executeController demo_os ''/w'' Aj_switchboard ''gate'' (Some (JArr [JStr ''ledger.json'']))
     ''/s/scripts/aj.py'' (Some demo_python) None aj_commands \<lparr>cw_fs = demo_fs, cw_calls = []\<rparr>"

lemma demo_execution_runs: "length (cw_calls (fst demo_execution)) = 2 \<and> is_ok (snd demo_execution)"
proof -
  have args: "controller_argv Aj_switchboard (Some (JArr [JStr ''ledger.json''])) = Inr [''ledger.json'']"
    by (simp add: controller_argv_def)
  have "is_ok (validateArguments demo_fs ''/w'' Aj_switchboard ''gate'' [''ledger.json''] None)" by code_simp
  then have valid: "validateArguments demo_fs ''/w'' Aj_switchboard ''gate'' [''ledger.json''] None = Inr ()"
    by (auto simp: is_ok_def split: sum.splits)
  obtain w v where verified: "verifiedControllerCommand demo_os Aj_switchboard ''/s/scripts/aj.py'' (Some demo_python)
      \<lparr>cw_fs = demo_fs, cw_calls = []\<rparr> = (w, v)" by fastforce
  have "is_ok (snd (verifiedControllerCommand demo_os Aj_switchboard ''/s/scripts/aj.py'' (Some demo_python)
      \<lparr>cw_fs = demo_fs, cw_calls = []\<rparr>))" by code_simp
  then obtain vc where vc: "v = Inr vc" using verified by (auto simp: is_ok_def split: sum.splits)
  have "length (cw_calls w) = 1" using verified_calls[OF verified] vc by auto
  moreover have "''gate'' \<in> set aj_commands" "fs_realpath demo_fs = Inr" "co_exec demo_os = (\<lambda>_ fs. (fs, Exec_ok ''done'' []))"
    by (simp_all add: aj_commands_def demo_fs_def demo_os_def)
  ultimately show ?thesis
    by (simp add: demo_execution_def executeController_def args valid verified vc begin_research_init_def run_controller_def
        execute_file_def check_success_def closure_after_def assertBoundEffectScopeRoot_def)
qed


text \<open>
  C24: Only the first positional argument is checked. The check takes the argument at index 0 for a path and any
  other only if the nearest option before it is a path option. So an artifact outside the task root, which the
  commands of the assumption judge refuse as their first argument, is accepted unread behind any other
  option and its value, with or without an effect binding.
\<close>

theorem positional_after_option_unchecked:
  assumes "subcommand \<noteq> ''run''" and "assertTaskRootPath fs taskRoot ''--mode'' (argument_label 0) = Inr ()"
    and "\<not> is_within taskRoot (resolve_in taskRoot v)" and "length v \<le> 4096" and "nul \<notin> set v" and "is_absolute v"
  shows "(\<exists>e. validateArguments fs taskRoot Aj_switchboard subcommand [v] binding = Inl e) \<and>
    validateArguments fs taskRoot Aj_switchboard subcommand [''--mode'', ''strict'', v] binding = Inr ()"
proof
  have inline: "inline_option v = None"
    using assms(6) by (auto simp: inline_option_def path_options_def is_absolute_def starts_with_def find_None_iff neq_Nil_conv)
  have "\<not> confined_argument fs taskRoot Aj_switchboard subcommand [v] binding 0"
    using assms(1,3) inline by (simp add: confined_argument_def path_argument_def isPathValue_def positional_path_def path_value_def)
  then have "validateArguments fs taskRoot Aj_switchboard subcommand [v] binding \<noteq> Inr ()"
    using validated_confined[of fs taskRoot Aj_switchboard subcommand "[v]" binding] by auto
  then show "\<exists>e. validateArguments fs taskRoot Aj_switchboard subcommand [v] binding = Inl e"
    by (cases "validateArguments fs taskRoot Aj_switchboard subcommand [v] binding") auto
next
  let ?argv = "[''--mode'', ''strict'', v]"
  have inline: "inline_option ''--mode'' = None" "inline_option ''strict'' = None" "inline_option v = None"
    using assms(6) by (auto simp: inline_option_def path_options_def is_absolute_def starts_with_def find_None_iff neq_Nil_conv)
  have before: "option_before ?argv 0 = None" "option_before ?argv 1 = Some ''--mode''" "option_before ?argv 2 = Some ''--mode''"
    by (simp_all add: option_before_def starts_with_def numeral_2_eq_2)
  have plain: "nul \<notin> set ''--mode''" "nul \<notin> set ''strict''" "\<not> isHttpUrl ''--mode''" by code_simp+
  have separator: "v \<noteq> ''--''" using assms(6) by (auto simp: is_absolute_def)
  have "check_argument fs taskRoot Aj_switchboard subcommand ?argv binding 0 = Inr ()"
    using assms(1,2) inline(1) before(1) plain
    by (simp add: check_argument_def path_argument_def isPathValue_def positional_path_def path_value_def mutation_argument_def
        max_argument_chars_def)
  moreover have "check_argument fs taskRoot Aj_switchboard subcommand ?argv binding 1 = Inr ()"
    using assms(1) inline(2) before(2) plain
    by (simp add: check_argument_def path_argument_def isPathValue_def path_options_def max_argument_chars_def)
  moreover have "check_argument fs taskRoot Aj_switchboard subcommand ?argv binding 2 = Inr ()"
    using assms(1,4,5) inline(3) before(3) separator
    by (simp add: check_argument_def path_argument_def isPathValue_def path_options_def max_argument_chars_def)
  ultimately show "validateArguments fs taskRoot Aj_switchboard subcommand ?argv binding = Inr ()"
    using assms(1) by (simp add: validateArguments_def max_arguments_def upt_rec numeral_2_eq_2)
qed

theorem positional_after_option_unchecked_witness:
  "validateArguments demo_fs ''/w'' Aj_switchboard ''gate'' [''--mode'', ''strict'', ''/etc/passwd''] None = Inr ()"
proof -
  have "is_ok (assertTaskRootPath demo_fs ''/w'' ''--mode'' (argument_label 0))" by code_simp
  then have "assertTaskRootPath demo_fs ''/w'' ''--mode'' (argument_label 0) = Inr ()" by (auto simp: is_ok_def split: sum.splits)
  moreover have "\<not> is_within ''/w'' (resolve_in ''/w'' ''/etc/passwd'')" "nul \<notin> set ''/etc/passwd''" "is_absolute ''/etc/passwd''"
    by code_simp+
  ultimately show ?thesis
    using positional_after_option_unchecked[of "''gate''" demo_fs "''/w''" "''/etc/passwd''" None] by simp
qed

text \<open>
  Executions are serialised in the order of their arrival. In every reachable state of the queue the calls are
  those that were released, then at most one that runs, then those that wait; and as long as a call is
  not released, some call can start or be released.
\<close>

theorem execution_queue_is_serial:
  assumes "queue_step\<^sup>*\<^sup>* [] q"
  shows "served_in_order q \<and>
    (set q \<subseteq> {Released_call} \<or> (\<exists>i < length q. \<exists>c \<in> {Running_call, Released_call}. q ! i \<noteq> c \<and> queue_step q (q[i := c])))"
proof -
  have "served_in_order q" using assms
  proof (induction rule: rtranclp_induct)
    case base
    show ?case unfolding served_in_order_def by (rule exI[of _ 0], rule exI[of _ "[]"], rule exI[of _ 0]) simp
  next
    case (step q q')
    then show ?case using queue_keeps_order by blast
  qed
  then show ?thesis using queue_progress by blast
qed

theorem execution_queue_is_serial_witness:
  "served_in_order [Running_call]"
proof -
  have "queue_step [] [Waiting_call]" "queue_step [Waiting_call] [Running_call]"
    using queue_step.arrive[of "[]"] queue_step.start[of 0 "[Waiting_call]"] by simp_all
  then have "queue_step\<^sup>*\<^sup>* [] [Running_call]" by simp
  then show ?thesis using execution_queue_is_serial by blast
qed

end
