(* ===== verification/Episode_Frames.thy ===== *)
theory Episode_Frames
  imports Transcript "HOL-Library.AList"
begin

text \<open>
  The private control channel between a run's owner and its child: the frames of \<open>src/episodeBash.ts\<close> (lines 49-119)
  and \<open>src/processRunner.ts\<close> (line 12), and the child's side of the channel, \<open>src/piChildControl.ts\<close>. The
  child is a state that the lines of its standard input, its own calls and its timers change.
\<close>

section \<open>Frames\<close>

definition episode_registered :: string where
  "episode_registered = ''subagent007.episode_process_group_registered''"

definition episode_ack :: string where
  "episode_ack = ''subagent007.episode_process_group_registration_ack''"

definition registration_id_ok :: "string \<Rightarrow> bool" where
  "registration_id_ok s \<longleftrightarrow> hex_string 32 s"

definition exact_keys :: "json \<Rightarrow> string list \<Rightarrow> bool" where
  "exact_keys v expected \<longleftrightarrow> sort (jkeys v) = expected"

record registration =
  rg_id :: string
  rg_group :: int

definition valid_registration :: "json \<Rightarrow> registration option" where
  "valid_registration v =
     (case (jget v ''registration_id'', jget v ''process_group_id'') of
        (Some (JStr i), Some (JNum n)) \<Rightarrow>
          if exact_keys v [''process_group_id'', ''registration_id'', ''type'', ''version''] \<and>
             jget v ''version'' = Some (JNum 1) \<and> registration_id_ok i \<and> js_is_safe_integer n \<and> 0 < n
          then Some \<lparr>rg_id = i, rg_group = \<lfloor>n\<rfloor>\<rparr> else None
      | _ \<Rightarrow> None)"

definition parseEpisodeProcessGroupRegistration :: "js_runtime \<Rightarrow> string \<Rightarrow> registration option result" where
  "parseEpisodeProcessGroupRegistration rt line =
     (case rt_json_parse rt line of
        None \<Rightarrow> Inr None
      | Some v \<Rightarrow>
          if \<not> is_object v \<or> \<not> has_text v ''type'' episode_registered then Inr None
          else (case valid_registration v of
              None \<Rightarrow> Inl (PlainError ''invalid episode process-group registration frame'')
            | Some r \<Rightarrow> Inr (Some r)))"

definition ack_value :: "string \<Rightarrow> json" where
  "ack_value i = JObj [(''type'', JStr episode_ack), (''version'', JNum 1), (''registration_id'', JStr i)]"

definition episodeProcessGroupRegistrationAckFrame :: "js_runtime \<Rightarrow> string \<Rightarrow> string result" where
  "episodeProcessGroupRegistrationAckFrame rt i =
     (if registration_id_ok i then Inr (json_text (rt_num rt) (ack_value i) @ newline)
      else Inl (PlainError ''invalid episode process-group registration id''))"

definition parseEpisodeProcessGroupRegistrationAck :: "json \<Rightarrow> string option result" where
  "parseEpisodeProcessGroupRegistrationAck v =
     (if \<not> is_object v \<or> \<not> has_text v ''type'' episode_ack then Inr None
      else (case jget v ''registration_id'' of
          Some (JStr i) \<Rightarrow>
            if exact_keys v [''registration_id'', ''type'', ''version''] \<and> jget v ''version'' = Some (JNum 1) \<and> registration_id_ok i
            then Inr (Some i) else Inl (PlainError ''invalid episode process-group registration acknowledgement'')
        | _ \<Rightarrow> Inl (PlainError ''invalid episode process-group registration acknowledgement'')))"

definition owner_release_value :: json where
  "owner_release_value = JObj [(''type'', JStr ''subagent007.owner_commit_release''), (''version'', JNum 1)]"

definition child_owner_commit_release_frame :: "js_runtime \<Rightarrow> string" where
  "child_owner_commit_release_frame rt = json_text (rt_num rt) owner_release_value @ newline"

lemma ack_parses: "registration_id_ok i \<Longrightarrow> parseEpisodeProcessGroupRegistrationAck (ack_value i) = Inr (Some i)"
  by (simp add: parseEpisodeProcessGroupRegistrationAck_def ack_value_def has_text_def is_object_def exact_keys_def jkeys_def
      episode_ack_def)

section \<open>The child's end of the channel\<close>

record input_response =
  ir_request :: string
  ir_response :: string
  ir_answer :: string

text \<open>How a promise of the child was settled.\<close>

datatype child_outcome =
    Answered string input_response
  | Answer_timed_out string
  | Group_registered string
  | Group_refused string string

record child_control =
  cc_released :: bool
  cc_disposed :: bool
  cc_terminated :: bool
  cc_buffered :: "(string \<times> input_response) list"
  cc_waiters :: "(string \<times> nat) list"
  cc_timers :: "(nat \<times> string) list"
  cc_waits :: nat
  cc_registering :: "string list"
  cc_outcomes :: "child_outcome list"
  cc_written :: "json list"

definition fresh_control :: child_control where
  "fresh_control = \<lparr>cc_released = False, cc_disposed = False, cc_terminated = False, cc_buffered = [], cc_waiters = [], cc_timers = [], cc_waits = 0,
     cc_registering = [], cc_outcomes = [], cc_written = []\<rparr>"

definition accepted_event :: "string \<Rightarrow> input_response \<Rightarrow> json" where
  "accepted_event run r = JObj [(''type'', JStr ''subagent007.input_response_accepted''), (''run_id'', JStr run),
     (''request_id'', JStr (ir_request r)), (''response_id'', JStr (ir_response r))]"

definition answer_with :: "string \<Rightarrow> input_response \<Rightarrow> child_control \<Rightarrow> child_control" where
  "answer_with run r s = s\<lparr>cc_outcomes := cc_outcomes s @ [Answered (ir_request r) r],
     cc_written := cc_written s @ [accepted_event run r]\<rparr>"

definition response_of :: "json \<Rightarrow> input_response option" where
  "response_of v =
     (case (jget v ''request_id'', jget v ''response_id'', jget v ''answer'') of
        (Some (JStr q), Some (JStr p), Some (JStr a)) \<Rightarrow>
          if has_text v ''type'' ''subagent007.input_response''
          then Some \<lparr>ir_request = q, ir_response = p, ir_answer = a\<rparr> else None
      | _ \<Rightarrow> None)"

definition take_response :: "string \<Rightarrow> input_response \<Rightarrow> child_control \<Rightarrow> child_control" where
  "take_response run r s =
     (case map_of (cc_waiters s) (ir_request r) of
        Some n \<Rightarrow> answer_with run r (s\<lparr>cc_waiters := AList.delete (ir_request r) (cc_waiters s), cc_timers := AList.delete n (cc_timers s)\<rparr>)
      | None \<Rightarrow> s\<lparr>cc_buffered := AList.update (ir_request r) r (cc_buffered s)\<rparr>)"

text \<open>The handler of \<open>line\<close>; \<open>readline\<close> passes the line without its end.\<close>

definition child_line :: "js_runtime \<Rightarrow> string \<Rightarrow> string \<Rightarrow> child_control \<Rightarrow> child_control" where
  "child_line rt run line s =
     (case rt_json_parse rt line of
        None \<Rightarrow> s
      | Some v \<Rightarrow>
          if \<not> cc_released s \<and> line @ newline = child_owner_commit_release_frame rt then s\<lparr>cc_released := True\<rparr>
          else (case parseEpisodeProcessGroupRegistrationAck v of
              Inl _ \<Rightarrow> s
            | Inr (Some i) \<Rightarrow>
                if i \<in> set (cc_registering s)
                then s\<lparr>cc_registering := removeAll i (cc_registering s), cc_outcomes := cc_outcomes s @ [Group_registered i]\<rparr>
                else s
            | Inr None \<Rightarrow> (case response_of v of None \<Rightarrow> s | Some r \<Rightarrow> take_response run r s)))"

definition registration_value :: "registration \<Rightarrow> json" where
  "registration_value r = JObj [(''type'', JStr episode_registered), (''version'', JNum 1),
     (''registration_id'', JStr (rg_id r)), (''process_group_id'', JNum (of_int (rg_group r)))]"

definition registerProcessGroup :: "registration \<Rightarrow> child_control \<Rightarrow> child_control" where
  "registerProcessGroup r s =
     (if cc_disposed s then s\<lparr>cc_outcomes := cc_outcomes s @ [Group_refused (rg_id r)
          ''child control channel closed before process ownership registration'']\<rparr>
      else if rg_id r \<in> set (cc_registering s)
      then s\<lparr>cc_outcomes := cc_outcomes s @ [Group_refused (rg_id r) ''duplicate episode process-group registration id'']\<rparr>
      else s\<lparr>cc_registering := cc_registering s @ [rg_id r], cc_written := cc_written s @ [registration_value r]\<rparr>)"

definition registration_timeout :: "string \<Rightarrow> child_control \<Rightarrow> child_control" where
  "registration_timeout i s =
     (if i \<in> set (cc_registering s)
      then s\<lparr>cc_registering := removeAll i (cc_registering s), cc_outcomes := cc_outcomes s @
        [Group_refused i ''episode process-group ownership registration timed out'']\<rparr> else s)"

text \<open>Each wait has a number: its timer rejects its own promise, whoever waits for the request by then.\<close>

definition waitForResponse :: "string \<Rightarrow> string \<Rightarrow> child_control \<Rightarrow> child_control" where
  "waitForResponse run q s =
     (case map_of (cc_buffered s) q of
        Some r \<Rightarrow> answer_with run r (s\<lparr>cc_buffered := AList.delete q (cc_buffered s)\<rparr>)
      | None \<Rightarrow> s\<lparr>cc_waiters := AList.update q (cc_waits s) (cc_waiters s), cc_timers := cc_timers s @ [(cc_waits s, q)],
          cc_waits := Suc (cc_waits s)\<rparr>)"

definition response_timeout :: "nat \<Rightarrow> child_control \<Rightarrow> child_control" where
  "response_timeout n s =
     (case map_of (cc_timers s) n of
        None \<Rightarrow> s
      | Some q \<Rightarrow> s\<lparr>cc_waiters := AList.delete q (cc_waiters s), cc_timers := AList.delete n (cc_timers s),
          cc_outcomes := cc_outcomes s @ [Answer_timed_out q]\<rparr>)"

definition dispose_control :: "child_control \<Rightarrow> child_control" where
  "dispose_control s = s\<lparr>cc_disposed := True, cc_registering := [], cc_waiters := [], cc_buffered := [],
     cc_outcomes := cc_outcomes s @ map (\<lambda>i. Group_refused i
       ''child control channel closed before process ownership registration'') (cc_registering s)\<rparr>"

definition control_closed :: "child_control \<Rightarrow> child_control" where
  "control_closed s = (if cc_disposed s then s else s\<lparr>cc_terminated := True\<rparr>)"

datatype child_event =
    Line_in string
  | Register registration
  | Registration_late string
  | Wait_for string
  | Wait_late nat
  | Dispose
  | Input_closed

fun child_step :: "js_runtime \<Rightarrow> string \<Rightarrow> child_event \<Rightarrow> child_control \<Rightarrow> child_control" where
  "child_step rt run (Line_in l) s = child_line rt run l s"
| "child_step rt run (Register r) s = registerProcessGroup r s"
| "child_step rt run (Registration_late i) s = registration_timeout i s"
| "child_step rt run (Wait_for q) s = waitForResponse run q s"
| "child_step rt run (Wait_late n) s = response_timeout n s"
| "child_step rt run Dispose s = dispose_control s"
| "child_step rt run Input_closed s = control_closed s"

text \<open>What a line carries.\<close>

definition carries :: "js_runtime \<Rightarrow> input_response \<Rightarrow> child_event \<Rightarrow> bool" where
  "carries rt r e \<longleftrightarrow> (\<exists>l v. e = Line_in l \<and> rt_json_parse rt l = Some v \<and> response_of v = Some r)"

definition child_after :: "js_runtime \<Rightarrow> string \<Rightarrow> child_event list \<Rightarrow> child_control" where
  "child_after rt run es = fold (child_step rt run) es fresh_control"

section \<open>What the child is told\<close>

definition answered :: "input_response \<Rightarrow> child_control \<Rightarrow> nat" where
  "answered r s = length (filter (\<lambda>x. x = Answered (ir_request r) r) (cc_outcomes s))"

definition held :: "input_response \<Rightarrow> child_control \<Rightarrow> nat" where
  "held r s = (if map_of (cc_buffered s) (ir_request r) = Some r then 1 else 0)"

definition accepted_count :: "string \<Rightarrow> child_control \<Rightarrow> bool" where
  "accepted_count run s \<longleftrightarrow> filter (\<lambda>v. has_text v ''type'' ''subagent007.input_response_accepted'') (cc_written s) =
     concat (map (\<lambda>x. case x of Answered _ r \<Rightarrow> [accepted_event run r] | _ \<Rightarrow> []) (cc_outcomes s))"

definition released_by :: "js_runtime \<Rightarrow> child_event list \<Rightarrow> bool" where
  "released_by rt es \<longleftrightarrow> (\<exists>l. Line_in l \<in> set es \<and> l @ newline = child_owner_commit_release_frame rt)"

definition acked_by :: "js_runtime \<Rightarrow> string \<Rightarrow> child_event list \<Rightarrow> bool" where
  "acked_by rt i es \<longleftrightarrow> (\<exists>l v. Line_in l \<in> set es \<and> rt_json_parse rt l = Some v \<and>
     parseEpisodeProcessGroupRegistrationAck v = Inr (Some i))"

definition deliveries :: "js_runtime \<Rightarrow> input_response \<Rightarrow> child_event list \<Rightarrow> nat" where
  "deliveries rt r es = length (filter (carries rt r) es)"

lemma deliveries_more: "deliveries rt r (es @ [e]) = deliveries rt r es + (if carries rt r e then 1 else 0)"
  by (simp add: deliveries_def)

lemma told_mono: "released_by rt es \<Longrightarrow> released_by rt (es @ [e])" "acked_by rt i es \<Longrightarrow> acked_by rt i (es @ [e])"
  by (auto simp: released_by_def acked_by_def)

definition control_ok :: "js_runtime \<Rightarrow> string \<Rightarrow> child_event list \<Rightarrow> child_control \<Rightarrow> bool" where
  "control_ok rt run es s \<longleftrightarrow>
     (cc_released s \<longrightarrow> released_by rt es) \<and>
     (\<forall>q r. map_of (cc_buffered s) q = Some r \<longrightarrow> ir_request r = q) \<and>
     (\<forall>r. answered r s + held r s \<le> deliveries rt r es) \<and> accepted_count run s \<and>
     (\<forall>i. Group_registered i \<in> set (cc_outcomes s) \<longrightarrow> acked_by rt i es)"

lemma outcome_counts:
  "answered r (s\<lparr>cc_outcomes := xs\<rparr>) = length (filter (\<lambda>x. x = Answered (ir_request r) r) xs)"
  "held r (s\<lparr>cc_buffered := b\<rparr>) = (if map_of b (ir_request r) = Some r then 1 else 0)"
  by (simp_all add: answered_def held_def)

lemma answer_keeps:
  assumes "control_ok rt run es s"
    and "answered r s + held r t < deliveries rt r es"
    and "cc_released t = cc_released s" "cc_outcomes t = cc_outcomes s" "cc_written t = cc_written s"
    and "\<And>q r. map_of (cc_buffered t) q = Some r \<Longrightarrow> map_of (cc_buffered s) q = Some r"
  shows "control_ok rt run es (answer_with run r t)"
proof -
  have "answered x (answer_with run r t) + held x (answer_with run r t) \<le> deliveries rt x es" for x
  proof (cases "x = r")
    case True
    then show ?thesis using assms(2,4) by (simp add: answered_def answer_with_def held_def)
  next
    case False
    have "held x t \<le> held x s" using assms(6) by (simp add: held_def)
    moreover have "answered x s + held x s \<le> deliveries rt x es" using assms(1) by (simp add: control_ok_def)
    moreover have "answered x (answer_with run r t) = answered x s" "held x (answer_with run r t) = held x t"
      using False assms(4) by (simp_all add: answered_def answer_with_def held_def)
    ultimately show ?thesis by linarith
  qed
  moreover have "accepted_count run (answer_with run r t)"
    using assms(1,4,5) by (simp add: control_ok_def accepted_count_def answer_with_def accepted_event_def has_text_def)
  ultimately show ?thesis using assms(1,3,4,6) by (auto simp: control_ok_def answer_with_def)
qed

lemma control_more: "control_ok rt run es s \<Longrightarrow> control_ok rt run (es @ [e]) s"
  unfolding control_ok_def by (simp add: told_mono deliveries_more trans_le_add1)

lemma take_response_keeps:
  assumes "control_ok rt run es s" and "carries rt r e"
  shows "control_ok rt run (es @ [e]) (take_response run r s)"
proof (cases "map_of (cc_waiters s) (ir_request r)")
  case (Some n)
  have "answered r s + held r s \<le> deliveries rt r es" using assms(1) by (simp add: control_ok_def)
  then show ?thesis using assms(2) Some
    by (simp add: take_response_def, intro answer_keeps[OF control_more[OF assms(1)]]) (simp_all add: held_def deliveries_more)
next
  case None
  have "answered x s + held x (take_response run r s) \<le> deliveries rt x (es @ [e])" for x
  proof -
    have old: "answered x s + held x s \<le> deliveries rt x es" using assms(1) by (simp add: control_ok_def)
    have "cc_buffered (take_response run r s) = AList.update (ir_request r) r (cc_buffered s)" by (simp add: take_response_def None)
    then have "map_of (cc_buffered (take_response run r s)) = (map_of (cc_buffered s))(ir_request r \<mapsto> r)"
      by (simp only: AList.update_conv')
    then have "held x (take_response run r s) \<le> held x s + (if x = r then 1 else 0)"
      unfolding held_def by (cases "x = r") simp_all
    then show ?thesis using old assms(2) by (simp add: deliveries_more split: if_splits)
  qed
  then have "answered x (take_response run r s) + held x (take_response run r s) \<le> deliveries rt x (es @ [e])" for x
    by (simp add: take_response_def None answered_def)
  moreover have "map_of (cc_buffered (take_response run r s)) q = Some x \<Longrightarrow> ir_request x = q" for q x
    using assms(1) by (simp add: take_response_def None AList.update_conv' control_ok_def split: if_splits)
  moreover have "cc_released (take_response run r s) = cc_released s" "cc_outcomes (take_response run r s) = cc_outcomes s"
    "cc_written (take_response run r s) = cc_written s" by (simp_all add: take_response_def None)
  ultimately show ?thesis using control_more[OF assms(1), of e] by (simp add: control_ok_def accepted_count_def)
qed

lemma line_keeps:
  assumes "control_ok rt run es s"
  shows "control_ok rt run (es @ [Line_in l]) (child_line rt run l s)"
proof (cases "rt_json_parse rt l")
  case None
  then show ?thesis using control_more[OF assms] by (simp add: child_line_def)
next
  case v: (Some v)
  have ok: "control_ok rt run (es @ [Line_in l]) s" using control_more[OF assms] .
  show ?thesis
  proof (cases "\<not> cc_released s \<and> l @ newline = child_owner_commit_release_frame rt")
    case True
    then show ?thesis using v ok by (auto simp: child_line_def control_ok_def answered_def held_def accepted_count_def released_by_def)
  next
    case False
    then have line: "child_line rt run l s = (case parseEpisodeProcessGroupRegistrationAck v of
              Inl _ \<Rightarrow> s
            | Inr (Some i) \<Rightarrow>
                if i \<in> set (cc_registering s)
                then s\<lparr>cc_registering := removeAll i (cc_registering s), cc_outcomes := cc_outcomes s @ [Group_registered i]\<rparr>
                else s
            | Inr None \<Rightarrow> (case response_of v of None \<Rightarrow> s | Some r \<Rightarrow> take_response run r s))"
      unfolding child_line_def v option.case by (simp only: False if_False)
    show ?thesis
    proof (cases "parseEpisodeProcessGroupRegistrationAck v")
      case Inl
      then show ?thesis using ok line by simp
    next
      case ack: (Inr x)
      show ?thesis
      proof (cases x)
        case None
        then show ?thesis using ok line ack v take_response_keeps[OF assms]
          by (auto simp: carries_def split: option.splits)
      next
        case (Some i)
        then have "acked_by rt i (es @ [Line_in l])" using v ack by (auto simp: acked_by_def)
        then show ?thesis using Some ok line ack
          by (auto simp: control_ok_def answered_def held_def accepted_count_def)
      qed
    qed
  qed
qed

lemma wait_keeps:
  assumes "control_ok rt run es s"
  shows "control_ok rt run es (waitForResponse run q s)"
proof (cases "map_of (cc_buffered s) q")
  case None
  then show ?thesis using assms by (auto simp: waitForResponse_def control_ok_def answered_def held_def accepted_count_def)
next
  case (Some r)
  then have q: "ir_request r = q" using assms by (simp add: control_ok_def)
  have "answered r s + held r s \<le> deliveries rt r es" using assms by (simp add: control_ok_def)
  then show ?thesis using Some q
    by (simp add: waitForResponse_def, intro answer_keeps[OF assms])
      (auto simp: held_def AList.delete_conv' restrict_map_def fun_upd_def split: if_splits)
qed

lemma child_step_keeps:
  assumes "control_ok rt run es s"
  shows "control_ok rt run (es @ [e]) (child_step rt run e s)"
proof (cases e)
  case (Line_in l)
  then show ?thesis using line_keeps[OF assms] by simp
next
  case (Wait_for q)
  then show ?thesis using wait_keeps[OF control_more[OF assms]] by simp
next
  case Dispose
  have none: "filter (\<lambda>x. x = Answered (ir_request r) r) (map (\<lambda>i. Group_refused i m) xs) = []"
    "concat (map (\<lambda>x. case x of Answered _ r \<Rightarrow> [accepted_event run r] | _ \<Rightarrow> []) (map (\<lambda>i. Group_refused i m) xs)) = []"
    for r m and xs :: "string list" by (induction xs) simp_all
  have "answered r (dispose_control s) + held r (dispose_control s) \<le> answered r s + held r s" for r
    by (simp add: dispose_control_def answered_def held_def none)
  moreover have "answered r s + held r s \<le> deliveries rt r (es @ [e])" for r
    using control_more[OF assms, of e] by (simp add: control_ok_def)
  ultimately have "answered r (dispose_control s) + held r (dispose_control s) \<le> deliveries rt r (es @ [e])" for r
    using le_trans by blast
  moreover have "accepted_count run (dispose_control s)"
    using assms none(2) by (simp add: control_ok_def accepted_count_def dispose_control_def)
  ultimately show ?thesis using control_more[OF assms, of e] Dispose
    by (auto simp: control_ok_def dispose_control_def)
next
  case Input_closed
  then show ?thesis using control_more[OF assms, of e]
    by (auto simp: control_closed_def control_ok_def answered_def held_def accepted_count_def)
next
  case (Register r)
  then show ?thesis using control_more[OF assms, of e]
    by (auto simp: registerProcessGroup_def control_ok_def answered_def held_def accepted_count_def registration_value_def has_text_def
        episode_registered_def)
next
  case (Registration_late i)
  then show ?thesis using control_more[OF assms, of e]
    by (auto simp: registration_timeout_def control_ok_def answered_def held_def accepted_count_def)
next
  case (Wait_late n)
  then show ?thesis using control_more[OF assms, of e]
    by (cases "map_of (cc_timers s) n") (simp_all add: response_timeout_def control_ok_def answered_def held_def accepted_count_def)
qed

lemma child_after_ok: "control_ok rt run es (child_after rt run es)"
proof (induction es rule: rev_induct)
  case Nil
  show ?case by (simp add: control_ok_def child_after_def fresh_control_def answered_def held_def accepted_count_def)
next
  case (snoc e es)
  then show ?case using child_step_keeps by (simp add: child_after_def)
qed

section \<open>Properties\<close>

text \<open>
  The child acts only on what its owner wrote. Whatever lines arrive, whatever the child calls and whatever timers
  fire: the child is released only by the exact release frame, a process group counts as registered only after an
  acknowledgement of its id, no answer is delivered more often than lines carried it, and every delivered answer is
  reported to the owner once, in order.
\<close>

theorem child_control_is_faithful:
  "let s = child_after rt run es in
   (cc_released s \<longrightarrow> released_by rt es) \<and> (\<forall>i. Group_registered i \<in> set (cc_outcomes s) \<longrightarrow> acked_by rt i es) \<and>
   (\<forall>r. answered r s \<le> deliveries rt r es) \<and> accepted_count run s"
  using child_after_ok[of rt run es] unfolding control_ok_def Let_def by (auto simp: deliveries_def intro: add_leD1)

end
