(* ===== verification/Process_Runner.thy ===== *)
theory Process_Runner
  imports Episode_Frames Run_Lifecycle
begin

text \<open>
  The supervision of a child process, \<open>runChildProcess\<close> of \<open>src/processRunner.ts\<close>: one state, and one handler for
  each event of the process, its pipes, the timers and the callbacks. A continuation of a promise is an event
  of its own, so the steps cover every order in which the event loop can run them. What a
  handler sees of the machine (the clock, the process groups that exist, whether the control pipe takes a
  write) is its observation. Signals, frames and delivered lines are logged.
\<close>

section \<open>State\<close>

datatype signal = SIGTERM | SIGKILL

datatype pipe = Stdout | Stderr

datatype reader_state = Reading | Awaiting_line | Awaiting_ack | Ended | Broken

text \<open>One run of \<open>consumeStream\<close>: the lines of the chunk in hand, and the text behind the last line end.\<close>

record reader =
  rd_state :: reader_state
  rd_lines :: "string list"
  rd_pending :: string
  rd_eof :: bool

datatype spawn_observation = Obs_pending | Obs_ok | Obs_failed

datatype commit_stage = Commit_none | Commit_callback | Commit_writing | Commit_released | Commit_failed

datatype settlement = Settle_none | Settle_term int | Settle_kill int | Settle_done bool

record runner_config =
  pc_windows :: bool
  pc_pid :: "int option"
  pc_budget :: timeout_budget
  pc_reserve :: "int option"
  pc_runtime :: js_runtime
  pc_started :: int

record process_result =
  pe_exit_code :: "int option"
  pe_stop_signal :: "string option"
  pe_timed_out :: bool
  pe_cancelled :: bool
  pe_exhausted :: bool
  pe_stop_reason :: run_stop_reason
  pe_duration :: int

record runner =
  pr_now :: int
  pr_obs :: spawn_observation
  pr_commit :: commit_stage
  pr_obs_error :: "js_error option"
  pr_timed_out :: bool
  pr_cancelled :: bool
  pr_exhausted :: bool
  pr_close :: "(int option \<times> string option) option"
  pr_spawn_error :: "js_error option"
  pr_output_error :: "js_error option"
  pr_terminating :: "int option"
  pr_last_signal :: "string option"
  pr_timeout_at :: "int option"
  pr_kill_at :: "int option"
  pr_force_at :: "int option"
  pr_queue :: "(string \<times> pipe option) list"
  pr_calling :: bool
  pr_stdout :: reader
  pr_stderr :: reader
  pr_owned :: "int list"
  pr_registered :: "(string \<times> int) list"
  pr_settle :: settlement
  pr_disk_busy :: bool
  pr_beat :: nat
  pr_beat_busy :: bool
  pr_exited :: bool
  pr_result :: "(process_result \<times> nat) option"
  pr_outcome :: "process_result result option"
  pr_queued :: "string list"
  pr_delivered :: "string list"
  pr_signals :: "(int \<times> signal \<times> int) list"
  pr_frames :: "string list"
  pr_sent :: "string list"

text \<open>\<open>closed\<close>, \<open>settled\<close> and \<open>terminationStarted\<close> of the code.\<close>

abbreviation pr_closed :: "runner \<Rightarrow> bool" where
  "pr_closed s \<equiv> pr_close s \<noteq> None"

abbreviation pr_settled :: "runner \<Rightarrow> bool" where
  "pr_settled s \<equiv> pr_result s \<noteq> None"

record observation =
  ob_now :: int
  ob_alive :: "int \<Rightarrow> bool"
  ob_writable :: bool

definition fresh_reader :: reader where
  "fresh_reader = \<lparr>rd_state = Reading, rd_lines = [], rd_pending = [], rd_eof = False\<rparr>"

definition fresh_runner :: "runner_config \<Rightarrow> runner" where
  "fresh_runner c =
     \<lparr>pr_now = pc_started c, pr_obs = Obs_pending, pr_commit = Commit_none, pr_obs_error = None, pr_timed_out = False,
      pr_cancelled = False, pr_exhausted = False, pr_close = None, pr_spawn_error = None, pr_output_error = None,
      pr_terminating = None, pr_last_signal = None,
      pr_timeout_at = map_option (\<lambda>t. pc_started c + t) (tb_effective (pc_budget c)), pr_kill_at = None, pr_force_at = None,
      pr_queue = [], pr_calling = False, pr_stdout = fresh_reader, pr_stderr = fresh_reader, pr_owned = [], pr_registered = [],
      pr_settle = Settle_none, pr_disk_busy = False, pr_beat = 0, pr_beat_busy = False, pr_exited = False, pr_result = None,
      pr_outcome = None, pr_queued = [], pr_delivered = [], pr_signals = [], pr_frames = [], pr_sent = []\<rparr>"

text \<open>A run whose signal was aborted before it starts has no child.\<close>

definition aborted_result :: process_result where
  "aborted_result = \<lparr>pe_exit_code = None, pe_stop_signal = None, pe_timed_out = False, pe_cancelled = True, pe_exhausted = False,
     pe_stop_reason = Stop_cancelled, pe_duration = 0\<rparr>"

definition runChildProcess :: "bool \<Rightarrow> runner_config \<Rightarrow> process_result + runner" where
  "runChildProcess aborted c = (if aborted then Inl aborted_result else Inr (fresh_runner c))"

section \<open>Signals and process groups\<close>

fun signal_name :: "signal \<Rightarrow> string" where
  "signal_name SIGTERM = ''SIGTERM''"
| "signal_name SIGKILL = ''SIGKILL''"

definition signalProcessGroup :: "observation \<Rightarrow> int \<Rightarrow> signal \<Rightarrow> runner \<Rightarrow> runner" where
  "signalProcessGroup ob g sig s = s\<lparr>pr_signals := pr_signals s @ [(ob_now ob, sig, g)]\<rparr>"

definition pid_list :: "runner_config \<Rightarrow> int list" where
  "pid_list c = (case pc_pid c of None \<Rightarrow> [] | Some p \<Rightarrow> [p])"

definition signalOwnedProcessGroups :: "runner_config \<Rightarrow> observation \<Rightarrow> signal \<Rightarrow> bool \<Rightarrow> runner \<Rightarrow> runner" where
  "signalOwnedProcessGroups c ob sig includeChildGroup s =
     (if pc_windows c then s
      else fold (\<lambda>g. signalProcessGroup ob g sig) ((if includeChildGroup then pid_list c else []) @ pr_owned s) s)"

definition signalChild :: "runner_config \<Rightarrow> observation \<Rightarrow> signal \<Rightarrow> runner \<Rightarrow> runner" where
  "signalChild c ob sig s =
     fold (\<lambda>g. signalProcessGroup ob g sig) (pid_list c) (s\<lparr>pr_last_signal := Some (signal_name sig)\<rparr>)"

definition retireAbsentOwnedProcessGroups :: "observation \<Rightarrow> runner \<Rightarrow> runner" where
  "retireAbsentOwnedProcessGroups ob s = s\<lparr>pr_owned := filter (ob_alive ob) (pr_owned s)\<rparr>"

text \<open>\<open>allEpisodeProcessGroupsAbsent\<close>, which also retires the owned groups that are gone.\<close>

definition groups_absent :: "runner_config \<Rightarrow> observation \<Rightarrow> runner \<Rightarrow> bool" where
  "groups_absent c ob s \<longleftrightarrow> pc_windows c \<or> list_all (\<lambda>g. \<not> ob_alive ob g) (pr_owned s @ pid_list c)"

definition retire_checked :: "runner_config \<Rightarrow> observation \<Rightarrow> runner \<Rightarrow> runner" where
  "retire_checked c ob s = (if pc_windows c then s else retireAbsentOwnedProcessGroups ob s)"

section \<open>Termination and the result\<close>

abbreviation kill_grace :: "runner_config \<Rightarrow> int" where
  "kill_grace c \<equiv> tb_kill_grace (pc_budget c)"

abbreviation force_grace :: "runner_config \<Rightarrow> int" where
  "force_grace c \<equiv> tb_force_grace (pc_budget c)"

definition startGracefulTermination :: "runner_config \<Rightarrow> observation \<Rightarrow> runner \<Rightarrow> runner" where
  "startGracefulTermination c ob s =
     (if pr_terminating s \<noteq> None then s
      else (signalOwnedProcessGroups c ob SIGTERM False
          (signalChild c ob SIGTERM (s\<lparr>pr_terminating := Some (ob_now ob)\<rparr>)))
        \<lparr>pr_kill_at := Some (ob_now ob + kill_grace c), pr_force_at := Some (ob_now ob + (kill_grace c + force_grace c))\<rparr>)"

definition isDiskExhaustionError :: "js_error \<Rightarrow> bool" where
  "isDiskExhaustionError e \<longleftrightarrow>
     (case e of ErrnoError (OtherErrno t) \<Rightarrow> t = ''ENOSPC'' \<or> t = ''EDQUOT'' | _ \<Rightarrow> False)"

definition note_error :: "js_error \<Rightarrow> runner \<Rightarrow> runner" where
  "note_error e s = (if pr_output_error s = None then s\<lparr>pr_output_error := Some e\<rparr> else s)"

text \<open>What every failing write or reader leads to.\<close>

definition output_failed :: "runner_config \<Rightarrow> observation \<Rightarrow> js_error \<Rightarrow> runner \<Rightarrow> runner" where
  "output_failed c ob e s =
     startGracefulTermination c ob
       ((note_error e s)\<lparr>pr_exhausted := pr_exhausted s \<or> isDiskExhaustionError e\<rparr>)"

definition stop_reason :: "int option \<Rightarrow> runner \<Rightarrow> run_stop_reason" where
  "stop_reason exitCode s =
     (if pr_spawn_error s \<noteq> None then Stop_spawn_error
      else if pr_exhausted s then Stop_resource_exhausted
      else if pr_timed_out s then Stop_timeout
      else if pr_cancelled s then Stop_cancelled
      else if exitCode = Some 0 \<and> pr_output_error s = None then Stop_completed else Stop_failed)"

definition process_result_of :: "runner_config \<Rightarrow> observation \<Rightarrow> int option \<Rightarrow> string option \<Rightarrow> runner \<Rightarrow> process_result" where
  "process_result_of c ob exitCode stopSignal s =
     \<lparr>pe_exit_code = (if pr_spawn_error s \<noteq> None then None else exitCode),
      pe_stop_signal = (if pr_spawn_error s \<noteq> None then None else stopSignal),
      pe_timed_out = pr_timed_out s, pe_cancelled = pr_cancelled s, pe_exhausted = pr_exhausted s,
      pe_stop_reason = stop_reason exitCode s, pe_duration = ob_now ob - pc_started c\<rparr>"

text \<open>\<open>finish\<close>: the timers are cleared, and the promise settles when the lines queued by then are done.\<close>

definition finish_run :: "runner_config \<Rightarrow> observation \<Rightarrow> int option \<Rightarrow> string option \<Rightarrow> runner \<Rightarrow> runner" where
  "finish_run c ob exitCode stopSignal s =
     (if pr_settled s then s
      else s\<lparr>pr_timeout_at := None, pr_kill_at := None, pr_force_at := None,
             pr_result := Some (process_result_of c ob exitCode stopSignal s, length (pr_queue s))\<rparr>)"

section \<open>The settlement of the process groups\<close>

text \<open>The wait for the groups is polled; every look at the groups compares the clock with the deadline.\<close>

definition startEpisodeProcessSettlement :: "runner_config \<Rightarrow> observation \<Rightarrow> runner \<Rightarrow> runner" where
  "startEpisodeProcessSettlement c ob s =
     (if pr_settle s \<noteq> Settle_none then s
      else if groups_absent c ob s then (retire_checked c ob s)\<lparr>pr_settle := Settle_done True\<rparr>
      else (let s1 = retire_checked c ob s in
        case pr_terminating s of
          Some t \<Rightarrow> s1\<lparr>pr_settle := Settle_term (t + kill_grace c)\<rparr>
        | None \<Rightarrow> (signalOwnedProcessGroups c ob SIGTERM True s1)\<lparr>pr_settle := Settle_term (ob_now ob + kill_grace c)\<rparr>))"

definition poll_settlement :: "runner_config \<Rightarrow> observation \<Rightarrow> runner \<Rightarrow> runner" where
  "poll_settlement c ob s =
     (case pr_settle s of
        Settle_term t \<Rightarrow>
          if groups_absent c ob s then (retire_checked c ob s)\<lparr>pr_settle := Settle_done True\<rparr>
          else if t \<le> ob_now ob
          then (signalOwnedProcessGroups c ob SIGKILL True (retire_checked c ob s))\<lparr>pr_settle := Settle_kill (t + force_grace c)\<rparr>
          else retire_checked c ob s
      | Settle_kill t \<Rightarrow>
          if groups_absent c ob s then (retire_checked c ob s)\<lparr>pr_settle := Settle_done True\<rparr>
          else if t \<le> ob_now ob then (retire_checked c ob s)\<lparr>pr_settle := Settle_done False\<rparr>
          else retire_checked c ob s
      | _ \<Rightarrow> s)"

section \<open>Lines\<close>

definition queueOutputLine :: "string \<Rightarrow> pipe option \<Rightarrow> runner \<Rightarrow> runner" where
  "queueOutputLine line waiter s = s\<lparr>pr_queue := pr_queue s @ [(line, waiter)], pr_queued := pr_queued s @ [line]\<rparr>"

fun reader_of :: "pipe \<Rightarrow> runner \<Rightarrow> reader" where
  "reader_of Stdout s = pr_stdout s"
| "reader_of Stderr s = pr_stderr s"

fun set_reader :: "pipe \<Rightarrow> reader \<Rightarrow> runner \<Rightarrow> runner" where
  "set_reader Stdout r s = s\<lparr>pr_stdout := r\<rparr>"
| "set_reader Stderr r s = s\<lparr>pr_stderr := r\<rparr>"

definition set_state :: "pipe \<Rightarrow> reader_state \<Rightarrow> runner \<Rightarrow> runner" where
  "set_state p st s = set_reader p ((reader_of p s)\<lparr>rd_state := st\<rparr>) s"

text \<open>The rejection of a reader reaches the handler of both only if the other has not failed before.\<close>

definition reader_failed :: "runner_config \<Rightarrow> observation \<Rightarrow> pipe \<Rightarrow> js_error \<Rightarrow> runner \<Rightarrow> runner" where
  "reader_failed c ob p e s =
     set_state p Broken
       (if rd_state (pr_stdout s) = Broken \<or> rd_state (pr_stderr s) = Broken then s else output_failed c ob e s)"

definition consumers_settled :: "runner \<Rightarrow> bool" where
  "consumers_settled s \<longleftrightarrow>
     rd_state (pr_stdout s) = Ended \<and> rd_state (pr_stderr s) = Ended \<or>
     rd_state (pr_stdout s) = Broken \<or> rd_state (pr_stderr s) = Broken"

text \<open>A frame that announces a process group of the child.\<close>

definition register_group :: "runner_config \<Rightarrow> observation \<Rightarrow> registration \<Rightarrow> runner \<Rightarrow> runner" where
  "register_group c ob r s =
     (let failed = (\<lambda>m s. reader_failed c ob Stdout (PlainError m) s) in
      if pc_windows c \<or> pc_pid c = None \<or> pc_pid c = Some (rg_group r)
      then failed ''child reported an invalid episode process-group owner'' s
      else if (case map_of (pr_registered s) (rg_id r) of None \<Rightarrow> False | Some g \<Rightarrow> g \<noteq> rg_group r)
      then failed ''child reused an episode process-group registration id'' s
      else (let s1 = s\<lparr>pr_registered := AList.update (rg_id r) (rg_group r) (pr_registered s)\<rparr> in
        if \<not> ob_alive ob (rg_group r) then failed ''child reported an absent episode process group'' s1
        else (let s2 = retireAbsentOwnedProcessGroups ob (s1\<lparr>pr_owned := List.insert (rg_group r) (pr_owned s1)\<rparr>) in
          if pr_terminating s2 \<noteq> None then signalProcessGroup ob (rg_group r) SIGTERM s2
          else (case episodeProcessGroupRegistrationAckFrame (pc_runtime c) (rg_id r) of
              Inl e \<Rightarrow> reader_failed c ob Stdout e s2
            | Inr frame \<Rightarrow>
                if \<not> ob_writable ob
                then failed ''child control pipe closed before process ownership was established'' s2
                else set_state Stdout Awaiting_ack (s2\<lparr>pr_frames := pr_frames s2 @ [frame]\<rparr>)))))"

definition consume_line :: "runner_config \<Rightarrow> observation \<Rightarrow> pipe \<Rightarrow> string \<Rightarrow> runner \<Rightarrow> runner" where
  "consume_line c ob p line s =
     (case (if p = Stdout then parseEpisodeProcessGroupRegistration (pc_runtime c) line else Inr None) of
        Inl e \<Rightarrow> reader_failed c ob p e s
      | Inr (Some r) \<Rightarrow> register_group c ob r s
      | Inr None \<Rightarrow> set_state p Awaiting_line (queueOutputLine line (Some p) s))"

definition read_chunk :: "string \<Rightarrow> reader \<Rightarrow> reader" where
  "read_chunk text r =
     (let ls = split_lines (rd_pending r @ text) in r\<lparr>rd_lines := butlast ls, rd_pending := last ls\<rparr>)"

text \<open>The next line of the chunk; behind the last chunk the text without a line end, then the end.\<close>

definition next_line :: "runner_config \<Rightarrow> observation \<Rightarrow> pipe \<Rightarrow> runner \<Rightarrow> runner" where
  "next_line c ob p s =
     (let r = reader_of p s in
      case rd_lines r of
        l # ls \<Rightarrow> consume_line c ob p l (set_reader p (r\<lparr>rd_lines := ls\<rparr>) s)
      | [] \<Rightarrow>
          if \<not> rd_eof r then s
          else if blank (rd_pending r) then set_state p Ended s
          else consume_line c ob p (rd_pending r) (set_reader p (r\<lparr>rd_pending := []\<rparr>) s))"

text \<open>The callback for the line at the head of the queue has settled.\<close>

definition pop_line :: "runner \<Rightarrow> runner" where
  "pop_line s = s\<lparr>pr_queue := tl (pr_queue s), pr_calling := False,
     pr_result := map_option (\<lambda>(r, n). (r, n - 1)) (pr_result s)\<rparr>"

definition line_done :: "runner_config \<Rightarrow> observation \<Rightarrow> js_error option \<Rightarrow> runner \<Rightarrow> runner" where
  "line_done c ob failure s =
     (let waiter = snd (hd (pr_queue s)); s1 = pop_line s in
      case failure of
        None \<Rightarrow> (case waiter of None \<Rightarrow> s1 | Some p \<Rightarrow> set_state p Reading s1)
      | Some e \<Rightarrow>
          (let s2 = output_failed c ob e s1 in case waiter of None \<Rightarrow> s2 | Some p \<Rightarrow> reader_failed c ob p e s2))"

section \<open>Events\<close>

datatype runner_event =
    Spawned
  | Callback_done "js_error option"
  | Release_written "js_error option"
  | Send string
  | Child_error js_error
  | Chunk pipe string
  | Pipe_end pipe
  | Pipe_error pipe js_error
  | Next_line pipe
  | Ack_written "js_error option"
  | Line_called
  | Line_done "js_error option"
  | Line_refused
  | Timeout_fires
  | Kill_fires
  | Force_fires
  | Aborted
  | Disk_tick
  | Disk_done "js_error + int"
  | Beat_tick
  | Beat_done
  | Group_recheck
  | Child_exit
  | Child_close "int option" "string option"
  | Settle_enter
  | Settle_poll
  | Close_finish
  | Promise_settles
  | Parent_exit

text \<open>\<open>${n}\<close> of a number that may be \<open>null\<close>.\<close>

definition int_text :: "int \<Rightarrow> string" where
  "int_text n = (if n < 0 then ''-'' @ decimal_text (nat (- n)) else decimal_text (nat n))"

definition nullable_text :: "int option \<Rightarrow> string" where
  "nullable_text n = (case n of None \<Rightarrow> ''null'' | Some i \<Rightarrow> int_text i)"

definition timeoutMarker :: "timeout_budget \<Rightarrow> string" where
  "timeoutMarker b =
     ''[subagent007 timeout] requested_timeout_ms='' @ nullable_text (tb_requested b) @
     '' resolved_timeout_ms='' @ nullable_text (tb_resolved b) @ '' timeout_floor_ms='' @ int_text (tb_min_requested b) @
     '' effective_timeout_ms='' @ nullable_text (tb_effective b) @ '' timeout_headroom_ms='' @ int_text (tb_headroom b) @
     '' kill_grace_ms='' @ int_text (tb_kill_grace b) @ '' force_grace_ms='' @ int_text (tb_force_grace b)"

definition disk_marker :: "int \<Rightarrow> int \<Rightarrow> string" where
  "disk_marker free reserve = ''[subagent007 disk reserve exhausted] available_bytes='' @ int_text free @
     '' minimum_free_bytes='' @ int_text reserve"

text \<open>The owner's commit of the spawn, and the frame that releases the child.\<close>

definition settle_observation :: "spawn_observation \<Rightarrow> runner \<Rightarrow> runner" where
  "settle_observation v s = (if pr_obs s = Obs_pending then s\<lparr>pr_obs := v\<rparr> else s)"

definition commit_failed :: "runner_config \<Rightarrow> observation \<Rightarrow> js_error \<Rightarrow> runner \<Rightarrow> runner" where
  "commit_failed c ob e s =
     settle_observation Obs_failed
       (startGracefulTermination c ob (note_error e (s\<lparr>pr_commit := Commit_failed, pr_obs_error := Some e\<rparr>)))"

definition callback_done :: "runner_config \<Rightarrow> observation \<Rightarrow> js_error option \<Rightarrow> runner \<Rightarrow> runner" where
  "callback_done c ob failure s =
     (case failure of
        Some e \<Rightarrow> commit_failed c ob e s
      | None \<Rightarrow>
          if \<not> ob_writable ob
          then commit_failed c ob (PlainError ''child control pipe closed before process ownership was established'') s
          else s\<lparr>pr_commit := Commit_writing, pr_frames := pr_frames s @ [child_owner_commit_release_frame (pc_runtime c)]\<rparr>)"

definition release_written :: "runner_config \<Rightarrow> observation \<Rightarrow> js_error option \<Rightarrow> runner \<Rightarrow> runner" where
  "release_written c ob failure s =
     (case failure of
        Some e \<Rightarrow> commit_failed c ob e s
      | None \<Rightarrow> settle_observation Obs_ok (s\<lparr>pr_commit := Commit_released\<rparr>))"

definition child_error :: "js_error \<Rightarrow> runner \<Rightarrow> runner" where
  "child_error e s =
     queueOutputLine (''[spawn error] '' @ message_of e) None (settle_observation Obs_ok (s\<lparr>pr_spawn_error := Some e\<rparr>))"

text \<open>The timers.\<close>

definition timeout_fires :: "runner_config \<Rightarrow> observation \<Rightarrow> runner \<Rightarrow> runner" where
  "timeout_fires c ob s =
     startGracefulTermination c ob (queueOutputLine (timeoutMarker (pc_budget c)) None
       (s\<lparr>pr_timeout_at := None, pr_timed_out := True\<rparr>))"

definition kill_fires :: "runner_config \<Rightarrow> observation \<Rightarrow> runner \<Rightarrow> runner" where
  "kill_fires c ob s =
     signalOwnedProcessGroups c ob SIGKILL False
       ((if pr_closed s then signalOwnedProcessGroups c ob SIGKILL True else signalChild c ob SIGKILL) (s\<lparr>pr_kill_at := None\<rparr>))"

definition force_fires :: "runner_config \<Rightarrow> observation \<Rightarrow> runner \<Rightarrow> runner" where
  "force_fires c ob s =
     (let s0 = s\<lparr>pr_force_at := None\<rparr> in
      if pr_closed s then s0
      else (let s1 = retire_checked c ob s0;
          s2 = (if groups_absent c ob s0 then s1
            else note_error (PlainError ''episode-owned processes did not settle after forced termination'') s1)
        in finish_run c ob None (pr_last_signal s2) s2))"

definition abort_run :: "runner_config \<Rightarrow> observation \<Rightarrow> runner \<Rightarrow> runner" where
  "abort_run c ob s =
     startGracefulTermination c ob (queueOutputLine ''[subagent007 cancelled]'' None (s\<lparr>pr_cancelled := True\<rparr>))"

definition disk_tick :: "runner_config \<Rightarrow> runner \<Rightarrow> runner" where
  "disk_tick c s =
     (if pc_reserve c = None \<or> pr_disk_busy s \<or> pr_settled s \<or> pr_exhausted s then s else s\<lparr>pr_disk_busy := True\<rparr>)"

definition disk_done :: "runner_config \<Rightarrow> observation \<Rightarrow> js_error + int \<Rightarrow> runner \<Rightarrow> runner" where
  "disk_done c ob answer s =
     (let s0 = s\<lparr>pr_disk_busy := False\<rparr> in
      case answer of
        Inl e \<Rightarrow> startGracefulTermination c ob (note_error e s0)
      | Inr free \<Rightarrow>
          (case pc_reserve c of
             None \<Rightarrow> s0
           | Some reserve \<Rightarrow>
               if reserve \<le> free then s0
               else startGracefulTermination c ob (queueOutputLine (disk_marker free reserve) None (s0\<lparr>pr_exhausted := True\<rparr>))))"

text \<open>After \<open>close\<close>, when the readers and the groups have settled.\<close>

definition close_finish :: "runner_config \<Rightarrow> observation \<Rightarrow> bool \<Rightarrow> int option \<Rightarrow> string option \<Rightarrow> runner \<Rightarrow> runner" where
  "close_finish c ob groupsSettled code sig s =
     (if groupsSettled then finish_run c ob code sig s
      else finish_run c ob None None
        (note_error (PlainError ''episode-owned processes remained after forced settlement'') s))"

definition parent_exit :: "runner_config \<Rightarrow> observation \<Rightarrow> runner \<Rightarrow> runner" where
  "parent_exit c ob s =
     signalOwnedProcessGroups c ob SIGKILL True
       ((if pr_closed s then s else signalChild c ob SIGKILL s)\<lparr>pr_exited := True\<rparr>)"

definition promise_settles :: "runner \<Rightarrow> runner" where
  "promise_settles s =
     s\<lparr>pr_outcome := (case (pr_result s, pr_obs_error s) of
         (None, _) \<Rightarrow> None | (Some _, Some e) \<Rightarrow> Some (Inl e) | (Some (r, _), None) \<Rightarrow> Some (Inr r))\<rparr>"

text \<open>Whether an event can happen. A timer fires at its time or later and not after it was cleared; the listener of
  \<open>abort\<close> runs once and is removed with the timers.\<close>

definition due :: "int option \<Rightarrow> int \<Rightarrow> bool" where
  "due at_time now \<longleftrightarrow> (case at_time of None \<Rightarrow> False | Some t \<Rightarrow> t \<le> now)"

fun enabled :: "int \<Rightarrow> runner_event \<Rightarrow> runner \<Rightarrow> bool" where
  "enabled now Spawned s = (pr_commit s = Commit_none)"
| "enabled now (Callback_done _) s = (pr_commit s = Commit_callback)"
| "enabled now (Release_written _) s = (pr_commit s = Commit_writing)"
| "enabled now (Send _) s = True"
| "enabled now (Child_error _) s = True"
| "enabled now (Chunk p _) s =
     (rd_state (reader_of p s) = Reading \<and> rd_lines (reader_of p s) = [] \<and> \<not> rd_eof (reader_of p s))"
| "enabled now (Pipe_end p) s =
     (rd_state (reader_of p s) = Reading \<and> rd_lines (reader_of p s) = [] \<and> \<not> rd_eof (reader_of p s))"
| "enabled now (Pipe_error p _) s =
     (rd_state (reader_of p s) = Reading \<and> rd_lines (reader_of p s) = [] \<and> \<not> rd_eof (reader_of p s))"
| "enabled now (Next_line p) s =
     (rd_state (reader_of p s) = Reading \<and> (rd_lines (reader_of p s) \<noteq> [] \<or> rd_eof (reader_of p s)))"
| "enabled now (Ack_written _) s = (rd_state (pr_stdout s) = Awaiting_ack)"
| "enabled now Line_called s = (pr_queue s \<noteq> [] \<and> \<not> pr_calling s \<and> pr_obs s \<noteq> Obs_pending \<and> pr_obs_error s = None)"
| "enabled now (Line_done _) s = pr_calling s"
| "enabled now Line_refused s = (pr_queue s \<noteq> [] \<and> \<not> pr_calling s \<and> pr_obs s \<noteq> Obs_pending \<and> pr_obs_error s \<noteq> None)"
| "enabled now Timeout_fires s = due (pr_timeout_at s) now"
| "enabled now Kill_fires s = due (pr_kill_at s) now"
| "enabled now Force_fires s = due (pr_force_at s) now"
| "enabled now Aborted s = (\<not> pr_settled s \<and> \<not> pr_closed s \<and> \<not> pr_cancelled s)"
| "enabled now Disk_tick s = (\<not> pr_settled s)"
| "enabled now (Disk_done _) s = pr_disk_busy s"
| "enabled now Beat_tick s = (\<not> pr_settled s)"
| "enabled now Beat_done s = pr_beat_busy s"
| "enabled now Group_recheck s = (\<not> pr_settled s)"
| "enabled now Child_exit s = True"
| "enabled now (Child_close _ _) s = (\<not> pr_closed s)"
| "enabled now Settle_enter s = (pr_closed s \<and> consumers_settled s)"
| "enabled now Settle_poll s = True"
| "enabled now Close_finish s =
     (pr_closed s \<and> consumers_settled s \<and> (case pr_settle s of Settle_done _ \<Rightarrow> True | _ \<Rightarrow> False))"
| "enabled now Promise_settles s = (pr_obs s \<noteq> Obs_pending \<and> (case pr_result s of Some (_, 0) \<Rightarrow> True | _ \<Rightarrow> False))"
| "enabled now Parent_exit s = (\<not> pr_settled s)"

fun handle :: "runner_config \<Rightarrow> observation \<Rightarrow> runner_event \<Rightarrow> runner \<Rightarrow> runner" where
  "handle c ob Spawned s = s\<lparr>pr_commit := Commit_callback\<rparr>"
| "handle c ob (Callback_done e) s = callback_done c ob e s"
| "handle c ob (Release_written e) s = release_written c ob e s"
| "handle c ob (Send m) s = (if ob_writable ob then s\<lparr>pr_sent := pr_sent s @ [m]\<rparr> else s)"
| "handle c ob (Child_error e) s = child_error e s"
| "handle c ob (Chunk p t) s = set_reader p (read_chunk t (reader_of p s)) s"
| "handle c ob (Pipe_end p) s = set_reader p ((reader_of p s)\<lparr>rd_eof := True\<rparr>) s"
| "handle c ob (Pipe_error p e) s = reader_failed c ob p e s"
| "handle c ob (Next_line p) s = next_line c ob p s"
| "handle c ob (Ack_written e) s =
     (case e of None \<Rightarrow> set_state Stdout Reading s | Some x \<Rightarrow> reader_failed c ob Stdout x s)"
| "handle c ob Line_called s = s\<lparr>pr_calling := True, pr_delivered := pr_delivered s @ [fst (hd (pr_queue s))]\<rparr>"
| "handle c ob (Line_done e) s = line_done c ob e s"
| "handle c ob Line_refused s = line_done c ob (pr_obs_error s) s"
| "handle c ob Timeout_fires s = timeout_fires c ob s"
| "handle c ob Kill_fires s = kill_fires c ob s"
| "handle c ob Force_fires s = force_fires c ob s"
| "handle c ob Aborted s = abort_run c ob s"
| "handle c ob Disk_tick s = disk_tick c s"
| "handle c ob (Disk_done r) s = disk_done c ob r s"
| "handle c ob Beat_tick s = (if pr_beat_busy s then s else s\<lparr>pr_beat_busy := True, pr_beat := Suc (pr_beat s)\<rparr>)"
| "handle c ob Beat_done s = s\<lparr>pr_beat_busy := False\<rparr>"
| "handle c ob Group_recheck s = retireAbsentOwnedProcessGroups ob s"
| "handle c ob Child_exit s = startEpisodeProcessSettlement c ob s"
| "handle c ob (Child_close code sig) s = s\<lparr>pr_close := Some (code, sig)\<rparr>"
| "handle c ob Settle_enter s = startEpisodeProcessSettlement c ob s"
| "handle c ob Settle_poll s = poll_settlement c ob s"
| "handle c ob Close_finish s =
     (case (pr_settle s, pr_close s) of (Settle_done b, Some (code, sig)) \<Rightarrow> close_finish c ob b code sig s | _ \<Rightarrow> s)"
| "handle c ob Promise_settles s = promise_settles s"
| "handle c ob Parent_exit s = parent_exit c ob s"

definition runner_step :: "runner_config \<Rightarrow> observation \<Rightarrow> runner_event \<Rightarrow> runner \<Rightarrow> runner option" where
  "runner_step c ob e s =
     (if pr_exited s \<or> ob_now ob < pr_now s \<or> \<not> enabled (ob_now ob) e s then None
      else Some (handle c ob e (s\<lparr>pr_now := ob_now ob\<rparr>)))"

inductive runner_reaches :: "runner_config \<Rightarrow> runner \<Rightarrow> bool" for c where
  start: "runner_reaches c (fresh_runner c)"
| step: "runner_reaches c s \<Longrightarrow> runner_step c ob e s = Some s' \<Longrightarrow> runner_reaches c s'"

fun run_events :: "runner_config \<Rightarrow> (observation \<times> runner_event) list \<Rightarrow> runner \<Rightarrow> runner option" where
  "run_events c [] s = Some s"
| "run_events c ((ob, e) # es) s = (case runner_step c ob e s of None \<Rightarrow> None | Some s' \<Rightarrow> run_events c es s')"

lemma run_events_reaches: "runner_reaches c s \<Longrightarrow> run_events c es s = Some s' \<Longrightarrow> runner_reaches c s'"
proof (induction c es s rule: run_events.induct)
  case (2 c ob e es s)
  then show ?case by (cases "runner_step c ob e s") (auto intro: runner_reaches.step)
qed simp

lemma runner_step_iff:
  "runner_step c ob e s = Some s' \<longleftrightarrow>
     \<not> pr_exited s \<and> pr_now s \<le> ob_now ob \<and> enabled (ob_now ob) e s \<and> s' = handle c ob e (s\<lparr>pr_now := ob_now ob\<rparr>)"
  by (auto simp: runner_step_def)

lemma enabled_now [simp]: "enabled t e (s\<lparr>pr_now := n\<rparr>) = enabled t e s"
proof (cases e)
  case (Chunk p x)
  then show ?thesis by (cases p) simp_all
next
  case (Pipe_end p)
  then show ?thesis by (cases p) simp_all
next
  case (Pipe_error p x)
  then show ?thesis by (cases p) simp_all
next
  case (Next_line p)
  then show ?thesis by (cases p) simp_all
qed (simp_all add: consumers_settled_def)

end
