(* ===== verification/Runner_Invariants.thy ===== *)
theory Runner_Invariants
  imports Process_Runner
begin

text \<open>
  What holds in every state of a supervised process: lines follow the commit of the owner (\<open>lines_ok\<close>), SIGKILL follows
  SIGTERM by the grace period (\<open>signals_ok\<close>), and a line that was not accepted leaves an error or a flag (\<open>output_ok\<close>).
\<close>

section \<open>What the helpers change\<close>

lemma fold_signal: "fold (\<lambda>g. signalProcessGroup ob g sig) gs s = s\<lparr>pr_signals := pr_signals s @ map (\<lambda>g. (ob_now ob, sig, g)) gs\<rparr>"
  by (induction gs arbitrary: s) (simp_all add: signalProcessGroup_def)

lemmas signal_defs = signalOwnedProcessGroups_def signalChild_def fold_signal signalProcessGroup_def pid_list_def

lemmas runner_defs = startGracefulTermination_def output_failed_def note_error_def finish_run_def retire_checked_def
  retireAbsentOwnedProcessGroups_def queueOutputLine_def settle_observation_def commit_failed_def pop_line_def

text \<open>Termination touches only the signals, the timers and its own start.\<close>

definition same_lines :: "runner \<Rightarrow> runner \<Rightarrow> bool" where
  "same_lines s t \<longleftrightarrow> pr_queue t = pr_queue s \<and> pr_calling t = pr_calling s \<and> pr_queued t = pr_queued s \<and>
     pr_delivered t = pr_delivered s \<and> pr_obs t = pr_obs s \<and> pr_obs_error t = pr_obs_error s \<and> pr_commit t = pr_commit s \<and>
     pr_spawn_error t = pr_spawn_error s"

lemma same_lines_refl [simp]: "same_lines s s"
  by (simp add: same_lines_def)

lemma same_lines_trans: "same_lines s t \<Longrightarrow> same_lines t u \<Longrightarrow> same_lines s u"
  by (simp add: same_lines_def)

lemma same_lines_update [simp]:
  "same_lines s (t\<lparr>pr_signals := x1\<rparr>) = same_lines s t" "same_lines s (t\<lparr>pr_kill_at := x2\<rparr>) = same_lines s t"
  "same_lines s (t\<lparr>pr_force_at := x3\<rparr>) = same_lines s t" "same_lines s (t\<lparr>pr_terminating := x4\<rparr>) = same_lines s t"
  "same_lines s (t\<lparr>pr_last_signal := x5\<rparr>) = same_lines s t" "same_lines s (t\<lparr>pr_output_error := x6\<rparr>) = same_lines s t"
  "same_lines s (t\<lparr>pr_exhausted := x7\<rparr>) = same_lines s t" "same_lines s (t\<lparr>pr_stdout := x8\<rparr>) = same_lines s t"
  "same_lines s (t\<lparr>pr_stderr := x9\<rparr>) = same_lines s t" "same_lines s (t\<lparr>pr_owned := x10\<rparr>) = same_lines s t"
  "same_lines s (t\<lparr>pr_settle := x11\<rparr>) = same_lines s t" "same_lines s (t\<lparr>pr_result := x12\<rparr>) = same_lines s t"
  "same_lines s (t\<lparr>pr_timeout_at := x13\<rparr>) = same_lines s t" "same_lines s (t\<lparr>pr_registered := x14\<rparr>) = same_lines s t"
  "same_lines s (t\<lparr>pr_frames := x15\<rparr>) = same_lines s t" "same_lines s (t\<lparr>pr_now := x16\<rparr>) = same_lines s t"
  by (simp_all add: same_lines_def)

lemma terminate_same [simp]: "same_lines s (startGracefulTermination c ob t) = same_lines s t"
  by (simp add: startGracefulTermination_def signal_defs)

lemma signals_same [simp]:
  "same_lines s (signalOwnedProcessGroups c ob sig b t) = same_lines s t" "same_lines s (signalChild c ob sig t) = same_lines s t"
  "same_lines s (signalProcessGroup ob g sig t) = same_lines s t"
  by (simp_all add: signal_defs)

lemma failed_same [simp]:
  "same_lines s (note_error e t) = same_lines s t" "same_lines s (output_failed c ob e t) = same_lines s t"
  "same_lines s (set_reader p r t) = same_lines s t" "same_lines s (set_state p st t) = same_lines s t"
  "same_lines s (reader_failed c ob p e t) = same_lines s t" "same_lines s (retireAbsentOwnedProcessGroups ob t) = same_lines s t"
  "same_lines s (retire_checked c ob t) = same_lines s t" "same_lines s (finish_run c ob code sig t) = same_lines s t"
  by (cases p; simp add: note_error_def output_failed_def set_state_def reader_failed_def Let_def retire_checked_def
      retireAbsentOwnedProcessGroups_def finish_run_def)+

lemma settlement_same [simp]: "same_lines s (startEpisodeProcessSettlement c ob t) = same_lines s t"
  "same_lines s (poll_settlement c ob t) = same_lines s t" "same_lines s (register_group c ob r t) = same_lines s t"
  by (simp_all add: startEpisodeProcessSettlement_def poll_settlement_def register_group_def Let_def
      split: option.split settlement.split sum.split)

section \<open>Lines follow the commit of the owner\<close>

definition committed :: "runner \<Rightarrow> bool" where
  "committed s \<longleftrightarrow> pr_commit s = Commit_released \<or> pr_spawn_error s \<noteq> None"

definition lines_ok :: "runner \<Rightarrow> bool" where
  "lines_ok s \<longleftrightarrow>
     (pr_obs s = Obs_ok \<or> pr_delivered s \<noteq> [] \<longrightarrow> committed s) \<and> (pr_obs s = Obs_failed \<longrightarrow> pr_obs_error s \<noteq> None) \<and>
     (pr_calling s \<longrightarrow> pr_queue s \<noteq> []) \<and>
     (\<exists>rest. pr_queued s = pr_delivered s @ rest \<and>
        (pr_obs_error s = None \<longrightarrow> rest = map fst (if pr_calling s then tl (pr_queue s) else pr_queue s)))"

lemma same_lines_ok: "same_lines s t \<Longrightarrow> lines_ok t = lines_ok s"
  by (simp add: same_lines_def lines_ok_def committed_def)

lemma helper_lines_ok [simp]:
  "lines_ok (startGracefulTermination c ob s) = lines_ok s" "lines_ok (note_error e s) = lines_ok s"
  "lines_ok (output_failed c ob e s) = lines_ok s" "lines_ok (set_reader p r s) = lines_ok s"
  "lines_ok (set_state p st s) = lines_ok s" "lines_ok (reader_failed c ob p e s) = lines_ok s"
  "lines_ok (register_group c ob g s) = lines_ok s" "lines_ok (startEpisodeProcessSettlement c ob s) = lines_ok s"
  "lines_ok (poll_settlement c ob s) = lines_ok s" "lines_ok (retireAbsentOwnedProcessGroups ob s) = lines_ok s"
  by (rule same_lines_ok, simp)+

lemma queue_ok: "lines_ok s \<Longrightarrow> lines_ok (queueOutputLine l w s)"
  by (auto simp: lines_ok_def queueOutputLine_def committed_def)

lemma pop_ok: "lines_ok s \<Longrightarrow> pr_calling s \<or> pr_obs_error s \<noteq> None \<Longrightarrow> lines_ok (pop_line s)"
  by (auto simp: lines_ok_def pop_line_def committed_def)

lemma consume_ok: "lines_ok s \<Longrightarrow> lines_ok (consume_line c ob p l s)"
  by (simp add: consume_line_def queue_ok split: sum.split option.split)

lemma line_done_ok: "lines_ok s \<Longrightarrow> pr_calling s \<or> pr_obs_error s \<noteq> None \<Longrightarrow> lines_ok (line_done c ob e s)"
proof -
  assume "lines_ok s" "pr_calling s \<or> pr_obs_error s \<noteq> None"
  then have "lines_ok (pop_line s)" by (rule pop_ok)
  moreover have "same_lines (pop_line s) (line_done c ob e s)"
    by (simp add: line_done_def Let_def split: option.split)
  ultimately show ?thesis using same_lines_ok by blast
qed

lemma sup_commit_ok:
  assumes "lines_ok s"
  shows "pr_commit s \<noteq> Commit_released \<Longrightarrow> lines_ok (commit_failed c ob e s)"
    and "lines_ok (release_written c ob None s)" and "lines_ok (child_error x s)"
proof -
  assume new: "pr_commit s \<noteq> Commit_released"
  let ?t = "s\<lparr>pr_commit := Commit_failed, pr_obs_error := Some e\<rparr>"
  have "lines_ok ?t" using assms new by (auto simp: lines_ok_def committed_def)
  moreover have "same_lines ?t (startGracefulTermination c ob (note_error e ?t))" by simp
  ultimately have "lines_ok (startGracefulTermination c ob (note_error e ?t))"
    "pr_obs_error (startGracefulTermination c ob (note_error e ?t)) = Some e"
    using same_lines_ok by (blast, simp add: same_lines_def)
  then show "lines_ok (commit_failed c ob e s)"
    by (auto simp: commit_failed_def settle_observation_def lines_ok_def committed_def)
next
  show "lines_ok (release_written c ob None s)"
    using assms by (auto simp: release_written_def settle_observation_def lines_ok_def committed_def)
  have "lines_ok (settle_observation Obs_ok (s\<lparr>pr_spawn_error := Some x\<rparr>))"
    using assms by (auto simp: settle_observation_def lines_ok_def committed_def)
  then show "lines_ok (child_error x s)" by (simp add: child_error_def queue_ok)
qed

lemma lines_ok_update [simp]:
  "lines_ok (s\<lparr>pr_timeout_at := x1\<rparr>) = lines_ok s" "lines_ok (s\<lparr>pr_timed_out := x2\<rparr>) = lines_ok s"
  "lines_ok (s\<lparr>pr_cancelled := x3\<rparr>) = lines_ok s" "lines_ok (s\<lparr>pr_exhausted := x4\<rparr>) = lines_ok s"
  "lines_ok (s\<lparr>pr_disk_busy := x5\<rparr>) = lines_ok s" "lines_ok (s\<lparr>pr_now := x6\<rparr>) = lines_ok s"
  "lines_ok (s\<lparr>pr_beat := x7\<rparr>) = lines_ok s" "lines_ok (s\<lparr>pr_beat_busy := x8\<rparr>) = lines_ok s"
  "lines_ok (s\<lparr>pr_close := x9\<rparr>) = lines_ok s" "lines_ok (s\<lparr>pr_outcome := x10\<rparr>) = lines_ok s"
  "lines_ok (s\<lparr>pr_exited := x11\<rparr>) = lines_ok s" "lines_ok (s\<lparr>pr_sent := x12\<rparr>) = lines_ok s"
  by (simp_all add: lines_ok_def committed_def)

lemma other_lines_ok [simp]:
  "lines_ok (kill_fires c ob s) = lines_ok s" "lines_ok (force_fires c ob s) = lines_ok s"
  "lines_ok (close_finish c ob b code sig s) = lines_ok s"
  by (rule same_lines_ok, simp add: kill_fires_def force_fires_def close_finish_def Let_def)+

lemma parent_exit_lines [simp]: "lines_ok (parent_exit c ob s) = lines_ok s"
proof -
  have "same_lines (s\<lparr>pr_exited := True\<rparr>) (parent_exit c ob s)"
    by (simp add: parent_exit_def signal_defs same_lines_def)
  from same_lines_ok[OF this] show ?thesis by simp
qed

lemma handle_lines_ok:
  assumes "lines_ok s" and "enabled now e s"
  shows "lines_ok (handle c ob e s)"
proof (cases e)
  case (Callback_done x)
  then have "pr_commit s \<noteq> Commit_released" using assms(2) by simp
  then have "lines_ok (s\<lparr>pr_commit := Commit_writing, pr_frames := f\<rparr>)" for f
    using assms(1) by (auto simp: lines_ok_def committed_def)
  then show ?thesis using Callback_done sup_commit_ok(1)[OF assms(1) \<open>pr_commit s \<noteq> Commit_released\<close>]
    by (simp add: callback_done_def split: option.split)
next
  case (Release_written x)
  then show ?thesis using assms sup_commit_ok(1,2)[OF assms(1)] by (cases x) (simp_all add: release_written_def)
next
  case (Child_error x)
  then show ?thesis using sup_commit_ok(3)[OF assms(1)] by simp
next
  case (Next_line p)
  then show ?thesis using assms(1)
    by (simp add: next_line_def Let_def consume_ok split: list.split)
next
  case (Ack_written x)
  then show ?thesis using assms(1) by (simp split: option.split)
next
  case Line_called
  then show ?thesis using assms by (cases "pr_queue s"; cases "pr_obs s") (auto simp: lines_ok_def committed_def)
next
  case (Line_done x)
  then show ?thesis using assms line_done_ok by simp
next
  case Line_refused
  then show ?thesis using assms line_done_ok by simp
next
  case Timeout_fires
  then show ?thesis using assms(1) by (simp add: timeout_fires_def queue_ok)
next
  case Aborted
  then show ?thesis using assms(1) by (simp add: abort_run_def queue_ok)
next
  case (Disk_done x)
  then show ?thesis using assms(1) by (simp add: disk_done_def Let_def queue_ok split: sum.split option.split)
next
  case Close_finish
  then show ?thesis using assms(1) by (auto split: settlement.split option.split)
next
  case Spawned
  then show ?thesis using assms by (auto simp: lines_ok_def committed_def)
next
  case Promise_settles
  then show ?thesis using assms(1) by (simp add: promise_settles_def)
next
  case Disk_tick
  then show ?thesis using assms(1) by (simp add: disk_tick_def)
qed (use assms(1) in simp_all)

lemma reaches_lines_ok: "runner_reaches c s \<Longrightarrow> lines_ok s"
proof (induction rule: runner_reaches.induct)
  case start
  show ?case by (simp add: lines_ok_def fresh_runner_def)
next
  case (step s ob e s')
  then show ?case using handle_lines_ok[of "s\<lparr>pr_now := ob_now ob\<rparr>" "ob_now ob" e] by (simp add: runner_step_iff)
qed

section \<open>SIGKILL only after the grace period\<close>

definition warned :: "runner_config \<Rightarrow> runner \<Rightarrow> int \<Rightarrow> bool" where
  "warned c s t \<longleftrightarrow> (\<forall>p. pc_pid c = Some p \<longrightarrow> (t, SIGTERM, p) \<in> set (pr_signals s))"

definition graced :: "runner_config \<Rightarrow> runner \<Rightarrow> int \<Rightarrow> bool" where
  "graced c s t \<longleftrightarrow> (\<exists>p t0. pc_pid c = Some p \<and> (t0, SIGTERM, p) \<in> set (pr_signals s) \<and> t0 + kill_grace c \<le> t)"

definition signals_ok :: "runner_config \<Rightarrow> runner \<Rightarrow> bool" where
  "signals_ok c s \<longleftrightarrow>
     (\<forall>t0. pr_terminating s = Some t0 \<longrightarrow> t0 \<le> pr_now s \<and> warned c s t0) \<and>
     (\<forall>t. pr_kill_at s = Some t \<longrightarrow> (\<exists>t0. pr_terminating s = Some t0 \<and> t = t0 + kill_grace c)) \<and>
     (\<forall>t. pr_settle s = Settle_term t \<longrightarrow> (\<exists>t0. t = t0 + kill_grace c \<and> warned c s t0)) \<and>
     (pc_pid c = None \<longrightarrow> pr_owned s = []) \<and>
     (pc_windows c \<longrightarrow> pr_settle s = Settle_none \<or> pr_settle s = Settle_done True) \<and>
     (pr_exited s \<or> (\<forall>(t, sig, g) \<in> set (pr_signals s). sig = SIGKILL \<longrightarrow> graced c s t))"

lemma signals_ok_update [simp]:
  "signals_ok c (s\<lparr>pr_queue := x1\<rparr>) = signals_ok c s" "signals_ok c (s\<lparr>pr_calling := x2\<rparr>) = signals_ok c s"
  "signals_ok c (s\<lparr>pr_queued := x3\<rparr>) = signals_ok c s" "signals_ok c (s\<lparr>pr_delivered := x4\<rparr>) = signals_ok c s"
  "signals_ok c (s\<lparr>pr_obs := x5\<rparr>) = signals_ok c s" "signals_ok c (s\<lparr>pr_obs_error := x6\<rparr>) = signals_ok c s"
  "signals_ok c (s\<lparr>pr_commit := x7\<rparr>) = signals_ok c s" "signals_ok c (s\<lparr>pr_spawn_error := x8\<rparr>) = signals_ok c s"
  "signals_ok c (s\<lparr>pr_output_error := x9\<rparr>) = signals_ok c s" "signals_ok c (s\<lparr>pr_exhausted := x10\<rparr>) = signals_ok c s"
  "signals_ok c (s\<lparr>pr_stdout := x11\<rparr>) = signals_ok c s" "signals_ok c (s\<lparr>pr_stderr := x12\<rparr>) = signals_ok c s"
  "signals_ok c (s\<lparr>pr_result := x13\<rparr>) = signals_ok c s" "signals_ok c (s\<lparr>pr_timeout_at := x14\<rparr>) = signals_ok c s"
  "signals_ok c (s\<lparr>pr_registered := x15\<rparr>) = signals_ok c s" "signals_ok c (s\<lparr>pr_frames := x16\<rparr>) = signals_ok c s"
  "signals_ok c (s\<lparr>pr_timed_out := x17\<rparr>) = signals_ok c s" "signals_ok c (s\<lparr>pr_cancelled := x18\<rparr>) = signals_ok c s"
  "signals_ok c (s\<lparr>pr_disk_busy := x19\<rparr>) = signals_ok c s" "signals_ok c (s\<lparr>pr_close := x20\<rparr>) = signals_ok c s"
  "signals_ok c (s\<lparr>pr_beat := x21\<rparr>) = signals_ok c s" "signals_ok c (s\<lparr>pr_beat_busy := x22\<rparr>) = signals_ok c s"
  "signals_ok c (s\<lparr>pr_outcome := x23\<rparr>) = signals_ok c s" "signals_ok c (s\<lparr>pr_force_at := x24\<rparr>) = signals_ok c s"
  "signals_ok c (s\<lparr>pr_sent := x25\<rparr>) = signals_ok c s"
  by (simp_all add: signals_ok_def warned_def graced_def)

lemma signals_ok_now: "signals_ok c s \<Longrightarrow> pr_now s \<le> n \<Longrightarrow> signals_ok c (s\<lparr>pr_now := n\<rparr>)"
  by (fastforce simp: signals_ok_def warned_def graced_def)

lemma signals_ok_no_kill: "signals_ok c s \<Longrightarrow> signals_ok c (s\<lparr>pr_kill_at := None\<rparr>)"
  by (simp add: signals_ok_def warned_def graced_def)

lemma signals_ok_owned: "signals_ok c s \<Longrightarrow> pc_pid c \<noteq> None \<or> gs = [] \<Longrightarrow> signals_ok c (s\<lparr>pr_owned := gs\<rparr>)"
  by (auto simp: signals_ok_def warned_def graced_def)

lemma signals_ok_settle:
  "signals_ok c s \<Longrightarrow> (case x of Settle_done True \<Rightarrow> True | Settle_term t \<Rightarrow> \<not> pc_windows c \<and> (\<exists>t0. t = t0 + kill_grace c \<and> warned c s t0)
     | _ \<Rightarrow> \<not> pc_windows c) \<Longrightarrow> signals_ok c (s\<lparr>pr_settle := x\<rparr>)"
  by (auto simp: signals_ok_def warned_def graced_def split: settlement.splits bool.splits)

text \<open>More signals: each a warning, or a kill that the grace period allows.\<close>

lemma signals_ok_more:
  assumes "signals_ok c s" and "\<And>t g. (t, SIGKILL, g) \<in> set xs \<Longrightarrow> graced c s t"
  shows "signals_ok c (s\<lparr>pr_signals := pr_signals s @ xs\<rparr>)"
proof -
  have "warned c s t \<Longrightarrow> warned c (s\<lparr>pr_signals := pr_signals s @ xs\<rparr>) t" for t by (auto simp: warned_def)
  moreover have "graced c s t \<Longrightarrow> graced c (s\<lparr>pr_signals := pr_signals s @ xs\<rparr>) t" for t by (auto simp: graced_def)
  moreover have "graced c (s\<lparr>pr_signals := pr_signals s @ xs\<rparr>) t"
    if "\<forall>(t, sig, g) \<in> set (pr_signals s). sig = SIGKILL \<longrightarrow> graced c s t" "(t, SIGKILL, g) \<in> set (pr_signals s @ xs)" for t g
    using that assms(2) calculation(2) by auto
  ultimately show ?thesis using assms(1) unfolding signals_ok_def by simp blast
qed

lemma signals_ok_term: "signals_ok c s \<Longrightarrow> signals_ok c (s\<lparr>pr_signals := pr_signals s @ map (\<lambda>g. (t, SIGTERM, g)) gs\<rparr>)"
  by (rule signals_ok_more) auto

lemma signals_ok_kill:
  "signals_ok c s \<Longrightarrow> graced c s t \<or> gs = [] \<Longrightarrow> signals_ok c (s\<lparr>pr_signals := pr_signals s @ map (\<lambda>g. (t, SIGKILL, g)) gs\<rparr>)"
  by (rule signals_ok_more) auto

lemma terminate_signals:
  assumes "signals_ok c s" and "pr_now s = ob_now ob"
  shows "signals_ok c (startGracefulTermination c ob s)"
proof (cases "pr_terminating s")
  case (Some t)
  then show ?thesis using assms(1) by (simp add: startGracefulTermination_def)
next
  case None
  define xs where "xs = map (\<lambda>g. (ob_now ob, SIGTERM, g)) (pid_list c @ (if pc_windows c then [] else pr_owned s))"
  let ?s = "s\<lparr>pr_signals := pr_signals s @ xs\<rparr>"
  have "signals_ok c ?s" unfolding xs_def by (rule signals_ok_term[OF assms(1)])
  moreover have "warned c ?s (ob_now ob)" by (auto simp: warned_def xs_def pid_list_def)
  moreover have "startGracefulTermination c ob s = ?s\<lparr>pr_terminating := Some (ob_now ob),
      pr_last_signal := Some (signal_name SIGTERM), pr_kill_at := Some (ob_now ob + kill_grace c),
      pr_force_at := Some (ob_now ob + (kill_grace c + force_grace c))\<rparr>"
    using None by (simp add: startGracefulTermination_def signal_defs xs_def)
  ultimately show ?thesis using assms(2) by (simp add: signals_ok_def warned_def graced_def)
qed

lemma now_simps [simp]:
  "pr_now (startGracefulTermination c ob s) = pr_now s" "pr_now (note_error e s) = pr_now s"
  "pr_now (output_failed c ob e s) = pr_now s" "pr_now (set_reader p r s) = pr_now s" "pr_now (set_state p st s) = pr_now s"
  "pr_now (retireAbsentOwnedProcessGroups ob s) = pr_now s" "pr_now (retire_checked c ob s) = pr_now s"
  "pr_now (queueOutputLine l w s) = pr_now s" "pr_now (pop_line s) = pr_now s" "pr_now (settle_observation v s) = pr_now s"
  by (cases p; simp add: runner_defs signal_defs set_state_def)+

lemma signals_kept [simp]:
  "signals_ok c (note_error e s) = signals_ok c s" "signals_ok c (set_reader p r s) = signals_ok c s"
  "signals_ok c (set_state p st s) = signals_ok c s" "signals_ok c (queueOutputLine l w s) = signals_ok c s"
  "signals_ok c (pop_line s) = signals_ok c s" "signals_ok c (settle_observation v s) = signals_ok c s"
  by (cases p; simp add: note_error_def queueOutputLine_def pop_line_def settle_observation_def set_state_def)+

lemma retire_signals: "signals_ok c s \<Longrightarrow> signals_ok c (retireAbsentOwnedProcessGroups ob s)"
  unfolding retireAbsentOwnedProcessGroups_def by (rule signals_ok_owned) (auto simp: signals_ok_def)

lemma retire_checked_signals: "signals_ok c s \<Longrightarrow> signals_ok c (retire_checked c ob s)"
  by (simp add: retire_checked_def retire_signals)

lemma finish_signals: "signals_ok c s \<Longrightarrow> signals_ok c (finish_run c ob code sig s)"
proof -
  assume "signals_ok c s"
  then have "signals_ok c (s\<lparr>pr_timeout_at := None, pr_kill_at := None, pr_force_at := None, pr_result := x\<rparr>)" for x
    using signals_ok_no_kill[of c "s\<lparr>pr_timeout_at := None\<rparr>"] by simp
  then show ?thesis using \<open>signals_ok c s\<close> by (simp add: finish_run_def)
qed

lemma output_failed_signals: "signals_ok c s \<Longrightarrow> pr_now s = ob_now ob \<Longrightarrow> signals_ok c (output_failed c ob e s)"
  by (simp add: output_failed_def terminate_signals)

lemma reader_failed_signals: "signals_ok c s \<Longrightarrow> pr_now s = ob_now ob \<Longrightarrow> signals_ok c (reader_failed c ob p e s)"
  by (simp add: reader_failed_def Let_def output_failed_signals)

lemma register_signals:
  assumes ok: "signals_ok c s" and now: "pr_now s = ob_now ob"
  shows "signals_ok c (register_group c ob r s)"
proof (cases "pc_windows c \<or> pc_pid c = None \<or> pc_pid c = Some (rg_group r) \<or>
    (case map_of (pr_registered s) (rg_id r) of None \<Rightarrow> False | Some g \<Rightarrow> g \<noteq> rg_group r) \<or> \<not> ob_alive ob (rg_group r)")
  case True
  have "signals_ok c (s\<lparr>pr_registered := x\<rparr>)" for x using ok by simp
  then show ?thesis using True ok now
    by (auto simp: register_group_def Let_def intro!: reader_failed_signals split: option.split)
next
  case False
  let ?s2 = "retireAbsentOwnedProcessGroups ob (s\<lparr>pr_registered := AList.update (rg_id r) (rg_group r) (pr_registered s),
      pr_owned := List.insert (rg_group r) (pr_owned s)\<rparr>)"
  have "signals_ok c (s\<lparr>pr_registered := AList.update (rg_id r) (rg_group r) (pr_registered s),
      pr_owned := List.insert (rg_group r) (pr_owned s)\<rparr>)" (is "signals_ok c ?s1")
    using False ok signals_ok_owned[of c "s\<lparr>pr_registered := AList.update (rg_id r) (rg_group r) (pr_registered s)\<rparr>"] by simp
  then have s2: "signals_ok c ?s2" by (rule retire_signals)
  then have "signals_ok c (signalProcessGroup ob (rg_group r) SIGTERM ?s2)"
    using signals_ok_term[of c ?s2 _ "[rg_group r]"] by (simp add: signalProcessGroup_def)
  moreover obtain p where "pc_pid c = Some p" "p \<noteq> rg_group r" using False by auto
  ultimately show ?thesis using False s2 now
    by (simp add: register_group_def Let_def reader_failed_signals split: sum.split)
qed

lemma settlement_signals:
  assumes ok: "signals_ok c s"
  shows "signals_ok c (startEpisodeProcessSettlement c ob s)"
proof -
  let ?r = "retire_checked c ob s"
  have r: "signals_ok c ?r" using ok by (rule retire_checked_signals)
  have same: "pr_signals ?r = pr_signals s" by (simp add: retire_checked_def retireAbsentOwnedProcessGroups_def)
  consider "pr_settle s \<noteq> Settle_none" | "groups_absent c ob s" | "\<not> groups_absent c ob s" "pr_settle s = Settle_none" by blast
  then show ?thesis
  proof cases
    case 3
    then have "\<not> pc_windows c" by (simp add: groups_absent_def)
    define xs where "xs = map (\<lambda>g. (ob_now ob, SIGTERM, g)) (pid_list c @ pr_owned ?r)"
    have sig: "signalOwnedProcessGroups c ob SIGTERM True ?r = ?r\<lparr>pr_signals := pr_signals ?r @ xs\<rparr>"
      using \<open>\<not> pc_windows c\<close> by (simp add: signal_defs xs_def)
    have "signals_ok c (?r\<lparr>pr_signals := pr_signals ?r @ xs\<rparr>)" unfolding xs_def by (rule signals_ok_term[OF r])
    then have "signals_ok c ((?r\<lparr>pr_signals := pr_signals ?r @ xs\<rparr>)\<lparr>pr_settle := Settle_term (ob_now ob + kill_grace c)\<rparr>)"
      by (rule signals_ok_settle) (use \<open>\<not> pc_windows c\<close> in \<open>auto simp: warned_def xs_def pid_list_def\<close>)
    moreover have "signals_ok c (?r\<lparr>pr_settle := Settle_term (t + kill_grace c)\<rparr>)" if "pr_terminating s = Some t" for t
      by (rule signals_ok_settle[OF r]) (use that ok \<open>\<not> pc_windows c\<close> same in \<open>auto simp: signals_ok_def warned_def\<close>)
    ultimately show ?thesis using 3 sig by (simp add: startEpisodeProcessSettlement_def Let_def split: option.split)
  qed (use ok r signals_ok_settle[OF r, of "Settle_done True"] in \<open>simp_all add: startEpisodeProcessSettlement_def\<close>)
qed

lemma poll_signals:
  assumes ok: "signals_ok c s"
  shows "signals_ok c (poll_settlement c ob s)"
proof -
  let ?r = "retire_checked c ob s"
  have r: "signals_ok c ?r" using ok by (rule retire_checked_signals)
  have same: "pr_signals ?r = pr_signals s" "pr_settle ?r = pr_settle s"
    by (simp_all add: retire_checked_def retireAbsentOwnedProcessGroups_def)
  have absent: "signals_ok c (?r\<lparr>pr_settle := Settle_done True\<rparr>)" using signals_ok_settle[OF r, of "Settle_done True"] by simp
  show ?thesis
  proof (cases "pr_settle s")
    case (Settle_term t)
    then have windows: "\<not> pc_windows c" using ok by (auto simp: signals_ok_def)
    obtain t0 where t0: "t = t0 + kill_grace c" "warned c s t0" using ok Settle_term by (auto simp: signals_ok_def)
    have "signals_ok c (signalOwnedProcessGroups c ob SIGKILL True ?r)" if "t \<le> ob_now ob"
    proof (cases "pc_pid c")
      case None
      then have "pr_owned ?r = []" using r by (simp add: signals_ok_def)
      then show ?thesis using r None by (simp add: signal_defs)
    next
      case (Some p)
      then have "graced c ?r (ob_now ob)" using t0 that same by (auto simp: graced_def warned_def)
      then show ?thesis using windows signals_ok_kill[OF r, of "ob_now ob" "pid_list c @ pr_owned ?r"] by (simp add: signal_defs)
    qed
    then show ?thesis using Settle_term r absent signals_ok_settle windows
      by (auto simp: poll_settlement_def)
  next
    case (Settle_kill t)
    then have "\<not> pc_windows c" using ok by (auto simp: signals_ok_def)
    then show ?thesis using Settle_kill r absent signals_ok_settle[OF r, of "Settle_done False"] by (simp add: poll_settlement_def)
  qed (use ok in \<open>simp_all add: poll_settlement_def\<close>)
qed

lemma consume_signals: "signals_ok c s \<Longrightarrow> pr_now s = ob_now ob \<Longrightarrow> signals_ok c (consume_line c ob p l s)"
  by (simp add: consume_line_def reader_failed_signals register_signals split: sum.split option.split)

lemma line_done_signals: "signals_ok c s \<Longrightarrow> pr_now s = ob_now ob \<Longrightarrow> signals_ok c (line_done c ob e s)"
  by (simp add: line_done_def Let_def output_failed_signals reader_failed_signals split: option.split)

lemma commit_failed_signals: "signals_ok c s \<Longrightarrow> pr_now s = ob_now ob \<Longrightarrow> signals_ok c (commit_failed c ob e s)"
  by (simp add: commit_failed_def terminate_signals)

lemma kill_fires_signals:
  assumes ok: "signals_ok c s" and due: "due (pr_kill_at s) (ob_now ob)"
  shows "signals_ok c (kill_fires c ob s)"
proof -
  define x where "x = (if pr_closed s then pr_last_signal s else Some (signal_name SIGKILL))"
  let ?s = "s\<lparr>pr_kill_at := None, pr_last_signal := x\<rparr>"
  have s: "signals_ok c ?s" using ok by (simp add: signals_ok_def warned_def graced_def)
  obtain t0 where t0: "warned c s t0" "t0 + kill_grace c \<le> ob_now ob"
    using ok due by (auto simp: signals_ok_def due_def split: option.splits)
  define xs where "xs = (if pr_closed s \<and> pc_windows c then [] else pid_list c @ (if pr_closed s then pr_owned s else [])) @
      (if pc_windows c then [] else pr_owned s)"
  have "graced c ?s (ob_now ob) \<or> xs = []"
  proof (cases "pc_pid c")
    case None
    then have "pr_owned s = []" using ok by (simp add: signals_ok_def)
    then show ?thesis using None by (simp add: xs_def pid_list_def)
  next
    case (Some p)
    then show ?thesis using t0 by (auto simp: graced_def warned_def)
  qed
  then have "signals_ok c (?s\<lparr>pr_signals := pr_signals ?s @ map (\<lambda>g. (ob_now ob, SIGKILL, g)) xs\<rparr>)"
    by (rule signals_ok_kill[OF s])
  moreover have "kill_fires c ob s = ?s\<lparr>pr_signals := pr_signals ?s @ map (\<lambda>g. (ob_now ob, SIGKILL, g)) xs\<rparr>"
    by (cases "pr_closed s"; cases "pc_windows c") (simp_all add: kill_fires_def signal_defs xs_def x_def)
  ultimately show ?thesis by simp
qed

lemma force_fires_signals: "signals_ok c s \<Longrightarrow> signals_ok c (force_fires c ob s)"
  by (simp add: force_fires_def Let_def finish_signals retire_checked_signals)

lemma parent_exit_signals:
  assumes "signals_ok c s"
  shows "signals_ok c (parent_exit c ob s)"
proof -
  have "\<exists>xs. pr_signals (parent_exit c ob s) = pr_signals s @ xs"
    by (cases "pr_closed s"; cases "pc_windows c") (simp_all add: parent_exit_def signal_defs)
  then obtain xs where xs: "pr_signals (parent_exit c ob s) = pr_signals s @ xs" by blast
  have "pr_terminating (parent_exit c ob s) = pr_terminating s" "pr_kill_at (parent_exit c ob s) = pr_kill_at s"
    "pr_settle (parent_exit c ob s) = pr_settle s" "pr_owned (parent_exit c ob s) = pr_owned s"
    "pr_now (parent_exit c ob s) = pr_now s" "pr_exited (parent_exit c ob s)"
    by (simp_all add: parent_exit_def signal_defs)
  moreover have "warned c s t \<Longrightarrow> warned c (parent_exit c ob s) t" for t by (auto simp: warned_def xs)
  ultimately show ?thesis using assms unfolding signals_ok_def by auto
qed

lemma handle_signals_ok:
  assumes ok: "signals_ok c s" and now: "pr_now s = ob_now ob" and en: "enabled (ob_now ob) e s"
  shows "signals_ok c (handle c ob e s)"
proof (cases e)
  case (Callback_done x)
  then show ?thesis using ok now by (simp add: callback_done_def commit_failed_signals split: option.split)
next
  case (Release_written x)
  then show ?thesis using ok now by (simp add: release_written_def commit_failed_signals split: option.split)
next
  case (Child_error x)
  then show ?thesis using ok by (simp add: child_error_def)
next
  case (Pipe_error p x)
  then show ?thesis using ok now by (simp add: reader_failed_signals)
next
  case (Next_line p)
  then show ?thesis using ok now by (simp add: next_line_def Let_def consume_signals split: list.split)
next
  case (Ack_written x)
  then show ?thesis using ok now by (simp add: reader_failed_signals split: option.split)
next
  case (Line_done x)
  then show ?thesis using ok now by (simp add: line_done_signals)
next
  case Line_refused
  then show ?thesis using ok now by (simp add: line_done_signals)
next
  case Timeout_fires
  then show ?thesis using ok now by (simp add: timeout_fires_def terminate_signals)
next
  case Kill_fires
  then show ?thesis using kill_fires_signals[OF ok] en by simp
next
  case Aborted
  then show ?thesis using ok now by (simp add: abort_run_def terminate_signals)
next
  case (Disk_done x)
  then show ?thesis using ok now by (simp add: disk_done_def Let_def terminate_signals split: sum.split option.split)
next
  case Close_finish
  then show ?thesis using ok by (auto simp: close_finish_def finish_signals split: settlement.split option.split)
qed (use ok in \<open>simp_all add: force_fires_signals disk_tick_def retire_signals settlement_signals poll_signals
  promise_settles_def parent_exit_signals\<close>)

lemma reaches_signals_ok: "runner_reaches c s \<Longrightarrow> signals_ok c s"
proof (induction rule: runner_reaches.induct)
  case start
  show ?case by (simp add: signals_ok_def fresh_runner_def)
next
  case (step s ob e s')
  then show ?case using handle_signals_ok[of c "s\<lparr>pr_now := ob_now ob\<rparr>" ob e] signals_ok_now[of c s "ob_now ob"]
    by (simp add: runner_step_iff)
qed

section \<open>Nothing is left out silently\<close>

definition waiting_lines :: "pipe \<Rightarrow> runner \<Rightarrow> nat" where
  "waiting_lines p s = length (filter (\<lambda>x. snd x = Some p) (pr_queue s))"

definition flagged :: "runner \<Rightarrow> bool" where
  "flagged s \<longleftrightarrow> pr_timed_out s \<or> pr_cancelled s \<or> pr_exhausted s \<or> pr_spawn_error s \<noteq> None"

definition reader_ok :: "js_error option \<Rightarrow> reader_state \<Rightarrow> nat \<Rightarrow> bool" where
  "reader_ok err st n \<longleftrightarrow> (st = Broken \<longrightarrow> err \<noteq> None) \<and> n \<le> (if st = Awaiting_line then 1 else 0)"

definition output_ok :: "runner \<Rightarrow> bool" where
  "output_ok s \<longleftrightarrow>
     reader_ok (pr_output_error s) (rd_state (pr_stdout s)) (waiting_lines Stdout s) \<and>
     reader_ok (pr_output_error s) (rd_state (pr_stderr s)) (waiting_lines Stderr s) \<and>
     (None \<in> snd ` set (pr_queue s) \<longrightarrow> flagged s) \<and> (pr_obs_error s \<noteq> None \<longrightarrow> pr_output_error s \<noteq> None)"

lemmas output_ok_defs = output_ok_def waiting_lines_def flagged_def

lemma output_ok_reader: "output_ok s \<Longrightarrow> reader_ok (pr_output_error s) (rd_state (reader_of p s)) (waiting_lines p s)"
  by (cases p) (simp_all add: output_ok_def)

lemma reader_ok_error: "reader_ok e st n \<Longrightarrow> (e \<noteq> None \<Longrightarrow> e' \<noteq> None) \<Longrightarrow> reader_ok e' st n"
  by (auto simp: reader_ok_def)

lemma output_ok_update [simp]:
  "output_ok (s\<lparr>pr_signals := x1\<rparr>) = output_ok s" "output_ok (s\<lparr>pr_kill_at := x2\<rparr>) = output_ok s"
  "output_ok (s\<lparr>pr_force_at := x3\<rparr>) = output_ok s" "output_ok (s\<lparr>pr_terminating := x4\<rparr>) = output_ok s"
  "output_ok (s\<lparr>pr_last_signal := x5\<rparr>) = output_ok s" "output_ok (s\<lparr>pr_owned := x6\<rparr>) = output_ok s"
  "output_ok (s\<lparr>pr_settle := x7\<rparr>) = output_ok s" "output_ok (s\<lparr>pr_result := x8\<rparr>) = output_ok s"
  "output_ok (s\<lparr>pr_timeout_at := x9\<rparr>) = output_ok s" "output_ok (s\<lparr>pr_registered := x10\<rparr>) = output_ok s"
  "output_ok (s\<lparr>pr_frames := x11\<rparr>) = output_ok s" "output_ok (s\<lparr>pr_now := x12\<rparr>) = output_ok s"
  "output_ok (s\<lparr>pr_disk_busy := x13\<rparr>) = output_ok s" "output_ok (s\<lparr>pr_close := x14\<rparr>) = output_ok s"
  "output_ok (s\<lparr>pr_beat := x15\<rparr>) = output_ok s" "output_ok (s\<lparr>pr_beat_busy := x16\<rparr>) = output_ok s"
  "output_ok (s\<lparr>pr_outcome := x17\<rparr>) = output_ok s" "output_ok (s\<lparr>pr_exited := x18\<rparr>) = output_ok s"
  "output_ok (s\<lparr>pr_calling := x19\<rparr>) = output_ok s" "output_ok (s\<lparr>pr_delivered := x20\<rparr>) = output_ok s"
  "output_ok (s\<lparr>pr_queued := x21\<rparr>) = output_ok s" "output_ok (s\<lparr>pr_commit := x22\<rparr>) = output_ok s"
  "output_ok (s\<lparr>pr_obs := x23\<rparr>) = output_ok s" "output_ok (s\<lparr>pr_sent := x24\<rparr>) = output_ok s"
  by (simp_all add: output_ok_defs)

lemma signal_output [simp]:
  "output_ok (signalOwnedProcessGroups c ob sig b s) = output_ok s" "output_ok (signalChild c ob sig s) = output_ok s"
  "output_ok (signalProcessGroup ob g sig s) = output_ok s" "output_ok (startGracefulTermination c ob s) = output_ok s"
  "output_ok (retireAbsentOwnedProcessGroups ob s) = output_ok s" "output_ok (retire_checked c ob s) = output_ok s"
  "output_ok (finish_run c ob code sg s) = output_ok s" "output_ok (settle_observation v s) = output_ok s"
  by (simp_all add: signal_defs runner_defs)

lemma settlement_output [simp]:
  "output_ok (startEpisodeProcessSettlement c ob s) = output_ok s" "output_ok (poll_settlement c ob s) = output_ok s"
  by (simp_all add: startEpisodeProcessSettlement_def poll_settlement_def Let_def split: option.split settlement.split)

lemma output_ok_grows:
  assumes "output_ok s" and "pr_stdout t = pr_stdout s" "pr_stderr t = pr_stderr s" "pr_queue t = pr_queue s" "pr_obs_error t = pr_obs_error s"
    and "pr_output_error s \<noteq> None \<Longrightarrow> pr_output_error t \<noteq> None" and "flagged s \<Longrightarrow> flagged t"
  shows "output_ok t"
  using assms unfolding output_ok_def waiting_lines_def by (auto intro: reader_ok_error)

lemma output_ok_more:
  "output_ok s \<Longrightarrow> output_ok (note_error e s)"
  "output_ok s \<Longrightarrow> b \<or> \<not> pr_exhausted s \<Longrightarrow> output_ok (s\<lparr>pr_exhausted := b\<rparr>)"
  "output_ok s \<Longrightarrow> output_ok (s\<lparr>pr_timed_out := True\<rparr>)" "output_ok s \<Longrightarrow> output_ok (s\<lparr>pr_cancelled := True\<rparr>)"
  "output_ok s \<Longrightarrow> output_ok (s\<lparr>pr_spawn_error := Some x\<rparr>)"
  by (erule output_ok_grows; auto simp: flagged_def note_error_def)+

lemma error_noted [simp]: "\<exists>x. pr_output_error (note_error e s) = Some x" "\<exists>x. pr_output_error (output_failed c ob e s) = Some x"
  by (auto simp: runner_defs signal_defs)

lemma output_failed_output: "output_ok s \<Longrightarrow> output_ok (output_failed c ob e s)"
  unfolding output_failed_def signal_output
  by (intro output_ok_more) (auto simp: note_error_def)

lemma queue_marker_output: "output_ok s \<Longrightarrow> flagged s \<Longrightarrow> output_ok (queueOutputLine l None s)"
  by (auto simp: output_ok_defs queueOutputLine_def)

lemma waiting_frame [simp]:
  "waiting_lines p (note_error e s) = waiting_lines p s" "waiting_lines p (output_failed c ob e s) = waiting_lines p s"
  "waiting_lines p (set_reader q r s) = waiting_lines p s" "waiting_lines p (set_state q st s) = waiting_lines p s"
  by (cases q; simp add: waiting_lines_def runner_defs signal_defs set_state_def)+

lemma set_reader_output:
  assumes "output_ok s" and "reader_ok (pr_output_error s) (rd_state r) (waiting_lines p s)"
  shows "output_ok (set_reader p r s)"
  using assms by (cases p) (simp_all add: output_ok_def waiting_lines_def flagged_def)

lemma set_state_output:
  "output_ok s \<Longrightarrow> (st = Broken \<Longrightarrow> pr_output_error s \<noteq> None) \<Longrightarrow> waiting_lines p s = 0 \<Longrightarrow> output_ok (set_state p st s)"
  unfolding set_state_def by (rule set_reader_output) (simp_all add: reader_ok_def)

lemma no_waiting: "output_ok s \<Longrightarrow> rd_state (reader_of p s) \<noteq> Awaiting_line \<Longrightarrow> waiting_lines p s = 0"
  using output_ok_reader[of s p] by (simp add: reader_ok_def)

lemma reader_failed_output:
  assumes "output_ok s" and "waiting_lines p s = 0"
  shows "output_ok (reader_failed c ob p e s)"
proof (cases "rd_state (pr_stdout s) = Broken \<or> rd_state (pr_stderr s) = Broken")
  case True
  then have "pr_output_error s \<noteq> None" using assms(1) by (auto simp: output_ok_def reader_ok_def)
  then show ?thesis using True assms by (simp add: reader_failed_def Let_def set_state_output)
next
  case False
  then show ?thesis using assms output_failed_output[OF assms(1)]
    by (simp add: reader_failed_def set_state_output)
qed

lemma queue_line_output:
  assumes "output_ok s" and "rd_state (reader_of p s) \<noteq> Awaiting_line"
  shows "output_ok (set_state p Awaiting_line (queueOutputLine l (Some p) s))"
  using assms no_waiting[OF assms]
  by (cases p) (simp_all add: output_ok_def reader_ok_def waiting_lines_def flagged_def set_state_def queueOutputLine_def)

lemma reader_ok_less: "reader_ok e st n \<Longrightarrow> m \<le> n \<Longrightarrow> reader_ok e st m"
  by (auto simp: reader_ok_def split: if_splits)

lemma pop_output:
  assumes ok: "output_ok s"
  shows "output_ok (pop_line s)"
proof -
  have "waiting_lines p (pop_line s) \<le> waiting_lines p s" for p
    by (cases "pr_queue s") (simp_all add: waiting_lines_def pop_line_def)
  then have "reader_ok (pr_output_error s) (rd_state (reader_of p s)) (waiting_lines p (pop_line s))" for p
    using output_ok_reader[OF ok, of p] reader_ok_less by blast
  from this[of Stdout] this[of Stderr]
  have readers: "reader_ok (pr_output_error (pop_line s)) (rd_state (pr_stdout (pop_line s))) (waiting_lines Stdout (pop_line s))"
    "reader_ok (pr_output_error (pop_line s)) (rd_state (pr_stderr (pop_line s))) (waiting_lines Stderr (pop_line s))"
    by (simp_all add: pop_line_def)
  have "None \<in> snd ` set (pr_queue (pop_line s)) \<Longrightarrow> None \<in> snd ` set (pr_queue s)"
    by (cases "pr_queue s") (auto simp: pop_line_def)
  moreover have "flagged (pop_line s) = flagged s" "pr_obs_error (pop_line s) = pr_obs_error s"
    "pr_output_error (pop_line s) = pr_output_error s" by (simp_all add: pop_line_def flagged_def)
  ultimately show ?thesis using ok readers by (simp add: output_ok_def)
qed

lemma popped_waiter:
  assumes "output_ok s" and "pr_queue s \<noteq> []" and "snd (hd (pr_queue s)) = Some p"
  shows "waiting_lines p (pop_line s) = 0"
proof -
  have "Suc (waiting_lines p (pop_line s)) = waiting_lines p s"
    using assms(2,3) by (cases "pr_queue s") (simp_all add: waiting_lines_def pop_line_def)
  moreover have "waiting_lines p s \<le> 1"
    using output_ok_reader[OF assms(1), of p] by (auto simp: reader_ok_def split: if_splits)
  ultimately show ?thesis by simp
qed

lemma line_done_output:
  assumes "output_ok s" and "pr_queue s \<noteq> []"
  shows "output_ok (line_done c ob e s)"
proof -
  have s1: "output_ok (pop_line s)" using pop_output[OF assms(1)] .
  then have s2: "output_ok (output_failed c ob x (pop_line s))" for x by (rule output_failed_output)
  show ?thesis
    using s1 s2 popped_waiter[OF assms]
    by (auto simp: line_done_def Let_def intro!: set_state_output reader_failed_output split: option.split)
qed

lemma output_ok_reader_update:
  assumes "output_ok s" and "rd_state r = rd_state (reader_of p s)"
  shows "output_ok (set_reader p r s)"
  using assms output_ok_reader[of s p] by (simp add: set_reader_output)

lemma register_output:
  assumes ok: "output_ok s" and "waiting_lines Stdout s = 0"
  shows "output_ok (register_group c ob r s)"
proof -
  let ?s1 = "s\<lparr>pr_registered := AList.update (rg_id r) (rg_group r) (pr_registered s)\<rparr>"
  let ?s2 = "retireAbsentOwnedProcessGroups ob (?s1\<lparr>pr_owned := List.insert (rg_group r) (pr_owned ?s1)\<rparr>)"
  have s2: "output_ok ?s2" using ok by simp
  have "waiting_lines Stdout ?s2 = 0" "waiting_lines Stdout ?s1 = 0" "waiting_lines Stdout (?s2\<lparr>pr_frames := f\<rparr>) = 0" for f
    using assms(2) by (simp_all add: waiting_lines_def retireAbsentOwnedProcessGroups_def)
  then show ?thesis using assms s2 unfolding register_group_def Let_def
    by (auto intro!: reader_failed_output set_state_output split: sum.split option.split)
qed

lemma consume_output:
  assumes "output_ok s" and "rd_state (reader_of p s) \<noteq> Awaiting_line"
  shows "output_ok (consume_line c ob p l s)"
  using no_waiting[OF assms] assms
  by (auto simp: consume_line_def intro!: reader_failed_output register_output queue_line_output split: sum.split option.split if_splits)

lemma commit_failed_output:
  assumes ok: "output_ok s"
  shows "output_ok (commit_failed c ob e s)"
proof -
  let ?t = "note_error e (s\<lparr>pr_commit := Commit_failed, pr_obs_error := Some e\<rparr>)"
  have same: "pr_stdout ?t = pr_stdout s" "pr_stderr ?t = pr_stderr s" "pr_queue ?t = pr_queue s" "flagged ?t = flagged s"
    "waiting_lines p ?t = waiting_lines p s" for p
    by (simp_all add: note_error_def flagged_def waiting_lines_def)
  have err: "pr_output_error ?t \<noteq> None" using error_noted(1) by auto
  have "output_ok ?t"
    unfolding output_ok_def same
    using ok err by (auto simp: output_ok_def intro: reader_ok_error)
  then show ?thesis by (simp add: commit_failed_def)
qed

lemma flagged_update [simp]:
  "flagged (s\<lparr>pr_timed_out := True\<rparr>)" "flagged (s\<lparr>pr_cancelled := True\<rparr>)" "flagged (s\<lparr>pr_exhausted := True\<rparr>)"
  "flagged (s\<lparr>pr_spawn_error := Some x\<rparr>)" "flagged (s\<lparr>pr_timeout_at := y\<rparr>) = flagged s" "flagged (s\<lparr>pr_disk_busy := b\<rparr>) = flagged s"
  "flagged (settle_observation v s) = flagged s"
  by (simp_all add: flagged_def settle_observation_def)

lemma marked_output:
  assumes "output_ok s"
  shows "output_ok (timeout_fires c ob s)" and "output_ok (abort_run c ob s)" and "output_ok (child_error x s)"
    and "output_ok (disk_done c ob r s)"
proof -
  have "output_ok (s\<lparr>pr_timeout_at := None, pr_timed_out := True\<rparr>)"
    using output_ok_more(3)[of "s\<lparr>pr_timeout_at := None\<rparr>"] assms by simp
  then show "output_ok (timeout_fires c ob s)" by (simp add: timeout_fires_def queue_marker_output flagged_def)
  show "output_ok (abort_run c ob s)" "output_ok (child_error x s)"
    using output_ok_more(4,5)[OF assms] by (simp_all add: abort_run_def child_error_def queue_marker_output)
  have "output_ok (s\<lparr>pr_disk_busy := False, pr_exhausted := True\<rparr>)" "output_ok (note_error e (s\<lparr>pr_disk_busy := False\<rparr>))" for e
    using output_ok_more(1,2)[of "s\<lparr>pr_disk_busy := False\<rparr>"] assms by simp_all
  then show "output_ok (disk_done c ob r s)"
    using assms by (simp add: disk_done_def Let_def queue_marker_output flagged_def split: sum.split option.split)
qed

lemma next_line_output:
  assumes "output_ok s" and "rd_state (reader_of p s) = Reading"
  shows "output_ok (next_line c ob p s)"
proof -
  have new: "rd_state (reader_of p (set_reader p r s)) = rd_state r" for r by (cases p) simp_all
  have "output_ok (set_reader p (reader_of p s\<lparr>rd_lines := ls\<rparr>) s)" "output_ok (set_reader p (reader_of p s\<lparr>rd_pending := ls'\<rparr>) s)" for ls ls'
    using output_ok_reader_update[OF assms(1)] by simp_all
  then show ?thesis using assms no_waiting[OF assms(1), of p] new
    by (auto simp: next_line_def Let_def intro!: consume_output set_state_output split: list.split)
qed

lemma handle_output_ok:
  assumes ok: "output_ok s" and en: "enabled now e s" and lines: "lines_ok s"
  shows "output_ok (handle c ob e s)"
proof (cases e)
  case (Callback_done x)
  then show ?thesis using ok by (simp add: callback_done_def commit_failed_output split: option.split)
next
  case (Release_written x)
  then show ?thesis using ok by (simp add: release_written_def commit_failed_output split: option.split)
next
  case (Chunk p x)
  then show ?thesis using output_ok_reader_update[OF ok] by (simp add: read_chunk_def Let_def)
next
  case (Pipe_end p)
  then show ?thesis using output_ok_reader_update[OF ok] by simp
next
  case (Pipe_error p x)
  then show ?thesis using ok en no_waiting[OF ok, of p] by (simp add: reader_failed_output)
next
  case (Next_line p)
  then show ?thesis using ok en next_line_output by simp
next
  case (Ack_written x)
  have "waiting_lines Stdout s = 0" using Ack_written en no_waiting[OF ok, of Stdout] by simp
  then have "output_ok (set_state Stdout Reading s)" "output_ok (reader_failed c ob Stdout y s)" for y
    using ok set_state_output[OF ok, of Reading Stdout] reader_failed_output[OF ok] by simp_all
  then show ?thesis using Ack_written by (simp split: option.split)
next
  case (Line_done x)
  then show ?thesis using ok en lines by (simp add: line_done_output lines_ok_def)
next
  case Line_refused
  then show ?thesis using ok en by (simp add: line_done_output)
next
  case Close_finish
  then show ?thesis using ok by (auto simp: close_finish_def output_ok_more(1) split: settlement.split option.split)
next
  case Force_fires
  have "output_ok (retire_checked c ob (s\<lparr>pr_force_at := None\<rparr>))" using ok by simp
  then show ?thesis using Force_fires ok output_ok_more(1) by (simp add: force_fires_def Let_def)
next
  case Kill_fires
  then show ?thesis using ok by (simp add: kill_fires_def)
next
  case Parent_exit
  then show ?thesis using ok by (simp add: parent_exit_def)
qed (use ok in \<open>simp_all add: marked_output disk_tick_def promise_settles_def\<close>)

lemma reaches_output_ok: "runner_reaches c s \<Longrightarrow> output_ok s"
proof (induction rule: runner_reaches.induct)
  case start
  show ?case by (simp add: output_ok_def reader_ok_def waiting_lines_def fresh_runner_def fresh_reader_def)
next
  case (step s ob e s')
  then show ?case using handle_output_ok[of "s\<lparr>pr_now := ob_now ob\<rparr>" "ob_now ob" e] reaches_lines_ok[of c s]
    by (simp add: runner_step_iff)
qed

section \<open>Deadlines\<close>

text \<open>The moment from which the grace periods of a settlement are counted at the latest.\<close>

definition grace_start :: "runner \<Rightarrow> int" where
  "grace_start s = nullish (pr_terminating s) (pr_now s)"

definition timers_ok :: "runner_config \<Rightarrow> runner \<Rightarrow> bool" where
  "timers_ok c s \<longleftrightarrow>
     (\<forall>t. pr_terminating s = Some t \<and> pr_result s = None \<and> pr_close s = None \<longrightarrow>
        pr_force_at s = Some (t + (kill_grace c + force_grace c))) \<and>
     (\<forall>t. pr_settle s = Settle_term t \<longrightarrow> t \<le> grace_start s + kill_grace c) \<and>
     (\<forall>t. pr_settle s = Settle_kill t \<longrightarrow> t \<le> grace_start s + kill_grace c + force_grace c)"

lemma timers_ok_update [simp]:
  "timers_ok c (s\<lparr>pr_signals := x1\<rparr>) = timers_ok c s" "timers_ok c (s\<lparr>pr_kill_at := x2\<rparr>) = timers_ok c s"
  "timers_ok c (s\<lparr>pr_last_signal := x3\<rparr>) = timers_ok c s" "timers_ok c (s\<lparr>pr_owned := x4\<rparr>) = timers_ok c s"
  "timers_ok c (s\<lparr>pr_timeout_at := x5\<rparr>) = timers_ok c s" "timers_ok c (s\<lparr>pr_registered := x6\<rparr>) = timers_ok c s"
  "timers_ok c (s\<lparr>pr_frames := x7\<rparr>) = timers_ok c s" "timers_ok c (s\<lparr>pr_sent := x8\<rparr>) = timers_ok c s"
  "timers_ok c (s\<lparr>pr_disk_busy := x9\<rparr>) = timers_ok c s" "timers_ok c (s\<lparr>pr_stdout := x10\<rparr>) = timers_ok c s"
  "timers_ok c (s\<lparr>pr_stderr := x11\<rparr>) = timers_ok c s" "timers_ok c (s\<lparr>pr_queue := x12\<rparr>) = timers_ok c s"
  "timers_ok c (s\<lparr>pr_calling := x13\<rparr>) = timers_ok c s" "timers_ok c (s\<lparr>pr_queued := x14\<rparr>) = timers_ok c s"
  "timers_ok c (s\<lparr>pr_delivered := x15\<rparr>) = timers_ok c s" "timers_ok c (s\<lparr>pr_obs := x16\<rparr>) = timers_ok c s"
  "timers_ok c (s\<lparr>pr_obs_error := x17\<rparr>) = timers_ok c s" "timers_ok c (s\<lparr>pr_commit := x18\<rparr>) = timers_ok c s"
  "timers_ok c (s\<lparr>pr_spawn_error := x19\<rparr>) = timers_ok c s" "timers_ok c (s\<lparr>pr_output_error := x20\<rparr>) = timers_ok c s"
  "timers_ok c (s\<lparr>pr_exhausted := x21\<rparr>) = timers_ok c s" "timers_ok c (s\<lparr>pr_timed_out := x22\<rparr>) = timers_ok c s"
  "timers_ok c (s\<lparr>pr_cancelled := x23\<rparr>) = timers_ok c s" "timers_ok c (s\<lparr>pr_beat := x24\<rparr>) = timers_ok c s"
  "timers_ok c (s\<lparr>pr_beat_busy := x25\<rparr>) = timers_ok c s" "timers_ok c (s\<lparr>pr_exited := x26\<rparr>) = timers_ok c s"
  "timers_ok c (s\<lparr>pr_outcome := x27\<rparr>) = timers_ok c s"
  by (simp_all add: timers_ok_def grace_start_def)

lemma terminate_timers:
  assumes "timers_ok c s" and "pr_now s = ob_now ob"
  shows "timers_ok c (startGracefulTermination c ob s)"
proof (cases "pr_terminating s")
  case (Some t)
  then show ?thesis using assms(1) by (simp add: startGracefulTermination_def)
next
  case None
  then show ?thesis using assms by (simp add: startGracefulTermination_def signal_defs timers_ok_def grace_start_def)
qed

lemma timers_kept [simp]:
  "timers_ok c (note_error e s) = timers_ok c s" "timers_ok c (set_reader p r s) = timers_ok c s"
  "timers_ok c (set_state p st s) = timers_ok c s" "timers_ok c (queueOutputLine l w s) = timers_ok c s"
  "timers_ok c (settle_observation v s) = timers_ok c s" "timers_ok c (signalOwnedProcessGroups c ob sig b s) = timers_ok c s"
  "timers_ok c (signalChild c ob sig s) = timers_ok c s" "timers_ok c (signalProcessGroup ob g sig s) = timers_ok c s"
  "timers_ok c (retireAbsentOwnedProcessGroups ob s) = timers_ok c s" "timers_ok c (retire_checked c ob s) = timers_ok c s"
  by (cases p; simp add: note_error_def queueOutputLine_def settle_observation_def set_state_def signal_defs retire_checked_def
      retireAbsentOwnedProcessGroups_def)+

lemma pop_timers [simp]: "timers_ok c (pop_line s) = timers_ok c s"
proof -
  have "pr_terminating (pop_line s) = pr_terminating s" "pr_close (pop_line s) = pr_close s" "pr_force_at (pop_line s) = pr_force_at s"
    "pr_settle (pop_line s) = pr_settle s" "pr_result (pop_line s) = None \<longleftrightarrow> pr_result s = None" "grace_start (pop_line s) = grace_start s"
    by (simp_all add: pop_line_def grace_start_def)
  then show ?thesis by (simp only: timers_ok_def)
qed

lemma finish_timers: "timers_ok c s \<Longrightarrow> timers_ok c (finish_run c ob code sig s)"
  by (simp add: finish_run_def timers_ok_def grace_start_def)

lemma failed_timers:
  assumes "timers_ok c s" and "pr_now s = ob_now ob"
  shows "timers_ok c (output_failed c ob e s)" and "timers_ok c (reader_failed c ob p e s)" and "timers_ok c (commit_failed c ob e s)"
  using assms by (simp_all add: output_failed_def reader_failed_def commit_failed_def terminate_timers)

lemma register_timers: "timers_ok c s \<Longrightarrow> pr_now s = ob_now ob \<Longrightarrow> timers_ok c (register_group c ob r s)"
  by (simp add: register_group_def Let_def failed_timers split: sum.split option.split)

lemma consume_timers: "timers_ok c s \<Longrightarrow> pr_now s = ob_now ob \<Longrightarrow> timers_ok c (consume_line c ob p l s)"
  by (simp add: consume_line_def failed_timers register_timers split: sum.split option.split)

lemma settle_timers:
  assumes "timers_ok c s" and "pr_now s = ob_now ob"
  shows "timers_ok c (startEpisodeProcessSettlement c ob s)" and "timers_ok c (poll_settlement c ob s)"
proof -
  have new: "timers_ok c (t\<lparr>pr_settle := x\<rparr>)" if "timers_ok c t" "case x of Settle_term u \<Rightarrow> u \<le> grace_start t + kill_grace c
      | Settle_kill u \<Rightarrow> u \<le> grace_start t + kill_grace c + force_grace c | _ \<Rightarrow> True" for t x
    using that by (auto simp: timers_ok_def grace_start_def split: settlement.splits)
  have same: "grace_start (retire_checked c ob s) = grace_start s"
    "grace_start (signalOwnedProcessGroups c ob sig True (retire_checked c ob s)) = grace_start s" for sig
    by (simp_all add: grace_start_def retire_checked_def retireAbsentOwnedProcessGroups_def signal_defs)
  have bounds: "pr_settle s = Settle_term u \<Longrightarrow> u \<le> grace_start s + kill_grace c" for u
    using assms(1) by (simp add: timers_ok_def)
  show "timers_ok c (startEpisodeProcessSettlement c ob s)"
  proof (cases "pr_terminating s")
    case None
    then have "grace_start s = ob_now ob" using assms(2) by (simp add: grace_start_def)
    then show ?thesis using None assms(1) same
      by (simp add: startEpisodeProcessSettlement_def Let_def new)
  next
    case (Some t)
    then have "grace_start s = t" by (simp add: grace_start_def)
    then show ?thesis using Some assms(1) same by (simp add: startEpisodeProcessSettlement_def Let_def new)
  qed
  show "timers_ok c (poll_settlement c ob s)"
    using assms(1) bounds same by (cases "pr_settle s") (simp_all add: poll_settlement_def new)
qed

lemma handle_timers_ok:
  assumes ok: "timers_ok c s" and now: "pr_now s = ob_now ob" and en: "enabled (ob_now ob) e s"
  shows "timers_ok c (handle c ob e s)"
proof (cases e)
  case (Callback_done x)
  then show ?thesis using ok now by (simp add: callback_done_def failed_timers split: option.split)
next
  case (Release_written x)
  then show ?thesis using ok now by (simp add: release_written_def failed_timers split: option.split)
next
  case (Next_line p)
  then show ?thesis using ok now by (simp add: next_line_def Let_def consume_timers split: list.split)
next
  case (Ack_written x)
  then show ?thesis using ok now by (simp add: failed_timers split: option.split)
next
  case (Line_done x)
  then show ?thesis using ok now by (simp add: line_done_def Let_def failed_timers split: option.split)
next
  case Line_refused
  then show ?thesis using ok now by (simp add: line_done_def Let_def failed_timers split: option.split)
next
  case (Disk_done x)
  then show ?thesis using ok now by (simp add: disk_done_def Let_def terminate_timers split: sum.split option.split)
next
  case (Child_close code sig)
  then show ?thesis using ok by (simp add: timers_ok_def grace_start_def)
next
  case Close_finish
  then show ?thesis using ok by (auto simp: close_finish_def finish_timers split: settlement.split option.split)
next
  case Force_fires
  show ?thesis
  proof (cases "pr_closed s")
    case True
    then have "timers_ok c (s\<lparr>pr_force_at := None\<rparr>)" using ok by (simp add: timers_ok_def grace_start_def)
    then show ?thesis using Force_fires True by (simp add: force_fires_def)
  next
    case False
    have fin: "timers_ok c (finish_run c ob code sig t)" if "pr_settle t = pr_settle s" "grace_start t = grace_start s"
      "pr_result t = pr_result s" "pr_terminating t = pr_terminating s" "pr_close t = pr_close s" for t code sig
      using that ok False by (auto simp: finish_run_def timers_ok_def grace_start_def)
    show ?thesis using Force_fires False
      by (simp add: force_fires_def Let_def) (auto intro!: fin simp: retire_checked_def retireAbsentOwnedProcessGroups_def
          note_error_def grace_start_def)
  qed
next
  case Parent_exit
  then show ?thesis using ok by (simp add: parent_exit_def)
qed (use ok now in \<open>simp_all add: failed_timers timeout_fires_def abort_run_def child_error_def terminate_timers kill_fires_def
  disk_tick_def promise_settles_def settle_timers\<close>)

lemma reaches_timers_ok: "runner_reaches c s \<Longrightarrow> timers_ok c s"
proof (induction rule: runner_reaches.induct)
  case start
  show ?case by (simp add: timers_ok_def fresh_runner_def)
next
  case (step s ob e s')
  then have "timers_ok c (s\<lparr>pr_now := ob_now ob\<rparr>)"
    by (cases "pr_terminating s") (fastforce simp: runner_step_iff timers_ok_def grace_start_def)+
  then show ?case using step.hyps handle_timers_ok[of c "s\<lparr>pr_now := ob_now ob\<rparr>" ob e] by (simp add: runner_step_iff)
qed

end
