(* ===== verification/Child_Supervision.thy ===== *)
theory Child_Supervision
  imports Runner_Invariants
begin

text \<open>
  The properties of the supervision of a child process, over every order of events: \<open>src/processRunner.ts\<close> and, for the
  frames, the child's end of the control channel, \<open>src/piChildControl.ts\<close>.
\<close>

section \<open>Frames\<close>

definition commit_begun :: "runner \<Rightarrow> bool" where
  "commit_begun s \<longleftrightarrow> pr_commit s \<noteq> Commit_none \<and> pr_commit s \<noteq> Commit_callback"

definition frames_ok :: "runner_config \<Rightarrow> runner \<Rightarrow> bool" where
  "frames_ok c s \<longleftrightarrow>
     (\<forall>f \<in> set (pr_frames s). f = child_owner_commit_release_frame (pc_runtime c) \<and> commit_begun s \<or>
        (\<exists>i. map_of (pr_registered s) i \<noteq> None \<and> episodeProcessGroupRegistrationAckFrame (pc_runtime c) i = Inr f))"

text \<open>Two states that agree on the frames, the registrations and the commit.\<close>

definition same_frames :: "runner \<Rightarrow> runner \<Rightarrow> bool" where
  "same_frames s t \<longleftrightarrow> pr_frames t = pr_frames s \<and> pr_registered t = pr_registered s \<and> pr_commit t = pr_commit s"

lemma same_frames_refl [simp]: "same_frames s s"
  by (simp add: same_frames_def)

lemma same_frames_ok: "same_frames s t \<Longrightarrow> frames_ok c t = frames_ok c s"
  by (simp add: same_frames_def frames_ok_def commit_begun_def)

lemma same_frames_update [simp]:
  "same_frames s (t\<lparr>pr_signals := x1\<rparr>) = same_frames s t" "same_frames s (t\<lparr>pr_kill_at := x2\<rparr>) = same_frames s t"
  "same_frames s (t\<lparr>pr_force_at := x3\<rparr>) = same_frames s t" "same_frames s (t\<lparr>pr_terminating := x4\<rparr>) = same_frames s t"
  "same_frames s (t\<lparr>pr_last_signal := x5\<rparr>) = same_frames s t" "same_frames s (t\<lparr>pr_output_error := x6\<rparr>) = same_frames s t"
  "same_frames s (t\<lparr>pr_exhausted := x7\<rparr>) = same_frames s t" "same_frames s (t\<lparr>pr_stdout := x8\<rparr>) = same_frames s t"
  "same_frames s (t\<lparr>pr_stderr := x9\<rparr>) = same_frames s t" "same_frames s (t\<lparr>pr_owned := x10\<rparr>) = same_frames s t"
  "same_frames s (t\<lparr>pr_settle := x11\<rparr>) = same_frames s t" "same_frames s (t\<lparr>pr_result := x12\<rparr>) = same_frames s t"
  "same_frames s (t\<lparr>pr_timeout_at := x13\<rparr>) = same_frames s t" "same_frames s (t\<lparr>pr_now := x14\<rparr>) = same_frames s t"
  "same_frames s (t\<lparr>pr_sent := x15\<rparr>) = same_frames s t" "same_frames s (t\<lparr>pr_obs := x16\<rparr>) = same_frames s t"
  "same_frames s (t\<lparr>pr_obs_error := x17\<rparr>) = same_frames s t" "same_frames s (t\<lparr>pr_spawn_error := x18\<rparr>) = same_frames s t"
  "same_frames s (t\<lparr>pr_queue := x19\<rparr>) = same_frames s t" "same_frames s (t\<lparr>pr_queued := x20\<rparr>) = same_frames s t"
  "same_frames s (t\<lparr>pr_calling := x21\<rparr>) = same_frames s t" "same_frames s (t\<lparr>pr_delivered := x22\<rparr>) = same_frames s t"
  "same_frames s (t\<lparr>pr_timed_out := x23\<rparr>) = same_frames s t" "same_frames s (t\<lparr>pr_cancelled := x24\<rparr>) = same_frames s t"
  "same_frames s (t\<lparr>pr_disk_busy := x25\<rparr>) = same_frames s t" "same_frames s (t\<lparr>pr_beat := x26\<rparr>) = same_frames s t"
  "same_frames s (t\<lparr>pr_beat_busy := x27\<rparr>) = same_frames s t" "same_frames s (t\<lparr>pr_exited := x28\<rparr>) = same_frames s t"
  "same_frames s (t\<lparr>pr_outcome := x29\<rparr>) = same_frames s t" "same_frames s (t\<lparr>pr_close := x30\<rparr>) = same_frames s t"
  by (simp_all add: same_frames_def)

lemma helper_frames [simp]:
  "same_frames s (startGracefulTermination c ob t) = same_frames s t" "same_frames s (note_error e t) = same_frames s t"
  "same_frames s (signalOwnedProcessGroups c ob sig b t) = same_frames s t" "same_frames s (signalChild c ob sig t) = same_frames s t"
  "same_frames s (signalProcessGroup ob g sig t) = same_frames s t" "same_frames s (set_reader p r t) = same_frames s t"
  "same_frames s (set_state p st t) = same_frames s t" "same_frames s (queueOutputLine l w t) = same_frames s t"
  "same_frames s (retireAbsentOwnedProcessGroups ob t) = same_frames s t" "same_frames s (finish_run c ob code sg t) = same_frames s t"
  "same_frames s (settle_observation v t) = same_frames s t" "same_frames s (pop_line t) = same_frames s t"
  by (cases p; simp add: signal_defs runner_defs set_state_def)+

lemma failed_frames [simp]:
  "same_frames s (output_failed c ob e t) = same_frames s t" "same_frames s (reader_failed c ob p e t) = same_frames s t"
  "same_frames s (retire_checked c ob t) = same_frames s t" "same_frames s (startEpisodeProcessSettlement c ob t) = same_frames s t"
  "same_frames s (poll_settlement c ob t) = same_frames s t"
  by (simp_all add: output_failed_def reader_failed_def retire_checked_def startEpisodeProcessSettlement_def Let_def
      poll_settlement_def split: option.split settlement.split)

lemma frames_kept [simp]:
  "frames_ok c (set_reader p r s) = frames_ok c s" "frames_ok c (set_state p st s) = frames_ok c s"
  "frames_ok c (reader_failed c ob p e s) = frames_ok c s" "frames_ok c (queueOutputLine l w s) = frames_ok c s"
  by (rule same_frames_ok, simp)+

lemma registration_frames:
  assumes "frames_ok c s"
  shows "frames_ok c (s\<lparr>pr_registered := AList.update i g (pr_registered s)\<rparr>)"
    and "episodeProcessGroupRegistrationAckFrame (pc_runtime c) i = Inr f \<Longrightarrow>
      frames_ok c (s\<lparr>pr_registered := AList.update i g (pr_registered s), pr_frames := pr_frames s @ [f]\<rparr>)"
proof -
  have kept: "map_of (AList.update i g (pr_registered s)) j \<noteq> None" if "map_of (pr_registered s) j \<noteq> None \<or> j = i" for j
    using that by (auto simp: AList.update_conv')
  have frame: "f = child_owner_commit_release_frame (pc_runtime c) \<and> commit_begun s \<or>
      (\<exists>j. map_of (AList.update i g (pr_registered s)) j \<noteq> None \<and> episodeProcessGroupRegistrationAckFrame (pc_runtime c) j = Inr f)"
    if "f \<in> set (pr_frames s) \<or> episodeProcessGroupRegistrationAckFrame (pc_runtime c) i = Inr f" for f
    using that assms kept unfolding frames_ok_def by blast
  show "frames_ok c (s\<lparr>pr_registered := AList.update i g (pr_registered s)\<rparr>)"
    using frame by (simp add: frames_ok_def commit_begun_def)
  show "frames_ok c (s\<lparr>pr_registered := AList.update i g (pr_registered s), pr_frames := pr_frames s @ [f]\<rparr>)"
    if "episodeProcessGroupRegistrationAckFrame (pc_runtime c) i = Inr f"
    using frame that by (simp add: frames_ok_def commit_begun_def)
qed

lemma register_frames:
  assumes ok: "frames_ok c s"
  shows "frames_ok c (register_group c ob r s)"
proof -
  let ?s1 = "s\<lparr>pr_registered := AList.update (rg_id r) (rg_group r) (pr_registered s)\<rparr>"
  let ?s2 = "retireAbsentOwnedProcessGroups ob (?s1\<lparr>pr_owned := List.insert (rg_group r) (pr_owned ?s1)\<rparr>)"
  have s1: "frames_ok c ?s1" using registration_frames(1)[OF ok] .
  moreover have "same_frames ?s1 ?s2" "same_frames ?s1 (signalProcessGroup ob (rg_group r) SIGTERM ?s2)" by simp_all
  ultimately have s2: "frames_ok c ?s2" "frames_ok c (signalProcessGroup ob (rg_group r) SIGTERM ?s2)"
    using same_frames_ok by blast+
  have ack: "frames_ok c (?s2\<lparr>pr_frames := pr_frames ?s2 @ [f]\<rparr>)"
    if "episodeProcessGroupRegistrationAckFrame (pc_runtime c) (rg_id r) = Inr f" for f
  proof -
    have "same_frames (s\<lparr>pr_registered := AList.update (rg_id r) (rg_group r) (pr_registered s), pr_frames := pr_frames s @ [f]\<rparr>)
        (?s2\<lparr>pr_frames := pr_frames ?s2 @ [f]\<rparr>)"
      by (simp add: same_frames_def retireAbsentOwnedProcessGroups_def)
    from same_frames_ok[OF this] registration_frames(2)[OF ok that] show ?thesis by blast
  qed
  show ?thesis using ok s1 s2 ack unfolding register_group_def Let_def
    by (auto split: sum.split option.split)
qed

lemma consume_frames: "frames_ok c s \<Longrightarrow> frames_ok c (consume_line c ob p l s)"
  by (simp add: consume_line_def register_frames split: sum.split option.split)

lemma commit_frames:
  assumes "frames_ok c s" and "pr_commit s \<noteq> Commit_none"
  shows "frames_ok c (commit_failed c ob e s)"
proof -
  have "same_frames (s\<lparr>pr_commit := Commit_failed\<rparr>) (commit_failed c ob e s)"
    by (simp add: commit_failed_def)
  moreover have "frames_ok c (s\<lparr>pr_commit := Commit_failed\<rparr>)"
    using assms(1) by (auto simp: frames_ok_def commit_begun_def)
  ultimately show ?thesis using same_frames_ok by blast
qed

lemma handle_frames_ok:
  assumes ok: "frames_ok c s" and en: "enabled now e s"
  shows "frames_ok c (handle c ob e s)"
proof (cases e)
  case (Callback_done x)
  have "frames_ok c (s\<lparr>pr_commit := Commit_writing, pr_frames := pr_frames s @ [child_owner_commit_release_frame (pc_runtime c)]\<rparr>)"
    using ok by (auto simp: frames_ok_def commit_begun_def)
  then show ?thesis using Callback_done ok en by (simp add: callback_done_def commit_frames split: option.split)
next
  case (Release_written x)
  have "frames_ok c (s\<lparr>pr_commit := Commit_released\<rparr>)" using ok by (auto simp: frames_ok_def commit_begun_def)
  moreover have "same_frames (s\<lparr>pr_commit := Commit_released\<rparr>) (settle_observation Obs_ok (s\<lparr>pr_commit := Commit_released\<rparr>))" by simp
  ultimately have "frames_ok c (settle_observation Obs_ok (s\<lparr>pr_commit := Commit_released\<rparr>))" using same_frames_ok by blast
  then show ?thesis using Release_written ok en by (simp add: release_written_def commit_frames split: option.split)
next
  case Spawned
  then show ?thesis using ok en by (auto simp: frames_ok_def commit_begun_def)
next
  case (Next_line p)
  then show ?thesis using ok
    by (simp add: next_line_def Let_def consume_frames split: list.split)
next
  case (Ack_written x)
  then show ?thesis using ok by (simp split: option.split)
next
  case Close_finish
  have "same_frames s (handle c ob e s)"
    using Close_finish by (simp add: close_finish_def split: settlement.split option.split)
  then show ?thesis using ok same_frames_ok by blast
next
  case (Disk_done x)
  have "same_frames s (handle c ob e s)" using Disk_done by (simp add: disk_done_def Let_def split: sum.split option.split)
  then show ?thesis using ok same_frames_ok by blast
next
  case (Line_done x)
  have "same_frames s (handle c ob e s)" using Line_done by (simp add: line_done_def Let_def split: option.split)
  then show ?thesis using ok same_frames_ok by blast
next
  case Line_refused
  have "same_frames s (handle c ob e s)" using Line_refused by (simp add: line_done_def Let_def split: option.split)
  then show ?thesis using ok same_frames_ok by blast
qed (use ok same_frames_ok[of s "handle c ob e s" c] in \<open>simp_all add: child_error_def timeout_fires_def abort_run_def kill_fires_def
  force_fires_def Let_def parent_exit_def disk_tick_def promise_settles_def\<close>)

lemma reaches_frames_ok: "runner_reaches c s \<Longrightarrow> frames_ok c s"
proof (induction rule: runner_reaches.induct)
  case start
  show ?case by (simp add: frames_ok_def fresh_runner_def)
next
  case (step s ob e s')
  have "frames_ok c (s\<lparr>pr_now := ob_now ob\<rparr>)" using step.IH same_frames_ok[of s "s\<lparr>pr_now := ob_now ob\<rparr>"] by simp
  then show ?case using step.hyps handle_frames_ok[of c "s\<lparr>pr_now := ob_now ob\<rparr>" "ob_now ob" e ob] by (simp add: runner_step_iff)
qed

section \<open>Which events settle a run\<close>

lemma result_kept [simp]:
  "pr_result (startGracefulTermination c ob t) = pr_result t" "pr_result (note_error e t) = pr_result t"
  "pr_result (signalOwnedProcessGroups c ob sig b t) = pr_result t" "pr_result (signalChild c ob sig t) = pr_result t"
  "pr_result (signalProcessGroup ob g sig t) = pr_result t" "pr_result (set_reader p r t) = pr_result t"
  "pr_result (set_state p st t) = pr_result t" "pr_result (queueOutputLine l w t) = pr_result t"
  "pr_result (retireAbsentOwnedProcessGroups ob t) = pr_result t" "pr_result (settle_observation v t) = pr_result t"
  "pr_result (output_failed c ob e t) = pr_result t" "pr_result (reader_failed c ob p e t) = pr_result t"
  "pr_result (retire_checked c ob t) = pr_result t" "pr_result (commit_failed c ob e t) = pr_result t"
  by (cases p; simp add: signal_defs runner_defs set_state_def reader_failed_def)+

lemma settlement_result [simp]:
  "pr_result (startEpisodeProcessSettlement c ob t) = pr_result t" "pr_result (poll_settlement c ob t) = pr_result t"
  "pr_result (register_group c ob r t) = pr_result t" "pr_result (consume_line c ob p l t) = pr_result t"
  by (simp_all add: startEpisodeProcessSettlement_def Let_def poll_settlement_def register_group_def consume_line_def
      split: option.split settlement.split sum.split)

lemma line_done_result: "pr_result s = None \<Longrightarrow> pr_result (line_done c ob e s) = None"
  by (simp add: line_done_def Let_def pop_line_def split: option.split)

lemma only_finish_settles:
  assumes "pr_result s = None" and "pr_result (handle c ob e s) \<noteq> None"
  shows "e = Force_fires \<or> e = Close_finish"
proof (rule ccontr)
  assume "\<not> ?thesis"
  then have "pr_result (handle c ob e s) = None"
    using assms(1) by (cases e) (simp_all add: callback_done_def release_written_def child_error_def next_line_def Let_def
        line_done_result timeout_fires_def kill_fires_def abort_run_def disk_tick_def disk_done_def promise_settles_def
        parent_exit_def split: option.split list.split sum.split)
  then show False using assms(2) by simp
qed

lemma finish_completed:
  assumes "pr_result (finish_run c ob code sig t) = Some (r, n)" and "pr_result t = None" and "pe_stop_reason r = Stop_completed"
  shows "code = Some 0 \<and> pr_output_error t = None \<and> \<not> flagged t \<and> n = length (pr_queue t)"
  using assms by (auto simp: finish_run_def process_result_of_def stop_reason_def flagged_def split: if_splits)

lemma completed_by_close:
  assumes "pr_result s = None" and "pr_result (handle c ob e s) = Some (r, n)" and "pe_stop_reason r = Stop_completed"
    and "enabled now e s"
  shows "consumers_settled s \<and> (\<exists>sig. pr_close s = Some (Some 0, sig)) \<and> pr_settle s = Settle_done True \<and>
    pr_output_error s = None \<and> \<not> flagged s \<and> n = length (pr_queue s)"
proof -
  consider "e = Force_fires" | "e = Close_finish" using only_finish_settles[of s c ob e] assms(1,2) by auto
  then show ?thesis
  proof cases
    case 1
    define t where "t = (if groups_absent c ob (s\<lparr>pr_force_at := None\<rparr>) then retire_checked c ob (s\<lparr>pr_force_at := None\<rparr>)
      else note_error (PlainError ''episode-owned processes did not settle after forced termination'')
        (retire_checked c ob (s\<lparr>pr_force_at := None\<rparr>)))"
    have "\<not> pr_closed s" using 1 assms(1,2) by (cases "pr_closed s") (simp_all add: force_fires_def)
    then have "pr_result (finish_run c ob None (pr_last_signal t) t) = Some (r, n)"
      using 1 assms(2) unfolding t_def by (simp add: force_fires_def Let_def)
    moreover have "pr_result t = None" using assms(1) by (simp add: t_def)
    ultimately show ?thesis using finish_completed assms(3) by blast
  next
    case 2
    then obtain b code sig where ends: "pr_settle s = Settle_done b" "pr_close s = Some (code, sig)" "consumers_settled s"
      using assms(4) by (auto split: settlement.splits)
    have res: "pr_result (close_finish c ob b code sig s) = Some (r, n)" using 2 assms(2) ends by simp
    have b
    proof (rule ccontr)
      assume "\<not> b"
      then have "pr_result (finish_run c ob None None
          (note_error (PlainError ''episode-owned processes remained after forced settlement'') s)) = Some (r, n)"
        using res by (simp add: close_finish_def)
      from finish_completed[OF this _ assms(3)] show False using assms(1) by simp
    qed
    then have "pr_result (finish_run c ob code sig s) = Some (r, n)" using res by (simp add: close_finish_def)
    from finish_completed[OF this assms(1,3)] show ?thesis using ends \<open>b\<close> by simp
  qed
qed

text \<open>The polls of the settlement at a moment behind its deadlines.\<close>

lemma settle_frame:
  "pr_exited (startEpisodeProcessSettlement c ob s) = pr_exited s" "pr_close (startEpisodeProcessSettlement c ob s) = pr_close s"
  "pr_stdout (startEpisodeProcessSettlement c ob s) = pr_stdout s" "pr_stderr (startEpisodeProcessSettlement c ob s) = pr_stderr s"
  "pr_now (startEpisodeProcessSettlement c ob s) = pr_now s"
  "pr_exited (poll_settlement c ob s) = pr_exited s" "pr_close (poll_settlement c ob s) = pr_close s"
  "pr_stdout (poll_settlement c ob s) = pr_stdout s" "pr_stderr (poll_settlement c ob s) = pr_stderr s"
  "pr_now (poll_settlement c ob s) = pr_now s"
  by (simp_all add: startEpisodeProcessSettlement_def poll_settlement_def Let_def retire_checked_def retireAbsentOwnedProcessGroups_def
      signal_defs split: option.split settlement.split)

lemma settle_started: "pr_settle (startEpisodeProcessSettlement c ob s) =
    (if pr_settle s \<noteq> Settle_none then pr_settle s else if groups_absent c ob s then Settle_done True
     else Settle_term (nullish (pr_terminating s) (ob_now ob) + kill_grace c))"
  by (simp add: startEpisodeProcessSettlement_def Let_def split: option.split)

lemma settle_polled:
  "pr_settle s = Settle_term t \<Longrightarrow> t \<le> ob_now ob \<Longrightarrow> pr_settle (poll_settlement c ob s) \<in> {Settle_done True, Settle_kill (t + force_grace c)}"
  "pr_settle s = Settle_kill t \<Longrightarrow> t \<le> ob_now ob \<Longrightarrow> \<exists>b. pr_settle (poll_settlement c ob s) = Settle_done b"
  "pr_settle s = Settle_done b \<Longrightarrow> pr_settle (poll_settlement c ob s) = Settle_done b"
  by (auto simp: poll_settlement_def)

lemma settle_twice:
  assumes "pr_settle s \<noteq> Settle_none" and "\<And>t. pr_settle s = Settle_term t \<Longrightarrow> t \<le> ob_now ob \<and> t + force_grace c \<le> ob_now ob"
    and "\<And>t. pr_settle s = Settle_kill t \<Longrightarrow> t \<le> ob_now ob"
  shows "\<exists>b. pr_settle (poll_settlement c ob (poll_settlement c ob s)) = Settle_done b"
proof (cases "pr_settle s")
  case (Settle_term t)
  then show ?thesis using assms(2)[OF Settle_term] settle_polled(1)[OF Settle_term, of ob c] settle_polled(2,3)
    by fastforce
next
  case (Settle_kill t)
  then show ?thesis using assms(3)[OF Settle_kill] settle_polled(2)[OF Settle_kill, of ob c] settle_polled(3) by blast
next
  case (Settle_done b)
  then show ?thesis using settle_polled(3) by blast
qed (use assms(1) in simp)

lemma failed_kills:
  "(t, SIGKILL, g) \<in> set (pr_signals (output_failed c ob e s)) \<longleftrightarrow> (t, SIGKILL, g) \<in> set (pr_signals s)"
proof -
  have "(t, SIGKILL, g) \<in> set (pr_signals (startGracefulTermination c ob u)) \<longleftrightarrow> (t, SIGKILL, g) \<in> set (pr_signals u)" for u
    by (cases "pr_terminating u") (auto simp: startGracefulTermination_def signal_defs)
  moreover have "pr_signals (note_error e u) = pr_signals u" for u by (simp add: note_error_def)
  ultimately show ?thesis by (simp add: output_failed_def)
qed

lemma failed_fields:
  "pr_settle (output_failed c ob e s) = pr_settle s" "pr_close (output_failed c ob e s) = pr_close s"
  "pr_exited (output_failed c ob e s) = pr_exited s" "pr_now (output_failed c ob e s) = pr_now s"
  "pr_owned (output_failed c ob e s) = pr_owned s"
  by (simp_all add: output_failed_def startGracefulTermination_def note_error_def signal_defs)

lemma step_now:
  assumes "\<not> pr_exited s" and "pr_now s = ob_now ob" and "enabled (ob_now ob) e s"
  shows "runner_step c ob e s = Some (handle c ob e s)"
proof -
  have same: "s\<lparr>pr_now := ob_now ob\<rparr> = s" using assms(2) by (cases s) simp
  have "runner_step c ob e s = Some (handle c ob e (s\<lparr>pr_now := ob_now ob\<rparr>))" using assms by (simp add: runner_step_def)
  then show ?thesis unfolding same .
qed

section \<open>Properties\<close>

text \<open>
  C17: No output before the owner's commit. In every reachable state, if a line of the child was given to its
  consumer then the owner had recorded the spawn and the frame that releases the child had been written (or the
  spawn itself failed and the run reports that); and the lines given are, in order and without a gap, the
  first of the lines that were read.
\<close>

theorem owner_commit_precedes_output:
  assumes "runner_reaches c s"
  shows "(pr_delivered s \<noteq> [] \<longrightarrow> pr_commit s = Commit_released \<or> pr_spawn_error s \<noteq> None) \<and>
    (\<exists>rest. pr_queued s = pr_delivered s @ rest)"
  using reaches_lines_ok[OF assms] unfolding lines_ok_def committed_def by blast

text \<open>
  SIGKILL follows SIGTERM. While the owner itself lives, every SIGKILL that a run sends, to the child's group or to
  a group that the child announced, was preceded by a SIGTERM to the child's group, and the configured grace
  period has passed in between.
\<close>

theorem kill_follows_grace:
  assumes "runner_reaches c s" and "\<not> pr_exited s" and "(t, SIGKILL, g) \<in> set (pr_signals s)"
  shows "\<exists>p t0. pc_pid c = Some p \<and> (t0, SIGTERM, p) \<in> set (pr_signals s) \<and> t0 + kill_grace c \<le> t"
  using reaches_signals_ok[OF assms(1)] assms(2,3) by (fastforce simp: signals_ok_def graced_def)

text \<open>
  C18: A run that completed lost nothing. The step that settles a run as completed happens only when the child closed with exit
  code 0 and its groups were found gone, both of its pipes were read to the end, and every line read was
  given to the consumer and accepted; no timeout, cancellation, disk shortage or spawn error was seen.
\<close>

theorem completed_run_is_complete:
  assumes "runner_reaches c s" and "runner_step c ob e s = Some s'" and "pr_result s = None"
    and "pr_result s' = Some (r, n)" and "pe_stop_reason r = Stop_completed"
  shows "(\<exists>sig. pr_close s = Some (Some 0, sig)) \<and> pr_settle s = Settle_done True \<and>
    rd_state (pr_stdout s) = Ended \<and> rd_state (pr_stderr s) = Ended \<and> pr_queue s = [] \<and> n = 0 \<and>
    pr_delivered s = pr_queued s \<and> pr_output_error s = None \<and> \<not> flagged s"
proof -
  let ?s = "s\<lparr>pr_now := ob_now ob\<rparr>"
  have s': "s' = handle c ob e ?s" and en: "enabled (ob_now ob) e ?s" using assms(2) by (simp_all add: runner_step_iff)
  have "consumers_settled ?s \<and> (\<exists>sig. pr_close ?s = Some (Some 0, sig)) \<and> pr_settle ?s = Settle_done True \<and>
    pr_output_error ?s = None \<and> \<not> flagged ?s \<and> n = length (pr_queue ?s)"
    by (rule completed_by_close[OF _ _ assms(5) en]) (use assms(3,4) s' in simp_all)
  then have close: "consumers_settled s" "\<exists>sig. pr_close s = Some (Some 0, sig)" "pr_settle s = Settle_done True"
    and clean: "pr_output_error s = None" "\<not> flagged s" and n: "n = length (pr_queue s)"
    by (simp_all add: consumers_settled_def flagged_def)
  have out: "output_ok s" and lines: "lines_ok s" using assms(1) reaches_output_ok reaches_lines_ok by blast+
  have ended: "rd_state (pr_stdout s) = Ended" "rd_state (pr_stderr s) = Ended"
    using close(1) out clean(1) by (auto simp: consumers_settled_def output_ok_def reader_ok_def)
  then have "waiting_lines Stdout s = 0" "waiting_lines Stderr s = 0" "None \<notin> snd ` set (pr_queue s)"
    using out clean(2) by (auto simp: output_ok_def reader_ok_def)
  then have "snd x \<notin> {None, Some Stdout, Some Stderr}" if "x \<in> set (pr_queue s)" for x
    using that by (force simp: waiting_lines_def filter_empty_conv)
  then have queue: "pr_queue s = []"
  proof (cases "pr_queue s")
    case (Cons x xs)
    moreover have "snd x = None \<or> snd x = Some Stdout \<or> snd x = Some Stderr" by (metis not_None_eq pipe.exhaust)
    ultimately show ?thesis using \<open>\<And>x. x \<in> set (pr_queue s) \<Longrightarrow> snd x \<notin> {None, Some Stdout, Some Stderr}\<close>[of x] by auto
  qed simp
  moreover have "pr_delivered s = pr_queued s"
    using lines queue out clean(1) by (auto simp: lines_ok_def output_ok_def)
  ultimately show ?thesis using close clean ended n by simp
qed




end
