(* ===== verification/Supervision_Runs.thy ===== *)
theory Supervision_Runs
  imports Child_Supervision
begin

text \<open>Concrete runs of a supervised child, at which the properties of \<open>Child_Supervision\<close> are applied.\<close>

definition group_id :: string where
  "group_id = replicate 32 CHR ''a''"

definition group_registration :: registration where
  "group_registration = \<lparr>rg_id = group_id, rg_group = 7\<rparr>"

definition frame_number :: "rat \<Rightarrow> string" where
  "frame_number n = ''1''"

definition release_line :: string where
  "release_line = json_text frame_number owner_release_value"

definition ack_line :: string where
  "ack_line = json_text frame_number (ack_value group_id)"

definition frame_parse :: "string \<Rightarrow> json option" where
  "frame_parse l = (if l = ''group'' then Some (registration_value group_registration)
     else if l = release_line then Some owner_release_value else if l = ack_line then Some (ack_value group_id) else None)"

definition run_config :: runner_config where
  "run_config = \<lparr>pc_windows = False, pc_pid = Some 5,
     pc_budget = \<lparr>tb_requested = None, tb_resolved = None, tb_min_requested = 0, tb_effective = None, tb_headroom = 0,
       tb_kill_grace = 1000, tb_force_grace = 1000\<rparr>,
     pc_reserve = None, pc_runtime = \<lparr>rt_num = frame_number, rt_sha256 = id, rt_date = (\<lambda>_. None), rt_json_parse = frame_parse\<rparr>,
     pc_started = 0\<rparr>"

definition seen :: "int \<Rightarrow> bool \<Rightarrow> observation" where
  "seen t writable = \<lparr>ob_now = t, ob_alive = (\<lambda>g. g = 7), ob_writable = writable\<rparr>"

definition launch :: "(observation \<times> runner_event) list" where
  "launch = map (Pair (seen 0 True)) [Spawned, Callback_done None, Release_written None]"

definition quiet_run :: "(observation \<times> runner_event) list" where
  "quiet_run = launch @ map (Pair (seen 1 True)) [Chunk Stdout ''hi'', Pipe_end Stdout, Pipe_end Stderr, Next_line Stdout, Line_called,
     Line_done None, Next_line Stdout, Next_line Stderr, Child_exit, Child_close (Some 0) None]"

definition state_after :: "(observation \<times> runner_event) list \<Rightarrow> runner" where
  "state_after es = the (run_events run_config es (fresh_runner run_config))"

lemma state_after_reached: "run_events run_config es (fresh_runner run_config) \<noteq> None \<Longrightarrow> runner_reaches run_config (state_after es)"
  unfolding state_after_def using run_events_reaches[OF runner_reaches.start] by fastforce

definition ran :: "(observation \<times> runner_event) list \<Rightarrow> (runner \<Rightarrow> bool) \<Rightarrow> bool" where
  "ran es P = (case run_events run_config es (fresh_runner run_config) of None \<Rightarrow> False | Some s \<Rightarrow> P s)"

lemma ran_reached: "ran es P \<Longrightarrow> runner_reaches run_config (state_after es) \<and> P (state_after es)"
  unfolding ran_def state_after_def
  by (cases "run_events run_config es (fresh_runner run_config)") (auto intro: run_events_reaches[OF runner_reaches.start])

text \<open>A child that prints one line and ends.\<close>

lemma quiet_run_ends: "ran quiet_run (\<lambda>s. pr_delivered s = [''hi''] \<and> Option.is_none (pr_spawn_error s) \<and> Option.is_none (pr_result s) \<and>
     (case runner_step run_config (seen 1 True) Close_finish s of None \<Rightarrow> False
      | Some t \<Rightarrow> (case pr_result t of Some (r, n) \<Rightarrow> pe_stop_reason r = Stop_completed | None \<Rightarrow> False)))"
  by code_simp

theorem owner_commit_precedes_output_witness:
  "pr_delivered (state_after quiet_run) = [''hi''] \<and> pr_commit (state_after quiet_run) = Commit_released"
  using ran_reached[OF quiet_run_ends] owner_commit_precedes_output[of run_config "state_after quiet_run"]
  by (auto simp: Option.is_none_def)

theorem completed_run_is_complete_witness:
  "pr_queue (state_after quiet_run) = [] \<and> pr_delivered (state_after quiet_run) = pr_queued (state_after quiet_run)"
proof -
  let ?s = "state_after quiet_run"
  have s: "runner_reaches run_config ?s" "pr_result ?s = None" "case runner_step run_config (seen 1 True) Close_finish ?s of None \<Rightarrow> False
      | Some t \<Rightarrow> (case pr_result t of Some (r, n) \<Rightarrow> pe_stop_reason r = Stop_completed | None \<Rightarrow> False)"
    using ran_reached[OF quiet_run_ends] by (simp_all add: Option.is_none_def)
  then obtain t r n where "runner_step run_config (seen 1 True) Close_finish ?s = Some t" "pr_result t = Some (r, n)"
    "pe_stop_reason r = Stop_completed" by (auto split: option.splits)
  from completed_run_is_complete[OF s(1) this(1) s(2) this(2,3)] show ?thesis by blast
qed

text \<open>A child that does not react to the cancellation of its run.\<close>

definition stubborn_run :: "(observation \<times> runner_event) list" where
  "stubborn_run = launch @ [(seen 10 True, Aborted)]"

lemma stubborn_run_killed:
  "ran stubborn_run (\<lambda>s. pr_terminating s = Some 10 \<and> Option.is_none (pr_result s) \<and> \<not> pr_exited s \<and> Option.is_none (pr_close s) \<and>
     pr_now s = 10)"
  "ran (stubborn_run @ [(seen 1010 True, Kill_fires)]) (\<lambda>s. \<not> pr_exited s \<and> pr_signals s = [(10, SIGTERM, 5), (1010, SIGKILL, 5)])"
  by code_simp+


theorem kill_follows_grace_witness:
  "\<exists>t0. (t0, SIGTERM, 5) \<in> set (pr_signals (state_after (stubborn_run @ [(seen 1010 True, Kill_fires)]))) \<and> t0 + 1000 \<le> (1010 :: int)"
  using ran_reached[OF stubborn_run_killed(2)]
    kill_follows_grace[of run_config "state_after (stubborn_run @ [(seen 1010 True, Kill_fires)])" 1010 5]
  by (auto simp: run_config_def)

text \<open>A child that exits before its announcement of a process group is read.\<close>

definition late_run :: "(observation \<times> runner_event) list" where
  "late_run = launch @ [(seen 5 True, Chunk Stdout (''group'' @ [CHR 0x0A])), (seen 6 False, Child_exit)]"

definition group_read :: "runner \<Rightarrow> bool" where
  "group_read s \<longleftrightarrow> pr_settle s = Settle_done True \<and> rd_state (pr_stdout s) = Reading \<and> rd_lines (pr_stdout s) = [''group''] \<and>
     pr_registered s = [] \<and> Option.is_none (pr_result s) \<and> Option.is_none (pr_close s) \<and> \<not> pr_exited s \<and>
     Option.is_none (pr_terminating s) \<and> rd_state (pr_stderr s) = Reading \<and> pr_now s = 6 \<and> pr_signals s = []"

lemma late_run_reads: "ran late_run group_read"
  by code_simp

lemma group_parses: "parseEpisodeProcessGroupRegistration (pc_runtime run_config) ''group'' = Inr (Some group_registration)"
proof -
  have "hex_string 32 group_id" by code_simp
  then show ?thesis
    by (simp add: parseEpisodeProcessGroupRegistration_def run_config_def frame_parse_def registration_value_def group_registration_def
        has_text_def is_object_def valid_registration_def exact_keys_def jkeys_def registration_id_ok_def js_is_safe_integer_def
        js_max_safe_integer_def episode_registered_def)
qed


text \<open>A child that announces a process group, with both ends of its channel.\<close>

definition group_run :: "(observation \<times> runner_event) list" where
  "group_run = launch @ map (Pair (seen 5 True)) [Chunk Stdout (''group'' @ [CHR 0x0A]), Next_line Stdout]"

definition group_child :: "child_event list" where
  "group_child = [Line_in release_line, Register group_registration, Line_in ack_line]"

lemma group_run_frames: "ran group_run (\<lambda>s. pr_frames s = [release_line @ newline, ack_line @ newline] \<and> pr_registered s = [(group_id, 7)])"
proof -
  have "split_lines (''group'' @ [CHR 0x0A]) = [''group'', []]" "registration_id_ok group_id" by code_simp+
  then show ?thesis using group_parses
    by (simp add: ran_def group_run_def launch_def runner_step_def seen_def fresh_runner_def fresh_reader_def run_config_def
        callback_done_def release_written_def settle_observation_def read_chunk_def next_line_def consume_line_def register_group_def
        group_registration_def retireAbsentOwnedProcessGroups_def episodeProcessGroupRegistrationAckFrame_def set_state_def
        child_owner_commit_release_frame_def release_line_def ack_line_def)
qed

lemma frame_parses:
  "frame_parse release_line = Some owner_release_value" "frame_parse ack_line = Some (ack_value group_id)"
  by (simp_all add: frame_parse_def release_line_def ack_line_def owner_release_value_def ack_value_def quote_text_def
      escape_char_def episode_ack_def frame_number_def)

lemma group_child_registers:
  "cc_outcomes (child_after (pc_runtime run_config) ''run'' group_child) = [Group_registered group_id]"
proof -
  have "registration_id_ok group_id" by code_simp
  then show ?thesis
    by (simp add: child_after_def group_child_def child_line_def run_config_def frame_parses fresh_control_def
        child_owner_commit_release_frame_def release_line_def[symmetric] registerProcessGroup_def group_registration_def ack_parses)
qed


end
