(* ===== verification/Child_Lines.thy ===== *)
theory Child_Lines
  imports Request_Validation Bounded_Controller Child_Supervision Settled_Views
begin

text \<open>
  What the owner of a child reads in the child's output, \<open>src/runSubagent.ts\<close>: the session that a fresh
  run establishes, the failures the child reports with the provider's usage limits, the accepted answers, and
  the handler \<open>onOutputLine\<close> that \<open>runChildProcess\<close> calls with one line after another. The handler awaits the
  owner's callbacks; each of them may fail, and what follows it in the handler is then not run. \<open>Number\<close> of
  the language is the parameter \<open>number\<close> (\<open>None\<close> for NaN and the infinities).
\<close>

section \<open>Messages\<close>

text \<open>\<open>value.replace(/\s+/g, " ").trim()\<close>\<close>

fun collapse_spaces :: "string \<Rightarrow> string" where
  "collapse_spaces [] = []"
| "collapse_spaces (c # cs) =
     (if \<not> js_space c then c # collapse_spaces cs
      else (case cs of
          [] \<Rightarrow> '' ''
        | d # _ \<Rightarrow> if js_space d then collapse_spaces cs else CHR '' '' # collapse_spaces cs))"

definition singleLine :: "string \<Rightarrow> string" where
  "singleLine s = js_trim (collapse_spaces s)"

definition truncate :: "string \<Rightarrow> nat \<Rightarrow> string" where
  "truncate s maxLength =
     (let normalized = singleLine s in
      if length normalized \<le> maxLength then normalized else take (maxLength - 3) normalized @ ''...'')"

lemma truncate_length: "3 \<le> n \<Longrightarrow> length (truncate s n) \<le> n"
  by (cases "length (singleLine s) \<le> n") (simp_all add: truncate_def Let_def)

definition visible_request :: "input_request_view \<Rightarrow> string" where
  "visible_request r =
     view_request_id r @ '': '' @ truncate (json_string (jget (iv_request r) ''question'')) 120"

definition pendingInputHeartbeatMessage :: "input_request_view list \<Rightarrow> string option" where
  "pendingInputHeartbeatMessage requests =
     (if requests = [] then None
      else (let visible = map visible_request (take 3 requests); remaining = length requests - length visible;
          suffix = (if 0 < remaining then ''; +'' @ decimal_text remaining @ '' more'' else []);
          label = (if length requests = 1 then ''pending input request''
            else ''pending input requests ('' @ decimal_text (length requests) @ '')'')
        in Some (label @ '': '' @ join_with ''; '' visible @ suffix @ '' (answer with answer_run_input)'')))"

section \<open>Events of the child\<close>

text \<open>The lines of the session event: \<open>line.split(/\r?\n/)\<close>, each trimmed.\<close>

definition session_of_line :: "js_runtime \<Rightarrow> string \<Rightarrow> string option" where
  "session_of_line rt line =
     (let trimmed = js_trim line in
      if \<not> starts_with ''{'' trimmed then None
      else (case rt_json_parse rt trimmed of
          None \<Rightarrow> None
        | Some e \<Rightarrow> if has_text e ''type'' ''subagent007.session'' then text_of (jget e ''session_id'') else None))"

fun first_session :: "js_runtime \<Rightarrow> string list \<Rightarrow> string option" where
  "first_session rt [] = None"
| "first_session rt (l # ls) = (case session_of_line rt l of None \<Rightarrow> first_session rt ls | Some i \<Rightarrow> Some i)"

definition extractSubagentSessionId :: "js_runtime \<Rightarrow> string \<Rightarrow> string option" where
  "extractSubagentSessionId rt output = first_session rt (split_lines output)"

record response_accepted =
  ra_run_id :: string
  ra_request_id :: string
  ra_response_id :: string

definition inputResponseAcceptedFromLine :: "js_runtime \<Rightarrow> string \<Rightarrow> response_accepted option" where
  "inputResponseAcceptedFromLine rt line =
     (case event_of_line rt ''subagent007.input_response_accepted'' line of
        None \<Rightarrow> None
      | Some e \<Rightarrow>
          (case (text_of (jget e ''run_id''), text_of (jget e ''request_id''), text_of (jget e ''response_id'')) of
             (Some r, Some q, Some p) \<Rightarrow> Some \<lparr>ra_run_id = r, ra_request_id = q, ra_response_id = p\<rparr>
           | _ \<Rightarrow> None))"

section \<open>Failures the child reports\<close>

definition asRecord :: "json option \<Rightarrow> json option" where
  "asRecord v = (case v of Some (JObj kvs) \<Rightarrow> Some (JObj kvs) | Some (JArr vs) \<Rightarrow> Some (JArr vs) | _ \<Rightarrow> None)"

definition field_of :: "json option \<Rightarrow> string \<Rightarrow> json option" where
  "field_of v k = Option.bind v (\<lambda>r. jget r k)"

definition numberFromUnknown :: "(string \<Rightarrow> rat option) \<Rightarrow> json option \<Rightarrow> rat option" where
  "numberFromUnknown number v =
     (case v of Some (JNum x) \<Rightarrow> Some x | Some (JStr s) \<Rightarrow> if blank s then None else number s | _ \<Rightarrow> None)"

definition stringFromUnknown :: "json option \<Rightarrow> string option" where
  "stringFromUnknown v = (case v of Some (JStr s) \<Rightarrow> if blank s then None else Some (js_trim s) | _ \<Rightarrow> None)"

definition headerValue :: "json option \<Rightarrow> string \<Rightarrow> json option" where
  "headerValue headers name =
     (case headers of
        None \<Rightarrow> None
      | Some h \<Rightarrow> map_option snd (find (\<lambda>(k, _). map ascii_lower k = map ascii_lower name) (fields_of h)))"

definition number_field :: "string \<Rightarrow> rat option \<Rightarrow> (string \<times> json) list" where
  "number_field k x = Json_Objects.opt_field k (map_option JNum x)"

definition string_field :: "string \<Rightarrow> string option \<Rightarrow> (string \<times> json) list" where
  "string_field k x = Json_Objects.opt_field k (map_option JStr x)"

definition usageLimitMetadataFromErrorEvent :: "(string \<Rightarrow> rat option) \<Rightarrow> json option \<Rightarrow> (string \<times> json) list" where
  "usageLimitMetadataFromErrorEvent number event =
     (let providerError = asRecord (field_of event ''error'');
          headers = (case asRecord (field_of event ''headers'') of
             Some h \<Rightarrow> Some h | None \<Rightarrow> asRecord (field_of providerError ''headers''));
          plan = (case stringFromUnknown (field_of providerError ''plan_type'') of
             Some p \<Rightarrow> Some p | None \<Rightarrow> stringFromUnknown (headerValue headers ''X-Codex-Plan-Type''));
          from_error = (\<lambda>k. numberFromUnknown number (field_of providerError k));
          from_header = (\<lambda>k. numberFromUnknown number (headerValue headers k))
      in [(''provider_error_type'',
            JStr (nullish (stringFromUnknown (field_of providerError ''type'')) ''usage_limit_reached''))] @
         number_field ''provider_status_code'' (numberFromUnknown number (field_of event ''status_code'')) @
         string_field ''provider_error_message'' (stringFromUnknown (field_of providerError ''message'')) @
         string_field ''usage_limit_plan_type'' plan @
         number_field ''usage_limit_resets_at'' (from_error ''resets_at'') @
         number_field ''usage_limit_resets_in_seconds'' (from_error ''resets_in_seconds'') @
         number_field ''usage_limit_retry_after_seconds'' (from_header ''Retry-After'') @
         number_field ''usage_limit_primary_used_percent'' (from_header ''X-Codex-Primary-Used-Percent'') @
         number_field ''usage_limit_secondary_used_percent'' (from_header ''X-Codex-Secondary-Used-Percent'') @
         number_field ''usage_limit_primary_reset_after_seconds'' (from_header ''X-Codex-Primary-Reset-After-Seconds'') @
         number_field ''usage_limit_secondary_reset_after_seconds'' (from_header ''X-Codex-Secondary-Reset-After-Seconds''))"

definition error_tag :: string where
  "error_tag = ''[subagent007 error]''"

definition parseSubagentErrorEvent :: "js_runtime \<Rightarrow> string \<Rightarrow> json option" where
  "parseSubagentErrorEvent rt line =
     (if \<not> contains_sub error_tag line \<and> \<not> contains_sub ''\"type\":\"subagent007.error\"'' line then None
      else (case dropWhile (\<lambda>c. c \<noteq> CHR ''{'') line of
          [] \<Rightarrow> None
        | js \<Rightarrow>
            (let event = asRecord (rt_json_parse rt js) in
             if field_of event ''type'' = Some (JStr ''subagent007.error'') \<or> contains_sub error_tag line then event
             else None)))"

record child_failure =
  cf_reason :: "failure_reason_code option"
  cf_usage :: "(string \<times> json) list option"

definition no_failure :: child_failure where
  "no_failure = \<lparr>cf_reason = None, cf_usage = None\<rparr>"

definition activation_reasons :: "(string \<times> failure_reason_code) list" where
  "activation_reasons =
     [(''effect_profile_activation_failed'', Rc_effect_profile_activation_failed),
      (''skill_content_mismatch'', Rc_skill_content_mismatch),
      (''system_skill_activation_failed'', Rc_system_skill_activation_failed)]"

definition childFailureMetadataFromLine :: "js_runtime \<Rightarrow> (string \<Rightarrow> rat option) \<Rightarrow> string \<Rightarrow> child_failure" where
  "childFailureMetadataFromLine rt number line =
     (let event = parseSubagentErrorEvent rt line in
      case Option.bind (text_of (field_of event ''reason_code'')) (map_of activation_reasons) of
        Some rc \<Rightarrow> \<lparr>cf_reason = Some rc, cf_usage = None\<rparr>
      | None \<Rightarrow>
          if field_of (asRecord (field_of event ''error'')) ''type'' = Some (JStr ''usage_limit_reached'')
          then \<lparr>cf_reason = Some Rc_usage_limit_reached, cf_usage = Some (usageLimitMetadataFromErrorEvent number event)\<rparr>
          else if contains_sub ''\"type\":\"usage_limit_reached\"'' line
          then \<lparr>cf_reason = Some Rc_usage_limit_reached, cf_usage = None\<rparr>
          else no_failure)"

section \<open>The handler of a line\<close>

text \<open>What \<open>runSubagentCore\<close> has resolved before the launch, as far as its later parts read it.\<close>

record run_context =
  rc_runtime :: js_runtime
  rc_number :: "string \<Rightarrow> rat option"
  rc_run_id :: string
  rc_request :: resolved_request
  rc_requested :: "recursive_delegation option"
  rc_resolved :: recursive_delegation
  rc_skill_binding :: json
  rc_tool_bindings :: "json list option"
  rc_scope :: "json option"
  rc_snapshot_receipt :: "json option"
  rc_system_skill :: "resolved_system_skill option"
  rc_budget :: timeout_budget
  rc_allow_timeout :: bool
  rc_skill_path :: "string option"
  rc_skill_sha :: "string option"
  rc_inputs_dir :: string

definition receipt_expected :: "run_context \<Rightarrow> receipt_expectation" where
  "receipt_expected x =
     \<lparr>re_profile = rq_effect_profile (rc_request x), re_skill_binding = rc_skill_binding x,
      re_expected_skill_sha256 = rq_expected_sha (rc_request x), re_tool_bindings = rc_tool_bindings x,
      re_effect_scope_binding = rc_scope x\<rparr>"

text \<open>The calls of the handler to the transcript and to the owner, in their order. \<open>fails\<close> tells how a
  call ends, from the calls made so far; an absent callback is one that succeeds.\<close>

datatype line_call =
    Transcript_line string
  | Activation_confirmed json
  | Snapshot_confirmed json
  | Delegation_confirmed json
  | System_skill_confirmed json
  | Response_accepted response_accepted
  | Output_line string

type_synonym call_outcomes = "line_call list \<Rightarrow> line_call \<Rightarrow> js_error option"

record line_state =
  ls_session :: "string option"
  ls_failure :: child_failure
  ls_activation :: "json option"
  ls_snapshot :: "json option"
  ls_delegation :: "json option"
  ls_system :: "json option"
  ls_calls :: "line_call list"

definition no_lines :: line_state where
  "no_lines = \<lparr>ls_session = None, ls_failure = no_failure, ls_activation = None, ls_snapshot = None,
     ls_delegation = None, ls_system = None, ls_calls = []\<rparr>"

type_synonym line_result = "line_state \<times> js_error option"

definition await_call :: "call_outcomes \<Rightarrow> line_call \<Rightarrow> line_state \<Rightarrow> line_result" where
  "await_call fails c s = (s\<lparr>ls_calls := ls_calls s @ [c]\<rparr>, fails (ls_calls s) c)"

definition and_then :: "line_result \<Rightarrow> (line_state \<Rightarrow> line_result) \<Rightarrow> line_result" where
  "and_then r f = (case r of (s, None) \<Rightarrow> f s | (s, Some e) \<Rightarrow> (s, Some e))"

text \<open>\<open>if (!receipt \&\& lineReceipt) { receipt = lineReceipt; await confirmed(lineReceipt); }\<close>, for each of
  the four receipts.\<close>

definition take_activation :: "call_outcomes \<Rightarrow> json option \<Rightarrow> line_state \<Rightarrow> line_result" where
  "take_activation fails r s =
     (case (ls_activation s, r) of
        (None, Some v) \<Rightarrow> await_call fails (Activation_confirmed v) (s\<lparr>ls_activation := Some v\<rparr>) | _ \<Rightarrow> (s, None))"

definition take_snapshot :: "call_outcomes \<Rightarrow> json option \<Rightarrow> line_state \<Rightarrow> line_result" where
  "take_snapshot fails r s =
     (case (ls_snapshot s, r) of
        (None, Some v) \<Rightarrow> await_call fails (Snapshot_confirmed v) (s\<lparr>ls_snapshot := Some v\<rparr>) | _ \<Rightarrow> (s, None))"

definition take_delegation :: "call_outcomes \<Rightarrow> json option \<Rightarrow> line_state \<Rightarrow> line_result" where
  "take_delegation fails r s =
     (case (ls_delegation s, r) of
        (None, Some v) \<Rightarrow> await_call fails (Delegation_confirmed v) (s\<lparr>ls_delegation := Some v\<rparr>) | _ \<Rightarrow> (s, None))"

definition take_system_skill :: "call_outcomes \<Rightarrow> json option \<Rightarrow> line_state \<Rightarrow> line_result" where
  "take_system_skill fails r s =
     (case (ls_system s, r) of
        (None, Some v) \<Rightarrow> await_call fails (System_skill_confirmed v) (s\<lparr>ls_system := Some v\<rparr>) | _ \<Rightarrow> (s, None))"

definition note_failure :: "child_failure \<Rightarrow> line_state \<Rightarrow> line_state" where
  "note_failure f s = (if cf_reason f \<noteq> None \<or> cf_usage f \<noteq> None then s\<lparr>ls_failure := f\<rparr> else s)"

definition note_session :: "run_context \<Rightarrow> string \<Rightarrow> line_state \<Rightarrow> line_state" where
  "note_session x line s =
     s\<lparr>ls_session := (case ls_session s of Some i \<Rightarrow> Some i | None \<Rightarrow> extractSubagentSessionId (rc_runtime x) line)\<rparr>"

definition take_response :: "call_outcomes \<Rightarrow> run_context \<Rightarrow> string \<Rightarrow> line_state \<Rightarrow> line_result" where
  "take_response fails x line s =
     (case inputResponseAcceptedFromLine (rc_runtime x) line of
        Some a \<Rightarrow> if ra_run_id a = rc_run_id x then await_call fails (Response_accepted a) s else (s, None)
      | None \<Rightarrow> (s, None))"

definition line_activation :: "run_context \<Rightarrow> string \<Rightarrow> json option" where
  "line_activation x line = activationReceiptFromLine (rc_runtime x) line (receipt_expected x)"

definition line_snapshot :: "run_context \<Rightarrow> string \<Rightarrow> json option" where
  "line_snapshot x line =
     skillSnapshotActivationReceiptFromLine (rc_runtime x) line (rc_snapshot_receipt x) (rq_snapshot (rc_request x))"

definition line_delegation :: "run_context \<Rightarrow> string \<Rightarrow> json option" where
  "line_delegation x line = recursiveDelegationReceiptFromLine (rc_runtime x) line (rc_requested x) (rc_resolved x)"

definition line_system_skill :: "run_context \<Rightarrow> string \<Rightarrow> json option" where
  "line_system_skill x line = systemSkillActivationReceiptFromLine (rc_runtime x) line (rc_system_skill x)"

definition on_output_line :: "run_context \<Rightarrow> call_outcomes \<Rightarrow> string \<Rightarrow> line_state \<Rightarrow> line_result" where
  "on_output_line x fails line s0 =
     and_then (await_call fails (Transcript_line line) s0) (\<lambda>s1.
     and_then (take_activation fails (line_activation x line) (note_session x line s1)) (\<lambda>s2.
     and_then (take_snapshot fails (line_snapshot x line) s2) (\<lambda>s3.
     and_then (take_delegation fails (line_delegation x line) s3) (\<lambda>s4.
     and_then (take_system_skill fails (line_system_skill x line) s4) (\<lambda>s5.
     and_then (take_response fails x line (note_failure (childFailureMetadataFromLine (rc_runtime x) (rc_number x) line) s5)) (\<lambda>s6.
     await_call fails (Output_line line) s6))))))"

text \<open>A failed line does not keep the next one from the handler (\<open>outputChain = operation.catch(...)\<close>).\<close>

fun on_output_lines :: "run_context \<Rightarrow> call_outcomes \<Rightarrow> string list \<Rightarrow> line_state \<Rightarrow> line_state" where
  "on_output_lines x fails [] s = s"
| "on_output_lines x fails (l # ls) s = on_output_lines x fails ls (fst (on_output_line x fails l s))"

end
