(* ===== verification/Run_Subagent.thy ===== *)
theory Run_Subagent
  imports Child_Lines Recursive_Control
begin

text \<open>
  The end of a run, the second half of \<open>runSubagentCore\<close> in \<open>src/runSubagent.ts\<close>: the reinspection of the
  authoring scope, the completion of the bounded researcher, the choice and publication of the outputs, the
  classification of the run from the result of its process and the lines of its child, the result object that the
  run record is made from, and the last check of its terminal projection. The answers of the operations that
  touch the disk (modelled in \<open>Effect_Scope\<close>, \<open>Bounded_Controller\<close>, \<open>Run_Output\<close> and \<open>Run_Stream\<close>) are values.
\<close>

section \<open>What the world answers\<close>

record stored_output =
  so_reference :: run_output_reference
  so_flags :: content_flags

record ending_world =
  ew_inspection :: "unit result"
  ew_snapshot_again :: "json option result"
  ew_materialized :: "terminal_product option"
  ew_final_message :: "string option result"
  ew_prepared_primary :: "pending_file result"
  ew_prepared_packet :: "pending_file result"
  ew_ownership :: "js_error option option"
  ew_published_primary :: "stored_output result"
  ew_published_packet :: "stored_output result"
  ew_written :: "stored_output result"
  ew_finalized :: "stored_output result"
  ew_discarded :: "js_error option"

text \<open>A string that JavaScript takes for true.\<close>

definition present :: "string option \<Rightarrow> bool" where
  "present s \<longleftrightarrow> s \<noteq> None \<and> s \<noteq> Some []"

section \<open>The reinspection of the authoring scope\<close>

definition scope_drift :: "js_error \<Rightarrow> js_error" where
  "scope_drift e =
     (if reason_of e = Some Rc_authoring_effect_scope_drift then e
      else ValidationError (''authoring effect scope terminal reinspection failed: '' @ message_of e)
        Rc_authoring_effect_scope_drift)"

definition snapshot_unchanged :: "run_context \<Rightarrow> json option result \<Rightarrow> unit result" where
  "snapshot_unchanged x again =
     (case rc_snapshot_receipt x of
        None \<Rightarrow> Inr ()
      | Some r \<Rightarrow>
          (case again of
             Inl e \<Rightarrow> Inl e
           | Inr t \<Rightarrow>
               if map_option (json_text (rt_num (rc_runtime x))) t = Some (json_text (rt_num (rc_runtime x)) r) then Inr ()
               else Inl (PlainError ''immutable skill snapshot identity changed before terminalization'')))"

definition terminalEffectScopeError :: "run_context \<Rightarrow> ending_world \<Rightarrow> js_error option" where
  "terminalEffectScopeError x w =
     (if rc_scope x = None then None
      else (case bind_result (ew_inspection w) (\<lambda>_. snapshot_unchanged x (ew_snapshot_again w)) of
          Inr _ \<Rightarrow> None | Inl e \<Rightarrow> Some (scope_drift e)))"

section \<open>Outputs\<close>

definition strict_activation :: "line_state \<Rightarrow> bool" where
  "strict_activation l \<longleftrightarrow>
     (case ls_activation l of None \<Rightarrow> False | Some r \<Rightarrow> jget r ''schema_version'' = Some (JNum 4))"

text \<open>\<open>boundedActivation\<close> is resolved before the launch for both bounded profiles.\<close>

definition strictResearchOutput :: "run_context \<Rightarrow> ending_world \<Rightarrow> line_state \<Rightarrow> terminal_product option" where
  "strictResearchOutput x w l =
     (if terminalEffectScopeError x w = None \<and> rq_effect_profile (rc_request x) = Some Researcher_bounded_v1 \<and>
         strict_activation l \<and> rc_scope x \<noteq> None
      then ew_materialized w else None)"

definition strict_publication :: "run_context \<Rightarrow> ending_world \<Rightarrow> terminal_product \<Rightarrow> (stored_output \<times> stored_output) result" where
  "strict_publication x w product =
     (case ew_ownership w of
        None \<Rightarrow> Inl (PlainError ''strict Researcher output requires durable terminal-output ownership'')
      | Some hook \<Rightarrow>
          bind_result (ew_prepared_primary w) (\<lambda>p.
          bind_result (ew_prepared_packet w) (\<lambda>k.
          bind_result (pendingTerminalOutputs (rc_run_id x) p k) (\<lambda>_.
            if \<not> has_text (terminal_product.tp_receipt product) ''primary_sha256'' (pf_content_sha256 p) \<or>
               \<not> has_text (terminal_product.tp_receipt product) ''packet_sha256'' (pf_content_sha256 k)
            then Inl (PlainError ''strict Researcher prepared bytes do not match the controller receipt'')
            else (case hook of
                Some e \<Rightarrow> Inl e
              | None \<Rightarrow>
                  bind_result (ew_published_primary w) (\<lambda>a.
                  bind_result (ew_published_packet w) (\<lambda>b. Inr (a, b))))))))"

definition publish_outputs ::
  "run_context \<Rightarrow> ending_world \<Rightarrow> terminal_product option \<Rightarrow> string option \<Rightarrow> (stored_output \<times> stored_output option) result" where
  "publish_outputs x w strict final =
     (case strict of
        Some product \<Rightarrow> bind_result (strict_publication x w product) (\<lambda>(a, b). Inr (a, Some b))
      | None \<Rightarrow> bind_result (if present final then ew_written w else ew_finalized w) (\<lambda>a. Inr (a, None)))"

section \<open>The ending of a run\<close>

record run_ending =
  en_process :: process_result
  en_lines :: line_state
  en_scope_error :: "js_error option"
  en_strict :: "terminal_product option"
  en_final :: "string option"
  en_output :: stored_output
  en_packet :: "stored_output option"

definition strictResearchOutputsMatch :: "run_ending \<Rightarrow> bool" where
  "strictResearchOutputsMatch e \<longleftrightarrow>
     (case en_strict e of
        None \<Rightarrow> True
      | Some product \<Rightarrow>
          has_text (terminal_product.tp_receipt product) ''primary_sha256'' (ref_content_sha256 (so_reference (en_output e))) \<and>
          (case en_packet e of
             None \<Rightarrow> False
           | Some k \<Rightarrow> has_text (terminal_product.tp_receipt product) ''packet_sha256'' (ref_content_sha256 (so_reference k))))"

definition controllerTerminalReceipt :: "run_ending \<Rightarrow> json option" where
  "controllerTerminalReceipt e =
     (if strictResearchOutputsMatch e then map_option terminal_product.tp_receipt (en_strict e) else None)"

definition writtenOutputMode :: "run_ending \<Rightarrow> output_mode" where
  "writtenOutputMode e = (if en_strict e \<noteq> None \<or> present (en_final e) then OM_final else OM_transcript)"

definition processSuccess :: "run_ending \<Rightarrow> bool" where
  "processSuccess e \<longleftrightarrow>
     pe_exit_code (en_process e) = Some 0 \<and> \<not> pe_timed_out (en_process e) \<and> \<not> pe_cancelled (en_process e) \<and>
     \<not> pe_exhausted (en_process e)"

definition activationRequired :: "run_context \<Rightarrow> bool" where
  "activationRequired x \<longleftrightarrow> rq_effect_profile (rc_request x) \<noteq> None \<or> present (rq_expected_sha (rc_request x))"

definition activationConfirmed :: "run_context \<Rightarrow> run_ending \<Rightarrow> bool" where
  "activationConfirmed x e \<longleftrightarrow> \<not> activationRequired x \<or> ls_activation (en_lines e) \<noteq> None"

definition skillSnapshotActivationConfirmed :: "run_context \<Rightarrow> run_ending \<Rightarrow> bool" where
  "skillSnapshotActivationConfirmed x e \<longleftrightarrow> rq_snapshot (rc_request x) = None \<or> ls_snapshot (en_lines e) \<noteq> None"

definition recursiveDelegationConfirmed :: "run_ending \<Rightarrow> bool" where
  "recursiveDelegationConfirmed e \<longleftrightarrow> ls_delegation (en_lines e) \<noteq> None"

definition systemSkillActivationConfirmed :: "run_context \<Rightarrow> run_ending \<Rightarrow> bool" where
  "systemSkillActivationConfirmed x e \<longleftrightarrow> rc_system_skill x = None \<or> ls_system (en_lines e) \<noteq> None"

definition sessionId :: "run_context \<Rightarrow> run_ending \<Rightarrow> string option" where
  "sessionId x e =
     (case rq_continuity (rc_request x) of Fresh \<Rightarrow> ls_session (en_lines e) | Resume i \<Rightarrow> Some i | Ephemeral \<Rightarrow> None)"

definition sessionEstablished :: "run_context \<Rightarrow> run_ending \<Rightarrow> bool" where
  "sessionEstablished x e \<longleftrightarrow>
     (case rq_continuity (rc_request x) of
        Fresh \<Rightarrow> ls_session (en_lines e) \<noteq> None | Resume _ \<Rightarrow> processSuccess e | Ephemeral \<Rightarrow> False)"

definition missingFinalOutput :: "run_context \<Rightarrow> run_ending \<Rightarrow> bool" where
  "missingFinalOutput x e \<longleftrightarrow>
     processSuccess e \<and> rq_output_mode (rc_request x) = OM_final \<and>
     (if rq_effect_profile (rc_request x) = Some Researcher_bounded_v1 then en_strict e = None else \<not> present (en_final e))"

definition controllerCompletionConfirmed :: "run_context \<Rightarrow> run_ending \<Rightarrow> bool" where
  "controllerCompletionConfirmed x e \<longleftrightarrow>
     rq_effect_profile (rc_request x) \<noteq> Some Researcher_bounded_v1 \<or>
     (en_strict e \<noteq> None \<and> strictResearchOutputsMatch e)"

definition run_success :: "run_context \<Rightarrow> run_ending \<Rightarrow> bool" where
  "run_success x e \<longleftrightarrow>
     processSuccess e \<and> en_scope_error e = None \<and> activationConfirmed x e \<and> skillSnapshotActivationConfirmed x e \<and>
     recursiveDelegationConfirmed e \<and> systemSkillActivationConfirmed x e \<and> controllerCompletionConfirmed x e \<and>
     \<not> missingFinalOutput x e \<and> (rq_continuity (rc_request x) \<noteq> Fresh \<or> sessionEstablished x e)"

definition partialOutputAvailableForRun :: "run_ending \<Rightarrow> bool" where
  "partialOutputAvailableForRun e \<longleftrightarrow>
     (pe_timed_out (en_process e) \<or> pe_exhausted (en_process e)) \<and>
     (present (en_final e) \<or> cf_assistant (so_flags (en_output e)) \<or> cf_warning (so_flags (en_output e)) \<or>
      cf_error (so_flags (en_output e)))"

definition resumePossible :: "run_context \<Rightarrow> run_ending \<Rightarrow> bool" where
  "resumePossible x e \<longleftrightarrow>
     pe_timed_out (en_process e) \<and>
     (case rq_continuity (rc_request x) of
        Resume _ \<Rightarrow> True | Fresh \<Rightarrow> present (ls_session (en_lines e)) | Ephemeral \<Rightarrow> False)"

definition run_status_of :: "run_context \<Rightarrow> run_ending \<Rightarrow> run_status" where
  "run_status_of x e =
     (if pe_cancelled (en_process e) then Cancelled else if pe_timed_out (en_process e) then Timed_out
      else if run_success x e then Completed else Failed)"

section \<open>Why a run failed\<close>

definition is_activation_reason :: "failure_reason_code option \<Rightarrow> bool" where
  "is_activation_reason rc \<longleftrightarrow>
     rc \<in> {Some Rc_effect_profile_activation_failed, Some Rc_skill_content_mismatch, Some Rc_system_skill_activation_failed}"

definition activationFailed :: "run_context \<Rightarrow> run_ending \<Rightarrow> bool" where
  "activationFailed x e \<longleftrightarrow>
     \<not> activationConfirmed x e \<or> \<not> skillSnapshotActivationConfirmed x e \<or> \<not> recursiveDelegationConfirmed e \<or>
     \<not> systemSkillActivationConfirmed x e"

definition childFailureReasonCode :: "run_context \<Rightarrow> run_ending \<Rightarrow> failure_reason_code option" where
  "childFailureReasonCode x e =
     (case cf_reason (ls_failure (en_lines e)) of
        Some rc \<Rightarrow> Some rc
      | None \<Rightarrow>
          if \<not> skillSnapshotActivationConfirmed x e then Some Rc_skill_snapshot_activation_failed
          else if \<not> recursiveDelegationConfirmed e then Some Rc_recursive_delegation_activation_failed
          else if \<not> systemSkillActivationConfirmed x e then Some Rc_system_skill_activation_failed
          else if \<not> activationConfirmed x e
          then Some (if rq_effect_profile (rc_request x) \<noteq> None then Rc_effect_profile_activation_failed
                     else Rc_skill_content_mismatch)
          else None)"

definition runErrorTaxonomy :: "run_context \<Rightarrow> run_ending \<Rightarrow> (string \<times> failure_reason_code) option" where
  "runErrorTaxonomy x e =
     (let r = en_process e; stop = pe_stop_reason r; childReason = childFailureReasonCode x e in
      if run_success x e \<or> pe_cancelled r then None
      else if pe_timed_out r \<or> stop = Stop_timeout then Some (''timeout'', Rc_timeout)
      else if pe_exhausted r \<or> stop = Stop_resource_exhausted then Some (''resource_exhausted'', Rc_disk_reserve_exhausted)
      else if activationFailed x e \<or> is_activation_reason childReason
      then Some (''capability_unavailable'', nullish childReason Rc_effect_profile_activation_failed)
      else if stop = Stop_spawn_error then Some (''unknown_error'', Rc_spawn_error)
      else if rq_continuity (rc_request x) = Fresh \<and> \<not> sessionEstablished x e \<and> pe_exit_code r = Some 0
      then Some (''missing_session_id'', Rc_missing_session_id)
      else if missingFinalOutput x e then Some (''missing_final_output'', Rc_missing_final_output)
      else if pe_exit_code r \<noteq> None \<and> pe_exit_code r \<noteq> Some 0 then Some (''nonzero_exit'', nullish childReason Rc_nonzero_exit)
      else if present (pe_stop_signal r) then Some (''signal_terminated'', Rc_process_signal_terminated)
      else Some (''unknown_error'', Rc_unknown_error))"

definition terminal_taxonomy :: "run_context \<Rightarrow> run_ending \<Rightarrow> (string \<times> failure_reason_code) option" where
  "terminal_taxonomy x e =
     (if en_scope_error e \<noteq> None then Some (''authoring_effect_scope_drift'', Rc_authoring_effect_scope_drift)
      else runErrorTaxonomy x e)"

section \<open>The result\<close>

definition stop_reason_text :: "run_stop_reason \<Rightarrow> string" where
  "stop_reason_text r = (case r of Stop_completed \<Rightarrow> ''completed'' | Stop_failed \<Rightarrow> ''failed'' | Stop_timeout \<Rightarrow> ''timeout''
     | Stop_cancelled \<Rightarrow> ''cancelled'' | Stop_spawn_error \<Rightarrow> ''spawn_error'' | Stop_resource_exhausted \<Rightarrow> ''resource_exhausted'')"

definition nullable_int :: "int option \<Rightarrow> json" where
  "nullable_int n = (case n of None \<Rightarrow> JNull | Some i \<Rightarrow> JNum (of_int i))"

definition nullable_string :: "string option \<Rightarrow> json" where
  "nullable_string s = (case s of None \<Rightarrow> JNull | Some t \<Rightarrow> JStr t)"

definition output_references :: "run_ending \<Rightarrow> run_output_reference list" where
  "output_references e =
     (so_reference (en_output e))\<lparr>ref_output_mode := writtenOutputMode e\<rparr> #
     (case en_packet e of
        None \<Rightarrow> [] | Some k \<Rightarrow> [(so_reference k)\<lparr>ref_name := Out_packet, ref_output_mode := OM_final\<rparr>])"

definition result_head :: "run_context \<Rightarrow> run_ending \<Rightarrow> (string \<times> json) list" where
  "result_head x e =
     [(''run_id'', JStr (rc_run_id x)), (''task_id'', JStr (rc_run_id x)),
      (''status'', JStr (status_text (run_status_of x e))),
      (''output_references'', JArr (map reference_json (output_references e))),
      (''success'', JBool (run_success x e)), (''exit_code'', nullable_int (pe_exit_code (en_process e))),
      (''timed_out'', JBool (pe_timed_out (en_process e))),
      (''partial_output_available'', JBool (partialOutputAvailableForRun e)),
      (''resume_possible'', JBool (resumePossible x e)),
      (''duration_ms'', JNum (of_int (pe_duration (en_process e))))]"

definition result_budget :: "run_context \<Rightarrow> run_ending \<Rightarrow> (string \<times> json) list" where
  "result_budget x e =
     (let b = rc_budget x in
      [(''requested_timeout_ms'', nullable_int (tb_requested b)), (''resolved_timeout_ms'', nullable_int (tb_resolved b)),
       (''timeout_floor_ms'', JNum (of_int (tb_min_requested b))), (''effective_timeout_ms'', nullable_int (tb_effective b)),
       (''timeout_headroom_ms'', JNum (of_int (tb_headroom b))), (''kill_grace_ms'', JNum (of_int (tb_kill_grace b))),
       (''force_grace_ms'', JNum (of_int (tb_force_grace b))),
       (''size_bytes'', JNum (of_nat (ref_size_bytes (so_reference (en_output e)))))])"

definition profile_field :: "string \<Rightarrow> effect_profile option \<Rightarrow> (string \<times> json) list" where
  "profile_field k p = Json_Objects.opt_field k (map_option (\<lambda>q. JStr (effect_profile_name q)) p)"

definition result_identity :: "run_context \<Rightarrow> run_ending \<Rightarrow> (string \<times> json) list" where
  "result_identity x e =
     (let q = rc_request x; l = en_lines e in
      [(''resolved_model_class'', JStr (model_class_name (rq_model_class q))),
       (''requested_skill'', nullable_string (rq_skill q)), (''resolved_skill_path'', nullable_string (rc_skill_path x)),
       (''resolved_skill_sha256'', nullable_string (rc_skill_sha x))] @
      truthy_field ''expected_skill_sha256'' (rq_expected_sha q) @
      profile_field ''requested_effect_profile'' (rq_effect_profile q) @
      (case ls_activation l of
         None \<Rightarrow> []
       | Some r \<Rightarrow>
           (if truthy (jget r ''resolved_effect_profile'')
            then Json_Objects.opt_field ''resolved_effect_profile'' (jget r ''resolved_effect_profile'') else []) @
           [(''activation_receipt'', r)]) @
      Json_Objects.opt_field ''controller_terminal_receipt'' (controllerTerminalReceipt e) @
      Json_Objects.opt_field ''skill_snapshot_binding'' (rq_snapshot q) @
      Json_Objects.opt_field ''skill_snapshot_activation_receipt'' (ls_snapshot l) @
      Json_Objects.opt_field ''requested_recursive_delegation'' (map_option (\<lambda>d. JStr (delegation_name d)) (rc_requested x)) @
      [(''resolved_recursive_delegation'', JStr (delegation_name (rc_resolved x)))] @
      Json_Objects.opt_field ''recursive_delegation_receipt'' (ls_delegation l) @
      Json_Objects.opt_field ''requested_system_skill'' (map_option (\<lambda>k. JStr (sk_name k)) (rc_system_skill x)) @
      Json_Objects.opt_field ''requested_specialist_catalogue_scope'' (map_option (\<lambda>c. JStr (scope_name c)) (rq_scope q)) @
      Json_Objects.opt_field ''system_skill_activation_receipt'' (ls_system l))"

definition result_stop :: "run_context \<Rightarrow> run_ending \<Rightarrow> (string \<times> json) list" where
  "result_stop x e =
     [(''requested_output_mode'', JStr (output_mode_text (rq_output_mode (rc_request x)))),
      (''written_output_mode'', JStr (output_mode_text (writtenOutputMode e))),
      (''stop_reason'', JStr (stop_reason_text (pe_stop_reason (en_process e)))),
      (''stop_signal'', nullable_string (pe_stop_signal (en_process e)))] @
     (case terminal_taxonomy x e of
        None \<Rightarrow> [] | Some (c, rc) \<Rightarrow> [(''error_class'', JStr c), (''reason_code'', JStr (reason_code_text rc))]) @
     nullish (cf_usage (ls_failure (en_lines e))) [] @
     (if pe_timed_out (en_process e) \<and> \<not> rc_allow_timeout x
      then [(''timeout_recovery_hint'', JStr timeout_recovery_hint)] else []) @
     [(''session_id'', nullable_string (sessionId x e)), (''session_established'', JBool (sessionEstablished x e)),
      (''input_requests_dir'', JStr (rc_inputs_dir x))]"

definition run_result :: "run_context \<Rightarrow> run_ending \<Rightarrow> json" where
  "run_result x e = JObj (result_head x e @ result_budget x e @ result_identity x e @ result_stop x e)"

definition projection_of :: "run_context \<Rightarrow> run_ending \<Rightarrow> terminal_projection_input" where
  "projection_of x e =
     \<lparr>tp_profile = rq_effect_profile (rc_request x),
      tp_class = (if rq_effect_profile (rc_request x) = Some Researcher_bounded_v1 \<and> strict_activation (en_lines e)
        then Class_researcher_v4_strict else Class_other),
      tp_status = run_status_of x e, tp_outputs = output_references e,
      tp_receipt = controllerTerminalReceipt e\<rparr>"

section \<open>The whole ending\<close>

definition ending_of ::
  "run_context \<Rightarrow> ending_world \<Rightarrow> process_result \<Rightarrow> line_state \<Rightarrow> string option \<Rightarrow> stored_output \<times> stored_output option \<Rightarrow> run_ending" where
  "ending_of x w r l final out =
     \<lparr>en_process = r, en_lines = l, en_scope_error = terminalEffectScopeError x w,
      en_strict = strictResearchOutput x w l, en_final = final, en_output = fst out, en_packet = snd out\<rparr>"

definition finish_run_subagent :: "run_context \<Rightarrow> ending_world \<Rightarrow> process_result \<Rightarrow> line_state \<Rightarrow> run_ending result" where
  "finish_run_subagent x w r l =
     bind_result (ew_final_message w) (\<lambda>final.
     bind_result (publish_outputs x w (strictResearchOutput x w l) final) (\<lambda>out.
       case (if strictResearchOutput x w l \<noteq> None \<or> present final then ew_discarded w else None) of
         Some e \<Rightarrow> Inl e
       | None \<Rightarrow>
           (let e = ending_of x w r l final out in
            if terminalProjectionIsValid (projection_of x e) then Inr e
            else Inl (PlainError
              ''terminal output projection is inconsistent with its validated activation and controller receipt''))))"

text \<open>\<open>runSubagentCore\<close> from the moment its child runs: \<open>outcome\<close> is how the promise of the process settles
  (it is thrown on when it is rejected) and \<open>delivered\<close> the lines given to the handler until then.\<close>

definition runSubagentCore ::
  "run_context \<Rightarrow> call_outcomes \<Rightarrow> ending_world \<Rightarrow> process_result result \<Rightarrow> string list \<Rightarrow> json result" where
  "runSubagentCore x fails w outcome delivered =
     bind_result outcome (\<lambda>r.
     bind_result (finish_run_subagent x w r (on_output_lines x fails delivered no_lines)) (\<lambda>e.
     Inr (run_result x e)))"

end
