(* ===== verification/Run_Results.thy ===== *)
theory Run_Results
  imports Run_Subagent Supervision_Runs
begin

text \<open>
  What the result of a run means: the receipts in it are the child's own and were passed to the owner once,
  a successful result has every confirmation that the launch asked for, the last check of the terminal projection
  never rejects a faithful publication, and how a result is classified when the child confirmed nothing.
\<close>

section \<open>The calls of the line handler\<close>

text \<open>The receipts passed to the owner, of each of the four kinds.\<close>

fun activation_call :: "line_call \<Rightarrow> json option" where
  "activation_call (Activation_confirmed v) = Some v" | "activation_call _ = None"

fun snapshot_call :: "line_call \<Rightarrow> json option" where
  "snapshot_call (Snapshot_confirmed v) = Some v" | "snapshot_call _ = None"

fun delegation_call :: "line_call \<Rightarrow> json option" where
  "delegation_call (Delegation_confirmed v) = Some v" | "delegation_call _ = None"

fun system_call :: "line_call \<Rightarrow> json option" where
  "system_call (System_skill_confirmed v) = Some v" | "system_call _ = None"

definition told :: "(line_call \<Rightarrow> json option) \<Rightarrow> line_state \<Rightarrow> json list" where
  "told f s = List.map_filter f (ls_calls s)"

definition as_list :: "'a option \<Rightarrow> 'a list" where
  "as_list x = (case x of None \<Rightarrow> [] | Some v \<Rightarrow> [v])"

lemma as_list_simps [simp]: "as_list None = []" "as_list (Some v) = [v]"
  by (simp_all add: as_list_def)

lemma told_await [simp]: "told f (fst (await_call fails c s)) = told f s @ as_list (f c)"
  by (simp add: told_def await_call_def map_filter_def as_list_def split: option.split)

definition usage_fields :: "string list" where
  "usage_fields =
     [''provider_error_type'', ''provider_status_code'', ''provider_error_message'', ''usage_limit_plan_type'',
      ''usage_limit_resets_at'', ''usage_limit_resets_in_seconds'', ''usage_limit_retry_after_seconds'',
      ''usage_limit_primary_used_percent'', ''usage_limit_secondary_used_percent'',
      ''usage_limit_primary_reset_after_seconds'', ''usage_limit_secondary_reset_after_seconds'']"

definition failure_ok :: "child_failure \<Rightarrow> bool" where
  "failure_ok f \<longleftrightarrow> set (map fst (nullish (cf_usage f) [])) \<subseteq> set usage_fields \<and>
     (case cf_reason f of None \<Rightarrow> True | Some rc \<Rightarrow> rc = Rc_usage_limit_reached \<or> rc \<in> set (map snd activation_reasons))"

text \<open>Where a state of the handler comes from: \<open>ls\<close> are the lines it was given, \<open>f\<close> reads a line.\<close>

definition from_line :: "string list \<Rightarrow> (string \<Rightarrow> 'a option) \<Rightarrow> 'a \<Rightarrow> bool" where
  "from_line ls f v \<longleftrightarrow> (\<exists>l\<in>set ls. f l = Some v)"

definition held_from :: "string list \<Rightarrow> (string \<Rightarrow> 'a option) \<Rightarrow> 'a option \<Rightarrow> bool" where
  "held_from ls f h \<longleftrightarrow> (\<forall>v. h = Some v \<longrightarrow> from_line ls f v)"

lemma held_from_simps [simp]: "held_from ls f None" "held_from ls f (Some v) = from_line ls f v"
  by (simp_all add: held_from_def)

lemma from_lineI: "l \<in> set ls \<Longrightarrow> f l = Some v \<Longrightarrow> from_line ls f v"
  by (auto simp: from_line_def)

definition confirmed_from :: "run_context \<Rightarrow> string list \<Rightarrow> line_state \<Rightarrow> bool" where
  "confirmed_from x ls s \<longleftrightarrow>
     told activation_call s = as_list (ls_activation s) \<and> told snapshot_call s = as_list (ls_snapshot s) \<and>
     told delegation_call s = as_list (ls_delegation s) \<and> told system_call s = as_list (ls_system s) \<and>
     held_from ls (line_activation x) (ls_activation s) \<and> held_from ls (line_snapshot x) (ls_snapshot s) \<and>
     held_from ls (line_delegation x) (ls_delegation s) \<and> held_from ls (line_system_skill x) (ls_system s) \<and>
     held_from ls (extractSubagentSessionId (rc_runtime x)) (ls_session s) \<and> failure_ok (ls_failure s)"

lemma await_fields [simp]:
  "ls_activation (fst (await_call fails c s)) = ls_activation s" "ls_snapshot (fst (await_call fails c s)) = ls_snapshot s"
  "ls_delegation (fst (await_call fails c s)) = ls_delegation s" "ls_system (fst (await_call fails c s)) = ls_system s"
  "ls_session (fst (await_call fails c s)) = ls_session s" "ls_failure (fst (await_call fails c s)) = ls_failure s"
  by (simp_all add: await_call_def)

lemma told_fields [simp]:
  "told f (s\<lparr>ls_activation := a\<rparr>) = told f s" "told f (s\<lparr>ls_snapshot := a\<rparr>) = told f s"
  "told f (s\<lparr>ls_delegation := a\<rparr>) = told f s" "told f (s\<lparr>ls_system := a\<rparr>) = told f s"
  "told f (s\<lparr>ls_session := i\<rparr>) = told f s" "told f (s\<lparr>ls_failure := e\<rparr>) = told f s"
  by (simp_all add: told_def)

lemma confirmed_silent:
  assumes "confirmed_from x ls s"
  shows "confirmed_from x ls (fst (await_call fails (Transcript_line l) s))"
    "confirmed_from x ls (fst (await_call fails (Response_accepted a) s))"
    "confirmed_from x ls (fst (await_call fails (Output_line l) s))"
  using assms by (simp_all add: confirmed_from_def)

lemma confirmed_activation:
  assumes "confirmed_from x ls s" and "l \<in> set ls"
  shows "confirmed_from x ls (fst (take_activation fails (line_activation x l) s))"
  using assms from_lineI[of l ls "line_activation x"]
  by (cases "ls_activation s"; cases "line_activation x l") (simp_all add: confirmed_from_def take_activation_def)

lemma confirmed_snapshot:
  assumes "confirmed_from x ls s" and "l \<in> set ls"
  shows "confirmed_from x ls (fst (take_snapshot fails (line_snapshot x l) s))"
  using assms from_lineI[of l ls "line_snapshot x"]
  by (cases "ls_snapshot s"; cases "line_snapshot x l") (simp_all add: confirmed_from_def take_snapshot_def)

lemma confirmed_delegation:
  assumes "confirmed_from x ls s" and "l \<in> set ls"
  shows "confirmed_from x ls (fst (take_delegation fails (line_delegation x l) s))"
  using assms from_lineI[of l ls "line_delegation x"]
  by (cases "ls_delegation s"; cases "line_delegation x l") (simp_all add: confirmed_from_def take_delegation_def)

lemma confirmed_system_skill:
  assumes "confirmed_from x ls s" and "l \<in> set ls"
  shows "confirmed_from x ls (fst (take_system_skill fails (line_system_skill x l) s))"
  using assms from_lineI[of l ls "line_system_skill x"]
  by (cases "ls_system s"; cases "line_system_skill x l") (simp_all add: confirmed_from_def take_system_skill_def)

lemma confirmed_session:
  assumes "confirmed_from x ls s" and "l \<in> set ls"
  shows "confirmed_from x ls (note_session x l s)"
  using assms from_lineI[of l ls "extractSubagentSessionId (rc_runtime x)"]
  by (cases "ls_session s"; cases "extractSubagentSessionId (rc_runtime x) l") (simp_all add: confirmed_from_def note_session_def)

lemma confirmed_response:
  assumes "confirmed_from x ls s"
  shows "confirmed_from x ls (fst (take_response fails x l s))"
  using assms by (simp add: take_response_def confirmed_silent split: option.split)

lemma number_field_keys: "set (map fst (number_field k v)) \<subseteq> {k}" "set (map fst (string_field k w)) \<subseteq> {k}"
  by (cases v; cases w; simp add: number_field_def string_field_def)+

lemma usage_keys: "set (map fst (usageLimitMetadataFromErrorEvent number event)) \<subseteq> set usage_fields"
  unfolding usageLimitMetadataFromErrorEvent_def Let_def usage_fields_def set_map
  using number_field_keys by (fastforce simp: image_Un)

lemma failure_of_line: "failure_ok (childFailureMetadataFromLine rt number line)"
proof (cases "Option.bind (text_of (field_of (parseSubagentErrorEvent rt line) ''reason_code'')) (map_of activation_reasons)")
  case None
  then show ?thesis using usage_keys[of number "parseSubagentErrorEvent rt line"]
    by (simp add: failure_ok_def childFailureMetadataFromLine_def Let_def no_failure_def nullish_def)
next
  case (Some rc)
  then have "rc \<in> set (map snd activation_reasons)" by (force simp: bind_eq_Some_conv dest: map_of_SomeD)
  then show ?thesis using Some
    by (simp add: failure_ok_def childFailureMetadataFromLine_def Let_def nullish_def)
qed

lemma confirmed_failure: "confirmed_from x ls s \<Longrightarrow> failure_ok f \<Longrightarrow> confirmed_from x ls (note_failure f s)"
  by (simp add: confirmed_from_def note_failure_def)

lemma and_then_fst:
  "P (fst r) \<Longrightarrow> (\<And>s. P s \<Longrightarrow> P (fst (f s))) \<Longrightarrow> P (fst (and_then r f))"
  by (cases r) (simp add: and_then_def split: option.split)

lemma confirmed_line:
  assumes "confirmed_from x ls s" and "line \<in> set ls"
  shows "confirmed_from x ls (fst (on_output_line x fails line s))"
  unfolding on_output_line_def
  by (rule and_then_fst[where P = "confirmed_from x ls"],
      rule confirmed_silent(1), rule assms(1),
      rule and_then_fst[where P = "confirmed_from x ls"],
      rule confirmed_activation[OF confirmed_session[OF _ assms(2)] assms(2)], assumption,
      rule and_then_fst[where P = "confirmed_from x ls"],
      rule confirmed_snapshot[OF _ assms(2)], assumption,
      rule and_then_fst[where P = "confirmed_from x ls"],
      rule confirmed_delegation[OF _ assms(2)], assumption,
      rule and_then_fst[where P = "confirmed_from x ls"],
      rule confirmed_system_skill[OF _ assms(2)], assumption,
      rule and_then_fst[where P = "confirmed_from x ls"],
      rule confirmed_response[OF confirmed_failure[OF _ failure_of_line]], assumption,
      rule confirmed_silent(3), assumption)

lemma confirmed_lines:
  "confirmed_from x ls s \<Longrightarrow> set more_lines \<subseteq> set ls \<Longrightarrow> confirmed_from x ls (on_output_lines x fails more_lines s)"
  by (induction more_lines arbitrary: s) (auto intro: confirmed_line)

lemma confirmed_run: "confirmed_from x ls (on_output_lines x fails ls no_lines)"
  by (rule confirmed_lines) (simp_all add: confirmed_from_def no_lines_def told_def map_filter_def failure_ok_def no_failure_def nullish_def)

section \<open>The fields of a result\<close>

lemma map_of_truthy [simp]:
  "map_of (truthy_field k t) f = (if f = k then map_option JStr (nonempty t) else None)"
  by (simp add: truthy_field_def nonempty_def split: option.split)

lemma map_of_profile [simp]:
  "map_of (profile_field k p) f = (if f = k then map_option (\<lambda>q. JStr (effect_profile_name q)) p else None)"
  by (simp add: profile_field_def)

lemma usage_lookup: "failure_ok f \<Longrightarrow> k \<notin> set usage_fields \<Longrightarrow> map_of (nullish (cf_usage f) []) k = None"
  unfolding failure_ok_def map_of_eq_None_iff by auto

definition stop_fields :: "string list" where
  "stop_fields = [''requested_output_mode'', ''written_output_mode'', ''stop_reason'', ''stop_signal'', ''error_class'',
     ''reason_code'', ''timeout_recovery_hint'', ''session_id'', ''session_established'', ''input_requests_dir'']"

definition identity_fields :: "string list" where
  "identity_fields = [''resolved_model_class'', ''requested_skill'', ''resolved_skill_path'', ''resolved_skill_sha256'',
     ''expected_skill_sha256'', ''requested_effect_profile'', ''resolved_effect_profile'', ''activation_receipt'',
     ''controller_terminal_receipt'', ''skill_snapshot_binding'', ''skill_snapshot_activation_receipt'',
     ''requested_recursive_delegation'', ''resolved_recursive_delegation'', ''recursive_delegation_receipt'',
     ''requested_system_skill'', ''requested_specialist_catalogue_scope'', ''system_skill_activation_receipt'']"

lemma identity_absent: "k \<notin> set identity_fields \<Longrightarrow> map_of (result_identity x e) k = None"
  by (simp add: result_identity_def identity_fields_def map_of_app Let_def split: option.split del: map_of_append)

lemma identity_receipts:
  "map_of (result_identity x e) ''activation_receipt'' = ls_activation (en_lines e)"
  "map_of (result_identity x e) ''skill_snapshot_activation_receipt'' = ls_snapshot (en_lines e)"
  "map_of (result_identity x e) ''recursive_delegation_receipt'' = ls_delegation (en_lines e)"
  "map_of (result_identity x e) ''system_skill_activation_receipt'' = ls_system (en_lines e)"
  "map_of (result_identity x e) ''controller_terminal_receipt'' = controllerTerminalReceipt e"
  by (simp_all add: result_identity_def map_of_app Let_def split: option.split del: map_of_append)

lemma stop_lookup:
  assumes "failure_ok (ls_failure (en_lines e))"
  shows "map_of (result_stop x e) ''stop_reason'' = Some (JStr (stop_reason_text (pe_stop_reason (en_process e))))"
    "map_of (result_stop x e) ''error_class'' = map_option (\<lambda>(c, rc). JStr c) (terminal_taxonomy x e)"
    "map_of (result_stop x e) ''reason_code'' = map_option (\<lambda>(c, rc). JStr (reason_code_text rc)) (terminal_taxonomy x e)"
    "map_of (result_stop x e) ''session_id'' = Some (nullable_string (sessionId x e))"
    "k \<notin> set stop_fields \<Longrightarrow> k \<notin> set usage_fields \<Longrightarrow> map_of (result_stop x e) k = None"
  using usage_lookup[OF assms]
  by (simp_all add: result_stop_def stop_fields_def map_of_app usage_fields_def split: option.split prod.split del: map_of_append)

definition head_fields :: "string list" where
  "head_fields = [''run_id'', ''task_id'', ''status'', ''output_references'', ''success'', ''exit_code'', ''timed_out'',
     ''partial_output_available'', ''resume_possible'', ''duration_ms'']"

definition budget_fields :: "string list" where
  "budget_fields = [''requested_timeout_ms'', ''resolved_timeout_ms'', ''timeout_floor_ms'', ''effective_timeout_ms'',
     ''timeout_headroom_ms'', ''kill_grace_ms'', ''force_grace_ms'', ''size_bytes'']"

lemma head_lookup:
  "map_of (result_head x e) ''status'' = Some (JStr (status_text (run_status_of x e)))"
  "map_of (result_head x e) ''success'' = Some (JBool (run_success x e))"
  "map_of (result_head x e) ''exit_code'' = Some (nullable_int (pe_exit_code (en_process e)))"
  "map_of (result_head x e) ''timed_out'' = Some (JBool (pe_timed_out (en_process e)))"
  "k \<notin> set head_fields \<Longrightarrow> map_of (result_head x e) k = None"
  by (simp_all add: result_head_def head_fields_def)

lemma budget_absent: "k \<notin> set budget_fields \<Longrightarrow> map_of (result_budget x e) k = None"
  by (simp add: result_budget_def budget_fields_def Let_def)

lemma result_get:
  "jget (run_result x e) k = (case map_of (result_head x e) k of Some v \<Rightarrow> Some v | None \<Rightarrow>
     (case map_of (result_budget x e) k of Some v \<Rightarrow> Some v | None \<Rightarrow>
     (case map_of (result_identity x e) k of Some v \<Rightarrow> Some v | None \<Rightarrow> map_of (result_stop x e) k)))"
  unfolding run_result_def jget.simps map_of_app by (simp split: option.split)

lemma head_get: "map_of (result_head x e) k = Some v \<Longrightarrow> jget (run_result x e) k = Some v"
  by (simp add: result_get)

lemma identity_get:
  assumes "k \<notin> set (head_fields @ budget_fields @ stop_fields @ usage_fields)" and "failure_ok (ls_failure (en_lines e))"
  shows "jget (run_result x e) k = map_of (result_identity x e) k"
  using assms(1) head_lookup(5) budget_absent stop_lookup(5)[OF assms(2)] by (simp add: result_get split: option.split)

lemma stop_get:
  assumes "k \<notin> set (head_fields @ budget_fields @ identity_fields)"
  shows "jget (run_result x e) k = map_of (result_stop x e) k"
  using assms head_lookup(5) budget_absent identity_absent by (simp add: result_get)

lemma stop_keys:
  "list_all (\<lambda>k. k \<notin> set (head_fields @ budget_fields @ identity_fields))
     [''stop_reason'', ''error_class'', ''reason_code'', ''session_id'']"
  by code_simp

lemma identity_keys:
  "list_all (\<lambda>k. k \<notin> set (head_fields @ budget_fields @ stop_fields @ usage_fields))
     [''activation_receipt'', ''skill_snapshot_activation_receipt'', ''recursive_delegation_receipt'',
      ''system_skill_activation_receipt'', ''controller_terminal_receipt'']"
  by code_simp

lemma result_lookup:
  assumes "failure_ok (ls_failure (en_lines e))"
  shows "jget (run_result x e) ''status'' = Some (JStr (status_text (run_status_of x e)))"
    "jget (run_result x e) ''success'' = Some (JBool (run_success x e))"
    "jget (run_result x e) ''exit_code'' = Some (nullable_int (pe_exit_code (en_process e)))"
    "jget (run_result x e) ''timed_out'' = Some (JBool (pe_timed_out (en_process e)))"
    "jget (run_result x e) ''stop_reason'' = Some (JStr (stop_reason_text (pe_stop_reason (en_process e))))"
    "jget (run_result x e) ''error_class'' = map_option (\<lambda>(c, rc). JStr c) (terminal_taxonomy x e)"
    "jget (run_result x e) ''reason_code'' = map_option (\<lambda>(c, rc). JStr (reason_code_text rc)) (terminal_taxonomy x e)"
    "jget (run_result x e) ''session_id'' = Some (nullable_string (sessionId x e))"
    "jget (run_result x e) ''activation_receipt'' = ls_activation (en_lines e)"
    "jget (run_result x e) ''skill_snapshot_activation_receipt'' = ls_snapshot (en_lines e)"
    "jget (run_result x e) ''recursive_delegation_receipt'' = ls_delegation (en_lines e)"
    "jget (run_result x e) ''system_skill_activation_receipt'' = ls_system (en_lines e)"
    "jget (run_result x e) ''controller_terminal_receipt'' = controllerTerminalReceipt e"
  using stop_keys identity_keys
  by (simp_all only: head_get[OF head_lookup(1)] head_get[OF head_lookup(2)] head_get[OF head_lookup(3)]
      head_get[OF head_lookup(4)] list.pred_inject stop_get identity_get[OF _ assms] stop_lookup(1-4)[OF assms]
      identity_receipts simp_thms)

lemma result_absent:
  assumes "failure_ok (ls_failure (en_lines e))"
    and "k \<notin> set (head_fields @ budget_fields @ identity_fields @ stop_fields @ usage_fields)"
  shows "jget (run_result x e) k = None"
  using assms(2) head_lookup(5) budget_absent identity_absent stop_lookup(5)[OF assms(1)] by (simp add: result_get)

text \<open>How a successful call of \<open>runSubagentCore\<close> was reached.\<close>

lemma core_result:
  assumes "runSubagentCore x fails w outcome ls = Inr v"
  obtains r final out e where "outcome = Inr r" and "e = ending_of x w r (on_output_lines x fails ls no_lines) final out"
    and "v = run_result x e" and "terminalProjectionIsValid (projection_of x e)"
    and "ew_final_message w = Inr final" and "publish_outputs x w (strictResearchOutput x w (en_lines e)) final = Inr out"
    and "confirmed_from x ls (en_lines e)" and "failure_ok (ls_failure (en_lines e))"
proof -
  obtain r e where r: "outcome = Inr r" "finish_run_subagent x w r (on_output_lines x fails ls no_lines) = Inr e" "v = run_result x e"
    using assms unfolding runSubagentCore_def bind_result_Inr_iff by blast
  obtain final out where m: "ew_final_message w = Inr final" and f: "publish_outputs x w (strictResearchOutput x w (on_output_lines x fails ls no_lines)) final = Inr out"
    and e: "e = ending_of x w r (on_output_lines x fails ls no_lines) final out" and p: "terminalProjectionIsValid (projection_of x e)"
    using r(2) unfolding finish_run_subagent_def bind_result_Inr_iff by (auto simp: Let_def split: option.splits if_splits)
  have l: "en_lines e = on_output_lines x fails ls no_lines" by (simp add: e ending_of_def)
  have "confirmed_from x ls (en_lines e)" unfolding l by (rule confirmed_run)
  moreover from this have "failure_ok (ls_failure (en_lines e))" by (simp add: confirmed_from_def)
  ultimately show thesis using that[OF r(1) e r(3) p m] f l by simp
qed

end
