(* ===== verification/Run_Verdicts.thy ===== *)
theory Run_Verdicts
  imports Run_Results
begin

text \<open>
  The verdict on a run: what a successful result promises, that the last check of the terminal projection accepts
  every faithful publication, and how a run is classified whose child confirmed nothing.
\<close>

text \<open>
  C14: The receipts of a run are the child's own, and its owner heard of each exactly once. After any lines,
  with callbacks that fail at any point, the handler has passed on exactly the receipts it holds, the first of
  its kind each, and every one of them, as the session of the run, was read from one of the lines.
\<close>

theorem receipts_are_confirmed_once:
  "let s = on_output_lines x fails ls no_lines in
     told activation_call s = as_list (ls_activation s) \<and> told snapshot_call s = as_list (ls_snapshot s) \<and>
     told delegation_call s = as_list (ls_delegation s) \<and> told system_call s = as_list (ls_system s) \<and>
     held_from ls (line_activation x) (ls_activation s) \<and> held_from ls (line_snapshot x) (ls_snapshot s) \<and>
     held_from ls (line_delegation x) (ls_delegation s) \<and> held_from ls (line_system_skill x) (ls_system s) \<and>
     held_from ls (extractSubagentSessionId (rc_runtime x)) (ls_session s)"
  using confirmed_run[of x ls fails] by (simp add: confirmed_from_def Let_def)



section \<open>The last check of the projection\<close>

definition publishes :: "pending_file result \<Rightarrow> stored_output result \<Rightarrow> bool" where
  "publishes p a \<longleftrightarrow>
     (case (p, a) of (Inr f, Inr s) \<Rightarrow> ref_content_sha256 (so_reference s) = pf_content_sha256 f | (Inl _, Inr _) \<Rightarrow> False | _ \<Rightarrow> True)"

definition primary_named :: "stored_output result \<Rightarrow> bool" where
  "primary_named a \<longleftrightarrow> (case a of Inl _ \<Rightarrow> True | Inr s \<Rightarrow> ref_name (so_reference s) = Out_primary)"

definition paths_differ :: "stored_output result \<Rightarrow> stored_output result \<Rightarrow> bool" where
  "paths_differ a b \<longleftrightarrow>
     (case (a, b) of (Inr s, Inr t) \<Rightarrow> ref_relative_path (so_reference s) \<noteq> ref_relative_path (so_reference t) | _ \<Rightarrow> True)"

text \<open>What \<open>materializeResearchControllerCompletion\<close> returns.\<close>

lemma materialized_receipt:
  assumes "snd (materializeResearchControllerCompletion os root_dir script py b cw) = Some p"
  shows "\<exists>bytes. terminal_product.tp_receipt p = terminal_receipt os bytes (tp_primary p) (tp_packet p)"
  using assms unfolding materializeResearchControllerCompletion_def
  by (auto simp: Let_def split: option.splits if_splits prod.splits sum.splits)

lemma strict_receipt:
  assumes "\<And>t. sha256_hex (co_sha256 os t)"
    and "has_text (terminal_receipt os bytes p q) ''primary_sha256'' (ref_content_sha256 a)"
    and "has_text (terminal_receipt os bytes p q) ''packet_sha256'' (ref_content_sha256 b)"
  shows "exactStrictReceipt (terminal_receipt os bytes p q) a b"
  using assms
  by (simp add: exactStrictReceipt_def terminal_receipt_def receipt_start_def is_object_def has_text_def has_sha256_def
      exactKeys_mset jkeys_def)

text \<open>
  C15: The last check never rejects a faithful ending. When the outputs are published as they were prepared, under two paths,
  and the bounded researcher's completion is the one of its controller, the projection of every run, whatever its
  process and its child did, passes the check of \<open>terminalProjectionIsValid\<close>.
\<close>

theorem faithful_projection_is_accepted:
  assumes "ew_materialized w = snd (materializeResearchControllerCompletion os root_dir script py b cw)"
    and "\<forall>t. sha256_hex (co_sha256 os t)"
    and "publishes (ew_prepared_primary w) (ew_published_primary w)"
    and "publishes (ew_prepared_packet w) (ew_published_packet w)"
    and "paths_differ (ew_published_primary w) (ew_published_packet w)"
    and "list_all primary_named [ew_published_primary w, ew_written w, ew_finalized w]"
    and "publish_outputs x w (strictResearchOutput x w l) final = Inr out"
  shows "terminalProjectionIsValid (projection_of x (ending_of x w r l final out))"
proof (cases "strictResearchOutput x w l")
  case None
  define e where "e = ending_of x w r l final out"
  have e: "en_strict e = None" "en_packet e = None" "ref_name (so_reference (en_output e)) = Out_primary"
    using assms(6,7) None
    by (auto simp: e_def ending_of_def publish_outputs_def bind_result_Inr_iff primary_named_def split: if_splits)
  have "controllerTerminalReceipt e = None" by (simp add: controllerTerminalReceipt_def e(1))
  moreover have "run_status_of x e \<noteq> Completed" if "rq_effect_profile (rc_request x) = Some Researcher_bounded_v1"
    using that e(1) by (simp add: run_status_of_def run_success_def controllerCompletionConfirmed_def)
  ultimately show ?thesis unfolding e_def[symmetric]
    by (simp add: terminalProjectionIsValid_def projection_of_def exactOutputRoles_def output_references_def first_of_def e Let_def)
next
  case (Some p)
  define e where "e = ending_of x w r l final out"
  from Some have x: "rq_effect_profile (rc_request x) = Some Researcher_bounded_v1" "strict_activation l" "ew_materialized w = Some p"
    by (auto simp: strictResearchOutput_def split: if_splits)
  obtain bytes where rec: "terminal_product.tp_receipt p = terminal_receipt os bytes (tp_primary p) (tp_packet p)"
    using materialized_receipt[of os root_dir script py b cw p] x(3) assms(1) by auto
  obtain a k where out: "out = (a, Some k)" "strict_publication x w p = Inr (a, k)"
    using assms(7) Some by (auto simp: publish_outputs_def bind_result_Inr_iff)
  then obtain f g where pub: "ew_prepared_primary w = Inr f" "ew_prepared_packet w = Inr g"
    "ew_published_primary w = Inr a" "ew_published_packet w = Inr k"
    "has_text (terminal_product.tp_receipt p) ''primary_sha256'' (pf_content_sha256 f)"
    "has_text (terminal_product.tp_receipt p) ''packet_sha256'' (pf_content_sha256 g)"
    by (auto simp: strict_publication_def bind_result_Inr_iff split: option.splits if_splits)
  have e: "en_strict e = Some p" "en_packet e = Some k" "en_output e = a" "en_lines e = l"
    using Some by (simp_all add: e_def ending_of_def out)
  let ?a = "so_reference a" and ?k = "so_reference k"
  have sha: "ref_content_sha256 ?a = pf_content_sha256 f" "ref_content_sha256 ?k = pf_content_sha256 g"
    and name: "ref_name ?a = Out_primary" and path: "ref_relative_path ?a \<noteq> ref_relative_path ?k"
    using assms(3-6) pub by (simp_all add: publishes_def primary_named_def paths_differ_def)
  have "controllerTerminalReceipt e = Some (terminal_product.tp_receipt p)"
    using pub(5,6) sha e by (simp add: controllerTerminalReceipt_def strictResearchOutputsMatch_def)
  moreover have "exactStrictReceipt (terminal_product.tp_receipt p) (?a\<lparr>ref_output_mode := OM_final\<rparr>)
      (?k\<lparr>ref_name := Out_packet, ref_output_mode := OM_final\<rparr>)"
    unfolding rec by (rule strict_receipt) (use assms(2) pub(5,6) sha in \<open>simp_all add: rec\<close>)
  moreover have "writtenOutputMode e = OM_final" by (simp add: writtenOutputMode_def e)
  ultimately show ?thesis unfolding e_def[symmetric] using x(1,2) path name
    by (simp add: terminalProjectionIsValid_def projection_of_def exactOutputRoles_def output_references_def first_of_def e Let_def)
qed

end
