(* ===== verification/Lost_Results.thy ===== *)
theory Lost_Results
  imports Run_Verdicts Stuck_Runs
begin

text \<open>
  From the child to the record: results of \<open>runSubagentCore\<close> that the settlement of a run (\<open>Run_Settlement\<close>) can never
  accept, because the stop reason of the process and the verdict on the run are derived apart from each other, and
  the supervised run that produces one. The demo runs are also the instances of the properties of \<open>Run_Verdicts\<close>.
\<close>

section \<open>What an accepted result says\<close>

lemma outcome_of_result:
  assumes "ti_result ti = Some r" and "ti_error ti = None" and "\<not> rs_cancel_requested s"
  shows "rs_result (outcome_state ti now s) = Some r"
  using assms release_state[of ti "s\<lparr>rs_result := ti_result ti, rs_error := ti_error ti\<rparr>"]
  by (auto simp: outcome_state_def normalizeOwnerTerminalError_def normalizeAcceptedCancellation_def)

definition verdict_fields :: "string list" where
  "verdict_fields = [''stop_reason'', ''success'', ''timed_out'', ''exit_code'', ''error_class'', ''reason_code'']"

lemma verdict_keys:
  "list_all (\<lambda>k. k \<notin> set volatile_fields \<and> k \<noteq> ''recent_events'' \<and> k \<notin> set owner_result_fields) verdict_fields"
  by code_simp

lemma settled_result:
  assumes "snd (settleRunClaim env t reason \<lparr>ti_result = Some r, ti_error = None\<rparr> w) = Inr (Settled_run c)"
    and "\<not> rs_cancel_requested (rw_state w)" and "plain_view r" and "jget r ''stop_reason'' \<noteq> None"
  shows "\<exists>v. hasConsistentResultStatus v \<and> has_text v ''status'' (status_text (terminalRunTaskStatus (result_status_input r))) \<and>
    (\<forall>k\<in>set verdict_fields. jget v k = jget r k)"
proof -
  let ?ti = "\<lparr>ti_result = Some r, ti_error = None\<rparr>"
  obtain draft where draft: "settlement_draft (le_rt env) ?ti reason (at_text t) (rw_state w) = Inr draft"
    using settled_draft[OF assms(1)] by blast
  note d = result_draft[OF draft outcome_of_result[where ti = ?ti, OF _ _ assms(2)], simplified]
  define view where "view = resultView (le_rt env) (at_text t) draft (rs_inputs draft) r"
  have view: "view = runTaskViewFromState (le_rt env) (at_text t) (at_ms t) draft (rs_inputs draft) True"
    by (simp add: settled_view d(1,3) view_def)
  have "text_or [] (jget view ''run_id'') = rs_run_id (rw_state w)"
    using d(2) by (simp add: view_def result_view_fields text_or_def same_run_def)
  from settled_valid[OF assms(1) draft view _ this] obtain v where
    v: "stored_as view v" "assertCurrentRunTaskSnapshot (le_rt env) v None = Inr ()"
    using plain_result[OF assms(3)] by (auto simp: view_def)
  note field = stored_field[OF v(1)]
  have own: "jget v k = jget r k" if "k \<in> set verdict_fields" for k
    using that verdict_keys field[of k] by (simp add: list_all_iff view_def result_view_own)
  have st: "has_text v ''status'' (status_text (terminalRunTaskStatus (result_status_input r)))"
    using field[of "''status''"] by (simp add: has_text_def volatile_fields_def view_def result_view_fields)
  then have "isTerminalView v"
    using is_terminal_simps
    by (cases "terminalRunTaskStatus (result_status_input r)")
      (auto simp: isTerminalView_def status_of_def has_text_def terminal_status_texts_def text_of_def status_text_def
        terminalRunTaskStatus_def split: if_splits)
  moreover have "hasOwnDefined v ''stop_reason''"
    using own[of "''stop_reason''"] assms(4) by (simp add: hasOwnDefined_def verdict_fields_def)
  ultimately have "hasConsistentResultStatus v"
    using v(2) unfolding snapshot_ok_iff terminal_source_valid_def by (simp split: if_splits)
  then show ?thesis using st own by blast
qed

lemma claim_keys:
  "list_all (\<lambda>k. k \<notin> set (head_fields @ budget_fields @ identity_fields @ stop_fields @ usage_fields)) claim_fields"
  by code_simp

lemma plain_run_result:
  assumes "failure_ok (ls_failure (en_lines e))"
  shows "plain_view (run_result x e)"
  using result_absent[OF assms] claim_keys by (simp add: plain_view_def list_all_iff is_object_def run_result_def)

section \<open>Results that agree with the process\<close>

definition coherent_result :: "process_result \<Rightarrow> json \<Rightarrow> bool" where
  "coherent_result r v \<longleftrightarrow>
     (pe_cancelled r \<longrightarrow> pe_stop_reason r = Stop_cancelled) \<and>
     (pe_timed_out r \<and> \<not> pe_cancelled r \<longrightarrow> pe_stop_reason r = Stop_timeout) \<and>
     (jget v ''success'' = Some (JBool True) \<longrightarrow> pe_stop_reason r = Stop_completed)"

lemma stop_text_back: "map_of stop_reason_texts (stop_reason_text s) = Some s"
  by (cases s) (simp_all add: stop_reason_texts_def stop_reason_text_def)

lemma status_text_back: "is_terminal s \<Longrightarrow> map_of terminal_status_texts (status_text s) = Some s"
  by (cases s) (simp_all add: terminal_status_texts_def status_text_def)

lemma result_input:
  assumes "failure_ok (ls_failure (en_lines e))"
  shows "result_status_input (run_result x e) =
    \<lparr>ts_success = run_success x e, ts_timed_out = pe_timed_out (en_process e), ts_stop_reason = pe_stop_reason (en_process e),
     ts_status = Some (run_status_of x e)\<rparr>"
proof -
  have "is_terminal (run_status_of x e)" by (simp add: run_status_of_def)
  then show ?thesis using result_lookup[OF assms, of x]
    by (simp add: result_status_input_def truthy_def stop_text_back status_text_back nullish_def)
qed

lemma consistent_iff_coherent:
  assumes "hasConsistentResultStatus v" and "has_text v ''status'' (status_text st)" and "is_terminal st"
    and "has_text v ''stop_reason'' (stop_reason_text stop)" and "jget v ''success'' = Some (JBool succ)"
    and "jget v ''timed_out'' = Some (JBool timed)"
  shows "(st = Completed \<longrightarrow> succ \<and> stop = Stop_completed) \<and> (st = Failed \<longrightarrow> \<not> succ \<and> \<not> timed) \<and>
    (st = Cancelled \<longrightarrow> \<not> succ \<and> \<not> timed \<and> stop = Stop_cancelled) \<and> (st = Timed_out \<longrightarrow> \<not> succ \<and> timed \<and> stop = Stop_timeout)"
proof -
  have shown: "text_of (jget v ''stop_reason'') = Some (stop_reason_text stop)" using assms(4) by (simp add: has_text_def)
  have status: "status_of v = Some st"
    using assms(2,3) status_text_back[of st] by (simp add: status_of_def has_text_def)
  have flags: "is_true (jget v ''success'') = succ" "is_false (jget v ''success'') = (\<not> succ)"
    "is_true (jget v ''timed_out'') = timed" "is_false (jget v ''timed_out'') = (\<not> timed)"
    using assms(5,6) by (simp_all add: is_true_def is_false_def)
  show ?thesis
    using assms(1) unfolding hasConsistentResultStatus_def shown status flags
    by (cases st) (simp_all add: stop_text_back)
qed

lemma verdicts_agree:
  assumes "st = (if stop = Stop_cancelled \<or> C then Cancelled else if T \<or> stop = Stop_timeout then Timed_out
      else if S then Completed else Failed)"
    and "st = Completed \<longrightarrow> S \<and> stop = Stop_completed" and "st = Cancelled \<longrightarrow> \<not> S \<and> \<not> T \<and> stop = Stop_cancelled"
    and "st = Timed_out \<longrightarrow> \<not> S \<and> T \<and> stop = Stop_timeout"
  shows "(C \<longrightarrow> stop = Stop_cancelled) \<and> (T \<and> \<not> C \<longrightarrow> stop = Stop_timeout) \<and> (S \<longrightarrow> stop = Stop_completed)"
proof (cases "stop = Stop_cancelled \<or> C")
  case True
  then have "st = Cancelled" using assms(1) by simp
  then show ?thesis using assms(3) True by blast
next
  case False
  note outer = this
  show ?thesis
  proof (cases "T \<or> stop = Stop_timeout")
    case True
    then have "st = Timed_out" using assms(1) outer by simp
    then show ?thesis using assms(4) outer by blast
  next
    case False
    then have "S \<Longrightarrow> st = Completed" using assms(1) outer by simp
    then show ?thesis using assms(2) outer False by blast
  qed
qed

text \<open>
  C11: A result whose verdict and stop reason disagree is lost. The process tells its stop reason by the first of spawn error,
  disk, timeout and cancellation, and the run its status by cancellation, timeout and success. When a run was not
  cancelled by its caller and the two differ (out of disk and timed out, aborted after its timeout, or exit code 0 although
  a line of the child was not accepted), no settlement of the run accepts the result.
\<close>

theorem incoherent_result_never_settles:
  assumes "runSubagentCore x fails ew (Inr r) ls = Inr v" and "\<not> coherent_result r v"
    and "\<not> rs_cancel_requested (rw_state w)"
  shows "snd (settleRunClaim env t reason \<lparr>ti_result = Some v, ti_error = None\<rparr> w) \<noteq> Inr (Settled_run c)"
proof
  assume settled: "snd (settleRunClaim env t reason \<lparr>ti_result = Some v, ti_error = None\<rparr> w) = Inr (Settled_run c)"
  obtain final out e where e: "e = ending_of x ew r (on_output_lines x fails ls no_lines) final out"
    "v = run_result x e" "failure_ok (ls_failure (en_lines e))"
    using core_result[OF assms(1)] by (metis sum.inject(2))
  note get = result_lookup[OF e(3), of x, folded e(2)]
  have r: "en_process e = r" by (simp add: e(1) ending_of_def)
  define st where "st = terminalRunTaskStatus (result_status_input v)"
  have st: "st = (if pe_stop_reason r = Stop_cancelled \<or> pe_cancelled r then Cancelled
      else if pe_timed_out r \<or> pe_stop_reason r = Stop_timeout then Timed_out else if run_success x e then Completed else Failed)"
    by (simp add: st_def e(2) result_input[OF e(3)] terminalRunTaskStatus_def r run_status_of_def)
  obtain u where u: "hasConsistentResultStatus u" "has_text u ''status'' (status_text st)"
    "\<forall>k\<in>set verdict_fields. jget u k = jget v k"
    using settled_result[OF settled assms(3)] plain_run_result[OF e(3), of x] get(5) unfolding st_def e(2) by auto
  have "is_terminal st" by (simp add: st)
  moreover have "has_text u ''stop_reason'' (stop_reason_text (pe_stop_reason r))" "jget u ''success'' = Some (JBool (run_success x e))"
    "jget u ''timed_out'' = Some (JBool (pe_timed_out r))"
    using u(3) get(2,4,5) r by (simp_all add: has_text_def verdict_fields_def)
  ultimately have agree: "(st = Completed \<longrightarrow> run_success x e \<and> pe_stop_reason r = Stop_completed) \<and>
     (st = Failed \<longrightarrow> \<not> run_success x e \<and> \<not> pe_timed_out r) \<and>
     (st = Cancelled \<longrightarrow> \<not> run_success x e \<and> \<not> pe_timed_out r \<and> pe_stop_reason r = Stop_cancelled) \<and>
     (st = Timed_out \<longrightarrow> \<not> run_success x e \<and> pe_timed_out r \<and> pe_stop_reason r = Stop_timeout)"
    using consistent_iff_coherent[OF u(1,2)] by blast
  have "coherent_result r v"
    using verdicts_agree[OF st] agree get(2) by (simp add: coherent_result_def)
  then show False using assms(2) by blast
qed

section \<open>A run whose owner refuses a receipt\<close>

definition lost_receipt :: json where
  "lost_receipt = recursive_delegation_receipt None RD_disabled []"

definition lost_parse :: "string \<Rightarrow> json option" where
  "lost_parse l = (if l = ''confirmed''
     then Some (JObj [(''type'', JStr ''subagent007.recursive_delegation_confirmed''), (''receipt'', lost_receipt)]) else None)"

definition lost_runtime :: js_runtime where
  "lost_runtime = \<lparr>rt_num = frame_number, rt_sha256 = id, rt_date = (\<lambda>_. None), rt_json_parse = lost_parse\<rparr>"

definition lost_config :: runner_config where
  "lost_config = run_config\<lparr>pc_runtime := lost_runtime\<rparr>"

definition lost_context :: run_context where
  "lost_context = \<lparr>rc_runtime = lost_runtime, rc_number = (\<lambda>_. None), rc_run_id = ''r'',
     rc_request = \<lparr>rq_prompt = ''p'', rq_cwd = ''/w'', rq_model_class = MC_A, rq_model = ''m'', rq_thinking = TL_low,
       rq_max_output_tokens = None, rq_timeout_ms = None, rq_continuity = Ephemeral, rq_skill = None, rq_system_skill = None,
       rq_scope = None, rq_effect_profile = None, rq_delegation = JStr ''disabled'', rq_requested_delegation = JNull,
       rq_allowed_outputs = None, rq_expected_sha = None, rq_snapshot = None, rq_output_mode = OM_transcript\<rparr>,
     rc_requested = None, rc_resolved = RD_disabled, rc_skill_binding = JNull, rc_tool_bindings = None, rc_scope = None,
     rc_snapshot_receipt = None, rc_system_skill = None, rc_budget = pc_budget run_config, rc_allow_timeout = False,
     rc_skill_path = None, rc_skill_sha = None, rc_inputs_dir = ''/m/r''\<rparr>"

definition lost_stored :: stored_output where
  "lost_stored = \<lparr>so_reference = \<lparr>ref_name = Out_primary, ref_relative_path = ''r.md'', ref_size_bytes = 0,
     ref_content_sha256 = [], ref_output_mode = OM_transcript\<rparr>,
     so_flags = \<lparr>cf_assistant = False, cf_warning = False, cf_error = False\<rparr>\<rparr>"

definition lost_world :: ending_world where
  "lost_world = \<lparr>ew_inspection = Inr (), ew_snapshot_again = Inr None, ew_materialized = None, ew_final_message = Inr None,
     ew_prepared_primary = Inl JsonSyntaxError, ew_prepared_packet = Inl JsonSyntaxError, ew_ownership = None,
     ew_published_primary = Inl JsonSyntaxError, ew_published_packet = Inl JsonSyntaxError, ew_written = Inl JsonSyntaxError,
     ew_finalized = Inr lost_stored, ew_discarded = None\<rparr>"

text \<open>The owner cannot record the receipt of the delegation.\<close>

definition refusal :: js_error where
  "refusal = PlainError ''the run record cannot be written''"

definition refuses :: call_outcomes where
  "refuses made c = (case c of Delegation_confirmed _ \<Rightarrow> Some refusal | _ \<Rightarrow> None)"

definition lost_run :: "(observation \<times> runner_event) list" where
  "lost_run = launch @ map (Pair (seen 1 True)) [Chunk Stdout (''confirmed'' @ [CHR 0x0A]), Next_line Stdout, Line_called,
     Line_done (Some refusal), Pipe_end Stderr, Next_line Stderr, Child_exit, Child_close (Some 0) None, Close_finish, Promise_settles]"

definition lost_end :: "runner \<Rightarrow> bool" where
  "lost_end s \<longleftrightarrow> pr_delivered s = [''confirmed''] \<and>
     (case pr_outcome s of Some (Inr r) \<Rightarrow> pe_exit_code r = Some 0 \<and> \<not> pe_timed_out r \<and> \<not> pe_cancelled r \<and>
        \<not> pe_exhausted r \<and> pe_stop_reason r = Stop_failed | _ \<Rightarrow> False) \<and>
     (case pr_output_error s of Some (PlainError m) \<Rightarrow> m = ''the run record cannot be written'' | _ \<Rightarrow> False)"

lemma lost_run_ends: "(case run_events lost_config lost_run (fresh_runner lost_config) of None \<Rightarrow> False | Some s \<Rightarrow> lost_end s)"
  by code_simp

lemma lost_line: "line_delegation lost_context ''confirmed'' = Some lost_receipt"
  by code_simp

lemma lost_reads:
  "extractSubagentSessionId lost_runtime ''confirmed'' = None" "inputResponseAcceptedFromLine lost_runtime ''confirmed'' = None"
  "line_activation lost_context ''confirmed'' = None" "line_snapshot lost_context ''confirmed'' = None"
  "line_system_skill lost_context ''confirmed'' = None"
  by (simp_all add: extractSubagentSessionId_def split_lines_def session_of_line_def js_trim_def starts_with_def js_space_def
      drop_cr_def inputResponseAcceptedFromLine_def line_activation_def line_snapshot_def line_system_skill_def
      activationReceiptFromLine_def skillSnapshotActivationReceiptFromLine_def systemSkillActivationReceiptFromLine_def
      event_of_line_def has_text_def lost_context_def lost_runtime_def lost_parse_def)

lemma lost_handler:
  "on_output_line lost_context refuses ''confirmed'' no_lines =
     (no_lines\<lparr>ls_delegation := Some lost_receipt, ls_calls := [Transcript_line ''confirmed'', Delegation_confirmed lost_receipt]\<rparr>,
      Some refusal)"
proof -
  have rt: "rc_runtime lost_context = lost_runtime" by (simp add: lost_context_def)
  show ?thesis unfolding on_output_line_def note_session_def rt lost_reads lost_line
    by (simp add: await_call_def and_then_def refuses_def take_activation_def take_snapshot_def take_delegation_def no_lines_def)
qed

lemma lost_fields:
  "rc_scope lost_context = None" "rq_effect_profile (rc_request lost_context) = None" "rq_expected_sha (rc_request lost_context) = None"
  "rq_snapshot (rc_request lost_context) = None" "rc_system_skill lost_context = None"
  "rq_continuity (rc_request lost_context) = Ephemeral" "rq_output_mode (rc_request lost_context) = OM_transcript"
  "ew_final_message lost_world = Inr None" "ew_finalized lost_world = Inr lost_stored"
  by (simp_all add: lost_context_def lost_world_def)

definition lost_ending :: "call_outcomes \<Rightarrow> string list \<Rightarrow> process_result \<Rightarrow> run_ending" where
  "lost_ending fails ls r = ending_of lost_context lost_world r
     (on_output_lines lost_context fails ls no_lines) None (lost_stored, None)"

lemma lost_ending_fields:
  "en_process (lost_ending fails ls r) = r" "en_packet (lost_ending fails ls r) = None"
  "en_scope_error (lost_ending fails ls r) = None" "en_strict (lost_ending fails ls r) = None" "en_final (lost_ending fails ls r) = None"
  "en_output (lost_ending fails ls r) = lost_stored"
  "en_lines (lost_ending fails ls r) = on_output_lines lost_context fails ls no_lines"
  by (simp_all add: lost_ending_def ending_of_def terminalEffectScopeError_def strictResearchOutput_def lost_fields)

lemma lost_refused:
  "ls_delegation (on_output_lines lost_context refuses [''confirmed''] no_lines) = Some lost_receipt"
  by (simp add: lost_handler)

lemma lost_core:
  "runSubagentCore lost_context fails lost_world (Inr r) ls = Inr (run_result lost_context (lost_ending fails ls r))"
proof -
  have none: "strictResearchOutput lost_context lost_world l = None" for l
    by (simp add: strictResearchOutput_def lost_fields)
  have "terminalProjectionIsValid (projection_of lost_context (lost_ending fails ls r))"
    by (simp add: terminalProjectionIsValid_def projection_of_def exactOutputRoles_def output_references_def first_of_def
        controllerTerminalReceipt_def lost_ending_fields lost_stored_def lost_fields Let_def)
  then show ?thesis
    by (simp add: runSubagentCore_def finish_run_subagent_def none publish_outputs_def present_def lost_fields
        lost_ending_def Let_def)
qed

lemma lost_success:
  assumes "pe_exit_code r = Some 0" and "\<not> pe_timed_out r" and "\<not> pe_cancelled r" and "\<not> pe_exhausted r"
  defines "e \<equiv> lost_ending refuses [''confirmed''] r"
  shows "run_success lost_context e" and "run_status_of lost_context e = Completed"
proof -
  note fields = lost_ending_fields[of refuses "[''confirmed'']" r, folded e_def] lost_fields
  have d: "ls_delegation (en_lines e) = Some lost_receipt" by (simp only: fields lost_refused)
  show "run_success lost_context e"
    using assms(1-4) by (simp add: run_success_def processSuccess_def fields(1,3-6) lost_fields d activationConfirmed_def
        activationRequired_def present_def skillSnapshotActivationConfirmed_def recursiveDelegationConfirmed_def
        systemSkillActivationConfirmed_def controllerCompletionConfirmed_def missingFinalOutput_def)
  then show "run_status_of lost_context e = Completed"
    using assms(1-4) by (simp add: run_status_of_def fields(1))
qed

lemma lost_result:
  assumes "pe_exit_code r = Some 0" and "\<not> pe_timed_out r" and "\<not> pe_cancelled r" and "\<not> pe_exhausted r"
  defines "v \<equiv> run_result lost_context (lost_ending refuses [''confirmed''] r)"
  shows "jget v ''success'' = Some (JBool True)" "has_text v ''status'' ''completed''"
    "has_text v ''stop_reason'' (stop_reason_text (pe_stop_reason r))"
proof -
  let ?e = "lost_ending refuses [''confirmed''] r"
  have "failure_ok (ls_failure (en_lines ?e))"
    using confirmed_run[of lost_context "[''confirmed'']" refuses]
    unfolding lost_ending_fields(7) by (simp add: confirmed_from_def del: on_output_lines.simps)
  note get = result_lookup[OF this, of lost_context, folded v_def]
  show "jget v ''success'' = Some (JBool True)" "has_text v ''status'' ''completed''"
    "has_text v ''stop_reason'' (stop_reason_text (pe_stop_reason r))"
    using get(1,2,5) lost_success[OF assms(1-4)] by (simp_all add: has_text_def status_text_def lost_ending_fields(1))
qed

lemma lost_run_reached:
  obtains s r where "runner_reaches lost_config s" "pr_delivered s = [''confirmed'']" "pr_outcome s = Some (Inr r)"
    "pr_output_error s = Some refusal" "pe_exit_code r = Some 0" "\<not> pe_timed_out r" "\<not> pe_cancelled r" "\<not> pe_exhausted r"
    "pe_stop_reason r = Stop_failed"
proof -
  obtain s where s: "run_events lost_config lost_run (fresh_runner lost_config) = Some s" "lost_end s"
    using lost_run_ends by (auto split: option.splits)
  have "runner_reaches lost_config s" using run_events_reaches[OF runner_reaches.start s(1)] .
  moreover obtain r where "pr_outcome s = Some (Inr r)" "pe_exit_code r = Some 0" "\<not> pe_timed_out r" "\<not> pe_cancelled r"
    "\<not> pe_exhausted r" "pe_stop_reason r = Stop_failed"
    using s(2) unfolding lost_end_def by (auto split: option.splits sum.splits)
  moreover have "pr_delivered s = [''confirmed'']" "pr_output_error s = Some refusal"
    using s(2) unfolding lost_end_def refusal_def by (auto split: option.splits js_error.splits)
  ultimately show thesis using that by blast
qed


definition failed_process :: process_result where
  "failed_process = \<lparr>pe_exit_code = Some 0, pe_stop_signal = None, pe_timed_out = False, pe_cancelled = False,
     pe_exhausted = False, pe_stop_reason = Stop_failed, pe_duration = 1\<rparr>"

theorem incoherent_result_never_settles_witness:
  "snd (settleRunClaim demo_env demo_moment ''done''
     \<lparr>ti_result = Some (run_result lost_context (lost_ending refuses [''confirmed''] failed_process)), ti_error = None\<rparr>
     (demo_world (fresh_state (demo_fresh ''run'')) [])) \<noteq> Inr (Settled_run JNull)"
proof (rule incoherent_result_never_settles[OF lost_core])
  show "\<not> coherent_result failed_process (run_result lost_context (lost_ending refuses [''confirmed''] failed_process))"
    using lost_result(1)[of failed_process] by (simp add: coherent_result_def failed_process_def)
  show "\<not> rs_cancel_requested (rw_state (demo_world (fresh_state (demo_fresh ''run'')) []))"
    by (simp add: demo_world_def fresh_fields)
qed



theorem faithful_projection_is_accepted_witness:
  "terminalProjectionIsValid (projection_of lost_context
     (ending_of lost_context lost_world \<lparr>pe_exit_code = None, pe_stop_signal = Some ''SIGTERM'', pe_timed_out = True,
        pe_cancelled = False, pe_exhausted = False, pe_stop_reason = Stop_timeout, pe_duration = 1\<rparr>
        no_lines None (lost_stored, None)))"
proof -
  have job: "completed_job demo_os ''/w'' b Bounded_Controller.demo_fs = None" for b
    by (auto simp: completed_job_def bind_result_Inr_iff demo_os_def fail_def split: sum.splits if_splits)
  have sha: "\<forall>t. sha256_hex (co_sha256 demo_os t)"
  proof -
    have "sha256_hex (replicate 64 CHR ''a'')" by code_simp
    then show ?thesis by (simp add: demo_os_def)
  qed
  have "ew_materialized lost_world = snd (materializeResearchControllerCompletion demo_os ''/w'' ''/s'' None b
      \<lparr>cw_fs = Bounded_Controller.demo_fs, cw_calls = []\<rparr>)" for b
    by (simp add: materializeResearchControllerCompletion_def job lost_world_def)
  from faithful_projection_is_accepted[OF this sha, of lost_context no_lines None "(lost_stored, None)"]
  show ?thesis
    by (simp add: lost_world_def publishes_def paths_differ_def primary_named_def lost_stored_def publish_outputs_def
        strictResearchOutput_def lost_context_def present_def)
qed

end
