(* ===== verification/Spec2Isabelle.thy ===== *)
theory Spec2Isabelle
  imports Run_Lifecycle Run_Events Claim_Lock Client_Admission Input_Mailbox Terminal_Projection
    Research_Mediator Recursive_Control Child_Lease Effect_Scope Tool_Profile Run_Stream Run_Owner
    Session_Commit Request_Validation Stuck_Runs Bounded_Controller Supervision_Runs Lost_Results
begin

text \<open>
  Root of the development (its header grows with the library).
\<close>

end
